(* ===== verification/Prelude.thy ===== *)
theory Prelude
  imports Main "HOL-Library.Word"
begin

text \<open>
  Shared vocabulary of the development: the status codes and the result type of the
  fallible operations, the wrap-around of the unsigned machine integers, and the generic
  lemmas on naturals, lists and maps that several components use.

  Unsigned integers are natural numbers; wherever the code computes at a fixed width the
  wrap-around is written out with \<open>u32\<close>, \<open>u32_sub\<close>, \<open>u64\<close> and \<open>u64_sub\<close>.
\<close>

unbundle bit_operations_syntax

named_theorems width_simps \<open>removing a wrap-around whose operand is in range\<close>
named_theorems res_simps \<open>unfolding of the result combinators\<close>

section \<open>Status codes and results\<close>

text \<open>The Zircon status codes the sources name; \<open>ZX_ERR_OTHER\<close> stands for the remaining ones
  that a device or a library may hand back.\<close>

datatype status =
    ZX_ERR_NOT_SUPPORTED
  | ZX_ERR_NO_RESOURCES
  | ZX_ERR_NO_MEMORY
  | ZX_ERR_INVALID_ARGS
  | ZX_ERR_BAD_HANDLE
  | ZX_ERR_WRONG_TYPE
  | ZX_ERR_OUT_OF_RANGE
  | ZX_ERR_BAD_STATE
  | ZX_ERR_NOT_FOUND
  | ZX_ERR_ALREADY_EXISTS
  | ZX_ERR_ALREADY_BOUND
  | ZX_ERR_UNAVAILABLE
  | ZX_ERR_NO_SPACE
  | ZX_ERR_FILE_BIG
  | ZX_ERR_NOT_FILE
  | ZX_ERR_NOT_DIR
  | ZX_ERR_NOT_EMPTY
  | ZX_ERR_IO
  | ZX_ERR_IO_REFUSED
  | ZX_ERR_IO_DATA_INTEGRITY
  | ZX_ERR_IO_INVALID
  | ZX_ERR_OTHER nat

text \<open>
  The result of an operation: a value, an error status, or the abort of the process by a
  failed \<open>ZX_ASSERT\<close> (or a checked cast).
\<close>

datatype 'a res = Ok 'a | Err status | Panic

fun res_bind :: "'a res \<Rightarrow> ('a \<Rightarrow> 'b res) \<Rightarrow> 'b res" where
  "res_bind (Ok x) f = f x"
| "res_bind (Err e) f = Err e"
| "res_bind Panic f = Panic"

definition zx_assert :: "bool \<Rightarrow> 'a res \<Rightarrow> 'a res" where
  "zx_assert b r = (if b then r else Panic)"

fun is_ok :: "'a res \<Rightarrow> bool" where
  "is_ok (Ok _) = True"
| "is_ok _ = False"

lemma res_bind_Ok_iff [simp]:
  "res_bind m f = Ok y \<longleftrightarrow> (\<exists>x. m = Ok x \<and> f x = Ok y)"
  by (cases m) auto

lemma zx_assert_Ok_iff [simp]: "zx_assert b r = Ok y \<longleftrightarrow> b \<and> r = Ok y"
  by (simp add: zx_assert_def)

lemma zx_assert_True [simp]: "zx_assert True r = r"
  by (simp add: zx_assert_def)

lemma is_ok_iff: "is_ok r \<longleftrightarrow> (\<exists>x. r = Ok x)"
  by (cases r) auto

section \<open>Machine integers\<close>

definition u32 :: "nat \<Rightarrow> nat" where
  "u32 n = n mod 4294967296"

definition u32_sub :: "nat \<Rightarrow> nat \<Rightarrow> nat" where
  "u32_sub a b = (if b \<le> a then u32 (a - b) else u32 (4294967296 - u32 (b - a)))"

definition u64 :: "nat \<Rightarrow> nat" where
  "u64 n = n mod 18446744073709551616"

definition u64_sub :: "nat \<Rightarrow> nat \<Rightarrow> nat" where
  "u64_sub a b = (if b \<le> a then u64 (a - b) else u64 (18446744073709551616 - u64 (b - a)))"

lemma u32_id [width_simps]: "n < 4294967296 \<Longrightarrow> u32 n = n"
  by (simp add: u32_def)

lemma u32_less [simp]: "u32 n < 4294967296"
  by (simp add: u32_def)

lemma u32_le: "u32 n \<le> n"
  by (simp add: u32_def)

lemma u64_id [width_simps]: "n < 18446744073709551616 \<Longrightarrow> u64 n = n"
  by (simp add: u64_def)

lemma u64_less [simp]: "u64 n < 18446744073709551616"
  by (simp add: u64_def)

lemma u32_sub_id [width_simps]: "b \<le> a \<Longrightarrow> a < 4294967296 \<Longrightarrow> u32_sub a b = a - b"
  by (simp add: u32_sub_def u32_def)

lemma u64_sub_id [width_simps]:
  "b \<le> a \<Longrightarrow> a < 18446744073709551616 \<Longrightarrow> u64_sub a b = a - b"
  by (simp add: u64_sub_def u64_def)

lemma u32_sub_less [simp]: "u32_sub a b < 4294967296"
  by (simp add: u32_sub_def)

lemma u32_sub_self [simp]: "u32_sub a a = 0"
  by (simp add: u32_sub_def u32_def)

text \<open>\<open>safemath\<close> addition and subtraction: no value on overflow.\<close>

definition check_add64 :: "nat \<Rightarrow> nat \<Rightarrow> nat option" where
  "check_add64 a b = (if a + b < 18446744073709551616 then Some (a + b) else None)"

definition check_sub64 :: "nat \<Rightarrow> nat \<Rightarrow> nat option" where
  "check_sub64 a b = (if b \<le> a then Some (a - b) else None)"

text \<open>\<open>fbl::round_up\<close> and \<open>fbl::round_down\<close>: to the next multiple above or below.\<close>

definition round_up :: "nat \<Rightarrow> nat \<Rightarrow> nat" where
  "round_up v m = ((v + (m - 1)) div m) * m"

definition round_down :: "nat \<Rightarrow> nat \<Rightarrow> nat" where
  "round_down v m = (v div m) * m"

lemma round_up_ge: "0 < m \<Longrightarrow> v \<le> round_up v m"
proof -
  assume m: "0 < m"
  have "(v + (m - 1)) mod m < m" using m by simp
  moreover have "(v + (m - 1)) div m * m + (v + (m - 1)) mod m = v + (m - 1)" by simp
  ultimately show ?thesis using m unfolding round_up_def by linarith
qed

lemma round_up_less: "0 < m \<Longrightarrow> round_up v m < v + m"
proof -
  assume m: "0 < m"
  have "(v + (m - 1)) div m * m \<le> v + (m - 1)" by simp
  then show ?thesis using m unfolding round_up_def by linarith
qed

lemma round_up_dvd [simp]: "m dvd round_up v m"
  by (simp add: round_up_def)

lemma round_down_le: "round_down v m \<le> v"
  by (simp add: round_down_def)

lemma round_down_gt: "0 < m \<Longrightarrow> v < round_down v m + m"
proof -
  assume m: "0 < m"
  have "v mod m < m" using m by simp
  moreover have "v div m * m + v mod m = v" by simp
  ultimately show ?thesis unfolding round_down_def by linarith
qed

text \<open>Rounding a quotient up: \<open>(n + k - 1) / k\<close>.\<close>

definition ceil_div :: "nat \<Rightarrow> nat \<Rightarrow> nat" where
  "ceil_div n k = (n + k - 1) div k"

lemma ceil_div_le_iff: "0 < k \<Longrightarrow> ceil_div n k \<le> m \<longleftrightarrow> n \<le> m * k"
proof -
  assume k: "0 < k"
  have "ceil_div n k \<le> m \<longleftrightarrow> (n + k - 1) div k < Suc m" by (auto simp: ceil_div_def)
  also have "\<dots> \<longleftrightarrow> n + k - 1 < Suc m * k" using k by (rule div_less_iff_less_mult)
  also have "\<dots> \<longleftrightarrow> n \<le> m * k" using k by (auto simp: algebra_simps)
  finally show ?thesis .
qed

lemma div_interval_eq:
  "0 < (k::nat) \<Longrightarrow> (\<lambda>x. x div k) ` {a..b} = (if a \<le> b then {a div k..b div k} else {})"
proof -
  assume k: "0 < k"
  have "q \<in> (\<lambda>x. x div k) ` {a..b}" if ab: "a \<le> b" and q: "a div k \<le> q" "q \<le> b div k" for q
  proof (rule image_eqI [where x = "max a (q * k)"])
    have "q * k \<le> b" using q(2) by (metis div_times_less_eq_dividend le_trans mult_le_mono1)
    with ab show "max a (q * k) \<in> {a..b}" by simp
    show "q = max a (q * k) div k"
    proof (cases "a \<le> q * k")
      case True then show ?thesis using k by (simp add: max_def)
    next
      case False
      then have "q \<le> a div k" using k by (simp add: less_eq_div_iff_mult_less_eq)
      with q(1) False show ?thesis by (simp add: max_def)
    qed
  qed
  then show ?thesis by (auto simp: div_le_mono)
qed

section \<open>Bits\<close>

lemma or_and_self [simp]: "(a OR b) AND b = b" for a b :: nat
  by (rule bit_eqI) (auto simp: bit_simps)

lemma and_self_or [simp]: "b AND (a OR b) = b" for a b :: nat
  by (rule bit_eqI) (auto simp: bit_simps)

section \<open>Lists\<close>

text \<open>Writing a segment of bytes over a list, as \<open>memcpy\<close> into a buffer does.\<close>

definition splice :: "nat \<Rightarrow> 'a list \<Rightarrow> 'a list \<Rightarrow> 'a list" where
  "splice off src dst = take off dst @ src @ drop (off + length src) dst"

lemma length_splice [simp]:
  "off + length src \<le> length dst \<Longrightarrow> length (splice off src dst) = length dst"
  by (simp add: splice_def)

lemma nth_splice:
  assumes "off + length src \<le> length dst" "i < length dst"
  shows "splice off src dst ! i
    = (if off \<le> i \<and> i < off + length src then src ! (i - off) else dst ! i)"
  using assms by (auto simp: splice_def nth_append min_def)

end
