(* ===== verification/Format.thy ===== *)
theory Format
  imports Prelude
begin

text \<open>
  The on-disk format, \<open>format.h\<close>: the constants, the superblock, inode and directory entry
  structures, and the functions that read the layout out of a superblock. Fields that hold a
  \<open>uint32_t\<close> or \<open>uint64_t\<close> are naturals; \<open>superblock_wf\<close> says that they fit.
\<close>

section \<open>Constants\<close>

definition kMinfsMagic0 :: nat where "kMinfsMagic0 = 0x002153466e694d21"
definition kMinfsMagic1 :: nat where "kMinfsMagic1 = 0x385000d3d3d3d304"
definition kMinfsCurrentMajorVersion :: nat where "kMinfsCurrentMajorVersion = 9"
definition kMinfsCurrentMinorVersion :: nat where "kMinfsCurrentMinorVersion = 2"
definition kMinfsRootIno :: nat where "kMinfsRootIno = 1"
definition kMinfsFlagClean :: nat where "kMinfsFlagClean = 1"
definition kMinfsFlagFVM :: nat where "kMinfsFlagFVM = 2"
definition kMinfsBlockSize :: nat where "kMinfsBlockSize = 8192"
definition kMinfsBlockBits :: nat where "kMinfsBlockBits = kMinfsBlockSize * 8"
definition kMinfsInodeSize :: nat where "kMinfsInodeSize = 256"
definition kMinfsInodesPerBlock :: nat where
  "kMinfsInodesPerBlock = kMinfsBlockSize div kMinfsInodeSize"
definition kMinfsDirect :: nat where "kMinfsDirect = 16"
definition kMinfsIndirect :: nat where "kMinfsIndirect = 31"
definition kMinfsDoublyIndirect :: nat where "kMinfsDoublyIndirect = 1"
definition kMinfsDirectPerIndirect :: nat where "kMinfsDirectPerIndirect = kMinfsBlockSize div 4"
definition kMinfsDirectPerDindirect :: nat where
  "kMinfsDirectPerDindirect = kMinfsDirectPerIndirect * kMinfsDirectPerIndirect"
definition kMinfsMaxFileBlock :: nat where
  "kMinfsMaxFileBlock = 4294967295 div kMinfsBlockSize - 1"
definition kMinfsMaxFileSize :: nat where
  "kMinfsMaxFileSize = kMinfsMaxFileBlock * kMinfsBlockSize"
definition kMinfsMinimumSlices :: nat where "kMinfsMinimumSlices = 7"
definition kMinfsDefaultInodeCount :: nat where "kMinfsDefaultInodeCount = 4096"
definition kMinfsTypeFile :: nat where "kMinfsTypeFile = 8"
definition kMinfsTypeDir :: nat where "kMinfsTypeDir = 4"
definition kSuperblockBlocks :: nat where "kSuperblockBlocks = 1"
definition kBackupSuperblockBlocks :: nat where "kBackupSuperblockBlocks = 1"
definition kSuperblockStart :: nat where "kSuperblockStart = 0"
definition kNonFvmSuperblockBackup :: nat where "kNonFvmSuperblockBackup = 7"
definition kFvmSuperblockBackup :: nat where "kFvmSuperblockBackup = 0x40000"
definition kFVMBlockInodeBmStart :: nat where "kFVMBlockInodeBmStart = 0x10000"
definition kFVMBlockDataBmStart :: nat where "kFVMBlockDataBmStart = 0x20000"
definition kFVMBlockInodeStart :: nat where "kFVMBlockInodeStart = 0x30000"
definition kFVMBlockJournalStart :: nat where
  "kFVMBlockJournalStart = kFvmSuperblockBackup + kBackupSuperblockBlocks"
definition kFVMBlockDataStart :: nat where "kFVMBlockDataStart = 0x50000"

lemmas format_consts =
  kMinfsMagic0_def kMinfsMagic1_def kMinfsCurrentMajorVersion_def kMinfsCurrentMinorVersion_def
  kMinfsRootIno_def kMinfsFlagClean_def kMinfsFlagFVM_def kMinfsBlockSize_def kMinfsBlockBits_def
  kMinfsInodeSize_def kMinfsInodesPerBlock_def kMinfsDirect_def kMinfsIndirect_def
  kMinfsDoublyIndirect_def kMinfsDirectPerIndirect_def kMinfsDirectPerDindirect_def
  kMinfsMaxFileBlock_def kMinfsMaxFileSize_def kMinfsTypeFile_def kMinfsTypeDir_def
  kSuperblockBlocks_def kBackupSuperblockBlocks_def kSuperblockStart_def
  kNonFvmSuperblockBackup_def kFvmSuperblockBackup_def kFVMBlockInodeBmStart_def
  kFVMBlockDataBmStart_def kFVMBlockInodeStart_def kFVMBlockJournalStart_def
  kFVMBlockDataStart_def kMinfsMinimumSlices_def kMinfsDefaultInodeCount_def

definition MinfsMagic :: "nat \<Rightarrow> nat" where
  "MinfsMagic T = (0xAA6f6e00 OR T)"

definition kMinfsMagicDir :: nat where "kMinfsMagicDir = MinfsMagic kMinfsTypeDir"
definition kMinfsMagicFile :: nat where "kMinfsMagicFile = MinfsMagic kMinfsTypeFile"

definition MinfsMagicType :: "nat \<Rightarrow> nat" where
  "MinfsMagicType n = (n AND 0xFF)"

definition kMinfsMagicPurged :: nat where "kMinfsMagicPurged = 0xdeaddead"

lemma magic_values [simp]:
  "MinfsMagicType kMinfsMagicDir = kMinfsTypeDir"
  "MinfsMagicType kMinfsMagicFile = kMinfsTypeFile"
  "kMinfsMagicDir \<noteq> kMinfsMagicFile"
  by (simp_all add: MinfsMagicType_def kMinfsMagicDir_def kMinfsMagicFile_def MinfsMagic_def
      format_consts)

section \<open>The superblock\<close>

record superblock =
  magic0 :: nat
  magic1 :: nat
  major_version :: nat
  deprecated2 :: nat
  checksum :: nat
  generation_count :: nat
  flags :: nat
  block_size :: nat
  inode_size :: nat
  block_count :: nat
  inode_count :: nat
  alloc_block_count :: nat
  alloc_inode_count :: nat
  ibm_block :: nat
  abm_block :: nat
  ino_block :: nat
  integrity_start_block :: nat
  dat_block :: nat
  slice_size :: nat
  deprecated1 :: nat
  ibm_slices :: nat
  abm_slices :: nat
  ino_slices :: nat
  integrity_slices :: nat
  dat_slices :: nat
  unlinked_head :: nat
  unlinked_tail :: nat
  oldest_minor_version :: nat
  reserved :: "nat list"

text \<open>Every field the layout arithmetic reads fits its 32 bits.\<close>

definition superblock_wf :: "superblock \<Rightarrow> bool" where
  "superblock_wf info \<longleftrightarrow>
     (\<forall>f \<in> {checksum, generation_count, flags, block_size, inode_size, block_count, inode_count,
        alloc_block_count, alloc_inode_count, ibm_block, abm_block, ino_block,
        integrity_start_block, dat_block, slice_size, ibm_slices, abm_slices, ino_slices,
        integrity_slices, dat_slices, unlinked_head, unlinked_tail}. f info < 4294967296)"

text \<open>\<open>Superblock::BlockSize()\<close> asserts that the block size is the supported one.\<close>

definition BlockSize :: "superblock \<Rightarrow> nat res" where
  "BlockSize info = zx_assert (block_size info = kMinfsBlockSize) (Ok (block_size info))"

definition GetFlagFvm :: "superblock \<Rightarrow> bool" where
  "GetFlagFvm info \<longleftrightarrow> (flags info AND kMinfsFlagFVM) = kMinfsFlagFVM"

text \<open>The FVM flag is a single bit: testing it against zero or against itself is the same.\<close>

lemma fvm_flag_iff: "(f AND kMinfsFlagFVM) \<noteq> 0 \<longleftrightarrow> (f AND kMinfsFlagFVM) = kMinfsFlagFVM"
proof -
  have "f AND 2 = of_bool (odd f \<and> odd (2::nat)) + 2 * ((f div 2) AND (2 div 2))"
    by (rule and_rec)
  also have "\<dots> = 2 * ((f div 2) mod 2)" by (simp add: and_one_eq)
  finally show ?thesis unfolding kMinfsFlagFVM_def by auto
qed

lemma kMinfsFlagFVM_nz: "kMinfsFlagFVM \<noteq> 0"
  by (simp add: kMinfsFlagFVM_def)

lemma fvm_flag_pos: "0 < (f AND kMinfsFlagFVM) \<longleftrightarrow> (f AND kMinfsFlagFVM) = kMinfsFlagFVM"
  using fvm_flag_iff [of f] by simp

definition InodeBitmapStartBlock :: "superblock \<Rightarrow> nat" where
  "InodeBitmapStartBlock info =
     (if \<not> GetFlagFvm info then ibm_block info else kFVMBlockInodeBmStart)"

definition DataBitmapStartBlock :: "superblock \<Rightarrow> nat" where
  "DataBitmapStartBlock info =
     (if \<not> GetFlagFvm info then abm_block info else kFVMBlockDataBmStart)"

definition InodeTableStartBlock :: "superblock \<Rightarrow> nat" where
  "InodeTableStartBlock info =
     (if \<not> GetFlagFvm info then ino_block info else kFVMBlockInodeStart)"

definition DataStartBlock :: "superblock \<Rightarrow> nat" where
  "DataStartBlock info = (if \<not> GetFlagFvm info then dat_block info else kFVMBlockDataStart)"

definition BackupSuperblockStart :: "superblock \<Rightarrow> nat" where
  "BackupSuperblockStart info =
     (if \<not> GetFlagFvm info then kNonFvmSuperblockBackup else kFvmSuperblockBackup)"

definition SetMinfsFlagFvm :: "superblock \<Rightarrow> superblock" where
  "SetMinfsFlagFvm info = info\<lparr>flags := (flags info OR kMinfsFlagFVM)\<rparr>"

definition blocks_per_slice :: "superblock \<Rightarrow> nat" where
  "blocks_per_slice info = u32 (slice_size info div kMinfsBlockSize)"

definition InodeBitmapBlocks :: "superblock \<Rightarrow> nat" where
  "InodeBitmapBlocks info =
     (if (flags info AND kMinfsFlagFVM) = kMinfsFlagFVM
      then u32 (ibm_slices info * blocks_per_slice info)
      else u32_sub (abm_block info) (ibm_block info))"

definition BlockBitmapBlocks :: "superblock \<Rightarrow> nat" where
  "BlockBitmapBlocks info =
     (if (flags info AND kMinfsFlagFVM) = kMinfsFlagFVM
      then u32 (abm_slices info * blocks_per_slice info)
      else u32_sub (ino_block info) (abm_block info))"

definition InodeBlocks :: "superblock \<Rightarrow> nat" where
  "InodeBlocks info =
     (if (flags info AND kMinfsFlagFVM) = kMinfsFlagFVM
      then u32 (ino_slices info * blocks_per_slice info)
      else u32_sub (integrity_start_block info) (ino_block info))"

definition JournalStartBlock :: "superblock \<Rightarrow> nat" where
  "JournalStartBlock info =
     (if (flags info AND kMinfsFlagFVM) = kMinfsFlagFVM then kFVMBlockJournalStart
      else u32 (integrity_start_block info + kBackupSuperblockBlocks))"

definition JournalBlocks :: "superblock \<Rightarrow> nat" where
  "JournalBlocks info =
     (if (flags info AND kMinfsFlagFVM) = kMinfsFlagFVM
      then u32_sub (u32 (integrity_slices info * blocks_per_slice info)) kBackupSuperblockBlocks
      else u32_sub (u32_sub (dat_block info) (integrity_start_block info))
             kBackupSuperblockBlocks)"

definition DataBlocks :: "superblock \<Rightarrow> nat" where
  "DataBlocks info =
     (if (flags info AND kMinfsFlagFVM) = kMinfsFlagFVM
      then u32 (dat_slices info * blocks_per_slice info)
      else block_count info)"

definition NonDataBlocks :: "superblock \<Rightarrow> nat" where
  "NonDataBlocks info =
     u64 (InodeBitmapBlocks info + BlockBitmapBlocks info + InodeBlocks info
          + JournalBlocks info)"

section \<open>The inode\<close>

record inode =
  i_magic :: nat
  i_size :: nat
  i_block_count :: nat
  i_link_count :: nat
  i_create_time :: nat
  i_modify_time :: nat
  i_seq_num :: nat
  i_gen_num :: nat
  i_dirent_count :: nat
  i_last_inode :: nat
  i_next_inode :: nat
  i_rsvd :: "nat list"
  dnum :: "nat list"
  inum :: "nat list"
  dinum :: "nat list"

text \<open>The pointer arrays have the lengths of the C structure.\<close>

definition inode_wf :: "inode \<Rightarrow> bool" where
  "inode_wf i \<longleftrightarrow> length (dnum i) = kMinfsDirect \<and> length (inum i) = kMinfsIndirect
     \<and> length (dinum i) = kMinfsDoublyIndirect"

definition zero_inode :: inode where
  "zero_inode = \<lparr>i_magic = 0, i_size = 0, i_block_count = 0, i_link_count = 0,
     i_create_time = 0, i_modify_time = 0, i_seq_num = 0, i_gen_num = 0, i_dirent_count = 0,
     i_last_inode = 0, i_next_inode = 0, i_rsvd = replicate 3 0,
     dnum = replicate kMinfsDirect 0, inum = replicate kMinfsIndirect 0,
     dinum = replicate kMinfsDoublyIndirect 0\<rparr>"

lemma inode_wf_zero [simp]: "inode_wf zero_inode"
  by (simp add: inode_wf_def zero_inode_def)

section \<open>Directory entries\<close>

text \<open>
  \<open>sizeof(Dirent)\<close> is 12: two 32-bit words and two bytes, padded to the alignment of 4; the
  name starts right after the two bytes, at offset 10.
\<close>

record dirent =
  de_ino :: nat
  de_reclen :: nat
  de_namelen :: nat
  de_type :: nat

definition kMinfsDirentAlignment :: nat where "kMinfsDirentAlignment = 4"
definition kMinfsDirentAlignmentMask :: nat where
  "kMinfsDirentAlignmentMask = kMinfsDirentAlignment - 1"
definition kMinfsDirentSize :: nat where "kMinfsDirentSize = 12"

definition DirentSize :: "nat \<Rightarrow> nat" where
  "DirentSize namelen = u32 (kMinfsDirentSize + round_up namelen kMinfsDirentAlignment)"

definition kMinfsMaxNameSize :: nat where "kMinfsMaxNameSize = 255"
definition kMinfsMaxDirentSize :: nat where "kMinfsMaxDirentSize = DirentSize kMinfsMaxNameSize"
definition kMinfsMaxDirectorySize :: nat where
  "kMinfsMaxDirectorySize = round_down (2 ^ 20 - 1) kMinfsDirentAlignment"
definition kMinfsReclenMask :: nat where "kMinfsReclenMask = 0x0FFFFFFF"
definition kMinfsReclenLast :: nat where "kMinfsReclenLast = 0x80000000"

lemmas dirent_consts =
  kMinfsDirentAlignment_def kMinfsDirentAlignmentMask_def kMinfsDirentSize_def
  kMinfsMaxNameSize_def kMinfsReclenMask_def kMinfsReclenLast_def

definition DirentReservedSize :: "dirent \<Rightarrow> nat \<Rightarrow> nat" where
  "DirentReservedSize de off =
     (if (de_reclen de AND kMinfsReclenLast) \<noteq> 0 then u32_sub kMinfsMaxDirectorySize (u32 off)
      else (de_reclen de AND kMinfsReclenMask))"

lemma kMinfsMaxDirectorySize_eq: "kMinfsMaxDirectorySize = 1048572"
  by (simp add: kMinfsMaxDirectorySize_def round_down_def dirent_consts)

lemma kMinfsMaxDirentSize_eq: "kMinfsMaxDirentSize = 268"
  by (simp add: kMinfsMaxDirentSize_def DirentSize_def round_up_def dirent_consts u32_def)

text \<open>A name and its header fit the record that \<open>DirentSize\<close> computes, in aligned units.\<close>

lemma DirentSize_eq:
  "namelen < 4294967276 \<Longrightarrow> DirentSize namelen = 12 + (namelen + 3) div 4 * 4"
  by (simp add: DirentSize_def round_up_def dirent_consts u32_def)

lemma DirentSize_fits:
  "namelen \<le> kMinfsMaxNameSize \<Longrightarrow>
     10 + namelen \<le> DirentSize namelen \<and> DirentSize namelen \<le> kMinfsMaxDirentSize
     \<and> 4 dvd DirentSize namelen"
  by (auto simp: DirentSize_eq kMinfsMaxDirentSize_eq kMinfsMaxNameSize_def)

end
