(* ===== verification/Limits.thy ===== *)
theory Limits
  imports Format
begin

text \<open>
  \<open>transaction_limits.h\<close> and \<open>transaction_limits.cc\<close>: how many blocks one write needs, and the
  sizes of transactions, journal entries and the integrity section that follow from it.
  \<open>touched_blocks\<close> is the abstract specification of the count: the data, indirect and doubly
  indirect blocks a byte range passes through.
\<close>

definition GetBlockBitmapBlocks :: "superblock \<Rightarrow> nat res" where
  "GetBlockBitmapBlocks info =
     (if (flags info AND kMinfsFlagFVM) \<noteq> 0
      then res_bind (BlockSize info) (\<lambda>bs.
             let kBlocksPerSlice = u32 (slice_size info div bs)
             in Ok (u32 (abm_slices info * kBlocksPerSlice)))
      else Ok (u32_sub (ino_block info) (abm_block info)))"

definition GetRequiredBlockCount :: "nat \<Rightarrow> nat \<Rightarrow> nat \<Rightarrow> nat res" where
  "GetRequiredBlockCount offset len bs =
    (if bs \<noteq> kMinfsBlockSize then Err ZX_ERR_INVALID_ARGS
     else if len = 0 then Ok 0
     else
       let first_direct = u32 (offset div bs);
           last_direct = u32 (u64_sub (u64 (offset + len)) 1 div bs);
           reserve_blocks = u32 (u32_sub last_direct first_direct + 1)
       in if last_direct < kMinfsDirect then Ok reserve_blocks
       else
         let first_direct = max first_direct kMinfsDirect - kMinfsDirect;
             last_direct = last_direct - kMinfsDirect;
             first_indirect = first_direct div kMinfsDirectPerIndirect;
             last_indirect = last_direct div kMinfsDirectPerIndirect;
             reserve_blocks = u32 (reserve_blocks + u32_sub last_indirect first_indirect + 1)
         in if last_indirect \<ge> kMinfsIndirect
            then
              let first_indirect = max first_indirect kMinfsIndirect - kMinfsIndirect;
                  last_indirect = last_indirect - kMinfsIndirect;
                  first_dindirect = first_indirect div kMinfsDirectPerIndirect;
                  last_dindirect = last_indirect div kMinfsDirectPerIndirect;
                  reserve_blocks =
                    u32 (reserve_blocks + u32_sub last_dindirect first_dindirect + 1)
              in if last_dindirect \<ge> kMinfsDoublyIndirect then Err ZX_ERR_OUT_OF_RANGE
                 else Ok reserve_blocks
            else Ok reserve_blocks)"

section \<open>Limits of a transaction\<close>

record transaction_limits =
  max_meta_data_blocks :: nat
  max_data_blocks :: nat
  max_entry_data_blocks :: nat
  max_entry_blocks :: nat
  min_integrity_blocks :: nat
  rec_integrity_blocks :: nat

definition kMaxSuperblockBlocks :: nat where "kMaxSuperblockBlocks = 2"
definition kMaxInodeBitmapBlocks :: nat where "kMaxInodeBitmapBlocks = 1"
definition kMaxInodeTableBlocks :: nat where "kMaxInodeTableBlocks = 2"
definition kMaxWriteBytes :: nat where "kMaxWriteBytes = 2 ^ 16"
definition kJournalMetadataBlocks :: nat where "kJournalMetadataBlocks = 1"
definition kDefaultJournalBlocks :: nat where "kDefaultJournalBlocks = 256"

lemmas limit_consts =
  kMaxSuperblockBlocks_def kMaxInodeBitmapBlocks_def kMaxInodeTableBlocks_def kMaxWriteBytes_def
  kJournalMetadataBlocks_def kDefaultJournalBlocks_def

text \<open>\<open>zx::status::value()\<close> aborts on an error.\<close>

fun res_value :: "'a res \<Rightarrow> 'a res" where
  "res_value (Ok x) = Ok x"
| "res_value _ = Panic"

definition TransactionLimits_BlockSize :: "nat \<Rightarrow> nat res" where
  "TransactionLimits_BlockSize bs = zx_assert (bs = kMinfsBlockSize) (Ok bs)"

text \<open>Returns the maximum numbers of metadata and of data blocks.\<close>

definition CalculateDataBlocks :: "nat \<Rightarrow> (nat \<times> nat) res" where
  "CalculateDataBlocks bsz =
    res_bind (TransactionLimits_BlockSize bsz) (\<lambda>bs.
    let offset = u32_sub (u32 ((kMinfsDirect + (kMinfsIndirect * kMinfsDirectPerIndirect)) * bs)) 1
    in res_bind (res_value (GetRequiredBlockCount offset kMinfsMaxDirentSize bs))
         (\<lambda>max_directory_blocks.
       res_bind (res_value (GetRequiredBlockCount offset kMaxWriteBytes bs)) (\<lambda>max_data.
       let direct_blocks = u32 (round_up kMaxWriteBytes bs div bs + 1);
           max_indirect_blocks = u32_sub max_data direct_blocks
       in Ok (max max_directory_blocks max_indirect_blocks, max_data))))"

text \<open>The parameter \<open>max_descriptors\<close> is \<open>fs::kMaxBlockDescriptors\<close> of the journal library.\<close>

definition CalculateIntegrityBlocks ::
  "nat \<Rightarrow> nat \<Rightarrow> nat \<Rightarrow> nat \<times> nat \<Rightarrow> transaction_limits res" where
  "CalculateIntegrityBlocks max_descriptors bsz block_bitmap_blocks blocks =
    (let (max_meta, max_data) = blocks;
         entry_data = u32 (kMaxSuperblockBlocks + kMaxInodeBitmapBlocks + block_bitmap_blocks
                           + kMaxInodeTableBlocks + max_meta);
         header_blocks =
           (if entry_data > max_descriptors
            then u32 (1 + round_up (entry_data - max_descriptors) kMinfsDirectPerIndirect
                          div kMinfsDirectPerIndirect)
            else 1)
     in res_bind (TransactionLimits_BlockSize bsz) (\<lambda>bs.
        res_bind (res_value (GetRequiredBlockCount 0 kMinfsMaxDirectorySize bs))
          (\<lambda>maximum_directory_blocks.
        let maximum_indirect_blocks =
              kMinfsIndirect + kMinfsDoublyIndirect * kMinfsDirectPerIndirect;
            revocation_blocks =
              round_up (max maximum_directory_blocks maximum_indirect_blocks)
                kMinfsDirectPerIndirect div kMinfsDirectPerIndirect;
            commit_blocks = 1;
            entry = u32 (header_blocks + revocation_blocks + entry_data + commit_blocks);
            min_integrity = u32 (entry + kJournalMetadataBlocks + kBackupSuperblockBlocks)
        in Ok \<lparr>max_meta_data_blocks = max_meta, max_data_blocks = max_data,
               max_entry_data_blocks = entry_data, max_entry_blocks = entry,
               min_integrity_blocks = min_integrity,
               rec_integrity_blocks = max min_integrity kDefaultJournalBlocks\<rparr>)))"

definition TransactionLimits :: "nat \<Rightarrow> superblock \<Rightarrow> transaction_limits res" where
  "TransactionLimits max_descriptors info =
    res_bind (BlockSize info) (\<lambda>bs.
    res_bind (CalculateDataBlocks bs) (\<lambda>blocks.
    res_bind (GetBlockBitmapBlocks info) (\<lambda>bitmap_blocks.
    CalculateIntegrityBlocks max_descriptors bs bitmap_blocks blocks)))"

section \<open>Specification of the block count\<close>

text \<open>A file block and the pointer blocks above it, numbered over the whole file.\<close>

datatype file_block = Data nat | Indirect nat | DIndirect nat

definition block_path :: "nat \<Rightarrow> file_block set" where
  "block_path n =
    (if n < kMinfsDirect then {Data n}
     else
       let ind = (n - kMinfsDirect) div kMinfsDirectPerIndirect
       in if ind < kMinfsIndirect then {Data n, Indirect ind}
          else {Data n, Indirect ind,
                DIndirect ((ind - kMinfsIndirect) div kMinfsDirectPerIndirect)})"

definition touched_blocks :: "nat \<Rightarrow> nat \<Rightarrow> file_block set" where
  "touched_blocks offset len =
     (\<Union>byte \<in> {offset..<offset + len}. block_path (byte div kMinfsBlockSize))"

text \<open>The first block number that the pointer tree of an inode cannot address.\<close>

definition addressable_blocks :: nat where
  "addressable_blocks =
     kMinfsDirect + (kMinfsIndirect + kMinfsDoublyIndirect * kMinfsDirectPerIndirect)
       * kMinfsDirectPerIndirect"

lemma touched_blocks_interval:
  assumes "0 < len"
  shows "touched_blocks offset len
    = \<Union> (block_path ` {offset div kMinfsBlockSize..(offset + len - 1) div kMinfsBlockSize})"
proof -
  have "{offset..<offset + len} = {offset..offset + len - 1}" using assms by auto
  then have "(\<lambda>x. x div kMinfsBlockSize) ` {offset..<offset + len}
    = {offset div kMinfsBlockSize..(offset + len - 1) div kMinfsBlockSize}"
    using assms by (simp add: div_interval_eq kMinfsBlockSize_def)
  then show ?thesis unfolding touched_blocks_def by (metis image_image)
qed

lemma div_shift_interval:
  fixes k lo hi c :: nat
  assumes "0 < k" "lo \<le> hi"
  shows "(\<lambda>x. (x - c) div k) ` {x. lo \<le> x \<and> x \<le> hi \<and> c \<le> x}
    = (if hi < c then {} else {(max lo c - c) div k..(hi - c) div k})"
proof -
  have "(\<lambda>x. x - c) ` {x. lo \<le> x \<and> x \<le> hi \<and> c \<le> x}
      = (if hi < c then {} else {max lo c - c..hi - c})"
  proof (cases "hi < c")
    case False
    have "x \<in> (\<lambda>x. x - c) ` {x. lo \<le> x \<and> x \<le> hi \<and> c \<le> x}"
      if "max lo c - c \<le> x" "x \<le> hi - c" for x
      using that False by (intro image_eqI [where x = "x + c"]) auto
    then show ?thesis using False by auto
  qed auto
  then have "(\<lambda>x. x div k) ` (\<lambda>x. x - c) ` {x. lo \<le> x \<and> x \<le> hi \<and> c \<le> x}
      = (if hi < c then {} else {(max lo c - c) div k..(hi - c) div k})"
    using assms by (auto simp: div_interval_eq)
  then show ?thesis by (simp add: image_image)
qed

lemma card_interval: "a \<le> b \<Longrightarrow> card {a..b} = b - a + (1::nat)"
  by simp

lemma card_union_paths:
  assumes "f \<le> l"
  shows "card (\<Union> (block_path ` {f..l})) =
    (l - f + 1)
    + (if l < kMinfsDirect then 0
       else (l - kMinfsDirect) div kMinfsDirectPerIndirect
            - (max f kMinfsDirect - kMinfsDirect) div kMinfsDirectPerIndirect + 1)
    + (if l < kMinfsDirect + kMinfsIndirect * kMinfsDirectPerIndirect then 0
       else ((l - kMinfsDirect) div kMinfsDirectPerIndirect - kMinfsIndirect)
              div kMinfsDirectPerIndirect
            - (max ((max f kMinfsDirect - kMinfsDirect) div kMinfsDirectPerIndirect)
                   kMinfsIndirect - kMinfsIndirect) div kMinfsDirectPerIndirect + 1)"
    (is "_ = _ + ?i + ?d")
proof -
  let ?k = kMinfsDirectPerIndirect
  define ind where "ind = (\<lambda>x. (x - kMinfsDirect) div ?k) `
    {x. f \<le> x \<and> x \<le> l \<and> kMinfsDirect \<le> x}"
  define dind where "dind = (\<lambda>x. (x - kMinfsIndirect) div ?k) `
    {x. x \<in> ind \<and> kMinfsIndirect \<le> x}"
  have k: "0 < ?k" by (simp add: format_consts)
  have split: "\<Union> (block_path ` {f..l})
      = Data ` {f..l} \<union> Indirect ` ind \<union> DIndirect ` dind"
    unfolding ind_def dind_def by (force simp: block_path_def Let_def split: if_splits)
  have ind_eq: "ind = (if l < kMinfsDirect then {}
      else {(max f kMinfsDirect - kMinfsDirect) div ?k..(l - kMinfsDirect) div ?k})"
    unfolding ind_def using div_shift_interval [OF k assms] by simp
  have le: "(max f kMinfsDirect - kMinfsDirect) div ?k \<le> (l - kMinfsDirect) div ?k"
    if "\<not> l < kMinfsDirect" using assms that by (intro div_le_mono) auto
  have dind_eq: "dind = (if l < kMinfsDirect + kMinfsIndirect * ?k then {}
      else {(max ((max f kMinfsDirect - kMinfsDirect) div ?k) kMinfsIndirect
               - kMinfsIndirect) div ?k
            ..((l - kMinfsDirect) div ?k - kMinfsIndirect) div ?k})"
  proof (cases "l < kMinfsDirect")
    case True then show ?thesis by (simp add: dind_def ind_eq)
  next
    case False
    have "l < kMinfsDirect + kMinfsIndirect * ?k
        \<longleftrightarrow> (l - kMinfsDirect) div ?k < kMinfsIndirect"
      using False k by (simp add: div_less_iff_less_mult less_diff_conv2 add.commute)
    then show ?thesis
      using False div_shift_interval [OF k le [OF False], where c = kMinfsIndirect]
      by (simp add: dind_def ind_eq conj_assoc)
  qed
  have fin: "finite ind" "finite dind" by (simp_all add: ind_eq dind_eq)
  have c: "card (Data ` {f..l} \<union> Indirect ` ind \<union> DIndirect ` dind)
      = card {f..l} + card ind + card dind"
  proof -
    have "card (Data ` {f..l} \<union> Indirect ` ind) = card (Data ` {f..l}) + card (Indirect ` ind)"
      using fin by (intro card_Un_disjoint) auto
    moreover have "card (Data ` {f..l} \<union> Indirect ` ind \<union> DIndirect ` dind)
        = card (Data ` {f..l} \<union> Indirect ` ind) + card (DIndirect ` dind)"
      using fin by (intro card_Un_disjoint) auto
    ultimately show ?thesis by (simp add: card_image inj_on_def)
  qed
  have ci: "card ind = ?i" using le by (auto simp: ind_eq Suc_diff_le)
  have cd: "card dind = ?d"
  proof (cases "l < kMinfsDirect + kMinfsIndirect * ?k")
    case True then show ?thesis by (simp only: dind_eq if_True card.empty)
  next
    case False
    then have "(max ((max f kMinfsDirect - kMinfsDirect) div ?k) kMinfsIndirect - kMinfsIndirect)
                 div ?k \<le> ((l - kMinfsDirect) div ?k - kMinfsIndirect) div ?k"
      using le by (intro div_le_mono) auto
    from card_interval [OF this] show ?thesis
      unfolding dind_eq if_not_P [OF False] .
  qed
  show ?thesis unfolding split c ci cd card_interval [OF assms] ..
qed

section \<open>Correctness of the block count\<close>

lemma last_indirect_range:
  assumes "kMinfsDirect \<le> l"
  shows "(l - kMinfsDirect) div kMinfsDirectPerIndirect < kMinfsIndirect
    \<longleftrightarrow> l < kMinfsDirect + kMinfsIndirect * kMinfsDirectPerIndirect"
  using assms by (simp add: format_consts div_less_iff_less_mult) arith

lemma last_dindirect_range:
  assumes "kMinfsDirect + kMinfsIndirect * kMinfsDirectPerIndirect \<le> l"
  shows "((l - kMinfsDirect) div kMinfsDirectPerIndirect - kMinfsIndirect)
      div kMinfsDirectPerIndirect < kMinfsDoublyIndirect \<longleftrightarrow> l < addressable_blocks"
proof -
  have "((l - 16) div 2048 - 31) div 2048 < 1 \<longleftrightarrow> (l - 16) div 2048 < 2079"
    by (simp add: div_less_iff_less_mult) arith
  also have "\<dots> \<longleftrightarrow> l < 16 + 2079 * 2048"
    using assms by (simp add: div_less_iff_less_mult format_consts) arith
  finally show ?thesis by (simp add: format_consts addressable_blocks_def)
qed

lemma block_count_in_range:
  assumes "offset + len \<le> 2 ^ 45" "0 < len"
  defines "f \<equiv> offset div kMinfsBlockSize" and "l \<equiv> (offset + len - 1) div kMinfsBlockSize"
  shows "f \<le> l" "l < 4294967296" "u32 f = f"
    "u32 (u64_sub (u64 (offset + len)) 1 div kMinfsBlockSize) = l"
proof -
  show fl: "f \<le> l" unfolding f_def l_def using assms(2) by (intro div_le_mono) simp
  show l: "l < 4294967296"
    using assms(1,2) by (simp add: l_def kMinfsBlockSize_def div_less_iff_less_mult)
  show "u32 f = f" using fl l by (simp add: u32_id)
  have "u64_sub (u64 (offset + len)) 1 = offset + len - 1"
    using assms(1,2) by (simp add: u64_id u64_sub_id)
  then show "u32 (u64_sub (u64 (offset + len)) 1 div kMinfsBlockSize) = l"
    using l by (simp add: l_def u32_id)
qed

lemma GetRequiredBlockCount_eq:
  assumes "offset + len \<le> 2 ^ 45"
  shows "GetRequiredBlockCount offset len kMinfsBlockSize =
    (if len = 0 \<or> (offset + len - 1) div kMinfsBlockSize < addressable_blocks
     then Ok (card (touched_blocks offset len)) else Err ZX_ERR_OUT_OF_RANGE)"
proof (cases "len = 0")
  case True then show ?thesis by (simp add: GetRequiredBlockCount_def touched_blocks_def)
next
  case False
  define f l where "f = offset div kMinfsBlockSize" "l = (offset + len - 1) div kMinfsBlockSize"
  let ?k = kMinfsDirectPerIndirect
  note r = block_count_in_range [of offset len, folded f_l_def(1,2), OF assms]
  have r: "f \<le> l" "l < 4294967296" "u32 f = f"
    "u32 (u64_sub (u64 (offset + len)) 1 div kMinfsBlockSize) = l"
    using r False by (auto simp: f_l_def)
  define fi li where "fi = (max f kMinfsDirect - kMinfsDirect) div ?k"
    "li = (l - kMinfsDirect) div ?k"
  define fd ld where "fd = (max fi kMinfsIndirect - kMinfsIndirect) div ?k"
    "ld = (li - kMinfsIndirect) div ?k"
  have card: "card (touched_blocks offset len) = (l - f + 1)
    + (if l < kMinfsDirect then 0 else li - fi + 1)
    + (if l < kMinfsDirect + kMinfsIndirect * ?k then 0 else ld - fd + 1)"
    using touched_blocks_interval [of len offset] card_union_paths [OF r(1)] False
    unfolding f_l_def [symmetric] fi_li_def [symmetric] fd_ld_def [symmetric] by (simp only: if_False neq0_conv)
  have small: "l < 4257808" "li < 4257808" "ld < 4257808" if "l < addressable_blocks"
  proof -
    show l: "l < 4257808" using that by (simp add: addressable_blocks_def format_consts)
    show li: "li < 4257808" unfolding fi_li_def
      by (rule le_less_trans [OF div_le_dividend less_imp_diff_less [OF l]])
    show "ld < 4257808" unfolding fd_ld_def
      by (rule le_less_trans [OF div_le_dividend less_imp_diff_less [OF li]])
  qed
  have code: "GetRequiredBlockCount offset len kMinfsBlockSize =
    (if l < kMinfsDirect then Ok (u32 (u32_sub l f + 1))
     else if kMinfsIndirect \<le> li then
       (if kMinfsDoublyIndirect \<le> ld then Err ZX_ERR_OUT_OF_RANGE
        else Ok (u32 (u32 (u32 (u32_sub l f + 1) + u32_sub li fi + 1) + u32_sub ld fd + 1)))
     else Ok (u32 (u32 (u32_sub l f + 1) + u32_sub li fi + 1)))"
    unfolding GetRequiredBlockCount_def Let_def r(4) f_l_def(1) [symmetric] r(3)
      fi_li_def fd_ld_def using False by simp
  have fili: "fi \<le> li" if "kMinfsDirect \<le> l" unfolding fi_li_def
    using that r(1) by (intro div_le_mono) auto
  have fdld: "fd \<le> ld" if "kMinfsIndirect \<le> li" "fi \<le> li" unfolding fd_ld_def
    using that by (intro div_le_mono) auto
  have lili: "kMinfsIndirect \<le> li \<longleftrightarrow> kMinfsDirect + kMinfsIndirect * ?k \<le> l"
    if "kMinfsDirect \<le> l" using last_indirect_range [OF that] by (simp add: fi_li_def not_less [symmetric])
  have ldld: "kMinfsDoublyIndirect \<le> ld \<longleftrightarrow> addressable_blocks \<le> l"
    if "kMinfsDirect + kMinfsIndirect * ?k \<le> l"
    using last_dindirect_range [OF that] by (simp add: fi_li_def fd_ld_def not_less [symmetric])
  have addr: "kMinfsDirect + kMinfsIndirect * ?k \<le> addressable_blocks"
    by (simp add: addressable_blocks_def format_consts)
  show ?thesis
  proof (cases "l < addressable_blocks")
    case True
    show ?thesis
    proof (cases "l < kMinfsDirect")
      case d: True
      then show ?thesis using True r(1) False addr small
        unfolding code card f_l_def(2) [symmetric] by (simp add: width_simps)
    next
      case nd: False
      show ?thesis
      proof (cases "kMinfsIndirect \<le> li")
        case di: True
        have "ld < kMinfsDoublyIndirect" using ldld lili di nd True by auto
        then show ?thesis
          using True r(1) False nd di fili fdld lili small
          unfolding code card f_l_def(2) [symmetric] by (simp add: width_simps)
      next
        case ndi: False
        then show ?thesis
          using True r(1) False nd fili lili small
          unfolding code card f_l_def(2) [symmetric] by (simp add: width_simps)
      qed
    qed
  next
    case big: False
    then have "\<not> l < kMinfsDirect" "kMinfsIndirect \<le> li" "kMinfsDoublyIndirect \<le> ld"
      using addr lili ldld by auto
    then show ?thesis using big False unfolding code f_l_def(2) [symmetric] by simp
  qed
qed

text \<open>A byte range of at most \<open>b + 1\<close> bytes, at any offset of a file, touches few blocks: its data
  blocks, at most two indirect blocks and the one doubly indirect block.\<close>

lemma card_touched_le:
  assumes "0 < len" "len \<le> b * kMinfsBlockSize + 1" "b \<le> kMinfsDirectPerIndirect"
    "(offset + len - 1) div kMinfsBlockSize < addressable_blocks"
  shows "card (touched_blocks offset len) \<le> b + 4"
proof -
  define f l where "f = offset div kMinfsBlockSize" "l = (offset + len - 1) div kMinfsBlockSize"
  define fi li where "fi = (max f kMinfsDirect - kMinfsDirect) div kMinfsDirectPerIndirect"
    "li = (l - kMinfsDirect) div kMinfsDirectPerIndirect"
  define fd ld where "fd = (max fi kMinfsIndirect - kMinfsIndirect) div kMinfsDirectPerIndirect"
    "ld = (li - kMinfsIndirect) div kMinfsDirectPerIndirect"
  have fl: "f \<le> l" unfolding f_l_def using assms(1) by (intro div_le_mono) simp
  have "l \<le> (offset + b * kMinfsBlockSize) div kMinfsBlockSize"
    unfolding f_l_def using assms(2) by (intro div_le_mono) simp
  then have lb: "l \<le> f + b" by (simp add: f_l_def(1) kMinfsBlockSize_def)
  have "li \<le> (max f kMinfsDirect - kMinfsDirect + kMinfsDirectPerIndirect)
      div kMinfsDirectPerIndirect"
    unfolding fi_li_def using lb assms(3) by (intro div_le_mono) auto
  then have i: "li \<le> fi + 1" by (simp add: fi_li_def format_consts)
  have "l < addressable_blocks" using assms(4) by (simp add: f_l_def)
  then have d: "ld = 0" if "kMinfsDirect + kMinfsIndirect * kMinfsDirectPerIndirect \<le> l"
    using last_dindirect_range [OF that] by (simp add: fi_li_def fd_ld_def kMinfsDoublyIndirect_def)
  have c: "card (touched_blocks offset len) = (l - f + 1)
    + (if l < kMinfsDirect then 0 else li - fi + 1)
    + (if l < kMinfsDirect + kMinfsIndirect * kMinfsDirectPerIndirect then 0 else ld - fd + 1)"
    unfolding touched_blocks_interval [OF assms(1)] f_l_def [symmetric] card_union_paths [OF fl]
      fi_li_def [symmetric] fd_ld_def [symmetric] ..
  show ?thesis unfolding c using fl lb i d by auto
qed

section \<open>Values of the limits\<close>

text \<open>The numeric evaluation of the block counts that the limits are made of.\<close>

lemma required_block_values:
  "GetRequiredBlockCount 520224767 kMinfsMaxDirentSize kMinfsBlockSize = Ok 5"
  "GetRequiredBlockCount 520224767 kMaxWriteBytes kMinfsBlockSize = Ok 12"
  "GetRequiredBlockCount 0 kMinfsMaxDirectorySize kMinfsBlockSize = Ok 129"
  unfolding GetRequiredBlockCount_def format_consts kMinfsMaxDirentSize_eq limit_consts
    kMinfsMaxDirectorySize_eq by (simp_all add: width_simps)

lemma CalculateDataBlocks_eq: "CalculateDataBlocks kMinfsBlockSize = Ok (5, 12)"
proof -
  have "u32_sub (u32 ((kMinfsDirect + kMinfsIndirect * kMinfsDirectPerIndirect)
      * kMinfsBlockSize)) 1 = 520224767"
    by (simp add: format_consts width_simps)
  moreover have "u32_sub 12 (u32 (round_up kMaxWriteBytes kMinfsBlockSize div kMinfsBlockSize + 1))
      = 3"
    by (simp add: limit_consts format_consts round_up_def width_simps)
  ultimately show ?thesis
    by (simp add: CalculateDataBlocks_def TransactionLimits_BlockSize_def required_block_values)
qed

lemma CalculateIntegrityBlocks_eq:
  assumes "bm < 1000000000"
  shows "CalculateIntegrityBlocks md kMinfsBlockSize bm (5, 12) =
    Ok (let header = 1 + ceil_div (10 + bm - md) kMinfsDirectPerIndirect
        in \<lparr>max_meta_data_blocks = 5, max_data_blocks = 12, max_entry_data_blocks = 10 + bm,
            max_entry_blocks = 13 + bm + header, min_integrity_blocks = 15 + bm + header,
            rec_integrity_blocks = max (15 + bm + header) 256\<rparr>)"
proof -
  have e: "kMaxSuperblockBlocks + kMaxInodeBitmapBlocks + bm + kMaxInodeTableBlocks + 5 = 10 + bm"
    by (simp add: limit_consts)
  have u: "u32 (10 + bm) = 10 + bm" using assms by (simp add: u32_id)
  have h: "(if 10 + bm > md
            then u32 (1 + round_up (10 + bm - md) kMinfsDirectPerIndirect
                          div kMinfsDirectPerIndirect) else 1)
      = 1 + ceil_div (10 + bm - md) kMinfsDirectPerIndirect"
    using assms by (simp add: round_up_def ceil_div_def format_consts u32_id)
  have c: "ceil_div (10 + bm - md) kMinfsDirectPerIndirect \<le> 10 + bm"
    by (subst ceil_div_le_iff) (simp_all add: format_consts)
  have r: "round_up (max 129 (kMinfsIndirect + kMinfsDoublyIndirect * kMinfsDirectPerIndirect))
      kMinfsDirectPerIndirect div kMinfsDirectPerIndirect = 2"
    by (simp add: round_up_def format_consts)
  show ?thesis
    unfolding CalculateIntegrityBlocks_def TransactionLimits_BlockSize_def Let_def prod.case e u h
    using assms c
    by (simp add: u32_id required_block_values kJournalMetadataBlocks_def r
        kDefaultJournalBlocks_def kBackupSuperblockBlocks_def zx_assert_def)
qed

lemma TransactionLimits_eq:
  assumes "block_size info = kMinfsBlockSize" "GetBlockBitmapBlocks info = Ok bm"
    "bm < 1000000000"
  shows "TransactionLimits md info =
    Ok (let header = 1 + ceil_div (10 + bm - md) kMinfsDirectPerIndirect
        in \<lparr>max_meta_data_blocks = 5, max_data_blocks = 12, max_entry_data_blocks = 10 + bm,
            max_entry_blocks = 13 + bm + header, min_integrity_blocks = 15 + bm + header,
            rec_integrity_blocks = max (15 + bm + header) 256\<rparr>)"
  using assms
  by (simp add: TransactionLimits_def BlockSize_def CalculateDataBlocks_eq
      CalculateIntegrityBlocks_eq)

text \<open>The witness superblock of this theory: a volume without FVM, one block of block bitmap.\<close>

definition limits_example :: superblock where
  "limits_example = \<lparr>magic0 = kMinfsMagic0, magic1 = kMinfsMagic1,
     major_version = kMinfsCurrentMajorVersion, deprecated2 = 0, checksum = 0,
     generation_count = 0, flags = kMinfsFlagClean, block_size = kMinfsBlockSize,
     inode_size = kMinfsInodeSize, block_count = 4000, inode_count = 64,
     alloc_block_count = 2, alloc_inode_count = 2, ibm_block = 8, abm_block = 16,
     ino_block = 17, integrity_start_block = 24, dat_block = 300, slice_size = 0,
     deprecated1 = 0, ibm_slices = 0, abm_slices = 0, ino_slices = 0, integrity_slices = 0,
     dat_slices = 0, unlinked_head = 0, unlinked_tail = 0,
     oldest_minor_version = kMinfsCurrentMinorVersion, reserved = []\<rparr>"

lemma limits_example_bitmap: "GetBlockBitmapBlocks limits_example = Ok 1"
  by (simp add: GetBlockBitmapBlocks_def limits_example_def format_consts width_simps)

lemma limits_example_block_size: "block_size limits_example = kMinfsBlockSize"
  by (simp add: limits_example_def)

text \<open>The transaction limits of a superblock whose block bitmap has a plausible size: 12 data
  blocks (9 direct, 2 indirect, 1 doubly indirect), 5 metadata blocks, an entry that covers both
  superblocks, one inode bitmap block, two inode table blocks, the whole block bitmap and the
  metadata, and an integrity section that holds the journal superblock, the largest entry with
  its headers, revocations and commit block, and the backup superblock.\<close>

theorem TransactionLimits_values:
  assumes "block_size info = kMinfsBlockSize" "GetBlockBitmapBlocks info = Ok bm"
    "bm < 1000000000"
  shows "TransactionLimits md info =
    Ok (let header = 1 + ceil_div (10 + bm - md) kMinfsDirectPerIndirect
        in \<lparr>max_meta_data_blocks = 5, max_data_blocks = 12, max_entry_data_blocks = 10 + bm,
            max_entry_blocks = 13 + bm + header, min_integrity_blocks = 15 + bm + header,
            rec_integrity_blocks = max (15 + bm + header) 256\<rparr>)"
  using assms by (rule TransactionLimits_eq)

theorem TransactionLimits_values_witness:
  "is_ok (TransactionLimits 2040 limits_example)"
  using TransactionLimits_values [of limits_example 1 2040]
  by (simp add: limits_example_bitmap limits_example_block_size)

text \<open>C1: For a byte range that stays below 2^45, \<open>GetRequiredBlockCount\<close> returns exactly the
  number of distinct blocks (data, indirect and doubly indirect) that the range touches in the
  block tree of an inode, and refuses a range exactly when its last block lies beyond what the
  tree can address.\<close>

theorem GetRequiredBlockCount_correct:
  assumes "offset + len \<le> 2 ^ 45"
  shows "GetRequiredBlockCount offset len kMinfsBlockSize =
    (if len = 0 \<or> (offset + len - 1) div kMinfsBlockSize < addressable_blocks
     then Ok (card (touched_blocks offset len)) else Err ZX_ERR_OUT_OF_RANGE)"
  using assms by (rule GetRequiredBlockCount_eq)

theorem GetRequiredBlockCount_correct_witness:
  "card (touched_blocks 520224767 268) = 5"
proof -
  have "(520224767 + 268 - 1) div kMinfsBlockSize < addressable_blocks"
    by (simp add: addressable_blocks_def format_consts)
  then have "GetRequiredBlockCount 520224767 268 kMinfsBlockSize
      = Ok (card (touched_blocks 520224767 268))"
    using GetRequiredBlockCount_correct [of 520224767 268] by simp
  then show ?thesis using required_block_values(1) by (simp add: kMinfsMaxDirentSize_eq)
qed

text \<open>C2: The limits bound what one operation needs: at any file offset, a write of up to
  \<open>kMaxWriteBytes\<close> needs at most \<open>max_data_blocks\<close> blocks and a directory record of up to
  \<open>kMinfsMaxDirentSize\<close> bytes at most \<open>max_meta_data_blocks\<close>.\<close>

theorem write_within_limits:
  assumes "TransactionLimits md info = Ok lim" "GetBlockBitmapBlocks info = Ok bm"
    "bm < 1000000000" "offset + len \<le> 2 ^ 45"
    "GetRequiredBlockCount offset len kMinfsBlockSize = Ok n"
  shows "(len \<le> kMaxWriteBytes \<longrightarrow> n \<le> max_data_blocks lim)
    \<and> (len \<le> kMinfsMaxDirentSize \<longrightarrow> n \<le> max_meta_data_blocks lim)"
proof (intro conjI)
  have "block_size info = kMinfsBlockSize"
    using assms(1) by (auto simp: TransactionLimits_def BlockSize_def)
  then have lim: "max_data_blocks lim = 12" "max_meta_data_blocks lim = 5"
    using assms(1-3) by (auto simp: TransactionLimits_def BlockSize_def CalculateDataBlocks_eq
        CalculateIntegrityBlocks_eq Let_def)
  have n: "n = card (touched_blocks offset len) \<and>
      (len = 0 \<or> (offset + len - 1) div kMinfsBlockSize < addressable_blocks)"
    using assms(4,5) by (auto simp: GetRequiredBlockCount_eq split: if_splits)
  show "len \<le> kMaxWriteBytes \<longrightarrow> n \<le> max_data_blocks lim"
  proof (cases "len = 0")
    case True then show ?thesis using n by (simp add: touched_blocks_def)
  next
    case False then show ?thesis using n card_touched_le [of len 8 offset]
      by (simp add: lim kMaxWriteBytes_def kMinfsBlockSize_def kMinfsDirectPerIndirect_def)
  qed
  show "len \<le> kMinfsMaxDirentSize \<longrightarrow> n \<le> max_meta_data_blocks lim"
  proof (cases "len = 0")
    case True then show ?thesis using n by (simp add: touched_blocks_def)
  next
    case False then show ?thesis using n card_touched_le [of len 1 offset]
      by (simp add: lim kMinfsMaxDirentSize_eq kMinfsBlockSize_def kMinfsDirectPerIndirect_def)
  qed
qed

theorem write_within_limits_witness:
  "\<exists>lim. TransactionLimits 2040 limits_example = Ok lim \<and> 12 \<le> max_data_blocks lim"
proof -
  obtain lim where lim: "TransactionLimits 2040 limits_example = Ok lim"
    using TransactionLimits_eq [OF limits_example_block_size limits_example_bitmap, of 2040] by simp
  then show ?thesis
    using write_within_limits [OF lim limits_example_bitmap _ _ required_block_values(2)]
    by (auto simp: kMaxWriteBytes_def)
qed

end
