(* ===== verification/Work.thy ===== *)
theory Work
  imports Format
begin

text \<open>
  The block operations the components enqueue (\<open>storage::Operation\<close>) and the virtual interface
  \<open>PendingWork\<close> of \<open>pending_work.h\<close> through which they do it. An implementation of the interface
  is a record of its four functions over the implementation's state; the locale
  \<open>metadata_work\<close> states what the callers rely on.
\<close>

datatype op_type = kRead | kWrite | kTrim

record operation =
  op_kind :: op_type
  vmo_offset :: nat
  dev_offset :: nat
  op_length :: nat

text \<open>The buffers that operations refer to; their contents are read when the work is issued.\<close>

datatype buffer_id =
    SuperblockBuf
  | BlockMapBuf
  | InodeMapBuf
  | InodeTableBuf
  | IndirectBuf nat
  | VnodeBuf nat

type_synonym queued = "operation \<times> buffer_id"

definition write_op :: "nat \<Rightarrow> nat \<Rightarrow> nat \<Rightarrow> operation" where
  "write_op vmo dev len = \<lparr>op_kind = kWrite, vmo_offset = vmo, dev_offset = dev, op_length = len\<rparr>"

definition read_op :: "nat \<Rightarrow> nat \<Rightarrow> nat \<Rightarrow> operation" where
  "read_op vmo dev len = \<lparr>op_kind = kRead, vmo_offset = vmo, dev_offset = dev, op_length = len\<rparr>"

record 't pending_work =
  pw_enqueue_metadata :: "queued \<Rightarrow> 't \<Rightarrow> 't"
  pw_enqueue_data :: "queued \<Rightarrow> 't \<Rightarrow> 't"
  pw_allocate_block :: "'t \<Rightarrow> (nat \<times> 't) res"
  pw_deallocate_block :: "nat \<Rightarrow> 't \<Rightarrow> 't res"

text \<open>The simplest implementation: the host's transaction keeps a single list of operations, in
  the order they were added.\<close>

definition list_work :: "queued list pending_work" where
  "list_work =
    \<lparr>pw_enqueue_metadata = (\<lambda>q ops. ops @ [q]),
     pw_enqueue_data = (\<lambda>q ops. ops @ [q]),
     pw_allocate_block = (\<lambda>ops. Panic),
     pw_deallocate_block = (\<lambda>n ops. Panic)\<rparr>"

text \<open>What a caller of the interface relies on: metadata operations are kept in order.\<close>

locale metadata_work =
  fixes enqueue :: "queued \<Rightarrow> 't \<Rightarrow> 't"
    and metadata_of :: "'t \<Rightarrow> queued list"
  assumes enqueue_metadata_of: "metadata_of (enqueue q t) = metadata_of t @ [q]"
begin

lemma enqueue_all: "metadata_of (fold enqueue qs t) = metadata_of t @ qs"
  by (induction qs arbitrary: t) (simp_all add: enqueue_metadata_of)

lemma enqueue_two: "metadata_of (enqueue q2 (enqueue q1 t)) = metadata_of t @ [q1, q2]"
  by (simp add: enqueue_metadata_of)

end

interpretation list_queue: metadata_work "pw_enqueue_metadata list_work" "\<lambda>ops. ops"
  by unfold_locales (simp add: list_work_def)

end
