(* ===== verification/Superblock.thy ===== *)
theory Superblock
  imports Limits Work
begin

text \<open>
  Validation, checksum and slice management of the superblock: the first part of \<open>minfs.cc\<close>
  and \<open>superblock.h\<close>, \<open>superblock.cc\<close>, \<open>superblock_host.cc\<close>. The CRC is a parameter \<open>crc\<close>
  over the superblock (its 8192 bytes); the volume behind the file system (FVM) is a record of
  its operations over a state that is not modelled further.
\<close>

section \<open>Checksum and slice counts\<close>

definition UpdateChecksum :: "(superblock \<Rightarrow> nat) \<Rightarrow> superblock \<Rightarrow> superblock" where
  "UpdateChecksum crc info =
    (let info = info\<lparr>generation_count := u32 (generation_count info + 1)\<rparr>;
         info = info\<lparr>checksum := 0\<rparr>
     in info\<lparr>checksum := crc info\<rparr>)"

text \<open>A checked cast aborts when the value does not fit.\<close>

definition checked_cast32 :: "nat \<Rightarrow> nat res" where
  "checked_cast32 n = zx_assert (n < 4294967296) (Ok n)"

definition CalculateVsliceCount :: "superblock \<Rightarrow> nat res" where
  "CalculateVsliceCount info =
     checked_cast32 (1 + ibm_slices info + abm_slices info + ino_slices info
       + integrity_slices info + dat_slices info)"

section \<open>Slices of a volume\<close>

record 'd volume =
  vol_get_info :: "'d \<Rightarrow> nat res"
  vol_query_slices :: "'d \<Rightarrow> nat list \<Rightarrow> (bool \<times> nat) list res"
  vol_extend :: "nat \<Rightarrow> nat \<Rightarrow> 'd \<Rightarrow> unit res \<times> 'd"
  vol_shrink :: "nat \<Rightarrow> nat \<Rightarrow> 'd \<Rightarrow> unit res \<times> 'd"
  vol_reset_slices :: "'d \<Rightarrow> unit res \<times> 'd"

text \<open>Integer division by zero is undefined; the model stops.\<close>

definition checked_div :: "nat \<Rightarrow> nat \<Rightarrow> nat res" where
  "checked_div a b = zx_assert (b \<noteq> 0) (Ok (a div b))"

definition FreeSlices :: "('d, 'z) volume_scheme \<Rightarrow> superblock \<Rightarrow> 'd \<Rightarrow> unit res \<times> 'd" where
  "FreeSlices V info d =
    (if (flags info AND kMinfsFlagFVM) = 0 then (Ok (), d)
     else case res_bind (BlockSize info) (\<lambda>bs. Ok (slice_size info div bs)) of
       Ok bps \<Rightarrow>
         fold (\<lambda>(slices, start) (r, d).
             if slices \<noteq> 0 then
               (case (r, checked_div start bps) of
                  (Ok _, Ok off) \<Rightarrow> (Ok (), snd (vol_shrink V off slices d))
                | _ \<Rightarrow> (Panic, d))
             else (r, d))
           [(ibm_slices info, kFVMBlockInodeBmStart), (abm_slices info, kFVMBlockDataBmStart),
            (ino_slices info, kFVMBlockInodeStart), (dat_slices info, kFVMBlockDataStart)]
           (Ok (), d)
     | Err e \<Rightarrow> (Err e, d)
     | Panic \<Rightarrow> (Panic, d))"

text \<open>The loop over the four ranges of \<open>CheckSlices\<close>: (expected count, first slice, answer).\<close>

fun check_ranges ::
  "('d, 'z) volume_scheme \<Rightarrow> bool \<Rightarrow> (nat \<times> nat \<times> bool \<times> nat) list \<Rightarrow> 'd \<Rightarrow> unit res \<times> 'd" where
  "check_ranges V repair [] d = (Ok (), d)"
| "check_ranges V repair ((minfs_count, vslice_start, allocated, fvm_count) # rs) d =
    (if \<not> allocated \<or> fvm_count < minfs_count then (Err ZX_ERR_IO_DATA_INTEGRITY, d)
     else if repair \<and> fvm_count > minfs_count then
       (case vol_shrink V (vslice_start + minfs_count) (fvm_count - minfs_count) d of
          (Ok _, d') \<Rightarrow> check_ranges V repair rs d'
        | (_, d') \<Rightarrow> (Err ZX_ERR_IO_DATA_INTEGRITY, d'))
     else check_ranges V repair rs d)"

definition expected_slices :: "superblock \<Rightarrow> nat list" where
  "expected_slices info = [ibm_slices info, abm_slices info, ino_slices info, dat_slices info]"

definition slice_starts :: "nat \<Rightarrow> nat list" where
  "slice_starts bps = [kFVMBlockInodeBmStart div bps, kFVMBlockDataBmStart div bps,
     kFVMBlockInodeStart div bps, kFVMBlockDataStart div bps]"

definition CheckSlices ::
  "('d, 'z) volume_scheme \<Rightarrow> superblock \<Rightarrow> nat \<Rightarrow> bool \<Rightarrow> 'd \<Rightarrow> unit res \<times> 'd" where
  "CheckSlices V info bps repair d =
    (case vol_get_info V d of
       Ok manager_slice_size \<Rightarrow>
         if slice_size info \<noteq> manager_slice_size then (Err ZX_ERR_BAD_STATE, d)
         else if bps = 0 then (Panic, d)
         else
           (case vol_query_slices V d (slice_starts bps) of
              Ok ranges \<Rightarrow>
                if length ranges \<noteq> 4 then (Err ZX_ERR_BAD_STATE, d)
                else check_ranges V repair
                       (zip (expected_slices info) (zip (slice_starts bps) ranges)) d
            | _ \<Rightarrow> (Err ZX_ERR_UNAVAILABLE, d))
     | _ \<Rightarrow> (Err ZX_ERR_UNAVAILABLE, d))"

text \<open>The slices are reserved one section after the other; an error leaves the superblock and the
  device as they are at that point.\<close>

definition CreateFvmData ::
  "('d, 'z) volume_scheme \<Rightarrow> nat \<Rightarrow> nat \<Rightarrow> superblock \<Rightarrow> 'd \<Rightarrow> unit res \<times> superblock \<times> 'd" where
  "CreateFvmData V max_descriptors fvm_data_slices info d =
    (case vol_get_info V d of
       Ok manager_slice_size \<Rightarrow>
         let info = info\<lparr>slice_size := u32 manager_slice_size\<rparr>;
             info = SetMinfsFlagFvm info
         in (case BlockSize info of
           Ok bs \<Rightarrow>
             if slice_size info mod bs \<noteq> 0 then (Err ZX_ERR_IO_INVALID, info, d)
             else
             let bps = slice_size info div bs in
             (case vol_reset_slices V d of (Err e, d) \<Rightarrow> (Err e, info, d)
              | (Panic, d) \<Rightarrow> (Panic, info, d)
              | (Ok _, d) \<Rightarrow>
             if bps = 0 then (Panic, info\<lparr>ibm_slices := 1\<rparr>, d)
             else
             let info = info\<lparr>ibm_slices := 1\<rparr> in
             (case vol_extend V (kFVMBlockInodeBmStart div bps) (ibm_slices info) d of
                (Err e, d) \<Rightarrow> (Err e, info, d) | (Panic, d) \<Rightarrow> (Panic, info, d)
              | (Ok _, d) \<Rightarrow>
             let info = info\<lparr>abm_slices := 1\<rparr> in
             (case vol_extend V (kFVMBlockDataBmStart div bps) (abm_slices info) d of
                (Err e, d) \<Rightarrow> (Err e, info, d) | (Panic, d) \<Rightarrow> (Panic, info, d)
              | (Ok _, d) \<Rightarrow>
             let inode_blocks = (kMinfsDefaultInodeCount + kMinfsInodesPerBlock - 1)
                   div kMinfsInodesPerBlock;
                 info = info\<lparr>ino_slices := u32 ((inode_blocks + bps - 1) div bps)\<rparr> in
             (case vol_extend V (kFVMBlockInodeStart div bps) (ino_slices info) d of
                (Err e, d) \<Rightarrow> (Err e, info, d) | (Panic, d) \<Rightarrow> (Panic, info, d)
              | (Ok _, d) \<Rightarrow>
             (case TransactionLimits max_descriptors info of
                Err e \<Rightarrow> (Err e, info, d) | Panic \<Rightarrow> (Panic, info, d)
              | Ok limits \<Rightarrow>
             let journal_slices = round_up (rec_integrity_blocks limits) bps div bps in
             (case vol_extend V (kFVMBlockJournalStart div bps) journal_slices d of
                (Err e, d) \<Rightarrow> (Err e, info, d) | (Panic, d) \<Rightarrow> (Panic, info, d)
              | (Ok _, d) \<Rightarrow>
             let info = info\<lparr>integrity_slices := u32 journal_slices\<rparr> in
             if fvm_data_slices = 0 then (Panic, info, d)
             else
             (case vol_extend V (kFVMBlockDataStart div bps) fvm_data_slices d of
                (Err e, d) \<Rightarrow> (Err e, info, d) | (Panic, d) \<Rightarrow> (Panic, info, d)
              | (Ok _, d) \<Rightarrow> (Ok (), info\<lparr>dat_slices := fvm_data_slices\<rparr>, d))))))))
         | Err e \<Rightarrow> (Err e, info, d) | Panic \<Rightarrow> (Panic, info, d))
     | _ \<Rightarrow> (Ok (), info, d))"

text \<open>\<open>VerifySlicesSize\<close>. The needed block counts are computed in 32 bits, the allocated ones in
  64 bits (and do not wrap there).\<close>

definition needed_blocks :: "nat \<Rightarrow> nat \<Rightarrow> nat" where
  "needed_blocks n per_block = u32_sub (u32 (n + per_block)) 1 div per_block"

definition VerifySlicesSize :: "superblock \<Rightarrow> transaction_limits \<Rightarrow> nat \<Rightarrow> unit res" where
  "VerifySlicesSize info limits bps =
    (let ibm_blocks_needed = needed_blocks (inode_count info) kMinfsBlockBits;
         ibm_blocks_allocated = u64 (ibm_slices info * bps);
         abm_blocks_needed = needed_blocks (block_count info) kMinfsBlockBits;
         abm_blocks_allocated = u64 (abm_slices info * bps);
         ino_blocks_needed = needed_blocks (inode_count info) kMinfsInodesPerBlock;
         ino_blocks_allocated = u64 (ino_slices info * bps);
         journal_blocks_needed = min_integrity_blocks limits;
         journal_blocks_allocated = u64 (integrity_slices info * bps);
         dat_blocks_needed = block_count info;
         dat_blocks_allocated = u64 (dat_slices info * bps)
     in if ibm_blocks_needed > ibm_blocks_allocated then Err ZX_ERR_INVALID_ARGS
        else if u64 (ibm_blocks_allocated + ibm_block info) \<ge> abm_block info
          then Err ZX_ERR_INVALID_ARGS
        else if abm_blocks_needed > abm_blocks_allocated then Err ZX_ERR_INVALID_ARGS
        else if u64 (abm_blocks_allocated + abm_block info) \<ge> ino_block info
          then Err ZX_ERR_INVALID_ARGS
        else if ino_blocks_needed > ino_blocks_allocated then Err ZX_ERR_INVALID_ARGS
        else if u64 (ino_blocks_allocated + ino_block info) \<ge> integrity_start_block info
          then Err ZX_ERR_INVALID_ARGS
        else if journal_blocks_needed > journal_blocks_allocated then Err ZX_ERR_INVALID_ARGS
        else if u64 (journal_blocks_allocated + integrity_start_block info) > dat_block info
          then Err ZX_ERR_INVALID_ARGS
        else if dat_blocks_needed > dat_blocks_allocated then Err ZX_ERR_INVALID_ARGS
        else if u64 (dat_blocks_allocated + dat_block info) > 4294967295
          then Err ZX_ERR_INVALID_ARGS
        else if dat_blocks_needed \<le> 1 then Err ZX_ERR_INVALID_ARGS
        else Ok ())"

section \<open>Validation of the superblock\<close>

text \<open>
  \<open>check_slices\<close> stands for the device part of \<open>CheckSuperblock\<close>: \<open>CheckSlices\<close> on the volume
  under Fuchsia, and nothing on the host.
\<close>

definition CheckSuperblock ::
  "(superblock \<Rightarrow> nat) \<Rightarrow> nat \<Rightarrow> (superblock \<Rightarrow> nat \<Rightarrow> unit res) \<Rightarrow> superblock \<Rightarrow> nat \<Rightarrow> unit res"
where
  "CheckSuperblock crc max_descriptors check_slices info max_blocks =
    (let bad_checksum = checksum info \<noteq> crc (info\<lparr>checksum := 0\<rparr>)
     in if magic0 info \<noteq> kMinfsMagic0 \<or> magic1 info \<noteq> kMinfsMagic1 then Err ZX_ERR_WRONG_TYPE
        else if major_version info \<noteq> kMinfsCurrentMajorVersion then Err ZX_ERR_NOT_SUPPORTED
        else if bad_checksum then Err ZX_ERR_IO_DATA_INTEGRITY
        else if block_size info \<noteq> kMinfsBlockSize \<or> inode_size info \<noteq> kMinfsInodeSize
          then Err ZX_ERR_IO_DATA_INTEGRITY
        else if alloc_block_count info > block_count info then Err ZX_ERR_IO_DATA_INTEGRITY
        else if alloc_inode_count info > inode_count info then Err ZX_ERR_IO_DATA_INTEGRITY
        else
          res_bind (TransactionLimits max_descriptors info) (\<lambda>limits.
          if (flags info AND kMinfsFlagFVM) = 0 then
            if u32 (dat_block info + block_count info) \<noteq> max_blocks
              then Err ZX_ERR_IO_DATA_INTEGRITY
            else if u32_sub (dat_block info) (integrity_start_block info)
                      < min_integrity_blocks limits
              then Err ZX_ERR_BAD_STATE
            else Ok ()
          else
            res_bind (BlockSize info) (\<lambda>bs.
            let bps = slice_size info div bs in
            res_bind (check_slices info bps) (\<lambda>_.
            VerifySlicesSize info limits bps))))"

definition host_check_slices :: "superblock \<Rightarrow> nat \<Rightarrow> unit res" where
  "host_check_slices info bps = Ok ()"

definition target_check_slices ::
  "('d, 'z) volume_scheme \<Rightarrow> 'd \<Rightarrow> superblock \<Rightarrow> nat \<Rightarrow> unit res" where
  "target_check_slices V d info bps = fst (CheckSlices V info bps False d)"

section \<open>The superblock manager\<close>

record superblock_manager =
  sm_info :: superblock
  sm_dirty :: bool

definition SuperblockManager_Create ::
  "(superblock \<Rightarrow> nat \<Rightarrow> unit res) \<Rightarrow> superblock \<Rightarrow> nat \<Rightarrow> bool \<Rightarrow> superblock_manager res" where
  "SuperblockManager_Create check info max_blocks check_all =
    (if check_all then
       res_bind (check info max_blocks) (\<lambda>_. Ok \<lparr>sm_info = info, sm_dirty = False\<rparr>)
     else Ok \<lparr>sm_info = info, sm_dirty = False\<rparr>)"

definition SuperblockManager_BlockSize :: "superblock_manager \<Rightarrow> nat res" where
  "SuperblockManager_BlockSize sm =
     res_bind (BlockSize (sm_info sm)) (\<lambda>bs. zx_assert (bs = kMinfsBlockSize) (Ok bs))"

text \<open>A modification through \<open>MutableInfo\<close>.\<close>

definition MutableInfo ::
  "(superblock \<Rightarrow> superblock) \<Rightarrow> superblock_manager \<Rightarrow> superblock_manager" where
  "MutableInfo f sm = sm\<lparr>sm_info := f (sm_info sm), sm_dirty := True\<rparr>"

definition superblock_dev_offset :: "superblock \<Rightarrow> nat" where
  "superblock_dev_offset info =
     (if (flags info AND kMinfsFlagFVM) \<noteq> 0 then kFvmSuperblockBackup
      else kNonFvmSuperblockBackup)"

text \<open>Returns the manager and the operations in the order they are enqueued.\<close>

definition SuperblockManager_Write ::
  "(superblock \<Rightarrow> nat) \<Rightarrow> (queued \<Rightarrow> 't \<Rightarrow> 't) \<Rightarrow> bool \<Rightarrow> superblock_manager \<times> 't
    \<Rightarrow> superblock_manager \<times> 't" where
  "SuperblockManager_Write crc enqueue update_backup s =
    (let (sm, t) = s;
         sm = MutableInfo (UpdateChecksum crc) sm;
         t = enqueue (write_op 0 kSuperblockStart 1, SuperblockBuf) t;
         t = (if update_backup then
                enqueue (write_op 0 (superblock_dev_offset (sm_info sm)) 1, SuperblockBuf) t
              else t)
     in (sm\<lparr>sm_dirty := False\<rparr>, t))"

section \<open>Checksum\<close>

definition checksum_ok :: "(superblock \<Rightarrow> nat) \<Rightarrow> superblock \<Rightarrow> bool" where
  "checksum_ok crc info \<longleftrightarrow> checksum info = crc (info\<lparr>checksum := 0\<rparr>)"

lemma UpdateChecksum_ok [simp]: "checksum_ok crc (UpdateChecksum crc info)"
  by (simp add: checksum_ok_def UpdateChecksum_def Let_def)

lemma UpdateChecksum_fields [simp]:
  "flags (UpdateChecksum crc info) = flags info"
  "generation_count (UpdateChecksum crc info) = u32 (generation_count info + 1)"
  "dat_block (UpdateChecksum crc info) = dat_block info"
  "block_count (UpdateChecksum crc info) = block_count info"
  "inode_count (UpdateChecksum crc info) = inode_count info"
  "alloc_block_count (UpdateChecksum crc info) = alloc_block_count info"
  "alloc_inode_count (UpdateChecksum crc info) = alloc_inode_count info"
  "block_size (UpdateChecksum crc info) = block_size info"
  "inode_size (UpdateChecksum crc info) = inode_size info"
  "magic0 (UpdateChecksum crc info) = magic0 info"
  "magic1 (UpdateChecksum crc info) = magic1 info"
  "major_version (UpdateChecksum crc info) = major_version info"
  "integrity_start_block (UpdateChecksum crc info) = integrity_start_block info"
  "ibm_block (UpdateChecksum crc info) = ibm_block info"
  "abm_block (UpdateChecksum crc info) = abm_block info"
  "ino_block (UpdateChecksum crc info) = ino_block info"
  "slice_size (UpdateChecksum crc info) = slice_size info"
  "ibm_slices (UpdateChecksum crc info) = ibm_slices info"
  "abm_slices (UpdateChecksum crc info) = abm_slices info"
  "ino_slices (UpdateChecksum crc info) = ino_slices info"
  "integrity_slices (UpdateChecksum crc info) = integrity_slices info"
  "dat_slices (UpdateChecksum crc info) = dat_slices info"
  by (simp_all add: UpdateChecksum_def Let_def)

lemma GetBlockBitmapBlocks_UpdateChecksum [simp]:
  "GetBlockBitmapBlocks (UpdateChecksum crc info) = GetBlockBitmapBlocks info"
  by (simp add: GetBlockBitmapBlocks_def BlockSize_def)

lemma TransactionLimits_UpdateChecksum [simp]:
  "TransactionLimits md (UpdateChecksum crc info) = TransactionLimits md info"
  by (simp add: TransactionLimits_def BlockSize_def)

section \<open>Layout that an accepted superblock has\<close>

lemma needed_blocks_le:
  assumes "n + k < 4294967296" "0 < k"
  shows "needed_blocks n k = ceil_div n k" and "needed_blocks n k \<le> m \<longleftrightarrow> n \<le> m * k"
proof -
  show "needed_blocks n k = ceil_div n k"
    using assms by (simp add: needed_blocks_def ceil_div_def width_simps)
  then show "needed_blocks n k \<le> m \<longleftrightarrow> n \<le> m * k"
    using assms by (simp add: ceil_div_le_iff)
qed

text \<open>The sections of a volume with slices: inode bitmap, block bitmap, inode table, integrity
  section and data, each large enough and ending before the next one starts.\<close>

definition fvm_layout :: "superblock \<Rightarrow> nat \<Rightarrow> nat \<Rightarrow> bool" where
  "fvm_layout info min_integrity bps \<longleftrightarrow>
     inode_count info \<le> ibm_slices info * bps * kMinfsBlockBits \<and>
     ibm_block info + ibm_slices info * bps < abm_block info \<and>
     block_count info \<le> abm_slices info * bps * kMinfsBlockBits \<and>
     abm_block info + abm_slices info * bps < ino_block info \<and>
     inode_count info \<le> ino_slices info * bps * kMinfsInodesPerBlock \<and>
     ino_block info + ino_slices info * bps < integrity_start_block info \<and>
     min_integrity \<le> integrity_slices info * bps \<and>
     integrity_start_block info + integrity_slices info * bps \<le> dat_block info \<and>
     1 < block_count info \<and> block_count info \<le> dat_slices info * bps \<and>
     dat_block info + dat_slices info * bps < 4294967296"

lemma slices_no_wrap:
  assumes "s < 4294967296" "bps < 524289" "b < 4294967296"
  shows "u64 (s * bps) = s * bps" "u64 (s * bps + b) = s * bps + b"
proof -
  have "s * bps \<le> 4294967296 * 524288" using assms by (intro mult_le_mono) auto
  then show "u64 (s * bps) = s * bps" "u64 (s * bps + b) = s * bps + b"
    using assms by (simp_all add: u64_id)
qed

lemma not_less_iff_not_less: "(\<not> a < b) \<longleftrightarrow> (\<not> c < d) \<Longrightarrow> a < b \<longleftrightarrow> c < d"
  for a b c d :: nat
  by blast

lemma VerifySlicesSize_layout:
  assumes wf: "superblock_wf info" and bps: "bps < 524289"
    and ic: "inode_count info + kMinfsBlockBits < 4294967296"
    and bc: "block_count info + kMinfsBlockBits < 4294967296"
  shows "VerifySlicesSize info limits bps = Ok ()
    \<longleftrightarrow> fvm_layout info (min_integrity_blocks limits) bps"
proof -
  have f: "ibm_slices info < 4294967296" "abm_slices info < 4294967296"
    "ino_slices info < 4294967296" "integrity_slices info < 4294967296"
    "dat_slices info < 4294967296" "ibm_block info < 4294967296" "abm_block info < 4294967296"
    "ino_block info < 4294967296" "integrity_start_block info < 4294967296"
    "dat_block info < 4294967296"
    using wf by (simp_all add: superblock_wf_def)
  have n: "needed_blocks (inode_count info) kMinfsBlockBits \<le> m
      \<longleftrightarrow> inode_count info \<le> m * kMinfsBlockBits"
    "needed_blocks (block_count info) kMinfsBlockBits \<le> m
      \<longleftrightarrow> block_count info \<le> m * kMinfsBlockBits"
    "needed_blocks (inode_count info) kMinfsInodesPerBlock \<le> m
      \<longleftrightarrow> inode_count info \<le> m * kMinfsInodesPerBlock" for m
    using ic bc by (intro needed_blocks_le; simp add: format_consts)+
  note n' = n [unfolded not_less [symmetric], THEN not_less_iff_not_less]
  note w = slices_no_wrap [OF f(1) bps f(6)] slices_no_wrap [OF f(2) bps f(7)]
    slices_no_wrap [OF f(3) bps f(8)] slices_no_wrap [OF f(4) bps f(9)]
    slices_no_wrap [OF f(5) bps f(10)]
  show ?thesis
    unfolding VerifySlicesSize_def fvm_layout_def Let_def w
    by (auto simp: n n' not_less not_le add.commute)
qed

lemma CheckSuperblock_Ok:
  assumes "CheckSuperblock crc md check info max_blocks = Ok ()"
  shows "magic0 info = kMinfsMagic0 \<and> magic1 info = kMinfsMagic1
    \<and> major_version info = kMinfsCurrentMajorVersion \<and> checksum_ok crc info
    \<and> block_size info = kMinfsBlockSize \<and> inode_size info = kMinfsInodeSize
    \<and> alloc_block_count info \<le> block_count info \<and> alloc_inode_count info \<le> inode_count info"
  using assms by (auto simp: CheckSuperblock_def checksum_ok_def Let_def split: if_splits)

lemma CheckSuperblock_fvm_Ok:
  assumes "CheckSuperblock crc md check info max_blocks = Ok ()"
    "(flags info AND kMinfsFlagFVM) \<noteq> 0"
  obtains limits where "TransactionLimits md info = Ok limits"
    "check info (slice_size info div kMinfsBlockSize) = Ok ()"
    "VerifySlicesSize info limits (slice_size info div kMinfsBlockSize) = Ok ()"
  using assms by (auto simp: CheckSuperblock_def BlockSize_def Let_def split: if_splits)

text \<open>What a device check of the slices establishes.\<close>

lemma check_ranges_Ok:
  "check_ranges V repair rs d = (Ok (), d') \<Longrightarrow>
    (\<forall>(expected, start, alloc, count) \<in> set rs. alloc \<and> expected \<le> count)
    \<and> (\<not> repair \<longrightarrow> d' = d)"
  by (induction V repair rs d rule: check_ranges.induct)
     (auto split: if_splits prod.splits res.splits)

lemma check_ranges_keeps: "\<not> repair \<Longrightarrow> snd (check_ranges V repair rs d) = d"
  by (induction V repair rs d rule: check_ranges.induct) auto

lemma CheckSlices_keeps: "snd (CheckSlices V info bps False d) = d"
  by (auto simp: CheckSlices_def check_ranges_keeps split: res.splits)

lemma CheckSlices_Ok:
  assumes "CheckSlices V info bps repair d = (Ok (), d')"
  shows "\<exists>ranges. vol_query_slices V d (slice_starts bps) = Ok ranges \<and> length ranges = 4
    \<and> (\<forall>i < 4. fst (ranges ! i) \<and> expected_slices info ! i \<le> snd (ranges ! i))"
proof -
  obtain ranges where r: "vol_query_slices V d (slice_starts bps) = Ok ranges" "length ranges = 4"
    "check_ranges V repair (zip (expected_slices info) (zip (slice_starts bps) ranges)) d
      = (Ok (), d')"
    using assms by (auto simp: CheckSlices_def split: res.splits if_splits)
  have "fst (ranges ! i) \<and> expected_slices info ! i \<le> snd (ranges ! i)" if "i < 4" for i
  proof -
    have "(expected_slices info ! i, slice_starts bps ! i, ranges ! i)
        \<in> set (zip (expected_slices info) (zip (slice_starts bps) ranges))"
      using that r(2) by (force simp: set_zip expected_slices_def slice_starts_def)
    then show ?thesis using check_ranges_Ok [OF r(3)] by (cases "ranges ! i") fastforce
  qed
  with r show ?thesis by blast
qed

section \<open>Formatting a volume\<close>

lemma CreateFvmData_Ok:
  assumes "CreateFvmData V md n info d = (Ok (), info', d')" "vol_get_info V d = Ok sz"
  defines "bps \<equiv> u32 sz div kMinfsBlockSize"
  shows "bps \<noteq> 0" "slice_size info' = u32 sz" "slice_size info' mod kMinfsBlockSize = 0"
    "(flags info' AND kMinfsFlagFVM) \<noteq> 0"
    "ibm_slices info' = 1" "abm_slices info' = 1"
    "ino_slices info' = u32 ((128 + bps - 1) div bps)"
    "dat_slices info' = n" "0 < n"
    "\<exists>limits. TransactionLimits md info' = Ok limits
      \<and> integrity_slices info' = u32 (round_up (rec_integrity_blocks limits) bps div bps)"
proof -
  have k: "(kMinfsDefaultInodeCount + kMinfsInodesPerBlock - 1) div kMinfsInodesPerBlock = 128"
    by (simp add: format_consts)
  have fvm: "((flags info OR kMinfsFlagFVM) AND kMinfsFlagFVM) \<noteq> 0"
    using or_and_self [of "flags info" kMinfsFlagFVM] by (simp add: kMinfsFlagFVM_def)
  note d = assms(1) [unfolded CreateFvmData_def assms(2) k]
  show "bps \<noteq> 0" "slice_size info' = u32 sz" "slice_size info' mod kMinfsBlockSize = 0"
    "(flags info' AND kMinfsFlagFVM) \<noteq> 0"
    "ibm_slices info' = 1" "abm_slices info' = 1"
    "ino_slices info' = u32 ((128 + bps - 1) div bps)" "dat_slices info' = n" "0 < n"
    "\<exists>limits. TransactionLimits md info' = Ok limits
      \<and> integrity_slices info' = u32 (round_up (rec_integrity_blocks limits) bps div bps)"
    using d fvm by (auto simp: Let_def bps_def SetMinfsFlagFvm_def BlockSize_def
        TransactionLimits_def GetBlockBitmapBlocks_def
        split: res.splits if_splits prod.splits)
qed

lemma TransactionLimits_less:
  "TransactionLimits md info = Ok lim \<Longrightarrow>
    min_integrity_blocks lim < 4294967296 \<and> rec_integrity_blocks lim < 4294967296"
  by (auto simp: TransactionLimits_def CalculateIntegrityBlocks_def Let_def kDefaultJournalBlocks_def)

lemma CheckSuperblock_UpdateChecksum:
  assumes "CheckSuperblock crc md host_check_slices info max_blocks = Ok ()"
  shows "CheckSuperblock crc md host_check_slices (UpdateChecksum crc info) max_blocks = Ok ()"
proof -
  have "checksum (UpdateChecksum crc info) = crc (UpdateChecksum crc info\<lparr>checksum := 0\<rparr>)"
    using UpdateChecksum_ok [of crc info] by (simp add: checksum_ok_def)
  moreover have "VerifySlicesSize (UpdateChecksum crc info) = VerifySlicesSize info"
    by (rule ext)+ (simp add: VerifySlicesSize_def Let_def)
  ultimately show ?thesis
    using assms by (auto simp: CheckSuperblock_def host_check_slices_def BlockSize_def Let_def
        split: if_splits)
qed

section \<open>Properties\<close>

text \<open>A formatted FVM volume with slices of 128 blocks, as the witnesses use it.\<close>

definition fvm_example :: superblock where
  "fvm_example = \<lparr>magic0 = kMinfsMagic0, magic1 = kMinfsMagic1,
     major_version = kMinfsCurrentMajorVersion, deprecated2 = 0, checksum = 0,
     generation_count = 1, flags = 3, block_size = kMinfsBlockSize,
     inode_size = kMinfsInodeSize, block_count = 256, inode_count = 4096,
     alloc_block_count = 2, alloc_inode_count = 2, ibm_block = 65536, abm_block = 131072,
     ino_block = 196608, integrity_start_block = 262144, dat_block = 327680,
     slice_size = 1048576, deprecated1 = 0, ibm_slices = 1, abm_slices = 1, ino_slices = 1,
     integrity_slices = 2, dat_slices = 2, unlinked_head = 0, unlinked_tail = 0,
     oldest_minor_version = kMinfsCurrentMinorVersion, reserved = []\<rparr>"

lemma fvm_example_bitmap: "GetBlockBitmapBlocks fvm_example = Ok 128"
  by (simp add: GetBlockBitmapBlocks_def BlockSize_def fvm_example_def format_consts width_simps)

lemma fvm_example_limits:
  "\<exists>lim. TransactionLimits 2040 fvm_example = Ok lim \<and> min_integrity_blocks lim = 144"
  using TransactionLimits_eq [OF _ fvm_example_bitmap, of 2040]
  by (simp add: fvm_example_def ceil_div_def format_consts)

lemma fvm_example_wf: "superblock_wf fvm_example"
  by (simp add: superblock_wf_def fvm_example_def format_consts)

lemma fvm_example_layout: "fvm_layout fvm_example 144 128"
  by (simp add: fvm_layout_def fvm_example_def format_consts)

lemma fvm_example_accepted:
  "CheckSuperblock (\<lambda>_. 0) 2040 host_check_slices fvm_example 0 = Ok ()"
proof -
  obtain lim where lim: "TransactionLimits 2040 fvm_example = Ok lim"
    "min_integrity_blocks lim = 144"
    using fvm_example_limits by blast
  have v: "VerifySlicesSize fvm_example lim 128 = Ok ()"
    using fvm_example_layout
    by (subst VerifySlicesSize_layout)
       (simp_all add: fvm_example_wf lim, simp_all add: fvm_example_def format_consts)
  have f: "block_size fvm_example = kMinfsBlockSize" "inode_size fvm_example = kMinfsInodeSize"
    "magic0 fvm_example = kMinfsMagic0" "magic1 fvm_example = kMinfsMagic1"
    "major_version fvm_example = kMinfsCurrentMajorVersion" "checksum fvm_example = 0"
    "alloc_block_count fvm_example \<le> block_count fvm_example"
    "alloc_inode_count fvm_example \<le> inode_count fvm_example"
    "(flags fvm_example AND kMinfsFlagFVM) \<noteq> 0"
    "slice_size fvm_example div kMinfsBlockSize = 128"
    by (simp_all add: fvm_example_def format_consts)
  show ?thesis
    unfolding CheckSuperblock_def Let_def host_check_slices_def BlockSize_def lim(1) f(1-6)
    using f(7-9) v by (simp add: f(10))
qed

text \<open>C11: On a volume with slices of fewer than 524289 blocks, \<open>VerifySlicesSize\<close> accepts a well-formed
  superblock exactly when its sections have room for what they must hold and end before the next
  section starts, provided the inode and block counts are at least one bitmap block below 2^32
  (closer to it the 32-bit sums of the code wrap, see \<open>VerifySlicesSize_wraps\<close>).\<close>

theorem VerifySlicesSize_correct:
  assumes "superblock_wf info" "bps < 524289"
    "inode_count info + kMinfsBlockBits < 4294967296"
    "block_count info + kMinfsBlockBits < 4294967296"
  shows "VerifySlicesSize info limits bps = Ok ()
    \<longleftrightarrow> fvm_layout info (min_integrity_blocks limits) bps"
  using assms by (rule VerifySlicesSize_layout)

theorem VerifySlicesSize_correct_witness:
  "\<exists>lim. TransactionLimits 2040 fvm_example = Ok lim \<and> VerifySlicesSize fvm_example lim 128 = Ok ()"
proof -
  obtain lim where lim: "TransactionLimits 2040 fvm_example = Ok lim"
    "min_integrity_blocks lim = 144"
    using fvm_example_limits by blast
  moreover have "VerifySlicesSize fvm_example lim 128 = Ok ()"
    using fvm_example_layout lim(2)
    by (subst VerifySlicesSize_correct)
       (simp_all add: fvm_example_wf, simp_all add: fvm_example_def format_consts)
  ultimately show ?thesis by blast
qed

text \<open>Near 2^32 the 32-bit sums wrap: a superblock that claims 2^32 - 1 inodes in a single slice
  of inode table passes.\<close>

lemma VerifySlicesSize_wraps:
  "VerifySlicesSize (fvm_example\<lparr>inode_count := 4294967295\<rparr>)
     (lim\<lparr>min_integrity_blocks := 144\<rparr>) 128 = Ok ()
   \<and> \<not> fvm_layout (fvm_example\<lparr>inode_count := 4294967295\<rparr>) 144 128"
proof -
  have "needed_blocks 4294967295 kMinfsBlockBits = 0"
    "needed_blocks 4294967295 kMinfsInodesPerBlock = 0"
    "needed_blocks 256 kMinfsBlockBits = 1"
    by (simp_all add: needed_blocks_def format_consts u32_def u32_sub_def)
  then show ?thesis
    unfolding VerifySlicesSize_def fvm_layout_def Let_def
    by (simp add: fvm_example_def u64_id) (simp add: format_consts)
qed

text \<open>C12: A superblock that \<open>CheckSuperblock\<close> accepts on a device with slices has a valid
  checksum, the supported version and sizes, allocation counts within the totals, and the
  device reports every one of the inode bitmap, block bitmap, inode table and data sections
  as allocated with at least the slices the superblock claims; the check does not change the
  device.\<close>

theorem CheckSuperblock_target_sound:
  assumes "CheckSuperblock crc md (target_check_slices V d) info max_blocks = Ok ()"
    "(flags info AND kMinfsFlagFVM) \<noteq> 0"
  shows "checksum_ok crc info \<and> major_version info = kMinfsCurrentMajorVersion
    \<and> block_size info = kMinfsBlockSize \<and> inode_size info = kMinfsInodeSize
    \<and> alloc_block_count info \<le> block_count info \<and> alloc_inode_count info \<le> inode_count info
    \<and> (\<exists>ranges. vol_query_slices V d (slice_starts (slice_size info div kMinfsBlockSize)) = Ok ranges
        \<and> (\<forall>i < 4. fst (ranges ! i) \<and> expected_slices info ! i \<le> snd (ranges ! i)))
    \<and> snd (CheckSlices V info (slice_size info div kMinfsBlockSize) False d) = d"
proof -
  obtain limits where l: "target_check_slices V d info (slice_size info div kMinfsBlockSize) = Ok ()"
    using CheckSuperblock_fvm_Ok [OF assms] by blast
  then have "CheckSlices V info (slice_size info div kMinfsBlockSize) False d = (Ok (), d)"
    using CheckSlices_keeps [of V info "slice_size info div kMinfsBlockSize" d]
    by (metis prod.collapse target_check_slices_def)
  from CheckSlices_Ok [OF this] obtain ranges where
    "vol_query_slices V d (slice_starts (slice_size info div kMinfsBlockSize)) = Ok ranges"
    "\<forall>i < 4. fst (ranges ! i) \<and> expected_slices info ! i \<le> snd (ranges ! i)"
    by blast
  then show ?thesis
    unfolding CheckSlices_keeps using CheckSuperblock_Ok [OF assms(1)] by (intro conjI exI) simp_all
qed

text \<open>A volume that answers every query with two allocated slices.\<close>

definition example_volume :: "unit volume" where
  "example_volume = \<lparr>vol_get_info = (\<lambda>d. Ok 1048576),
     vol_query_slices = (\<lambda>d starts. Ok (replicate (length starts) (True, 2))),
     vol_extend = (\<lambda>off len d. (Ok (), d)), vol_shrink = (\<lambda>off len d. (Ok (), d)),
     vol_reset_slices = (\<lambda>d. (Ok (), d))\<rparr>"

lemma example_volume_simps [simp]:
  "vol_get_info example_volume d = Ok 1048576"
  "vol_query_slices example_volume d starts = Ok (replicate (length starts) (True, 2))"
  "vol_extend example_volume off len d = (Ok (), d)"
  "vol_shrink example_volume off len d = (Ok (), d)"
  "vol_reset_slices example_volume d = (Ok (), d)"
  by (simp_all add: example_volume_def)

lemma fvm_example_slices: "target_check_slices example_volume () fvm_example 128 = Ok ()"
proof -
  have s: "slice_size fvm_example = 1048576" "expected_slices fvm_example = [1, 1, 1, 2]"
    by (simp_all add: fvm_example_def expected_slices_def)
  have r: "replicate 4 (True, 2 :: nat) = [(True, 2), (True, 2), (True, 2), (True, 2)]"
    by (simp add: numeral_eq_Suc)
  have l: "length (slice_starts 128) = 4" by (simp add: slice_starts_def)
  have z: "zip [1, 1, 1, 2] (zip (slice_starts 128) (replicate 4 (True, 2 :: nat)))
      = [(1, kFVMBlockInodeBmStart div 128, True, 2), (1, kFVMBlockDataBmStart div 128, True, 2),
         (1, kFVMBlockInodeStart div 128, True, 2), (2 :: nat, kFVMBlockDataStart div 128, True, 2)]"
    unfolding r slice_starts_def by simp
  show ?thesis
    unfolding target_check_slices_def CheckSlices_def example_volume_simps s l res.case z by simp
qed

lemma fvm_example_target_accepted:
  "CheckSuperblock (\<lambda>_. 0) 2040 (target_check_slices example_volume ()) fvm_example 0 = Ok ()"
proof -
  have "slice_size fvm_example div kMinfsBlockSize = 128"
    by (simp add: fvm_example_def kMinfsBlockSize_def)
  then show ?thesis
    using fvm_example_accepted fvm_example_slices
    by (auto simp: CheckSuperblock_def host_check_slices_def BlockSize_def Let_def split: if_splits)
qed

theorem CheckSuperblock_target_sound_witness: "checksum_ok (\<lambda>_. 0) fvm_example"
  using CheckSuperblock_target_sound [OF fvm_example_target_accepted]
  by (simp add: fvm_example_def kMinfsFlagFVM_def)

text \<open>C13: For a well-formed superblock without slices that is accepted, the checksum is valid, the data
  section ends at the size of the device modulo 2^32, and if the integrity section starts at or
  before the data section, it leaves room there for the smallest journal that holds one transaction
  of maximum size. Sections in the other order are accepted too, see \<open>CheckSuperblock_reversed_sections\<close>.\<close>

theorem CheckSuperblock_no_fvm_sound:
  assumes "CheckSuperblock crc md check info max_blocks = Ok ()"
    "(flags info AND kMinfsFlagFVM) = 0" "superblock_wf info"
  shows "checksum_ok crc info \<and> (dat_block info + block_count info) mod 4294967296 = max_blocks
    \<and> (\<exists>limits. TransactionLimits md info = Ok limits \<and>
         (integrity_start_block info \<le> dat_block info \<longrightarrow>
            integrity_start_block info + min_integrity_blocks limits \<le> dat_block info))"
proof -
  have "dat_block info < 4294967296" using assms(3) by (simp add: superblock_wf_def)
  then show ?thesis
    using assms(1,2) CheckSuperblock_Ok [OF assms(1)]
    by (auto simp: CheckSuperblock_def Let_def u32_def u32_sub_id split: if_splits)
qed

text \<open>The witness superblock without slices: \<open>limits_example\<close>, whose minimum integrity section
  is 17 blocks.\<close>

lemma limits_example_accepted:
  "CheckSuperblock (\<lambda>_. 0) 2040 check limits_example 4300 = Ok ()"
proof -
  obtain lim where lim: "TransactionLimits 2040 limits_example = Ok lim"
    "min_integrity_blocks lim = 17"
    using TransactionLimits_eq [OF limits_example_block_size limits_example_bitmap, of 2040]
    by (simp add: ceil_div_def format_consts)
  show ?thesis
    unfolding CheckSuperblock_def Let_def lim(1)
    using lim(2) by (simp add: limits_example_def) (simp add: kMinfsFlagClean_def kMinfsFlagFVM_def width_simps)
qed

theorem CheckSuperblock_no_fvm_sound_witness: "checksum_ok (\<lambda>_. 0) limits_example"
  using CheckSuperblock_no_fvm_sound [OF limits_example_accepted [of host_check_slices]]
  by (simp add: limits_example_def superblock_wf_def format_consts)

text \<open>The difference of the two block numbers is taken in 32 bits: an integrity section that
  starts after the data passes the size check.\<close>

lemma CheckSuperblock_reversed_sections:
  "CheckSuperblock (\<lambda>_. 0) 2040 check (limits_example\<lparr>integrity_start_block := 301\<rparr>) 4300 = Ok ()"
proof -
  let ?s = "limits_example\<lparr>integrity_start_block := 301\<rparr>"
  have "GetBlockBitmapBlocks ?s = Ok 1" "block_size ?s = kMinfsBlockSize"
    by (simp_all add: GetBlockBitmapBlocks_def limits_example_def format_consts width_simps)
  then obtain lim where lim: "TransactionLimits 2040 ?s = Ok lim" "min_integrity_blocks lim = 17"
    using TransactionLimits_eq [of ?s 1 2040] by (simp add: ceil_div_def format_consts)
  have d: "u32_sub 300 301 = 4294967295" by (simp add: u32_sub_def u32_def)
  show ?thesis
    unfolding CheckSuperblock_def Let_def lim(1)
    using lim(2) by (simp add: limits_example_def d)
      (simp add: kMinfsFlagClean_def kMinfsFlagFVM_def width_simps)
qed

text \<open>\<open>SuperblockManager::Write\<close> leaves a clean manager whose superblock has a valid checksum
  and the next generation count and is accepted if it was accepted before, and enqueues the
  block of the primary copy and then, for a backup update, that of the backup copy at the place
  that the FVM flag selects.\<close>

theorem SuperblockManager_Write_correct:
  assumes "r = SuperblockManager_Write crc (pw_enqueue_metadata list_work) upd (sm, q)"
  shows "\<not> sm_dirty (fst r) \<and> checksum_ok crc (sm_info (fst r))
    \<and> generation_count (sm_info (fst r)) = u32 (generation_count (sm_info sm) + 1)
    \<and> (CheckSuperblock crc md host_check_slices (sm_info sm) mb = Ok () \<longrightarrow>
       CheckSuperblock crc md host_check_slices (sm_info (fst r)) mb = Ok ())
    \<and> snd r = q @ [(write_op 0 0 1, SuperblockBuf)] @
        (if upd then [(write_op 0 (if GetFlagFvm (sm_info sm) then kFvmSuperblockBackup
                                   else kNonFvmSuperblockBackup) 1, SuperblockBuf)] else [])"
  unfolding assms SuperblockManager_Write_def Let_def prod.case
  using list_queue.enqueue_metadata_of
  by (simp add: MutableInfo_def CheckSuperblock_UpdateChecksum superblock_dev_offset_def
      GetFlagFvm_def fvm_flag_iff fvm_flag_pos kSuperblockStart_def)

theorem SuperblockManager_Write_correct_witness:
  "CheckSuperblock (\<lambda>_. 0) 2040 host_check_slices
     (sm_info (fst (SuperblockManager_Write (\<lambda>_. 0) (pw_enqueue_metadata list_work) True
        (\<lparr>sm_info = fvm_example, sm_dirty = True\<rparr>, [])))) 0 = Ok ()"
  using SuperblockManager_Write_correct
    [OF refl, of "\<lambda>_. 0" True "\<lparr>sm_info = fvm_example, sm_dirty = True\<rparr>" "[]" 2040 0]
  by (simp add: fvm_example_accepted)

text \<open>C14: When \<open>CreateFvmData\<close> succeeds on a device whose volume manager reports a slice size below
  2^32 (on a device without one it returns ok and does nothing), the superblock is marked for FVM, the
  inode table slices hold at least the default number of inodes, one slice of inode bitmap covers
  them, the integrity slices hold the recommended journal, and there are as many data slices as asked
  for, at least one.\<close>

theorem CreateFvmData_capacity:
  assumes "CreateFvmData V md n info d = (Ok (), info', d')" "vol_get_info V d = Ok sz"
    "sz < 4294967296"
  defines "bps \<equiv> sz div kMinfsBlockSize"
  shows "GetFlagFvm info' \<and> kMinfsDefaultInodeCount \<le> ino_slices info' * bps * kMinfsInodesPerBlock
    \<and> ino_slices info' * bps * kMinfsInodesPerBlock \<le> ibm_slices info' * slice_size info' * 8
    \<and> (\<exists>limits. TransactionLimits md info' = Ok limits
         \<and> rec_integrity_blocks limits \<le> integrity_slices info' * bps)
    \<and> dat_slices info' = n \<and> 0 < n"
proof -
  have sz: "u32 sz = sz" using assms(3) by (simp add: u32_id)
  note c = CreateFvmData_Ok [OF assms(1,2), unfolded sz, folded bps_def]
  have bps: "0 < bps" using c(1) by simp
  have szb: "sz = bps * kMinfsBlockSize"
    using c(2,3) by (auto simp: bps_def)
  have bb: "bps < 524289" using assms(3) szb by (simp add: kMinfsBlockSize_def)
  have cd: "ceil_div 128 bps * bps \<ge> 128" "ceil_div 128 bps * bps < 128 + bps"
  proof -
    show "128 \<le> ceil_div 128 bps * bps" using ceil_div_le_iff [OF bps, of 128 "ceil_div 128 bps"] by simp
    have "ceil_div 128 bps * bps \<le> 128 + bps - 1" by (simp add: ceil_div_def)
    then show "ceil_div 128 bps * bps < 128 + bps" using bps by linarith
  qed
  have "ceil_div 128 bps \<le> 128"
    using ceil_div_le_iff [OF bps, of 128 128] bps by simp
  then have ino: "ino_slices info' = ceil_div 128 bps"
    using c(7) by (simp add: ceil_div_def u32_id)
  have fvm: "GetFlagFvm info'" using c(4) by (simp add: GetFlagFvm_def fvm_flag_pos)
  obtain limits where l: "TransactionLimits md info' = Ok limits"
    "integrity_slices info' = u32 (round_up (rec_integrity_blocks limits) bps div bps)"
    using c(10) by blast
  have r: "rec_integrity_blocks limits < 4294967296" using TransactionLimits_less [OF l(1)] by simp
  have q: "round_up (rec_integrity_blocks limits) bps div bps = ceil_div (rec_integrity_blocks limits) bps"
    using bps by (simp add: round_up_def ceil_div_def)
  have "ceil_div (rec_integrity_blocks limits) bps \<le> rec_integrity_blocks limits"
    using ceil_div_le_iff [OF bps] bps by simp
  then have "integrity_slices info' = ceil_div (rec_integrity_blocks limits) bps"
    using l(2) q r by (simp add: u32_id)
  then have integ: "rec_integrity_blocks limits \<le> integrity_slices info' * bps"
    using ceil_div_le_iff [OF bps, of "rec_integrity_blocks limits" "integrity_slices info'"] by simp
  have m: "ino_slices info' * bps * 32 \<le> slice_size info' * 8"
    using cd bps unfolding ino c(2) szb kMinfsBlockSize_def by linarith
  show ?thesis
    using fvm cd l(1) integ c(8,9) m unfolding ino c(5)
    by (auto simp: format_consts mult.commute)
qed

theorem CreateFvmData_capacity_witness:
  "\<exists>info'. CreateFvmData example_volume 2040 4 fvm_example () = (Ok (), info', ())
    \<and> GetFlagFvm info' \<and> dat_slices info' = 4"
proof -
  have v: "u32 1048576 = 1048576" by (simp add: u32_id)
  have f: "flags fvm_example = 3" "block_size fvm_example = kMinfsBlockSize"
    by (simp_all add: fvm_example_def)
  define info1 where "info1 = SetMinfsFlagFvm (fvm_example\<lparr>slice_size := 1048576\<rparr>)
    \<lparr>ibm_slices := 1, abm_slices := 1, ino_slices := u32 ((128 + 128 - 1) div 128)\<rparr>"
  have "(flags info1 AND kMinfsFlagFVM) \<noteq> 0"
    by (simp add: info1_def SetMinfsFlagFvm_def) (simp add: kMinfsFlagFVM_def)
  then have "GetBlockBitmapBlocks info1 = Ok 128" "block_size info1 = kMinfsBlockSize"
    by (simp_all add: GetBlockBitmapBlocks_def)
       (simp_all add: info1_def SetMinfsFlagFvm_def BlockSize_def f kMinfsBlockSize_def width_simps)
  then obtain lim where "TransactionLimits 2040 info1 = Ok lim"
    using TransactionLimits_eq [of info1 128 2040] by simp
  then have "\<exists>info'. CreateFvmData example_volume 2040 4 fvm_example () = (Ok (), info', ())"
    by (auto simp: CreateFvmData_def Let_def SetMinfsFlagFvm_def BlockSize_def f info1_def
        format_consts v)
  then obtain info' where "CreateFvmData example_volume 2040 4 fvm_example () = (Ok (), info', ())"
    by blast
  with CreateFvmData_capacity [OF this] show ?thesis by simp
qed

end
