(* ===== verification/Bitmap.thy ===== *)
theory Bitmap
  imports Format
begin

text \<open>
  The interface of the bitmap library, \<open>bitmap::RawBitmapGeneric\<close> and \<open>bitmap::RleBitmap\<close>, which
  is not part of this repository. The components take its operations as a record; the
  predicates \<open>raw_bitmap_laws\<close> and \<open>rle_bitmap_laws\<close> state the documented behaviour the code
  relies on. The list instances at the end of the theory satisfy the laws, so that the
  theorems of the components can be applied to concrete inputs.
\<close>

section \<open>Raw bitmaps\<close>

text \<open>\<open>rb_find b v lo hi\<close> is \<open>Find(v, lo, hi, 1, &out)\<close>; \<open>rb_scan b lo hi v\<close> is
  \<open>Scan(lo, hi, v, &out)\<close>, with no value when every bit of the range is \<open>v\<close>.\<close>

record 'b raw_bitmap =
  rb_reset :: "nat \<Rightarrow> 'b res"
  rb_size :: "'b \<Rightarrow> nat"
  rb_get :: "'b \<Rightarrow> nat \<Rightarrow> bool"
  rb_set :: "'b \<Rightarrow> nat \<Rightarrow> nat \<Rightarrow> 'b"
  rb_clear :: "'b \<Rightarrow> nat \<Rightarrow> nat \<Rightarrow> 'b"
  rb_find :: "'b \<Rightarrow> bool \<Rightarrow> nat \<Rightarrow> nat \<Rightarrow> nat option"
  rb_scan :: "'b \<Rightarrow> nat \<Rightarrow> nat \<Rightarrow> bool \<Rightarrow> nat option"
  rb_grow :: "'b \<Rightarrow> nat \<Rightarrow> 'b res"
  rb_shrink :: "'b \<Rightarrow> nat \<Rightarrow> 'b res"

text \<open>The first index of a range whose bit is \<open>v\<close>.\<close>

definition first_with :: "(nat \<Rightarrow> bool) \<Rightarrow> bool \<Rightarrow> nat \<Rightarrow> nat \<Rightarrow> nat option \<Rightarrow> bool" where
  "first_with get v lo hi r \<longleftrightarrow>
     (case r of
        None \<Rightarrow> \<forall>i. lo \<le> i \<and> i < hi \<longrightarrow> get i \<noteq> v
      | Some j \<Rightarrow> lo \<le> j \<and> j < hi \<and> get j = v \<and> (\<forall>i. lo \<le> i \<and> i < j \<longrightarrow> get i \<noteq> v))"

lemma first_with_None [simp]:
  "first_with get v lo hi None \<longleftrightarrow> (\<forall>i. lo \<le> i \<and> i < hi \<longrightarrow> get i \<noteq> v)"
  by (simp add: first_with_def)

lemma first_with_Some [simp]:
  "first_with get v lo hi (Some j)
    \<longleftrightarrow> lo \<le> j \<and> j < hi \<and> get j = v \<and> (\<forall>i. lo \<le> i \<and> i < j \<longrightarrow> get i \<noteq> v)"
  by (simp add: first_with_def)

text \<open>One law per operation.\<close>

definition law_reset :: "('b, 'z) raw_bitmap_scheme \<Rightarrow> bool" where
  "law_reset B \<longleftrightarrow> (\<forall>n b. rb_reset B n = Ok b \<longrightarrow>
     rb_size B b = n \<and> (\<forall>i < n. \<not> rb_get B b i))"

definition law_set :: "('b, 'z) raw_bitmap_scheme \<Rightarrow> bool" where
  "law_set B \<longleftrightarrow> (\<forall>b lo hi. lo \<le> hi \<and> hi \<le> rb_size B b \<longrightarrow>
     rb_size B (rb_set B b lo hi) = rb_size B b \<and>
     (\<forall>i < rb_size B b. rb_get B (rb_set B b lo hi) i
        \<longleftrightarrow> (lo \<le> i \<and> i < hi) \<or> rb_get B b i))"

definition law_clear :: "('b, 'z) raw_bitmap_scheme \<Rightarrow> bool" where
  "law_clear B \<longleftrightarrow> (\<forall>b lo hi. lo \<le> hi \<and> hi \<le> rb_size B b \<longrightarrow>
     rb_size B (rb_clear B b lo hi) = rb_size B b \<and>
     (\<forall>i < rb_size B b. rb_get B (rb_clear B b lo hi) i
        \<longleftrightarrow> \<not> (lo \<le> i \<and> i < hi) \<and> rb_get B b i))"

definition law_find :: "('b, 'z) raw_bitmap_scheme \<Rightarrow> bool" where
  "law_find B \<longleftrightarrow> (\<forall>b v lo hi. hi \<le> rb_size B b \<longrightarrow>
     first_with (rb_get B b) v lo hi (rb_find B b v lo hi))"

definition law_scan :: "('b, 'z) raw_bitmap_scheme \<Rightarrow> bool" where
  "law_scan B \<longleftrightarrow> (\<forall>b v lo hi. hi \<le> rb_size B b \<longrightarrow>
     first_with (rb_get B b) (\<not> v) lo hi (rb_scan B b lo hi v))"

definition law_grow :: "('b, 'z) raw_bitmap_scheme \<Rightarrow> bool" where
  "law_grow B \<longleftrightarrow> (\<forall>b n b'. rb_grow B b n = Ok b' \<and> rb_size B b \<le> n \<longrightarrow>
     rb_size B b' = n \<and> (\<forall>i < n. rb_get B b' i \<longleftrightarrow> i < rb_size B b \<and> rb_get B b i))"

definition law_shrink :: "('b, 'z) raw_bitmap_scheme \<Rightarrow> bool" where
  "law_shrink B \<longleftrightarrow>
     (\<forall>b n. n \<le> rb_size B b \<longrightarrow> (\<exists>b'. rb_shrink B b n = Ok b')) \<and>
     (\<forall>b n b'. rb_shrink B b n = Ok b' \<longrightarrow> n \<le> rb_size B b \<and> rb_size B b' = n \<and>
        (\<forall>i < n. rb_get B b' i \<longleftrightarrow> rb_get B b i))"

definition raw_bitmap_laws :: "('b, 'z) raw_bitmap_scheme \<Rightarrow> bool" where
  "raw_bitmap_laws B \<longleftrightarrow> law_reset B \<and> law_set B \<and> law_clear B \<and> law_find B \<and> law_scan B
     \<and> law_grow B \<and> law_shrink B"

lemmas raw_bitmap_law_defs =
  law_reset_def law_set_def law_clear_def law_find_def law_scan_def law_grow_def law_shrink_def

lemma raw_bitmap_lawsD:
  assumes "raw_bitmap_laws B"
  shows "law_reset B" "law_set B" "law_clear B" "law_find B" "law_scan B" "law_grow B"
    "law_shrink B"
  using assms by (simp_all add: raw_bitmap_laws_def)

text \<open>The set of indices whose bit is set.\<close>

definition bits_set :: "('b, 'z) raw_bitmap_scheme \<Rightarrow> 'b \<Rightarrow> nat set" where
  "bits_set B b = {i. i < rb_size B b \<and> rb_get B b i}"

lemma finite_bits_set [simp]: "finite (bits_set B b)"
  by (simp add: bits_set_def)

lemma raw_bitmap_set:
  assumes "raw_bitmap_laws B" "lo \<le> hi" "hi \<le> rb_size B b"
  shows "rb_size B (rb_set B b lo hi) = rb_size B b"
    and "\<forall>i < rb_size B b. rb_get B (rb_set B b lo hi) i \<longleftrightarrow> (lo \<le> i \<and> i < hi) \<or> rb_get B b i"
  using assms(2-) raw_bitmap_lawsD [OF assms(1)] by (auto simp: law_set_def)

lemma raw_bitmap_clear:
  assumes "raw_bitmap_laws B" "lo \<le> hi" "hi \<le> rb_size B b"
  shows "rb_size B (rb_clear B b lo hi) = rb_size B b"
    and "\<forall>i < rb_size B b. rb_get B (rb_clear B b lo hi) i \<longleftrightarrow> \<not> (lo \<le> i \<and> i < hi) \<and> rb_get B b i"
  using assms(2-) raw_bitmap_lawsD [OF assms(1)] by (auto simp: law_clear_def)

lemma bits_set_set:
  assumes "raw_bitmap_laws B" "lo \<le> hi" "hi \<le> rb_size B b"
  shows "bits_set B (rb_set B b lo hi) = bits_set B b \<union> {lo..<hi}"
  using raw_bitmap_set [OF assms] assms(3) by (auto simp: bits_set_def)

lemma bits_set_clear:
  assumes "raw_bitmap_laws B" "lo \<le> hi" "hi \<le> rb_size B b"
  shows "bits_set B (rb_clear B b lo hi) = bits_set B b - {lo..<hi}"
  using raw_bitmap_clear [OF assms] assms(3) by (auto simp: bits_set_def)

lemma raw_bitmap_find:
  assumes "raw_bitmap_laws B" "hi \<le> rb_size B b"
  shows "first_with (rb_get B b) v lo hi (rb_find B b v lo hi)"
  using assms(2-) raw_bitmap_lawsD [OF assms(1)] by (auto simp: law_find_def)

lemma raw_bitmap_scan:
  assumes "raw_bitmap_laws B" "hi \<le> rb_size B b"
  shows "first_with (rb_get B b) (\<not> v) lo hi (rb_scan B b lo hi v)"
  using assms(2-) raw_bitmap_lawsD [OF assms(1)] by (auto simp: law_scan_def)

lemma raw_bitmap_reset:
  assumes "raw_bitmap_laws B" "rb_reset B n = Ok b"
  shows "rb_size B b = n" "bits_set B b = {}"
  using assms(2-) raw_bitmap_lawsD [OF assms(1)] by (auto simp: law_reset_def bits_set_def)

lemma raw_bitmap_grow:
  assumes "raw_bitmap_laws B" "rb_grow B b n = Ok b'" "rb_size B b \<le> n"
  shows "rb_size B b' = n" "bits_set B b' = bits_set B b"
proof -
  have *: "rb_size B b' = n \<and> (\<forall>i < n. rb_get B b' i \<longleftrightarrow> i < rb_size B b \<and> rb_get B b i)"
    using assms(2-) raw_bitmap_lawsD [OF assms(1)] by (auto simp: law_grow_def)
  then show "rb_size B b' = n" "bits_set B b' = bits_set B b"
    using assms(3) by (auto simp: bits_set_def)
qed

lemma raw_bitmap_shrink:
  assumes "raw_bitmap_laws B" "rb_shrink B b n = Ok b'"
  shows "n \<le> rb_size B b" "rb_size B b' = n" "bits_set B b' = {i \<in> bits_set B b. i < n}"
proof -
  have *: "n \<le> rb_size B b \<and> rb_size B b' = n \<and> (\<forall>i < n. rb_get B b' i \<longleftrightarrow> rb_get B b i)"
    using assms(2-) raw_bitmap_lawsD [OF assms(1)] by (auto simp: law_shrink_def)
  then show "n \<le> rb_size B b" "rb_size B b' = n" "bits_set B b' = {i \<in> bits_set B b. i < n}"
    by (auto simp: bits_set_def)
qed

lemma raw_bitmap_shrink_ok:
  assumes "raw_bitmap_laws B" "n \<le> rb_size B b"
  shows "\<exists>b'. rb_shrink B b n = Ok b'"
  using assms(2-) raw_bitmap_lawsD [OF assms(1)] by (auto simp: law_shrink_def)

section \<open>Run length encoded bitmaps\<close>

text \<open>
  \<open>rle_next_clear r start\<close> is \<open>Find(false, start, size_t max, 1, &out)\<close>; \<open>rle_ranges\<close> is the
  iteration over the elements, as pairs of \<open>bitoff\<close> and \<open>bitlen\<close>.
\<close>

record 'r rle_bitmap =
  rle_empty :: 'r
  rle_get :: "'r \<Rightarrow> nat \<Rightarrow> bool"
  rle_set_one :: "'r \<Rightarrow> nat \<Rightarrow> 'r res"
  rle_clear_one :: "'r \<Rightarrow> nat \<Rightarrow> 'r"
  rle_num_bits :: "'r \<Rightarrow> nat"
  rle_next_clear :: "'r \<Rightarrow> nat \<Rightarrow> nat"
  rle_ranges :: "'r \<Rightarrow> (nat \<times> nat) list"

definition rle_set :: "('r, 'z) rle_bitmap_scheme \<Rightarrow> 'r \<Rightarrow> nat set" where
  "rle_set R r = {i. rle_get R r i}"

definition range_set :: "nat \<times> nat \<Rightarrow> nat set" where
  "range_set p = {fst p..<fst p + snd p}"

text \<open>The elements come in ascending order, non-empty and with a gap between them.\<close>

fun ranges_ok :: "(nat \<times> nat) list \<Rightarrow> bool" where
  "ranges_ok [] \<longleftrightarrow> True"
| "ranges_ok [p] \<longleftrightarrow> 0 < snd p"
| "ranges_ok (p # q # ps) \<longleftrightarrow> 0 < snd p \<and> fst p + snd p < fst q \<and> ranges_ok (q # ps)"

definition law_rle_one :: "('r, 'z) rle_bitmap_scheme \<Rightarrow> bool" where
  "law_rle_one R \<longleftrightarrow>
     (\<forall>r i r'. rle_set_one R r i = Ok r' \<longrightarrow> rle_set R r' = insert i (rle_set R r)) \<and>
     (\<forall>r i. rle_set R (rle_clear_one R r i) = rle_set R r - {i})"

definition law_rle_bits :: "('r, 'z) rle_bitmap_scheme \<Rightarrow> bool" where
  "law_rle_bits R \<longleftrightarrow> rle_set R (rle_empty R) = {} \<and>
     (\<forall>r. finite (rle_set R r) \<and> rle_num_bits R r = card (rle_set R r))"

definition law_rle_find :: "('r, 'z) rle_bitmap_scheme \<Rightarrow> bool" where
  "law_rle_find R \<longleftrightarrow>
     (\<forall>r start. start \<le> rle_next_clear R r start \<and> rle_next_clear R r start \<notin> rle_set R r \<and>
        (\<forall>i. start \<le> i \<and> i < rle_next_clear R r start \<longrightarrow> i \<in> rle_set R r))"

definition law_rle_ranges :: "('r, 'z) rle_bitmap_scheme \<Rightarrow> bool" where
  "law_rle_ranges R \<longleftrightarrow>
     (\<forall>r. ranges_ok (rle_ranges R r) \<and> \<Union> (range_set ` set (rle_ranges R r)) = rle_set R r)"

definition rle_bitmap_laws :: "('r, 'z) rle_bitmap_scheme \<Rightarrow> bool" where
  "rle_bitmap_laws R \<longleftrightarrow> law_rle_one R \<and> law_rle_bits R \<and> law_rle_find R \<and> law_rle_ranges R"

lemmas rle_law_defs = law_rle_one_def law_rle_bits_def law_rle_find_def law_rle_ranges_def

lemma rle_bitmap_lawsD:
  assumes "rle_bitmap_laws R"
  shows "law_rle_one R" "law_rle_bits R" "law_rle_find R" "law_rle_ranges R"
  using assms by (simp_all add: rle_bitmap_laws_def)

lemma rle_empty_set [simp]: "rle_bitmap_laws R \<Longrightarrow> rle_set R (rle_empty R) = {}"
  by (simp add: rle_bitmap_laws_def law_rle_bits_def)

lemma rle_set_finite: "rle_bitmap_laws R \<Longrightarrow> finite (rle_set R r)"
  by (simp add: rle_bitmap_laws_def law_rle_bits_def)

lemma rle_set_one_set:
  "rle_bitmap_laws R \<Longrightarrow> rle_set_one R r i = Ok r' \<Longrightarrow> rle_set R r' = insert i (rle_set R r)"
  by (simp add: rle_bitmap_laws_def law_rle_one_def)

lemma rle_clear_one_set [simp]:
  "rle_bitmap_laws R \<Longrightarrow> rle_set R (rle_clear_one R r i) = rle_set R r - {i}"
  by (simp add: rle_bitmap_laws_def law_rle_one_def)

lemma rle_num_bits_card: "rle_bitmap_laws R \<Longrightarrow> rle_num_bits R r = card (rle_set R r)"
  by (simp add: rle_bitmap_laws_def law_rle_bits_def)

lemma rle_next_clear_spec:
  assumes "rle_bitmap_laws R"
  shows "start \<le> rle_next_clear R r start" "rle_next_clear R r start \<notin> rle_set R r"
    "start \<le> i \<Longrightarrow> i < rle_next_clear R r start \<Longrightarrow> i \<in> rle_set R r"
  using rle_bitmap_lawsD(3) [OF assms] unfolding law_rle_find_def by blast+

lemma rle_ranges_spec:
  assumes "rle_bitmap_laws R"
  shows "ranges_ok (rle_ranges R r)" "\<Union> (range_set ` set (rle_ranges R r)) = rle_set R r"
  using rle_bitmap_lawsD(4) [OF assms] unfolding law_rle_ranges_def by blast+

section \<open>List instances\<close>

fun list_find :: "bool list \<Rightarrow> bool \<Rightarrow> nat \<Rightarrow> nat \<Rightarrow> nat option" where
  "list_find b v lo 0 = None"
| "list_find b v lo (Suc n) = (if b ! lo = v then Some lo else list_find b v (Suc lo) n)"

definition list_bitmap :: "bool list raw_bitmap" where
  "list_bitmap =
    \<lparr>rb_reset = (\<lambda>n. Ok (replicate n False)),
     rb_size = length,
     rb_get = (\<lambda>b i. b ! i),
     rb_set = (\<lambda>b lo hi. splice lo (replicate (hi - lo) True) b),
     rb_clear = (\<lambda>b lo hi. splice lo (replicate (hi - lo) False) b),
     rb_find = (\<lambda>b v lo hi. list_find b v lo (hi - lo)),
     rb_scan = (\<lambda>b lo hi v. list_find b (\<not> v) lo (hi - lo)),
     rb_grow = (\<lambda>b n. Ok (take n b @ replicate (n - length b) False)),
     rb_shrink = (\<lambda>b n. if n \<le> length b then Ok (take n b) else Err ZX_ERR_INVALID_ARGS)\<rparr>"

lemma list_find_None: "list_find b v lo n = None \<Longrightarrow> lo \<le> i \<Longrightarrow> i < lo + n \<Longrightarrow> b ! i \<noteq> v"
proof (induction b v lo n rule: list_find.induct)
  case (2 b v lo n)
  then show ?case by (cases "i = lo") (auto split: if_splits)
qed simp

lemma list_find_Some:
  "list_find b v lo n = Some j \<Longrightarrow>
    lo \<le> j \<and> j < lo + n \<and> b ! j = v \<and> (\<forall>i. lo \<le> i \<and> i < j \<longrightarrow> b ! i \<noteq> v)"
proof (induction b v lo n rule: list_find.induct)
  case (2 b v lo n)
  show ?case
  proof (cases "b ! lo = v")
    case False
    with 2 have IH: "Suc lo \<le> j \<and> j < Suc lo + n \<and> b ! j = v
        \<and> (\<forall>i. Suc lo \<le> i \<and> i < j \<longrightarrow> b ! i \<noteq> v)" by simp
    have "b ! i \<noteq> v" if "lo \<le> i" "i < j" for i
      using IH False that by (cases "i = lo") auto
    with IH show ?thesis by simp
  qed (use 2 in auto)
qed simp

lemma list_find_first_with: "first_with ((!) b) v lo hi (list_find b v lo (hi - lo))"
proof (cases "list_find b v lo (hi - lo)")
  case None
  have "b ! i \<noteq> v" if "lo \<le> i" "i < hi" for i
    by (rule list_find_None [OF None that(1)]) (use that in simp)
  with None show ?thesis by (auto simp: first_with_def)
next
  case (Some j)
  from list_find_Some [OF this] Some show ?thesis by (auto simp: first_with_def)
qed

lemma list_bitmap_simps [simp]:
  "rb_reset list_bitmap n = Ok (replicate n False)"
  "rb_size list_bitmap b = length b"
  "rb_get list_bitmap = (!)"
  "rb_set list_bitmap b lo hi = splice lo (replicate (hi - lo) True) b"
  "rb_clear list_bitmap b lo hi = splice lo (replicate (hi - lo) False) b"
  "rb_find list_bitmap b v lo hi = list_find b v lo (hi - lo)"
  "rb_scan list_bitmap b lo hi v = list_find b (\<not> v) lo (hi - lo)"
  "rb_grow list_bitmap b n = Ok (take n b @ replicate (n - length b) False)"
  "rb_shrink list_bitmap b n
    = (if n \<le> length b then Ok (take n b) else Err ZX_ERR_INVALID_ARGS)"
  by (simp_all add: list_bitmap_def)

lemma list_bitmap_laws: "raw_bitmap_laws list_bitmap"
  unfolding raw_bitmap_laws_def raw_bitmap_law_defs list_bitmap_simps
proof (intro conjI allI impI list_find_first_with)
  fix b :: "bool list" and n i b'
  assume "Ok (take n b @ replicate (n - length b) False) = Ok b' \<and> length b \<le> n" "i < n"
  then show "b' ! i \<longleftrightarrow> i < length b \<and> b ! i"
    by (cases "i < length b") (auto simp: nth_append)
qed (auto simp: nth_splice split: if_splits)

text \<open>Run length encoded bitmaps as distinct sorted lists of indices.\<close>

fun list_next_clear :: "nat list \<Rightarrow> nat \<Rightarrow> nat" where
  "list_next_clear [] start = start"
| "list_next_clear (x # xs) start = list_next_clear xs (if x = start then Suc start else start)"

fun list_runs :: "nat list \<Rightarrow> (nat \<times> nat) list" where
  "list_runs [] = []"
| "list_runs (x # xs) =
    (case list_runs xs of
       [] \<Rightarrow> [(x, 1)]
     | (off, len) # rs \<Rightarrow> if off = Suc x then (x, Suc len) # rs else (x, 1) # (off, len) # rs)"

typedef index_set = "{xs :: nat list. sorted xs \<and> distinct xs}"
  by (rule exI [where x = "[]"]) simp

setup_lifting type_definition_index_set

lift_definition indices :: "index_set \<Rightarrow> nat list" is "\<lambda>xs. xs" .

lift_definition index_empty :: index_set is "[]" by simp

lift_definition index_insert :: "index_set \<Rightarrow> nat \<Rightarrow> index_set" is
  "\<lambda>xs i. if i \<in> set xs then xs else insort i xs"
  by (auto simp: sorted_insort distinct_insort)

lift_definition index_remove :: "index_set \<Rightarrow> nat \<Rightarrow> index_set" is "\<lambda>xs i. remove1 i xs"
  by (auto simp: sorted_remove1)

definition list_rle :: "index_set rle_bitmap" where
  "list_rle =
    \<lparr>rle_empty = index_empty,
     rle_get = (\<lambda>r i. i \<in> set (indices r)),
     rle_set_one = (\<lambda>r i. Ok (index_insert r i)),
     rle_clear_one = index_remove,
     rle_num_bits = (\<lambda>r. length (indices r)),
     rle_next_clear = (\<lambda>r start. list_next_clear (indices r) start),
     rle_ranges = (\<lambda>r. list_runs (indices r))\<rparr>"

lemma list_next_clear_spec:
  "sorted xs \<Longrightarrow> distinct xs \<Longrightarrow>
    start \<le> list_next_clear xs start \<and> list_next_clear xs start \<notin> set xs
    \<and> (\<forall>i. start \<le> i \<and> i < list_next_clear xs start \<longrightarrow> i \<in> set xs)"
proof (induction xs arbitrary: start)
  case (Cons x xs)
  show ?case
  proof (cases "x = start")
    case True
    then show ?thesis using Cons.IH [of "Suc start"] Cons.prems
      by (auto simp: Suc_le_eq nat_less_le)
  next
    case False
    have "list_next_clear xs start \<noteq> x"
    proof
      assume eq: "list_next_clear xs start = x"
      then have "start < x" using Cons.IH [of start] Cons.prems False by (auto simp: nat_less_le)
      then have "start \<in> set xs" using Cons.IH [of start] Cons.prems eq by auto
      with Cons.prems \<open>start < x\<close> show False by auto
    qed
    then show ?thesis using Cons.IH [of start] Cons.prems False by auto
  qed
qed simp

lemma list_runs_spec:
  "sorted xs \<Longrightarrow> distinct xs \<Longrightarrow>
    ranges_ok (list_runs xs) \<and> \<Union> (range_set ` set (list_runs xs)) = set xs
    \<and> (\<forall>off len rs. list_runs xs = (off, len) # rs \<longrightarrow> xs \<noteq> [] \<and> off = hd xs)"
proof (induction xs)
  case (Cons x xs)
  have IH: "ranges_ok (list_runs xs)" "\<Union> (range_set ` set (list_runs xs)) = set xs"
    "\<And>off len rs. list_runs xs = (off, len) # rs \<Longrightarrow> xs \<noteq> [] \<and> off = hd xs"
    using Cons by auto
  show ?case
  proof (cases "list_runs xs")
    case Nil
    then show ?thesis using IH(2) by (auto simp: range_set_def)
  next
    case (Cons p rs)
    obtain off len where p: "p = (off, len)" by (cases p)
    have off: "off \<in> set xs" using IH(3) [of off len rs] Cons p by (metis hd_in_set)
    have x: "x < off" using off Cons.prems by (auto simp: nat_less_le)
    have r: "ranges_ok ((off, len) # rs)" using IH(1) Cons p by simp
    have u: "set xs = {off..<off + len} \<union> \<Union> (range_set ` set rs)"
      using IH(2) Cons p by (simp add: range_set_def)
    have len: "0 < len" using r by (cases rs) auto
    show ?thesis
    proof (cases "off = Suc x")
      case True
      have "ranges_ok ((x, Suc len) # rs)" using r True by (cases rs) auto
      moreover have "{x..<x + Suc len} = insert x {off..<off + len}" using True by auto
      ultimately show ?thesis using True Cons p u by (auto simp: range_set_def)
    next
      case False
      then show ?thesis using Cons p u x r by (auto simp: range_set_def)
    qed
  qed
qed simp

lemma list_rle_laws: "rle_bitmap_laws list_rle"
proof -
  have s: "sorted (indices r) \<and> distinct (indices r)" for r by (transfer) simp
  have i: "set (indices (index_insert r i)) = insert i (set (indices r))"
    "set (indices (index_remove r i)) = set (indices r) - {i}"
    "indices index_empty = []" for r i
    by (transfer, auto simp: set_insort_key)+
  have n: "start \<le> list_next_clear (indices r) start \<and>
      list_next_clear (indices r) start \<notin> set (indices r) \<and>
      (\<forall>i. start \<le> i \<and> i < list_next_clear (indices r) start \<longrightarrow> i \<in> set (indices r))" for r start
    using s list_next_clear_spec by blast
  have t: "ranges_ok (list_runs (indices r)) \<and>
      \<Union> (range_set ` set (list_runs (indices r))) = set (indices r)" for r
    using s list_runs_spec by blast
  show ?thesis
    unfolding rle_bitmap_laws_def rle_law_defs list_rle_def rle_set_def
    using n t s by (auto simp: i distinct_card)
qed

end
