(* ===== verification/Repair.thy ===== *)
theory Repair
  imports Superblock Bitmap
begin

text \<open>
  Loading and repairing the superblock: the second half of \<open>fsck.cc\<close> (\<open>LoadSuperblock\<close>,
  \<open>ReadBackupSuperblock\<close>, \<open>RepairSuperblock\<close>, \<open>ReconstructAllocCounts\<close>,
  \<open>CalculateBitsSetBitmap\<close>, the \<open>Used...\<close> queries) and the two functions of \<open>minfs.cc\<close> that
  call it. Reading a block, the device check, reading a bitmap and issuing the writes are
  parameters.
\<close>

section \<open>Loading\<close>

definition LoadSuperblock ::
  "(nat \<Rightarrow> superblock res) \<Rightarrow> (superblock \<Rightarrow> nat \<Rightarrow> unit res) \<Rightarrow> nat \<Rightarrow> superblock res" where
  "LoadSuperblock readblk check maxblk =
     res_bind (readblk kSuperblockStart) (\<lambda>info. res_bind (check info maxblk) (\<lambda>_. Ok info))"

definition UsedDataSize :: "superblock res \<Rightarrow> nat res" where
  "UsedDataSize info_or =
     res_bind info_or (\<lambda>info. Ok (u64 (alloc_block_count info * block_size info)))"

definition UsedInodes :: "superblock res \<Rightarrow> nat res" where
  "UsedInodes info_or = res_bind info_or (\<lambda>info. Ok (alloc_inode_count info))"

definition UsedSize :: "superblock res \<Rightarrow> nat res" where
  "UsedSize info_or = res_bind info_or (\<lambda>info.
     Ok (u64 (u64 (NonDataBlocks info + alloc_block_count info) * block_size info)))"

section \<open>Counting the bits of a bitmap\<close>

partial_function (option) count_bits_loop ::
  "('b, 'z) raw_bitmap_scheme \<Rightarrow> 'b \<Rightarrow> nat \<Rightarrow> nat \<Rightarrow> nat option" where
  "count_bits_loop B b off cnt =
    (if off < rb_size B b then
       (case rb_find B b True off (rb_size B b) of
          Some ind \<Rightarrow>
            (case rb_scan B b ind (rb_size B b) True of
               None \<Rightarrow> Some (cnt + (rb_size B b - ind))
             | Some scan_ind \<Rightarrow> count_bits_loop B b (scan_ind + 1) (cnt + (scan_ind - ind)))
        | None \<Rightarrow> Some cnt)
     else Some cnt)"

text \<open>The result is \<open>None\<close> if the loop does not end. \<open>load\<close> is the read of the bitmap's blocks
  into its storage.\<close>

definition CalculateBitsSetBitmap ::
  "('b, 'z) raw_bitmap_scheme \<Rightarrow> (nat \<Rightarrow> nat \<Rightarrow> 'b \<Rightarrow> 'b res) \<Rightarrow> nat \<Rightarrow> nat \<Rightarrow> nat res option" where
  "CalculateBitsSetBitmap B load start_block num_blocks =
    (case res_bind (rb_reset B (u32 (num_blocks * kMinfsBlockBits))) (load start_block num_blocks) of
       Err e \<Rightarrow> Some (Err e)
     | Panic \<Rightarrow> Some Panic
     | Ok b \<Rightarrow> (case count_bits_loop B b 0 0 of None \<Rightarrow> None | Some cnt \<Rightarrow> Some (Ok (u32 cnt))))"

text \<open>The counts are stored one after the other: an error on the inode bitmap leaves the new block
  count in place.\<close>

definition ReconstructAllocCounts ::
  "('b, 'z) raw_bitmap_scheme \<Rightarrow> (nat \<Rightarrow> nat \<Rightarrow> 'b \<Rightarrow> 'b res) \<Rightarrow> superblock
    \<Rightarrow> (unit res \<times> superblock) option" where
  "ReconstructAllocCounts B load info =
    (case CalculateBitsSetBitmap B load (abm_block info)
            (needed_blocks (block_count info) kMinfsBlockBits) of
       None \<Rightarrow> None
     | Some (Err e) \<Rightarrow> Some (Err e, info)
     | Some Panic \<Rightarrow> Some (Panic, info)
     | Some (Ok blocks) \<Rightarrow>
         let info = info\<lparr>alloc_block_count := blocks\<rparr> in
         (case CalculateBitsSetBitmap B load (ibm_block info)
                 (needed_blocks (inode_count info) kMinfsBlockBits) of
            None \<Rightarrow> None
          | Some (Err e) \<Rightarrow> Some (Err e, info)
          | Some Panic \<Rightarrow> Some (Panic, info)
          | Some (Ok inodes) \<Rightarrow> Some (Ok (), info\<lparr>alloc_inode_count := inodes\<rparr>)))"

section \<open>Repair from the backup\<close>

definition WriteSuperblockAndBackupSuperblock ::
  "unit res \<Rightarrow> (operation list \<Rightarrow> superblock \<Rightarrow> unit res) \<Rightarrow> superblock \<Rightarrow> unit res" where
  "WriteSuperblockAndBackupSuperblock buffer_init run info =
     res_bind buffer_init (\<lambda>_.
       run [write_op 0 kSuperblockStart 1,
            write_op 0 (if (flags info AND kMinfsFlagFVM) \<noteq> 0 then kFvmSuperblockBackup
                        else kNonFvmSuperblockBackup) 1] info)"

text \<open>\<open>read\<close> takes the byte offset, computed in 32 bits.\<close>

definition ReadBackupSuperblock ::
  "(nat \<Rightarrow> superblock res) \<Rightarrow> (superblock \<Rightarrow> nat \<Rightarrow> unit res) \<Rightarrow> nat \<Rightarrow> nat \<Rightarrow> superblock res" where
  "ReadBackupSuperblock read check max_blocks backup_location =
     res_bind (read (u32 (backup_location * kMinfsBlockSize))) (\<lambda>backup.
     res_bind (check backup max_blocks) (\<lambda>_.
       if backup_location = kFvmSuperblockBackup \<and> (flags backup AND kMinfsFlagFVM) = 0
         then Err ZX_ERR_BAD_STATE
       else if backup_location = kNonFvmSuperblockBackup \<and> (flags backup AND kMinfsFlagFVM) \<noteq> 0
         then Err ZX_ERR_BAD_STATE
       else Ok backup))"

definition RepairSuperblock ::
  "(superblock \<Rightarrow> nat) \<Rightarrow> ('b, 'z) raw_bitmap_scheme \<Rightarrow> (nat \<Rightarrow> nat \<Rightarrow> 'b \<Rightarrow> 'b res)
    \<Rightarrow> (nat \<Rightarrow> superblock res) \<Rightarrow> (superblock \<Rightarrow> nat \<Rightarrow> unit res) \<Rightarrow> unit res
    \<Rightarrow> (operation list \<Rightarrow> superblock \<Rightarrow> unit res) \<Rightarrow> nat \<Rightarrow> superblock res option" where
  "RepairSuperblock crc B load read check buffer_init run max_blocks =
    (let backup_or =
           (case ReadBackupSuperblock read check max_blocks kFvmSuperblockBackup of
              Err e \<Rightarrow> ReadBackupSuperblock read check max_blocks kNonFvmSuperblockBackup
            | r \<Rightarrow> r)
     in case backup_or of
       Err e \<Rightarrow> Some (Err e)
     | Panic \<Rightarrow> Some Panic
     | Ok backup \<Rightarrow>
         (case ReconstructAllocCounts B load backup of
            None \<Rightarrow> None
          | Some (Err e, _) \<Rightarrow> Some (Err e)
          | Some (Panic, _) \<Rightarrow> Some Panic
          | Some (Ok _, backup) \<Rightarrow>
              let backup = UpdateChecksum crc backup in
              (case WriteSuperblockAndBackupSuperblock buffer_init run backup of
                 Panic \<Rightarrow> Some Panic
               | _ \<Rightarrow> Some (Ok backup))))"

text \<open>\<open>repair_superblock\<close> is \<open>RepairSuperblock\<close> on the device, and \<open>ZX_ERR_NOT_SUPPORTED\<close> on the
  host.\<close>

definition LoadSuperblockWithRepair ::
  "superblock res \<Rightarrow> superblock res \<Rightarrow> bool \<Rightarrow> superblock res" where
  "LoadSuperblockWithRepair load_superblock repair_superblock repair =
    (case load_superblock of
       Err e \<Rightarrow> if \<not> repair then Err e else repair_superblock
     | r \<Rightarrow> r)"

text \<open>Returns the journal superblock and the reloaded superblock. On a failed replay the code
  calls \<open>take_value\<close> on the error, which aborts.\<close>

definition ReplayJournalReloadSuperblock ::
  "'j res \<Rightarrow> superblock res \<Rightarrow> ('j \<times> superblock) res" where
  "ReplayJournalReloadSuperblock journal_block_or reload =
    (case journal_block_or of
       Err e \<Rightarrow> res_value (Err e)
     | Panic \<Rightarrow> Panic
     | Ok journal_block \<Rightarrow> res_bind reload (\<lambda>info. Ok (journal_block, info)))"

section \<open>The bit count is the number of set bits\<close>

lemma count_bits_loop_correct:
  assumes laws: "raw_bitmap_laws B"
  shows "count_bits_loop B b off cnt = Some (cnt + card {i \<in> bits_set B b. off \<le> i})"
proof (induction "rb_size B b - off" arbitrary: off cnt rule: less_induct)
  case less
  let ?n = "rb_size B b"
  note find = raw_bitmap_find [OF laws order_refl, of b True off]
  note scan = raw_bitmap_scan [OF laws order_refl, of b True]
  show ?case
  proof (cases "off < ?n")
    case False
    then have "{i \<in> bits_set B b. off \<le> i} = {}" by (auto simp: bits_set_def)
    with False show ?thesis by (simp add: count_bits_loop.simps)
  next
    case True
    show ?thesis
    proof (cases "rb_find B b True off ?n")
      case None
      then have "{i \<in> bits_set B b. off \<le> i} = {}" using find by (auto simp: bits_set_def)
      then show ?thesis
        using True None by (subst count_bits_loop.simps) simp
    next
      case (Some ind)
      with find have ind: "off \<le> ind" "ind < ?n" "rb_get B b ind"
        "\<And>i. off \<le> i \<Longrightarrow> i < ind \<Longrightarrow> \<not> rb_get B b i" by auto
      show ?thesis
      proof (cases "rb_scan B b ind ?n True")
        case None
        then have "{i \<in> bits_set B b. off \<le> i} = {ind..<?n}"
          using scan [of ind] ind by (auto simp: bits_set_def not_less [symmetric])
        then show ?thesis
          using True Some None ind(2) by (subst count_bits_loop.simps) simp
      next
        case scan_some: (Some j)
        with scan [of ind] have j: "ind \<le> j" "j < ?n" "\<not> rb_get B b j"
          "\<And>i. ind \<le> i \<Longrightarrow> i < j \<Longrightarrow> rb_get B b i" by auto
        have "{i \<in> bits_set B b. off \<le> i}
            = {ind..<j} \<union> {i \<in> bits_set B b. j + 1 \<le> i}" (is "_ = _ \<union> ?rest")
        proof (rule set_eqI)
          fix i show "i \<in> {i \<in> bits_set B b. off \<le> i}
              \<longleftrightarrow> i \<in> {ind..<j} \<union> {i \<in> bits_set B b. j + 1 \<le> i}"
            using ind j by (cases i j rule: linorder_cases; cases "i < ind") (auto simp: bits_set_def)
        qed
        moreover have "card ({ind..<j} \<union> ?rest) = (j - ind) + card ?rest"
          by (subst card_Un_disjoint) auto
        moreover have "count_bits_loop B b (j + 1) (cnt + (j - ind))
            = Some (cnt + (j - ind) + card ?rest)"
          using ind j by (intro less) auto
        ultimately show ?thesis
          using True Some scan_some by (subst count_bits_loop.simps) simp
      qed
    qed
  qed
qed

lemma CalculateBitsSetBitmap_eq:
  assumes "raw_bitmap_laws B"
    "res_bind (rb_reset B (u32 (num * kMinfsBlockBits))) (load start num) = Ok b"
  shows "CalculateBitsSetBitmap B load start num = Some (Ok (u32 (card (bits_set B b))))"
  unfolding CalculateBitsSetBitmap_def assms(2) count_bits_loop_correct [OF assms(1)] by simp

lemma CalculateBitsSetBitmap_returns:
  assumes "raw_bitmap_laws B"
  shows "\<exists>r. CalculateBitsSetBitmap B load start num = Some r"
  using assms by (auto simp: CalculateBitsSetBitmap_def count_bits_loop_correct split: res.splits)

text \<open>C15: \<open>CalculateBitsSetBitmap\<close> always returns, and when its blocks could be read the result is
  the number of bits set in the bitmap.\<close>

theorem CalculateBitsSetBitmap_correct:
  assumes "raw_bitmap_laws B"
  shows "case res_bind (rb_reset B (u32 (num * kMinfsBlockBits))) (load start num) of
      Ok b \<Rightarrow> CalculateBitsSetBitmap B load start num = Some (Ok (u32 (card (bits_set B b))))
    | Err e \<Rightarrow> CalculateBitsSetBitmap B load start num = Some (Err e)
    | Panic \<Rightarrow> CalculateBitsSetBitmap B load start num = Some Panic"
  using assms
  by (auto simp: CalculateBitsSetBitmap_def count_bits_loop_correct split: res.splits)

theorem CalculateBitsSetBitmap_correct_witness:
  "CalculateBitsSetBitmap list_bitmap (\<lambda>s n b. Ok [True, False, True]) 7 0 = Some (Ok 2)"
proof -
  have "bits_set list_bitmap [True, False, True] = {0, 2}"
    by (auto simp: bits_set_def less_Suc_eq)
  then show ?thesis
    using CalculateBitsSetBitmap_correct
      [OF list_bitmap_laws, where num = 0 and load = "\<lambda>s n b. Ok [True, False, True]" and start = 7]
    by (simp add: u32_def)
qed

section \<open>Repair produces a valid superblock\<close>

lemma ReconstructAllocCounts_Ok:
  assumes "raw_bitmap_laws B" "ReconstructAllocCounts B load info = Some (Ok (), info')"
  shows "\<exists>abm ibm. res_bind (rb_reset B (u32 (needed_blocks (block_count info) kMinfsBlockBits
          * kMinfsBlockBits)))
        (load (abm_block info) (needed_blocks (block_count info) kMinfsBlockBits)) = Ok abm
    \<and> res_bind (rb_reset B (u32 (needed_blocks (inode_count info) kMinfsBlockBits
          * kMinfsBlockBits)))
        (load (ibm_block info) (needed_blocks (inode_count info) kMinfsBlockBits)) = Ok ibm
    \<and> info' = info\<lparr>alloc_block_count := u32 (card (bits_set B abm)),
        alloc_inode_count := u32 (card (bits_set B ibm))\<rparr>"
  using assms(2) unfolding ReconstructAllocCounts_def CalculateBitsSetBitmap_def
    count_bits_loop_correct [OF assms(1)]
  by (auto simp: Let_def split: res.splits)

lemma ReadBackupSuperblock_Ok:
  assumes "ReadBackupSuperblock read check mb loc = Ok backup"
  shows "read (u32 (loc * kMinfsBlockSize)) = Ok backup \<and> check backup mb = Ok ()
    \<and> (loc = kFvmSuperblockBackup \<longrightarrow> GetFlagFvm backup)
    \<and> (loc = kNonFvmSuperblockBackup \<longrightarrow> \<not> GetFlagFvm backup)"
  using assms
  by (auto simp: ReadBackupSuperblock_def GetFlagFvm_def fvm_flag_pos kMinfsFlagFVM_nz
      split: if_splits)

text \<open>C16: What \<open>RepairSuperblock\<close> returns is a backup superblock, accepted, and with an FVM flag that
  agrees with the place it was read from, where only four fields differ: the two allocation counts,
  which are the numbers of bits set in the block bitmap and the inode bitmap on the device, the
  generation count, which is the next one, and the checksum, which is valid. The backup is the one for
  volumes with slices unless that one cannot be used.\<close>

theorem RepairSuperblock_sound:
  assumes "raw_bitmap_laws B"
    "RepairSuperblock crc B load read check buffer_init run mb = Some (Ok sb)"
  shows "\<exists>backup loc abm ibm sum. read (u32 (loc * kMinfsBlockSize)) = Ok backup
    \<and> check backup mb = Ok ()
    \<and> loc = (if GetFlagFvm backup then kFvmSuperblockBackup else kNonFvmSuperblockBackup)
    \<and> (\<not> GetFlagFvm backup \<longrightarrow> (\<exists>e. ReadBackupSuperblock read check mb kFvmSuperblockBackup = Err e))
    \<and> sb = backup\<lparr>alloc_block_count := u32 (card (bits_set B abm)),
        alloc_inode_count := u32 (card (bits_set B ibm)),
        generation_count := u32 (generation_count backup + 1), checksum := sum\<rparr>
    \<and> checksum_ok crc sb
    \<and> res_bind (rb_reset B (u32 (needed_blocks (block_count backup) kMinfsBlockBits
          * kMinfsBlockBits)))
        (load (abm_block backup) (needed_blocks (block_count backup) kMinfsBlockBits)) = Ok abm
    \<and> res_bind (rb_reset B (u32 (needed_blocks (inode_count backup) kMinfsBlockBits
          * kMinfsBlockBits)))
        (load (ibm_block backup) (needed_blocks (inode_count backup) kMinfsBlockBits)) = Ok ibm"
proof -
  obtain backup info' where b: "ReadBackupSuperblock read check mb kFvmSuperblockBackup = Ok backup
      \<or> ReadBackupSuperblock read check mb kNonFvmSuperblockBackup = Ok backup
        \<and> (\<exists>e. ReadBackupSuperblock read check mb kFvmSuperblockBackup = Err e)"
    and r: "ReconstructAllocCounts B load backup = Some (Ok (), info')" "sb = UpdateChecksum crc info'"
    using assms(2) by (fastforce simp: RepairSuperblock_def Let_def split: res.splits option.splits)
  obtain abm ibm where i: "info' = backup\<lparr>alloc_block_count := u32 (card (bits_set B abm)),
        alloc_inode_count := u32 (card (bits_set B ibm))\<rparr>"
    "res_bind (rb_reset B (u32 (needed_blocks (block_count backup) kMinfsBlockBits
          * kMinfsBlockBits)))
        (load (abm_block backup) (needed_blocks (block_count backup) kMinfsBlockBits)) = Ok abm"
    "res_bind (rb_reset B (u32 (needed_blocks (inode_count backup) kMinfsBlockBits
          * kMinfsBlockBits)))
        (load (ibm_block backup) (needed_blocks (inode_count backup) kMinfsBlockBits)) = Ok ibm"
    using ReconstructAllocCounts_Ok [OF assms(1) r(1)] by blast
  have sb: "sb = backup\<lparr>alloc_block_count := u32 (card (bits_set B abm)),
        alloc_inode_count := u32 (card (bits_set B ibm)),
        generation_count := u32 (generation_count backup + 1), checksum := checksum sb\<rparr>"
    unfolding r(2) i(1) by (simp add: UpdateChecksum_def Let_def)
  have ok: "checksum_ok crc sb" by (simp add: r(2))
  let ?loc = "if GetFlagFvm backup then kFvmSuperblockBackup else kNonFvmSuperblockBackup"
  have "read (u32 (?loc * kMinfsBlockSize)) = Ok backup \<and> check backup mb = Ok ()
      \<and> (\<not> GetFlagFvm backup \<longrightarrow> (\<exists>e. ReadBackupSuperblock read check mb kFvmSuperblockBackup = Err e))"
    using b ReadBackupSuperblock_Ok [of read check mb _ backup] by auto
  then show ?thesis using sb ok i(2,3) by blast
qed

theorem RepairSuperblock_sound_witness:
  "\<exists>sb sum. RepairSuperblock (\<lambda>_. 5) list_bitmap (\<lambda>s n b. Ok [True, False, True]) (\<lambda>_. Ok fvm_example)
      (\<lambda>_ _. Ok ()) (Ok ()) (\<lambda>_ _. Ok ()) 9 = Some (Ok sb)
    \<and> sb = fvm_example\<lparr>alloc_block_count := 2, alloc_inode_count := 2,
        generation_count := u32 (generation_count fvm_example + 1), checksum := sum\<rparr>"
proof -
  have f: "(flags fvm_example AND kMinfsFlagFVM) \<noteq> 0"
    using or_and_self [of 3 2] by (simp add: fvm_example_def kMinfsFlagFVM_def)
  have "\<exists>sb. RepairSuperblock (\<lambda>_. 5) list_bitmap (\<lambda>s n b. Ok [True, False, True])
      (\<lambda>_. Ok fvm_example) (\<lambda>_ _. Ok ()) (Ok ()) (\<lambda>_ _. Ok ()) 9 = Some (Ok sb)"
    using f by (simp add: RepairSuperblock_def ReadBackupSuperblock_def ReconstructAllocCounts_def
        CalculateBitsSetBitmap_def count_bits_loop_correct [OF list_bitmap_laws]
        WriteSuperblockAndBackupSuperblock_def Let_def kFvmSuperblockBackup_def
        kNonFvmSuperblockBackup_def)
  then obtain sb where sb: "RepairSuperblock (\<lambda>_. 5) list_bitmap (\<lambda>s n b. Ok [True, False, True])
      (\<lambda>_. Ok fvm_example) (\<lambda>_ _. Ok ()) (Ok ()) (\<lambda>_ _. Ok ()) 9 = Some (Ok sb)" by blast
  have "bits_set list_bitmap [True, False, True] = {0, 2}"
    by (auto simp: bits_set_def less_Suc_eq)
  then have count: "u32 (card (bits_set list_bitmap [True, False, True])) = 2" by (simp add: u32_def)
  have loaded: "b = [True, False, True]"
    if "res_bind r (\<lambda>_. Ok [True, False, True]) = Ok b" for b :: "bool list" and r :: "bool list res"
    using that by (cases r) simp_all
  show ?thesis
    using RepairSuperblock_sound [OF list_bitmap_laws sb] sb by (auto dest!: loaded simp: count)
qed

text \<open>A failed journal replay stops the process where an error is meant to be returned.\<close>

lemma ReplayJournal_error_panics:
  "ReplayJournalReloadSuperblock (Err e) reload = Panic"
  by (simp add: ReplayJournalReloadSuperblock_def)

end
