(* ===== verification/Mkfs.thy ===== *)
theory Mkfs
  imports Superblock Bitmap
begin

text \<open>
  \<open>Mkfs\<close> of \<open>minfs.cc\<close>: the choice of the layout, the writes that format the device, and the
  two helpers that size bitmaps and inode tables. The contents of a written block are a value
  of \<open>block_content\<close>; the device, its writes, the journal formatter and, for volumes, the slice
  reservation are parameters.
\<close>

definition BlocksRequiredForInode :: "nat \<Rightarrow> nat res" where
  "BlocksRequiredForInode n =
     checked_cast32 (u64_sub (u64 (n + kMinfsInodesPerBlock)) 1 div kMinfsInodesPerBlock)"

definition BlocksRequiredForBits :: "nat \<Rightarrow> nat res" where
  "BlocksRequiredForBits n =
     checked_cast32 (u64_sub (u64 (n + kMinfsBlockBits)) 1 div kMinfsBlockBits)"

section \<open>The root directory block\<close>

text \<open>The two entries, with the offset at which each is copied.\<close>

definition InitializeDirectory :: "nat \<Rightarrow> nat \<Rightarrow> (nat \<times> dirent \<times> string) list" where
  "InitializeDirectory ino_self ino_parent =
     [(0, \<lparr>de_ino = ino_self, de_reclen = DirentSize 1, de_namelen = 1, de_type = kMinfsTypeDir\<rparr>,
       ''.''),
      (DirentSize 1, \<lparr>de_ino = ino_parent, de_reclen = (DirentSize 2 OR kMinfsReclenLast),
         de_namelen = 2, de_type = kMinfsTypeDir\<rparr>, ''..'')]"

section \<open>Layout\<close>

text \<open>Result of the loop: the superblock, the number of block bitmap blocks and of journal
  blocks. The outer option is \<open>None\<close> if the loop does not end.\<close>

partial_function (option) mkfs_loop ::
  "nat \<Rightarrow> nat \<Rightarrow> nat \<Rightarrow> nat \<Rightarrow> superblock \<Rightarrow> nat \<Rightarrow> nat \<Rightarrow> nat
    \<Rightarrow> (superblock \<times> nat \<times> nat) res option" where
  "mkfs_loop md inoblks ibmblks blocks info rounded abmblks journal =
    (if rounded < blocks then
       if rounded mod 8 \<noteq> 0 then Some Panic
       else
       let info = info\<lparr>ino_block := u32 (abm_block info + rounded)\<rparr> in
       (case TransactionLimits md info of
          Err e \<Rightarrow> Some (Err e)
        | Panic \<Rightarrow> Some Panic
        | Ok limits \<Rightarrow>
            let journal = rec_integrity_blocks limits;
                non_dat = u32 (8 + round_up ibmblks 8 + rounded + inoblks);
                journal = (if u32 (non_dat + journal) \<ge> blocks then min_integrity_blocks limits
                           else journal);
                non_dat = u32 (non_dat + journal)
            in if non_dat \<ge> blocks then Some (Err ZX_ERR_INVALID_ARGS)
            else
            let info = info\<lparr>block_count := u32_sub blocks non_dat\<rparr>;
                abmblks = needed_blocks (block_count info) kMinfsBlockBits
            in if rounded \<ge> abmblks then Some (Ok (info, abmblks, journal))
               else mkfs_loop md inoblks ibmblks blocks info (u32 (rounded + 8)) abmblks journal)
     else Some (Ok (info, abmblks, journal)))"

text \<open>The blocks of inodes and of the inode bitmap.\<close>

definition inode_table_blocks :: "nat \<Rightarrow> nat" where
  "inode_table_blocks inodes = needed_blocks inodes kMinfsInodesPerBlock"

definition inode_bitmap_blocks :: "nat \<Rightarrow> nat" where
  "inode_bitmap_blocks inodes = needed_blocks inodes kMinfsBlockBits"

text \<open>Returns the superblock and the number of block bitmap blocks to write.\<close>

definition mkfs_layout ::
  "nat \<Rightarrow> nat \<Rightarrow> nat \<Rightarrow> superblock \<Rightarrow> (superblock \<times> nat) res option" where
  "mkfs_layout md inodes blocks info =
    (let inoblks = inode_table_blocks inodes;
         ibmblks = inode_bitmap_blocks inodes;
         info = info\<lparr>inode_count := inodes, alloc_block_count := 0, alloc_inode_count := 0\<rparr>
     in if (flags info AND kMinfsFlagFVM) = 0 then
          let info = info\<lparr>ibm_block := 8, abm_block := u32 (8 + round_up ibmblks 8)\<rparr>
          in case mkfs_loop md inoblks ibmblks blocks info 8 0 0 of
               None \<Rightarrow> None
             | Some (Err e) \<Rightarrow> Some (Err e)
             | Some Panic \<Rightarrow> Some Panic
             | Some (Ok (info, abmblks, journal)) \<Rightarrow>
                 let info = info\<lparr>integrity_start_block := u32 (ino_block info + inoblks)\<rparr>;
                     info = info\<lparr>dat_block := u32 (integrity_start_block info + journal),
                              oldest_minor_version := kMinfsCurrentMinorVersion\<rparr>
                 in Some (Ok (info, abmblks))
        else
          let info = info\<lparr>block_count := blocks, ibm_block := kFVMBlockInodeBmStart,
                abm_block := kFVMBlockDataBmStart, ino_block := kFVMBlockInodeStart,
                integrity_start_block := kFvmSuperblockBackup, dat_block := kFVMBlockDataStart,
                oldest_minor_version := kMinfsCurrentMinorVersion\<rparr>
          in Some (Ok (info, needed_blocks blocks kMinfsBlockBits)))"

definition mkfs_initial :: superblock where
  "mkfs_initial = \<lparr>magic0 = kMinfsMagic0, magic1 = kMinfsMagic1,
     major_version = kMinfsCurrentMajorVersion, deprecated2 = 0, checksum = 0,
     generation_count = 0, flags = kMinfsFlagClean, block_size = kMinfsBlockSize,
     inode_size = kMinfsInodeSize, block_count = 0, inode_count = 0,
     alloc_block_count = 0, alloc_inode_count = 0, ibm_block = 0, abm_block = 0,
     ino_block = 0, integrity_start_block = 0, dat_block = 0, slice_size = 0,
     deprecated1 = 0, ibm_slices = 0, abm_slices = 0, ino_slices = 0, integrity_slices = 0,
     dat_slices = 0, unlinked_head = 0, unlinked_tail = 0,
     oldest_minor_version = 0, reserved = replicate 2018 0\<rparr>"

section \<open>Formatting the device\<close>

datatype 'b block_content =
    DirectoryContent "(nat \<times> dirent \<times> string) list"
  | BitmapContent 'b nat
  | InodeContent "(nat \<times> inode) list"
  | SuperblockContent superblock
  | JournalContent nat

text \<open>Sequence of block writes that stops at the first error.\<close>

fun write_blocks ::
  "(nat \<Rightarrow> 'c \<Rightarrow> 'd \<Rightarrow> unit res \<times> 'd) \<Rightarrow> (nat \<times> 'c) list \<Rightarrow> 'd \<Rightarrow> unit res \<times> 'd" where
  "write_blocks writeblk [] d = (Ok (), d)"
| "write_blocks writeblk ((bno, c) # ws) d =
    (case writeblk bno c d of (Ok _, d) \<Rightarrow> write_blocks writeblk ws d | r \<Rightarrow> r)"

definition root_inode :: "nat \<Rightarrow> inode" where
  "root_inode now = zero_inode\<lparr>i_magic := kMinfsMagicDir, i_size := kMinfsBlockSize,
     i_block_count := 1, i_link_count := 2, i_dirent_count := 2,
     dnum := (dnum zero_inode)[0 := 1], i_create_time := now\<rparr>"

text \<open>The callback given to the journal formatter.\<close>

fun mkfs_write_journal ::
  "(nat \<Rightarrow> 'b block_content \<Rightarrow> 'd \<Rightarrow> unit res \<times> 'd) \<Rightarrow> superblock \<Rightarrow> nat list \<Rightarrow> nat
    \<Rightarrow> 'd \<Rightarrow> unit res \<times> 'd" where
  "mkfs_write_journal writeblk info [] block_offset d = (Ok (), d)"
| "mkfs_write_journal writeblk info (c # cs) block_offset d =
    (case writeblk (u32 (JournalStartBlock info + block_offset)) (JournalContent c) d of
       (Ok _, d) \<Rightarrow> mkfs_write_journal writeblk info cs (block_offset + 1) d
     | r \<Rightarrow> r)"

definition mkfs_journal_writer ::
  "(nat \<Rightarrow> 'b block_content \<Rightarrow> 'd \<Rightarrow> unit res \<times> 'd) \<Rightarrow> superblock \<Rightarrow> nat list \<Rightarrow> nat
    \<Rightarrow> 'd \<Rightarrow> unit res \<times> 'd" where
  "mkfs_journal_writer writeblk info contents block_offset d =
    (if length contents + block_offset \<le> JournalBlocks info
     then mkfs_write_journal writeblk info contents block_offset d else (Panic, d))"

text \<open>Both bitmaps as large as their blocks, and then shrunk to the real counts.\<close>

definition mkfs_bitmaps :: "('b, 'z) raw_bitmap_scheme \<Rightarrow> superblock \<Rightarrow> ('b \<times> 'b) res" where
  "mkfs_bitmaps B info =
    res_bind (rb_reset B (u32 (round_up (block_count info) kMinfsBlockBits))) (\<lambda>abm.
    res_bind (rb_reset B (u32 (round_up (inode_count info) kMinfsBlockBits))) (\<lambda>ibm.
    res_bind (rb_shrink B abm (block_count info)) (\<lambda>abm.
    res_bind (rb_shrink B ibm (inode_count info)) (\<lambda>ibm.
    Ok (abm, ibm)))))"

text \<open>
  The writes after the layout is known, in order. \<open>BITS\<close> are the operations of the bitmaps,
  \<open>writeblk\<close> is \<open>Bcache::Writeblk\<close>, \<open>make_journal\<close> is \<open>fs::MakeJournal\<close>, \<open>sync\<close> is
  \<open>Bcache::Sync\<close>. Besides the result, the superblock as it is at that point.
\<close>

definition mkfs_write ::
  "(superblock \<Rightarrow> nat) \<Rightarrow> ('b, 'z) raw_bitmap_scheme \<Rightarrow> (nat \<Rightarrow> 'b block_content \<Rightarrow> 'd \<Rightarrow> unit res \<times> 'd)
    \<Rightarrow> (nat \<Rightarrow> (nat list \<Rightarrow> nat \<Rightarrow> 'd \<Rightarrow> unit res \<times> 'd) \<Rightarrow> 'd \<Rightarrow> unit res \<times> 'd) \<Rightarrow> nat
    \<Rightarrow> nat \<Rightarrow> nat \<Rightarrow> nat \<Rightarrow> superblock \<Rightarrow> 'd \<Rightarrow> unit res \<times> superblock \<times> 'd" where
  "mkfs_write crc B writeblk make_journal now inoblks ibmblks abmblks info d =
    (case mkfs_bitmaps B info of
       Err e \<Rightarrow> (Err e, info, d)
     | Panic \<Rightarrow> (Panic, info, d)
     | Ok (abm, ibm) \<Rightarrow>
         (case writeblk (u32 (dat_block info + 1))
                 (DirectoryContent (InitializeDirectory kMinfsRootIno kMinfsRootIno)) d of
            (Err e, d) \<Rightarrow> (Err e, info, d)
          | (Panic, d) \<Rightarrow> (Panic, info, d)
          | (Ok _, d) \<Rightarrow>
              let ibm = rb_set B (rb_set B ibm 0 1) kMinfsRootIno (kMinfsRootIno + 1);
                  abm = rb_set B abm 0 2;
                  info = info\<lparr>alloc_inode_count := u32 (alloc_inode_count info + 2),
                              alloc_block_count := u32 (alloc_block_count info + 2)\<rparr>
              in (case write_blocks writeblk
                         (map (\<lambda>n. (u32 (abm_block info + n), BitmapContent abm n)) [0..<abmblks]
                          @ map (\<lambda>n. (u32 (ibm_block info + n), BitmapContent ibm n)) [0..<ibmblks]
                          @ map (\<lambda>n. (u32 (ino_block info + n), InodeContent [])) [0..<inoblks]) d of
                    (Err e, d) \<Rightarrow> (Err e, info, d)
                  | (Panic, d) \<Rightarrow> (Panic, info, d)
                  | (Ok _, d) \<Rightarrow>
                      let (_, d) = writeblk (ino_block info)
                            (InodeContent [(kMinfsRootIno, root_inode now)]) d;
                          info = UpdateChecksum crc (info\<lparr>generation_count := 0\<rparr>);
                          (_, d) = writeblk kSuperblockStart (SuperblockContent info) d;
                          (_, d) = writeblk (if (flags info AND kMinfsFlagFVM) = 0
                                             then kNonFvmSuperblockBackup else kFvmSuperblockBackup)
                                     (SuperblockContent info) d
                      in (case make_journal (JournalBlocks info)
                                 (mkfs_journal_writer writeblk info) d of
                            (Ok _, d) \<Rightarrow> (Ok (), info, d)
                          | (_, d) \<Rightarrow> (Panic, info, d)))))"

text \<open>
  \<open>fvm_data\<close> is \<open>CreateFvmData\<close> on a device and does nothing on the host; \<open>cleanup\<close> is
  \<open>FreeSlices\<close>, run on every early return.
\<close>

definition Mkfs ::
  "(superblock \<Rightarrow> nat) \<Rightarrow> nat \<Rightarrow> ('b, 'z) raw_bitmap_scheme
    \<Rightarrow> (superblock \<Rightarrow> 'd \<Rightarrow> unit res \<times> superblock \<times> 'd) \<Rightarrow> (superblock \<Rightarrow> 'd \<Rightarrow> 'd)
    \<Rightarrow> (nat \<Rightarrow> 'b block_content \<Rightarrow> 'd \<Rightarrow> unit res \<times> 'd)
    \<Rightarrow> (nat \<Rightarrow> (nat list \<Rightarrow> nat \<Rightarrow> 'd \<Rightarrow> unit res \<times> 'd) \<Rightarrow> 'd \<Rightarrow> unit res \<times> 'd)
    \<Rightarrow> ('d \<Rightarrow> unit res \<times> 'd) \<Rightarrow> nat \<Rightarrow> nat \<Rightarrow> 'd \<Rightarrow> (unit res \<times> 'd) option" where
  "Mkfs crc md B fvm_data cleanup writeblk make_journal sync now maxblk d =
    (case fvm_data mkfs_initial d of
       (Err e, info, d) \<Rightarrow> Some (Err e, cleanup info d)
     | (Panic, info, d) \<Rightarrow> Some (Panic, d)
     | (Ok _, info, d) \<Rightarrow>
         let fvm = (flags info AND kMinfsFlagFVM) \<noteq> 0;
             inodes = (if fvm then u32 (ino_slices info * slice_size info) div kMinfsInodeSize
                       else kMinfsDefaultInodeCount);
             blocks = (if fvm then u32 (dat_slices info * slice_size info) div block_size info
                       else maxblk)
         in (case mkfs_layout md inodes blocks info of
               None \<Rightarrow> None
             | Some (Err e) \<Rightarrow> Some (Err e, cleanup info d)
             | Some Panic \<Rightarrow> Some (Panic, d)
             | Some (Ok (info, abmblks)) \<Rightarrow>
                 (case mkfs_write crc B writeblk make_journal now (inode_table_blocks inodes)
                         (inode_bitmap_blocks inodes) abmblks info d of
                    (Err e, info, d) \<Rightarrow> Some (Err e, cleanup info d)
                  | (Panic, info, d) \<Rightarrow> Some (Panic, d)
                  | (Ok _, info, d) \<Rightarrow> Some (sync d))))"

definition host_fvm_data :: "superblock \<Rightarrow> 'd \<Rightarrow> unit res \<times> superblock \<times> 'd" where
  "host_fvm_data info d = (Ok (), info, d)"

definition target_fvm_data ::
  "('d, 'z) volume_scheme \<Rightarrow> nat \<Rightarrow> nat \<Rightarrow> superblock \<Rightarrow> 'd \<Rightarrow> unit res \<times> superblock \<times> 'd" where
  "target_fvm_data V md fvm_data_slices info d = CreateFvmData V md fvm_data_slices info d"

section \<open>The layout without slices\<close>

text \<open>The smallest integrity section for \<open>r\<close> blocks of block bitmap.\<close>

definition min_integrity :: "nat \<Rightarrow> nat \<Rightarrow> nat" where
  "min_integrity md r = 16 + r + ceil_div (10 + r - md) kMinfsDirectPerIndirect"

lemma min_integrity_le: "min_integrity md r \<le> 26 + 2 * r"
proof -
  have "ceil_div (10 + r - md) kMinfsDirectPerIndirect \<le> 10 + r"
    by (subst ceil_div_le_iff) (simp_all add: format_consts)
  then show ?thesis by (simp add: min_integrity_def)
qed

lemma min_integrity_ge: "16 + r \<le> min_integrity md r"
  by (simp add: min_integrity_def)

lemma mkfs_limits:
  assumes "(flags info AND kMinfsFlagFVM) = 0" "block_size info = kMinfsBlockSize"
    "abm_block info = 16" "ino_block info = 16 + r" "r < 1000000"
  shows "\<exists>limits. TransactionLimits md info = Ok limits
    \<and> min_integrity_blocks limits = min_integrity md r
    \<and> rec_integrity_blocks limits = max (min_integrity md r) 256"
proof -
  have "GetBlockBitmapBlocks info = Ok r"
    using assms by (simp add: GetBlockBitmapBlocks_def width_simps)
  from TransactionLimits_eq [OF assms(2) this, of md] assms(5) show ?thesis
    by (simp add: min_integrity_def Let_def)
qed

text \<open>What the loop guarantees of its result.\<close>

definition mkfs_loop_post ::
  "nat \<Rightarrow> nat \<Rightarrow> superblock \<Rightarrow> superblock \<times> nat \<times> nat \<Rightarrow> bool" where
  "mkfs_loop_post md blocks info res \<longleftrightarrow> (case res of (info', abmblks, journal) \<Rightarrow>
     (\<exists>r. 8 \<le> r \<and> r < 100000 \<and> min_integrity md r \<le> journal
        \<and> journal \<le> max (min_integrity md r) 256 \<and> 144 + r + journal < blocks
        \<and> info' = info\<lparr>ino_block := 16 + r, block_count := blocks - (144 + r + journal)\<rparr>
        \<and> abmblks = ceil_div (block_count info') kMinfsBlockBits \<and> abmblks \<le> r))"

lemma mkfs_loop_correct:
  assumes "(flags info AND kMinfsFlagFVM) = 0" "block_size info = kMinfsBlockSize"
    "abm_block info = 16" "blocks + kMinfsBlockBits < 4294967296"
    "r < blocks" "8 \<le> r" "r mod 8 = 0" "r < 100000"
  shows "mkfs_loop md 128 1 blocks info r a j = Some (Err ZX_ERR_INVALID_ARGS)
    \<or> (\<exists>res. mkfs_loop md 128 1 blocks info r a j = Some (Ok res)
         \<and> mkfs_loop_post md blocks info res)"
  using assms
proof (induction "100008 - r" arbitrary: info r a j rule: less_induct)
  case less
  define info1 where "info1 = info\<lparr>ino_block := 16 + r\<rparr>"
  have r: "u32 (abm_block info + r) = 16 + r" using less.prems by (simp add: u32_id)
  obtain limits where lim: "TransactionLimits md info1 = Ok limits"
    "min_integrity_blocks limits = min_integrity md r"
    "rec_integrity_blocks limits = max (min_integrity md r) 256"
    using mkfs_limits [of info1 r md] less.prems by (auto simp: info1_def)
  have mi: "min_integrity md r \<le> 200026" "16 + r \<le> min_integrity md r"
    using min_integrity_le [of md r] min_integrity_ge [of r md] less.prems by simp_all
  define journal where "journal = (if u32 (144 + r + max (min_integrity md r) 256) \<ge> blocks
      then min_integrity md r else max (min_integrity md r) 256)"
  have jr: "min_integrity md r \<le> journal" "journal \<le> max (min_integrity md r) 256"
    by (auto simp: journal_def)
  have nd: "u32 (8 + round_up 1 8 + r + 128) = 144 + r" "u32 (144 + r + journal) = 144 + r + journal"
    using less.prems jr mi by (simp_all add: round_up_def u32_id)
  define bc where "bc = blocks - (144 + r + journal)"
  have step: "mkfs_loop md 128 1 blocks info r a j =
    (if 144 + r + journal \<ge> blocks then Some (Err ZX_ERR_INVALID_ARGS)
     else let info2 = info1\<lparr>block_count := u32_sub blocks (144 + r + journal)\<rparr>;
              abmblks = needed_blocks (block_count info2) kMinfsBlockBits
          in if r \<ge> abmblks then Some (Ok (info2, abmblks, journal))
             else mkfs_loop md 128 1 blocks info2 (u32 (r + 8)) abmblks journal)"
    using less.prems(5,7)
    by (subst mkfs_loop.simps)
       (simp only: r info1_def [symmetric] lim(1) res.case Let_def lim(2,3) nd(1)
          journal_def [symmetric] nd(2) if_True if_not_P simp_thms)
  show ?case
  proof (cases "144 + r + journal \<ge> blocks")
    case True then show ?thesis unfolding step if_P [OF True] by simp
  next
    case False
    then have s: "u32_sub blocks (144 + r + journal) = bc"
      using less.prems(4) by (simp add: bc_def u32_sub_id kMinfsBlockBits_def)
    define info2 where "info2 = info1\<lparr>block_count := bc\<rparr>"
    have bcs: "block_count info2 = bc" by (simp add: info2_def)
    have bcb: "bc + kMinfsBlockBits < 4294967296" "0 < kMinfsBlockBits"
      using less.prems(4) by (simp_all add: bc_def format_consts)
    note n = needed_blocks_le [OF bcb]
    have step2: "mkfs_loop md 128 1 blocks info r a j =
      (if r \<ge> needed_blocks bc kMinfsBlockBits
       then Some (Ok (info2, needed_blocks bc kMinfsBlockBits, journal))
       else mkfs_loop md 128 1 blocks info2 (u32 (r + 8)) (needed_blocks bc kMinfsBlockBits) journal)"
      unfolding step Let_def s info2_def [symmetric] bcs using False by simp
    show ?thesis
    proof (cases "r \<ge> needed_blocks bc kMinfsBlockBits")
      case True
      have "mkfs_loop_post md blocks info (info2, needed_blocks bc kMinfsBlockBits, journal)"
        unfolding mkfs_loop_post_def prod.case bcs
        using less.prems(6,8) jr False True n(1)
        by (intro exI [of _ r]) (simp add: info2_def info1_def bc_def)
      then show ?thesis unfolding step2 if_P [OF True] by blast
    next
      case False2: False
      then have big: "r * kMinfsBlockBits < bc" using n(2) [of r] by simp
      then have b: "r * 65536 < blocks - (144 + r + journal)" "blocks + 65536 < 4294967296"
        using less.prems(4) by (simp_all add: bc_def format_consts)
      then have r8: "r + 8 < blocks" "r < 70000" using less.prems(6) by arith+
      have "mkfs_loop md 128 1 blocks info2 (r + 8) (needed_blocks bc kMinfsBlockBits) journal
            = Some (Err ZX_ERR_INVALID_ARGS)
          \<or> (\<exists>res. mkfs_loop md 128 1 blocks info2 (r + 8) (needed_blocks bc kMinfsBlockBits) journal
                = Some (Ok res) \<and> mkfs_loop_post md blocks info2 res)"
        using less.prems r8 by (intro less.hyps) (auto simp: info2_def info1_def)
      moreover have "mkfs_loop_post md blocks info2 res \<Longrightarrow> mkfs_loop_post md blocks info res" for res
        by (auto simp: mkfs_loop_post_def info2_def info1_def)
      moreover have "u32 (r + 8) = r + 8" using less.prems(8) by (simp add: u32_id)
      ultimately show ?thesis unfolding step2 if_not_P [OF False2] by auto
    qed
  qed
qed

lemma mkfs_default_sizes:
  "inode_table_blocks kMinfsDefaultInodeCount = 128"
  "inode_bitmap_blocks kMinfsDefaultInodeCount = 1"
  by (simp_all add: inode_table_blocks_def inode_bitmap_blocks_def needed_blocks_def format_consts
      width_simps)

text \<open>The sections of a device without slices, in order and without overlap, with the bitmaps
  and the inode table large enough and the data filling the device.\<close>

definition plain_layout :: "superblock \<Rightarrow> nat \<Rightarrow> bool" where
  "plain_layout info blocks \<longleftrightarrow>
     kNonFvmSuperblockBackup < ibm_block info \<and>
     inode_count info \<le> (abm_block info - ibm_block info) * kMinfsBlockBits \<and>
     ibm_block info < abm_block info \<and>
     block_count info \<le> (ino_block info - abm_block info) * kMinfsBlockBits \<and>
     abm_block info < ino_block info \<and>
     inode_count info \<le> (integrity_start_block info - ino_block info) * kMinfsInodesPerBlock \<and>
     ino_block info < integrity_start_block info \<and>
     integrity_start_block info < dat_block info \<and>
     1 \<le> block_count info \<and> dat_block info + block_count info = blocks"

lemma mkfs_initial_fields [simp]:
  "flags mkfs_initial = kMinfsFlagClean" "block_size mkfs_initial = kMinfsBlockSize"
  "inode_size mkfs_initial = kMinfsInodeSize" "magic0 mkfs_initial = kMinfsMagic0"
  "magic1 mkfs_initial = kMinfsMagic1" "major_version mkfs_initial = kMinfsCurrentMajorVersion"
  by (simp_all add: mkfs_initial_def)

lemma mkfs_initial_no_fvm [simp]: "(kMinfsFlagClean AND kMinfsFlagFVM) = 0"
  by (simp add: kMinfsFlagClean_def kMinfsFlagFVM_def)

lemma mkfs_layout_plain:
  assumes "8 < blocks" "blocks + kMinfsBlockBits < 4294967296"
    "mkfs_layout md kMinfsDefaultInodeCount blocks mkfs_initial = Some r"
  shows "r = Err ZX_ERR_INVALID_ARGS \<or>
    (\<exists>info abmblks limits. r = Ok (info, abmblks) \<and> plain_layout info blocks
       \<and> TransactionLimits md info = Ok limits
       \<and> min_integrity_blocks limits \<le> dat_block info - integrity_start_block info
       \<and> abmblks = ceil_div (block_count info) kMinfsBlockBits
       \<and> flags info = kMinfsFlagClean \<and> block_size info = kMinfsBlockSize
       \<and> inode_size info = kMinfsInodeSize \<and> magic0 info = kMinfsMagic0
       \<and> magic1 info = kMinfsMagic1 \<and> major_version info = kMinfsCurrentMajorVersion
       \<and> alloc_block_count info = 0 \<and> alloc_inode_count info = 0
       \<and> inode_count info = kMinfsDefaultInodeCount)"
proof -
  define info0 where "info0 = mkfs_initial\<lparr>inode_count := kMinfsDefaultInodeCount,
    alloc_block_count := 0, alloc_inode_count := 0, ibm_block := 8, abm_block := 16\<rparr>"
  have abm: "u32 (8 + round_up 1 8) = 16" by (simp add: round_up_def u32_id)
  have lay: "mkfs_layout md kMinfsDefaultInodeCount blocks mkfs_initial =
    (case mkfs_loop md 128 1 blocks info0 8 0 0 of
               None \<Rightarrow> None
             | Some (Err e) \<Rightarrow> Some (Err e)
             | Some Panic \<Rightarrow> Some Panic
             | Some (Ok (info, abmblks, journal)) \<Rightarrow>
                 let info = info\<lparr>integrity_start_block := u32 (ino_block info + 128)\<rparr>;
                     info = info\<lparr>dat_block := u32 (integrity_start_block info + journal),
                              oldest_minor_version := kMinfsCurrentMinorVersion\<rparr>
                 in Some (Ok (info, abmblks)))"
    unfolding mkfs_layout_def Let_def mkfs_default_sizes abm
    by (simp add: info0_def)
  have "mkfs_loop md 128 1 blocks info0 8 0 0 = Some (Err ZX_ERR_INVALID_ARGS)
    \<or> (\<exists>res. mkfs_loop md 128 1 blocks info0 8 0 0 = Some (Ok res)
         \<and> mkfs_loop_post md blocks info0 res)"
    using assms(1,2) by (intro mkfs_loop_correct) (simp_all add: info0_def)
  then show ?thesis
  proof
    assume "mkfs_loop md 128 1 blocks info0 8 0 0 = Some (Err ZX_ERR_INVALID_ARGS)"
    then show ?thesis using assms(3) lay by simp
  next
    assume "\<exists>res. mkfs_loop md 128 1 blocks info0 8 0 0 = Some (Ok res)
         \<and> mkfs_loop_post md blocks info0 res"
    then obtain info' abmblks journal where
      l: "mkfs_loop md 128 1 blocks info0 8 0 0 = Some (Ok (info', abmblks, journal))"
      "mkfs_loop_post md blocks info0 (info', abmblks, journal)"
      by (metis prod_cases3)
    from l(2) obtain q where q: "8 \<le> q" "q < 100000" "min_integrity md q \<le> journal"
      "journal \<le> max (min_integrity md q) 256" "144 + q + journal < blocks"
      "info' = info0\<lparr>ino_block := 16 + q, block_count := blocks - (144 + q + journal)\<rparr>"
      "abmblks = ceil_div (block_count info') kMinfsBlockBits" "abmblks \<le> q"
      unfolding mkfs_loop_post_def prod.case by blast
    have jb: "journal \<le> 200026" using q(2,4) min_integrity_le [of md q] by simp
    define info where "info = info'\<lparr>integrity_start_block := 144 + q, dat_block := 144 + q + journal,
      oldest_minor_version := kMinfsCurrentMinorVersion\<rparr>"
    have r: "r = Ok (info, abmblks)"
      using assms(3) unfolding lay l(1) using q(2,6) jb by (simp add: info_def u32_id)
    have f: "flags info = kMinfsFlagClean" "block_size info = kMinfsBlockSize"
      "inode_size info = kMinfsInodeSize" "magic0 info = kMinfsMagic0"
      "magic1 info = kMinfsMagic1" "major_version info = kMinfsCurrentMajorVersion"
      "alloc_block_count info = 0" "alloc_inode_count info = 0"
      "inode_count info = kMinfsDefaultInodeCount" "ibm_block info = 8" "abm_block info = 16"
      "ino_block info = 16 + q" "integrity_start_block info = 144 + q"
      "dat_block info = 144 + q + journal" "block_count info = blocks - (144 + q + journal)"
      "block_count info' = block_count info"
      by (simp_all add: info_def q(6) info0_def)
    have cap: "block_count info \<le> q * kMinfsBlockBits"
      using q(7,8) ceil_div_le_iff [of kMinfsBlockBits "block_count info" q] f(16)
      by (simp add: kMinfsBlockBits_def kMinfsBlockSize_def)
    have "16 + q \<le> min_integrity md q" by (rule min_integrity_ge)
    then have pl: "plain_layout info blocks"
      unfolding plain_layout_def f using q(1,3,5) cap [unfolded f(15)]
      by (simp add: format_consts Suc_le_eq)
    obtain limits where "TransactionLimits md info = Ok limits"
      "min_integrity_blocks limits = min_integrity md q"
      using mkfs_limits [of info q md] q(2) f by auto
    then show ?thesis using r pl f q(3,7) by auto
  qed
qed

lemma mkfs_layout_returns:
  assumes "8 < blocks" "blocks + kMinfsBlockBits < 4294967296"
  shows "\<exists>r. mkfs_layout md kMinfsDefaultInodeCount blocks mkfs_initial = Some r"
proof -
  define info0 where "info0 = mkfs_initial\<lparr>inode_count := kMinfsDefaultInodeCount,
    alloc_block_count := 0, alloc_inode_count := 0, ibm_block := 8, abm_block := 16\<rparr>"
  have abm: "u32 (8 + round_up 1 8) = 16" by (simp add: round_up_def u32_id)
  have "mkfs_loop md 128 1 blocks info0 8 0 0 = Some (Err ZX_ERR_INVALID_ARGS)
    \<or> (\<exists>res. mkfs_loop md 128 1 blocks info0 8 0 0 = Some (Ok res)
         \<and> mkfs_loop_post md blocks info0 res)"
    using assms by (intro mkfs_loop_correct) (simp_all add: info0_def)
  then show ?thesis
    unfolding mkfs_layout_def Let_def mkfs_default_sizes abm info0_def by (auto split: prod.splits)
qed

text \<open>The superblock at the end of formatting.\<close>

lemma mkfs_write_info:
  assumes "mkfs_write crc B writeblk make_journal now inoblks ibmblks abmblks info d
    = (Ok (), info', d')"
  shows "info' = UpdateChecksum crc (info\<lparr>alloc_inode_count := u32 (alloc_inode_count info + 2),
    alloc_block_count := u32 (alloc_block_count info + 2), generation_count := 0\<rparr>)"
  using assms unfolding mkfs_write_def by (auto simp: Let_def split: res.splits prod.splits)

lemma GetBlockBitmapBlocks_counts [simp]:
  "TransactionLimits md (info\<lparr>alloc_inode_count := a, alloc_block_count := b, generation_count := c\<rparr>)
    = TransactionLimits md info"
  by (simp add: TransactionLimits_def GetBlockBitmapBlocks_def BlockSize_def)

lemma mkfs_final_accepted:
  assumes "8 < blocks" "blocks + kMinfsBlockBits < 4294967296"
    "mkfs_layout md kMinfsDefaultInodeCount blocks mkfs_initial = Some (Ok (info, abmblks))"
    "2 \<le> block_count info"
    "info' = UpdateChecksum crc (info\<lparr>alloc_inode_count := u32 (alloc_inode_count info + 2),
      alloc_block_count := u32 (alloc_block_count info + 2), generation_count := 0\<rparr>)"
  shows "CheckSuperblock crc md check info' blocks = Ok ()"
proof -
  obtain limits where f: "plain_layout info blocks" "TransactionLimits md info = Ok limits"
    "min_integrity_blocks limits \<le> dat_block info - integrity_start_block info"
    "flags info = kMinfsFlagClean" "block_size info = kMinfsBlockSize"
    "inode_size info = kMinfsInodeSize" "magic0 info = kMinfsMagic0"
    "magic1 info = kMinfsMagic1" "major_version info = kMinfsCurrentMajorVersion"
    "alloc_block_count info = 0" "alloc_inode_count info = 0"
    "inode_count info = kMinfsDefaultInodeCount"
    using mkfs_layout_plain [OF assms(1-3)] by auto
  have ck: "checksum info' = crc (info'\<lparr>checksum := 0\<rparr>)"
    using UpdateChecksum_ok [of crc] unfolding assms(5) checksum_ok_def by blast
  have g: "flags info' = kMinfsFlagClean" "block_size info' = kMinfsBlockSize"
    "inode_size info' = kMinfsInodeSize" "magic0 info' = kMinfsMagic0"
    "magic1 info' = kMinfsMagic1" "major_version info' = kMinfsCurrentMajorVersion"
    "alloc_block_count info' = 2" "alloc_inode_count info' = 2"
    "inode_count info' = 4096" "block_count info' = block_count info"
    "dat_block info' = dat_block info" "integrity_start_block info' = integrity_start_block info"
    "TransactionLimits md info' = Ok limits"
    using f by (simp_all add: assms(5) u32_id kMinfsDefaultInodeCount_def)
  have d: "dat_block info + block_count info = blocks" "dat_block info < 4294967296"
    "integrity_start_block info \<le> dat_block info" "blocks < 4294967296"
    using f(1) assms(2) by (auto simp: plain_layout_def)
  then show ?thesis
    using f(3) assms(4) ck unfolding CheckSuperblock_def Let_def g res_bind.simps
    by (simp add: u32_id u32_sub_id)
qed

text \<open>C17: \<open>Mkfs\<close> without slices on a device of more than 8 and fewer than 2^32 - 65536 blocks always
  settles its layout: it refuses the device, or it returns a superblock whose sections follow each
  other without overlap, with bitmaps and inode table large enough, room for the smallest journal, and
  data blocks that end exactly at the end of the device. (A device of at most 8 blocks is not refused,
  see \<open>mkfs_layout_tiny\<close>.)\<close>

theorem mkfs_layout_correct:
  assumes "8 < blocks" "blocks + kMinfsBlockBits < 4294967296"
  shows "\<exists>r. mkfs_layout md kMinfsDefaultInodeCount blocks mkfs_initial = Some r
    \<and> (r = Err ZX_ERR_INVALID_ARGS
       \<or> (\<exists>info limits. r = Ok (info, ceil_div (block_count info) kMinfsBlockBits)
            \<and> plain_layout info blocks \<and> TransactionLimits md info = Ok limits
            \<and> min_integrity_blocks limits \<le> dat_block info - integrity_start_block info))"
proof -
  obtain r where r: "mkfs_layout md kMinfsDefaultInodeCount blocks mkfs_initial = Some r"
    using mkfs_layout_returns [OF assms] by blast
  show ?thesis using mkfs_layout_plain [OF assms r] r by blast
qed

lemma mkfs_layout_example:
  "\<exists>info. mkfs_layout 2040 kMinfsDefaultInodeCount 1000 mkfs_initial = Some (Ok (info, 1))
    \<and> block_count info = 592"
proof -
  define info0 where "info0 = mkfs_initial\<lparr>inode_count := kMinfsDefaultInodeCount,
    alloc_block_count := 0, alloc_inode_count := 0, ibm_block := 8, abm_block := 16\<rparr>"
  have abm: "u32 (8 + round_up 1 8) = 16" by (simp add: round_up_def u32_id)
  obtain limits where lim: "TransactionLimits 2040 (info0\<lparr>ino_block := 24\<rparr>) = Ok limits"
    "rec_integrity_blocks limits = 256"
    using mkfs_limits [of "info0\<lparr>ino_block := 24\<rparr>" 8 2040]
    by (auto simp: info0_def min_integrity_def ceil_div_def format_consts)
  have i: "u32 (abm_block info0 + 8) = 24" by (simp add: info0_def u32_id)
  have n: "u32 (8 + round_up 1 8 + 8 + 128) = 152" by (simp add: round_up_def u32_id)
  have s: "u32 (152 + 256) = 408" "u32_sub 1000 408 = 592"
    "needed_blocks 592 kMinfsBlockBits = 1" "u32 408 = 408"
    by (simp_all add: needed_blocks_def format_consts width_simps)
  have "mkfs_loop 2040 128 1 1000 info0 8 0 0
      = Some (Ok (info0\<lparr>ino_block := 24, block_count := 592\<rparr>, 1, 256))"
    by (subst mkfs_loop.simps) (simp only: i lim res.case Let_def n s; simp add: s)
  then show ?thesis
    unfolding mkfs_layout_def Let_def mkfs_default_sizes abm info0_def by simp
qed

theorem mkfs_layout_correct_witness:
  "\<exists>info. mkfs_layout 2040 kMinfsDefaultInodeCount 1000 mkfs_initial = Some (Ok (info, 1))
    \<and> plain_layout info 1000"
  using mkfs_layout_correct [of 1000 2040] mkfs_layout_example
  by (auto simp: format_consts)

text \<open>C18: On a device without slices of more than 8 and fewer than 2^32 - 65536 blocks, the superblock that
  a successful \<open>Mkfs\<close> writes with the default number of inodes passes \<open>CheckSuperblock\<close> for that
  device, provided at least two data blocks are left.\<close>

theorem mkfs_superblock_accepted:
  assumes "8 < blocks" "blocks + kMinfsBlockBits < 4294967296"
    "mkfs_layout md kMinfsDefaultInodeCount blocks mkfs_initial = Some (Ok (info, abmblks))"
    "2 \<le> block_count info"
    "mkfs_write crc B writeblk make_journal now 128 1 abmblks info d = (Ok (), info', d')"
  shows "CheckSuperblock crc md check info' blocks = Ok ()"
  using mkfs_final_accepted [OF assms(1-4) mkfs_write_info [OF assms(5)]] .

theorem mkfs_superblock_accepted_witness:
  "\<exists>info info' d'. mkfs_write (\<lambda>_. 7) list_bitmap (\<lambda>n c d. (Ok (), d)) (\<lambda>n w d. (Ok (), d)) 0
      128 1 1 info () = (Ok (), info', d')
    \<and> CheckSuperblock (\<lambda>_. 7) 2040 host_check_slices info' 1000 = Ok ()"
proof -
  obtain info where i: "mkfs_layout 2040 kMinfsDefaultInodeCount 1000 mkfs_initial
      = Some (Ok (info, 1))" "block_count info = 592"
    using mkfs_layout_example by blast
  have w: "write_blocks (\<lambda>n c d. (Ok (), d)) ws () = (Ok (), ())"
    for ws :: "(nat \<times> bool list block_content) list"
    by (induction ws) auto
  have b: "n \<le> u32 (round_up n kMinfsBlockBits)" if "n \<le> 10000" for n
    using that round_up_ge [of kMinfsBlockBits n] round_up_less [of kMinfsBlockBits n]
    by (simp add: format_consts u32_id)
  have "inode_count info = kMinfsDefaultInodeCount"
    using mkfs_layout_plain [OF _ _ i(1)] by (auto simp: format_consts)
  then obtain a c where "mkfs_bitmaps list_bitmap info = Ok (a, c)"
    using b [of "block_count info"] b [of "inode_count info"] i(2)
    by (auto simp: mkfs_bitmaps_def kMinfsDefaultInodeCount_def)
  then obtain info' where m: "mkfs_write (\<lambda>_. 7) list_bitmap (\<lambda>n c d. (Ok (), d))
      (\<lambda>n w d. (Ok (), d)) 0 128 1 1 info () = (Ok (), info', ())"
    by (simp add: mkfs_write_def w Let_def)
  have "CheckSuperblock (\<lambda>_. 7) 2040 host_check_slices info' 1000 = Ok ()"
    using i(2) by (intro mkfs_superblock_accepted [OF _ _ i(1) _ m]) (simp_all add: format_consts)
  with m show ?thesis by blast
qed

text \<open>Two corner cases. A device of at most 8 blocks is not refused: the loop never runs. A device
  with a single data block gets a superblock that claims two allocated blocks, which
  \<open>CheckSuperblock\<close> rejects.\<close>

lemma mkfs_layout_tiny:
  assumes "blocks \<le> 8"
  shows "\<exists>info. mkfs_layout md kMinfsDefaultInodeCount blocks mkfs_initial = Some (Ok (info, 0))
    \<and> block_count info = 0 \<and> dat_block info = 128"
  using assms unfolding mkfs_layout_def Let_def mkfs_default_sizes
  by (subst mkfs_loop.simps) (simp add: mkfs_initial_def u32_id kMinfsFlagClean_def kMinfsFlagFVM_def)

lemma mkfs_single_data_block_rejected:
  assumes "mkfs_write crc B writeblk make_journal now 128 1 abmblks info d = (Ok (), info', d')"
    "alloc_block_count info = 0" "block_count info = 1"
    "magic0 info = kMinfsMagic0" "magic1 info = kMinfsMagic1"
    "major_version info = kMinfsCurrentMajorVersion" "block_size info = kMinfsBlockSize"
    "inode_size info = kMinfsInodeSize"
  shows "CheckSuperblock crc md check info' blocks = Err ZX_ERR_IO_DATA_INTEGRITY"
proof -
  note i = mkfs_write_info [OF assms(1)]
  have ck: "checksum info' = crc (info'\<lparr>checksum := 0\<rparr>)"
    using UpdateChecksum_ok [of crc] unfolding i checksum_ok_def by blast
  have "alloc_block_count info' = 2" "block_count info' = 1" "magic0 info' = kMinfsMagic0"
    "magic1 info' = kMinfsMagic1" "major_version info' = kMinfsCurrentMajorVersion"
    "block_size info' = kMinfsBlockSize" "inode_size info' = kMinfsInodeSize"
    using assms(2-) by (simp_all add: i u32_id)
  then show ?thesis using ck by (simp add: CheckSuperblock_def Let_def)
qed

end
