(* ===== verification/Storage.thy ===== *)
theory Storage
  imports Superblock Bitmap
begin

text \<open>
  \<open>allocator/metadata.h\<close>, \<open>metadata.cc\<close>, \<open>storage.h\<close>, \<open>storage_common.cc\<close>, \<open>storage_host.cc\<close> and
  \<open>storage.cc\<close>: the counters an allocator keeps in the superblock and the persistence of its
  bitmap. The pointers to members of \<open>SuperblockAllocatorAccess\<close> are pairs of a getter and a
  setter; the locale \<open>superblock_access\<close> says that they behave as four distinct fields.
\<close>

section \<open>Access to the superblock fields\<close>

record sb_access =
  acc_used :: "superblock \<Rightarrow> nat"
  acc_set_used :: "nat \<Rightarrow> superblock \<Rightarrow> superblock"
  acc_total :: "superblock \<Rightarrow> nat"
  acc_set_total :: "nat \<Rightarrow> superblock \<Rightarrow> superblock"
  acc_data_slices :: "superblock \<Rightarrow> nat"
  acc_set_data_slices :: "nat \<Rightarrow> superblock \<Rightarrow> superblock"
  acc_metadata_slices :: "superblock \<Rightarrow> nat"
  acc_set_metadata_slices :: "nat \<Rightarrow> superblock \<Rightarrow> superblock"

definition access_Blocks :: sb_access where
  "access_Blocks =
    \<lparr>acc_used = alloc_block_count, acc_set_used = (\<lambda>n s. s\<lparr>alloc_block_count := n\<rparr>),
     acc_total = block_count, acc_set_total = (\<lambda>n s. s\<lparr>block_count := n\<rparr>),
     acc_data_slices = dat_slices, acc_set_data_slices = (\<lambda>n s. s\<lparr>dat_slices := n\<rparr>),
     acc_metadata_slices = abm_slices, acc_set_metadata_slices = (\<lambda>n s. s\<lparr>abm_slices := n\<rparr>)\<rparr>"

definition access_Inodes :: sb_access where
  "access_Inodes =
    \<lparr>acc_used = alloc_inode_count, acc_set_used = (\<lambda>n s. s\<lparr>alloc_inode_count := n\<rparr>),
     acc_total = inode_count, acc_set_total = (\<lambda>n s. s\<lparr>inode_count := n\<rparr>),
     acc_data_slices = ino_slices, acc_set_data_slices = (\<lambda>n s. s\<lparr>ino_slices := n\<rparr>),
     acc_metadata_slices = ibm_slices, acc_set_metadata_slices = (\<lambda>n s. s\<lparr>ibm_slices := n\<rparr>)\<rparr>"

section \<open>Allocator metadata\<close>

record allocator_metadata =
  data_start_block :: nat
  metadata_start_block :: nat
  using_fvm :: bool
  md_access :: sb_access

definition PoolUsed :: "allocator_metadata \<Rightarrow> superblock_manager \<Rightarrow> nat" where
  "PoolUsed md sm = acc_used (md_access md) (sm_info sm)"

definition PoolTotal :: "allocator_metadata \<Rightarrow> superblock_manager \<Rightarrow> nat" where
  "PoolTotal md sm = acc_total (md_access md) (sm_info sm)"

definition PoolAvailable :: "allocator_metadata \<Rightarrow> superblock_manager \<Rightarrow> nat" where
  "PoolAvailable md sm = u32_sub (PoolTotal md sm) (PoolUsed md sm)"

definition PoolAllocate ::
  "allocator_metadata \<Rightarrow> nat \<Rightarrow> superblock_manager \<Rightarrow> superblock_manager" where
  "PoolAllocate md units sm =
     MutableInfo (acc_set_used (md_access md) (u32 (PoolUsed md sm + units))) sm"

definition PoolRelease ::
  "allocator_metadata \<Rightarrow> nat \<Rightarrow> superblock_manager \<Rightarrow> superblock_manager" where
  "PoolRelease md units sm =
     MutableInfo (acc_set_used (md_access md) (u32_sub (PoolUsed md sm) units)) sm"

definition SetPoolTotal ::
  "allocator_metadata \<Rightarrow> nat \<Rightarrow> superblock_manager \<Rightarrow> superblock_manager" where
  "SetPoolTotal md n sm = MutableInfo (acc_set_total (md_access md) n) sm"

definition SliceSize :: "superblock_manager \<Rightarrow> nat" where
  "SliceSize sm = slice_size (sm_info sm)"

definition UnitsPerSlices :: "superblock_manager \<Rightarrow> nat \<Rightarrow> nat \<Rightarrow> nat res" where
  "UnitsPerSlices sm slices unit_size =
     res_bind (checked_div (u64 (SliceSize sm * slices)) unit_size) (\<lambda>units. Ok (u32 units))"

definition BlocksToSlices :: "superblock_manager \<Rightarrow> nat \<Rightarrow> nat res" where
  "BlocksToSlices sm blocks =
     res_bind (SuperblockManager_BlockSize sm) (\<lambda>bs.
     res_bind (checked_div blocks (SliceSize sm div bs)) (\<lambda>slices. Ok (u32 slices)))"

definition DataSlices :: "allocator_metadata \<Rightarrow> superblock_manager \<Rightarrow> nat" where
  "DataSlices md sm = acc_data_slices (md_access md) (sm_info sm)"

definition SetDataSlices ::
  "allocator_metadata \<Rightarrow> nat \<Rightarrow> superblock_manager \<Rightarrow> superblock_manager" where
  "SetDataSlices md slices sm = MutableInfo (acc_set_data_slices (md_access md) slices) sm"

definition MetadataSlices :: "allocator_metadata \<Rightarrow> superblock_manager \<Rightarrow> nat" where
  "MetadataSlices md sm = acc_metadata_slices (md_access md) (sm_info sm)"

definition SetMetadataSlices ::
  "allocator_metadata \<Rightarrow> nat \<Rightarrow> superblock_manager \<Rightarrow> superblock_manager" where
  "SetMetadataSlices md slices sm = MutableInfo (acc_set_metadata_slices (md_access md) slices) sm"

section \<open>Persistent storage\<close>

text \<open>\<open>storage_buffer\<close> is the buffer that holds the allocator's bitmap.\<close>

record persistent_storage =
  st_metadata :: allocator_metadata
  st_unit_size :: nat
  st_block_size :: nat
  st_buffer :: buffer_id

definition BitmapBlocksForSize :: "nat \<Rightarrow> nat" where
  "BitmapBlocksForSize sz = u32_sub (u32 (u32 sz + kMinfsBlockBits)) 1 div kMinfsBlockBits"

definition PoolBlocks :: "persistent_storage \<Rightarrow> superblock_manager \<Rightarrow> nat" where
  "PoolBlocks st sm = BitmapBlocksForSize (PoolTotal (st_metadata st) sm)"

text \<open>The read that loads the bitmap.\<close>

definition Storage_Load :: "persistent_storage \<Rightarrow> superblock_manager \<Rightarrow> queued" where
  "Storage_Load st sm =
     (read_op 0 (metadata_start_block (st_metadata st)) (PoolBlocks st sm), st_buffer st)"

definition PersistRange ::
  "persistent_storage \<Rightarrow> (queued \<Rightarrow> 't \<Rightarrow> 't) \<Rightarrow> nat \<Rightarrow> nat \<Rightarrow> 't \<Rightarrow> 't" where
  "PersistRange st enqueue index cnt t =
    (let first_rel_block = u32 (index div kMinfsBlockBits);
         last_rel_block = u32 (u64_sub (u64 (index + cnt)) 1 div kMinfsBlockBits);
         block_count = u32 (u32_sub last_rel_block first_rel_block + 1);
         abs_block = u32 (metadata_start_block (st_metadata st) + first_rel_block)
     in enqueue (write_op first_rel_block abs_block block_count, st_buffer st) t)"

definition PersistAllocate ::
  "persistent_storage \<Rightarrow> nat \<Rightarrow> superblock_manager \<Rightarrow> superblock_manager" where
  "PersistAllocate st cnt sm = PoolAllocate (st_metadata st) (u32 cnt) sm"

definition PersistRelease ::
  "persistent_storage \<Rightarrow> nat \<Rightarrow> superblock_manager \<Rightarrow> superblock_manager" where
  "PersistRelease st cnt sm = PoolRelease (st_metadata st) (u32 cnt) sm"

text \<open>On the host a pool cannot grow.\<close>

definition host_Extend :: "unit res" where
  "host_Extend = Err ZX_ERR_NO_SPACE"

text \<open>
  On the device: one more slice of data if its units still fit the bitmap. \<open>grow_cb\<close> is the
  optional callback of the owner and \<open>grow_map\<close> that of the allocator, which returns the old
  size of its map.
\<close>

definition target_Extend ::
  "(superblock \<Rightarrow> nat) \<Rightarrow> ('d, 'z) volume_scheme \<Rightarrow> persistent_storage \<Rightarrow> (queued \<Rightarrow> 't \<Rightarrow> 't)
    \<Rightarrow> (nat \<Rightarrow> 'g \<Rightarrow> unit res \<times> 'g) option \<Rightarrow> (nat \<Rightarrow> 'm \<Rightarrow> nat res \<times> 'm)
    \<Rightarrow> superblock_manager \<times> 't \<times> 'd \<times> 'g \<times> 'm
    \<Rightarrow> unit res \<times> (superblock_manager \<times> 't \<times> 'd \<times> 'g \<times> 'm)" where
  "target_Extend crc V st enqueue grow_cb grow_map s =
    (let (sm, t, d, g, m) = s; md = st_metadata st in
     if \<not> using_fvm md then (Err ZX_ERR_NO_SPACE, s)
     else
     (case res_bind (UnitsPerSlices sm (MetadataSlices md sm) (st_block_size st)) (\<lambda>bitmap_blocks.
           res_bind (UnitsPerSlices sm (u32 (DataSlices md sm + 1)) (u32 (st_unit_size st)))
             (\<lambda>pool_size. Ok (bitmap_blocks, pool_size))) of
        Err e \<Rightarrow> (Err e, s)
      | Panic \<Rightarrow> (Panic, s)
      | Ok (bitmap_blocks, pool_size) \<Rightarrow>
          if BitmapBlocksForSize pool_size > bitmap_blocks then (Err ZX_ERR_NO_SPACE, s)
          else
          (case BlocksToSlices sm (data_start_block md) of
             Err e \<Rightarrow> (Err e, s)
           | Panic \<Rightarrow> (Panic, s)
           | Ok first_slice \<Rightarrow>
          (case vol_extend V (u32 (first_slice + DataSlices md sm)) 1 d of
             (Err e, d) \<Rightarrow> (Err e, (sm, t, d, g, m))
           | (Panic, d) \<Rightarrow> (Panic, (sm, t, d, g, m))
           | (Ok _, d) \<Rightarrow>
          (case (case grow_cb of None \<Rightarrow> (Ok (), g) | Some cb \<Rightarrow> cb pool_size g) of
             (Err e, g) \<Rightarrow> (Err e, (sm, t, d, g, m))
           | (Panic, g) \<Rightarrow> (Panic, (sm, t, d, g, m))
           | (Ok _, g) \<Rightarrow>
          (case grow_map pool_size m of
             (Err e, m) \<Rightarrow> (Err e, (sm, t, d, g, m))
           | (Panic, m) \<Rightarrow> (Panic, (sm, t, d, g, m))
           | (Ok old_pool_size, m) \<Rightarrow>
               let sm = SetDataSlices md (u32 (DataSlices md sm + 1)) sm;
                   sm = SetPoolTotal md pool_size sm;
                   (sm, t) = SuperblockManager_Write crc enqueue True (sm, t);
                   t = PersistRange st enqueue old_pool_size
                         (u64_sub pool_size old_pool_size) t
               in (Ok (), (sm, t, d, g, m))))))))"

section \<open>The fields are independent\<close>

locale superblock_access =
  fixes A :: sb_access
  assumes used_set [simp]: "acc_used A (acc_set_used A n s) = n"
    and total_set_used [simp]: "acc_total A (acc_set_used A n s) = acc_total A s"
    and total_set [simp]: "acc_total A (acc_set_total A n s) = n"
    and used_set_total [simp]: "acc_used A (acc_set_total A n s) = acc_used A s"
    and slices_set_used [simp]: "acc_data_slices A (acc_set_used A n s) = acc_data_slices A s"
    and slices_set [simp]: "acc_data_slices A (acc_set_data_slices A n s) = n"
    and used_set_slices [simp]: "acc_used A (acc_set_data_slices A n s) = acc_used A s"
    and total_set_slices [simp]: "acc_total A (acc_set_data_slices A n s) = acc_total A s"
    and slices_set_total [simp]: "acc_data_slices A (acc_set_total A n s) = acc_data_slices A s"
    and used_checksum [simp]: "acc_used A (UpdateChecksum crc s) = acc_used A s"
    and total_checksum [simp]: "acc_total A (UpdateChecksum crc s) = acc_total A s"
    and slices_checksum [simp]: "acc_data_slices A (UpdateChecksum crc s) = acc_data_slices A s"
begin

lemma pool_allocate:
  assumes "md_access md = A" "PoolUsed md sm + n < 4294967296"
  shows "PoolUsed md (PoolAllocate md n sm) = PoolUsed md sm + n"
    "PoolTotal md (PoolAllocate md n sm) = PoolTotal md sm"
  using assms by (simp_all add: PoolUsed_def PoolTotal_def PoolAllocate_def MutableInfo_def u32_id)

lemma pool_release:
  assumes "md_access md = A" "n \<le> PoolUsed md sm" "PoolUsed md sm < 4294967296"
  shows "PoolUsed md (PoolRelease md n sm) = PoolUsed md sm - n"
    "PoolTotal md (PoolRelease md n sm) = PoolTotal md sm"
  using assms
  by (simp_all add: PoolUsed_def PoolTotal_def PoolRelease_def MutableInfo_def u32_sub_id)

lemma pool_available:
  assumes "md_access md = A" "PoolUsed md sm \<le> PoolTotal md sm" "PoolTotal md sm < 4294967296"
  shows "PoolAvailable md sm = PoolTotal md sm - PoolUsed md sm"
  using assms by (simp add: PoolAvailable_def u32_sub_id)

lemma grown:
  assumes "md_access md = A"
    "sm' = fst (SuperblockManager_Write crc enq True
      (SetPoolTotal md n (SetDataSlices md slices sm), t))"
  shows "PoolTotal md sm' = n" "DataSlices md sm' = slices" "PoolUsed md sm' = PoolUsed md sm"
  using assms by (simp_all add: SuperblockManager_Write_def Let_def MutableInfo_def SetPoolTotal_def
      SetDataSlices_def PoolTotal_def DataSlices_def PoolUsed_def)

end

interpretation blocks: superblock_access access_Blocks
  by unfold_locales (simp_all add: access_Blocks_def)

interpretation inodes: superblock_access access_Inodes
  by unfold_locales (simp_all add: access_Inodes_def)

section \<open>The blocks written for a range of the bitmap\<close>

text \<open>The operation of \<open>PersistRange\<close> covers exactly the bitmap blocks that hold the bits of the
  range, each at its place on the device.\<close>

lemma PersistRange_covers:
  assumes "0 < cnt" "index + cnt < 140737488355328"
    "metadata_start_block (st_metadata st) + (index + cnt) div kMinfsBlockBits < 4294967296"
  shows "\<exists>op. PersistRange st (pw_enqueue_metadata list_work) index cnt q = q @ [(op, st_buffer st)]
    \<and> op_kind op = kWrite
    \<and> {vmo_offset op..<vmo_offset op + op_length op} = (\<lambda>i. i div kMinfsBlockBits) ` {index..<index + cnt}
    \<and> dev_offset op = metadata_start_block (st_metadata st) + vmo_offset op"
proof -
  let ?f = "index div kMinfsBlockBits" and ?l = "(index + cnt - 1) div kMinfsBlockBits"
  have fl: "?f \<le> ?l" using assms(1) by (intro div_le_mono) simp
  have l: "?l \<le> (index + cnt) div kMinfsBlockBits" by (intro div_le_mono) simp
  have b: "?l < 4294967295" using assms(1,2)
    by (simp add: format_consts div_less_iff_less_mult)
  have u: "u64_sub (u64 (index + cnt)) 1 = index + cnt - 1"
    using assms(1,2) by (simp add: u64_id u64_sub_id)
  have "{index..<index + cnt} = {index..index + cnt - 1}" using assms(1) by auto
  then have im: "(\<lambda>i. i div kMinfsBlockBits) ` {index..<index + cnt} = {?f..?l}"
    using assms(1) by (simp add: div_interval_eq format_consts)
  have e: "{?f..<?f + (?l - ?f + 1)} = {?f..?l}" using fl by auto
  have w: "u32 ?f = ?f" "u32 ?l = ?l" "u32 (u32_sub ?l ?f + 1) = ?l - ?f + 1"
    "u32 (metadata_start_block (st_metadata st) + ?f) = metadata_start_block (st_metadata st) + ?f"
    using fl b l assms(3) by (simp_all add: u32_id u32_sub_id)
  show ?thesis
    unfolding PersistRange_def Let_def u w im
    by (intro exI [of _ "write_op ?f (metadata_start_block (st_metadata st) + ?f) (?l - ?f + 1)"])
       (simp add: list_queue.enqueue_metadata_of write_op_def e [simplified])
qed

end
