(* ===== verification/Allocator.thy ===== *)
theory Allocator
  imports Storage
begin

text \<open>
  \<open>allocator/allocator.h\<close>, \<open>allocator_common.cc\<close>, \<open>allocator_host.cc\<close>, \<open>allocator.cc\<close> and
  \<open>allocator_reservation.h/.cc\<close>. The allocator owns the pending changes of all reservations by
  pointer; here a reservation holds the identifiers of its changes and the allocator the store
  of changes and the vector \<open>pending_changes_\<close> of identifiers.
\<close>

section \<open>Pending changes\<close>

record 'r pending_change =
  pc_allocation :: bool
  pc_bitmap :: 'r
  pc_committed :: bool

definition GetReservedCount :: "('r, 'z) rle_bitmap_scheme \<Rightarrow> 'r pending_change \<Rightarrow> nat" where
  "GetReservedCount R c =
     (if pc_committed c = pc_allocation c then 0 else rle_num_bits R (pc_bitmap c))"

definition GetNextUnreserved ::
  "('r, 'z) rle_bitmap_scheme \<Rightarrow> 'r pending_change \<Rightarrow> nat \<Rightarrow> nat" where
  "GetNextUnreserved R c start =
     (if pc_committed c = pc_allocation c then start else rle_next_clear R (pc_bitmap c) start)"

definition item_count :: "('r, 'z) rle_bitmap_scheme \<Rightarrow> 'r pending_change \<Rightarrow> nat" where
  "item_count R c = rle_num_bits R (pc_bitmap c)"

section \<open>State\<close>

record ('b, 'r) allocator =
  al_reserved :: nat
  al_first_free :: nat
  al_map :: 'b
  al_pending :: "nat list"
  al_changes :: "nat \<Rightarrow> 'r pending_change option"
  al_next_id :: nat

record reservation =
  rs_reserved :: nat
  rs_allocations :: "nat option"
  rs_deallocations :: "nat option"

definition empty_reservation :: reservation where
  "empty_reservation = \<lparr>rs_reserved = 0, rs_allocations = None, rs_deallocations = None\<rparr>"

text \<open>The changes behind \<open>pending_changes_\<close>.\<close>

definition pending_changes :: "('b, 'r) allocator \<Rightarrow> 'r pending_change list" where
  "pending_changes al = map (\<lambda>cid. the (al_changes al cid)) (al_pending al)"

definition AddPendingChange ::
  "'r pending_change \<Rightarrow> ('b, 'r) allocator \<Rightarrow> nat \<times> ('b, 'r) allocator" where
  "AddPendingChange c al =
    (al_next_id al,
     al\<lparr>al_pending := al_pending al @ [al_next_id al],
        al_changes := (al_changes al)(al_next_id al \<mapsto> c),
        al_next_id := al_next_id al + 1\<rparr>)"

text \<open>The destructor of a pending change.\<close>

definition RemovePendingChange ::
  "('r, 'z) rle_bitmap_scheme \<Rightarrow> nat \<Rightarrow> ('b, 'r) allocator \<Rightarrow> ('b, 'r) allocator" where
  "RemovePendingChange R cid al =
    (let c = the (al_changes al cid);
         al = (if GetReservedCount R c > 0 then
                 (case rle_ranges R (pc_bitmap c) of
                    [] \<Rightarrow> al
                  | (off, len) # rs \<Rightarrow>
                      if off < al_first_free al then al\<lparr>al_first_free := off\<rparr> else al)
               else al)
     in al\<lparr>al_pending := removeAll cid (al_pending al),
           al_changes := (al_changes al)(cid := None)\<rparr>)"

definition GetPendingAllocations ::
  "('r, 'z) rle_bitmap_scheme \<Rightarrow> ('b, 'r) allocator \<times> reservation
    \<Rightarrow> nat \<times> ('b, 'r) allocator \<times> reservation" where
  "GetPendingAllocations R s =
    (let (al, rs) = s in
     case rs_allocations rs of
       Some cid \<Rightarrow> (cid, al, rs)
     | None \<Rightarrow>
         let (cid, al) = AddPendingChange
               \<lparr>pc_allocation = True, pc_bitmap = rle_empty R, pc_committed = False\<rparr> al
         in (cid, al, rs\<lparr>rs_allocations := Some cid\<rparr>))"

definition GetPendingDeallocations ::
  "('r, 'z) rle_bitmap_scheme \<Rightarrow> ('b, 'r) allocator \<times> reservation
    \<Rightarrow> nat \<times> ('b, 'r) allocator \<times> reservation" where
  "GetPendingDeallocations R s =
    (let (al, rs) = s in
     case rs_deallocations rs of
       Some cid \<Rightarrow> (cid, al, rs)
     | None \<Rightarrow>
         let (cid, al) = AddPendingChange
               \<lparr>pc_allocation = False, pc_bitmap = rle_empty R, pc_committed = False\<rparr> al
         in (cid, al, rs\<lparr>rs_deallocations := Some cid\<rparr>))"

text \<open>The owner of the deallocations lets go of them without destroying them.\<close>

definition TakePendingDeallocations :: "reservation \<Rightarrow> nat option \<times> reservation" where
  "TakePendingDeallocations rs = (rs_deallocations rs, rs\<lparr>rs_deallocations := None\<rparr>)"

section \<open>Creation and available elements\<close>

text \<open>Returns the allocator and the read that fills its map.\<close>

definition Allocator_Create ::
  "('b, 'y) raw_bitmap_scheme \<Rightarrow> persistent_storage \<Rightarrow> superblock_manager
    \<Rightarrow> (('b, 'r) allocator \<times> queued) res" where
  "Allocator_Create B st sm =
    res_bind (rb_reset B (u32 (PoolBlocks st sm * kMinfsBlockBits))) (\<lambda>b.
    res_bind (rb_shrink B b (PoolTotal (st_metadata st) sm)) (\<lambda>b.
    Ok (\<lparr>al_reserved = 0, al_first_free = 0, al_map = b, al_pending = [], al_changes = Map.empty,
         al_next_id = 0\<rparr>, Storage_Load st sm)))"

definition host_GetAvailableLocked :: "nat \<Rightarrow> ('b, 'r) allocator \<Rightarrow> nat" where
  "host_GetAvailableLocked pool_available al = u64_sub pool_available (al_reserved al)"

definition target_GetAvailableLocked ::
  "('r, 'z) rle_bitmap_scheme \<Rightarrow> nat \<Rightarrow> ('b, 'r) allocator \<Rightarrow> nat" where
  "target_GetAvailableLocked R pool_available al =
     u64_sub pool_available
       (foldl (\<lambda>n c. u64 (n + GetReservedCount R c)) (al_reserved al) (pending_changes al))"

definition GetReserved :: "('b, 'r) allocator \<Rightarrow> nat" where
  "GetReserved al = al_reserved al"

definition CheckAllocated :: "('b, 'y) raw_bitmap_scheme \<Rightarrow> nat \<Rightarrow> ('b, 'r) allocator \<Rightarrow> bool" where
  "CheckAllocated B index al = rb_get B (al_map al) index"

section \<open>Finding a free element\<close>

text \<open>The vector is rotated so that its head is the change the iterator stands on.\<close>

partial_function (option) find_next_unreserved ::
  "('r, 'z) rle_bitmap_scheme \<Rightarrow> nat \<Rightarrow> 'r pending_change list \<Rightarrow> nat \<Rightarrow> nat \<Rightarrow> nat res option"
where
  "find_next_unreserved R map_size cs unchanged start =
    (if unchanged < length cs then
       let next_start = GetNextUnreserved R (hd cs) start in
       if next_start \<noteq> start then
         if next_start < map_size then find_next_unreserved R map_size (rotate1 cs) 1 next_start
         else Some Panic
       else find_next_unreserved R map_size (rotate1 cs) (unchanged + 1) start
     else Some (Ok start))"

definition FindNextUnreserved ::
  "('b, 'y) raw_bitmap_scheme \<Rightarrow> ('r, 'z) rle_bitmap_scheme \<Rightarrow> ('b, 'r) allocator \<Rightarrow> nat
    \<Rightarrow> nat res option" where
  "FindNextUnreserved B R al start =
     find_next_unreserved R (rb_size B (al_map al)) (pending_changes al) 0 start"

partial_function (option) find_locked_loop ::
  "('b, 'y) raw_bitmap_scheme \<Rightarrow> ('r, 'z) rle_bitmap_scheme \<Rightarrow> ('b, 'r) allocator \<Rightarrow> nat \<Rightarrow> nat
    \<Rightarrow> nat res option" where
  "find_locked_loop B R al start index =
    (case FindNextUnreserved B R al start of
       None \<Rightarrow> None
     | Some (Ok start) \<Rightarrow>
         if index \<noteq> rb_size B (al_map al) \<and> start = index then Some (Ok index)
         else (case rb_find B (al_map al) False start (rb_size B (al_map al)) of
                 None \<Rightarrow> Some Panic
               | Some index \<Rightarrow> find_locked_loop B R al index index)
     | Some r \<Rightarrow> Some r)"

definition FindLocked ::
  "('b, 'y) raw_bitmap_scheme \<Rightarrow> ('r, 'z) rle_bitmap_scheme \<Rightarrow> ('b, 'r) allocator \<Rightarrow> nat res option"
where
  "FindLocked B R al =
     find_locked_loop B R al (al_first_free al) (rb_size B (al_map al))"

section \<open>Operations\<close>

definition Allocator_Allocate ::
  "('b, 'y) raw_bitmap_scheme \<Rightarrow> ('r, 'z) rle_bitmap_scheme \<Rightarrow> ('b, 'r) allocator \<times> reservation
    \<Rightarrow> (nat \<times> ('b, 'r) allocator \<times> reservation) res option" where
  "Allocator_Allocate B R s =
    (let (cid, al, rs) = GetPendingAllocations R s in
     case FindLocked B R al of
       None \<Rightarrow> None
     | Some (Err e) \<Rightarrow> Some (Err e)
     | Some Panic \<Rightarrow> Some Panic
     | Some (Ok new_index) \<Rightarrow>
         let c = the (al_changes al cid) in
         (case rle_set_one R (pc_bitmap c) new_index of
            Ok bits \<Rightarrow>
              Some (Ok (new_index,
                al\<lparr>al_changes := (al_changes al)(cid \<mapsto> c\<lparr>pc_bitmap := bits\<rparr>),
                   al_reserved := u64_sub (al_reserved al) 1,
                   al_first_free := new_index + 1\<rparr>, rs))
          | _ \<Rightarrow> Some Panic))"

definition Allocator_Free ::
  "('r, 'z) rle_bitmap_scheme \<Rightarrow> nat \<Rightarrow> ('b, 'r) allocator \<times> reservation
    \<Rightarrow> (('b, 'r) allocator \<times> reservation) res" where
  "Allocator_Free R index s =
    (let (aid, al, rs) = GetPendingAllocations R s;
         (did, al, rs) = GetPendingDeallocations R (al, rs);
         a = the (al_changes al aid);
         d = the (al_changes al did)
     in if rle_get R (pc_bitmap a) index
        then Ok (al\<lparr>al_changes := (al_changes al)
                     (aid \<mapsto> a\<lparr>pc_bitmap := rle_clear_one R (pc_bitmap a) index\<rparr>)\<rparr>, rs)
        else (case rle_set_one R (pc_bitmap d) index of
                Ok bits \<Rightarrow> Ok (al\<lparr>al_changes := (al_changes al)(did \<mapsto> d\<lparr>pc_bitmap := bits\<rparr>)\<rparr>, rs)
              | _ \<Rightarrow> Panic))"

definition GrowMapLocked ::
  "('b, 'y) raw_bitmap_scheme \<Rightarrow> nat \<Rightarrow> ('b, 'r) allocator \<Rightarrow> nat res \<times> ('b, 'r) allocator" where
  "GrowMapLocked B new_size al =
    (let old_size = rb_size B (al_map al) in
     case rb_grow B (al_map al) (round_up new_size kMinfsBlockBits) of
       Ok b \<Rightarrow>
         (Ok old_size, al\<lparr>al_map := (case rb_shrink B b new_size of Ok b' \<Rightarrow> b' | _ \<Rightarrow> b)\<rparr>)
     | Panic \<Rightarrow> (Panic, al)
     | Err e \<Rightarrow> (Err ZX_ERR_NO_SPACE, al))"

text \<open>\<open>available\<close> is \<open>GetAvailableLocked\<close> and \<open>grow\<close> the extension of the storage, over the
  allocator and the rest of the state.\<close>

definition Allocator_Reserve ::
  "(('b, 'r) allocator \<times> 's \<Rightarrow> nat) \<Rightarrow> (('b, 'r) allocator \<times> 's \<Rightarrow> unit res \<times> ('b, 'r) allocator \<times> 's)
    \<Rightarrow> nat \<Rightarrow> ('b, 'r) allocator \<times> 's \<Rightarrow> unit res \<times> ('b, 'r) allocator \<times> 's" where
  "Allocator_Reserve available grow cnt s =
    (case (if available s < cnt then grow s else (Ok (), s)) of
       (Ok _, al, x) \<Rightarrow> (Ok (), al\<lparr>al_reserved := u64 (al_reserved al + cnt)\<rparr>, x)
     | r \<Rightarrow> r)"

definition Allocator_Unreserve :: "nat \<Rightarrow> ('b, 'r) allocator \<Rightarrow> ('b, 'r) allocator" where
  "Allocator_Unreserve cnt al = al\<lparr>al_reserved := u64_sub (al_reserved al) cnt\<rparr>"

text \<open>Swapping the ranges of a change in or out of the map, each range persisted.\<close>

fun commit_ranges ::
  "('b \<Rightarrow> nat \<Rightarrow> nat \<Rightarrow> 'b) \<Rightarrow> (nat \<Rightarrow> nat \<Rightarrow> 't \<Rightarrow> 't) \<Rightarrow> (nat \<times> nat) list \<Rightarrow> 'b \<times> 't \<Rightarrow> 'b \<times> 't" where
  "commit_ranges swap persist [] s = s"
| "commit_ranges swap persist ((off, len) # rs) (b, t) =
     commit_ranges swap persist rs (swap b off (off + len), persist off len t)"

definition Allocator_Commit ::
  "('b, 'y) raw_bitmap_scheme \<Rightarrow> ('r, 'z) rle_bitmap_scheme \<Rightarrow> persistent_storage
    \<Rightarrow> (queued \<Rightarrow> 't \<Rightarrow> 't) \<Rightarrow> ('b, 'r) allocator \<times> reservation \<times> superblock_manager \<times> 't
    \<Rightarrow> (('b, 'r) allocator \<times> reservation \<times> superblock_manager \<times> 't) res" where
  "Allocator_Commit B R st enqueue s =
    (let (al, rs, sm, t) = s;
         (aid, al, rs) = GetPendingAllocations R (al, rs);
         (did, al, rs) = GetPendingDeallocations R (al, rs);
         a = the (al_changes al aid);
         d = the (al_changes al did)
     in if pc_committed a \<or> pc_committed d then Panic
        else if item_count R a = 0 \<and> item_count R d = 0 then Ok (al, rs, sm, t)
        else
          let (b, t) = commit_ranges (rb_set B) (PersistRange st enqueue)
                (rle_ranges R (pc_bitmap a)) (al_map al, t);
              (b, t) = commit_ranges (rb_clear B) (PersistRange st enqueue)
                (rle_ranges R (pc_bitmap d)) (b, t);
              sm = (if item_count R a > item_count R d
                    then PersistAllocate st (item_count R a - item_count R d) sm
                    else if item_count R d > item_count R a
                    then PersistRelease st (item_count R d - item_count R a) sm
                    else sm)
          in Ok (al\<lparr>al_map := b,
                    al_changes := (al_changes al)(aid \<mapsto> a\<lparr>pc_committed := True\<rparr>,
                                                  did \<mapsto> d\<lparr>pc_committed := True\<rparr>)\<rparr>, rs, sm, t))"

partial_function (option) allocated_regions_loop ::
  "('b, 'y) raw_bitmap_scheme \<Rightarrow> 'b \<Rightarrow> nat \<Rightarrow> (nat \<times> nat) list \<Rightarrow> (nat \<times> nat) list option" where
  "allocated_regions_loop B b stop out =
    (case rb_scan B b stop (rb_size B b) False of
       None \<Rightarrow> Some out
     | Some offset \<Rightarrow>
         let stop = (case rb_scan B b offset (rb_size B b) True of
                       None \<Rightarrow> rb_size B b | Some e \<Rightarrow> e)
         in allocated_regions_loop B b stop (out @ [(offset, stop - offset)]))"

definition GetAllocatedRegions ::
  "('b, 'y) raw_bitmap_scheme \<Rightarrow> ('b, 'r) allocator \<Rightarrow> (nat \<times> nat) list option" where
  "GetAllocatedRegions B al = allocated_regions_loop B (al_map al) 0 []"

section \<open>Reservations\<close>

text \<open>\<open>reserve\<close> is the allocator's \<open>Reserve\<close> over the allocator and the rest of the state.\<close>

definition Reservation_Reserve ::
  "(nat \<Rightarrow> 's \<Rightarrow> unit res \<times> 's) \<Rightarrow> nat \<Rightarrow> reservation \<times> 's \<Rightarrow> unit res \<times> reservation \<times> 's" where
  "Reservation_Reserve reserve n s =
    (let (rs, x) = s in
     if rs_reserved rs \<noteq> 0 then (Err ZX_ERR_BAD_STATE, rs, x)
     else (case reserve n x of
             (Ok _, x) \<Rightarrow> (Ok (), rs\<lparr>rs_reserved := n\<rparr>, x)
           | (r, x) \<Rightarrow> (r, rs, x)))"

definition ExtendReservation ::
  "(nat \<Rightarrow> 's \<Rightarrow> unit res \<times> 's) \<Rightarrow> nat \<Rightarrow> reservation \<times> 's \<Rightarrow> unit res \<times> reservation \<times> 's" where
  "ExtendReservation reserve n s =
    (let (rs, x) = s in
     case reserve n x of
       (Ok _, x) \<Rightarrow> (Ok (), rs\<lparr>rs_reserved := u64 (rs_reserved rs + n)\<rparr>, x)
     | (r, x) \<Rightarrow> (r, rs, x))"

definition Reservation_Allocate ::
  "('b, 'y) raw_bitmap_scheme \<Rightarrow> ('r, 'z) rle_bitmap_scheme \<Rightarrow> ('b, 'r) allocator \<times> reservation
    \<Rightarrow> (nat \<times> ('b, 'r) allocator \<times> reservation) res option" where
  "Reservation_Allocate B R s =
    (let (al, rs) = s in
     if rs_reserved rs = 0 then Some Panic
     else Allocator_Allocate B R (al, rs\<lparr>rs_reserved := rs_reserved rs - 1\<rparr>))"

definition Reservation_Deallocate ::
  "('r, 'z) rle_bitmap_scheme \<Rightarrow> nat \<Rightarrow> ('b, 'r) allocator \<times> reservation
    \<Rightarrow> (('b, 'r) allocator \<times> reservation) res" where
  "Reservation_Deallocate R element s = Allocator_Free R element s"

definition Reservation_Swap ::
  "('b, 'y) raw_bitmap_scheme \<Rightarrow> ('r, 'z) rle_bitmap_scheme \<Rightarrow> nat \<Rightarrow> ('b, 'r) allocator \<times> reservation
    \<Rightarrow> (nat \<times> ('b, 'r) allocator \<times> reservation) res option" where
  "Reservation_Swap B R old_index s =
    (if old_index > 0 then
       (case Allocator_Free R old_index s of
          Ok s \<Rightarrow> Reservation_Allocate B R s
        | Err e \<Rightarrow> Some (Err e)
        | Panic \<Rightarrow> Some Panic)
     else Reservation_Allocate B R s)"

definition Reservation_Cancel ::
  "('b, 'r) allocator \<times> reservation \<Rightarrow> ('b, 'r) allocator \<times> reservation" where
  "Reservation_Cancel s =
    (let (al, rs) = s in
     if rs_reserved rs > 0
     then (Allocator_Unreserve (rs_reserved rs) al, rs\<lparr>rs_reserved := 0\<rparr>)
     else (al, rs))"

text \<open>The destructor: cancel, then the members in reverse order of declaration.\<close>

definition Reservation_Destroy ::
  "('r, 'z) rle_bitmap_scheme \<Rightarrow> ('b, 'r) allocator \<times> reservation \<Rightarrow> ('b, 'r) allocator" where
  "Reservation_Destroy R s =
    (let (al, rs) = Reservation_Cancel s;
         al = (case rs_deallocations rs of Some cid \<Rightarrow> RemovePendingChange R cid al | None \<Rightarrow> al)
     in case rs_allocations rs of Some cid \<Rightarrow> RemovePendingChange R cid al | None \<Rightarrow> al)"

definition Reservation_Commit ::
  "('b, 'y) raw_bitmap_scheme \<Rightarrow> ('r, 'z) rle_bitmap_scheme \<Rightarrow> persistent_storage
    \<Rightarrow> (queued \<Rightarrow> 't \<Rightarrow> 't) \<Rightarrow> ('b, 'r) allocator \<times> reservation \<times> superblock_manager \<times> 't
    \<Rightarrow> (('b, 'r) allocator \<times> reservation \<times> superblock_manager \<times> 't) res" where
  "Reservation_Commit B R st enqueue s = Allocator_Commit B R st enqueue s"

end
