(* ===== verification/Allocator_Laws.thy ===== *)
theory Allocator_Laws
  imports Allocator
begin

text \<open>
  Correctness of the allocator: the search for a free element returns, and returns the least
  one; the operations keep the invariant \<open>al_inv\<close>, under which no element is handed out twice
  and every element below \<open>first_free_\<close> is in use. The invariant is stated over sets
  (\<open>abs_inv\<close>: the allocated elements, the elements each change blocks or is about to free) and
  each operation is related to its effect on those sets.
\<close>

section \<open>Blocked elements and the search\<close>

text \<open>What a change keeps from being allocated, and what it will free.\<close>

definition blocked :: "('r, 'z) rle_bitmap_scheme \<Rightarrow> 'r pending_change \<Rightarrow> nat set" where
  "blocked R c = (if pc_committed c = pc_allocation c then {} else rle_set R (pc_bitmap c))"

definition freeing :: "('r, 'z) rle_bitmap_scheme \<Rightarrow> 'r pending_change \<Rightarrow> nat set" where
  "freeing R c = (if \<not> pc_allocation c \<and> \<not> pc_committed c then rle_set R (pc_bitmap c) else {})"

definition unreserved :: "('r, 'z) rle_bitmap_scheme \<Rightarrow> 'r pending_change list \<Rightarrow> nat \<Rightarrow> bool" where
  "unreserved R cs i \<longleftrightarrow> (\<forall>c \<in> set cs. i \<notin> blocked R c)"

lemma finite_blocked: "rle_bitmap_laws R \<Longrightarrow> finite (blocked R c)"
  by (simp add: blocked_def rle_set_finite)

lemma GetReservedCount_card:
  "rle_bitmap_laws R \<Longrightarrow> GetReservedCount R c = card (blocked R c)"
  by (simp add: GetReservedCount_def blocked_def rle_num_bits_card)

lemma GetNextUnreserved_spec:
  assumes "rle_bitmap_laws R"
  shows "start \<le> GetNextUnreserved R c start" "GetNextUnreserved R c start \<notin> blocked R c"
    "start \<le> i \<Longrightarrow> i < GetNextUnreserved R c start \<Longrightarrow> i \<in> blocked R c"
  using rle_next_clear_spec [OF assms] by (auto simp: GetNextUnreserved_def blocked_def split: if_splits)

lemma unreserved_exists:
  assumes "rle_bitmap_laws R"
  shows "\<exists>i. start \<le> i \<and> unreserved R cs i"
proof -
  have "finite (\<Union>c \<in> set cs. blocked R c)" using finite_blocked [OF assms] by simp
  then obtain m where m: "\<forall>i \<in> (\<Union>c \<in> set cs. blocked R c). i < m"
    by (meson finite_nat_set_iff_bounded)
  have "unreserved R cs (max m start)" unfolding unreserved_def
  proof (intro ballI notI)
    fix c assume "c \<in> set cs" "max m start \<in> blocked R c"
    with m have "max m start < m" by blast
    then show False by simp
  qed
  then show ?thesis by (intro exI [of _ "max m start"]) simp
qed

definition next_unreserved :: "('r, 'z) rle_bitmap_scheme \<Rightarrow> 'r pending_change list \<Rightarrow> nat \<Rightarrow> nat" where
  "next_unreserved R cs start = (LEAST i. start \<le> i \<and> unreserved R cs i)"

lemma next_unreserved_spec:
  fixes start :: nat
  assumes "rle_bitmap_laws R"
  shows "start \<le> next_unreserved R cs start" "unreserved R cs (next_unreserved R cs start)"
    "start \<le> i \<Longrightarrow> unreserved R cs i \<Longrightarrow> next_unreserved R cs start \<le> i"
  using LeastI_ex [OF unreserved_exists [OF assms, of start cs]]
  by (auto simp: next_unreserved_def intro: Least_le)

lemma next_unreserved_eqI:
  assumes "rle_bitmap_laws R" "start \<le> start'"
    "\<And>i. start \<le> i \<Longrightarrow> i < start' \<Longrightarrow> \<not> unreserved R cs i"
  shows "next_unreserved R cs start' = next_unreserved R cs start"
proof (rule antisym)
  have "start' \<le> next_unreserved R cs start"
    using next_unreserved_spec [OF assms(1)] assms(3) not_le_imp_less by blast
  then show "next_unreserved R cs start' \<le> next_unreserved R cs start"
    using next_unreserved_spec [OF assms(1)] by blast
  show "next_unreserved R cs start \<le> next_unreserved R cs start'"
    using next_unreserved_spec [OF assms(1)] assms(2) by (meson le_trans)
qed

lemma unreserved_rotate [simp]: "unreserved R (rotate1 cs) i = unreserved R cs i"
  by (simp add: unreserved_def)

lemma next_unreserved_rotate [simp]: "next_unreserved R (rotate1 cs) i = next_unreserved R cs i"
  by (simp add: next_unreserved_def)

lemma find_next_unreserved_correct:
  assumes laws: "rle_bitmap_laws R"
  shows "(\<forall>c \<in> set (drop (length cs - u) cs). start \<notin> blocked R c) \<Longrightarrow> u \<le> length cs \<Longrightarrow>
    find_next_unreserved R n cs u start =
    Some (if next_unreserved R cs start = start \<or> next_unreserved R cs start < n
          then Ok (next_unreserved R cs start) else Panic)"
proof (induction "(next_unreserved R cs start - start, length cs - u)" arbitrary: cs u start
    rule: wf_induct_rule [OF wf_lex_prod [OF wf_less wf_less]])
  case (1 cs u start)
  let ?L = "next_unreserved R cs start"
  show ?case
  proof (cases "u < length cs")
    case False
    then have "unreserved R cs start" using "1.prems" by (simp add: unreserved_def)
    then have "?L = start"
      using next_unreserved_spec [OF laws, where start = start and cs = cs] by (metis order_antisym order_refl)
    then show ?thesis using False by (simp add: find_next_unreserved.simps)
  next
    case True
    then obtain x xs where cs: "cs = x # xs" by (cases cs) auto
    then have hd: "hd cs = x" by simp
    let ?s = "GetNextUnreserved R x start"
    note s = GetNextUnreserved_spec [OF laws, where start = start and c = x]
    have xu: "\<not> unreserved R cs i" if "start \<le> i" "i < ?s" for i
      using s(3) [OF that] cs by (auto simp: unreserved_def)
    have sL: "?s \<le> ?L" using next_unreserved_spec [OF laws] xu not_le_imp_less by blast
    show ?thesis
    proof (cases "?s = start")
      case same: True
      have d: "length (xs @ [x]) - (u + 1) = length xs - u" by simp
      have pr: "\<forall>c \<in> set (drop (length (rotate1 cs) - (u + 1)) (rotate1 cs)). start \<notin> blocked R c"
        using "1.prems"(1) True s(2) same unfolding cs rotate1.simps d
        by (auto simp: Suc_diff_le drop_Cons' split: if_splits)
      have "find_next_unreserved R n (rotate1 cs) (u + 1) start =
        Some (if next_unreserved R (rotate1 cs) start = start \<or> next_unreserved R (rotate1 cs) start < n
          then Ok (next_unreserved R (rotate1 cs) start) else Panic)"
        using True by (intro "1.hyps" [OF _ pr]) (auto simp: lex_prod_def)
      then show ?thesis using True same by (subst find_next_unreserved.simps) (simp add: hd)
    next
      case diff: False
      then have gt: "start < ?s" using s(1) by simp
      have Leq: "next_unreserved R cs ?s = ?L"
        using next_unreserved_eqI [OF laws s(1)] xu by blast
      have Ln: "?L \<noteq> start" using gt sL by simp
      show ?thesis
      proof (cases "?s < n")
        case False
        then show ?thesis using True diff Ln sL by (subst find_next_unreserved.simps) (simp add: hd)
      next
        case sn: True
        have pr: "\<forall>c \<in> set (drop (length (rotate1 cs) - 1) (rotate1 cs)). ?s \<notin> blocked R c"
          using s(2) unfolding cs by simp
        have "find_next_unreserved R n (rotate1 cs) 1 ?s =
          Some (if next_unreserved R (rotate1 cs) ?s = ?s \<or> next_unreserved R (rotate1 cs) ?s < n
            then Ok (next_unreserved R (rotate1 cs) ?s) else Panic)"
          using gt sL Leq True by (intro "1.hyps" [OF _ pr]) (auto simp: lex_prod_def)
        moreover have "?L = ?s \<or> ?L < n \<longleftrightarrow> ?L < n" using sn by auto
        ultimately show ?thesis
          using True diff sn Leq Ln by (subst find_next_unreserved.simps) (simp add: hd)
      qed
    qed
  qed
qed

lemma FindNextUnreserved_correct:
  assumes "rle_bitmap_laws R"
  shows "FindNextUnreserved B R al start =
    Some (if next_unreserved R (pending_changes al) start = start
             \<or> next_unreserved R (pending_changes al) start < rb_size B (al_map al)
          then Ok (next_unreserved R (pending_changes al) start) else Panic)"
  unfolding FindNextUnreserved_def
  by (rule find_next_unreserved_correct [OF assms]) simp_all

text \<open>The elements that may be handed out.\<close>

definition free_elements ::
  "('b, 'y) raw_bitmap_scheme \<Rightarrow> ('r, 'z) rle_bitmap_scheme \<Rightarrow> ('b, 'r) allocator \<Rightarrow> nat set" where
  "free_elements B R al = {i. i < rb_size B (al_map al) \<and> i \<notin> bits_set B (al_map al)
     \<and> unreserved R (pending_changes al) i}"

definition least_free ::
  "('b, 'y) raw_bitmap_scheme \<Rightarrow> ('r, 'z) rle_bitmap_scheme \<Rightarrow> ('b, 'r) allocator \<Rightarrow> nat \<Rightarrow> nat res"
where
  "least_free B R al start =
    (if \<exists>i \<in> free_elements B R al. start \<le> i
     then Ok (LEAST i. i \<in> free_elements B R al \<and> start \<le> i) else Panic)"

lemma least_free_OkI:
  assumes "i \<in> free_elements B R al" "start \<le> i"
    "\<And>j. j \<in> free_elements B R al \<Longrightarrow> start \<le> j \<Longrightarrow> i \<le> j"
  shows "least_free B R al start = Ok i"
  using assms unfolding least_free_def by (auto intro!: Least_equality)

lemma least_free_eq:
  assumes "start \<le> start'" "\<And>i. i \<in> free_elements B R al \<Longrightarrow> start \<le> i \<Longrightarrow> start' \<le> i"
  shows "least_free B R al start' = least_free B R al start"
proof -
  have "(i \<in> free_elements B R al \<and> start' \<le> i) \<longleftrightarrow> (i \<in> free_elements B R al \<and> start \<le> i)" for i
    using assms by (meson le_trans)
  then show ?thesis unfolding least_free_def Bex_def by presburger
qed

lemma find_locked_loop_correct:
  assumes B: "raw_bitmap_laws B" and R: "rle_bitmap_laws R"
  shows "index = rb_size B (al_map al)
      \<or> (index = start \<and> index < rb_size B (al_map al) \<and> index \<notin> bits_set B (al_map al)) \<Longrightarrow>
    find_locked_loop B R al start index = Some (least_free B R al start)"
proof (induction "(rb_size B (al_map al) - start, index \<noteq> start)" arbitrary: start index
    rule: wf_induct_rule [OF wf_lex_prod [OF wf_less, of "{(False, True)}"]])
  case 1
  show ?case by (rule wf_subset [of "{(False, True)}"]) (auto intro: wfI_min)
next
  case (2 start index)
  let ?n = "rb_size B (al_map al)" and ?L = "next_unreserved R (pending_changes al) start"
  note L = next_unreserved_spec [OF R, where start = start and cs = "pending_changes al"]
  have freeL: "?L \<le> i" if "i \<in> free_elements B R al" "start \<le> i" for i
    using that L(3) by (auto simp: free_elements_def)
  show ?case
  proof (cases "?L = start \<or> ?L < ?n")
    case False
    then have "\<not> (\<exists>i \<in> free_elements B R al. start \<le> i)"
      using freeL by (fastforce simp: free_elements_def)
    then show ?thesis using False
      by (subst find_locked_loop.simps) (simp add: FindNextUnreserved_correct [OF R] least_free_def)
  next
    case ok: True
    note f = raw_bitmap_find [OF B order_refl, of "al_map al" False ?L]
    show ?thesis
    proof (cases "index \<noteq> ?n \<and> ?L = index")
      case True
      then have "index \<in> free_elements B R al" "start \<le> index"
        using "2.prems" L by (auto simp: free_elements_def)
      then have "least_free B R al start = Ok index"
        using freeL True by (intro least_free_OkI) auto
      then show ?thesis using True ok
        by (subst find_locked_loop.simps) (simp add: FindNextUnreserved_correct [OF R])
    next
      case ni: False
      show ?thesis
      proof (cases "rb_find B (al_map al) False ?L ?n")
        case None
        then have "\<not> (\<exists>i \<in> free_elements B R al. start \<le> i)"
          using f freeL by (fastforce simp: free_elements_def bits_set_def)
        then show ?thesis using None ok ni
          by (subst find_locked_loop.simps)
             (auto simp: FindNextUnreserved_correct [OF R] least_free_def)
      next
        case (Some j)
        with f have j: "?L \<le> j" "j < ?n" "j \<notin> bits_set B (al_map al)"
          "\<And>i. ?L \<le> i \<Longrightarrow> i < j \<Longrightarrow> i \<in> bits_set B (al_map al)"
          by (auto simp: bits_set_def)
        have "least_free B R al j = least_free B R al start"
        proof (rule least_free_eq)
          show "start \<le> j" using L(1) j(1) by simp
          show "j \<le> i" if "i \<in> free_elements B R al" "start \<le> i" for i
            using freeL [OF that] j(4) [of i] that by (fastforce simp: free_elements_def)
        qed
        moreover have "find_locked_loop B R al j j = Some (least_free B R al j)"
        proof (rule "2.hyps")
          show "((?n - j, j \<noteq> j), (?n - start, index \<noteq> start))
              \<in> {(x, y). x < y} <*lex*> {(False, True)}"
          proof (cases "j = start")
            case True
            then have "?L = start" using L(1) j(1) by simp
            then have "index \<noteq> start" using ni j(2) True by auto
            then show ?thesis using True by simp
          next
            case False
            then have "start < j" using L(1) j(1) by simp
            then show ?thesis using j(2) by auto
          qed
        qed (use j in simp_all)
        ultimately show ?thesis using Some ok ni
          by (subst find_locked_loop.simps) (auto simp: FindNextUnreserved_correct [OF R])
      qed
    qed
  qed
qed

lemma FindLocked_eq:
  assumes "raw_bitmap_laws B" "rle_bitmap_laws R"
  shows "FindLocked B R al = Some (least_free B R al (al_first_free al))"
  unfolding FindLocked_def by (rule find_locked_loop_correct [OF assms]) simp

section \<open>The invariant\<close>

definition blk :: "('r, 'z) rle_bitmap_scheme \<Rightarrow> ('b, 'r) allocator \<Rightarrow> nat \<Rightarrow> nat set" where
  "blk R al cid = (case al_changes al cid of None \<Rightarrow> {} | Some c \<Rightarrow> blocked R c)"

definition frg :: "('r, 'z) rle_bitmap_scheme \<Rightarrow> ('b, 'r) allocator \<Rightarrow> nat \<Rightarrow> nat set" where
  "frg R al cid = (case al_changes al cid of None \<Rightarrow> {} | Some c \<Rightarrow> freeing R c)"

text \<open>
  \<open>n\<close> elements, of which \<open>bits\<close> are allocated: no element is blocked twice or both blocked and
  allocated, none is freed twice, only allocated ones are freed, and below \<open>first\<close> none is free.
\<close>

definition abs_inv ::
  "nat \<Rightarrow> nat set \<Rightarrow> (nat \<Rightarrow> nat set) \<Rightarrow> (nat \<Rightarrow> nat set) \<Rightarrow> nat \<Rightarrow> bool" where
  "abs_inv n bits k f first \<longleftrightarrow>
     bits \<subseteq> {..<n} \<and> (\<forall>i. k i \<subseteq> {..<n} - bits) \<and> (\<forall>i j. i \<noteq> j \<longrightarrow> k i \<inter> k j = {}) \<and>
     (\<forall>i. f i \<subseteq> bits) \<and> (\<forall>i j. i \<noteq> j \<longrightarrow> f i \<inter> f j = {}) \<and>
     (\<forall>x < first. x < n \<longrightarrow> x \<in> bits \<or> (\<exists>i. x \<in> k i))"

definition al_ids :: "('b, 'r) allocator \<Rightarrow> bool" where
  "al_ids al \<longleftrightarrow> distinct (al_pending al) \<and> set (al_pending al) = dom (al_changes al)
     \<and> (\<forall>cid \<in> dom (al_changes al). cid < al_next_id al)"

definition al_inv ::
  "('b, 'y) raw_bitmap_scheme \<Rightarrow> ('r, 'z) rle_bitmap_scheme \<Rightarrow> ('b, 'r) allocator \<Rightarrow> bool" where
  "al_inv B R al \<longleftrightarrow> al_ids al \<and>
     abs_inv (rb_size B (al_map al)) (bits_set B (al_map al)) (blk R al) (frg R al) (al_first_free al)"

text \<open>The changes a reservation refers to are in the store, of the right kind and not committed.\<close>

definition rs_ok :: "('b, 'r) allocator \<Rightarrow> reservation \<Rightarrow> bool" where
  "rs_ok al rs \<longleftrightarrow>
     (\<forall>cid. rs_allocations rs = Some cid \<longrightarrow>
        (\<exists>c. al_changes al cid = Some c \<and> pc_allocation c \<and> \<not> pc_committed c)) \<and>
     (\<forall>cid. rs_deallocations rs = Some cid \<longrightarrow>
        (\<exists>c. al_changes al cid = Some c \<and> \<not> pc_allocation c \<and> \<not> pc_committed c))"

lemma unreserved_blk:
  assumes "al_ids al"
  shows "unreserved R (pending_changes al) i \<longleftrightarrow> (\<forall>cid. i \<notin> blk R al cid)"
proof -
  have "set (pending_changes al) = ran (al_changes al)"
    using assms by (force simp: pending_changes_def al_ids_def ran_def image_iff)
  then show ?thesis
    by (fastforce simp: unreserved_def blk_def ran_def split: option.splits)
qed

lemma free_elements_eq:
  "al_ids al \<Longrightarrow> free_elements B R al
    = {..<rb_size B (al_map al)} - bits_set B (al_map al) - (\<Union>cid. blk R al cid)"
  by (auto simp: free_elements_def unreserved_blk)

subsection \<open>Effect of the operations on the sets\<close>

lemma abs_inv_alloc:
  assumes "abs_inv n bits k f first" "i < n" "i \<notin> bits" "\<forall>j. i \<notin> k j"
    "\<And>x. x < i \<Longrightarrow> x < n \<Longrightarrow> x \<in> bits \<or> (\<exists>j. x \<in> k j)"
  shows "abs_inv n bits (k(a := insert i (k a))) f (i + 1)"
proof -
  have "x \<in> bits \<or> (\<exists>j. x \<in> (k(a := insert i (k a))) j)" if "x < i + 1" "x < n" for x
  proof (cases "x = i")
    case True then show ?thesis by (intro disjI2 exI [of _ a]) simp
  next
    case False
    then show ?thesis using assms(5) [of x] that by (auto intro: exI [of _ a])
  qed
  then show ?thesis using assms(1-4) unfolding abs_inv_def by (intro conjI) auto
qed

lemma abs_inv_free:
  assumes "abs_inv n bits k f first" "i \<in> bits" "\<forall>j. i \<notin> f j"
  shows "abs_inv n bits k (f(d := insert i (f d))) first"
  using assms unfolding abs_inv_def by (intro conjI) auto

lemma abs_inv_commit:
  assumes "abs_inv n bits k f first" "a \<noteq> d" "k d = {}"
  shows "abs_inv n ((bits \<union> k a) - f d) (k(a := {}, d := f d)) (f(d := {})) first"
proof -
  have h: "bits \<subseteq> {..<n}" "\<And>i. k i \<subseteq> {..<n} - bits" "\<And>i j. i \<noteq> j \<Longrightarrow> k i \<inter> k j = {}"
    "\<And>i. f i \<subseteq> bits" "\<And>i j. i \<noteq> j \<Longrightarrow> f i \<inter> f j = {}"
    "\<And>x. x < first \<Longrightarrow> x < n \<Longrightarrow> x \<in> bits \<or> (\<exists>i. x \<in> k i)"
    using assms(1) unfolding abs_inv_def by blast+
  let ?b = "(bits \<union> k a) - f d" and ?k = "k(a := {}, d := f d)" and ?f = "f(d := {})"
  have "?k i \<subseteq> {..<n} - ?b" for i using h(1) h(2) [of i] h(4) [of d] h(3) [of i a] assms(2) by auto
  moreover have "?k i \<inter> ?k j = {}" if "i \<noteq> j" for i j
    using h(2) [of i] h(2) [of j] h(3) [OF that] h(4) [of d] that by auto
  moreover have "?f i \<subseteq> ?b" for i using h(4) [of i] h(5) [of i d] by auto
  moreover have "?f i \<inter> ?f j = {}" if "i \<noteq> j" for i j using h(5) [OF that] by auto
  moreover have "x \<in> ?b \<or> (\<exists>i. x \<in> ?k i)" if "x < first" "x < n" for x
  proof -
    have o: "x \<in> bits \<or> (\<exists>i. x \<in> k i)" using h(6) that by blast
    show ?thesis
  proof (cases "x \<in> f d \<or> x \<in> ?b")
    case True then show ?thesis by (auto intro: exI [of _ d])
  next
    case False
    then obtain i where i: "x \<in> k i" using o by blast
    then have "i \<noteq> a" "i \<noteq> d" using False assms(3) by auto
    then show ?thesis using i by (auto intro: exI [of _ i])
  qed
  qed
  moreover have "?b \<subseteq> {..<n}" using h(1,2) by blast
  ultimately show ?thesis unfolding abs_inv_def by blast
qed

lemma abs_inv_destroy:
  assumes "abs_inv n bits k f first" "\<And>x. x \<in> k i \<Longrightarrow> first' \<le> x" "first' \<le> first"
  shows "abs_inv n bits (k(i := {})) (f(i := {})) first'"
proof -
  have "x \<in> bits \<or> (\<exists>j. x \<in> (k(i := {})) j)" if "x < first'" "x < n" for x
  proof -
    have "x \<in> bits \<or> (\<exists>j. x \<in> k j)" using assms(1,3) that unfolding abs_inv_def by (meson less_le_trans)
    moreover have "x \<notin> k i" using assms(2) [of x] that by auto
    ultimately show ?thesis by (metis fun_upd_apply)
  qed
  then show ?thesis using assms(1) unfolding abs_inv_def by (intro conjI) auto
qed

subsection \<open>The store of changes\<close>

lemma al_ids_update:
  "al_ids al \<Longrightarrow> al_changes al cid \<noteq> None \<Longrightarrow>
    al_ids (al\<lparr>al_changes := (al_changes al)(cid \<mapsto> c)\<rparr>)"
  by (auto simp: al_ids_def)

lemma blk_update: "blk R (al\<lparr>al_changes := (al_changes al)(cid \<mapsto> c)\<rparr>)
    = (blk R al)(cid := blocked R c)"
  by (auto simp: blk_def fun_eq_iff)

lemma frg_update: "frg R (al\<lparr>al_changes := (al_changes al)(cid \<mapsto> c)\<rparr>)
    = (frg R al)(cid := freeing R c)"
  by (auto simp: frg_def fun_eq_iff)

lemma blk_frg_other [simp]:
  "blk R (al\<lparr>al_reserved := n\<rparr>) = blk R al" "frg R (al\<lparr>al_reserved := n\<rparr>) = frg R al"
  "blk R (al\<lparr>al_first_free := n\<rparr>) = blk R al" "frg R (al\<lparr>al_first_free := n\<rparr>) = frg R al"
  "blk R (al\<lparr>al_map := b\<rparr>) = blk R al" "frg R (al\<lparr>al_map := b\<rparr>) = frg R al"
  "al_ids (al\<lparr>al_reserved := n\<rparr>) = al_ids al" "al_ids (al\<lparr>al_first_free := n\<rparr>) = al_ids al"
  "al_ids (al\<lparr>al_map := b\<rparr>) = al_ids al"
  by (auto simp: blk_def frg_def al_ids_def fun_eq_iff)

text \<open>Adding an empty change leaves everything but the identifiers as it is.\<close>

lemma AddPendingChange_inv:
  assumes "al_inv B R al" "AddPendingChange c al = (cid, al')" "rle_set R (pc_bitmap c) = {}"
  shows "al_inv B R al' \<and> al_changes al' = (al_changes al)(cid \<mapsto> c) \<and> al_changes al cid = None
    \<and> blk R al' = blk R al \<and> frg R al' = frg R al \<and> al_map al' = al_map al
    \<and> al_first_free al' = al_first_free al \<and> al_reserved al' = al_reserved al"
proof -
  have al': "cid = al_next_id al" "al' = al\<lparr>al_pending := al_pending al @ [al_next_id al],
        al_changes := (al_changes al)(al_next_id al \<mapsto> c), al_next_id := al_next_id al + 1\<rparr>"
    using assms(2) by (auto simp: AddPendingChange_def)
  have n: "al_changes al (al_next_id al) = None"
    using assms(1) by (force simp: al_inv_def al_ids_def)
  have b: "blk R al' = blk R al" "frg R al' = frg R al"
    using assms(3) n by (auto simp: al' blk_def frg_def blocked_def freeing_def fun_eq_iff)
  have "al_ids al'"
    using assms(1) n by (auto simp: al_inv_def al_ids_def al' less_Suc_eq)
  then show ?thesis using assms(1) b n by (auto simp: al_inv_def al')
qed

lemma GetPendingAllocations_inv:
  assumes "rle_bitmap_laws R" "al_inv B R al" "rs_ok al rs"
    "GetPendingAllocations R (al, rs) = (cid, al', rs')"
  shows "al_inv B R al' \<and> rs_ok al' rs' \<and> rs_allocations rs' = Some cid
    \<and> rs_deallocations rs' = rs_deallocations rs \<and> rs_reserved rs' = rs_reserved rs
    \<and> (\<exists>c. al_changes al' cid = Some c \<and> pc_allocation c \<and> \<not> pc_committed c)
    \<and> blk R al' = blk R al \<and> frg R al' = frg R al \<and> al_map al' = al_map al
    \<and> al_first_free al' = al_first_free al \<and> al_reserved al' = al_reserved al"
proof (cases "rs_allocations rs")
  case (Some x)
  then show ?thesis using assms by (auto simp: GetPendingAllocations_def rs_ok_def)
next
  case None
  let ?c = "\<lparr>pc_allocation = True, pc_bitmap = rle_empty R, pc_committed = False\<rparr>"
  obtain i al1 where a: "AddPendingChange ?c al = (i, al1)" by force
  then have "cid = i" "al' = al1" "rs' = rs\<lparr>rs_allocations := Some i\<rparr>"
    using assms(4) None by (auto simp: GetPendingAllocations_def)
  with AddPendingChange_inv [OF assms(2) a] assms(1,3) None show ?thesis
    by (auto simp: rs_ok_def)
qed

lemma GetPendingDeallocations_inv:
  assumes "rle_bitmap_laws R" "al_inv B R al" "rs_ok al rs"
    "GetPendingDeallocations R (al, rs) = (cid, al', rs')"
  shows "al_inv B R al' \<and> rs_ok al' rs' \<and> rs_deallocations rs' = Some cid
    \<and> rs_allocations rs' = rs_allocations rs \<and> rs_reserved rs' = rs_reserved rs
    \<and> (\<exists>c. al_changes al' cid = Some c \<and> \<not> pc_allocation c \<and> \<not> pc_committed c)
    \<and> (\<forall>x c. al_changes al x = Some c \<longrightarrow> al_changes al' x = Some c)
    \<and> blk R al' = blk R al \<and> frg R al' = frg R al \<and> al_map al' = al_map al
    \<and> al_first_free al' = al_first_free al \<and> al_reserved al' = al_reserved al"
proof (cases "rs_deallocations rs")
  case (Some x)
  then show ?thesis using assms by (auto simp: GetPendingDeallocations_def rs_ok_def)
next
  case None
  let ?c = "\<lparr>pc_allocation = False, pc_bitmap = rle_empty R, pc_committed = False\<rparr>"
  obtain i al1 where a: "AddPendingChange ?c al = (i, al1)" by force
  then have "cid = i" "al' = al1" "rs' = rs\<lparr>rs_deallocations := Some i\<rparr>"
    using assms(4) None by (auto simp: GetPendingDeallocations_def)
  with AddPendingChange_inv [OF assms(2) a] assms(1,3) None show ?thesis
    by (auto simp: rs_ok_def)
qed

section \<open>Allocate\<close>

text \<open>Under the invariant no free element lies below \<open>first_free_\<close>.\<close>

lemma free_ge_first:
  assumes "al_inv B R al" "i \<in> free_elements B R al"
  shows "al_first_free al \<le> i"
proof (rule ccontr)
  assume "\<not> al_first_free al \<le> i"
  moreover have "i < rb_size B (al_map al)" "i \<notin> bits_set B (al_map al)" "\<forall>cid. i \<notin> blk R al cid"
    using assms by (auto simp: al_inv_def free_elements_eq)
  moreover have "\<forall>x < al_first_free al. x < rb_size B (al_map al) \<longrightarrow>
      x \<in> bits_set B (al_map al) \<or> (\<exists>i. x \<in> blk R al i)"
    using assms(1) by (simp add: al_inv_def abs_inv_def)
  ultimately show False unfolding not_le by blast
qed

lemma FindLocked_least:
  assumes "raw_bitmap_laws B" "rle_bitmap_laws R" "al_inv B R al"
  shows "FindLocked B R al = Some (if free_elements B R al = {} then Panic
    else Ok (LEAST i. i \<in> free_elements B R al))"
proof -
  have "(i \<in> free_elements B R al \<and> al_first_free al \<le> i) \<longleftrightarrow> i \<in> free_elements B R al" for i
    using free_ge_first [OF assms(3)] by blast
  then show ?thesis
    unfolding FindLocked_eq [OF assms(1,2)] least_free_def by (auto simp: Bex_def)
qed

text \<open>Setting a bit of an RLE bitmap does not run out of memory.\<close>

definition rle_set_total :: "('r, 'z) rle_bitmap_scheme \<Rightarrow> bool" where
  "rle_set_total R \<longleftrightarrow> (\<forall>r i. \<exists>r'. rle_set_one R r i = Ok r')"

lemma list_rle_total: "rle_set_total list_rle"
  by (simp add: rle_set_total_def list_rle_def)

text \<open>What \<open>Allocate\<close> does to the state.\<close>

definition allocated_step ::
  "('b, 'y) raw_bitmap_scheme \<Rightarrow> ('r, 'z) rle_bitmap_scheme \<Rightarrow> ('b, 'r) allocator \<Rightarrow> reservation \<Rightarrow> nat
    \<Rightarrow> ('b, 'r) allocator \<Rightarrow> reservation \<Rightarrow> bool" where
  "allocated_step B R al rs i al' rs' \<longleftrightarrow>
     al_inv B R al' \<and> rs_ok al' rs' \<and> al_map al' = al_map al \<and> al_first_free al' = i + 1
     \<and> al_reserved al' = u64_sub (al_reserved al) 1
     \<and> (\<exists>cid. rs_allocations rs' = Some cid \<and> blk R al' = (blk R al)(cid := insert i (blk R al cid)))
     \<and> frg R al' = frg R al \<and> free_elements B R al' = free_elements B R al - {i}"

lemma Allocator_Allocate_step:
  assumes laws: "raw_bitmap_laws B" "rle_bitmap_laws R" "rle_set_total R"
    and inv: "al_inv B R al" "rs_ok al rs" and free: "free_elements B R al \<noteq> {}"
  shows "\<exists>i al' rs'. Allocator_Allocate B R (al, rs) = Some (Ok (i, al', rs'))
    \<and> i = (LEAST i. i \<in> free_elements B R al) \<and> i \<in> free_elements B R al
    \<and> allocated_step B R al rs i al' rs' \<and> rs_reserved rs' = rs_reserved rs"
proof -
  obtain cid al1 rs1 where g: "GetPendingAllocations R (al, rs) = (cid, al1, rs1)"
    by (metis prod_cases3)
  from GetPendingAllocations_inv [OF laws(2) inv g] obtain c where
    p: "al_inv B R al1" "rs_ok al1 rs1" "rs_allocations rs1 = Some cid"
    "al_changes al1 cid = Some c" "pc_allocation c" "\<not> pc_committed c"
    "blk R al1 = blk R al" "frg R al1 = frg R al" "al_map al1 = al_map al"
    "al_first_free al1 = al_first_free al" "al_reserved al1 = al_reserved al"
    "rs_deallocations rs1 = rs_deallocations rs" "rs_reserved rs1 = rs_reserved rs" by blast
  have ids: "al_ids al" "al_ids al1" using inv(1) p(1) by (simp_all add: al_inv_def)
  have fe: "free_elements B R al1 = free_elements B R al"
    by (simp add: free_elements_eq ids p(7,9))
  define i where "i = (LEAST i. i \<in> free_elements B R al)"
  have i: "i \<in> free_elements B R al" unfolding i_def using free by (meson LeastI ex_in_conv)
  have least: "x \<in> free_elements B R al \<Longrightarrow> i \<le> x" for x unfolding i_def by (rule Least_le)
  have fl: "FindLocked B R al1 = Some (Ok i)"
    using FindLocked_least [OF laws(1,2) p(1)] free unfolding fe i_def by simp
  obtain bits where b: "rle_set_one R (pc_bitmap c) i = Ok bits"
    using laws(3) by (auto simp: rle_set_total_def)
  let ?c = "c\<lparr>pc_bitmap := bits\<rparr>"
  let ?al = "al1\<lparr>al_changes := (al_changes al1)(cid \<mapsto> ?c), al_reserved := u64_sub (al_reserved al1) 1,
      al_first_free := i + 1\<rparr>"
  have res: "Allocator_Allocate B R (al, rs) = Some (Ok (i, ?al, rs1))"
    by (simp add: Allocator_Allocate_def g fl p(4) b)
  have bc: "blocked R ?c = insert i (blk R al cid)" "freeing R ?c = {}"
    using rle_set_one_set [OF laws(2) b] p(4,5,6) p(7) [symmetric]
    by (simp_all add: blocked_def freeing_def blk_def)
  have f0: "frg R al cid = {}" using p(4,5) p(8) [symmetric] by (simp add: frg_def freeing_def)
  have k: "blk R ?al = (blk R al)(cid := insert i (blk R al cid))" "frg R ?al = frg R al"
    using blk_update [of R al1 cid ?c] frg_update [of R al1 cid ?c] bc f0 p(7,8)
    by (auto simp: blk_def frg_def fun_eq_iff)
  have ii: "i < rb_size B (al_map al)" "i \<notin> bits_set B (al_map al)" "\<forall>j. i \<notin> blk R al j"
    using i by (auto simp: free_elements_eq ids)
  have "abs_inv (rb_size B (al_map al)) (bits_set B (al_map al))
      ((blk R al)(cid := insert i (blk R al cid))) (frg R al) (i + 1)"
  proof (rule abs_inv_alloc [OF _ ii])
    show "abs_inv (rb_size B (al_map al)) (bits_set B (al_map al)) (blk R al) (frg R al)
        (al_first_free al)" using inv(1) by (simp add: al_inv_def)
    show "x \<in> bits_set B (al_map al) \<or> (\<exists>j. x \<in> blk R al j)"
      if "x < i" "x < rb_size B (al_map al)" for x
      using least [of x] that by (auto simp: free_elements_eq ids)
  qed
  moreover have "al_ids ?al" using ids(2) p(4) by (auto simp: al_ids_def)
  ultimately have inv': "al_inv B R ?al" unfolding al_inv_def k by (simp add: p(9))
  have "rs_ok ?al rs1" using p(2,3,4,5,6) by (auto simp: rs_ok_def)
  moreover have "free_elements B R ?al = free_elements B R al - {i}"
    using \<open>al_ids ?al\<close> ids(1) k p(9) by (auto simp: free_elements_eq split: if_splits)
  ultimately show ?thesis
    using res i inv' k p by (auto simp: allocated_step_def i_def)
qed

section \<open>Free\<close>

lemma Allocator_Free_step:
  assumes laws: "rle_bitmap_laws R" "rle_set_total R"
    and inv: "al_inv B R al" "rs_ok al rs"
    and index: "index \<in> bits_set B (al_map al)" "\<forall>cid. index \<notin> frg R al cid"
  shows "\<exists>al' rs' did. Allocator_Free R index (al, rs) = Ok (al', rs')
    \<and> al_inv B R al' \<and> rs_ok al' rs' \<and> rs_deallocations rs' = Some did
    \<and> frg R al' = (frg R al)(did := insert index (frg R al did)) \<and> blk R al' = blk R al
    \<and> al_map al' = al_map al \<and> free_elements B R al' = free_elements B R al"
proof -
  obtain aid al1 rs1 where g: "GetPendingAllocations R (al, rs) = (aid, al1, rs1)"
    by (metis prod_cases3)
  from GetPendingAllocations_inv [OF laws(1) inv g] obtain a where
    p: "al_inv B R al1" "rs_ok al1 rs1" "al_changes al1 aid = Some a" "pc_allocation a"
    "\<not> pc_committed a" "blk R al1 = blk R al" "frg R al1 = frg R al" "al_map al1 = al_map al"
    "al_first_free al1 = al_first_free al" by blast
  obtain did al2 rs2 where g2: "GetPendingDeallocations R (al1, rs1) = (did, al2, rs2)"
    by (metis prod_cases3)
  from GetPendingDeallocations_inv [OF laws(1) p(1,2) g2] obtain d where
    q: "al_inv B R al2" "rs_ok al2 rs2" "rs_deallocations rs2 = Some did"
    "al_changes al2 did = Some d" "\<not> pc_allocation d" "\<not> pc_committed d"
    "\<And>x c. al_changes al1 x = Some c \<Longrightarrow> al_changes al2 x = Some c"
    "blk R al2 = blk R al1" "frg R al2 = frg R al1" "al_map al2 = al_map al1"
    "al_first_free al2 = al_first_free al1" by blast
  have a2: "al_changes al2 aid = Some a" using q(7) p(3) by blast
  have inb: "abs_inv (rb_size B (al_map al)) (bits_set B (al_map al)) (blk R al) (frg R al)
      (al_first_free al)" using inv(1) by (simp add: al_inv_def)
  then have "index \<notin> blk R al aid" using index(1) by (auto simp: abs_inv_def)
  moreover have "blk R al aid = rle_set R (pc_bitmap a)"
    using p(3-5) p(6) [symmetric] by (simp add: blk_def blocked_def)
  ultimately have ni: "\<not> rle_get R (pc_bitmap a) index" by (simp add: rle_set_def)
  obtain bits where b: "rle_set_one R (pc_bitmap d) index = Ok bits"
    using laws(2) by (auto simp: rle_set_total_def)
  let ?al = "al2\<lparr>al_changes := (al_changes al2)(did \<mapsto> d\<lparr>pc_bitmap := bits\<rparr>)\<rparr>"
  have res: "Allocator_Free R index (al, rs) = Ok (?al, rs2)"
    by (simp add: Allocator_Free_def g g2 a2 q(4) ni b)
  have "blk R al did = {}" "frg R al did = rle_set R (pc_bitmap d)"
    using q(4-6) p(6,7) [symmetric] q(8,9) [symmetric]
    by (simp_all add: blk_def blocked_def frg_def freeing_def)
  then have k: "blk R ?al = blk R al" "frg R ?al = (frg R al)(did := insert index (frg R al did))"
    using rle_set_one_set [OF laws(1) b] q(5,6,8,9) p(6,7)
    by (auto simp: blk_update frg_update blocked_def freeing_def fun_eq_iff)
  have ids: "al_ids ?al" using q(1,4) by (intro al_ids_update) (auto simp: al_inv_def)
  have "al_inv B R ?al"
    using abs_inv_free [OF inb index, of did] ids q(10,11) p(8,9) by (simp add: al_inv_def k)
  moreover have "rs_ok ?al rs2" using q(2-6) by (auto simp: rs_ok_def)
  moreover have "free_elements B R ?al = free_elements B R al"
    using ids inv(1) k q(10) p(8) by (simp add: free_elements_eq al_inv_def)
  ultimately show ?thesis using res k q(3,10) p(8) by auto
qed

section \<open>Destruction of a change\<close>

lemma ranges_ok_first:
  "ranges_ok ((off, len) # rs) \<Longrightarrow> x \<in> \<Union> (range_set ` set ((off, len) # rs)) \<Longrightarrow> off \<le> x"
proof (induction rs arbitrary: off len)
  case (Cons p rs)
  obtain o' l' where p: "p = (o', l')" by force
  have r: "off + len < o'" "ranges_ok ((o', l') # rs)" using Cons.prems(1) p by auto
  show ?case
  proof (cases "x \<in> range_set (off, len)")
    case False
    then have "x \<in> \<Union> (range_set ` set ((o', l') # rs))" using Cons.prems(2) p by auto
    with Cons.IH [OF r(2)] r(1) show ?thesis by fastforce
  qed (simp add: range_set_def)
qed (auto simp: range_set_def)

lemma RemovePendingChange_inv:
  assumes laws: "rle_bitmap_laws R" and inv: "al_inv B R al" and c: "al_changes al cid = Some c"
  shows "al_inv B R (RemovePendingChange R cid al)
    \<and> blk R (RemovePendingChange R cid al) = (blk R al)(cid := {})
    \<and> frg R (RemovePendingChange R cid al) = (frg R al)(cid := {})
    \<and> al_map (RemovePendingChange R cid al) = al_map al"
proof -
  define ff where "ff = (if GetReservedCount R c > 0 then
       (case rle_ranges R (pc_bitmap c) of [] \<Rightarrow> al_first_free al
        | (off, len) # rs \<Rightarrow> min off (al_first_free al)) else al_first_free al)"
  have r: "RemovePendingChange R cid al = al\<lparr>al_first_free := ff,
      al_pending := removeAll cid (al_pending al), al_changes := (al_changes al)(cid := None)\<rparr>"
    by (auto simp: RemovePendingChange_def Let_def c ff_def min_def split: list.splits)
  have fle: "ff \<le> al_first_free al" by (auto simp: ff_def split: list.splits)
  have fx: "ff \<le> x" if "x \<in> blk R al cid" for x
  proof -
    have x: "x \<in> rle_set R (pc_bitmap c)" "pc_committed c \<noteq> pc_allocation c"
      using that c by (auto simp: blk_def blocked_def split: if_splits)
    then have "blocked R c \<noteq> {}" by (auto simp: blocked_def)
    then have g: "GetReservedCount R c > 0"
      using finite_blocked [OF laws] by (simp add: GetReservedCount_card [OF laws] card_gt_0_iff)
    show ?thesis
    proof (cases "rle_ranges R (pc_bitmap c)")
      case Nil then show ?thesis using rle_ranges_spec(2) [OF laws, of "pc_bitmap c"] x by simp
    next
      case (Cons p rs)
      obtain off len where p: "p = (off, len)" by force
      have "off \<le> x"
        using rle_ranges_spec [OF laws, of "pc_bitmap c"] x Cons p
        by (intro ranges_ok_first [of off len rs]) auto
      then show ?thesis using g Cons p by (simp add: ff_def)
    qed
  qed
  let ?al = "RemovePendingChange R cid al"
  have k: "blk R ?al = (blk R al)(cid := {})" "frg R ?al = (frg R al)(cid := {})"
    unfolding r by (auto simp: blk_def frg_def fun_eq_iff)
  have "abs_inv (rb_size B (al_map al)) (bits_set B (al_map al)) ((blk R al)(cid := {}))
      ((frg R al)(cid := {})) ff"
    using inv fle fx by (intro abs_inv_destroy [where first = "al_first_free al"]) (auto simp: al_inv_def)
  moreover have "al_ids ?al" using inv c unfolding r by (auto simp: al_inv_def al_ids_def distinct_removeAll)
  ultimately show ?thesis using k by (simp add: al_inv_def r)
qed

section \<open>Commit\<close>

lemma commit_ranges_set:
  assumes "raw_bitmap_laws B"
  shows "\<forall>p \<in> set rs. fst p + snd p \<le> rb_size B b \<Longrightarrow>
    commit_ranges (rb_set B) persist rs (b, t) = (b', t') \<Longrightarrow>
    rb_size B b' = rb_size B b \<and> bits_set B b' = bits_set B b \<union> \<Union> (range_set ` set rs)
    \<and> t' = fold (\<lambda>(off, len). persist off len) rs t"
proof (induction rs arbitrary: b t)
  case (Cons p rs)
  obtain off len where p: "p = (off, len)" by force
  let ?b = "rb_set B b off (off + len)"
  have s: "rb_size B ?b = rb_size B b" "bits_set B ?b = bits_set B b \<union> {off..<off + len}"
    using raw_bitmap_set(1) [OF assms, of off "off + len" b] bits_set_set [OF assms, of off "off + len" b]
      Cons.prems(1) p by auto
  have "commit_ranges (rb_set B) persist rs (?b, persist off len t) = (b', t')"
    using Cons.prems(2) p by simp
  from Cons.IH [OF _ this] show ?case using Cons.prems(1) p s by (auto simp: range_set_def)
qed simp

lemma commit_ranges_clear:
  assumes "raw_bitmap_laws B"
  shows "\<forall>p \<in> set rs. fst p + snd p \<le> rb_size B b \<Longrightarrow>
    commit_ranges (rb_clear B) persist rs (b, t) = (b', t') \<Longrightarrow>
    rb_size B b' = rb_size B b \<and> bits_set B b' = bits_set B b - \<Union> (range_set ` set rs)
    \<and> t' = fold (\<lambda>(off, len). persist off len) rs t"
proof (induction rs arbitrary: b t)
  case (Cons p rs)
  obtain off len where p: "p = (off, len)" by force
  let ?b = "rb_clear B b off (off + len)"
  have s: "rb_size B ?b = rb_size B b" "bits_set B ?b = bits_set B b - {off..<off + len}"
    using raw_bitmap_clear(1) [OF assms, of off "off + len" b]
      bits_set_clear [OF assms, of off "off + len" b] Cons.prems(1) p by auto
  have "commit_ranges (rb_clear B) persist rs (?b, persist off len t) = (b', t')"
    using Cons.prems(2) p by simp
  from Cons.IH [OF _ this] show ?case using Cons.prems(1) p s by (auto simp: range_set_def)
qed simp

lemma ranges_bounded:
  assumes "rle_bitmap_laws R" "rle_set R r \<subseteq> {..<n}" "p \<in> set (rle_ranges R r)"
  shows "fst p + snd p \<le> n"
proof -
  have pos: "ranges_ok rs \<Longrightarrow> q \<in> set rs \<Longrightarrow> 0 < snd q" for rs q
    by (induction rs rule: ranges_ok.induct) auto
  have "0 < snd p" using pos rle_ranges_spec(1) [OF assms(1)] assms(3) by blast
  then have "fst p + snd p - 1 \<in> range_set p" by (auto simp: range_set_def)
  then have "fst p + snd p - 1 \<in> rle_set R r" using rle_ranges_spec(2) [OF assms(1)] assms(3) by blast
  then show ?thesis using assms(2) by fastforce
qed

text \<open>The elements a reservation is about to take and to give back.\<close>

definition res_takes :: "('r, 'z) rle_bitmap_scheme \<Rightarrow> ('b, 'r) allocator \<Rightarrow> reservation \<Rightarrow> nat set" where
  "res_takes R al rs = (case rs_allocations rs of None \<Rightarrow> {} | Some cid \<Rightarrow> blk R al cid)"

definition res_gives :: "('r, 'z) rle_bitmap_scheme \<Rightarrow> ('b, 'r) allocator \<Rightarrow> reservation \<Rightarrow> nat set" where
  "res_gives R al rs = (case rs_deallocations rs of None \<Rightarrow> {} | Some cid \<Rightarrow> frg R al cid)"

text \<open>The counters in the superblock describe the map.\<close>

definition pool_ok ::
  "('b, 'y) raw_bitmap_scheme \<Rightarrow> persistent_storage \<Rightarrow> ('b, 'r) allocator \<Rightarrow> superblock_manager \<Rightarrow> bool"
where
  "pool_ok B st al sm \<longleftrightarrow>
     (md_access (st_metadata st) = access_Blocks \<or> md_access (st_metadata st) = access_Inodes)
     \<and> PoolTotal (st_metadata st) sm = rb_size B (al_map al)
     \<and> rb_size B (al_map al) < 4294967296
     \<and> PoolUsed (st_metadata st) sm = card (bits_set B (al_map al))"

lemma pool_access:
  assumes "pool_ok B st al sm"
  shows "superblock_access (md_access (st_metadata st))"
  using assms blocks.superblock_access_axioms inodes.superblock_access_axioms
  by (auto simp: pool_ok_def)

text \<open>The two persistence calls bring the used count from \<open>card bits\<close> to \<open>card bits'\<close>.\<close>

lemma persist_counts:
  assumes p: "pool_ok B st al sm" and a: "A \<inter> bits = {}" "A \<union> bits \<subseteq> {..<n}"
    and d: "D \<subseteq> bits" and b: "bits = bits_set B (al_map al)" and n: "n < 4294967296"
  defines "sm' \<equiv> (if card A > card D then PersistAllocate st (card A - card D) sm
                   else if card D > card A then PersistRelease st (card D - card A) sm else sm)"
  shows "PoolUsed (st_metadata st) sm' = card (bits \<union> A - D)
    \<and> PoolTotal (st_metadata st) sm' = PoolTotal (st_metadata st) sm"
proof -
  have fin: "finite A" "finite bits" "finite D"
    using a(2) d by (meson finite_lessThan finite_subset le_sup_iff)+
  have c1: "card (bits \<union> A - D) = card bits + card A - card D"
    using fin a(1) d by (subst card_Diff_subset) (auto simp: card_Un_disjoint Int_commute)
  have dl: "card D \<le> card bits" using d fin by (simp add: card_mono)
  have "card (bits \<union> A) \<le> n" using card_mono [of "{..<n}" "A \<union> bits"] a(2) by (simp add: Un_commute)
  then have le: "card bits + card A \<le> n" using fin a(1) by (simp add: card_Un_disjoint Int_commute)
  have u: "PoolUsed (st_metadata st) sm = card bits" using p b by (simp add: pool_ok_def)
  note acc = pool_access [OF p]
  show ?thesis
  proof (cases "card A > card D")
    case True
    then have s: "sm' = PoolAllocate (st_metadata st) (card A - card D) sm"
      using le n by (simp add: sm'_def PersistAllocate_def u32_id)
    have "PoolUsed (st_metadata st) sm + (card A - card D) < 4294967296" using u le n by simp
    note r = superblock_access.pool_allocate [OF acc refl this]
    show ?thesis using r True u c1 unfolding s by simp
  next
    case nA: False
    show ?thesis
    proof (cases "card D > card A")
      case True
      then have s: "sm' = PoolRelease (st_metadata st) (card D - card A) sm"
        using le n dl nA by (simp add: sm'_def PersistRelease_def u32_id)
      have "card D - card A \<le> PoolUsed (st_metadata st) sm" "PoolUsed (st_metadata st) sm < 4294967296"
        using u dl le n by simp_all
      note r = superblock_access.pool_release [OF acc refl this]
      show ?thesis using r True u c1 dl unfolding s by simp
    next
      case False
      then show ?thesis using nA u c1 by (simp add: sm'_def)
    qed
  qed
qed

lemma Allocator_Commit_step:
  assumes laws: "raw_bitmap_laws B" "rle_bitmap_laws R"
    and inv: "al_inv B R al" "rs_ok al rs" and pool: "pool_ok B st al sm"
  shows "\<exists>al' rs' sm' t'. Allocator_Commit B R st enqueue (al, rs, sm, t) = Ok (al', rs', sm', t')
    \<and> al_inv B R al'
    \<and> bits_set B (al_map al') = (bits_set B (al_map al) \<union> res_takes R al rs) - res_gives R al rs
    \<and> pool_ok B st al' sm' \<and> free_elements B R al' = free_elements B R al"
proof -
  obtain aid al1 rs1 where g: "GetPendingAllocations R (al, rs) = (aid, al1, rs1)"
    by (metis prod_cases3)
  from GetPendingAllocations_inv [OF laws(2) inv g] obtain a where
    p: "al_inv B R al1" "rs_ok al1 rs1" "rs_allocations rs1 = Some aid"
    "rs_deallocations rs1 = rs_deallocations rs" "al_changes al1 aid = Some a" "pc_allocation a"
    "\<not> pc_committed a" "blk R al1 = blk R al" "frg R al1 = frg R al" "al_map al1 = al_map al"
    "al_first_free al1 = al_first_free al" by blast
  obtain did al2 rs2 where g2: "GetPendingDeallocations R (al1, rs1) = (did, al2, rs2)"
    by (metis prod_cases3)
  from GetPendingDeallocations_inv [OF laws(2) p(1,2) g2] obtain d where
    q: "al_inv B R al2" "rs_ok al2 rs2" "rs_deallocations rs2 = Some did"
    "al_changes al2 did = Some d" "\<not> pc_allocation d" "\<not> pc_committed d"
    "\<And>x c. al_changes al1 x = Some c \<Longrightarrow> al_changes al2 x = Some c"
    "blk R al2 = blk R al1" "frg R al2 = frg R al1" "al_map al2 = al_map al1"
    "al_first_free al2 = al_first_free al1" by blast
  have a2: "al_changes al2 aid = Some a" using q(7) p(5) by blast
  have ad: "aid \<noteq> did" using a2 q(4,5) p(6) by auto
  define A D where "A = rle_set R (pc_bitmap a)" "D = rle_set R (pc_bitmap d)"
  have k: "blk R al aid = A" "blk R al did = {}" "frg R al did = D" "frg R al aid = {}"
    using a2 q(4-6) p(6,7) p(8,9) [symmetric] q(8,9) [symmetric]
    by (simp_all add: blk_def blocked_def frg_def freeing_def A_D_def)
  have tk: "res_takes R al rs = A"
  proof (cases "rs_allocations rs")
    case None
    then have "rle_set R (pc_bitmap a) = {}"
      using g p(5) rle_empty_set [OF laws(2)]
      by (auto simp: GetPendingAllocations_def AddPendingChange_def)
    then show ?thesis using None by (simp add: res_takes_def A_D_def)
  next
    case (Some x)
    then show ?thesis using g k(1) by (simp add: GetPendingAllocations_def res_takes_def)
  qed
  have gv: "res_gives R al rs = D"
  proof (cases "rs_deallocations rs")
    case None
    then have "rle_set R (pc_bitmap d) = {}"
      using g2 q(4) p(4) rle_empty_set [OF laws(2)]
      by (auto simp: GetPendingDeallocations_def AddPendingChange_def)
    then show ?thesis using None by (simp add: res_gives_def A_D_def)
  next
    case (Some x)
    then show ?thesis using g2 k(3) p(4) by (simp add: GetPendingDeallocations_def res_gives_def)
  qed
  have n: "item_count R a = card A" "item_count R d = card D"
    using rle_num_bits_card [OF laws(2)] by (simp_all add: item_count_def A_D_def)
  have fin: "finite A" "finite D" using rle_set_finite [OF laws(2)] by (simp_all add: A_D_def)
  have ai: "abs_inv (rb_size B (al_map al)) (bits_set B (al_map al)) (blk R al) (frg R al)
      (al_first_free al)" using inv(1) by (simp add: al_inv_def)
  then have bd: "A \<subseteq> {..<rb_size B (al_map al)} - bits_set B (al_map al)"
    "D \<subseteq> bits_set B (al_map al)" "bits_set B (al_map al) \<subseteq> {..<rb_size B (al_map al)}"
    using k(1,3) by (auto simp: abs_inv_def)
  have c0: "Allocator_Commit B R st enqueue (al, rs, sm, t) =
    (if card A = 0 \<and> card D = 0 then Ok (al2, rs2, sm, t)
     else
       let (b, t) = commit_ranges (rb_set B) (PersistRange st enqueue)
                (rle_ranges R (pc_bitmap a)) (al_map al, t);
           (b, t) = commit_ranges (rb_clear B) (PersistRange st enqueue)
                (rle_ranges R (pc_bitmap d)) (b, t);
           sm = (if card A > card D then PersistAllocate st (card A - card D) sm
                 else if card D > card A then PersistRelease st (card D - card A) sm else sm)
       in Ok (al2\<lparr>al_map := b,
                 al_changes := (al_changes al2)(aid \<mapsto> a\<lparr>pc_committed := True\<rparr>,
                                               did \<mapsto> d\<lparr>pc_committed := True\<rparr>)\<rparr>, rs2, sm, t))"
    unfolding Allocator_Commit_def Let_def prod.case g g2
    by (simp add: a2 q(4,6) p(7) n p(10) q(10))
  show ?thesis
  proof (cases "card A = 0 \<and> card D = 0")
    case True
    then have "A = {}" "D = {}" using fin by auto
    moreover have "free_elements B R al2 = free_elements B R al"
      using q(1,8,10) p(8,10) inv(1) by (simp add: free_elements_eq al_inv_def)
    moreover have "pool_ok B st al2 sm" using pool q(10) p(10) by (simp add: pool_ok_def)
    ultimately show ?thesis
      unfolding c0 if_P [OF True] using q(1,10) p(10) tk gv by auto
  next
    case False
    obtain b1 t1 where c1: "commit_ranges (rb_set B) (PersistRange st enqueue)
                (rle_ranges R (pc_bitmap a)) (al_map al, t) = (b1, t1)" by force
    obtain b2 t2 where c2: "commit_ranges (rb_clear B) (PersistRange st enqueue)
                (rle_ranges R (pc_bitmap d)) (b1, t1) = (b2, t2)" by force
    have b1: "rb_size B b1 = rb_size B (al_map al)" "bits_set B b1 = bits_set B (al_map al) \<union> A"
    proof -
      have "A \<subseteq> {..<rb_size B (al_map al)}" using bd(1) by blast
      then have "\<forall>p \<in> set (rle_ranges R (pc_bitmap a)). fst p + snd p \<le> rb_size B (al_map al)"
        using ranges_bounded [OF laws(2)] unfolding A_D_def by blast
      from commit_ranges_set [OF laws(1) this c1]
      show "rb_size B b1 = rb_size B (al_map al)" "bits_set B b1 = bits_set B (al_map al) \<union> A"
        unfolding A_D_def rle_ranges_spec(2) [OF laws(2)] by simp_all
    qed
    have Dn: "rle_set R (pc_bitmap d) \<subseteq> {..<rb_size B b1}"
      using bd(2,3) b1(1) by (auto simp: A_D_def)
    have b2: "rb_size B b2 = rb_size B (al_map al)"
      "bits_set B b2 = (bits_set B (al_map al) \<union> A) - D"
    proof -
      have "\<forall>p \<in> set (rle_ranges R (pc_bitmap d)). fst p + snd p \<le> rb_size B b1"
        using ranges_bounded [OF laws(2) Dn] by blast
      from commit_ranges_clear [OF laws(1) this c2] b1
      show "rb_size B b2 = rb_size B (al_map al)" "bits_set B b2 = (bits_set B (al_map al) \<union> A) - D"
        unfolding A_D_def rle_ranges_spec(2) [OF laws(2)] by simp_all
    qed
    let ?al = "al2\<lparr>al_map := b2, al_changes := (al_changes al2)(aid \<mapsto> a\<lparr>pc_committed := True\<rparr>,
        did \<mapsto> d\<lparr>pc_committed := True\<rparr>)\<rparr>"
    define sm' where "sm' = (if card A > card D then PersistAllocate st (card A - card D) sm
                 else if card D > card A then PersistRelease st (card D - card A) sm else sm)"
    have c: "Allocator_Commit B R st enqueue (al, rs, sm, t) = Ok (?al, rs2, sm', t2)"
      unfolding c0 if_not_P [OF False] c1 c2 Let_def prod.case sm'_def ..
    have kk: "blk R ?al = (blk R al)(aid := {}, did := D)" "frg R ?al = (frg R al)(did := {})"
      using p(6,8,9) q(5,8,9) k(4)
      by (auto simp: blk_def frg_def blocked_def freeing_def A_D_def fun_eq_iff)
    have ids: "al_ids ?al" using q(1,4) a2 by (auto simp: al_inv_def al_ids_def)
    have inv': "al_inv B R ?al"
      using abs_inv_commit [OF ai ad k(2)] ids q(11) p(11) b2 kk k(1,3) unfolding al_inv_def
      by simp
    have Ab: "A \<inter> bits_set B (al_map al) = {}"
      "A \<union> bits_set B (al_map al) \<subseteq> {..<rb_size B (al_map al)}" using bd by auto
    have np: "rb_size B (al_map al) < 4294967296" using pool by (simp add: pool_ok_def)
    have "pool_ok B st ?al sm'"
      using persist_counts [OF pool Ab bd(2) refl np] pool b2
      by (simp add: pool_ok_def sm'_def)
    moreover have "free_elements B R ?al = free_elements B R al"
    proof -
      have u1: "(\<exists>j. i \<in> ((blk R al)(aid := {}, did := D)) j)
          \<longleftrightarrow> i \<in> D \<or> (\<exists>j. j \<noteq> aid \<and> i \<in> blk R al j)" for i
        using k(2) ad by (metis empty_iff fun_upd_other fun_upd_same)
      have u2: "(\<exists>j. i \<in> blk R al j) \<longleftrightarrow> i \<in> A \<or> (\<exists>j. j \<noteq> aid \<and> i \<in> blk R al j)" for i
        using k(1) by metis
      have "i \<in> free_elements B R ?al \<longleftrightarrow> i \<in> free_elements B R al" for i
        using inv(1) bd(2) u1 [of i] u2 [of i] unfolding free_elements_eq [OF ids] kk
        by (simp add: free_elements_eq al_inv_def b2 del: fun_upd_apply) blast
      then show ?thesis by blast
    qed
    ultimately show ?thesis using c inv' b2(2) tk gv by auto
  qed
qed

section \<open>Available elements\<close>

lemma foldl_u64:
  "s + sum_list (map f cs) < 18446744073709551616 \<Longrightarrow>
    foldl (\<lambda>n c. u64 (n + f c)) s cs = s + sum_list (map f cs)"
  by (induction cs arbitrary: s) (simp_all add: u64_id)

lemma sum_reserved:
  assumes "rle_bitmap_laws R" "al_inv B R al"
  shows "sum_list (map (GetReservedCount R) (pending_changes al)) = card (\<Union>cid. blk R al cid)"
proof -
  have ids: "al_ids al" and ai: "abs_inv (rb_size B (al_map al)) (bits_set B (al_map al)) (blk R al)
      (frg R al) (al_first_free al)" using assms(2) by (simp_all add: al_inv_def)
  have "sum_list (map (GetReservedCount R) (pending_changes al))
      = sum_list (map (\<lambda>cid. card (blk R al cid)) (al_pending al))"
    unfolding pending_changes_def map_map
  proof (intro arg_cong [where f = sum_list] map_cong refl)
    fix cid assume "cid \<in> set (al_pending al)"
    then obtain c where "al_changes al cid = Some c" using ids by (auto simp: al_ids_def)
    then show "(GetReservedCount R \<circ> (\<lambda>cid. the (al_changes al cid))) cid = card (blk R al cid)"
      by (simp add: blk_def GetReservedCount_card [OF assms(1)])
  qed
  also have "\<dots> = (\<Sum>cid \<in> set (al_pending al). card (blk R al cid))"
    using ids by (simp add: sum_list_distinct_conv_sum_set al_ids_def)
  also have "\<dots> = card (\<Union>cid \<in> set (al_pending al). blk R al cid)"
  proof (rule card_UN_disjoint [symmetric])
    show "\<forall>i \<in> set (al_pending al). finite (blk R al i)"
      by (auto simp: blk_def finite_blocked [OF assms(1)] split: option.splits)
    show "\<forall>i \<in> set (al_pending al). \<forall>j \<in> set (al_pending al). i \<noteq> j \<longrightarrow> blk R al i \<inter> blk R al j = {}"
      using ai by (simp add: abs_inv_def)
  qed simp
  also have "(\<Union>cid \<in> set (al_pending al). blk R al cid) = (\<Union>cid. blk R al cid)"
  proof -
    have "blk R al cid = {}" if "cid \<notin> set (al_pending al)" for cid
      using ids that by (auto simp: al_ids_def blk_def split: option.splits)
    then show ?thesis by auto
  qed
  finally show ?thesis .
qed

lemma target_available:
  assumes "rle_bitmap_laws R" "al_inv B R al" "pool_ok B st al sm"
    "al_reserved al \<le> card (free_elements B R al)"
  shows "target_GetAvailableLocked R (PoolAvailable (st_metadata st) sm) al
    = card (free_elements B R al) - al_reserved al"
proof -
  let ?n = "rb_size B (al_map al)" and ?b = "bits_set B (al_map al)" and ?k = "\<Union>cid. blk R al cid"
  have ids: "al_ids al" and ai: "abs_inv ?n ?b (blk R al) (frg R al) (al_first_free al)"
    using assms(2) by (simp_all add: al_inv_def)
  have sub: "?b \<subseteq> {..<?n}" "?k \<subseteq> {..<?n} - ?b" using ai by (auto simp: abs_inv_def)
  have fin: "finite ?b" "finite ?k" using sub by (auto intro: finite_subset [of _ "{..<?n}"])
  have dj: "?b \<inter> ?k = {}" using sub by blast
  have un: "?b \<union> ?k \<subseteq> {..<?n}" using sub by blast
  have cu: "card (?b \<union> ?k) = card ?b + card ?k" by (rule card_Un_disjoint [OF fin dj])
  then have cb: "card ?b + card ?k \<le> ?n" using card_mono [OF _ un] by simp
  have fe: "card (free_elements B R al) = ?n - card ?b - card ?k"
  proof -
    have "free_elements B R al = {..<?n} - (?b \<union> ?k)" unfolding free_elements_eq [OF ids] by blast
    then show ?thesis using card_Diff_subset [OF _ un] fin cu by simp
  qed
  have p: "PoolAvailable (st_metadata st) sm = ?n - card ?b"
    using assms(3) cb by (simp add: PoolAvailable_def pool_ok_def u32_sub_id)
  have n: "?n < 4294967296" using assms(3) by (simp add: pool_ok_def)
  have "foldl (\<lambda>n c. u64 (n + GetReservedCount R c)) (al_reserved al) (pending_changes al)
      = al_reserved al + card ?k"
    using assms(4) fe cb n sum_reserved [OF assms(1,2)] by (subst foldl_u64) simp_all
  then show ?thesis
    using assms(4) fe cb n p unfolding target_GetAvailableLocked_def by (simp add: u64_sub_id)
qed

section \<open>Creation and allocated regions\<close>

lemma al_inv_initial:
  "al_changes al = Map.empty \<Longrightarrow> al_pending al = [] \<Longrightarrow> al_first_free al = 0 \<Longrightarrow> al_inv B R al"
  by (auto simp: al_inv_def al_ids_def abs_inv_def blk_def frg_def bits_set_def)

lemma rs_ok_empty: "rs_ok al empty_reservation"
  by (simp add: rs_ok_def empty_reservation_def)

text \<open>Regions that cover the set bits from \<open>lo\<close> on: none is empty, and no two touch.\<close>

definition separate_regions :: "nat \<Rightarrow> (nat \<times> nat) list \<Rightarrow> bool" where
  "separate_regions n rs \<longleftrightarrow> (\<forall>r \<in> set rs. 0 < snd r \<and> fst r + snd r \<le> n)
     \<and> sorted_wrt (\<lambda>r r'. fst r + snd r < fst r') rs"

lemma allocated_regions_loop_correct:
  assumes laws: "raw_bitmap_laws B"
  shows "lo \<le> rb_size B b \<Longrightarrow> \<exists>rs. allocated_regions_loop B b lo out = Some (out @ rs)
    \<and> \<Union> (range_set ` set rs) = {i \<in> bits_set B b. lo \<le> i} \<and> separate_regions (rb_size B b) rs"
proof (induction "rb_size B b - lo" arbitrary: lo out rule: less_induct)
  case less
  let ?n = "rb_size B b"
  note s1 = raw_bitmap_scan [OF laws order_refl, of b False lo]
  show ?case
  proof (cases "rb_scan B b lo ?n False")
    case None
    then have "{i \<in> bits_set B b. lo \<le> i} = {}" using s1 by (auto simp: bits_set_def)
    with None show ?thesis by (subst allocated_regions_loop.simps) (simp add: separate_regions_def)
  next
    case (Some off)
    with s1 have off: "lo \<le> off" "off < ?n" "rb_get B b off"
      "\<And>i. lo \<le> i \<Longrightarrow> i < off \<Longrightarrow> \<not> rb_get B b i" by auto
    define e where "e = (case rb_scan B b off ?n True of None \<Rightarrow> ?n | Some e \<Rightarrow> e)"
    note s2 = raw_bitmap_scan [OF laws order_refl, of b True off]
    have e: "off < e" "e \<le> ?n" "\<And>i. off \<le> i \<Longrightarrow> i < e \<Longrightarrow> rb_get B b i" "e < ?n \<Longrightarrow> \<not> rb_get B b e"
      using s2 off by (auto simp: e_def nat_less_le split: option.splits)
    obtain rs where rs: "allocated_regions_loop B b e (out @ [(off, e - off)])
        = Some ((out @ [(off, e - off)]) @ rs)"
      "\<Union> (range_set ` set rs) = {i \<in> bits_set B b. e \<le> i}" "separate_regions ?n rs"
      using less.hyps [of e "out @ [(off, e - off)]"] off(1,2) e(1,2) by fastforce
    have "{i \<in> bits_set B b. lo \<le> i} = {off..<e} \<union> {i \<in> bits_set B b. e \<le> i}"
    proof (rule set_eqI)
      fix i show "i \<in> {i \<in> bits_set B b. lo \<le> i} \<longleftrightarrow> i \<in> {off..<e} \<union> {i \<in> bits_set B b. e \<le> i}"
        using off e by (cases "i < off"; cases "i < e") (auto simp: bits_set_def)
    qed
    moreover have "range_set (off, e - off) = {off..<e}" using e by (simp add: range_set_def)
    ultimately have "\<Union> (range_set ` set ((off, e - off) # rs)) = {i \<in> bits_set B b. lo \<le> i}"
      using rs(2) by simp
    moreover have "allocated_regions_loop B b lo out = Some (out @ (off, e - off) # rs)"
      using rs(1) Some by (subst allocated_regions_loop.simps) (simp add: e_def Let_def)
    moreover have "e < fst r" if "r \<in> set rs" for r
    proof -
      have "fst r \<in> range_set r" using that rs(3) by (simp add: separate_regions_def range_set_def)
      then have "fst r \<in> {i \<in> bits_set B b. e \<le> i}" using rs(2) that by blast
      then show ?thesis using e(4) by (cases "fst r = e") (auto simp: bits_set_def)
    qed
    then have "separate_regions ?n ((off, e - off) # rs)"
      using rs(3) off(2) e(1,2) by (auto simp: separate_regions_def)
    ultimately show ?thesis by blast
  qed
qed

section \<open>An element freed before it was committed\<close>

text \<open>
  \<open>Free\<close> on an element that the same reservation has just allocated takes it out of the pending
  allocations and leaves \<open>first_free_\<close> behind it: although the element is free again, the next
  search does not see it and stops at the assertion.
\<close>

lemma Free_pending_stuck:
  assumes laws: "raw_bitmap_laws B" "rle_bitmap_laws R" "rle_set_total R"
    and inv: "al_inv B R al" "rs_ok al rs" and one: "free_elements B R al = {i}"
    and alloc: "Allocator_Allocate B R (al, rs) = Some (Ok (i, al1, rs1))"
    and free: "Allocator_Free R i (al1, rs1) = Ok (al2, rs2)"
  shows "free_elements B R al2 = {i} \<and> FindLocked B R al2 = Some Panic"
proof -
  have "allocated_step B R al rs i al1 rs1"
    using Allocator_Allocate_step [OF laws inv] one alloc by auto
  then obtain cid where s: "al_inv B R al1" "rs_ok al1 rs1" "al_map al1 = al_map al"
    "al_first_free al1 = i + 1" "rs_allocations rs1 = Some cid"
    "blk R al1 = (blk R al)(cid := insert i (blk R al cid))" "free_elements B R al1 = {}"
    using one by (auto simp: allocated_step_def)
  have g: "GetPendingAllocations R (al1, rs1) = (cid, al1, rs1)"
    by (simp add: GetPendingAllocations_def s(5))
  obtain did al3 rs3 where g2: "GetPendingDeallocations R (al1, rs1) = (did, al3, rs3)"
    by (metis prod_cases3)
  from GetPendingDeallocations_inv [OF laws(2) s(1,2) g2] have q: "al_inv B R al3"
    "\<And>x c. al_changes al1 x = Some c \<Longrightarrow> al_changes al3 x = Some c"
    "blk R al3 = blk R al1" "al_map al3 = al_map al1" "al_first_free al3 = al_first_free al1"
    by blast+
  obtain a where a: "al_changes al1 cid = Some a" "pc_allocation a" "\<not> pc_committed a"
    using s(2,5) by (auto simp: rs_ok_def)
  have ba: "blk R al1 cid = rle_set R (pc_bitmap a)" using a by (simp add: blk_def blocked_def)
  then have "rle_get R (pc_bitmap a) i" using s(6) by (auto simp: rle_set_def)
  then have al2: "al2 = al3\<lparr>al_changes := (al_changes al3)
      (cid \<mapsto> a\<lparr>pc_bitmap := rle_clear_one R (pc_bitmap a) i\<rparr>)\<rparr>"
    using free q(2) [OF a(1)] by (simp add: Allocator_Free_def g g2)
  have ids: "al_ids al2" "al_ids al" "al_ids al1"
    using q(1) q(2) [OF a(1)] inv(1) s(1) unfolding al2
    by (auto simp: al_inv_def intro!: al_ids_update)
  have k: "blk R al2 = (blk R al1)(cid := blk R al1 cid - {i})"
    using a(2,3) laws(2) ba q(3) by (simp add: al2 blk_update blocked_def)
  have "i \<in> free_elements B R al" using one by simp
  then have ii: "i < rb_size B (al_map al)" "i \<notin> bits_set B (al_map al)" "\<forall>j. i \<notin> blk R al j"
    by (auto simp: free_elements_eq ids)
  have fe: "free_elements B R al2 = {i}"
  proof -
    have "(\<Union>j. blk R al2 j) = (\<Union>j. blk R al j)"
      using ii(3) unfolding k s(6) by (auto split: if_splits)
    then have "free_elements B R al2 = free_elements B R al"
      using q(4) s(3) by (simp add: free_elements_eq [OF ids(1)] free_elements_eq [OF ids(2)])
        (simp add: al2)
    then show ?thesis using one by simp
  qed
  have "al_first_free al2 = i + 1" using q(5) s(4) by (simp add: al2)
  then have "least_free B R al2 (al_first_free al2) = Panic" by (simp add: least_free_def fe)
  then show ?thesis using fe FindLocked_eq [OF laws(1,2)] by metis
qed

section \<open>Properties\<close>

text \<open>The witness allocator: four elements of which the first and the third are allocated.\<close>

definition ex_al :: "(bool list, index_set) allocator" where
  "ex_al = \<lparr>al_reserved = 1, al_first_free = 0, al_map = [True, False, True, False],
     al_pending = [], al_changes = Map.empty, al_next_id = 0\<rparr>"

definition ex_storage :: persistent_storage where
  "ex_storage = \<lparr>st_metadata = \<lparr>data_start_block = 17, metadata_start_block = 8, using_fvm = False,
     md_access = access_Inodes\<rparr>, st_unit_size = kMinfsInodeSize, st_block_size = kMinfsBlockSize,
     st_buffer = InodeMapBuf\<rparr>"

definition ex_sm :: superblock_manager where
  "ex_sm = \<lparr>sm_info = limits_example\<lparr>inode_count := 4, alloc_inode_count := 2\<rparr>, sm_dirty = False\<rparr>"

lemma ex_al_inv: "al_inv list_bitmap list_rle ex_al"
  by (rule al_inv_initial) (simp_all add: ex_al_def)

lemma ex_al_bits: "bits_set list_bitmap (al_map ex_al) = {0, 2}"
  by (auto simp: bits_set_def ex_al_def less_Suc_eq)

lemma ex_al_free: "free_elements list_bitmap list_rle ex_al = {1, 3}"
proof -
  have "al_ids ex_al" using ex_al_inv by (simp add: al_inv_def)
  then show ?thesis
    unfolding free_elements_eq [OF \<open>al_ids ex_al\<close>] ex_al_bits
    by (auto simp: ex_al_def blk_def)
qed

lemma ex_pool_ok: "pool_ok list_bitmap ex_storage ex_al ex_sm"
  unfolding pool_ok_def ex_al_bits
  by (simp add: ex_storage_def ex_sm_def ex_al_def PoolTotal_def PoolUsed_def access_Inodes_def)

lemma ex_allocate:
  "\<exists>al1 rs1. Allocator_Allocate list_bitmap list_rle (ex_al, empty_reservation)
      = Some (Ok (1, al1, rs1)) \<and> allocated_step list_bitmap list_rle ex_al empty_reservation 1 al1 rs1"
proof -
  have l: "(LEAST i. i \<in> {1, 3 :: nat}) = 1" by (rule Least_equality) auto
  have "free_elements list_bitmap list_rle ex_al \<noteq> {}" by (simp add: ex_al_free)
  from Allocator_Allocate_step [OF list_bitmap_laws list_rle_laws list_rle_total ex_al_inv
      rs_ok_empty this] show ?thesis
    unfolding ex_al_free l by blast
qed

lemma ex_allocated_facts:
  assumes "allocated_step list_bitmap list_rle ex_al empty_reservation 1 al1 rs1"
  shows "\<exists>cid c. al_inv list_bitmap list_rle al1 \<and> rs_ok al1 rs1 \<and> al_map al1 = al_map ex_al
    \<and> rs_allocations rs1 = Some cid \<and> al_changes al1 cid = Some c \<and> blk list_rle al1 cid = {1}
    \<and> frg list_rle al1 = (\<lambda>_. {}) \<and> free_elements list_bitmap list_rle al1 = {3}"
proof -
  have k: "blk list_rle ex_al = (\<lambda>_. {})" "frg list_rle ex_al = (\<lambda>_. {})"
    by (simp_all add: blk_def frg_def ex_al_def fun_eq_iff)
  have f: "{1, 3 :: nat} - {1} = {3}" by auto
  obtain cid where a: "al_inv list_bitmap list_rle al1" "rs_ok al1 rs1" "al_map al1 = al_map ex_al"
    "rs_allocations rs1 = Some cid" "blk list_rle al1 = (\<lambda>_. {})(cid := {1})"
    "frg list_rle al1 = (\<lambda>_. {})" "free_elements list_bitmap list_rle al1 = {3}"
    using assms unfolding allocated_step_def k ex_al_free f by blast
  moreover obtain c where "al_changes al1 cid = Some c" using a(2,4) by (auto simp: rs_ok_def)
  ultimately show ?thesis by (intro exI [of _ cid] exI [of _ c]) simp
qed

text \<open>C3: In every state that satisfies the allocator's invariant \<open>al_inv\<close> (the store of pending changes is
  consistent and no free element is below \<open>first_free_\<close>) the search returns: it yields the least
  element that is neither allocated nor held back by a pending change, and if there is no such
  element it stops at the assertion.\<close>

theorem FindLocked_returns_least:
  assumes "raw_bitmap_laws B" "rle_bitmap_laws R" "al_inv B R al"
  shows "FindLocked B R al = Some (if free_elements B R al = {} then Panic
    else Ok (LEAST i. i \<in> free_elements B R al))"
  using assms by (rule FindLocked_least)

theorem FindLocked_returns_least_witness:
  "FindLocked list_bitmap list_rle ex_al = Some (Ok 1)"
proof -
  have "(LEAST i :: nat. i = 1 \<or> i = 3) = 1" by (rule Least_equality) auto
  then show ?thesis
    using FindLocked_returns_least [OF list_bitmap_laws list_rle_laws ex_al_inv]
    by (simp add: ex_al_free)
qed

text \<open>C4: \<open>Allocate\<close> hands out an element that no bit of the map and no pending change held, records
  it in the reservation's pending allocations so that no later call can hand it out, and keeps
  the invariant.\<close>

theorem Allocate_fresh:
  assumes "raw_bitmap_laws B" "rle_bitmap_laws R" "rle_set_total R" "al_inv B R al" "rs_ok al rs"
    "free_elements B R al \<noteq> {}"
  shows "\<exists>i al' rs'. Allocator_Allocate B R (al, rs) = Some (Ok (i, al', rs'))
    \<and> i \<in> free_elements B R al \<and> allocated_step B R al rs i al' rs'"
  using Allocator_Allocate_step [OF assms] by blast

theorem Allocate_fresh_witness:
  "\<exists>i al' rs'. Allocator_Allocate list_bitmap list_rle (ex_al, empty_reservation) = Some (Ok (i, al', rs'))
    \<and> i \<in> {1, 3} \<and> al_inv list_bitmap list_rle al'"
  using Allocate_fresh [OF list_bitmap_laws list_rle_laws list_rle_total ex_al_inv rs_ok_empty]
  by (force simp: ex_al_free allocated_step_def)

text \<open>\<open>Free\<close> on an allocated element that nobody is freeing yet records it in the pending
  deallocations, without touching the map or making it available, and keeps the invariant.\<close>

theorem Free_deferred:
  assumes "rle_bitmap_laws R" "rle_set_total R" "al_inv B R al" "rs_ok al rs"
    "index \<in> bits_set B (al_map al)" "\<forall>cid. index \<notin> frg R al cid"
  shows "\<exists>al' rs' did. Allocator_Free R index (al, rs) = Ok (al', rs') \<and> al_inv B R al'
    \<and> rs_deallocations rs' = Some did
    \<and> frg R al' = (frg R al)(did := insert index (frg R al did)) \<and> al_map al' = al_map al
    \<and> free_elements B R al' = free_elements B R al"
  using Allocator_Free_step [OF assms] by blast

theorem Free_deferred_witness:
  "\<exists>al' rs'. Allocator_Free list_rle 2 (ex_al, empty_reservation) = Ok (al', rs')
    \<and> al_inv list_bitmap list_rle al'"
proof -
  have "2 \<in> bits_set list_bitmap (al_map ex_al)" by (simp add: ex_al_bits)
  moreover have "\<forall>cid. 2 \<notin> frg list_rle ex_al cid" by (simp add: frg_def ex_al_def)
  ultimately show ?thesis
    using Free_deferred [OF list_rle_laws list_rle_total ex_al_inv rs_ok_empty] by blast
qed

text \<open>C5: \<open>Commit\<close> swaps the pending elements of a reservation into and out of the map, leaves the
  used count of the superblock equal to the number of set bits, keeps the invariant, and makes
  nothing available: the freed elements stay reserved until their change is destroyed.\<close>

theorem Commit_correct:
  assumes "raw_bitmap_laws B" "rle_bitmap_laws R" "al_inv B R al" "rs_ok al rs" "pool_ok B st al sm"
  shows "\<exists>al' rs' sm' t'. Allocator_Commit B R st enqueue (al, rs, sm, t) = Ok (al', rs', sm', t')
    \<and> al_inv B R al'
    \<and> bits_set B (al_map al') = (bits_set B (al_map al) \<union> res_takes R al rs) - res_gives R al rs
    \<and> pool_ok B st al' sm' \<and> free_elements B R al' = free_elements B R al"
  using Allocator_Commit_step [OF assms] .

theorem Commit_correct_witness:
  "\<exists>al1 rs1 al2 rs2 sm2 t2.
     Allocator_Allocate list_bitmap list_rle (ex_al, empty_reservation) = Some (Ok (1, al1, rs1))
   \<and> Allocator_Commit list_bitmap list_rle ex_storage (pw_enqueue_metadata list_work)
       (al1, rs1, ex_sm, []) = Ok (al2, rs2, sm2, t2)
   \<and> bits_set list_bitmap (al_map al2) = {0, 1, 2}"
proof -
  obtain al1 rs1 where a: "Allocator_Allocate list_bitmap list_rle (ex_al, empty_reservation)
      = Some (Ok (1, al1, rs1))" "allocated_step list_bitmap list_rle ex_al empty_reservation 1 al1 rs1"
    using ex_allocate by blast
  have s: "al_inv list_bitmap list_rle al1" "rs_ok al1 rs1" "al_map al1 = al_map ex_al"
    "res_takes list_rle al1 rs1 = {1}" "res_gives list_rle al1 rs1 = {}"
    using ex_allocated_facts [OF a(2)]
    by (auto simp: res_takes_def res_gives_def split: option.splits)
  have "pool_ok list_bitmap ex_storage al1 ex_sm" using ex_pool_ok s(3) by (simp add: pool_ok_def)
  from Commit_correct [OF list_bitmap_laws list_rle_laws s(1,2) this,
      of "pw_enqueue_metadata list_work" "[]"] a(1) show ?thesis
    using ex_al_bits by (auto simp: s(3-5) insert_commute)
qed

text \<open>C8: Destroying a pending change releases what it held back and lowers \<open>first_free_\<close> if needed,
  so that the invariant (no free element below \<open>first_free_\<close>) still holds.\<close>

theorem RemovePendingChange_correct:
  assumes "rle_bitmap_laws R" "al_inv B R al" "al_changes al cid = Some c"
  shows "al_inv B R (RemovePendingChange R cid al)
    \<and> free_elements B R (RemovePendingChange R cid al) = free_elements B R al \<union> blk R al cid"
proof -
  let ?al = "RemovePendingChange R cid al"
  note r = RemovePendingChange_inv [OF assms]
  have ids: "al_ids al" "al_ids ?al" using assms(2) r by (simp_all add: al_inv_def)
  have ai: "blk R al i \<subseteq> {..<rb_size B (al_map al)} - bits_set B (al_map al)"
    "i \<noteq> j \<Longrightarrow> blk R al i \<inter> blk R al j = {}" for i j
    using assms(2) by (simp_all add: al_inv_def abs_inv_def)
  have "x \<in> free_elements B R ?al \<longleftrightarrow> x \<in> free_elements B R al \<union> blk R al cid" for x
    using r ai(1) [of cid] ai(2) [of _ cid]
    unfolding free_elements_eq [OF ids(1)] free_elements_eq [OF ids(2)]
    by (auto split: if_splits, metis)
  then show ?thesis using r by blast
qed

theorem RemovePendingChange_correct_witness:
  "\<exists>al1 rs1 cid. rs_allocations rs1 = Some cid
   \<and> Allocator_Allocate list_bitmap list_rle (ex_al, empty_reservation) = Some (Ok (1, al1, rs1))
   \<and> free_elements list_bitmap list_rle (RemovePendingChange list_rle cid al1) = {1, 3}"
proof -
  obtain al1 rs1 where a: "Allocator_Allocate list_bitmap list_rle (ex_al, empty_reservation)
      = Some (Ok (1, al1, rs1))" "allocated_step list_bitmap list_rle ex_al empty_reservation 1 al1 rs1"
    using ex_allocate by blast
  obtain cid c where s: "al_inv list_bitmap list_rle al1" "rs_allocations rs1 = Some cid"
    "al_changes al1 cid = Some c" "blk list_rle al1 cid = {1}"
    "free_elements list_bitmap list_rle al1 = {3}"
    using ex_allocated_facts [OF a(2)] by blast
  from RemovePendingChange_correct [OF list_rle_laws s(1,3)] a(1) s(2) show ?thesis
    unfolding s(4,5) by (auto simp: insert_commute)
qed

text \<open>C9: Under Fuchsia \<open>GetAvailable\<close> counts exactly the elements that could still be handed out,
  less those already reserved: pending changes and the map are never counted twice.\<close>

theorem GetAvailable_correct:
  assumes "rle_bitmap_laws R" "al_inv B R al" "pool_ok B st al sm"
    "al_reserved al \<le> card (free_elements B R al)"
  shows "target_GetAvailableLocked R (PoolAvailable (st_metadata st) sm) al
    = card (free_elements B R al) - al_reserved al"
  using assms by (rule target_available)

theorem GetAvailable_correct_witness:
  "target_GetAvailableLocked list_rle (PoolAvailable (st_metadata ex_storage) ex_sm) ex_al = 1"
  using GetAvailable_correct [OF list_rle_laws ex_al_inv ex_pool_ok]
  by (simp add: ex_al_free) (simp add: ex_al_def)

text \<open>\<open>GetAllocatedRegions\<close> returns, and its regions cover exactly the allocated elements.\<close>

theorem GetAllocatedRegions_correct:
  assumes "raw_bitmap_laws B"
  shows "\<exists>rs. GetAllocatedRegions B al = Some rs
    \<and> \<Union> (range_set ` set rs) = bits_set B (al_map al)"
  using allocated_regions_loop_correct [OF assms, of 0 "al_map al" "[]"]
  by (auto simp: GetAllocatedRegions_def)

theorem GetAllocatedRegions_correct_witness:
  "\<exists>rs. GetAllocatedRegions list_bitmap ex_al = Some rs \<and> \<Union> (range_set ` set rs) = {0, 2}"
  using GetAllocatedRegions_correct [OF list_bitmap_laws, of ex_al] by (simp add: ex_al_bits)

end
