(* ===== verification/Action.thy ===== *)
theory Action
  imports Format
begin

text \<open>
  State-passing actions: an operation takes the state and yields its result with the state it
  leaves, also when it fails. The outer option is \<open>None\<close> when a loop inside does not end.
  At the end of the theory: blocks as functions from byte offsets, and the little-endian
  accesses that the casts of the sources amount to.
\<close>

named_theorems act_simps \<open>unfolding of the action combinators\<close>

section \<open>Actions\<close>

type_synonym ('s, 'a) act = "'s \<Rightarrow> ('a res \<times> 's) option"

definition ret :: "'a \<Rightarrow> ('s, 'a) act" where
  "ret x s = Some (Ok x, s)"

definition fail :: "status \<Rightarrow> ('s, 'a) act" where
  "fail e s = Some (Err e, s)"

definition abort :: "('s, 'a) act" where
  "abort s = Some (Panic, s)"

definition abind :: "('s, 'a) act \<Rightarrow> ('a \<Rightarrow> ('s, 'b) act) \<Rightarrow> ('s, 'b) act" where
  "abind m f s =
    (case m s of
       None \<Rightarrow> None
     | Some (Ok x, s) \<Rightarrow> f x s
     | Some (Err e, s) \<Rightarrow> Some (Err e, s)
     | Some (Panic, s) \<Rightarrow> Some (Panic, s))"

definition gets :: "('s \<Rightarrow> 'a) \<Rightarrow> ('s, 'a) act" where
  "gets f s = Some (Ok (f s), s)"

definition modify :: "('s \<Rightarrow> 's) \<Rightarrow> ('s, unit) act" where
  "modify f s = Some (Ok (), f s)"

definition assert_act :: "bool \<Rightarrow> ('s, unit) act" where
  "assert_act b s = Some (if b then Ok () else Panic, s)"

definition lift_res :: "'a res \<Rightarrow> ('s, 'a) act" where
  "lift_res r s = Some (r, s)"

text \<open>An operation that hands the new state back only on success.\<close>

definition update_res :: "('s \<Rightarrow> ('a \<times> 's) res) \<Rightarrow> ('s, 'a) act" where
  "update_res f s =
    (case f s of Ok (x, s') \<Rightarrow> Some (Ok x, s') | Err e \<Rightarrow> Some (Err e, s) | Panic \<Rightarrow> Some (Panic, s))"

text \<open>The caller looks at the status of the inner action instead of passing it on.\<close>

definition try_act :: "('s, 'a) act \<Rightarrow> ('a res \<Rightarrow> ('s, 'b) act) \<Rightarrow> ('s, 'b) act" where
  "try_act m f s =
    (case m s of
       None \<Rightarrow> None
     | Some (Panic, s) \<Rightarrow> Some (Panic, s)
     | Some (r, s) \<Rightarrow> f r s)"

fun the_ok :: "'a res \<Rightarrow> 'a" where
  "the_ok (Ok x) = x"

lemma ret_simps [simp, act_simps]: "abind (ret x) f = f x"
  by (rule ext) (simp add: abind_def ret_def)

lemma fail_simps [simp, act_simps]: "abind (fail e) f = fail e" "abind abort f = abort"
  by (rule ext, simp add: abind_def fail_def abort_def)+

lemma gets_bind [simp, act_simps]: "abind (gets g) f s = f (g s) s"
  by (simp add: abind_def gets_def)

lemma modify_bind [simp, act_simps]: "abind (modify g) f s = f () (g s)"
  by (simp add: abind_def modify_def)

lemma assert_bind [simp, act_simps]:
  "abind (assert_act b) f s = (if b then f () s else Some (Panic, s))"
  by (simp add: abind_def assert_act_def)

lemma lift_res_bind [simp, act_simps]:
  "abind (lift_res (Ok x)) f = f x"
  "abind (lift_res (Err e)) f = fail e"
  "abind (lift_res Panic) f = abort"
  by (rule ext, simp add: abind_def lift_res_def fail_def abort_def)+

lemma abind_ret [simp]: "abind m ret = m"
  by (rule ext) (simp add: abind_def ret_def split: option.splits res.splits prod.splits)

lemma abind_assoc: "abind (abind m f) g = abind m (\<lambda>x. abind (f x) g)"
  by (rule ext) (simp add: abind_def split: option.splits res.splits prod.splits)

lemma abind_Some:
  "m s = Some (Ok x, s') \<Longrightarrow> abind m f s = f x s'"
  "m s = Some (Err e, s') \<Longrightarrow> abind m f s = Some (Err e, s')"
  "m s = Some (Panic, s') \<Longrightarrow> abind m f s = Some (Panic, s')"
  by (simp_all add: abind_def)

lemma abind_Ok_iff:
  "abind m f s = Some (Ok y, s'') \<longleftrightarrow>
    (\<exists>x s'. m s = Some (Ok x, s') \<and> f x s' = Some (Ok y, s''))"
  by (auto simp: abind_def split: option.splits res.splits prod.splits)

lemma abind_OkE:
  assumes "abind m f s = Some (Ok y, s'')"
  obtains x s' where "m s = Some (Ok x, s')" "f x s' = Some (Ok y, s'')"
  using assms by (auto simp: abind_Ok_iff)

lemma ret_iff [simp]: "ret x s = Some (r, s') \<longleftrightarrow> r = Ok x \<and> s' = s"
  by (auto simp: ret_def)

lemma fail_iff [simp]: "fail e s = Some (r, s') \<longleftrightarrow> r = Err e \<and> s' = s"
  by (auto simp: fail_def)

lemma abort_iff [simp]: "abort s = Some (r, s') \<longleftrightarrow> r = Panic \<and> s' = s"
  by (auto simp: abort_def)

lemma gets_iff [simp]: "gets f s = Some (r, s') \<longleftrightarrow> r = Ok (f s) \<and> s' = s"
  by (auto simp: gets_def)

lemma modify_iff [simp]: "modify f s = Some (r, s') \<longleftrightarrow> r = Ok () \<and> s' = f s"
  by (auto simp: modify_def)

text \<open>Loops over actions are partial functions; their bodies may use the combinators.\<close>

lemma abind_mono [partial_function_mono]:
  fixes m :: "('u \<Rightarrow> 'v option) \<Rightarrow> ('s, 'x) act" and g :: "('u \<Rightarrow> 'v option) \<Rightarrow> _"
  assumes "\<And>s. mono_option (\<lambda>f. m f s)" "\<And>x s. mono_option (\<lambda>f. g f x s)"
  shows "mono_option (\<lambda>f. abind (m f) (g f) s)"
  unfolding abind_def
proof (rule monotoneI)
  fix f h :: "'u \<Rightarrow> 'v option"
  assume le: "fun_ord option_ord f h"
  have m: "option_ord (m f s) (m h s)" using monotoneD [OF assms(1), of f h s] le by blast
  have g: "option_ord (g f x s') (g h x s')" for x s'
    using monotoneD [OF assms(2), of f h x s'] le by blast
  show "option_ord
     (case m f s of None \<Rightarrow> None | Some (Ok x, s) \<Rightarrow> g f x s | Some (Err e, s) \<Rightarrow> Some (Err e, s)
       | Some (Panic, s) \<Rightarrow> Some (Panic, s))
     (case m h s of None \<Rightarrow> None | Some (Ok x, s) \<Rightarrow> g h x s | Some (Err e, s) \<Rightarrow> Some (Err e, s)
       | Some (Panic, s) \<Rightarrow> Some (Panic, s))"
  proof (cases "m h s")
    case None then show ?thesis using m by (simp add: flat_ord_def)
  next
    case (Some p)
    then show ?thesis using m g [of "the_ok (fst p)" "snd p"]
      by (cases p; cases "fst p") (auto simp: flat_ord_def)
  qed
qed

lemma try_act_mono [partial_function_mono]:
  fixes m :: "('u \<Rightarrow> 'v option) \<Rightarrow> ('s, 'x) act" and g :: "('u \<Rightarrow> 'v option) \<Rightarrow> _"
  assumes "\<And>s. mono_option (\<lambda>f. m f s)" "\<And>x s. mono_option (\<lambda>f. g f x s)"
  shows "mono_option (\<lambda>f. try_act (m f) (g f) s)"
  unfolding try_act_def
proof (rule monotoneI)
  fix f h :: "'u \<Rightarrow> 'v option"
  assume le: "fun_ord option_ord f h"
  have m: "option_ord (m f s) (m h s)" using monotoneD [OF assms(1), of f h s] le by blast
  have g: "option_ord (g f x s') (g h x s')" for x s'
    using monotoneD [OF assms(2), of f h x s'] le by blast
  show "option_ord
     (case m f s of None \<Rightarrow> None | Some (Panic, s) \<Rightarrow> Some (Panic, s) | Some (r, s) \<Rightarrow> g f r s)
     (case m h s of None \<Rightarrow> None | Some (Panic, s) \<Rightarrow> Some (Panic, s) | Some (r, s) \<Rightarrow> g h r s)"
  proof (cases "m h s")
    case None then show ?thesis using m by (simp add: flat_ord_def)
  next
    case (Some p)
    then show ?thesis using m g [of "fst p" "snd p"]
      by (cases p; cases "fst p") (auto simp: flat_ord_def)
  qed
qed

section \<open>Bytes\<close>

text \<open>The contents of a buffer: the byte at each offset.\<close>

type_synonym bytes = "nat \<Rightarrow> nat"

definition zero_bytes :: bytes where
  "zero_bytes = (\<lambda>_. 0)"

definition copy_bytes :: "nat \<Rightarrow> bytes \<Rightarrow> nat \<Rightarrow> nat \<Rightarrow> bytes \<Rightarrow> bytes" where
  "copy_bytes off src soff n dst =
     (\<lambda>i. if off \<le> i \<and> i < off + n then src (soff + (i - off)) else dst i)"

definition get_u32 :: "bytes \<Rightarrow> nat \<Rightarrow> nat" where
  "get_u32 b off = b off + 256 * (b (off + 1) + 256 * (b (off + 2) + 256 * b (off + 3)))"

definition set_u32 :: "nat \<Rightarrow> nat \<Rightarrow> bytes \<Rightarrow> bytes" where
  "set_u32 off v b = b(off := v mod 256, off + 1 := v div 256 mod 256,
     off + 2 := v div 65536 mod 256, off + 3 := v div 16777216 mod 256)"

definition get_u64 :: "bytes \<Rightarrow> nat \<Rightarrow> nat" where
  "get_u64 b off = get_u32 b off + 4294967296 * get_u32 b (off + 4)"

definition set_u64 :: "nat \<Rightarrow> nat \<Rightarrow> bytes \<Rightarrow> bytes" where
  "set_u64 off v b = set_u32 (off + 4) (v div 4294967296) (set_u32 off (u32 v) b)"

lemma get_set_u32 [simp]: "v < 4294967296 \<Longrightarrow> get_u32 (set_u32 off v b) off = v"
proof -
  assume v: "v < 4294967296"
  define a where "a = v div 256"
  define b' where "b' = a div 256"
  define c where "c = b' div 256"
  have d: "v div 65536 = b'" "v div 16777216 = c"
    by (simp_all add: a_def b'_def c_def div_mult2_eq [symmetric])
  have m: "256 * a + v mod 256 = v" "256 * b' + a mod 256 = a" "256 * c + b' mod 256 = b'"
    unfolding a_def b'_def c_def by (rule mult_div_mod_eq)+
  have c: "c mod 256 = c" using v m by (intro mod_less) linarith
  have "256 * a + r = w \<Longrightarrow> 256 * b' + r1 = a \<Longrightarrow> 256 * c + r2 = b' \<Longrightarrow>
      r + 256 * (r1 + 256 * (r2 + 256 * c)) = w" for r r1 r2 w :: nat
    by (auto simp: algebra_simps)
  from this [OF m] have "v mod 256 + 256 * (a mod 256 + 256 * (b' mod 256 + 256 * c)) = v" .
  then show ?thesis unfolding get_u32_def set_u32_def d a_def [symmetric] c by simp
qed

lemma get_set_u32_other [simp]:
  "off + 4 \<le> off' \<or> off' + 4 \<le> off \<Longrightarrow> get_u32 (set_u32 off v b) off' = get_u32 b off'"
  by (auto simp: get_u32_def set_u32_def)

lemma get_set_u64 [simp]: "v < 18446744073709551616 \<Longrightarrow> get_u64 (set_u64 off v b) off = v"
proof -
  assume v: "v < 18446744073709551616"
  have "v div 4294967296 < 4294967296" using v by simp
  moreover have "u32 v + 4294967296 * (v div 4294967296) = v" by (simp add: u32_def)
  ultimately show ?thesis by (simp add: get_u64_def set_u64_def)
qed

lemma get_set_u64_other [simp]:
  "off + 8 \<le> off' \<or> off' + 8 \<le> off \<Longrightarrow> get_u64 (set_u64 off v b) off' = get_u64 b off'"
  "off + 8 \<le> off' \<or> off' + 4 \<le> off \<Longrightarrow> get_u32 (set_u64 off v b) off' = get_u32 b off'"
  "off + 4 \<le> off' \<or> off' + 8 \<le> off \<Longrightarrow> get_u64 (set_u32 off v b) off' = get_u64 b off'"
  by (auto simp: get_u64_def set_u64_def)

end
