(* ===== verification/Ranges.thy ===== *)
theory Ranges
  imports Bitmap
begin

text \<open>
  The operations of run length encoded bitmaps on ranges, with the laws the lazy reader relies
  on, and the list instance.
\<close>

text \<open>\<open>rg_find r v lo hi\<close> is the value that \<open>Find(v, lo, hi, 1, &out)\<close> stores: the first index of the
  range whose bit is \<open>v\<close>, and \<open>hi\<close> when there is none.\<close>

record 'r range_bitmap = "'r rle_bitmap" +
  rg_set :: "'r \<Rightarrow> nat \<Rightarrow> nat \<Rightarrow> 'r"
  rg_clear :: "'r \<Rightarrow> nat \<Rightarrow> nat \<Rightarrow> 'r"
  rg_find :: "'r \<Rightarrow> bool \<Rightarrow> nat \<Rightarrow> nat \<Rightarrow> nat"

definition law_rg_change :: "('r, 'z) range_bitmap_scheme \<Rightarrow> bool" where
  "law_rg_change R \<longleftrightarrow>
     (\<forall>r lo hi. rle_set R (rg_set R r lo hi) = rle_set R r \<union> {lo..<hi}) \<and>
     (\<forall>r lo hi. rle_set R (rg_clear R r lo hi) = rle_set R r - {lo..<hi})"

definition law_rg_find :: "('r, 'z) range_bitmap_scheme \<Rightarrow> bool" where
  "law_rg_find R \<longleftrightarrow>
     (\<forall>r v lo hi. let j = rg_find R r v lo hi in
        (\<forall>i. lo \<le> i \<and> i < j \<longrightarrow> rle_get R r i \<noteq> v) \<and>
        (if lo < hi then lo \<le> j \<and> j \<le> hi \<and> (j < hi \<longrightarrow> rle_get R r j = v) else j = hi))"

definition range_bitmap_laws :: "('r, 'z) range_bitmap_scheme \<Rightarrow> bool" where
  "range_bitmap_laws R \<longleftrightarrow> rle_bitmap_laws R \<and> law_rg_change R \<and> law_rg_find R"

lemma range_bitmap_rle: "range_bitmap_laws R \<Longrightarrow> rle_bitmap_laws R"
  by (simp add: range_bitmap_laws_def)

lemma rg_change [simp]:
  assumes "range_bitmap_laws R"
  shows "rle_set R (rg_set R r lo hi) = rle_set R r \<union> {lo..<hi}"
    "rle_set R (rg_clear R r lo hi) = rle_set R r - {lo..<hi}"
  using assms by (simp_all add: range_bitmap_laws_def law_rg_change_def)

lemma rg_find_spec:
  assumes "range_bitmap_laws R" "j = rg_find R r v lo hi"
  shows "lo \<le> i \<Longrightarrow> i < j \<Longrightarrow> i \<in> rle_set R r \<longleftrightarrow> \<not> v"
    and "lo < hi \<Longrightarrow> lo \<le> j" and "lo < hi \<Longrightarrow> j \<le> hi" and "\<not> lo < hi \<Longrightarrow> j = hi"
    and "lo < hi \<Longrightarrow> j < hi \<Longrightarrow> j \<in> rle_set R r \<longleftrightarrow> v"
proof -
  have *: "(\<forall>i. lo \<le> i \<and> i < j \<longrightarrow> rle_get R r i \<noteq> v) \<and>
        (if lo < hi then lo \<le> j \<and> j \<le> hi \<and> (j < hi \<longrightarrow> rle_get R r j = v) else j = hi)"
    using assms(1) unfolding range_bitmap_laws_def law_rg_find_def assms(2) Let_def by blast
  show "lo \<le> i \<Longrightarrow> i < j \<Longrightarrow> i \<in> rle_set R r \<longleftrightarrow> \<not> v"
    using * by (auto simp: rle_set_def)
  show "lo < hi \<Longrightarrow> lo \<le> j" "lo < hi \<Longrightarrow> j \<le> hi" "\<not> lo < hi \<Longrightarrow> j = hi"
    using * by (auto split: if_splits)
  show "lo < hi \<Longrightarrow> j < hi \<Longrightarrow> j \<in> rle_set R r \<longleftrightarrow> v"
    using * by (auto simp: rle_set_def)
qed

section \<open>The list instance\<close>

fun index_find :: "nat list \<Rightarrow> bool \<Rightarrow> nat \<Rightarrow> nat \<Rightarrow> nat" where
  "index_find xs v lo 0 = lo"
| "index_find xs v lo (Suc n) =
    (if (lo \<in> set xs) = v then lo else index_find xs v (Suc lo) n)"

lift_definition index_add :: "index_set \<Rightarrow> nat \<Rightarrow> nat \<Rightarrow> index_set" is
  "\<lambda>xs lo hi. fold (\<lambda>i ys. if i \<in> set ys then ys else insort i ys) [lo..<hi] xs"
proof -
  fix xs :: "nat list" and lo hi
  have "sorted ys \<and> distinct ys \<Longrightarrow> sorted (fold (\<lambda>i ys. if i \<in> set ys then ys else insort i ys) js ys)
    \<and> distinct (fold (\<lambda>i ys. if i \<in> set ys then ys else insort i ys) js ys)" for js ys :: "nat list"
    by (induction js arbitrary: ys) (auto simp: sorted_insort distinct_insort)
  then show "sorted xs \<and> distinct xs \<Longrightarrow>
      sorted (fold (\<lambda>i ys. if i \<in> set ys then ys else insort i ys) [lo..<hi] xs)
      \<and> distinct (fold (\<lambda>i ys. if i \<in> set ys then ys else insort i ys) [lo..<hi] xs)" .
qed

lift_definition index_drop :: "index_set \<Rightarrow> nat \<Rightarrow> nat \<Rightarrow> index_set" is
  "\<lambda>xs lo hi. filter (\<lambda>i. \<not> (lo \<le> i \<and> i < hi)) xs"
  by (auto simp: sorted_filter [where f = "\<lambda>x. x", simplified])

definition list_range :: "index_set range_bitmap" where
  "list_range = rle_bitmap.extend list_rle
     \<lparr>rg_set = index_add, rg_clear = index_drop,
      rg_find = (\<lambda>r v lo hi. if lo < hi then index_find (indices r) v lo (hi - lo) else hi)\<rparr>"

lemma list_range_simps [simp]:
  "rle_get list_range = rle_get list_rle" "rle_set list_range = rle_set list_rle"
  "rle_empty list_range = rle_empty list_rle" "rle_set_one list_range = rle_set_one list_rle"
  "rle_clear_one list_range = rle_clear_one list_rle"
  "rle_num_bits list_range = rle_num_bits list_rle"
  "rle_next_clear list_range = rle_next_clear list_rle"
  "rle_ranges list_range = rle_ranges list_rle"
  "rg_set list_range = index_add" "rg_clear list_range = index_drop"
  "rg_find list_range = (\<lambda>r v lo hi. if lo < hi then index_find (indices r) v lo (hi - lo) else hi)"
  by (auto simp: list_range_def rle_bitmap.defs list_rle_def rle_set_def fun_eq_iff)

lemma index_find_spec:
  "lo \<le> index_find xs v lo n \<and> index_find xs v lo n \<le> lo + n
    \<and> (\<forall>i. lo \<le> i \<and> i < index_find xs v lo n \<longrightarrow> (i \<in> set xs) \<noteq> v)
    \<and> (index_find xs v lo n < lo + n \<longrightarrow> (index_find xs v lo n \<in> set xs) = v)"
proof (induction n arbitrary: lo)
  case (Suc n)
  show ?case
  proof (cases "(lo \<in> set xs) = v")
    case False
    have "(i \<in> set xs) \<noteq> v" if "lo \<le> i" "i < index_find xs v (Suc lo) n" for i
      using Suc [of "Suc lo"] False that by (cases "i = lo") auto
    then show ?thesis using Suc [of "Suc lo"] False by auto
  qed auto
qed auto

lemma list_rle_set: "rle_set list_rle r = set (indices r)"
  by (simp add: rle_set_def list_rle_def)

lemma list_range_laws: "range_bitmap_laws list_range"
  unfolding range_bitmap_laws_def
proof (intro conjI)
  show "rle_bitmap_laws list_range"
    using list_rle_laws unfolding rle_bitmap_laws_def rle_law_defs by simp
  have a: "set (indices (index_add r lo hi)) = set (indices r) \<union> {lo..<hi}" for r lo hi
  proof transfer
    fix xs :: "nat list" and lo hi
    have "set (fold (\<lambda>i ys. if i \<in> set ys then ys else insort i ys) js ys) = set ys \<union> set js" for js ys :: "nat list"
      by (induction js arbitrary: ys) (auto simp: set_insort_key)
    then show "set (fold (\<lambda>i ys. if i \<in> set ys then ys else insort i ys) [lo..<hi] xs)
        = set xs \<union> {lo..<hi}" by simp
  qed
  have d: "set (indices (index_drop r lo hi)) = set (indices r) - {lo..<hi}" for r lo hi
    by transfer auto
  show "law_rg_change list_range" using a d by (simp add: law_rg_change_def list_rle_set)
  have g: "rle_get list_rle r i \<longleftrightarrow> i \<in> set (indices r)" for r i by (simp add: list_rle_def)
  show "law_rg_find list_range"
    unfolding law_rg_find_def list_range_simps Let_def g
  proof (intro allI)
    fix r v lo hi
    show "(\<forall>i. lo \<le> i \<and> i < (if lo < hi then index_find (indices r) v lo (hi - lo) else hi)
          \<longrightarrow> (i \<in> set (indices r)) \<noteq> v) \<and>
      (if lo < hi then lo \<le> (if lo < hi then index_find (indices r) v lo (hi - lo) else hi)
         \<and> (if lo < hi then index_find (indices r) v lo (hi - lo) else hi) \<le> hi
         \<and> ((if lo < hi then index_find (indices r) v lo (hi - lo) else hi) < hi
             \<longrightarrow> ((if lo < hi then index_find (indices r) v lo (hi - lo) else hi) \<in> set (indices r)) = v)
       else (if lo < hi then index_find (indices r) v lo (hi - lo) else hi) = hi)"
      using index_find_spec [of lo "indices r" v "hi - lo"] by (cases "lo < hi") auto
  qed
qed

end
