(* ===== verification/Lazy.thy ===== *)
theory Lazy
  imports Action Ranges Work
begin

text \<open>
  Lazily loaded buffers: the block arithmetic of \<open>block_utils.h\<close>, the lazy reader of
  \<open>lazy_reader.h\<close> and \<open>lazy_reader.cc\<close>, the resizeable array buffer of the host build and the
  lazy buffer of \<open>lazy_buffer.h\<close> and \<open>lazy_buffer.cc\<close>. A buffer holds block pointers, the only
  use the sources make of a lazy buffer: \<open>kMinfsDirectPerIndirect\<close> of them in a block.

  A read may call itself through the mapper (the pointers to the blocks of the indirect file are
  partly in that file), so the buffer is reached in the state through a pair of functions.
\<close>

section \<open>Block ranges\<close>

text \<open>\<open>DeviceBlock\<close>: a block of the device or unmapped; \<open>DeviceBlockRange\<close>: with a count.\<close>

type_synonym device_block = "nat option"
type_synonym device_block_range = "device_block \<times> nat"

definition BytesToBlocks :: "nat \<Rightarrow> nat \<Rightarrow> nat \<Rightarrow> nat \<times> nat" where
  "BytesToBlocks start stop bs = (start div bs, u64_sub (u64 (stop + bs)) 1 div bs)"

text \<open>The callback says how many blocks it processed.\<close>

partial_function (option) enumerate_blocks ::
  "(nat \<Rightarrow> nat \<Rightarrow> ('s, nat) act) \<Rightarrow> nat \<Rightarrow> nat \<Rightarrow> ('s, unit) act" where
  "enumerate_blocks callback block stop s =
    (if block < stop
     then abind (callback block stop)
            (\<lambda>len. enumerate_blocks callback (u64 (block + len)) stop) s
     else Some (Ok (), s))"

definition enumerate_bytes ::
  "(nat \<Rightarrow> nat \<Rightarrow> ('s, nat) act) \<Rightarrow> nat \<Rightarrow> nat \<Rightarrow> nat \<Rightarrow> ('s, unit) act" where
  "enumerate_bytes callback start stop bs =
    (if stop - start = 0 then ret ()
     else (let (block, last_block) = BytesToBlocks start stop bs
           in enumerate_blocks callback block last_block))"

section \<open>The lazy reader\<close>

text \<open>\<open>LazyReader::ReaderInterface\<close>.\<close>

record 's reader =
  rd_enqueue :: "nat \<Rightarrow> nat \<Rightarrow> ('s, nat) act"
  rd_run :: "('s, unit) act"
  rd_block_size :: nat

text \<open>\<open>get\<close> and \<open>put\<close> reach the bitmap \<open>mapped_\<close> of the loaded blocks.\<close>

partial_function (option) lazy_read_loop ::
  "('r, 'z) range_bitmap_scheme \<Rightarrow> ('s \<Rightarrow> 'r) \<Rightarrow> (nat \<Rightarrow> nat \<Rightarrow> ('s, nat) act)
    \<Rightarrow> nat \<Rightarrow> nat \<Rightarrow> ('s, unit) act" where
  "lazy_read_loop R get enqueue block stop s =
    (if block < stop then
       let e = rg_find R (get s) True (block + 1) stop
       in abind (enumerate_blocks enqueue block e)
            (\<lambda>_ s. lazy_read_loop R get enqueue (rg_find R (get s) False (e + 1) stop) stop s) s
     else Some (Ok (), s))"

definition LazyReader_Read ::
  "('r, 'z) range_bitmap_scheme \<Rightarrow> ('s \<Rightarrow> 'r) \<Rightarrow> ('r \<Rightarrow> 's \<Rightarrow> 's) \<Rightarrow> 's reader
    \<Rightarrow> nat \<Rightarrow> nat \<Rightarrow> ('s, unit) act" where
  "LazyReader_Read R get put rd start stop s =
    (if stop - start = 0 then Some (Ok (), s)
     else
       let (first, stop_block) = BytesToBlocks start stop (rd_block_size rd);
           block = (if rle_get R (get s) first
                    then rg_find R (get s) False (first + 1) stop_block else first)
       in abind (lazy_read_loop R get (rd_enqueue rd) block stop_block) (\<lambda>_.
          abind (rd_run rd) (\<lambda>_.
          modify (\<lambda>s. put (rg_set R (get s) first stop_block) s))) s)"

definition LazyReader_SetLoaded ::
  "('r, 'z) range_bitmap_scheme \<Rightarrow> nat \<Rightarrow> nat \<Rightarrow> bool \<Rightarrow> 'r \<Rightarrow> 'r" where
  "LazyReader_SetLoaded R start stop set_it mapped =
    (if set_it then rg_set R mapped start stop else rg_clear R mapped start stop)"

section \<open>The buffer\<close>

text \<open>The resizeable buffer and its lazy reader. New space is zero.\<close>

record 'r lazy_buffer =
  lb_mapped :: 'r
  lb_capacity :: nat
  lb_data :: "nat \<Rightarrow> nat"

definition zero_blocks :: "nat \<Rightarrow> nat \<Rightarrow> (nat \<Rightarrow> nat) \<Rightarrow> nat \<Rightarrow> nat" where
  "zero_blocks first n d =
     (\<lambda>i. if first * kMinfsDirectPerIndirect \<le> i \<and> i < (first + n) * kMinfsDirectPerIndirect
          then 0 else d i)"

definition store_blocks :: "nat \<Rightarrow> nat \<Rightarrow> (nat \<Rightarrow> nat) \<Rightarrow> (nat \<Rightarrow> nat) \<Rightarrow> nat \<Rightarrow> nat" where
  "store_blocks first n src d =
     (\<lambda>i. if first * kMinfsDirectPerIndirect \<le> i \<and> i < (first + n) * kMinfsDirectPerIndirect
          then src (i - first * kMinfsDirectPerIndirect) else d i)"

definition array_Shrink :: "nat \<Rightarrow> ('r, 'z) lazy_buffer_scheme \<Rightarrow> ('r, 'z) lazy_buffer_scheme res" where
  "array_Shrink n b =
    (if 0 < n \<and> n \<le> lb_capacity b then Ok (b\<lparr>lb_capacity := n\<rparr>) else Panic)"

definition array_Grow :: "nat \<Rightarrow> ('r, 'z) lazy_buffer_scheme \<Rightarrow> ('r, 'z) lazy_buffer_scheme res" where
  "array_Grow n b =
    (if lb_capacity b \<le> n
     then Ok (b\<lparr>lb_capacity := n, lb_data := zero_blocks (lb_capacity b) (n - lb_capacity b) (lb_data b)\<rparr>)
     else Panic)"

definition LazyBuffer_Create :: "('r, 'z) range_bitmap_scheme \<Rightarrow> 'r lazy_buffer" where
  "LazyBuffer_Create R = \<lparr>lb_mapped = rle_empty R, lb_capacity = 1, lb_data = (\<lambda>_. 0)\<rparr>"

definition LazyBuffer_Shrink ::
  "('r, 'z) range_bitmap_scheme \<Rightarrow> nat \<Rightarrow> 'r lazy_buffer \<Rightarrow> 'r lazy_buffer" where
  "LazyBuffer_Shrink R n b =
    (let b = b\<lparr>lb_mapped := LazyReader_SetLoaded R n (2 ^ 64 - 1) False (lb_mapped b)\<rparr>;
         n = (if n < 1 then 1 else n)
     in if n < lb_capacity b
        then (case array_Shrink n b of Ok b \<Rightarrow> b | _ \<Rightarrow> b) else b)"

section \<open>Reading through a mapper\<close>

text \<open>Where the state keeps the buffer.\<close>

record ('r, 's) buffer_place =
  bp_get :: "'s \<Rightarrow> 'r lazy_buffer"
  bp_put :: "'r lazy_buffer \<Rightarrow> 's \<Rightarrow> 's"

definition bp_mapped :: "('r, 's, 'z) buffer_place_scheme \<Rightarrow> 's \<Rightarrow> 'r" where
  "bp_mapped P s = lb_mapped (bp_get P s)"

definition bp_set_mapped :: "('r, 's, 'z) buffer_place_scheme \<Rightarrow> 'r \<Rightarrow> 's \<Rightarrow> 's" where
  "bp_set_mapped P m s = bp_put P ((bp_get P s)\<lparr>lb_mapped := m\<rparr>) s"

text \<open>\<open>MappedFileReader\<close> adds the operations of its builder to the state. \<open>map_range\<close> is \<open>Map\<close> of its
  mapper; \<open>read\<close> is the transaction handler's execution of one read, which yields the contents
  of the blocks.\<close>

definition MappedFileReader_Enqueue ::
  "('r, 's, 'z) buffer_place_scheme \<Rightarrow> (nat \<Rightarrow> nat \<Rightarrow> ('s, device_block_range) act)
    \<Rightarrow> nat \<Rightarrow> nat \<Rightarrow> ('s \<times> operation list, nat) act" where
  "MappedFileReader_Enqueue P map_range first stop st =
    (case map_range first stop (fst st) of
       None \<Rightarrow> None
     | Some (Err e, s) \<Rightarrow> Some (Err e, s, snd st)
     | Some (Panic, s) \<Rightarrow> Some (Panic, s, snd st)
     | Some (Ok (Some block, count), s) \<Rightarrow> Some (Ok count, s, snd st @ [read_op first block count])
     | Some (Ok (None, count), s) \<Rightarrow>
         let b = bp_get P s
         in Some (Ok count, bp_put P (b\<lparr>lb_data := zero_blocks first count (lb_data b)\<rparr>) s, snd st))"

fun run_reads ::
  "('r, 's, 'z) buffer_place_scheme \<Rightarrow> (nat \<Rightarrow> nat \<Rightarrow> ('s, nat \<Rightarrow> nat) act)
    \<Rightarrow> operation list \<Rightarrow> ('s, unit) act" where
  "run_reads P read [] = ret ()"
| "run_reads P read (x # xs) =
    abind (read (dev_offset x) (op_length x)) (\<lambda>src.
    abind (modify (\<lambda>s. let b = bp_get P s in bp_put P
            (b\<lparr>lb_data := store_blocks (vmo_offset x) (op_length x) src (lb_data b)\<rparr>) s)) (\<lambda>_.
    run_reads P read xs))"

definition MappedFileReader_RunRequests ::
  "('r, 's, 'z) buffer_place_scheme \<Rightarrow> (nat \<Rightarrow> nat \<Rightarrow> ('s, nat \<Rightarrow> nat) act)
    \<Rightarrow> ('s \<times> operation list, unit) act" where
  "MappedFileReader_RunRequests P read st =
    (case run_reads P read (snd st) (fst st) of
       None \<Rightarrow> None | Some (r, s) \<Rightarrow> Some (r, s, []))"

definition MappedFileReader ::
  "('r, 's, 'z) buffer_place_scheme \<Rightarrow> (nat \<Rightarrow> nat \<Rightarrow> ('s, device_block_range) act)
    \<Rightarrow> (nat \<Rightarrow> nat \<Rightarrow> ('s, nat \<Rightarrow> nat) act) \<Rightarrow> ('s \<times> operation list) reader" where
  "MappedFileReader P map_range read =
    \<lparr>rd_enqueue = MappedFileReader_Enqueue P map_range,
     rd_run = MappedFileReader_RunRequests P read,
     rd_block_size = kMinfsBlockSize\<rparr>"

section \<open>The lazy buffer\<close>

definition LazyBuffer_Grow ::
  "('r, 's, 'z) buffer_place_scheme \<Rightarrow> nat \<Rightarrow> ('s, unit) act" where
  "LazyBuffer_Grow P n s =
    (case array_Grow n (bp_get P s) of
       Ok b \<Rightarrow> Some (Ok (), bp_put P b s) | Err e \<Rightarrow> Some (Err e, s) | Panic \<Rightarrow> Some (Panic, s))"

text \<open>The reader is made for the call, with no operations yet.\<close>

definition LazyBuffer_Read ::
  "('r, 'y) range_bitmap_scheme \<Rightarrow> ('r, 's, 'z) buffer_place_scheme
    \<Rightarrow> (nat \<Rightarrow> nat \<Rightarrow> ('s, device_block_range) act) \<Rightarrow> (nat \<Rightarrow> nat \<Rightarrow> ('s, nat \<Rightarrow> nat) act)
    \<Rightarrow> nat \<Rightarrow> nat \<Rightarrow> ('s, unit) act" where
  "LazyBuffer_Read R P map_range read start stop =
    (if stop - start = 0 then ret ()
     else let required = snd (BytesToBlocks start stop kMinfsBlockSize) in
       abind (\<lambda>s. if required > lb_capacity (bp_get P s) then LazyBuffer_Grow P required s
                  else Some (Ok (), s)) (\<lambda>_ s.
       case LazyReader_Read R (\<lambda>st. bp_mapped P (fst st)) (\<lambda>m st. (bp_set_mapped P m (fst st), snd st))
              (MappedFileReader P map_range read) start stop (s, []) of
         None \<Rightarrow> None | Some (r, s, _) \<Rightarrow> Some (r, s)))"

text \<open>\<open>map_write\<close> is \<open>MapForWrite\<close> of the mapper for the transaction, \<open>writer\<close> writes the blocks of a
  range of the buffer to a device block; a block that is not mapped aborts.\<close>

definition LazyBuffer_Flush ::
  "(nat \<Rightarrow> nat \<Rightarrow> ('s, device_block_range \<times> bool) act)
    \<Rightarrow> (nat \<Rightarrow> nat \<Rightarrow> nat \<Rightarrow> ('s, unit) act) \<Rightarrow> nat \<Rightarrow> nat \<Rightarrow> ('s, unit) act" where
  "LazyBuffer_Flush map_write writer start stop =
    enumerate_bytes (\<lambda>first stop_block.
      abind (map_write first stop_block) (\<lambda>((block, count), _).
        case block of
          None \<Rightarrow> abort
        | Some dev \<Rightarrow> abind (writer first (first + count) dev) (\<lambda>_. ret count)))
      start stop kMinfsBlockSize"

section \<open>What a read loads\<close>

text \<open>
  The contract between the lazy reader and the reader it is given, on the blocks of a window: a
  call of \<open>Enqueue\<close> queues a non-empty initial part of the range it gets, and does not change
  which blocks of the window are loaded.
\<close>

locale block_reader =
  fixes R :: "('r, 'z) range_bitmap_scheme"
    and get :: "'s \<Rightarrow> 'r"
    and enqueue :: "nat \<Rightarrow> nat \<Rightarrow> ('s, nat) act"
    and queued_blocks :: "'s \<Rightarrow> nat set"
    and valid :: "'s \<Rightarrow> bool"
    and lo :: nat and hi :: nat
  assumes laws: "range_bitmap_laws R"
    and window: "hi < 18446744073709551616"
    and enqueue_part: "valid s \<Longrightarrow> lo \<le> a \<Longrightarrow> a < b \<Longrightarrow> b \<le> hi \<Longrightarrow>
      \<exists>n s'. enqueue a b s = Some (Ok n, s') \<and> valid s' \<and> 0 < n \<and> a + n \<le> b
        \<and> queued_blocks s' = queued_blocks s \<union> {a..<a + n}
        \<and> rle_set R (get s') \<inter> {lo..<hi} = rle_set R (get s) \<inter> {lo..<hi}"
begin

definition loaded :: "'s \<Rightarrow> nat set" where
  "loaded s = rle_set R (get s) \<inter> {lo..<hi}"

lemma enumerate_all:
  "valid s \<Longrightarrow> lo \<le> a \<Longrightarrow> a \<le> b \<Longrightarrow> b \<le> hi \<Longrightarrow>
    \<exists>s'. enumerate_blocks enqueue a b s = Some (Ok (), s') \<and> valid s'
      \<and> queued_blocks s' = queued_blocks s \<union> {a..<b} \<and> loaded s' = loaded s"
proof (induction "b - a" arbitrary: a s rule: less_induct)
  case less
  show ?case
  proof (cases "a < b")
    case False
    with less.prems show ?thesis by (subst enumerate_blocks.simps) simp
  next
    case True
    obtain n s1 where e: "enqueue a b s = Some (Ok n, s1)" "valid s1" "0 < n" "a + n \<le> b"
      "queued_blocks s1 = queued_blocks s \<union> {a..<a + n}" "loaded s1 = loaded s"
      using enqueue_part [of s a b] less.prems True by (auto simp: loaded_def)
    have u: "u64 (a + n) = a + n" using e(4) less.prems(4) window by (simp add: u64_id)
    obtain s2 where s2: "enumerate_blocks enqueue (a + n) b s1 = Some (Ok (), s2)" "valid s2"
      "queued_blocks s2 = queued_blocks s1 \<union> {a + n..<b}" "loaded s2 = loaded s1"
      using less.hyps [of "a + n" s1] e less.prems True diff_less_mono2 [of a "a + n" b] by auto
    have "enumerate_blocks enqueue a b s = Some (Ok (), s2)"
      by (subst enumerate_blocks.simps) (simp add: True e(1) u s2(1) abind_Some)
    moreover have "{a..<a + n} \<union> {a + n..<b} = {a..<b}" using e(3,4) by auto
    ultimately show ?thesis using s2 e by (auto simp: Un_assoc)
  qed
qed

lemma read_loop:
  assumes "valid s" "lo \<le> block" "stop \<le> hi" "block < stop \<Longrightarrow> block \<notin> loaded s"
  shows "\<exists>s'. lazy_read_loop R get enqueue block stop s = Some (Ok (), s') \<and> valid s'
    \<and> queued_blocks s' = queued_blocks s \<union> ({block..<stop} - loaded s) \<and> loaded s' = loaded s"
  using assms
proof (induction "stop - block" arbitrary: block s rule: less_induct)
  case less
  show ?case
  proof (cases "block < stop")
    case False
    with less.prems show ?thesis by (subst lazy_read_loop.simps) simp
  next
    case True
    define e where "e = rg_find R (get s) True (block + 1) stop"
    note f = rg_find_spec [OF laws e_def]
    have e: "block < e" "e \<le> stop" using f(2-4) True by (cases "block + 1 < stop"; simp)+
    have un: "i \<notin> loaded s" if "block \<le> i" "i < e" for i
      using less.prems(4) True f(1) [of i] that by (cases "i = block") (auto simp: loaded_def)
    obtain s1 where s1: "enumerate_blocks enqueue block e s = Some (Ok (), s1)" "valid s1"
      "queued_blocks s1 = queued_blocks s \<union> {block..<e}" "loaded s1 = loaded s"
      using enumerate_all [of s block e] less.prems e by auto
    define b2 where "b2 = rg_find R (get s1) False (e + 1) stop"
    note g = rg_find_spec [OF laws b2_def]
    have b2: "block < b2" "b2 < stop \<Longrightarrow> b2 \<notin> loaded s1"
      using g(2-5) e True by (cases "e + 1 < stop"; auto simp: loaded_def)+
    have ld: "i \<in> loaded s" if "e \<le> i" "i < b2" "i < stop" for i
    proof (cases "i = e")
      case True
      have "block + 1 < stop" using that True e(1) by simp
      then show ?thesis using f(5) True that less.prems(2,3) e(1) by (simp add: loaded_def)
    next
      case False
      then have "i \<in> loaded s1" using g(1) [of i] that less.prems(2,3) e by (simp add: loaded_def)
      then show ?thesis using s1(4) by simp
    qed
    obtain s2 where s2: "lazy_read_loop R get enqueue b2 stop s1 = Some (Ok (), s2)" "valid s2"
      "queued_blocks s2 = queued_blocks s1 \<union> ({b2..<stop} - loaded s1)" "loaded s2 = loaded s1"
      using less.hyps [of b2 s1] less.prems b2 s1 True diff_less_mono2 [of block b2 stop] by auto
    have "lazy_read_loop R get enqueue block stop s = Some (Ok (), s2)"
      by (subst lazy_read_loop.simps)
         (simp del: One_nat_def add: True Let_def e_def [symmetric] abind_Some(1) [where m = "enumerate_blocks enqueue block e", OF s1(1)] b2_def [symmetric] s2(1))
    moreover have "{block..<e} \<union> ({b2..<stop} - loaded s) = {block..<stop} - loaded s"
      using un ld e b2(1) by (auto simp: not_less) (metis leI)+
    ultimately show ?thesis using s2 s1 by (auto simp: Un_assoc)
  qed
qed

text \<open>A read of bytes issues its requests in a state where exactly the blocks of the range that
  were not loaded have been queued, and then marks the whole range as loaded.\<close>

lemma read_exact:
  assumes "valid s" "rd_enqueue rd = enqueue" "start < stop"
    "BytesToBlocks start stop (rd_block_size rd) = (first, stop_block)"
    "lo \<le> first" "first < stop_block" "stop_block \<le> hi"
  shows "\<exists>s'. LazyReader_Read R get put rd start stop s
      = abind (rd_run rd) (\<lambda>_. modify (\<lambda>s. put (rg_set R (get s) first stop_block) s)) s'
    \<and> valid s' \<and> queued_blocks s' = queued_blocks s \<union> ({first..<stop_block} - loaded s)
    \<and> loaded s' = loaded s"
proof -
  define block where "block = (if rle_get R (get s) first
      then rg_find R (get s) False (first + 1) stop_block else first)"
  note g = rg_find_spec [OF laws refl, where r = "get s" and v = False
      and lo = "first + 1" and hi = stop_block]
  have b: "first \<le> block" using g(2,4) assms(6)
    by (cases "first + 1 < stop_block") (auto simp: block_def)
  have nl: "block \<notin> loaded s" if "block < stop_block"
    using g(4,5) that assms(6)
    by (cases "first + 1 < stop_block") (auto simp: block_def loaded_def rle_set_def split: if_splits)
  have ld: "i \<in> loaded s" if "first \<le> i" "i < block" "i < stop_block" for i
    using g(1) [of i] that assms(5,7)
    by (cases "i = first") (auto simp: block_def loaded_def rle_set_def split: if_splits)
  obtain s1 where s1: "lazy_read_loop R get enqueue block stop_block s = Some (Ok (), s1)"
    "valid s1" "queued_blocks s1 = queued_blocks s \<union> ({block..<stop_block} - loaded s)"
    "loaded s1 = loaded s"
    using read_loop [of s block stop_block] assms b nl by auto
  have "{block..<stop_block} - loaded s = {first..<stop_block} - loaded s"
    using ld b by (auto simp: not_less) (metis leI)
  then show ?thesis using s1 assms(3)
    by (auto simp: LazyReader_Read_def assms(2,4) block_def [symmetric] abind_Some)
qed

end

end
