(* ===== verification/Mapper.thy ===== *)
theory Mapper
  imports Lazy
begin

text \<open>
  Block pointers of a vnode: the buffer views of \<open>buffer_view.h\<close>, and the mappers and the iterator
  of \<open>vnode_mapper.h\<close> and \<open>vnode_mapper.cc\<close>. The state of an operation is the vnode's inode, its
  virtual indirect file and the rest of the file system; what a mapper needs of the rest (the
  device, the transaction, the virtual functions of the vnode) is a record of functions.

  The virtual indirect file refers to itself: the pointers to its last region are in its middle
  one. The recursion of the code through \<open>GetViewForIndirectFile\<close> is bounded by a depth.
\<close>

section \<open>State\<close>

record ('r, 't) vnode_state =
  vs_inode :: inode
  vs_file :: "'r lazy_buffer option"
  vs_rest :: 't

type_synonym ('r, 't, 'a) vact = "(('r, 't) vnode_state, 'a) act"

text \<open>
  \<open>ve_read\<close> reads blocks of the device as pointers, \<open>ve_writer\<close> writes the blocks of a range of
  the indirect file to the device, \<open>ve_block_new\<close> is \<open>Minfs::BlockNew\<close>, \<open>ve_delete_block\<close> the
  virtual \<open>DeleteBlock\<close> and \<open>ve_inode_sync\<close> the update of the inode on disk.
\<close>

record ('r, 't) vnode_env =
  ve_ranges :: "'r range_bitmap"
  ve_dat_block :: "'t \<Rightarrow> nat"
  ve_read :: "nat \<Rightarrow> nat \<Rightarrow> ('t, nat \<Rightarrow> nat) act"
  ve_writer :: "nat \<Rightarrow> nat \<Rightarrow> nat \<Rightarrow> ('r, 't, unit) vact"
  ve_block_new :: "('t, nat) act"
  ve_delete_block :: "nat \<Rightarrow> nat \<Rightarrow> bool \<Rightarrow> ('r, 't, unit) vact"
  ve_inode_sync :: "('r, 't, unit) vact"

text \<open>An action on the rest of the state.\<close>

definition on_rest :: "('t, 'a) act \<Rightarrow> ('r, 't, 'a) vact" where
  "on_rest m s = (case m (vs_rest s) of None \<Rightarrow> None | Some (r, t) \<Rightarrow> Some (r, s\<lparr>vs_rest := t\<rparr>))"

definition file_place :: "('r, ('r, 't) vnode_state) buffer_place" where
  "file_place = \<lparr>bp_get = (\<lambda>s. the (vs_file s)), bp_put = (\<lambda>b s. s\<lparr>vs_file := Some b\<rparr>)\<rparr>"

section \<open>Buffer views\<close>

text \<open>The memory a view refers to, and the view; offset and length are in pointers, and a view
  with a flusher is mutable.\<close>

datatype pointer_bank = DnumPointers | InumPointers | DinumPointers | FilePointers

record buffer_view =
  bv_buffer :: "pointer_bank option"
  bv_offset :: nat
  bv_length :: nat
  bv_dirty :: bool
  bv_flusher :: bool

definition null_view :: buffer_view where
  "null_view = \<lparr>bv_buffer = None, bv_offset = 0, bv_length = 0, bv_dirty = False, bv_flusher = False\<rparr>"

fun load_pointer :: "('r, 't) vnode_state \<Rightarrow> pointer_bank \<Rightarrow> nat \<Rightarrow> nat" where
  "load_pointer s DnumPointers i = dnum (vs_inode s) ! i"
| "load_pointer s InumPointers i = inum (vs_inode s) ! i"
| "load_pointer s DinumPointers i = dinum (vs_inode s) ! i"
| "load_pointer s FilePointers i = (case vs_file s of None \<Rightarrow> 0 | Some b \<Rightarrow> lb_data b i)"

fun store_pointer :: "pointer_bank \<Rightarrow> nat \<Rightarrow> nat \<Rightarrow> ('r, 't) vnode_state \<Rightarrow> ('r, 't) vnode_state" where
  "store_pointer DnumPointers i v s = s\<lparr>vs_inode := (vs_inode s)\<lparr>dnum := (dnum (vs_inode s))[i := v]\<rparr>\<rparr>"
| "store_pointer InumPointers i v s = s\<lparr>vs_inode := (vs_inode s)\<lparr>inum := (inum (vs_inode s))[i := v]\<rparr>\<rparr>"
| "store_pointer DinumPointers i v s = s\<lparr>vs_inode := (vs_inode s)\<lparr>dinum := (dinum (vs_inode s))[i := v]\<rparr>\<rparr>"
| "store_pointer FilePointers i v s =
    s\<lparr>vs_file := map_option (\<lambda>b. b\<lparr>lb_data := (lb_data b)(i := v)\<rparr>) (vs_file s)\<rparr>"

definition bv_valid :: "buffer_view \<Rightarrow> bool" where
  "bv_valid v \<longleftrightarrow> bv_buffer v \<noteq> None"

text \<open>The pointer at an index, as raw memory and with the assertions of \<open>operator[]\<close>.\<close>

definition bv_raw :: "('r, 't) vnode_state \<Rightarrow> buffer_view \<Rightarrow> nat \<Rightarrow> nat" where
  "bv_raw s v i = load_pointer s (the (bv_buffer v)) (bv_offset v + i)"

definition bv_at :: "('r, 't) vnode_state \<Rightarrow> buffer_view \<Rightarrow> nat \<Rightarrow> nat res" where
  "bv_at s v i = (if i < bv_length v \<and> bv_valid v then Ok (bv_raw s v i) else Panic)"

definition bv_set :: "buffer_view \<Rightarrow> nat \<Rightarrow> nat \<Rightarrow> ('r, 't, buffer_view) vact" where
  "bv_set v i x s =
    (if i < bv_length v \<and> bv_valid v \<and> bv_flusher v
     then Some (Ok (v\<lparr>bv_dirty := True\<rparr>), store_pointer (the (bv_buffer v)) (bv_offset v + i) x s)
     else Some (Panic, s))"

definition bv_set_dirty :: "bool \<Rightarrow> buffer_view \<Rightarrow> buffer_view res" where
  "bv_set_dirty d v = (if bv_valid v \<and> bv_flusher v then Ok (v\<lparr>bv_dirty := d\<rparr>) else Panic)"

text \<open>The destructor and the assignment operator abort on a view that is still dirty.\<close>

definition bv_destroy :: "buffer_view \<Rightarrow> ('r, 't, unit) vact" where
  "bv_destroy v = assert_act (\<not> bv_dirty v)"

section \<open>Getting views\<close>

definition kDoubleIndirectViewStart :: nat where
  "kDoubleIndirectViewStart = kMinfsIndirect * kMinfsDirectPerIndirect"

definition kDoubleIndirectLeafViewStart :: nat where
  "kDoubleIndirectLeafViewStart =
     kDoubleIndirectViewStart + kMinfsDoublyIndirect * kMinfsDirectPerIndirect"

text \<open>A contiguous or sparse run at the start of an array of at least \<open>max_blocks\<close> pointers.\<close>

fun run_length :: "(nat \<Rightarrow> nat \<Rightarrow> bool) \<Rightarrow> (nat \<Rightarrow> nat) \<Rightarrow> nat \<Rightarrow> nat \<Rightarrow> nat" where
  "run_length continues a cnt 0 = cnt"
| "run_length continues a cnt (Suc n) =
    (if continues (a (cnt - 1)) (a cnt) then run_length continues a (Suc cnt) n else cnt)"

definition Coalesce :: "(nat \<Rightarrow> nat) \<Rightarrow> nat \<Rightarrow> nat" where
  "Coalesce a max_blocks =
    (if a 0 = 0 then run_length (\<lambda>p x. x = 0) a 1 (max_blocks - 1)
     else run_length (\<lambda>p x. x = u32 (p + 1)) a 1 (max_blocks - 1))"

definition ToDeviceBlock :: "nat \<Rightarrow> nat \<Rightarrow> device_block" where
  "ToDeviceBlock dat block = (if block = 0 then None else Some (u32 (block + dat)))"

definition inode_view :: "pointer_bank \<Rightarrow> nat \<Rightarrow> bool \<Rightarrow> nat \<Rightarrow> nat \<Rightarrow> ('r, 't, buffer_view) vact" where
  "inode_view bank limit tx start stop =
    abind (assert_act (stop \<le> limit)) (\<lambda>_. ret
      \<lparr>bv_buffer = Some bank, bv_offset = start, bv_length = u64_sub stop start,
       bv_dirty = False, bv_flusher = tx\<rparr>)"

definition GetInodeDirectView :: "bool \<Rightarrow> nat \<Rightarrow> nat \<Rightarrow> ('r, 't, buffer_view) vact" where
  "GetInodeDirectView = inode_view DnumPointers kMinfsDirect"

definition GetInodeIndirectView :: "bool \<Rightarrow> nat \<Rightarrow> nat \<Rightarrow> ('r, 't, buffer_view) vact" where
  "GetInodeIndirectView = inode_view InumPointers kMinfsIndirect"

definition GetInodeDoubleIndirectView :: "bool \<Rightarrow> nat \<Rightarrow> nat \<Rightarrow> ('r, 't, buffer_view) vact" where
  "GetInodeDoubleIndirectView = inode_view DinumPointers kMinfsDoublyIndirect"

text \<open>\<open>VnodeMinfs::GetIndirectFile\<close> and \<open>AllocateIndirect\<close>.\<close>

definition GetIndirectFile :: "('r, 't, 'z) vnode_env_scheme \<Rightarrow> ('r, 't, unit) vact" where
  "GetIndirectFile E =
    modify (\<lambda>s. case vs_file s of None \<Rightarrow> s\<lparr>vs_file := Some (LazyBuffer_Create (ve_ranges E))\<rparr> | Some _ \<Rightarrow> s)"

definition AllocateIndirect :: "('r, 't, 'z) vnode_env_scheme \<Rightarrow> ('r, 't, nat) vact" where
  "AllocateIndirect E =
    abind (on_rest (ve_block_new E)) (\<lambda>block.
    abind (modify (\<lambda>s. s\<lparr>vs_inode := (vs_inode s)\<lparr>i_block_count := u32 (i_block_count (vs_inode s) + 1)\<rparr>\<rparr>))
      (\<lambda>_. ret block))"

text \<open>
  \<open>VnodeIndirectMapper\<close>: blocks of the virtual indirect file. \<open>get_view\<close> and \<open>flush\<close> are
  \<open>GetViewForIndirectFile\<close> and the flush of a view.
\<close>

definition IndirectMapper_GetView ::
  "(bool \<Rightarrow> nat \<Rightarrow> nat \<Rightarrow> ('r, 't, buffer_view) vact) \<Rightarrow> bool \<Rightarrow> nat \<Rightarrow> nat
    \<Rightarrow> ('r, 't, buffer_view) vact" where
  "IndirectMapper_GetView get_view tx start stop =
    (let leaf = kMinfsIndirect + kMinfsDoublyIndirect;
         kMax = leaf + kMinfsDoublyIndirect * kMinfsDirectPerIndirect
     in if start < kMinfsIndirect then GetInodeIndirectView tx start (min stop kMinfsIndirect)
        else if start < leaf then
          GetInodeDoubleIndirectView tx (start - kMinfsIndirect) (min stop leaf - kMinfsIndirect)
        else if start < kMax then
          get_view tx (start - leaf + kDoubleIndirectViewStart)
            (min stop kMax - leaf + kDoubleIndirectViewStart)
        else fail ZX_ERR_OUT_OF_RANGE)"

definition IndirectMapper_MapForWrite ::
  "('r, 't, 'z) vnode_env_scheme \<Rightarrow> (bool \<Rightarrow> nat \<Rightarrow> nat \<Rightarrow> ('r, 't, buffer_view) vact)
    \<Rightarrow> (buffer_view \<Rightarrow> ('r, 't, buffer_view) vact) \<Rightarrow> bool \<Rightarrow> bool \<Rightarrow> nat \<Rightarrow> nat
    \<Rightarrow> ('r, 't, device_block_range \<times> bool) vact" where
  "IndirectMapper_MapForWrite E get_view flush tx want start stop =
    abind (IndirectMapper_GetView get_view tx start stop) (\<lambda>view.
    abind (\<lambda>s. Some (bv_at s view 0, s)) (\<lambda>first.
    abind
      (if first = 0 \<and> want
       then abind (AllocateIndirect E) (\<lambda>new_block.
            abind (assert_act (new_block \<noteq> 0)) (\<lambda>_.
            abind (bv_set view 0 new_block) (\<lambda>view.
            abind (flush view) (\<lambda>view. ret (1, True)))))
       else (\<lambda>s. Some (Ok (Coalesce (bv_raw s view) (bv_length view), False), s)))
      (\<lambda>(n, allocated) s.
        Some (Ok ((ToDeviceBlock (ve_dat_block E (vs_rest s)) (bv_raw s view 0), n), allocated), s))))"

definition IndirectMapper_Map ::
  "('r, 't, 'z) vnode_env_scheme \<Rightarrow> (bool \<Rightarrow> nat \<Rightarrow> nat \<Rightarrow> ('r, 't, buffer_view) vact)
    \<Rightarrow> (buffer_view \<Rightarrow> ('r, 't, buffer_view) vact) \<Rightarrow> nat \<Rightarrow> nat \<Rightarrow> ('r, 't, device_block_range) vact" where
  "IndirectMapper_Map E get_view flush start stop =
    abind (IndirectMapper_MapForWrite E get_view flush False False start stop) (\<lambda>(r, _). ret r)"

text \<open>
  The pointers in the indirect file. The depth counts the nested reads and flushes; two are
  enough, because the pointers to the last region are in the middle region, whose pointers are
  in the inode.
\<close>

fun GetViewForIndirectFile ::
  "('r, 't, 'z) vnode_env_scheme \<Rightarrow> nat \<Rightarrow> bool \<Rightarrow> nat \<Rightarrow> nat \<Rightarrow> ('r, 't, buffer_view) vact"
and FlushView ::
  "('r, 't, 'z) vnode_env_scheme \<Rightarrow> nat \<Rightarrow> buffer_view \<Rightarrow> ('r, 't, buffer_view) vact" where
  "GetViewForIndirectFile E 0 = (\<lambda>tx start stop. abort)"
| "GetViewForIndirectFile E (Suc d) = (\<lambda>tx start stop.
    abind (GetIndirectFile E) (\<lambda>_.
    abind (LazyBuffer_Read (ve_ranges E) file_place
             (IndirectMapper_Map E (GetViewForIndirectFile E d) (FlushView E d))
             (\<lambda>dev n. on_rest (ve_read E dev n)) (u64 (start * 4)) (u64 (start * 4 + u64_sub stop start * 4)))
      (\<lambda>_. ret \<lparr>bv_buffer = Some FilePointers, bv_offset = start, bv_length = u64_sub stop start,
               bv_dirty = False, bv_flusher = tx\<rparr>)))"
| "FlushView E 0 = (\<lambda>view. abort)"
| "FlushView E (Suc d) = (\<lambda>view.
    if \<not> bv_dirty view then ret view
    else if bv_buffer view = Some FilePointers then
      abind (LazyBuffer_Flush
               (IndirectMapper_MapForWrite E (GetViewForIndirectFile E d) (FlushView E d) True True)
               (ve_writer E) (bv_offset view * 4) ((bv_offset view + bv_length view) * 4))
        (\<lambda>_. ret (view\<lparr>bv_dirty := False\<rparr>))
    else abind (ve_inode_sync E) (\<lambda>_. ret (view\<lparr>bv_dirty := False\<rparr>)))"

definition kMapperDepth :: nat where "kMapperDepth = 3"

text \<open>The writers of the two builds: the host writes block by block, the target enqueues one
  operation.\<close>

definition host_indirect_writer ::
  "(nat \<Rightarrow> (nat \<Rightarrow> nat) \<Rightarrow> ('t, unit) act) \<Rightarrow> nat \<Rightarrow> nat \<Rightarrow> nat \<Rightarrow> ('r, 't, unit) vact" where
  "host_indirect_writer writeblk start stop dev =
    enumerate_blocks (\<lambda>r _ s.
      abind (on_rest (writeblk (u32 (dev + (r - start)))
               (\<lambda>i. load_pointer s FilePointers (r * kMinfsDirectPerIndirect + i))))
        (\<lambda>_. ret 1) s) start stop"

definition target_indirect_writer ::
  "(operation \<Rightarrow> ('t, unit) act) \<Rightarrow> nat \<Rightarrow> nat \<Rightarrow> nat \<Rightarrow> ('r, 't, unit) vact" where
  "target_indirect_writer enqueue start stop dev =
    on_rest (enqueue (write_op start dev (stop - start)))"

end
