(* ===== verification/Iterator.thy ===== *)
theory Iterator
  imports Mapper
begin

text \<open>
  \<open>VnodeIterator\<close> and \<open>VnodeMapper\<close> of \<open>vnode_mapper.h\<close> and \<open>vnode_mapper.cc\<close>. The iterator is part
  of the state of its operations, so that it survives their errors: its destructor looks at it.
\<close>

section \<open>The iterator\<close>

definition kIndirectFileStartBlock :: nat where
  "kIndirectFileStartBlock = kMinfsDirect"

definition kDoubleIndirectFileStartBlock :: nat where
  "kDoubleIndirectFileStartBlock = kMinfsDirect + kMinfsDirectPerIndirect * kMinfsIndirect"

definition kMaxBlocks :: nat where
  "kMaxBlocks = kDoubleIndirectFileStartBlock + kMinfsDirectPerDindirect * kMinfsDoublyIndirect"

datatype view_getter = DirectView | IndirectView | DoubleIndirectView | IndirectFileView

record iter_level =
  lv_view :: buffer_view
  lv_index :: nat
  lv_count :: nat
  lv_range :: "nat \<times> nat"
  lv_getter :: "view_getter option"

record vnode_iterator =
  it_transaction :: bool
  it_file_block :: nat
  it_contiguous :: nat
  it_level_count :: nat
  it_levels :: "iter_level list"

type_synonym ('r, 't, 'a) iact = "(('r, 't) vnode_state \<times> vnode_iterator, 'a) act"

definition empty_level :: iter_level where
  "empty_level = \<lparr>lv_view = null_view, lv_index = 0, lv_count = 0, lv_range = (0, 0), lv_getter = None\<rparr>"

definition new_iterator :: vnode_iterator where
  "new_iterator = \<lparr>it_transaction = False, it_file_block = 0, it_contiguous = 0,
     it_level_count = 0, it_levels = replicate 3 empty_level\<rparr>"

definition on_vnode :: "('r, 't, 'a) vact \<Rightarrow> ('r, 't, 'a) iact" where
  "on_vnode m st = (case m (fst st) of None \<Rightarrow> None | Some (r, s) \<Rightarrow> Some (r, s, snd st))"

definition set_level :: "nat \<Rightarrow> iter_level \<Rightarrow> vnode_iterator \<Rightarrow> vnode_iterator" where
  "set_level l lv it = it\<lparr>it_levels := (it_levels it)[l := lv]\<rparr>"

definition update_iter :: "(vnode_iterator \<Rightarrow> vnode_iterator) \<Rightarrow> ('r, 't, unit) iact" where
  "update_iter f = modify (\<lambda>(s, it). (s, f it))"

definition lv_remaining :: "iter_level \<Rightarrow> nat" where
  "lv_remaining lv = u64_sub (lv_count lv) (lv_index lv)"

text \<open>The block pointer a level stands on; zero when the level is sparse.\<close>

definition lv_blk :: "('r, 't) vnode_state \<Rightarrow> iter_level \<Rightarrow> nat res" where
  "lv_blk s lv = (if bv_valid (lv_view lv) then bv_at s (lv_view lv) (lv_index lv) else Ok 0)"

definition level_blk :: "nat \<Rightarrow> ('r, 't, nat) iact" where
  "level_blk l st = Some (lv_blk (fst st) (it_levels (snd st) ! l), st)"

definition it_Blk :: "('r, 't, nat) iact" where
  "it_Blk st =
    (let it = snd st; lv = it_levels it ! 0
     in if 0 < it_level_count it \<and> 0 < lv_remaining lv then level_blk 0 st else Some (Ok 0, st))"

fun call_getter ::
  "('r, 't, 'z) vnode_env_scheme \<Rightarrow> view_getter \<Rightarrow> bool \<Rightarrow> nat \<Rightarrow> nat \<Rightarrow> ('r, 't, buffer_view) vact" where
  "call_getter E DirectView = GetInodeDirectView"
| "call_getter E IndirectView = GetInodeIndirectView"
| "call_getter E DoubleIndirectView = GetInodeDoubleIndirectView"
| "call_getter E IndirectFileView = GetViewForIndirectFile E kMapperDepth"

section \<open>Initialization\<close>

definition InitializeLevel ::
  "('r, 't, 'z) vnode_env_scheme \<Rightarrow> nat \<Rightarrow> nat \<times> nat \<Rightarrow> nat \<Rightarrow> view_getter \<Rightarrow> ('r, 't, unit) iact" where
  "InitializeLevel E l rng block getter =
    abind (assert_act (fst rng \<le> block \<and> block < snd rng)) (\<lambda>_.
    abind (gets (\<lambda>(s, it). it_level_count it)) (\<lambda>count.
    abind (if l + 1 < count then level_blk (l + 1) else ret 1) (\<lambda>parent.
    abind (update_iter (\<lambda>it. set_level l ((it_levels it ! l)
             \<lparr>lv_range := rng, lv_count := snd rng - fst rng, lv_index := block - fst rng\<rparr>) it)) (\<lambda>_.
    if parent = 0 then
      update_iter (\<lambda>it. set_level l
        ((it_levels it ! l)\<lparr>lv_view := null_view, lv_getter := Some getter\<rparr>) it)
    else
      abind (gets (\<lambda>(s, it). it_transaction it)) (\<lambda>tx.
      abind (on_vnode (call_getter E getter tx (fst rng) (snd rng))) (\<lambda>view.
      update_iter (\<lambda>it. set_level l
        ((it_levels it ! l)\<lparr>lv_view := view, lv_getter := None\<rparr>) it)))))))"

definition InitializeIndirectLevel ::
  "('r, 't, 'z) vnode_env_scheme \<Rightarrow> nat \<Rightarrow> nat \<Rightarrow> ('r, 't, unit) iact" where
  "InitializeIndirectLevel E l relative_block =
    (let first = round_down relative_block kMinfsDirectPerIndirect
     in InitializeLevel E l (first, first + kMinfsDirectPerIndirect) relative_block IndirectFileView)"

definition Iterator_Init ::
  "('r, 't, 'z) vnode_env_scheme \<Rightarrow> bool \<Rightarrow> nat \<Rightarrow> ('r, 't, unit) iact" where
  "Iterator_Init E tx file_block =
    abind (update_iter (\<lambda>it. it\<lparr>it_transaction := tx, it_file_block := file_block, it_contiguous := 0\<rparr>)) (\<lambda>_.
    if file_block < kIndirectFileStartBlock then
      abind (update_iter (\<lambda>it. it\<lparr>it_level_count := 1\<rparr>)) (\<lambda>_.
      InitializeLevel E 0 (0, kMinfsDirect) file_block DirectView)
    else if file_block < kDoubleIndirectFileStartBlock then
      abind (update_iter (\<lambda>it. it\<lparr>it_level_count := 2\<rparr>)) (\<lambda>_.
      let relative_block = file_block - kIndirectFileStartBlock in
      abind (InitializeLevel E 1 (0, kMinfsIndirect) (relative_block div kMinfsDirectPerIndirect)
               IndirectView) (\<lambda>_.
      InitializeIndirectLevel E 0 relative_block))
    else if file_block < kMaxBlocks then
      abind (update_iter (\<lambda>it. it\<lparr>it_level_count := 3\<rparr>)) (\<lambda>_.
      let relative_block = file_block - kDoubleIndirectFileStartBlock in
      abind (InitializeLevel E 2 (0, kMinfsDoublyIndirect)
               (relative_block div kMinfsDirectPerIndirect div kMinfsDirectPerIndirect)
               DoubleIndirectView) (\<lambda>_.
      abind (InitializeIndirectLevel E 1
               (relative_block div kMinfsDirectPerIndirect + kDoubleIndirectViewStart)) (\<lambda>_.
      InitializeIndirectLevel E 0 (relative_block + kDoubleIndirectLeafViewStart))))
    else if file_block = kMaxBlocks then
      update_iter (\<lambda>it. it\<lparr>it_level_count := 0\<rparr>)
    else fail ZX_ERR_OUT_OF_RANGE)"

section \<open>Contiguous runs\<close>

text \<open>The scan of a sparse position goes up the levels; the argument is the list of the levels
  still to look at.\<close>

fun sparse_block_count ::
  "('r, 't) vnode_state \<Rightarrow> iter_level list \<Rightarrow> nat \<Rightarrow> nat \<Rightarrow> nat \<Rightarrow> nat res" where
  "sparse_block_count s [] idx multiplier cnt = Ok cnt"
| "sparse_block_count s (lv # up) idx multiplier cnt =
    (let left = u64_sub (lv_count lv) idx;
         next = (\<lambda>cnt. case up of
             [] \<Rightarrow> Ok cnt
           | lv' # _ \<Rightarrow> sparse_block_count s up (u64 (lv_index lv' + 1))
                        (u64 (multiplier * kMinfsDirectPerIndirect)) cnt)
     in if left = 0 \<or> \<not> bv_valid (lv_view lv) then next (u64 (cnt + left * multiplier))
        else (case bv_at s (lv_view lv) idx of
                Ok x \<Rightarrow>
                  if x = 0 then
                    let contiguous = Coalesce (\<lambda>i. bv_raw s (lv_view lv) (idx + i)) left;
                        cnt = u64 (cnt + contiguous * multiplier)
                    in if contiguous < left then Ok cnt else next cnt
                  else Ok cnt
              | Err e \<Rightarrow> Err e
              | Panic \<Rightarrow> Panic))"

definition ComputeContiguousBlockCount :: "('r, 't, nat) iact" where
  "ComputeContiguousBlockCount =
    abind it_Blk (\<lambda>blk st.
      let (s, it) = st; lv = it_levels it ! 0
      in if blk = 0 then
           Some (sparse_block_count s (take (it_level_count it) (it_levels it)) (lv_index lv) 1 0, st)
         else
           Some (Ok (Coalesce (\<lambda>i. bv_raw s (lv_view lv) (lv_index lv + i)) (lv_remaining lv)), st))"

definition GetContiguousBlockCount :: "nat \<Rightarrow> ('r, 't, nat) iact" where
  "GetContiguousBlockCount max_blocks =
    abind (gets snd) (\<lambda>it.
    if it_level_count it = 0 then ret 0
    else
      abind (if it_contiguous it = 0
             then abind ComputeContiguousBlockCount
                    (\<lambda>n. update_iter (\<lambda>it. it\<lparr>it_contiguous := n\<rparr>))
             else ret ()) (\<lambda>_.
      gets (\<lambda>(s, it). min (it_contiguous it) max_blocks)))"

section \<open>Changes\<close>

definition iter_SetBlk ::
  "('r, 't, 'z) vnode_env_scheme \<Rightarrow> nat \<Rightarrow> nat \<Rightarrow> ('r, 't, unit) iact" where
  "iter_SetBlk E l block =
    abind (gets snd) (\<lambda>it.
    abind (assert_act (0 < it_level_count it)) (\<lambda>_.
    let lv = it_levels it ! l;
        store = abind (gets snd) (\<lambda>it.
          let lv = it_levels it ! l in
          abind (on_vnode (bv_set (lv_view lv) (lv_index lv) block)) (\<lambda>view.
          update_iter (\<lambda>it. set_level l ((it_levels it ! l)\<lparr>lv_view := view\<rparr>) it)))
    in if \<not> bv_valid (lv_view lv) then
         (if block = 0 then ret ()
          else (case lv_getter lv of
                  None \<Rightarrow> abort
                | Some getter \<Rightarrow>
                    abind (on_vnode (call_getter E getter (it_transaction it)
                             (fst (lv_range lv)) (snd (lv_range lv)))) (\<lambda>view.
                    abind (update_iter (\<lambda>it. set_level l ((it_levels it ! l)\<lparr>lv_view := view\<rparr>) it))
                      (\<lambda>_. store))))
       else store))"

text \<open>The view is marked clean before its flusher runs.\<close>

definition flush_level_view ::
  "('r, 't, 'z) vnode_env_scheme \<Rightarrow> nat \<Rightarrow> ('r, 't, unit) iact" where
  "flush_level_view E l =
    abind (gets (\<lambda>(s, it). lv_view (it_levels it ! l))) (\<lambda>view.
    abind (update_iter (\<lambda>it. set_level l ((it_levels it ! l)\<lparr>lv_view := view\<lparr>bv_dirty := False\<rparr>\<rparr>) it)) (\<lambda>_.
    abind (on_vnode (FlushView E kMapperDepth view)) (\<lambda>_. ret ())))"

text \<open>Whether all pointers of a full indirect block are zero.\<close>

definition block_empty :: "('r, 't) vnode_state \<Rightarrow> buffer_view \<Rightarrow> bool" where
  "block_empty s v \<longleftrightarrow> (\<forall>i \<in> set [0..<kMinfsDirectPerIndirect]. bv_raw s v i = 0)"

definition FlushLevel ::
  "('r, 't, 'z) vnode_env_scheme \<Rightarrow> nat \<Rightarrow> ('r, 't, unit) iact" where
  "FlushLevel E l =
    abind (gets snd) (\<lambda>it.
    if \<not> it_transaction it then ret ()
    else if l + 1 < it_level_count it then
      abind (level_blk (l + 1)) (\<lambda>parent.
      abind (if parent \<noteq> 0 then level_blk l else ret 1) (\<lambda>blk.
      abind (if parent \<noteq> 0 \<and> blk = 0
             then abind (assert_act (bv_length (lv_view (it_levels it ! l)) = kMinfsDirectPerIndirect))
                    (\<lambda>_. gets (\<lambda>(s, it). block_empty s (lv_view (it_levels it ! l))))
             else ret False) (\<lambda>empty.
      if empty then
        abind (on_vnode (ve_delete_block E 0 parent True)) (\<lambda>_.
        try_act (iter_SetBlk E (l + 1) 0) (\<lambda>_.
        abind (lift_res (bv_set_dirty False (lv_view (it_levels it ! l)))) (\<lambda>view.
        update_iter (\<lambda>it. set_level l ((it_levels it ! l)\<lparr>lv_view := view\<rparr>) it))))
      else
        abind (if bv_dirty (lv_view (it_levels it ! l)) \<and> parent = 0
               then abind (on_vnode (AllocateIndirect E)) (\<lambda>new_block.
                    abind (assert_act (new_block \<noteq> 0)) (\<lambda>_.
                    try_act (iter_SetBlk E (l + 1) new_block) (\<lambda>_. ret ())))
               else ret ()) (\<lambda>_.
        flush_level_view E l))))
    else flush_level_view E l)"

fun flush_levels ::
  "('r, 't, 'z) vnode_env_scheme \<Rightarrow> nat list \<Rightarrow> ('r, 't, unit) iact" where
  "flush_levels E [] = ret ()"
| "flush_levels E (l # ls) = abind (FlushLevel E l) (\<lambda>_. flush_levels E ls)"

definition Iterator_Flush :: "('r, 't, 'z) vnode_env_scheme \<Rightarrow> ('r, 't, unit) iact" where
  "Iterator_Flush E =
    abind (gets snd) (\<lambda>it.
    if \<not> it_transaction it then ret () else flush_levels E [0..<it_level_count it])"

definition iter_clean :: "vnode_iterator \<Rightarrow> bool" where
  "iter_clean it \<longleftrightarrow> (\<forall>lv \<in> set (it_levels it). \<not> bv_dirty (lv_view lv))"

text \<open>The old iterator hands the views that stay over to the new one and flushes the others; the
  move back asserts that no old view is dirty.\<close>

fun hand_over ::
  "('r, 't, 'z) vnode_env_scheme \<Rightarrow> nat list \<Rightarrow> vnode_iterator \<Rightarrow> ('r, 't, vnode_iterator) iact" where
  "hand_over E [] new = ret new"
| "hand_over E (l # ls) new =
    abind (gets snd) (\<lambda>it.
    let lv = it_levels it ! l in
    if lv_range lv = lv_range (it_levels new ! l) then
      abind (on_vnode (bv_destroy (lv_view (it_levels new ! l)))) (\<lambda>_.
      abind (update_iter (\<lambda>it. set_level l (lv\<lparr>lv_view := (lv_view lv)
               \<lparr>bv_buffer := None, bv_dirty := False\<rparr>\<rparr>) it)) (\<lambda>_.
      hand_over E ls (set_level l ((it_levels new ! l)\<lparr>lv_view := lv_view lv\<rparr>) new)))
    else try_act (FlushLevel E l) (\<lambda>r. case r of
           Ok _ \<Rightarrow> hand_over E ls new
         | Err e \<Rightarrow> if iter_clean new then fail e else abort
         | Panic \<Rightarrow> abort))"

text \<open>Initializing another iterator from this one's mapper and transaction.\<close>

definition init_other ::
  "('r, 't, 'z) vnode_env_scheme \<Rightarrow> nat \<Rightarrow> ('r, 't, vnode_iterator) iact" where
  "init_other E file_block st =
    (case Iterator_Init E (it_transaction (snd st)) file_block (fst st, new_iterator) of
       None \<Rightarrow> None
     | Some (Ok _, s, new) \<Rightarrow> Some (Ok new, s, snd st)
     | Some (Err e, s, new) \<Rightarrow> Some (if iter_clean new then Err e else Panic, s, snd st)
     | Some (Panic, s, new) \<Rightarrow> Some (Panic, s, snd st))"

definition Iterator_Advance ::
  "('r, 't, 'z) vnode_env_scheme \<Rightarrow> nat \<Rightarrow> ('r, 't, unit) iact" where
  "Iterator_Advance E advance =
    abind (gets snd) (\<lambda>it.
    if it_level_count it = 0 then (if advance = 0 then ret () else fail ZX_ERR_BAD_STATE)
    else if advance < lv_remaining (it_levels it ! 0) then
      update_iter (\<lambda>it. (set_level 0 ((it_levels it ! 0)\<lparr>lv_index := lv_index (it_levels it ! 0) + advance\<rparr>) it)
        \<lparr>it_file_block := it_file_block it + advance,
         it_contiguous := (if advance \<ge> it_contiguous it then 0 else it_contiguous it - advance)\<rparr>)
    else
      abind (init_other E (u64 (it_file_block it + advance))) (\<lambda>new.
      abind (if it_level_count new \<noteq> it_level_count it
             then abind (Iterator_Flush E) (\<lambda>_. ret new)
             else hand_over E [0..<it_level_count it] new) (\<lambda>new.
      abind (gets snd) (\<lambda>old.
      abind (assert_act (iter_clean old)) (\<lambda>_.
      update_iter (\<lambda>_. new))))))"

section \<open>Iterators as local variables and the mapper\<close>

definition with_iterator :: "('r, 't, 'a) iact \<Rightarrow> ('r, 't, 'a) vact" where
  "with_iterator body s =
    (case body (s, new_iterator) of
       None \<Rightarrow> None
     | Some (r, s, it) \<Rightarrow> Some (if iter_clean it then r else Panic, s))"

definition MapToBlk ::
  "('r, 't, 'z) vnode_env_scheme \<Rightarrow> nat \<Rightarrow> nat \<Rightarrow> ('r, 't, nat \<times> nat) vact" where
  "MapToBlk E start stop =
    with_iterator
      (abind (Iterator_Init E False start) (\<lambda>_.
       abind it_Blk (\<lambda>blk.
       abind (GetContiguousBlockCount (u64_sub stop start)) (\<lambda>n. ret (blk, n)))))"

definition VnodeMapper_Map ::
  "('r, 't, 'z) vnode_env_scheme \<Rightarrow> nat \<Rightarrow> nat \<Rightarrow> ('r, 't, device_block_range) vact" where
  "VnodeMapper_Map E start stop =
    abind (MapToBlk E start stop) (\<lambda>(blk, n) s.
      Some (Ok (ToDeviceBlock (ve_dat_block E (vs_rest s)) blk, n), s))"

definition VnodeMapper_MapForWrite :: "nat \<Rightarrow> nat \<Rightarrow> ('r, 't, device_block_range) vact" where
  "VnodeMapper_MapForWrite start stop = fail ZX_ERR_NOT_SUPPORTED"

end
