(* ===== verification/Pending.thy ===== *)
theory Pending
  imports Iterator
begin

text \<open>
  \<open>PendingAllocationData\<close> of \<open>vnode_allocation.h\<close> and \<open>vnode_allocation.cc\<close>: the blocks of a file
  of the device build that are written in memory and wait for a place on the device. At the end:
  its operations refine operations on the set of waiting blocks.
\<close>

record 'm pending_data =
  pa_new_blocks :: nat
  pa_node_size :: nat
  pa_map :: 'm

definition new_pending_data :: "('m, 'z) rle_bitmap_scheme \<Rightarrow> 'm pending_data" where
  "new_pending_data M = \<lparr>pa_new_blocks = 0, pa_node_size = 0, pa_map = rle_empty M\<rparr>"

definition pa_Reset :: "('m, 'z) rle_bitmap_scheme \<Rightarrow> nat \<Rightarrow> 'm pending_data \<Rightarrow> 'm pending_data" where
  "pa_Reset M sz p = p\<lparr>pa_new_blocks := 0, pa_node_size := sz, pa_map := rle_empty M\<rparr>"

definition GetNextRange :: "('m, 'z) rle_bitmap_scheme \<Rightarrow> 'm pending_data \<Rightarrow> (nat \<times> nat) res" where
  "GetNextRange M p =
    (case rle_ranges M (pa_map p) of [] \<Rightarrow> Err ZX_ERR_OUT_OF_RANGE | r # _ \<Rightarrow> Ok r)"

definition pa_IsEmpty :: "('m, 'z) rle_bitmap_scheme \<Rightarrow> 'm pending_data \<Rightarrow> bool" where
  "pa_IsEmpty M p \<longleftrightarrow> rle_num_bits M (pa_map p) = 0 \<and> pa_new_blocks p = 0"

definition IsPending :: "('m, 'z) rle_bitmap_scheme \<Rightarrow> nat \<Rightarrow> 'm pending_data \<Rightarrow> bool" where
  "IsPending M block p \<longleftrightarrow> rle_get M (pa_map p) block"

definition SetPending ::
  "('m, 'z) rle_bitmap_scheme \<Rightarrow> nat \<Rightarrow> bool \<Rightarrow> 'm pending_data \<Rightarrow> 'm pending_data res" where
  "SetPending M block allocated p =
    (let initial_bits = rle_num_bits M (pa_map p) in
     case rle_set_one M (pa_map p) block of
       Ok m \<Rightarrow> Ok (p\<lparr>pa_map := m,
            pa_new_blocks := (if rle_num_bits M m > initial_bits \<and> \<not> allocated
                              then u32 (pa_new_blocks p + 1) else pa_new_blocks p)\<rparr>)
     | _ \<Rightarrow> Panic)"

text \<open>The result says whether the block was waiting.\<close>

definition ClearPending ::
  "('m, 'z) rle_bitmap_scheme \<Rightarrow> nat \<Rightarrow> bool \<Rightarrow> 'm pending_data \<Rightarrow> (bool \<times> 'm pending_data) res" where
  "ClearPending M block allocated p =
    (let initial_bits = rle_num_bits M (pa_map p); m = rle_clear_one M (pa_map p) block; q = p\<lparr>pa_map := m\<rparr>
     in if rle_num_bits M m < initial_bits then
          if \<not> allocated then
            if pa_new_blocks p > 0 then Ok (True, q\<lparr>pa_new_blocks := pa_new_blocks p - 1\<rparr>) else Panic
          else Ok (True, q)
        else Ok (False, q))"

definition GetNewPending :: "'m pending_data \<Rightarrow> nat" where
  "GetNewPending p = pa_new_blocks p"

definition GetTotalPending :: "('m, 'z) rle_bitmap_scheme \<Rightarrow> 'm pending_data \<Rightarrow> nat" where
  "GetTotalPending M p = u32 (rle_num_bits M (pa_map p))"

definition GetNodeSize :: "'m pending_data \<Rightarrow> nat" where
  "GetNodeSize p = pa_node_size p"

definition SetNodeSize :: "nat \<Rightarrow> 'm pending_data \<Rightarrow> 'm pending_data" where
  "SetNodeSize sz p = p\<lparr>pa_node_size := sz\<rparr>"

section \<open>The set of waiting blocks\<close>

text \<open>\<open>alloc\<close> says which blocks of the file have a place on the device already. The abstraction is
  the set of waiting blocks; the counter counts those without a place.\<close>

definition pending_set :: "('m, 'z) rle_bitmap_scheme \<Rightarrow> 'm pending_data \<Rightarrow> nat set" where
  "pending_set M p = rle_set M (pa_map p)"

definition pending_inv :: "('m, 'z) rle_bitmap_scheme \<Rightarrow> (nat \<Rightarrow> bool) \<Rightarrow> 'm pending_data \<Rightarrow> bool" where
  "pending_inv M alloc p \<longleftrightarrow>
     pending_set M p \<subseteq> {..<4294967295} \<and> pa_new_blocks p = card {i \<in> pending_set M p. \<not> alloc i}"

lemma pending_card_less:
  "S \<subseteq> {..<4294967295::nat} \<Longrightarrow> card S < 4294967296"
  by (rule le_less_trans [OF card_mono [of "{..<4294967295::nat}"]]) auto

lemma new_pending_inv: "rle_bitmap_laws M \<Longrightarrow> pending_inv M alloc (new_pending_data M)"
  by (simp add: pending_inv_def pending_set_def new_pending_data_def)

lemma pending_counts:
  assumes "rle_bitmap_laws M" "pending_inv M alloc p"
  shows "GetTotalPending M p = card (pending_set M p)"
    and "pa_IsEmpty M p \<longleftrightarrow> pending_set M p = {}"
    and "GetNewPending p \<le> GetTotalPending M p"
proof -
  let ?S = "pending_set M p"
  have f: "finite ?S" "rle_num_bits M (pa_map p) = card ?S"
    using rle_set_finite [OF assms(1)] rle_num_bits_card [OF assms(1)] by (auto simp: pending_set_def)
  show t: "GetTotalPending M p = card ?S"
    using pending_card_less [of ?S] assms(2)
    by (simp add: GetTotalPending_def f pending_inv_def u32_id)
  show "pa_IsEmpty M p \<longleftrightarrow> ?S = {}"
    using f assms(2) by (auto simp: pa_IsEmpty_def pending_inv_def)
  show "GetNewPending p \<le> GetTotalPending M p"
    using assms(2) f(1) by (auto simp: t GetNewPending_def pending_inv_def intro: card_mono)
qed

lemma card_insert_filter:
  assumes "finite S"
  shows "card {j \<in> insert i S. P j} = card {j \<in> S. P j} + (if i \<notin> S \<and> P i then 1 else 0)"
proof -
  have "{j \<in> insert i S. P j} = (if P i then insert i {j \<in> S. P j} else {j \<in> S. P j})" by auto
  then show ?thesis using assms by (simp add: card_insert_if)
qed

lemma card_remove_filter:
  assumes "finite S"
  shows "card {j \<in> S. P j} = card {j \<in> S - {i}. P j} + (if i \<in> S \<and> P i then 1 else 0)"
proof -
  have "S = (if i \<in> S then insert i (S - {i}) else S - {i})" by auto
  then show ?thesis using card_insert_filter [of "S - {i}" i P] assms by (cases "i \<in> S") auto
qed

lemma SetPending_spec:
  assumes laws: "rle_bitmap_laws M" and inv: "pending_inv M alloc p" and i: "i < 4294967295"
    and set: "SetPending M i (alloc i) p = Ok p'"
  shows "pending_inv M alloc p' \<and> pending_set M p' = insert i (pending_set M p)"
proof -
  let ?S = "pending_set M p"
  obtain m where m: "rle_set_one M (pa_map p) i = Ok m"
    using set by (auto simp: SetPending_def split: res.splits)
  have S': "rle_set M m = insert i ?S"
    using rle_set_one_set [OF laws m] by (simp add: pending_set_def)
  have fin: "finite ?S" using rle_set_finite [OF laws] by (simp add: pending_set_def)
  have bits: "rle_num_bits M m > rle_num_bits M (pa_map p) \<longleftrightarrow> i \<notin> ?S"
    using S' fin by (simp add: rle_num_bits_card [OF laws] pending_set_def card_insert_if)
  have p': "p' = p\<lparr>pa_map := m, pa_new_blocks :=
      (if i \<notin> ?S \<and> \<not> alloc i then u32 (pa_new_blocks p + 1) else pa_new_blocks p)\<rparr>"
    using set bits by (auto simp: SetPending_def m Let_def)
  have sub: "insert i ?S \<subseteq> {..<4294967295}" using inv i by (auto simp: pending_inv_def)
  have c: "card {j \<in> insert i ?S. \<not> alloc j} =
      pa_new_blocks p + (if i \<notin> ?S \<and> \<not> alloc i then 1 else 0)"
    using inv unfolding card_insert_filter [OF fin] pending_inv_def by simp
  have "card {j \<in> insert i ?S. \<not> alloc j} < 4294967296"
    using sub by (intro pending_card_less) auto
  then show ?thesis using sub c S' p' by (auto simp: pending_inv_def pending_set_def u32_id)
qed

lemma ClearPending_spec:
  assumes laws: "rle_bitmap_laws M" and inv: "pending_inv M alloc p"
  shows "\<exists>p'. ClearPending M i (alloc i) p = Ok (i \<in> pending_set M p, p')
      \<and> pending_inv M alloc p' \<and> pending_set M p' = pending_set M p - {i}"
proof -
  let ?S = "pending_set M p" let ?m = "rle_clear_one M (pa_map p) i"
  have S': "rle_set M ?m = ?S - {i}" using laws by (simp add: pending_set_def)
  have fin: "finite ?S" using rle_set_finite [OF laws] by (simp add: pending_set_def)
  have bits: "rle_num_bits M ?m < rle_num_bits M (pa_map p) \<longleftrightarrow> i \<in> ?S"
    using S' fin card_Diff1_less [OF fin, of i]
    by (cases "i \<in> ?S") (simp_all add: rle_num_bits_card [OF laws] pending_set_def)
  have c: "pa_new_blocks p = card {j \<in> ?S - {i}. \<not> alloc j} + (if i \<in> ?S \<and> \<not> alloc i then 1 else 0)"
    using inv card_remove_filter [OF fin, of "\<lambda>j. \<not> alloc j" i] by (simp add: pending_inv_def)
  have sub: "?S - {i} \<subseteq> {..<4294967295}" using inv by (auto simp: pending_inv_def)
  define q where "q = (if i \<in> ?S \<and> \<not> alloc i
    then p\<lparr>pa_map := ?m, pa_new_blocks := pa_new_blocks p - 1\<rparr> else p\<lparr>pa_map := ?m\<rparr>)"
  have "ClearPending M i (alloc i) p = Ok (i \<in> ?S, q)"
    using c by (auto simp: ClearPending_def Let_def bits q_def)
  moreover have "pending_set M q = ?S - {i}" by (simp add: q_def pending_set_def laws)
  moreover from this have "pending_inv M alloc q"
    using c sub by (simp add: pending_inv_def) (simp add: q_def)
  ultimately show ?thesis by blast
qed

text \<open>C19: Marking a block as waiting and clearing the mark refine insertion into and removal from
  the set of waiting blocks; the counter of new blocks stays exact, clearing never aborts, and it
  reports whether the block was waiting.\<close>

theorem pending_refines:
  assumes "rle_bitmap_laws M" "pending_inv M alloc p" "i < 4294967295"
  shows "(\<forall>p'. SetPending M i (alloc i) p = Ok p' \<longrightarrow>
      pending_inv M alloc p' \<and> pending_set M p' = insert i (pending_set M p))
    \<and> (\<exists>p'. ClearPending M i (alloc i) p = Ok (i \<in> pending_set M p, p')
      \<and> pending_inv M alloc p' \<and> pending_set M p' = pending_set M p - {i})"
  using SetPending_spec [OF assms] ClearPending_spec [OF assms(1,2)] by blast

theorem pending_refines_witness:
  "\<exists>q. ClearPending list_rle 3 False (new_pending_data list_rle) = Ok (False, q)
    \<and> pending_inv list_rle (\<lambda>_. False) q \<and> pending_set list_rle q = {}"
  using pending_refines [OF list_rle_laws new_pending_inv [OF list_rle_laws, of "\<lambda>_. False"], of 3]
  by (auto simp: pending_set_def new_pending_data_def list_rle_laws)

end
