(* ===== verification/TargetFile.thy ===== *)
theory TargetFile
  imports Pending Limits Storage
begin

text \<open>
  Files of the device build: \<open>file_target.cc\<close> and the device parts of \<open>file.cc\<close>, with the parts of
  \<open>minfs_target.cc\<close> they call. Writes go to memory first; the blocks wait in the allocation state
  until \<open>AllocateAndCommitData\<close> gives them places on the device. What the file needs of the file
  system, the transaction and the journal is a record of functions over the rest of the state.
\<close>

section \<open>State\<close>

text \<open>The reservations of the cached transaction are an element of \<open>'c\<close>.\<close>

record ('m, 'c, 'u) target_state =
  tf_pending :: "'m pending_data"
  tf_cached :: "'c option"
  tf_rest :: 'u

record ('r, 'm, 'c, 'u) file_env = "('r, ('m, 'c, 'u) target_state) vnode_env" +
  fe_map :: "'m rle_bitmap"
  fe_swap_block :: "nat \<Rightarrow> ('u, nat) act"
  fe_deallocate :: "nat \<Rightarrow> ('u, unit) act"
  fe_enqueue_data :: "operation \<Rightarrow> ('u, unit) act"
  fe_begin :: "nat \<Rightarrow> ('u, unit) act"
  fe_from_cached :: "'c \<Rightarrow> ('u, unit) act"
  fe_extend :: "nat \<Rightarrow> ('u, unit) act"
  fe_take_reservations :: "('u, 'c) act"
  fe_commit :: "('u, unit) act"
  fe_sync_journal :: "('u, unit) act"
  fe_sync_inode :: "bool \<Rightarrow> inode \<Rightarrow> ('u, inode) act"
  fe_journal :: "'u \<Rightarrow> bool option"
  fe_journal_errored :: "'u \<Rightarrow> bool"
  fe_dirty_bytes :: "int \<Rightarrow> 'u \<Rightarrow> 'u"
  fe_info :: "'u \<Rightarrow> superblock"
  fe_blocks_available :: "'u \<Rightarrow> nat"
  fe_blocks_reserved :: "'u \<Rightarrow> nat"
  fe_max_metadata_blocks :: nat
  fe_writeback_capacity :: nat

type_synonym ('r, 'm, 'c, 'u, 'a) tact = "('r, ('m, 'c, 'u) target_state, 'a) vact"
type_synonym ('r, 'm, 'c, 'u) fenv = "('r, 'm, 'c, 'u) file_env"

definition get_pending :: "('r, 'm, 'c, 'u, 'm pending_data) tact" where
  "get_pending = gets (\<lambda>s. tf_pending (vs_rest s))"

definition put_pending :: "'m pending_data \<Rightarrow> ('r, 'm, 'c, 'u, unit) tact" where
  "put_pending p = modify (\<lambda>s. s\<lparr>vs_rest := (vs_rest s)\<lparr>tf_pending := p\<rparr>\<rparr>)"

definition on_tx :: "('u, 'a) act \<Rightarrow> ('r, 'm, 'c, 'u, 'a) tact" where
  "on_tx m = on_rest (\<lambda>t. case m (tf_rest t) of None \<Rightarrow> None | Some (r, u) \<Rightarrow> Some (r, t\<lparr>tf_rest := u\<rparr>))"

definition set_cached :: "'c option \<Rightarrow> ('r, 'm, 'c, 'u, unit) tact" where
  "set_cached c = modify (\<lambda>s. s\<lparr>vs_rest := (vs_rest s)\<lparr>tf_cached := c\<rparr>\<rparr>)"

definition add_dirty :: "('r, 'm, 'c, 'u) fenv \<Rightarrow> int \<Rightarrow> ('r, 'm, 'c, 'u, unit) tact" where
  "add_dirty E n = modify (\<lambda>s. s\<lparr>vs_rest := (vs_rest s)
     \<lparr>tf_rest := fe_dirty_bytes E (n * int kMinfsBlockSize) (tf_rest (vs_rest s))\<rparr>\<rparr>)"

definition set_pending ::
  "('r, 'm, 'c, 'u) fenv \<Rightarrow> nat \<Rightarrow> bool \<Rightarrow> ('r, 'm, 'c, 'u, unit) tact" where
  "set_pending E block allocated =
    abind get_pending (\<lambda>p. abind (lift_res (SetPending (fe_map E) block allocated p)) put_pending)"

definition clear_pending ::
  "('r, 'm, 'c, 'u) fenv \<Rightarrow> nat \<Rightarrow> bool \<Rightarrow> ('r, 'm, 'c, 'u, bool) tact" where
  "clear_pending E block allocated =
    abind get_pending (\<lambda>p.
    abind (lift_res (ClearPending (fe_map E) block allocated p)) (\<lambda>(cleared, p).
    abind (put_pending p) (\<lambda>_. ret cleared)))"

definition add_block_count :: "int \<Rightarrow> ('r, 'm, 'c, 'u, unit) tact" where
  "add_block_count n = modify (\<lambda>s. s\<lparr>vs_inode := (vs_inode s)
     \<lparr>i_block_count := nat ((int (i_block_count (vs_inode s)) + n) mod 4294967296)\<rparr>\<rparr>)"

section \<open>Sizes and blocks\<close>

definition target_GetBlockCount :: "('r, ('m, 'c, 'u) target_state) vnode_state \<Rightarrow> nat" where
  "target_GetBlockCount s = u32 (i_block_count (vs_inode s) + GetNewPending (tf_pending (vs_rest s)))"

definition target_GetSize :: "('r, ('m, 'c, 'u) target_state) vnode_state \<Rightarrow> nat" where
  "target_GetSize s = GetNodeSize (tf_pending (vs_rest s))"

definition target_SetSize :: "nat \<Rightarrow> ('r, 'm, 'c, 'u, unit) tact" where
  "target_SetSize new_size = abind get_pending (\<lambda>p. put_pending (SetNodeSize new_size p))"

text \<open>The block gets its place later; the caller's block stays as it was.\<close>

definition target_AcquireWritableBlock ::
  "('r, 'm, 'c, 'u) fenv \<Rightarrow> nat \<Rightarrow> nat \<Rightarrow> ('r, 'm, 'c, 'u, nat) tact" where
  "target_AcquireWritableBlock E local_bno old_bno =
    abind (set_pending E local_bno (old_bno \<noteq> 0)) (\<lambda>_.
    abind (add_dirty E 1) (\<lambda>_. ret old_bno))"

definition target_DeleteBlock ::
  "('r, 'm, 'c, 'u) fenv \<Rightarrow> nat \<Rightarrow> nat \<Rightarrow> bool \<Rightarrow> ('r, 'm, 'c, 'u, unit) tact" where
  "target_DeleteBlock E local_bno old_bno indirect =
    abind (if old_bno \<noteq> 0
           then abind (on_tx (fe_deallocate E old_bno)) (\<lambda>_. add_block_count (-1)) else ret ()) (\<lambda>_.
    if \<not> indirect then
      abind get_pending (\<lambda>p.
      abind (if IsPending (fe_map E) local_bno p then add_dirty E (-1) else ret ()) (\<lambda>_.
      abind (clear_pending E local_bno (old_bno \<noteq> 0)) (\<lambda>_. ret ())))
    else ret ())"

definition HasPendingAllocation ::
  "('r, 'm, 'c, 'u) fenv \<Rightarrow> nat \<Rightarrow> ('r, ('m, 'c, 'u) target_state) vnode_state \<Rightarrow> bool" where
  "HasPendingAllocation E offset s = IsPending (fe_map E) offset (tf_pending (vs_rest s))"

definition CancelPendingWriteback :: "('r, 'm, 'c, 'u) fenv \<Rightarrow> ('r, 'm, 'c, 'u, unit) tact" where
  "CancelPendingWriteback E =
    abind (gets vs_inode) (\<lambda>i. abind get_pending (\<lambda>p. put_pending (pa_Reset (fe_map E) (i_size i) p)))"

text \<open>\<open>Minfs::BlockSwap\<close> of the transaction.\<close>

definition BlockSwap :: "('r, 'm, 'c, 'u) fenv \<Rightarrow> nat \<Rightarrow> ('r, 'm, 'c, 'u, nat) tact" where
  "BlockSwap E in_bno = abind (on_tx (fe_swap_block E in_bno)) (\<lambda>b. ret (u32 b))"

section \<open>Giving blocks a place\<close>

fun swap_loop ::
  "('r, 'm, 'c, 'u) fenv \<Rightarrow> nat \<Rightarrow> nat list \<Rightarrow> ('r, ('m, 'c, 'u) target_state, nat list) iact" where
  "swap_loop E 0 bnos = ret bnos"
| "swap_loop E (Suc cnt) bnos =
    abind (gets (\<lambda>(s, it). u32 (it_file_block it))) (\<lambda>file_block.
    abind it_Blk (\<lambda>old_block.
    abind (on_vnode (if old_block = 0 then add_block_count 1 else ret ())) (\<lambda>_.
    abind (on_vnode (BlockSwap E old_block)) (\<lambda>new_block.
    abind (iter_SetBlk E 0 new_block) (\<lambda>_.
    abind (on_vnode (clear_pending E file_block (old_block \<noteq> 0))) (\<lambda>cleared.
    abind (on_vnode (add_dirty E (-1))) (\<lambda>_.
    abind (Iterator_Advance E 1) (\<lambda>_. swap_loop E cnt (bnos @ [new_block])))))))))"

definition BlocksSwap ::
  "('r, 'm, 'c, 'u) fenv \<Rightarrow> nat \<Rightarrow> nat \<Rightarrow> ('r, 'm, 'c, 'u, nat list) tact" where
  "BlocksSwap E start cnt =
    (if cnt = 0 then ret []
     else
       with_iterator
         (abind (Iterator_Init E True start) (\<lambda>_.
          abind (swap_loop E cnt []) (\<lambda>bnos.
          abind (Iterator_Flush E) (\<lambda>_. ret bnos)))))"

text \<open>One write operation for each block, as they may not be contiguous on the device.\<close>

fun enqueue_blocks ::
  "('r, 'm, 'c, 'u) fenv \<Rightarrow> nat \<Rightarrow> nat list \<Rightarrow> ('r, 'm, 'c, 'u, unit) tact" where
  "enqueue_blocks E offset [] = ret ()"
| "enqueue_blocks E offset (b # bs) =
    abind (gets (\<lambda>s. dat_block (fe_info E (tf_rest (vs_rest s))))) (\<lambda>dat.
    abind (on_tx (fe_enqueue_data E (write_op offset (u32 (b + dat)) 1))) (\<lambda>_.
    enqueue_blocks E (u32 (offset + 1)) bs))"

definition set_inode_size :: "nat \<Rightarrow> ('r, 'm, 'c, 'u, unit) tact" where
  "set_inode_size n = modify (\<lambda>s. s\<lparr>vs_inode := (vs_inode s)\<lparr>i_size := n\<rparr>\<rparr>)"

partial_function (option) allocate_loop ::
  "('r, 'm, 'c, 'u) fenv \<Rightarrow> nat \<Rightarrow> ('r, 'm, 'c, 'u, unit) tact" where
  "allocate_loop E max_blocks s =
    abind get_pending (\<lambda>p.
    abind (assert_act (GetTotalPending (fe_map E) p \<le> max_blocks)) (\<lambda>_ s.
    if GetTotalPending (fe_map E) p = 0 then
      abind (set_inode_size (GetNodeSize p)) (\<lambda>_.
      put_pending (pa_Reset (fe_map E) (GetNodeSize p) p)) s
    else
      abind (lift_res (case GetNextRange (fe_map E) p of Ok r \<Rightarrow> Ok r | _ \<Rightarrow> Panic)) (\<lambda>(bno_start, bno_count).
      abind (assert_act (bno_count \<le> max_blocks)) (\<lambda>_.
      abind (try_act (BlocksSwap E bno_start bno_count)
               (\<lambda>r. case r of Ok bnos \<Rightarrow> ret bnos | _ \<Rightarrow> abort)) (\<lambda>bnos.
      abind (enqueue_blocks E bno_start bnos) (\<lambda>_.
      abind get_pending (\<lambda>p.
      abind (assert_act (u32 ((bno_start + bno_count) * kMinfsBlockSize)
                \<le> round_up (GetNodeSize p) kMinfsBlockSize)) (\<lambda>_.
      abind (gets (\<lambda>s. i_size (vs_inode s))) (\<lambda>isize.
      abind (if u32 ((bno_start + bno_count) * kMinfsBlockSize) > isize
                \<and> u32 ((bno_start + bno_count) * kMinfsBlockSize) < GetNodeSize p
             then set_inode_size (u32 ((bno_start + bno_count) * kMinfsBlockSize))
             else if GetNodeSize p \<le> u32 ((bno_start + bno_count) * kMinfsBlockSize)
             then set_inode_size (GetNodeSize p) else ret ()) (\<lambda>_.
      allocate_loop E max_blocks)))))))) s)) s"

definition max_blocks_per_transaction :: "('r, 'm, 'c, 'u) fenv \<Rightarrow> nat" where
  "max_blocks_per_transaction E =
    min (u32 (kMinfsDirect + kMinfsDirectPerIndirect * fe_max_metadata_blocks E))
        (u32 (fe_writeback_capacity E div 2))"

text \<open>The dirty cache is enabled on the device, so the times of the inode stay.\<close>

definition AllocateAndCommitData :: "('r, 'm, 'c, 'u) fenv \<Rightarrow> ('r, 'm, 'c, 'u, unit) tact" where
  "AllocateAndCommitData E =
    abind (allocate_loop E (max_blocks_per_transaction E)) (\<lambda>_.
    abind get_pending (\<lambda>p.
    abind (assert_act (GetTotalPending (fe_map E) p = 0)) (\<lambda>_.
    abind (gets vs_inode) (\<lambda>i.
    abind (on_tx (fe_sync_inode E False i)) (\<lambda>i.
    abind (modify (\<lambda>s. s\<lparr>vs_inode := i\<rparr>)) (\<lambda>_.
    on_tx (fe_commit E)))))))"

section \<open>Walking the blocks of a range\<close>

fun walk_blocks ::
  "('r, 'm, 'c, 'u) fenv \<Rightarrow> (nat \<Rightarrow> bool \<Rightarrow> bool \<Rightarrow> 'x \<Rightarrow> ('r, 'm, 'c, 'u, 'x) tact) \<Rightarrow> nat \<Rightarrow> nat \<Rightarrow> 'x
    \<Rightarrow> ('r, 'm, 'c, 'u, 'x) tact" where
  "walk_blocks E handler start 0 x = ret x"
| "walk_blocks E handler start (Suc n) x =
    abind (with_iterator (abind (Iterator_Init E False start) (\<lambda>_. it_Blk))) (\<lambda>blk.
    abind get_pending (\<lambda>p.
    abind (handler start (blk \<noteq> 0) (IsPending (fe_map E) start p) x) (\<lambda>x.
    walk_blocks E handler (u32 (start + 1)) n x)))"

text \<open>The length of the walk in bytes is computed in 32 bits.\<close>

definition WalkFileBlocks ::
  "('r, 'm, 'c, 'u) fenv \<Rightarrow> nat \<Rightarrow> nat \<Rightarrow> (nat \<Rightarrow> bool \<Rightarrow> bool \<Rightarrow> 'x \<Rightarrow> ('r, 'm, 'c, 'u, 'x) tact) \<Rightarrow> 'x
    \<Rightarrow> ('r, 'm, 'c, 'u, 'x) tact" where
  "WalkFileBlocks E offset len handler x =
    (let start_block = u32 (offset div kMinfsBlockSize);
         end_block = u32 (u64_sub (u64 (offset + len + kMinfsBlockSize)) 1 div kMinfsBlockSize)
     in walk_blocks E handler start_block
          (u32 (u32_sub end_block start_block * kMinfsBlockSize) div kMinfsBlockSize) x)"

text \<open>The number of data blocks that still have to be marked and the blocks to reserve.\<close>

definition target_GetRequiredBlockCountForDirtyCache ::
  "('r, 'm, 'c, 'u) fenv \<Rightarrow> nat \<Rightarrow> nat \<Rightarrow> nat \<Rightarrow> ('r, 'm, 'c, 'u, nat) tact" where
  "target_GetRequiredBlockCountForDirtyCache E offset len uncached_block_count =
    abind (WalkFileBlocks E offset len
      (\<lambda>block allocated is_pending (to_write, uncached).
        ret (if \<not> is_pending then (to_write + 1, uncached) else (to_write, u32_sub uncached 1)))
      (0, uncached_block_count)) (\<lambda>(to_write, uncached).
    ret (if to_write = (0::nat) then 0 else uncached))"

definition target_GetRequiredBlockCount ::
  "('r, 'm, 'c, 'u) fenv \<Rightarrow> nat \<Rightarrow> nat \<Rightarrow> ('r, 'm, 'c, 'u, nat) tact" where
  "target_GetRequiredBlockCount E offset len =
    abind (lift_res (GetRequiredBlockCount offset len kMinfsBlockSize)) (\<lambda>uncached.
    target_GetRequiredBlockCountForDirtyCache E offset len uncached)"

definition AllReservationsBacked :: "('r, 'm, 'c, 'u) fenv \<Rightarrow> 'u \<Rightarrow> bool res" where
  "AllReservationsBacked E u =
    (let info = fe_info E u in
     if block_count info \<ge> alloc_block_count info
     then Ok (fe_blocks_reserved E u \<le> block_count info - alloc_block_count info) else Panic)"

definition target_MarkRequiredBlocksPending ::
  "('r, 'm, 'c, 'u) fenv \<Rightarrow> nat \<Rightarrow> nat \<Rightarrow> ('r, 'm, 'c, 'u, unit) tact" where
  "target_MarkRequiredBlocksPending E offset len =
    abind (assert_act (len > 0)) (\<lambda>_.
    abind (gets (\<lambda>s. AllReservationsBacked E (tf_rest (vs_rest s)))) (\<lambda>backed.
    abind (assert_act (backed = Ok True)) (\<lambda>_.
    WalkFileBlocks E offset len
      (\<lambda>block allocated is_pending x.
        if \<not> is_pending then abind (set_pending E block allocated) (\<lambda>_. add_dirty E 1) else ret ()) ())))"

definition target_DropCachedWrites :: "('r, 'm, 'c, 'u) fenv \<Rightarrow> ('r, 'm, 'c, 'u, unit) tact" where
  "target_DropCachedWrites E =
    abind (gets target_GetSize) (\<lambda>sz.
    abind (try_act (WalkFileBlocks E 0 sz
             (\<lambda>block allocated is_pending n.
               if \<not> is_pending then ret n
               else abind (clear_pending E block allocated) (\<lambda>_.
                    abind (add_dirty E (-1)) (\<lambda>_. ret (u32 (n + 1))))) 0)
           (\<lambda>r. case r of Ok n \<Rightarrow> ret n | _ \<Rightarrow> abort)) (\<lambda>n.
    abind (gets (\<lambda>s. n = 0 \<or> i_link_count (vs_inode s) = 0
                   \<or> fe_journal_errored E (tf_rest (vs_rest s)))) (\<lambda>may_drop.
    abind (assert_act may_drop) (\<lambda>_.
    abind get_pending (\<lambda>p. assert_act (GetTotalPending (fe_map E) p = 0))))))"

section \<open>Flushing\<close>

text \<open>\<open>Minfs::ContinueTransaction\<close> of the device build: when there is no space the journal is
  flushed and the reservation tried again. The transaction is set even when this fails.\<close>

definition target_ContinueTransaction ::
  "('r, 'm, 'c, 'u) fenv \<Rightarrow> nat \<Rightarrow> 'c \<Rightarrow> ('r, 'm, 'c, 'u, unit) tact" where
  "target_ContinueTransaction E reserve_blocks cached =
    abind (gets (\<lambda>s. fe_journal E (tf_rest (vs_rest s)))) (\<lambda>journal. case journal of
      None \<Rightarrow> fail ZX_ERR_BAD_STATE
    | Some False \<Rightarrow> fail ZX_ERR_IO_REFUSED
    | Some True \<Rightarrow>
        abind (on_tx (fe_from_cached E cached)) (\<lambda>_.
        try_act (on_tx (fe_extend E reserve_blocks)) (\<lambda>r.
          if r = Err ZX_ERR_NO_SPACE \<and> reserve_blocks > 0
          then abind (on_tx (fe_sync_journal E)) (\<lambda>_. on_tx (fe_extend E reserve_blocks))
          else lift_res r)))"

definition target_ForceFlushTransaction :: "('r, 'm, 'c, 'u) fenv \<Rightarrow> ('r, 'm, 'c, 'u, unit) tact" where
  "target_ForceFlushTransaction E = AllocateAndCommitData E"

definition target_FlushCachedWrites :: "('r, 'm, 'c, 'u) fenv \<Rightarrow> ('r, 'm, 'c, 'u, unit) tact" where
  "target_FlushCachedWrites E =
    abind (gets (\<lambda>s. tf_cached (vs_rest s))) (\<lambda>cached.
    abind (set_cached None) (\<lambda>_. case cached of
      None \<Rightarrow>
        abind (gets (\<lambda>s. fe_journal_errored E (tf_rest (vs_rest s)))) (\<lambda>errored.
        if errored then target_DropCachedWrites E else ret ())
    | Some c \<Rightarrow>
        abind (target_ContinueTransaction E 0 c) (\<lambda>_. target_ForceFlushTransaction E)))"

definition kDirtyBlocksPerFile :: nat where "kDirtyBlocksPerFile = 256"

definition target_ShouldFlush ::
  "('r, 'm, 'c, 'u) fenv \<Rightarrow> bool \<Rightarrow> nat \<Rightarrow> nat \<Rightarrow> ('r, 'm, 'c, 'u, bool) tact" where
  "target_ShouldFlush E is_truncate len offset =
    (if is_truncate then ret True
     else
       abind (target_GetRequiredBlockCount E offset len) (\<lambda>reserve_blocks.
       abind get_pending (\<lambda>p.
       gets (\<lambda>s. GetTotalPending (fe_map E) p \<ge> kDirtyBlocksPerFile
              \<or> fe_blocks_available E (tf_rest (vs_rest s)) < reserve_blocks))))"

definition target_CheckAndFlush ::
  "('r, 'm, 'c, 'u) fenv \<Rightarrow> bool \<Rightarrow> nat \<Rightarrow> nat \<Rightarrow> ('r, 'm, 'c, 'u, unit) tact" where
  "target_CheckAndFlush E is_truncate len offset =
    abind (target_ShouldFlush E is_truncate len offset) (\<lambda>flush.
    if \<not> flush then ret () else target_FlushCachedWrites E)"

definition target_FlushTransaction ::
  "('r, 'm, 'c, 'u) fenv \<Rightarrow> bool \<Rightarrow> ('r, 'm, 'c, 'u, unit) tact" where
  "target_FlushTransaction E force_flush =
    (if force_flush then
       abind get_pending (\<lambda>p.
       abind (if pa_IsEmpty (fe_map E) p then set_inode_size (GetNodeSize p) else ret ()) (\<lambda>_.
       target_ForceFlushTransaction E))
     else
       abind get_pending (\<lambda>p.
       abind (set_inode_size (GetNodeSize p)) (\<lambda>_.
       abind (gets (\<lambda>s. tf_cached (vs_rest s))) (\<lambda>cached.
       abind (assert_act (cached = None)) (\<lambda>_.
       abind (on_tx (fe_take_reservations E)) (\<lambda>c.
       abind (set_cached (Some c)) (\<lambda>_.
       abind (target_ShouldFlush E False 0 0) (\<lambda>flush.
       if flush \<or> force_flush then target_FlushCachedWrites E else ret ()))))))))"

text \<open>\<open>GetTransaction\<close>: on a failure to extend the cached transaction it is flushed.\<close>

definition target_GetTransaction ::
  "('r, 'm, 'c, 'u) fenv \<Rightarrow> nat \<Rightarrow> ('r, 'm, 'c, 'u, unit) tact" where
  "target_GetTransaction E reserve_blocks =
    abind (gets (\<lambda>s. tf_cached (vs_rest s))) (\<lambda>cached.
    abind (gets (\<lambda>s. fe_journal E (tf_rest (vs_rest s)))) (\<lambda>journal.
    abind (set_cached None) (\<lambda>_. case cached of
      None \<Rightarrow> on_tx (fe_begin E reserve_blocks)
    | Some c \<Rightarrow>
        try_act (target_ContinueTransaction E reserve_blocks c) (\<lambda>r. case r of
          Err e \<Rightarrow>
            if journal = Some True
            then try_act (target_FlushTransaction E True) (\<lambda>_. fail e) else fail e
        | _ \<Rightarrow> ret ()))))"

end
