(* ===== verification/Reader_Laws.thy ===== *)
theory Reader_Laws
  imports Mapper
begin

text \<open>
  Reading the indirect file: \<open>Coalesce\<close> finds the longest run, and a lazy read of the region whose
  pointers are in the inode queues exactly the blocks that are mapped and not loaded yet, each
  from its own device block. The contract of the lazy reader, the locale \<open>block_reader\<close>, is
  discharged for \<open>MappedFileReader\<close> over \<open>VnodeIndirectMapper\<close>.
\<close>

section \<open>Runs\<close>

lemma run_length_bounds: "cnt \<le> run_length P a cnt m \<and> run_length P a cnt m \<le> cnt + m"
  by (induction m arbitrary: cnt) (auto intro: Suc_leD dest: meta_spec [of _ "Suc _"])

lemma run_length_run:
  "cnt \<le> k \<Longrightarrow> k < run_length P a cnt m \<Longrightarrow> P (a (k - 1)) (a k)"
proof (induction m arbitrary: cnt)
  case (Suc m)
  show ?case
  proof (cases "k = cnt")
    case False
    then show ?thesis using Suc.prems by (intro Suc.IH [of "Suc cnt"]) (auto split: if_splits)
  qed (use Suc.prems in \<open>auto split: if_splits\<close>)
qed simp

lemma run_length_stop:
  "run_length P a cnt m < cnt + m \<Longrightarrow> \<not> P (a (run_length P a cnt m - 1)) (a (run_length P a cnt m))"
  by (induction m arbitrary: cnt) auto

text \<open>Whether the first \<open>n\<close> pointers form a run: all zero, or increasing by one.\<close>

definition is_run :: "(nat \<Rightarrow> nat) \<Rightarrow> nat \<Rightarrow> bool" where
  "is_run a n \<longleftrightarrow> (if a 0 = 0 then \<forall>k < n. a k = 0 else \<forall>k < n. a k = u32 (a 0 + k))"

lemma is_run_zero: "a 0 = 0 \<Longrightarrow> is_run a n \<longleftrightarrow> (\<forall>k < n. a k = 0)"
  by (simp add: is_run_def)

lemma is_run_consecutive: "a 0 \<noteq> 0 \<Longrightarrow> is_run a n \<longleftrightarrow> (\<forall>k < n. a k = u32 (a 0 + k))"
  unfolding is_run_def by (simp only: if_False)

lemma is_run_mono: "is_run a n' \<Longrightarrow> n \<le> n' \<Longrightarrow> is_run a n"
  by (cases "a 0 = 0") (meson is_run_zero is_run_consecutive less_le_trans)+

lemma zero_run:
  assumes "a 0 = (0::nat)" "0 < m" "n = run_length (\<lambda>p x. x = 0) a 1 (m - 1)"
  shows "0 < n" "n \<le> m" "is_run a n" "n < m \<Longrightarrow> \<not> is_run a (n + 1)"
proof -
  show b: "0 < n" "n \<le> m"
    using run_length_bounds [of 1 "\<lambda>p x. x = 0" a "m - 1"] assms(2) by (auto simp: assms(3))
  have "a k = 0" if "k < n" for k
    using that assms(1) run_length_run [of 1 k "\<lambda>p x. x = 0" a "m - 1"]
    by (cases "k = 0") (auto simp: assms(3))
  then show "is_run a n" using assms(1) by (simp add: is_run_def)
  show "\<not> is_run a (n + 1)" if "n < m"
  proof -
    have "n < 1 + (m - 1)" using that by simp
    then have "a n \<noteq> 0"
      using run_length_stop [of "\<lambda>p x. x = 0" a 1 "m - 1"] unfolding assms(3) by blast
    then show ?thesis using assms(1) by (auto simp: is_run_def)
  qed
qed

lemma u32_Suc: "u32 (Suc (u32 n)) = u32 (Suc n)"
  by (simp add: u32_def mod_Suc_eq)

lemma consecutive_run:
  assumes "a 0 \<noteq> 0" "0 < m" "a 0 < 4294967296"
    and n: "n = run_length (\<lambda>p x. x = u32 (p + 1)) a 1 (m - 1)"
  shows "0 < n" "n \<le> m" "is_run a n" "n < m \<Longrightarrow> \<not> is_run a (n + 1)"
proof -
  let ?P = "\<lambda>p x. x = u32 (p + 1)"
  show b: "0 < n" "n \<le> m"
    using run_length_bounds [of 1 ?P a "m - 1"] assms(2) by (auto simp: n)
  have run: "a k = u32 (a 0 + k)" if "k < n" for k
    using that
  proof (induction k)
    case 0 then show ?case using assms(3) by (simp add: u32_id)
  next
    case (Suc k)
    have "a (Suc k) = u32 (a k + 1)"
      using run_length_run [of 1 "Suc k" ?P a "m - 1"] Suc.prems by (simp add: n)
    then show ?case using Suc by (simp add: u32_Suc)
  qed
  then show "is_run a n" unfolding is_run_consecutive [of a, OF assms(1)] by blast
  show "\<not> is_run a (n + 1)" if "n < m"
  proof
    assume "is_run a (n + 1)"
    then have "a n = u32 (a 0 + n)" unfolding is_run_consecutive [of a, OF assms(1)] by (rule allE [of _ n]) simp
    moreover have "u32 (a (n - 1) + 1) = u32 (a 0 + n)"
      using run [of "n - 1"] b(1) u32_Suc [of "a 0 + (n - 1)"] by simp
    moreover have "n < 1 + (m - 1)" using that by simp
    then have "a n \<noteq> u32 (a (n - 1) + 1)"
      using run_length_stop [of ?P a 1 "m - 1"] unfolding n by blast
    ultimately show False by simp
  qed
qed

lemma Coalesce_run:
  assumes "0 < m" "a 0 < 4294967296"
  shows "0 < Coalesce a m" "Coalesce a m \<le> m" "is_run a (Coalesce a m)"
    "Coalesce a m < m \<Longrightarrow> \<not> is_run a (Coalesce a m + 1)"
  using zero_run [where a = a, OF _ assms(1) refl] consecutive_run [where a = a, OF _ assms refl]
  unfolding Coalesce_def by (cases "a 0 = 0"; simp)+

text \<open>C21: \<open>Coalesce\<close> returns the length of the longest initial run of block pointers, zeros when
  the first pointer is zero and consecutive blocks otherwise.\<close>

theorem Coalesce_longest_run:
  assumes "0 < m" "a 0 < 4294967296"
  shows "0 < Coalesce a m \<and> Coalesce a m \<le> m
    \<and> (\<forall>n. 0 < n \<and> n \<le> m \<longrightarrow> (is_run a n \<longleftrightarrow> n \<le> Coalesce a m))"
proof -
  note c = Coalesce_run [where a = a, OF assms]
  have "is_run a n \<longleftrightarrow> n \<le> Coalesce a m" if "n \<le> m" for n
  proof
    assume r: "is_run a n"
    show "n \<le> Coalesce a m"
    proof (rule ccontr)
      assume "\<not> n \<le> Coalesce a m"
      then have "Coalesce a m + 1 \<le> n" "Coalesce a m < m" using that by auto
      with c(4) is_run_mono [OF r] show False by blast
    qed
  qed (rule is_run_mono [OF c(3)])
  then show ?thesis using c(1,2) by blast
qed

theorem Coalesce_longest_run_witness:
  "Coalesce (\<lambda>k. [7, 8, 9, 20] ! k) 4 = 3"
proof -
  let ?a = "\<lambda>k. [7, 8, 9, 20::nat] ! k"
  have "(3::nat) = Suc (Suc (Suc 0))" "(4::nat) = Suc (Suc (Suc (Suc 0)))" by simp_all
  then have r: "is_run ?a 3" "\<not> is_run ?a 4"
    by (simp_all only: is_run_consecutive nth_Cons_0 All_less_Suc) (simp_all add: u32_def)
  from Coalesce_longest_run [of 4 ?a] have
    "is_run ?a 3 \<longleftrightarrow> 3 \<le> Coalesce ?a 4" "is_run ?a 4 \<longleftrightarrow> 4 \<le> Coalesce ?a 4" by simp_all
  with r show ?thesis by simp
qed

section \<open>Reading blocks of pointers\<close>

text \<open>The pointer to a block of the indirect file that is in the inode.\<close>

definition indirect_pointer :: "inode \<Rightarrow> nat \<Rightarrow> nat" where
  "indirect_pointer i b = (if b < kMinfsIndirect then inum i ! b else dinum i ! (b - kMinfsIndirect))"

definition kInodeRegion :: nat where
  "kInodeRegion = kMinfsIndirect + kMinfsDoublyIndirect"

definition pointers_fit :: "inode \<Rightarrow> bool" where
  "pointers_fit i \<longleftrightarrow> (\<forall>b < kInodeRegion. indirect_pointer i b + kInodeRegion < 4294967296)"

definition op_blocks :: "operation \<Rightarrow> nat set" where
  "op_blocks x = {vmo_offset x..<vmo_offset x + op_length x}"

text \<open>A read brings each of its blocks from the block its pointer names.\<close>

definition op_reads :: "nat \<Rightarrow> inode \<Rightarrow> operation \<Rightarrow> bool" where
  "op_reads dat i x \<longleftrightarrow> op_kind x = kRead \<and> (\<forall>k < op_length x.
     indirect_pointer i (vmo_offset x + k) \<noteq> 0
     \<and> u32 (dev_offset x + k) = u32 (indirect_pointer i (vmo_offset x + k) + dat))"

definition sparse_blocks :: "inode \<Rightarrow> nat set" where
  "sparse_blocks i = {b. b < kInodeRegion \<and> indirect_pointer i b = 0}"

definition reader_valid ::
  "('r, 't, 'z) vnode_env_scheme \<Rightarrow> nat \<Rightarrow> inode \<Rightarrow> ('r, 't) vnode_state \<times> operation list \<Rightarrow> bool" where
  "reader_valid E dat i st \<longleftrightarrow> vs_inode (fst st) = i \<and> pointers_fit i \<and> vs_file (fst st) \<noteq> None
     \<and> ve_dat_block E (vs_rest (fst st)) = dat \<and> (\<forall>x \<in> set (snd st). op_reads dat i x)"

definition served :: "inode \<Rightarrow> ('r, 't) vnode_state \<times> operation list \<Rightarrow> nat set" where
  "served i st = sparse_blocks i \<union> (\<Union>x \<in> set (snd st). op_blocks x)"

lemma op_reads_blocks: "op_reads dat i x \<Longrightarrow> op_blocks x \<inter> sparse_blocks i = {}"
  by (fastforce simp: op_reads_def op_blocks_def sparse_blocks_def dest!: le_Suc_ex)

text \<open>In the region the mapper answers from the inode and leaves the state alone.\<close>

lemma IndirectMapper_Map_inode:
  assumes "a < b" "b \<le> kInodeRegion" "pointers_fit (vs_inode s)"
  obtains n where "IndirectMapper_Map E get_view fl a b s
      = Some (Ok (ToDeviceBlock (ve_dat_block E (vs_rest s)) (indirect_pointer (vs_inode s) a), n), s)"
    "0 < n" "a + n \<le> b"
    "if indirect_pointer (vs_inode s) a = 0
     then \<forall>k < n. indirect_pointer (vs_inode s) (a + k) = 0
     else \<forall>k < n. indirect_pointer (vs_inode s) (a + k) = indirect_pointer (vs_inode s) a + k"
proof -
  let ?i = "vs_inode s"
  let ?p = "indirect_pointer ?i"
  define len where "len = (if a < kMinfsIndirect then min b kMinfsIndirect - a else b - a)"
  define view where "view = (if a < kMinfsIndirect
    then \<lparr>bv_buffer = Some InumPointers, bv_offset = a, bv_length = len, bv_dirty = False, bv_flusher = False\<rparr>
    else \<lparr>bv_buffer = Some DinumPointers, bv_offset = a - kMinfsIndirect, bv_length = len,
           bv_dirty = False, bv_flusher = False\<rparr>)"
  have len: "0 < len" "a + len \<le> b" using assms by (auto simp: len_def kInodeRegion_def)
  have raw: "bv_raw s view k = ?p (a + k)" if "k < len" for k
    using that by (auto simp: view_def bv_raw_def indirect_pointer_def len_def)
  have gv: "IndirectMapper_GetView get_view False a b s = Some (Ok view, s)"
    using assms by (auto simp: IndirectMapper_GetView_def GetInodeIndirectView_def
        GetInodeDoubleIndirectView_def inode_view_def view_def len_def kInodeRegion_def format_consts
        ret_def u64_sub_id Let_def)
  have first: "bv_at s view 0 = Ok (?p a)"
    using raw [of 0] len by (auto simp: bv_at_def view_def bv_valid_def)
  let ?n = "Coalesce (bv_raw s view) len"
  have fit: "?p a + kInodeRegion < 4294967296" using assms by (auto simp: pointers_fit_def)
  then have lt: "bv_raw s view 0 < 4294967296" using raw [of 0] len by simp
  note c = Coalesce_run [where a = "bv_raw s view", OF len(1) lt]
  have map: "IndirectMapper_Map E get_view fl a b s
      = Some (Ok (ToDeviceBlock (ve_dat_block E (vs_rest s)) (?p a), ?n), s)"
    using first raw [of 0] len(1)
    by (auto simp: IndirectMapper_Map_def IndirectMapper_MapForWrite_def abind_def gv view_def ret_def)
  have "if ?p a = 0 then \<forall>k < ?n. ?p (a + k) = 0 else \<forall>k < ?n. ?p (a + k) = ?p a + k"
  proof (cases "?p a = 0")
    case True
    then have "\<forall>k < ?n. bv_raw s view k = 0" using c(3) raw [of 0] len by (simp add: is_run_zero)
    then show ?thesis using True raw c(2) by (auto intro: less_le_trans)
  next
    case False
    then have "\<forall>k < ?n. bv_raw s view k = u32 (?p a + k)"
      using c(3) raw [of 0] len by (simp add: is_run_consecutive)
    moreover have "?p a + k < 4294967296" if "k < ?n" for k
    proof -
      have "k \<le> kInodeRegion" using that c(2) len assms by linarith
      with fit show ?thesis by linarith
    qed
    ultimately show ?thesis using False raw c(2) by (auto simp: u32_id)
  qed
  then show thesis using that [of ?n] map c(1,2) len by simp
qed

lemma Enqueue_part:
  assumes v: "reader_valid E dat i st" and ab: "a < b" "b \<le> kInodeRegion"
  shows "\<exists>n st'. MappedFileReader_Enqueue file_place (IndirectMapper_Map E get_view fl) a b st
      = Some (Ok n, st') \<and> reader_valid E dat i st' \<and> 0 < n \<and> a + n \<le> b
    \<and> served i st' = served i st \<union> {a..<a + n}
    \<and> bp_mapped file_place (fst st') = bp_mapped file_place (fst st)"
proof -
  obtain s ops where st: "st = (s, ops)" by (cases st)
  obtain f where s: "vs_inode s = i" "pointers_fit i" "vs_file s = Some f"
      "ve_dat_block E (vs_rest s) = dat" "\<forall>x \<in> set ops. op_reads dat i x"
    using v by (auto simp: reader_valid_def st)
  let ?p = "indirect_pointer i"
  obtain n where n: "IndirectMapper_Map E get_view fl a b s
      = Some (Ok (ToDeviceBlock dat (?p a), n), s)" "0 < n" "a + n \<le> b"
    "if ?p a = 0 then \<forall>k < n. ?p (a + k) = 0 else \<forall>k < n. ?p (a + k) = ?p a + k"
    using IndirectMapper_Map_inode [OF ab, of s E get_view fl] s by auto
  show ?thesis
  proof (cases "?p a = 0")
    case True
    then have "{a..<a + n} \<subseteq> sparse_blocks i"
      using n ab by (auto simp: sparse_blocks_def dest!: le_Suc_ex)
    then show ?thesis using True n s
      by (auto simp: MappedFileReader_Enqueue_def st ToDeviceBlock_def reader_valid_def served_def
          file_place_def bp_mapped_def)
  next
    case False
    let ?x = "read_op a (u32 (?p a + dat)) n"
    have "op_reads dat i ?x"
      using n(4) False by (auto simp: op_reads_def read_op_def u32_def mod_simps ac_simps)
    moreover have "op_blocks ?x = {a..<a + n}" by (simp add: op_blocks_def read_op_def)
    ultimately show ?thesis using False n s
      by (auto simp: MappedFileReader_Enqueue_def st ToDeviceBlock_def reader_valid_def served_def)
  qed
qed

lemma indirect_block_reader:
  assumes "range_bitmap_laws R"
  shows "block_reader R (\<lambda>st. bp_mapped file_place (fst st))
    (MappedFileReader_Enqueue file_place (IndirectMapper_Map E get_view fl))
    (served i) (reader_valid E dat i) 0 kInodeRegion"
proof
  show "range_bitmap_laws R" by (rule assms)
  show "kInodeRegion < 18446744073709551616" by (simp add: kInodeRegion_def format_consts)
qed (use Enqueue_part [where get_view = get_view and fl = fl] in fastforce)

interpretation indirect: block_reader list_range "\<lambda>st. bp_mapped file_place (fst st)"
  "MappedFileReader_Enqueue file_place (IndirectMapper_Map E get_view fl)"
  "served i" "reader_valid E dat i" 0 kInodeRegion
  for E :: "(index_set, 't, 'z) vnode_env_scheme" and get_view fl i dat
  by (rule indirect_block_reader [OF list_range_laws])

text \<open>C22: A read of the indirect file within the region of the inode's own pointers queues reads for
  exactly the blocks that are mapped and not loaded yet, each from the device block its pointer
  names, before it runs the requests and marks the range as loaded.\<close>

theorem indirect_read_exact:
  assumes "range_bitmap_laws R" "reader_valid E dat i (s, [])" "start < stop" "stop \<le> kInodeRegion * kMinfsBlockSize"
  shows "\<exists>s' ops.
    LazyReader_Read R (\<lambda>st. bp_mapped file_place (fst st))
        (\<lambda>m st. (bp_set_mapped file_place m (fst st), snd st))
        (MappedFileReader file_place (IndirectMapper_Map E get_view fl) read) start stop (s, [])
      = abind (MappedFileReader_RunRequests file_place read)
          (\<lambda>_. modify (\<lambda>st. (bp_set_mapped file_place (rg_set R (bp_mapped file_place (fst st))
              (start div kMinfsBlockSize) ((stop + kMinfsBlockSize - 1) div kMinfsBlockSize)) (fst st), snd st)))
          (s', ops)
    \<and> (\<forall>x \<in> set ops. op_reads dat i x)
    \<and> (\<Union>x \<in> set ops. op_blocks x)
        = {start div kMinfsBlockSize..<(stop + kMinfsBlockSize - 1) div kMinfsBlockSize}
          - rle_set R (bp_mapped file_place s) - sparse_blocks i"
proof -
  let ?first = "start div kMinfsBlockSize" and ?last = "(stop + kMinfsBlockSize - 1) div kMinfsBlockSize"
  let ?rd = "MappedFileReader file_place (IndirectMapper_Map E get_view fl) read"
  have bl: "?first < ?last" "?last \<le> kInodeRegion"
    using assms(3,4) by (auto simp: format_consts kInodeRegion_def div_less_iff_less_mult
        less_eq_div_iff_mult_less_eq Suc_le_eq)
  have "u64_sub (u64 (stop + kMinfsBlockSize)) 1 = stop + kMinfsBlockSize - 1"
    using assms(4) by (simp add: format_consts kInodeRegion_def u64_id u64_sub_id)
  then have bb: "BytesToBlocks start stop (rd_block_size ?rd) = (?first, ?last)"
    by (simp add: BytesToBlocks_def MappedFileReader_def)
  have eq: "rd_enqueue ?rd = MappedFileReader_Enqueue file_place (IndirectMapper_Map E get_view fl)"
    "rd_run ?rd = MappedFileReader_RunRequests file_place read"
    by (simp_all add: MappedFileReader_def)
  note rd = indirect_block_reader [OF assms(1), of E get_view fl i dat]
  have win: "{?first..<?last} - rle_set R m \<inter> {0..<kInodeRegion} = {?first..<?last} - rle_set R m" for m
    using bl(2) by auto
  obtain st' where st': "LazyReader_Read R (\<lambda>st. bp_mapped file_place (fst st))
        (\<lambda>m st. (bp_set_mapped file_place m (fst st), snd st)) ?rd start stop (s, [])
      = abind (rd_run ?rd) (\<lambda>_. modify (\<lambda>st. (bp_set_mapped file_place
          (rg_set R (bp_mapped file_place (fst st)) ?first ?last) (fst st), snd st))) st'"
    "reader_valid E dat i st'"
    "served i st' = served i (s, []) \<union> ({?first..<?last} - rle_set R (bp_mapped file_place s))"
    using block_reader.read_exact [OF rd assms(2) eq(1) assms(3) bb _ bl,
        where put = "\<lambda>m st. (bp_set_mapped file_place m (fst st), snd st)"]
    unfolding block_reader.loaded_def [OF rd] fst_conv win by blast
  let ?X = "\<Union>x \<in> set (snd st'). op_blocks x"
  have ops: "\<forall>x \<in> set (snd st'). op_reads dat i x" using st'(2) by (simp add: reader_valid_def)
  then have "?X \<inter> sparse_blocks i = {}" using op_reads_blocks by fast
  then have "?X = {?first..<?last} - rle_set R (bp_mapped file_place s) - sparse_blocks i"
    using st'(3) by (auto simp: served_def)
  then show ?thesis using st'(1) ops unfolding eq(2)
    by (intro exI [of _ "fst st'"] exI [of _ "snd st'"]) simp
qed

definition sample_env :: "(index_set, unit) vnode_env" where
  "sample_env = \<lparr>ve_ranges = list_range, ve_dat_block = (\<lambda>_. 8), ve_read = (\<lambda>_ _. ret (\<lambda>_. 0)),
     ve_writer = (\<lambda>_ _ _. ret ()), ve_block_new = ret 1, ve_delete_block = (\<lambda>_ _ _. ret ()),
     ve_inode_sync = ret ()\<rparr>"

text \<open>Blocks 3 and 6 of the file are mapped.\<close>

definition sample_state :: "(index_set, unit) vnode_state" where
  "sample_state =
    \<lparr>vs_inode = zero_inode\<lparr>inum := (replicate 31 0)[3 := 50, 6 := 9]\<rparr>,
     vs_file = Some (LazyBuffer_Create list_range), vs_rest = ()\<rparr>"

theorem indirect_read_exact_witness:
  "\<exists>s' ops.
    LazyReader_Read list_range (\<lambda>st. bp_mapped file_place (fst st))
        (\<lambda>m st. (bp_set_mapped file_place m (fst st), snd st))
        (MappedFileReader file_place (IndirectMapper_Map sample_env (\<lambda>_ _ _. abort) (\<lambda>_. abort))
          (\<lambda>_ _. abort)) 24577 49157 (sample_state, [])
      = abind (MappedFileReader_RunRequests file_place (\<lambda>_ _. abort))
          (\<lambda>_. modify (\<lambda>st. (bp_set_mapped file_place (rg_set list_range (bp_mapped file_place (fst st)) 3 7)
            (fst st), snd st))) (s', ops)
    \<and> (\<Union>x \<in> set ops. op_blocks x) = {3, 6}"
proof -
  let ?i = "vs_inode sample_state"
  have "(\<forall>b < 32. indirect_pointer ?i b + 32 < 4294967296)"
    and sp: "sparse_blocks ?i = {..<32} - {3, 6}"
    by (auto simp: indirect_pointer_def sample_state_def zero_inode_def nth_list_update format_consts
        sparse_blocks_def kInodeRegion_def less_Suc_eq)
  then have "reader_valid sample_env 8 ?i (sample_state, [])"
    by (simp add: reader_valid_def pointers_fit_def sample_env_def kInodeRegion_def format_consts)
      (simp add: sample_state_def)
  note r = indirect_read_exact [OF list_range_laws this, of 24577 49157 "\<lambda>_ _ _. abort" "\<lambda>_. abort" "\<lambda>_ _. abort"]
  have "bp_mapped file_place sample_state = rle_empty list_range"
    by (simp add: bp_mapped_def file_place_def sample_state_def LazyBuffer_Create_def)
  then have "{3..<7} - rle_set list_range (bp_mapped file_place sample_state) - sparse_blocks ?i = {3, 6}"
    using rle_empty_set [OF range_bitmap_rle [OF list_range_laws]] by (auto simp: sp)
  with r show ?thesis by (auto simp: format_consts kInodeRegion_def)
qed

end
