(* ===== verification/Codec.thy ===== *)
theory Codec
  imports Action
begin

text \<open>
  The structures of \<open>format.h\<close> as bytes. All their members are 32-bit words, or 64-bit words at
  aligned offsets, in little-endian order, so a structure is the list of its words; a directory
  entry ends with two bytes and its name. The casts and copies of the sources go through these
  functions.
\<close>

fun load_words :: "bytes \<Rightarrow> nat \<Rightarrow> nat \<Rightarrow> nat list" where
  "load_words b off 0 = []"
| "load_words b off (Suc n) = get_u32 b off # load_words b (off + 4) n"

fun store_words :: "nat \<Rightarrow> nat list \<Rightarrow> bytes \<Rightarrow> bytes" where
  "store_words off [] b = b"
| "store_words off (w # ws) b = store_words (off + 4) ws (set_u32 off w b)"

definition lo32 :: "nat \<Rightarrow> nat" where "lo32 n = u32 n"
definition hi32 :: "nat \<Rightarrow> nat" where "hi32 n = n div 4294967296"
definition join64 :: "nat \<Rightarrow> nat \<Rightarrow> nat" where "join64 l h = l + 4294967296 * h"

definition words_ok :: "nat list \<Rightarrow> bool" where
  "words_ok ws \<longleftrightarrow> (\<forall>w \<in> set ws. w < 4294967296)"

lemma join64_split [simp]: "join64 (lo32 n) (hi32 n) = n"
  by (simp add: join64_def lo32_def hi32_def u32_def)

lemma lo_hi_less [simp]:
  "lo32 n < 4294967296" "n < 18446744073709551616 \<Longrightarrow> hi32 n < 4294967296"
  by (simp_all add: lo32_def hi32_def div_less_iff_less_mult)

lemma length_load_words [simp]: "length (load_words b off n) = n"
  by (induction n arbitrary: off) auto

lemma store_words_before: "i < off \<Longrightarrow> store_words off ws b i = b i"
  by (induction ws arbitrary: off b) (auto simp: set_u32_def)

lemma store_words_after: "off + 4 * length ws \<le> i \<Longrightarrow> store_words off ws b i = b i"
  by (induction ws arbitrary: off b) (auto simp: set_u32_def)

lemma get_u32_cong:
  "(\<And>i. off \<le> i \<Longrightarrow> i < off + 4 \<Longrightarrow> a i = b i) \<Longrightarrow> get_u32 a off = get_u32 b off"
  by (simp add: get_u32_def)

lemma load_words_cong:
  "(\<And>i. off \<le> i \<Longrightarrow> i < off + 4 * n \<Longrightarrow> a i = b i) \<Longrightarrow> load_words a off n = load_words b off n"
proof (induction n arbitrary: off)
  case (Suc n)
  have "get_u32 a off = get_u32 b off" by (rule get_u32_cong) (use Suc.prems in auto)
  moreover have "load_words a (off + 4) n = load_words b (off + 4) n"
    by (rule Suc.IH) (use Suc.prems in auto)
  ultimately show ?case by simp
qed simp

lemma load_store_words [simp]:
  "words_ok ws \<Longrightarrow> n = length ws \<Longrightarrow> load_words (store_words off ws b) off n = ws"
proof (induction ws arbitrary: off b n)
  case (Cons w ws)
  have w: "w < 4294967296" "words_ok ws" using Cons.prems by (auto simp: words_ok_def)
  have "get_u32 (store_words (off + 4) ws (set_u32 off w b)) off = get_u32 (set_u32 off w b) off"
    by (rule get_u32_cong) (simp add: store_words_before)
  then show ?case using Cons.IH [OF w(2) refl] w(1) Cons.prems(2) by simp
qed simp

text \<open>A store elsewhere does not change what is loaded.\<close>

lemma load_store_other:
  assumes "off' + 4 * n \<le> off \<or> off + 4 * length ws \<le> off'"
  shows "load_words (store_words off ws b) off' n = load_words b off' n"
  by (rule load_words_cong) (use assms in \<open>auto simp: store_words_before store_words_after\<close>)

section \<open>Inodes\<close>

definition inode_words :: "inode \<Rightarrow> nat list" where
  "inode_words i =
     [i_magic i, i_size i, i_block_count i, i_link_count i,
      lo32 (i_create_time i), hi32 (i_create_time i), lo32 (i_modify_time i), hi32 (i_modify_time i),
      i_seq_num i, i_gen_num i, i_dirent_count i, i_last_inode i, i_next_inode i]
     @ i_rsvd i @ dnum i @ inum i @ dinum i"

definition words_inode :: "nat list \<Rightarrow> inode" where
  "words_inode ws =
     \<lparr>i_magic = ws ! 0, i_size = ws ! 1, i_block_count = ws ! 2, i_link_count = ws ! 3,
      i_create_time = join64 (ws ! 4) (ws ! 5), i_modify_time = join64 (ws ! 6) (ws ! 7),
      i_seq_num = ws ! 8, i_gen_num = ws ! 9, i_dirent_count = ws ! 10, i_last_inode = ws ! 11,
      i_next_inode = ws ! 12, i_rsvd = take 3 (drop 13 ws), dnum = take 16 (drop 16 ws),
      inum = take 31 (drop 32 ws), dinum = take 1 (drop 63 ws)\<rparr>"

definition load_inode :: "bytes \<Rightarrow> nat \<Rightarrow> inode" where
  "load_inode b off = words_inode (load_words b off 64)"

definition store_inode :: "nat \<Rightarrow> inode \<Rightarrow> bytes \<Rightarrow> bytes" where
  "store_inode off i b = store_words off (inode_words i) b"

definition inode_fits :: "inode \<Rightarrow> bool" where
  "inode_fits i \<longleftrightarrow> inode_wf i \<and> length (i_rsvd i) = 3 \<and> words_ok (inode_words i)"

lemma length_inode_words [simp]: "inode_fits i \<Longrightarrow> length (inode_words i) = 64"
  by (simp add: inode_fits_def inode_words_def inode_wf_def format_consts)

lemma words_inode_words [simp]: "inode_fits i \<Longrightarrow> words_inode (inode_words i) = i"
  by (simp add: inode_fits_def inode_wf_def words_inode_def inode_words_def format_consts)

lemma load_words_shift:
  "(\<And>i. i < 4 * n \<Longrightarrow> a (off + i) = b (off' + i)) \<Longrightarrow> load_words a off n = load_words b off' n"
proof (induction n arbitrary: off off')
  case (Suc n)
  have "get_u32 a off = get_u32 b off'"
    using Suc.prems [of 0] Suc.prems [of 1] Suc.prems [of 2] Suc.prems [of 3]
    by (simp add: get_u32_def)
  moreover have "load_words a (off + 4) n = load_words b (off' + 4) n"
    by (rule Suc.IH) (use Suc.prems [of "4 + i" for i] in \<open>simp add: add.assoc\<close>)
  ultimately show ?case by simp
qed simp

lemma load_inode_shift:
  "(\<And>i. i < kMinfsInodeSize \<Longrightarrow> a (off + i) = b (off' + i)) \<Longrightarrow> load_inode a off = load_inode b off'"
  unfolding load_inode_def by (simp add: format_consts cong: load_words_shift)

lemma load_store_inode [simp]: "inode_fits i \<Longrightarrow> load_inode (store_inode off i b) off = i"
  by (simp add: load_inode_def store_inode_def inode_fits_def [THEN iffD1])

section \<open>The superblock\<close>

definition superblock_words :: "superblock \<Rightarrow> nat list" where
  "superblock_words s =
     [lo32 (magic0 s), hi32 (magic0 s), lo32 (magic1 s), hi32 (magic1 s), major_version s,
      deprecated2 s, checksum s, generation_count s, flags s, block_size s, inode_size s,
      block_count s, inode_count s, alloc_block_count s, alloc_inode_count s, ibm_block s,
      abm_block s, ino_block s, integrity_start_block s, dat_block s, slice_size s, deprecated1 s,
      ibm_slices s, abm_slices s, ino_slices s, integrity_slices s, dat_slices s, unlinked_head s,
      unlinked_tail s, oldest_minor_version s] @ reserved s"

definition words_superblock :: "nat list \<Rightarrow> superblock" where
  "words_superblock ws =
     \<lparr>magic0 = join64 (ws ! 0) (ws ! 1), magic1 = join64 (ws ! 2) (ws ! 3),
      major_version = ws ! 4, deprecated2 = ws ! 5, checksum = ws ! 6, generation_count = ws ! 7,
      flags = ws ! 8, block_size = ws ! 9, inode_size = ws ! 10, block_count = ws ! 11,
      inode_count = ws ! 12, alloc_block_count = ws ! 13, alloc_inode_count = ws ! 14,
      ibm_block = ws ! 15, abm_block = ws ! 16, ino_block = ws ! 17,
      integrity_start_block = ws ! 18, dat_block = ws ! 19, slice_size = ws ! 20,
      deprecated1 = ws ! 21, ibm_slices = ws ! 22, abm_slices = ws ! 23, ino_slices = ws ! 24,
      integrity_slices = ws ! 25, dat_slices = ws ! 26, unlinked_head = ws ! 27,
      unlinked_tail = ws ! 28, oldest_minor_version = ws ! 29, reserved = drop 30 ws\<rparr>"

definition superblock_fits :: "superblock \<Rightarrow> bool" where
  "superblock_fits s \<longleftrightarrow> words_ok (superblock_words s) \<and> length (reserved s) = 2018"

definition load_superblock :: "bytes \<Rightarrow> superblock" where
  "load_superblock b = words_superblock (load_words b 0 2048)"

definition superblock_bytes :: "superblock \<Rightarrow> bytes" where
  "superblock_bytes s = store_words 0 (superblock_words s) zero_bytes"

lemma load_superblock_bytes [simp]: "superblock_fits s \<Longrightarrow> load_superblock (superblock_bytes s) = s"
proof -
  assume s: "superblock_fits s"
  then have "length (superblock_words s) = 2048"
    by (simp add: superblock_fits_def superblock_words_def)
  then have "load_superblock (superblock_bytes s) = words_superblock (superblock_words s)"
    using s unfolding load_superblock_def superblock_bytes_def superblock_fits_def
    by (subst load_store_words) simp_all
  then show ?thesis by (simp add: words_superblock_def superblock_words_def)
qed

section \<open>Directory entries\<close>

definition load_dirent :: "bytes \<Rightarrow> nat \<Rightarrow> dirent" where
  "load_dirent b off =
     \<lparr>de_ino = get_u32 b off, de_reclen = get_u32 b (off + 4), de_namelen = b (off + 8),
      de_type = b (off + 9)\<rparr>"

definition store_dirent :: "nat \<Rightarrow> dirent \<Rightarrow> bytes \<Rightarrow> bytes" where
  "store_dirent off de b =
     (set_u32 (off + 4) (de_reclen de) (set_u32 off (de_ino de) b))
       (off + 8 := de_namelen de, off + 9 := de_type de)"

text \<open>The name starts right after the two bytes.\<close>

definition kDirentNameOffset :: nat where "kDirentNameOffset = 10"

definition load_name :: "bytes \<Rightarrow> nat \<Rightarrow> nat \<Rightarrow> nat list" where
  "load_name b off n = map (\<lambda>i. b (off + kDirentNameOffset + i)) [0..<n]"

definition store_bytes :: "nat \<Rightarrow> nat list \<Rightarrow> bytes \<Rightarrow> bytes" where
  "store_bytes off xs b = (\<lambda>i. if off \<le> i \<and> i < off + length xs then xs ! (i - off) else b i)"

definition store_name :: "nat \<Rightarrow> nat list \<Rightarrow> bytes \<Rightarrow> bytes" where
  "store_name off xs b = store_bytes (off + kDirentNameOffset) xs b"

definition dirent_fits :: "dirent \<Rightarrow> bool" where
  "dirent_fits de \<longleftrightarrow> de_ino de < 4294967296 \<and> de_reclen de < 4294967296"

lemma load_store_dirent [simp]: "dirent_fits de \<Longrightarrow> load_dirent (store_dirent off de b) off = de"
proof -
  assume de: "dirent_fits de"
  let ?b = "set_u32 (off + 4) (de_reclen de) (set_u32 off (de_ino de) b)"
  have g: "get_u32 (?b (off + 8 := x, off + 9 := y)) (off + k) = get_u32 ?b (off + k)"
    if "k = 0 \<or> k = 4" for k x y
    by (rule get_u32_cong) (use that in auto)
  show ?thesis using de g [of 0] g [of 4]
    by (simp add: load_dirent_def store_dirent_def dirent_fits_def)
qed

lemma load_store_name [simp]: "load_name (store_name off xs b) off (length xs) = xs"
  by (rule nth_equalityI) (auto simp: load_name_def store_name_def store_bytes_def)

lemma store_name_dirent [simp]: "load_dirent (store_name off xs b) off = load_dirent b off"
proof -
  have "get_u32 (store_name off xs b) (off + k) = get_u32 b (off + k)" if "k \<le> 4" for k
    by (rule get_u32_cong) (use that in \<open>auto simp: store_name_def store_bytes_def kDirentNameOffset_def\<close>)
  from this [of 0] this [of 4] show ?thesis
    by (simp add: load_dirent_def) (simp add: store_name_def store_bytes_def kDirentNameOffset_def)
qed

section \<open>Every block of bytes is read and written back unchanged\<close>

definition byte_block :: "bytes \<Rightarrow> bool" where
  "byte_block b \<longleftrightarrow> (\<forall>i. b i < 256)"

lemma bytes_of_u32:
  fixes a b c d :: nat
  assumes "a < 256" "b < 256" "c < 256" "d < 256"
  defines "v \<equiv> a + 256 * (b + 256 * (c + 256 * d))"
  shows "v < 4294967296" "v mod 256 = a" "v div 256 mod 256 = b" "v div 65536 mod 256 = c"
    "v div 16777216 mod 256 = d"
proof -
  have 1: "v div 256 = b + 256 * (c + 256 * d)" and m: "v mod 256 = a"
    using assms(1) by (simp_all only: v_def mod_mult_self2 mod_less div_mult_self2 div_less)
  have 2: "v div 65536 = c + 256 * d"
    using assms(2) by (simp add: 1 div_mult2_eq [of v 256 256, simplified])
  have 3: "v div 16777216 = d"
    using assms(3) by (simp add: 2 div_mult2_eq [of v 65536 256, simplified])
  show "v < 4294967296" using assms(1-4) by (simp add: v_def)
  show "v mod 256 = a" by (rule m)
  show "v div 256 mod 256 = b" using assms(2) by (simp only: 1 mod_mult_self2 mod_less)
  show "v div 65536 mod 256 = c" using assms(3) by (simp only: 2 mod_mult_self2 mod_less)
  show "v div 16777216 mod 256 = d" using assms(4) by (simp add: 3)
qed

lemma get_u32_byte_block:
  assumes "byte_block b"
  shows "get_u32 b off < 4294967296" "set_u32 off (get_u32 b off) b = b"
proof -
  have b: "b i < 256" for i using assms by (simp add: byte_block_def)
  note u = bytes_of_u32 [OF b [of off] b [of "off + 1"] b [of "off + 2"] b [of "off + 3"]]
  show "get_u32 b off < 4294967296" unfolding get_u32_def by (rule u(1))
  show "set_u32 off (get_u32 b off) b = b"
    unfolding set_u32_def get_u32_def u by (simp add: fun_upd_idem)
qed

lemma store_load_words:
  "byte_block b \<Longrightarrow> store_words off (load_words b off n) b = b \<and> words_ok (load_words b off n)"
  by (induction n arbitrary: off) (auto simp: words_ok_def get_u32_byte_block)

lemma store_words_cover:
  "off \<le> i \<Longrightarrow> i < off + 4 * length ws \<Longrightarrow> store_words off ws a i = store_words off ws b i"
proof (induction ws arbitrary: off a b)
  case (Cons w ws)
  show ?case
  proof (cases "i < off + 4")
    case True
    then have "store_words off (w # ws) c i = set_u32 off w c i" for c
      by (simp add: store_words_before)
    then show ?thesis using True Cons.prems by (auto simp: set_u32_def)
  next
    case False
    with Cons.prems show ?thesis by (simp add: Cons.IH)
  qed
qed simp

lemma split_join64:
  "l < 4294967296 \<Longrightarrow> lo32 (join64 l h) = l" "l < 4294967296 \<Longrightarrow> hi32 (join64 l h) = h"
  by (simp_all add: lo32_def hi32_def join64_def u32_def)

lemma map_upt_step:
  "k < n \<Longrightarrow> map f [k..<n] = f k # map f [k + 1..<n]"
  by (simp add: upt_conv_Cons)

lemma words_ok_nth: "words_ok ws \<Longrightarrow> i < length ws \<Longrightarrow> ws ! i < 4294967296"
  by (simp add: words_ok_def)

lemma split_words:
  assumes "k \<le> length ws"
  shows "ws = map ((!) ws) [0..<k] @ drop k ws"
  using assms by (intro nth_equalityI) (auto simp: nth_append)

lemma inode_words_inode:
  assumes "length ws = 64" "words_ok ws"
  shows "inode_words (words_inode ws) = ws" "inode_fits (words_inode ws)"
proof -
  have d: "take 3 (drop 13 ws) @ take 16 (drop 16 ws) @ take 31 (drop 32 ws) @ take 1 (drop 63 ws) = drop 13 ws"
    using assms(1) append_take_drop_id [of 3 "drop 13 ws"] append_take_drop_id [of 16 "drop 16 ws"]
      append_take_drop_id [of 31 "drop 32 ws"] append_take_drop_id [of 1 "drop 63 ws"]
    by simp
  have "inode_words (words_inode ws) = map ((!) ws) [0..<13] @ drop 13 ws"
    using words_ok_nth [OF assms(2)] unfolding assms(1)
    by (simp add: inode_words_def words_inode_def split_join64 d map_upt_step del: One_nat_def)
  then show w: "inode_words (words_inode ws) = ws"
    using split_words [of 13 ws] assms(1) by simp
  show "inode_fits (words_inode ws)"
    using assms unfolding inode_fits_def w by (simp add: inode_wf_def words_inode_def format_consts)
qed

lemma superblock_words_superblock:
  assumes "length ws = 2048" "words_ok ws"
  shows "superblock_words (words_superblock ws) = ws" "superblock_fits (words_superblock ws)"
proof -
  have "superblock_words (words_superblock ws) = map ((!) ws) [0..<30] @ drop 30 ws"
    using words_ok_nth [OF assms(2)] unfolding assms(1)
    by (simp add: superblock_words_def words_superblock_def split_join64 map_upt_step del: One_nat_def)
  then show w: "superblock_words (words_superblock ws) = ws"
    using split_words [of 30 ws] assms(1) by simp
  show "superblock_fits (words_superblock ws)"
    using assms unfolding superblock_fits_def w by (simp add: words_superblock_def)
qed

lemma load_inode_bytes:
  assumes "byte_block b"
  shows "inode_fits (load_inode b off)" "store_inode off (load_inode b off) b = b"
  using store_load_words [OF assms, of off 64] inode_words_inode [of "load_words b off 64"]
  by (simp_all add: load_inode_def store_inode_def)

lemma load_inode_cong:
  "(\<And>i. off \<le> i \<Longrightarrow> i < off + kMinfsInodeSize \<Longrightarrow> a i = b i) \<Longrightarrow> load_inode a off = load_inode b off"
  unfolding load_inode_def by (simp add: format_consts cong: load_words_cong)

lemma load_store_inode_other:
  assumes "inode_fits i" "off' + kMinfsInodeSize \<le> off \<or> off + kMinfsInodeSize \<le> off'"
  shows "load_inode (store_inode off i b) off' = load_inode b off'"
  using assms by (simp add: load_inode_def store_inode_def load_store_other format_consts)

section \<open>A superblock as a block\<close>

text \<open>A superblock written as a block is read back unchanged, and every block of bytes read as a
  superblock is written back byte by byte.\<close>

lemma superblock_roundtrip:
  assumes "superblock_fits s" "byte_block b"
  shows "load_superblock (superblock_bytes s) = s
    \<and> superblock_fits (load_superblock b)
    \<and> (\<forall>i. superblock_bytes (load_superblock b) i = (if i < kMinfsBlockSize then b i else 0))"
proof -
  let ?ws = "load_words b 0 2048"
  have ws: "store_words 0 ?ws b = b" "words_ok ?ws" "length ?ws = 2048"
    using store_load_words [OF assms(2)] by simp_all
  have sb: "superblock_bytes (load_superblock b) = store_words 0 ?ws zero_bytes"
    using superblock_words_superblock [OF ws(3,2)]
    by (simp add: superblock_bytes_def load_superblock_def)
  have "store_words 0 ?ws zero_bytes i = store_words 0 ?ws b i" if "i < 8192" for i
    using that store_words_cover [of 0 i ?ws] ws(3) by simp
  moreover have "store_words 0 ?ws zero_bytes i = 0" if "\<not> i < 8192" for i
    using that store_words_after [of 0 ?ws i zero_bytes] ws(3) by (simp add: zero_bytes_def)
  ultimately show ?thesis
    using assms(1) superblock_words_superblock [OF ws(3,2)] ws(1)
    by (simp add: sb load_superblock_def [symmetric] format_consts)
qed

end
