(* ===== verification/Device.thy ===== *)
theory Device
  imports Codec Work
begin

text \<open>
  \<open>bcache.h\<close> and \<open>bcache_host.cc\<close>: the block cache of the host build over a POSIX file. The calls
  on the file descriptor are a record of functions; \<open>read\<close> and \<open>write\<close> work at the offset that the
  last \<open>lseek\<close> set, and results are the number of bytes or negative.
\<close>

record 'f posix_file =
  px_lseek :: "nat \<Rightarrow> 'f \<Rightarrow> int \<times> 'f"
  px_read :: "nat \<Rightarrow> 'f \<Rightarrow> (int \<times> bytes) \<times> 'f"
  px_write :: "nat \<Rightarrow> bytes \<Rightarrow> 'f \<Rightarrow> int \<times> 'f"
  px_pread :: "nat \<Rightarrow> nat \<Rightarrow> 'f \<Rightarrow> (int \<times> bytes) \<times> 'f"
  px_pwrite :: "nat \<Rightarrow> nat \<Rightarrow> bytes \<Rightarrow> 'f \<Rightarrow> int \<times> 'f"

record bcache =
  bc_max_blocks :: nat
  bc_offset :: nat
  bc_extent_lengths :: "nat list"

definition kExtentCount :: nat where "kExtentCount = 6"

definition Bcache_Create :: "nat \<Rightarrow> bcache" where
  "Bcache_Create max_blocks = \<lparr>bc_max_blocks = max_blocks, bc_offset = 0, bc_extent_lengths = []\<rparr>"

definition Readblk :: "('f, 'z) posix_file_scheme \<Rightarrow> bcache \<Rightarrow> nat \<Rightarrow> ('f, bytes) act" where
  "Readblk F bc bno f =
    (let (pos, f) = px_lseek F (bno * kMinfsBlockSize + bc_offset bc) f
     in if pos < 0 then Some (Err ZX_ERR_IO, f)
        else let ((n, data), f) = px_read F kMinfsBlockSize f
             in if n \<noteq> int kMinfsBlockSize then Some (Err ZX_ERR_IO, f) else Some (Ok data, f))"

definition Writeblk :: "('f, 'z) posix_file_scheme \<Rightarrow> bcache \<Rightarrow> nat \<Rightarrow> bytes \<Rightarrow> ('f, unit) act" where
  "Writeblk F bc bno data f =
    (let (pos, f) = px_lseek F (bno * kMinfsBlockSize + bc_offset bc) f
     in if pos < 0 then Some (Err ZX_ERR_IO, f)
        else let (n, f) = px_write F kMinfsBlockSize data f
             in if n \<noteq> int kMinfsBlockSize then Some (Err ZX_ERR_IO, f) else Some (Ok (), f))"

text \<open>
  A buffered operation reads or writes the memory of its buffer, here reached in the rest of the
  state through \<open>load\<close> and \<open>store\<close>. The offset of the cache is not added.
\<close>

fun RunRequests ::
  "('f, 'z) posix_file_scheme \<Rightarrow> ('b \<Rightarrow> nat \<Rightarrow> 's \<Rightarrow> bytes) \<Rightarrow> ('b \<Rightarrow> nat \<Rightarrow> nat \<Rightarrow> bytes \<Rightarrow> 's \<Rightarrow> 's)
    \<Rightarrow> (operation \<times> 'b) list \<Rightarrow> ('f \<times> 's, unit) act" where
  "RunRequests F load store [] st = Some (Ok (), st)"
| "RunRequests F load store ((x, buf) # xs) (f, s) =
    (let len = u64 (op_length x * kMinfsBlockSize);
         off = u64 (dev_offset x * kMinfsBlockSize);
         mem = u64 (vmo_offset x * kMinfsBlockSize)
     in case op_kind x of
          kRead \<Rightarrow>
            let ((n, data), f) = px_pread F len off f
            in if n \<noteq> int len then Some (Err ZX_ERR_IO, f, s)
               else RunRequests F load store xs (f, store buf mem len data s)
        | kWrite \<Rightarrow>
            let (n, f) = px_pwrite F len off (load buf mem s) f
            in if n \<noteq> int len then Some (Err ZX_ERR_IO, f, s)
               else RunRequests F load store xs (f, s)
        | kTrim \<Rightarrow> Some (Err ZX_ERR_NOT_SUPPORTED, f, s))"

definition Bcache_Sync :: "('f, unit) act" where
  "Bcache_Sync = ret ()"

definition SetOffset :: "nat \<Rightarrow> bcache \<Rightarrow> unit res \<times> bcache" where
  "SetOffset offset bc =
    (if bc_offset bc \<noteq> 0 \<or> bc_extent_lengths bc \<noteq> [] then (Err ZX_ERR_ALREADY_BOUND, bc)
     else (Ok (), bc\<lparr>bc_offset := offset\<rparr>))"

text \<open>\<open>allocated\<close> is whether the allocation of the array of lengths succeeds.\<close>

definition SetSparse :: "bool \<Rightarrow> nat \<Rightarrow> nat list \<Rightarrow> bcache \<Rightarrow> unit res \<times> bcache" where
  "SetSparse allocated offset extent_lengths bc =
    (if bc_offset bc \<noteq> 0 \<or> bc_extent_lengths bc \<noteq> [] then (Err ZX_ERR_ALREADY_BOUND, bc)
     else if length extent_lengths \<noteq> kExtentCount then (Panic, bc)
     else if \<not> allocated then (Err ZX_ERR_NO_MEMORY, bc\<lparr>bc_extent_lengths := []\<rparr>)
     else (Ok (), bc\<lparr>bc_extent_lengths := extent_lengths, bc_offset := offset\<rparr>))"

section \<open>A file that behaves\<close>

text \<open>
  The documented behaviour of the calls on a regular file that is never short and never fails:
  \<open>content\<close> is the file as a function from offsets.
\<close>

definition law_lseek :: "('f, 'z) posix_file_scheme \<Rightarrow> ('f \<Rightarrow> bytes) \<Rightarrow> bool" where
  "law_lseek F content \<longleftrightarrow>
     (\<forall>off f. 0 \<le> fst (px_lseek F off f) \<and> content (snd (px_lseek F off f)) = content f)"

definition law_read :: "('f, 'z) posix_file_scheme \<Rightarrow> ('f \<Rightarrow> bytes) \<Rightarrow> bool" where
  "law_read F content \<longleftrightarrow>
     (\<forall>off f0 n. let f = snd (px_lseek F off f0); r = px_read F n f in
        fst (fst r) = int n \<and> content (snd r) = content f
        \<and> (\<forall>i < n. snd (fst r) i = content f (off + i)))"

definition law_write :: "('f, 'z) posix_file_scheme \<Rightarrow> ('f \<Rightarrow> bytes) \<Rightarrow> bool" where
  "law_write F content \<longleftrightarrow>
     (\<forall>off f0 n data. let f = snd (px_lseek F off f0); r = px_write F n data f in
        fst r = int n \<and> content (snd r) = copy_bytes off data 0 n (content f))"

definition law_pread :: "('f, 'z) posix_file_scheme \<Rightarrow> ('f \<Rightarrow> bytes) \<Rightarrow> bool" where
  "law_pread F content \<longleftrightarrow>
     (\<forall>off f n. let r = px_pread F n off f in
        fst (fst r) = int n \<and> content (snd r) = content f
        \<and> (\<forall>i < n. snd (fst r) i = content f (off + i)))"

definition law_pwrite :: "('f, 'z) posix_file_scheme \<Rightarrow> ('f \<Rightarrow> bytes) \<Rightarrow> bool" where
  "law_pwrite F content \<longleftrightarrow>
     (\<forall>off f n data. let r = px_pwrite F n off data f in
        fst r = int n \<and> content (snd r) = copy_bytes off data 0 n (content f))"

definition posix_laws :: "('f, 'z) posix_file_scheme \<Rightarrow> ('f \<Rightarrow> bytes) \<Rightarrow> bool" where
  "posix_laws F content \<longleftrightarrow> law_lseek F content \<and> law_read F content \<and> law_write F content
     \<and> law_pread F content \<and> law_pwrite F content"

lemmas posix_law_defs = law_lseek_def law_read_def law_write_def law_pread_def law_pwrite_def

text \<open>The file in memory: its cursor and its contents.\<close>

definition memory_file :: "(nat \<times> bytes) posix_file" where
  "memory_file =
    \<lparr>px_lseek = (\<lambda>off (p, c). (int off, (off, c))),
     px_read = (\<lambda>n (p, c). ((int n, \<lambda>i. c (p + i)), (p + n, c))),
     px_write = (\<lambda>n data (p, c). (int n, (p + n, copy_bytes p data 0 n c))),
     px_pread = (\<lambda>n off (p, c). ((int n, \<lambda>i. c (off + i)), (p, c))),
     px_pwrite = (\<lambda>n off data (p, c). (int n, (p, copy_bytes off data 0 n c)))\<rparr>"

lemma memory_file_laws: "posix_laws memory_file snd"
  by (auto simp: posix_laws_def posix_law_defs memory_file_def Let_def)

lemma Readblk_law:
  assumes "posix_laws F content"
  obtains data f' where "Readblk F bc bno f = Some (Ok data, f')" "content f' = content f"
    "\<And>i. i < kMinfsBlockSize \<Longrightarrow> data i = content f (bno * kMinfsBlockSize + bc_offset bc + i)"
proof -
  let ?off = "bno * kMinfsBlockSize + bc_offset bc"
  let ?f1 = "snd (px_lseek F ?off f)"
  let ?r = "px_read F kMinfsBlockSize ?f1"
  have 1: "0 \<le> fst (px_lseek F ?off f)" "content ?f1 = content f"
    using assms by (simp_all add: posix_laws_def law_lseek_def)
  have 2: "fst (fst ?r) = int kMinfsBlockSize" "content (snd ?r) = content ?f1"
    "\<And>i. i < kMinfsBlockSize \<Longrightarrow> snd (fst ?r) i = content ?f1 (?off + i)"
    using assms by (simp_all add: posix_laws_def law_read_def Let_def)
  show ?thesis
    by (rule that [of "snd (fst ?r)" "snd ?r"])
      (use 1 2 in \<open>simp_all add: Readblk_def Let_def split_beta\<close>)
qed

lemma Writeblk_law:
  assumes "posix_laws F content"
  obtains f' where "Writeblk F bc bno data f = Some (Ok (), f')"
    "content f' = copy_bytes (bno * kMinfsBlockSize + bc_offset bc) data 0 kMinfsBlockSize (content f)"
proof -
  let ?off = "bno * kMinfsBlockSize + bc_offset bc"
  let ?f1 = "snd (px_lseek F ?off f)"
  let ?r = "px_write F kMinfsBlockSize data ?f1"
  have 1: "0 \<le> fst (px_lseek F ?off f)" "content ?f1 = content f"
    using assms by (simp_all add: posix_laws_def law_lseek_def)
  have 2: "fst ?r = int kMinfsBlockSize"
    "content (snd ?r) = copy_bytes ?off data 0 kMinfsBlockSize (content ?f1)"
    using assms by (simp_all add: posix_laws_def law_write_def Let_def)
  show ?thesis
    by (rule that [of "snd ?r"]) (use 1 2 in \<open>simp_all add: Writeblk_def Let_def split_beta\<close>)
qed

end
