(* ===== verification/World.thy ===== *)
theory World
  imports Allocator Device Iterator
begin

text \<open>
  The file system object of the host build and its transactions: \<open>writeback.h\<close>, \<open>writeback.cc\<close>,
  \<open>cached_block_transaction.h\<close>, \<open>inode_manager.h\<close>, \<open>inode_manager_host.cc\<close> and the
  transaction part of \<open>minfs.cc\<close> and \<open>minfs_host.cc\<close>. The state is the superblock manager, the
  two allocators, the file descriptor, the vnodes in memory and the running transaction; what
  is not in the repository is a record of functions. A vnode is known by its address.
\<close>

section \<open>Offsets of the sections\<close>

text \<open>On the host a sparse file has its own section lengths.\<close>

record block_offsets =
  bo_ibm_start :: nat
  bo_ibm_count :: nat
  bo_abm_start :: nat
  bo_abm_count :: nat
  bo_ino_start :: nat
  bo_ino_count :: nat
  bo_integrity_start :: nat
  bo_integrity_count :: nat
  bo_dat_start :: nat
  bo_dat_count :: nat

definition BlockOffsets :: "bcache \<Rightarrow> superblock_manager \<Rightarrow> block_offsets res" where
  "BlockOffsets bc sm =
    (let info = sm_info sm; ext = bc_extent_lengths bc in
     if length ext > 0 then
       if length ext \<noteq> kExtentCount then Panic
       else res_bind (BlockSize info) (\<lambda>bs.
         let cnt = (\<lambda>k. u32 (ext ! k div bs));
             ibm_start = cnt 0;
             abm_start = u32 (ibm_start + cnt 1);
             ino_start = u32 (abm_start + cnt 2);
             integrity_start = u32 (ino_start + cnt 3);
             dat_start = u32 (integrity_start + cnt 4)
         in Ok \<lparr>bo_ibm_start = ibm_start, bo_ibm_count = cnt 1, bo_abm_start = abm_start,
                bo_abm_count = cnt 2, bo_ino_start = ino_start, bo_ino_count = cnt 3,
                bo_integrity_start = integrity_start, bo_integrity_count = cnt 4,
                bo_dat_start = dat_start, bo_dat_count = cnt 5\<rparr>)
     else Ok
       \<lparr>bo_ibm_start = ibm_block info, bo_ibm_count = u32_sub (abm_block info) (ibm_block info),
        bo_abm_start = abm_block info, bo_abm_count = u32_sub (ino_block info) (abm_block info),
        bo_ino_start = ino_block info, bo_ino_count = u32_sub (dat_block info) (ino_block info),
        bo_integrity_start = integrity_start_block info,
        bo_integrity_count = u32_sub (dat_block info) (integrity_start_block info),
        bo_dat_start = dat_block info, bo_dat_count = block_count info\<rparr>)"

section \<open>State\<close>

record 'r vnode =
  vn_ino :: nat
  vn_inode :: inode
  vn_indirect :: "'r lazy_buffer option"
  vn_directory :: bool
  vn_open_count :: nat

record transaction =
  tx_inode_reservation :: reservation
  tx_block_reservation :: "reservation option"
  tx_operations :: "queued list"

record ('b, 'r, 'f) world =
  w_sm :: superblock_manager
  w_blocks :: "('b, 'r) allocator"
  w_inodes :: "('b, 'r) allocator"
  w_fd :: 'f
  w_vnodes :: "nat \<Rightarrow> 'r vnode option"
  w_hash :: "nat \<Rightarrow> nat option"
  w_next_vnode :: nat
  w_tx :: "transaction option"

text \<open>
  The environment: the bitmap library, its storage as bytes, the checksum, the file operations,
  the clock, the contents of uninitialized memory, the check of file names, and the parts of the file system object that
  never change after it was created.
\<close>

record ('b, 'r, 'f) libs =
  li_bitmap :: "'b raw_bitmap"
  li_ranges :: "'r range_bitmap"
  li_map_bytes :: "'b \<Rightarrow> bytes"
  li_map_load :: "nat \<Rightarrow> nat \<Rightarrow> bytes \<Rightarrow> 'b \<Rightarrow> 'b"
  li_crc :: "superblock \<Rightarrow> nat"
  li_posix :: "'f posix_file"
  li_now :: "'f \<Rightarrow> nat"
  li_garbage :: bytes
  li_valid_name :: "nat list \<Rightarrow> bool"
  li_bcache :: bcache
  li_block_storage :: persistent_storage
  li_inode_storage :: persistent_storage
  li_inode_start :: nat
  li_offsets :: block_offsets

type_synonym ('b, 'r, 'f, 'a) wact = "(('b, 'r, 'f) world, 'a) act"

definition Info :: "('b, 'r, 'f) world \<Rightarrow> superblock" where
  "Info w = sm_info (w_sm w)"

definition Minfs_BlockSize :: "('b, 'r, 'f) world \<Rightarrow> nat res" where
  "Minfs_BlockSize w = BlockSize (Info w)"

definition on_fd :: "('f, 'a) act \<Rightarrow> ('b, 'r, 'f, 'a) wact" where
  "on_fd m w = (case m (w_fd w) of None \<Rightarrow> None | Some (r, f) \<Rightarrow> Some (r, w\<lparr>w_fd := f\<rparr>))"

definition w_Readblk :: "('b, 'r, 'f) libs \<Rightarrow> nat \<Rightarrow> ('b, 'r, 'f, bytes) wact" where
  "w_Readblk L bno = on_fd (Readblk (li_posix L) (li_bcache L) bno)"

definition w_Writeblk :: "('b, 'r, 'f) libs \<Rightarrow> nat \<Rightarrow> bytes \<Rightarrow> ('b, 'r, 'f, unit) wact" where
  "w_Writeblk L bno data = on_fd (Writeblk (li_posix L) (li_bcache L) bno data)"

text \<open>The memory behind the buffers of the operations.\<close>

definition buffer_load :: "('b, 'r, 'f) libs \<Rightarrow> buffer_id \<Rightarrow> nat \<Rightarrow> ('b, 'r, 'f) world \<Rightarrow> bytes" where
  "buffer_load L buf off w =
    (case buf of
       SuperblockBuf \<Rightarrow> (\<lambda>i. superblock_bytes (Info w) (off + i))
     | BlockMapBuf \<Rightarrow> (\<lambda>i. li_map_bytes L (al_map (w_blocks w)) (off + i))
     | InodeMapBuf \<Rightarrow> (\<lambda>i. li_map_bytes L (al_map (w_inodes w)) (off + i))
     | _ \<Rightarrow> li_garbage L)"

definition buffer_store ::
  "('b, 'r, 'f) libs \<Rightarrow> buffer_id \<Rightarrow> nat \<Rightarrow> nat \<Rightarrow> bytes \<Rightarrow> ('b, 'r, 'f) world \<Rightarrow> ('b, 'r, 'f) world" where
  "buffer_store L buf off n data w =
    (case buf of
       BlockMapBuf \<Rightarrow> w\<lparr>w_blocks := (w_blocks w)\<lparr>al_map := li_map_load L off n data (al_map (w_blocks w))\<rparr>\<rparr>
     | InodeMapBuf \<Rightarrow> w\<lparr>w_inodes := (w_inodes w)\<lparr>al_map := li_map_load L off n data (al_map (w_inodes w))\<rparr>\<rparr>
     | _ \<Rightarrow> w)"

definition w_RunRequests :: "('b, 'r, 'f) libs \<Rightarrow> queued list \<Rightarrow> ('b, 'r, 'f, unit) wact" where
  "w_RunRequests L ops w =
    (case RunRequests (li_posix L) (buffer_load L) (buffer_store L) ops (w_fd w, w) of
       None \<Rightarrow> None | Some (r, f, w) \<Rightarrow> Some (r, w\<lparr>w_fd := f\<rparr>))"

section \<open>The allocators in the file system\<close>

text \<open>One of the two allocators with its storage and its reservation in the transaction.\<close>

record ('b, 'r, 'f) pool =
  pl_get :: "('b, 'r, 'f) world \<Rightarrow> ('b, 'r) allocator"
  pl_put :: "('b, 'r) allocator \<Rightarrow> ('b, 'r, 'f) world \<Rightarrow> ('b, 'r, 'f) world"
  pl_storage :: persistent_storage
  pl_reservation :: "transaction \<Rightarrow> reservation option"
  pl_set_reservation :: "reservation \<Rightarrow> transaction \<Rightarrow> transaction"

definition block_pool :: "('b, 'r, 'f) libs \<Rightarrow> ('b, 'r, 'f) pool" where
  "block_pool L =
    \<lparr>pl_get = w_blocks, pl_put = (\<lambda>al w. w\<lparr>w_blocks := al\<rparr>), pl_storage = li_block_storage L,
     pl_reservation = tx_block_reservation,
     pl_set_reservation = (\<lambda>rs t. t\<lparr>tx_block_reservation := Some rs\<rparr>)\<rparr>"

definition inode_pool :: "('b, 'r, 'f) libs \<Rightarrow> ('b, 'r, 'f) pool" where
  "inode_pool L =
    \<lparr>pl_get = w_inodes, pl_put = (\<lambda>al w. w\<lparr>w_inodes := al\<rparr>), pl_storage = li_inode_storage L,
     pl_reservation = (\<lambda>t. Some (tx_inode_reservation t)),
     pl_set_reservation = (\<lambda>rs t. t\<lparr>tx_inode_reservation := rs\<rparr>)\<rparr>"

text \<open>The host cannot extend its storage, and counts what is available without pending changes.\<close>

definition pool_reserve :: "('b, 'r, 'f) pool \<Rightarrow> nat \<Rightarrow> ('b, 'r, 'f) world \<Rightarrow> unit res \<times> ('b, 'r, 'f) world" where
  "pool_reserve P n w =
    (let (r, al, w) = Allocator_Reserve
           (\<lambda>(al, w). host_GetAvailableLocked (PoolAvailable (st_metadata (pl_storage P)) (w_sm w)) al)
           (\<lambda>(al, w). (host_Extend, al, w)) n (pl_get P w, w)
     in (r, pl_put P al w))"

text \<open>An operation on a reservation of the running transaction.\<close>

definition on_reservation ::
  "('b, 'r, 'f) pool \<Rightarrow> (reservation \<times> ('b, 'r, 'f) world \<Rightarrow> ('a res \<times> reservation \<times> ('b, 'r, 'f) world) option)
    \<Rightarrow> ('b, 'r, 'f, 'a) wact" where
  "on_reservation P f w =
    (case w_tx w of
       None \<Rightarrow> Some (Panic, w)
     | Some t \<Rightarrow>
         (case pl_reservation P t of
            None \<Rightarrow> Some (Panic, w)
          | Some rs \<Rightarrow>
              (case f (rs, w) of
                 None \<Rightarrow> None
               | Some (r, rs, w) \<Rightarrow> Some (r, w\<lparr>w_tx := map_option (pl_set_reservation P rs) (w_tx w)\<rparr>))))"

definition tx_reserve :: "('b, 'r, 'f) pool \<Rightarrow> nat \<Rightarrow> ('b, 'r, 'f, unit) wact" where
  "tx_reserve P n = on_reservation P (\<lambda>s. Some (Reservation_Reserve (pool_reserve P) n s))"

definition tx_extend :: "('b, 'r, 'f) pool \<Rightarrow> nat \<Rightarrow> ('b, 'r, 'f, unit) wact" where
  "tx_extend P n = on_reservation P (\<lambda>s. Some (ExtendReservation (pool_reserve P) n s))"

text \<open>\<open>AllocateBlock\<close>, \<open>AllocateInode\<close> and \<open>DeallocateBlock\<close> of the transaction, and \<open>InodeManager::Free\<close>.\<close>

definition tx_allocate :: "('b, 'r, 'f) libs \<Rightarrow> ('b, 'r, 'f) pool \<Rightarrow> ('b, 'r, 'f, nat) wact" where
  "tx_allocate L P = on_reservation P (\<lambda>(rs, w).
    case Reservation_Allocate (li_bitmap L) (li_ranges L) (pl_get P w, rs) of
      None \<Rightarrow> None
    | Some (Ok (i, al, rs)) \<Rightarrow> Some (Ok i, rs, pl_put P al w)
    | Some (Err e) \<Rightarrow> Some (Err e, rs, w)
    | Some Panic \<Rightarrow> Some (Panic, rs, w))"

definition tx_free :: "('b, 'r, 'f) libs \<Rightarrow> ('b, 'r, 'f) pool \<Rightarrow> nat \<Rightarrow> ('b, 'r, 'f, unit) wact" where
  "tx_free L P i = on_reservation P (\<lambda>(rs, w).
    case Allocator_Free (li_ranges L) i (pl_get P w, rs) of
      Ok (al, rs) \<Rightarrow> Some (Ok (), rs, pl_put P al w)
    | Err e \<Rightarrow> Some (Err e, rs, w)
    | Panic \<Rightarrow> Some (Panic, rs, w))"

definition AllocateBlock :: "('b, 'r, 'f) libs \<Rightarrow> ('b, 'r, 'f, nat) wact" where
  "AllocateBlock L = tx_allocate L (block_pool L)"

definition DeallocateBlock :: "('b, 'r, 'f) libs \<Rightarrow> nat \<Rightarrow> ('b, 'r, 'f, unit) wact" where
  "DeallocateBlock L block = tx_free L (block_pool L) block"

definition AllocateInode :: "('b, 'r, 'f) libs \<Rightarrow> ('b, 'r, 'f, nat) wact" where
  "AllocateInode L = tx_allocate L (inode_pool L)"

definition InodeManager_Free :: "('b, 'r, 'f) libs \<Rightarrow> nat \<Rightarrow> ('b, 'r, 'f, unit) wact" where
  "InodeManager_Free L i = tx_free L (inode_pool L) i"

definition ExtendBlockReservation :: "('b, 'r, 'f) libs \<Rightarrow> nat \<Rightarrow> ('b, 'r, 'f, unit) wact" where
  "ExtendBlockReservation L n = tx_extend (block_pool L) n"

section \<open>Transactions\<close>

text \<open>The constructor, without or with the reservation of a cached transaction, and the
  destructor, which cancels and then destroys the members.\<close>

definition new_transaction :: "reservation option \<Rightarrow> transaction" where
  "new_transaction cached =
    \<lparr>tx_inode_reservation = empty_reservation,
     tx_block_reservation = Some (case cached of None \<Rightarrow> empty_reservation | Some rs \<Rightarrow> rs),
     tx_operations = []\<rparr>"

definition Transaction_Destroy :: "('b, 'r, 'f) libs \<Rightarrow> ('b, 'r, 'f, unit) wact" where
  "Transaction_Destroy L = modify (\<lambda>w.
    case w_tx w of
      None \<Rightarrow> w
    | Some t \<Rightarrow>
        let (al, irs) = Reservation_Cancel (w_inodes w, tx_inode_reservation t);
            w = w\<lparr>w_inodes := al\<rparr>;
            w = (case tx_block_reservation t of
                   None \<Rightarrow> w
                 | Some rs \<Rightarrow> w\<lparr>w_blocks := Reservation_Destroy (li_ranges L) (w_blocks w, rs)\<rparr>);
            w = w\<lparr>w_inodes := Reservation_Destroy (li_ranges L) (w_inodes w, irs)\<rparr>
        in w\<lparr>w_tx := None\<rparr>)"

text \<open>A failed reservation destroys the new transaction.\<close>

definition or_destroy :: "('b, 'r, 'f) libs \<Rightarrow> ('b, 'r, 'f, 'a) wact \<Rightarrow> ('b, 'r, 'f, 'a) wact" where
  "or_destroy L m = try_act m (\<lambda>r. case r of
      Ok x \<Rightarrow> ret x
    | Err e \<Rightarrow> abind (Transaction_Destroy L) (\<lambda>_. fail e)
    | Panic \<Rightarrow> abort)"

definition Transaction_Create :: "('b, 'r, 'f) libs \<Rightarrow> nat \<Rightarrow> nat \<Rightarrow> ('b, 'r, 'f, unit) wact" where
  "Transaction_Create L reserve_inodes reserve_blocks =
    abind (modify (\<lambda>w. w\<lparr>w_tx := Some (new_transaction None)\<rparr>)) (\<lambda>_.
    abind (if reserve_inodes \<noteq> 0 then or_destroy L (tx_reserve (inode_pool L) reserve_inodes)
           else ret ()) (\<lambda>_.
    if reserve_blocks \<noteq> 0 then or_destroy L (tx_extend (block_pool L) reserve_blocks) else ret ()))"

definition FromCachedBlockTransaction :: "reservation \<Rightarrow> ('b, 'r, 'f, unit) wact" where
  "FromCachedBlockTransaction cached = modify (\<lambda>w. w\<lparr>w_tx := Some (new_transaction (Some cached))\<rparr>)"

text \<open>\<open>TakeBlockReservations\<close> of a cached transaction and of a transaction, which keeps nothing.\<close>

definition TakeBlockReservations :: "('b, 'r, 'f, reservation option) wact" where
  "TakeBlockReservations w =
    (case w_tx w of
       None \<Rightarrow> Some (Panic, w)
     | Some t \<Rightarrow>
         if rs_reserved (tx_inode_reservation t) \<noteq> 0 then Some (Panic, w)
         else Some (Ok (tx_block_reservation t), w\<lparr>w_tx := Some (t\<lparr>tx_block_reservation := None\<rparr>)\<rparr>))"

definition Transaction_EnqueueMetadata :: "queued \<Rightarrow> ('b, 'r, 'f, unit) wact" where
  "Transaction_EnqueueMetadata q = modify (\<lambda>w. w\<lparr>w_tx := map_option
     (\<lambda>t. t\<lparr>tx_operations := pw_enqueue_metadata list_work q (tx_operations t)\<rparr>) (w_tx w)\<rparr>)"

definition Transaction_EnqueueData :: "queued \<Rightarrow> ('b, 'r, 'f, unit) wact" where
  "Transaction_EnqueueData q = modify (\<lambda>w. w\<lparr>w_tx := map_option
     (\<lambda>t. t\<lparr>tx_operations := pw_enqueue_data list_work q (tx_operations t)\<rparr>) (w_tx w)\<rparr>)"

definition BeginTransaction :: "('b, 'r, 'f) libs \<Rightarrow> nat \<Rightarrow> nat \<Rightarrow> ('b, 'r, 'f, unit) wact" where
  "BeginTransaction L reserve_inodes reserve_blocks = Transaction_Create L reserve_inodes reserve_blocks"

definition ContinueTransaction ::
  "('b, 'r, 'f) libs \<Rightarrow> nat \<Rightarrow> reservation \<Rightarrow> ('b, 'r, 'f, unit) wact" where
  "ContinueTransaction L reserve_blocks cached =
    abind (FromCachedBlockTransaction cached) (\<lambda>_. ExtendBlockReservation L reserve_blocks)"

text \<open>\<open>Reservation_Commit\<close> on the running transaction; the operations of its bitmap join the list.\<close>

definition tx_commit :: "('b, 'r, 'f) libs \<Rightarrow> ('b, 'r, 'f) pool \<Rightarrow> ('b, 'r, 'f, unit) wact" where
  "tx_commit L P w =
    (case w_tx w of
       None \<Rightarrow> Some (Panic, w)
     | Some t \<Rightarrow>
         (case pl_reservation P t of
            None \<Rightarrow> Some (Panic, w)
          | Some rs \<Rightarrow>
              (case Reservation_Commit (li_bitmap L) (li_ranges L) (pl_storage P)
                      (pw_enqueue_metadata list_work) (pl_get P w, rs, w_sm w, tx_operations t) of
                 Ok (al, rs, sm, ops) \<Rightarrow>
                   Some (Ok (), (pl_put P al w)\<lparr>w_sm := sm,
                     w_tx := Some (pl_set_reservation P rs (t\<lparr>tx_operations := ops\<rparr>))\<rparr>)
               | Err e \<Rightarrow> Some (Err e, w)
               | Panic \<Rightarrow> Some (Panic, w))))"

definition sb_Write :: "('b, 'r, 'f) libs \<Rightarrow> bool \<Rightarrow> ('b, 'r, 'f, unit) wact" where
  "sb_Write L update_backup w =
    (case w_tx w of
       None \<Rightarrow> Some (Panic, w)
     | Some t \<Rightarrow>
         let (sm, ops) = SuperblockManager_Write (li_crc L) (pw_enqueue_metadata list_work)
               update_backup (w_sm w, tx_operations t)
         in Some (Ok (), w\<lparr>w_sm := sm, w_tx := Some (t\<lparr>tx_operations := ops\<rparr>)\<rparr>))"

text \<open>The status of the requests is dropped; the transaction is destroyed at the end.\<close>

definition CommitTransaction :: "('b, 'r, 'f) libs \<Rightarrow> ('b, 'r, 'f, unit) wact" where
  "CommitTransaction L =
    abind (tx_commit L (inode_pool L)) (\<lambda>_.
    abind (tx_commit L (block_pool L)) (\<lambda>_.
    abind (gets (\<lambda>w. sm_dirty (w_sm w))) (\<lambda>dirty.
    abind (if dirty then sb_Write L False else ret ()) (\<lambda>_.
    abind (gets (\<lambda>w. case w_tx w of None \<Rightarrow> [] | Some t \<Rightarrow> tx_operations t)) (\<lambda>ops.
    try_act (w_RunRequests L ops) (\<lambda>_. Transaction_Destroy L))))))"

section \<open>Blocks, flags and inodes\<close>

definition BlockNew :: "('b, 'r, 'f) libs \<Rightarrow> ('b, 'r, 'f, nat) wact" where
  "BlockNew L = abind (AllocateBlock L) (\<lambda>i. ret (u32 i))"

definition UpdateFlags :: "('b, 'r, 'f) libs \<Rightarrow> nat \<Rightarrow> bool \<Rightarrow> ('b, 'r, 'f, unit) wact" where
  "UpdateFlags L fl set_it =
    abind (modify (\<lambda>w. w\<lparr>w_sm := MutableInfo (\<lambda>s. s\<lparr>flags :=
             (if set_it then flags s OR fl else flags s AND (4294967295 - fl))\<rparr>) (w_sm w)\<rparr>)) (\<lambda>_.
    sb_Write L True)"

text \<open>The inode table on the host: a block is read, changed and written; failures are ignored, and
  a failed read leaves the buffer uninitialized.\<close>

definition InodeManager_Update ::
  "('b, 'r, 'f) libs \<Rightarrow> nat \<Rightarrow> inode \<Rightarrow> ('b, 'r, 'f, unit) wact" where
  "InodeManager_Update L ino inode =
    (let off_of_ino = (ino mod kMinfsInodesPerBlock) * kMinfsInodeSize;
         inoblock_abs = u32 (ino div kMinfsInodesPerBlock + li_inode_start L)
     in try_act (w_Readblk L inoblock_abs) (\<lambda>r.
        let inodata = (case r of Ok data \<Rightarrow> data | _ \<Rightarrow> li_garbage L)
        in try_act (w_Writeblk L inoblock_abs (store_inode off_of_ino inode inodata)) (\<lambda>_. ret ())))"

definition InodeManager_Load :: "('b, 'r, 'f) libs \<Rightarrow> nat \<Rightarrow> ('b, 'r, 'f, inode) wact" where
  "InodeManager_Load L ino =
    (let off_of_ino = (ino mod kMinfsInodesPerBlock) * kMinfsInodeSize
     in try_act (w_Readblk L (u32 (li_inode_start L + ino div kMinfsInodesPerBlock))) (\<lambda>r.
        ret (load_inode (case r of Ok data \<Rightarrow> data | _ \<Rightarrow> li_garbage L) off_of_ino)))"

definition InodeManager_Grow :: "nat \<Rightarrow> unit res" where
  "InodeManager_Grow inodes = Err ZX_ERR_NO_SPACE"

definition InodeUpdate :: "('b, 'r, 'f) libs \<Rightarrow> nat \<Rightarrow> inode \<Rightarrow> ('b, 'r, 'f, unit) wact" where
  "InodeUpdate L ino inode = InodeManager_Update L ino inode"

definition InodeLoad :: "('b, 'r, 'f) libs \<Rightarrow> nat \<Rightarrow> ('b, 'r, 'f, inode) wact" where
  "InodeLoad L ino = InodeManager_Load L ino"

definition InoNew :: "('b, 'r, 'f) libs \<Rightarrow> inode \<Rightarrow> ('b, 'r, 'f, nat) wact" where
  "InoNew L inode =
    abind (AllocateInode L) (\<lambda>i.
    abind (InodeUpdate L (u32 i) inode) (\<lambda>_. ret (u32 i)))"

text \<open>One block of a section: zeros past the part that the sparse file holds.\<close>

definition ReadBlk ::
  "('b, 'r, 'f) libs \<Rightarrow> nat \<Rightarrow> nat \<Rightarrow> nat \<Rightarrow> nat \<Rightarrow> ('b, 'r, 'f, bytes) wact" where
  "ReadBlk L bno start soft_max hard_max =
    (if bno \<ge> hard_max then fail ZX_ERR_OUT_OF_RANGE
     else if bno \<ge> soft_max then ret zero_bytes
     else w_Readblk L (u32 (start + bno)))"

definition ReadDat :: "('b, 'r, 'f) libs \<Rightarrow> nat \<Rightarrow> ('b, 'r, 'f, bytes) wact" where
  "ReadDat L bno =
    abind (gets (\<lambda>w. block_count (Info w))) (\<lambda>hard_max.
    ReadBlk L bno (bo_dat_start (li_offsets L)) (bo_dat_count (li_offsets L)) hard_max)"

definition Minfs_ReadBlock :: "('b, 'r, 'f) libs \<Rightarrow> nat \<Rightarrow> ('b, 'r, 'f, bytes) wact" where
  "Minfs_ReadBlock L n = w_Readblk L n"

end
