(* ===== verification/Vnode.thy ===== *)
theory Vnode
  imports World
begin

text \<open>
  \<open>VnodeMinfs\<close> of \<open>vnode.h\<close> and \<open>vnode.cc\<close> in the host build, with the vnode table, the list of
  unlinked inodes and the release of inodes of \<open>minfs.cc\<close>. A vnode stays in memory until
  \<open>RecycleNode\<close>, which its last reference runs. Operations take the address of the vnode; they
  abort on an address without one.
\<close>

section \<open>Vnodes in memory\<close>

definition get_vnode :: "nat \<Rightarrow> ('b, 'r, 'f, 'r vnode) wact" where
  "get_vnode v w = (case w_vnodes w v of None \<Rightarrow> Some (Panic, w) | Some vn \<Rightarrow> Some (Ok vn, w))"

definition put_vnode :: "nat \<Rightarrow> 'r vnode \<Rightarrow> ('b, 'r, 'f) world \<Rightarrow> ('b, 'r, 'f) world" where
  "put_vnode v vn w = w\<lparr>w_vnodes := (w_vnodes w)(v \<mapsto> vn)\<rparr>"

definition on_inode :: "nat \<Rightarrow> (inode \<Rightarrow> inode) \<Rightarrow> ('b, 'r, 'f, unit) wact" where
  "on_inode v f =
    abind (get_vnode v) (\<lambda>vn. modify (put_vnode v (vn\<lparr>vn_inode := f (vn_inode vn)\<rparr>)))"

definition get_inode :: "nat \<Rightarrow> ('b, 'r, 'f, inode) wact" where
  "get_inode v = abind (get_vnode v) (\<lambda>vn. ret (vn_inode vn))"

definition IsUnlinked :: "'r vnode \<Rightarrow> bool" where
  "IsUnlinked vn \<longleftrightarrow> i_link_count (vn_inode vn) = 0"

definition SetIno :: "nat \<Rightarrow> nat \<Rightarrow> ('b, 'r, 'f, unit) wact" where
  "SetIno v ino = abind (get_vnode v) (\<lambda>vn. modify (put_vnode v (vn\<lparr>vn_ino := ino\<rparr>)))"

definition SetNextInode :: "nat \<Rightarrow> nat \<Rightarrow> ('b, 'r, 'f, unit) wact" where
  "SetNextInode v ino = on_inode v (\<lambda>i. i\<lparr>i_next_inode := ino\<rparr>)"

definition SetLastInode :: "nat \<Rightarrow> nat \<Rightarrow> ('b, 'r, 'f, unit) wact" where
  "SetLastInode v ino = on_inode v (\<lambda>i. i\<lparr>i_last_inode := ino\<rparr>)"

definition MarkPurged :: "nat \<Rightarrow> ('b, 'r, 'f, unit) wact" where
  "MarkPurged v = on_inode v (\<lambda>i. i\<lparr>i_magic := kMinfsMagicPurged\<rparr>)"

definition AddLink :: "nat \<Rightarrow> ('b, 'r, 'f, unit) wact" where
  "AddLink v =
    abind (get_inode v) (\<lambda>i.
    abind (assert_act (i_link_count i + 1 < 4294967296)) (\<lambda>_.
    on_inode v (\<lambda>i. i\<lparr>i_link_count := i_link_count i + 1\<rparr>)))"

definition kMxFsSyncDefault :: nat where "kMxFsSyncDefault = 0"
definition kMxFsSyncMtime :: nat where "kMxFsSyncMtime = 1"
definition kMxFsSyncCtime :: nat where "kMxFsSyncCtime = 2"

definition GetTimeUTC :: "('b, 'r, 'f) libs \<Rightarrow> ('b, 'r, 'f, nat) wact" where
  "GetTimeUTC L = gets (\<lambda>w. li_now L (w_fd w))"

definition InodeSync :: "('b, 'r, 'f) libs \<Rightarrow> nat \<Rightarrow> nat \<Rightarrow> ('b, 'r, 'f, unit) wact" where
  "InodeSync L v fl =
    abind (if fl \<noteq> kMxFsSyncDefault
           then abind (GetTimeUTC L) (\<lambda>cur_time.
                abind (if (fl AND kMxFsSyncMtime) \<noteq> 0
                       then on_inode v (\<lambda>i. i\<lparr>i_modify_time := cur_time\<rparr>) else ret ()) (\<lambda>_.
                if (fl AND kMxFsSyncCtime) \<noteq> 0
                then on_inode v (\<lambda>i. i\<lparr>i_create_time := cur_time\<rparr>) else ret ()))
           else ret ()) (\<lambda>_.
    abind (get_vnode v) (\<lambda>vn. InodeUpdate L (vn_ino vn) (vn_inode vn)))"

section \<open>Virtual functions of files and directories\<close>

definition GetSize :: "nat \<Rightarrow> ('b, 'r, 'f, nat) wact" where
  "GetSize v = abind (get_inode v) (\<lambda>i. ret (i_size i))"

definition GetBlockCount :: "nat \<Rightarrow> ('b, 'r, 'f, nat) wact" where
  "GetBlockCount v = abind (get_inode v) (\<lambda>i. ret (i_block_count i))"

definition SetSize :: "nat \<Rightarrow> nat \<Rightarrow> ('b, 'r, 'f, unit) wact" where
  "SetSize v new_size = on_inode v (\<lambda>i. i\<lparr>i_size := new_size\<rparr>)"

type_synonym ('b, 'r, 'f, 'a) mact = "('r, ('b, 'r, 'f) world, 'a) vact"
type_synonym ('b, 'r, 'f) menv = "('r, ('b, 'r, 'f) world) vnode_env"

definition add_blocks :: "int \<Rightarrow> ('b, 'r, 'f, unit) mact" where
  "add_blocks n = modify (\<lambda>s. s\<lparr>vs_inode := (vs_inode s)
     \<lparr>i_block_count := nat ((int (i_block_count (vs_inode s)) + n) mod 4294967296)\<rparr>\<rparr>)"

definition File_AcquireWritableBlock ::
  "('b, 'r, 'f) libs \<Rightarrow> nat \<Rightarrow> nat \<Rightarrow> ('b, 'r, 'f, nat) mact" where
  "File_AcquireWritableBlock L local_bno old_bno =
    (if old_bno = 0
     then abind (on_rest (BlockNew L)) (\<lambda>bno. abind (add_blocks 1) (\<lambda>_. ret bno))
     else ret old_bno)"

definition File_DeleteBlock ::
  "('b, 'r, 'f) libs \<Rightarrow> nat \<Rightarrow> nat \<Rightarrow> bool \<Rightarrow> ('b, 'r, 'f, unit) mact" where
  "File_DeleteBlock L local_bno old_bno indirect =
    (if old_bno \<noteq> 0
     then abind (on_rest (DeallocateBlock L old_bno)) (\<lambda>_. add_blocks (-1))
     else ret ())"

text \<open>A directory leaves the block that the caller passed in when there is one.\<close>

definition Directory_AcquireWritableBlock ::
  "('b, 'r, 'f) libs \<Rightarrow> nat \<Rightarrow> nat \<Rightarrow> ('b, 'r, 'f, nat) mact" where
  "Directory_AcquireWritableBlock L local_bno old_bno =
    (if old_bno = 0
     then abind (on_rest (BlockNew L)) (\<lambda>bno. abind (add_blocks 1) (\<lambda>_. ret bno))
     else ret old_bno)"

definition Directory_DeleteBlock ::
  "('b, 'r, 'f) libs \<Rightarrow> nat \<Rightarrow> nat \<Rightarrow> bool \<Rightarrow> ('b, 'r, 'f, unit) mact" where
  "Directory_DeleteBlock L local_bno old_bno indirect =
    (if old_bno \<noteq> 0
     then abind (on_rest (DeallocateBlock L old_bno)) (\<lambda>_. add_blocks (-1))
     else ret ())"

definition AcquireWritableBlock ::
  "('b, 'r, 'f) libs \<Rightarrow> bool \<Rightarrow> nat \<Rightarrow> nat \<Rightarrow> ('b, 'r, 'f, nat) mact" where
  "AcquireWritableBlock L directory =
    (if directory then Directory_AcquireWritableBlock L else File_AcquireWritableBlock L)"

definition DeleteBlock ::
  "('b, 'r, 'f) libs \<Rightarrow> bool \<Rightarrow> nat \<Rightarrow> nat \<Rightarrow> bool \<Rightarrow> ('b, 'r, 'f, unit) mact" where
  "DeleteBlock L directory =
    (if directory then Directory_DeleteBlock L else File_DeleteBlock L)"

section \<open>The mapper of a vnode\<close>

text \<open>A block of pointers as bytes, and reads of blocks as pointers.\<close>

definition pointer_bytes :: "(nat \<Rightarrow> nat) \<Rightarrow> bytes" where
  "pointer_bytes p = (\<lambda>i. p (i div 4) div 256 ^ (i mod 4) mod 256)"

definition read_pointers ::
  "('b, 'r, 'f) libs \<Rightarrow> nat \<Rightarrow> nat \<Rightarrow> (('b, 'r, 'f) world, nat \<Rightarrow> nat) act" where
  "read_pointers L dev n w =
    (case RunRequests (li_posix L) (\<lambda>_ _ _. zero_bytes) (\<lambda>_ _ _ data _. data)
            [(read_op 0 dev n, ())] (w_fd w, zero_bytes) of
       None \<Rightarrow> None
     | Some (Ok _, f, data) \<Rightarrow> Some (Ok (\<lambda>i. get_u32 data (4 * i)), w\<lparr>w_fd := f\<rparr>)
     | Some (Err e, f, data) \<Rightarrow> Some (Err e, w\<lparr>w_fd := f\<rparr>)
     | Some (Panic, f, data) \<Rightarrow> Some (Panic, w\<lparr>w_fd := f\<rparr>))"

definition vnode_mapper :: "('b, 'r, 'f) libs \<Rightarrow> nat \<Rightarrow> bool \<Rightarrow> ('b, 'r, 'f) menv" where
  "vnode_mapper L ino directory =
    \<lparr>ve_ranges = li_ranges L,
     ve_dat_block = (\<lambda>w. dat_block (Info w)),
     ve_read = read_pointers L,
     ve_writer = host_indirect_writer (\<lambda>bno p. w_Writeblk L bno (pointer_bytes p)),
     ve_block_new = BlockNew L,
     ve_delete_block = DeleteBlock L directory,
     ve_inode_sync = (\<lambda>s. on_rest (InodeUpdate L ino (vs_inode s)) s)\<rparr>"

definition on_mapper ::
  "('b, 'r, 'f) libs \<Rightarrow> nat \<Rightarrow> (('b, 'r, 'f) menv \<Rightarrow> ('b, 'r, 'f, 'a) mact) \<Rightarrow> ('b, 'r, 'f, 'a) wact" where
  "on_mapper L v m w =
    (case w_vnodes w v of
       None \<Rightarrow> Some (Panic, w)
     | Some vn \<Rightarrow>
         (case m (vnode_mapper L (vn_ino vn) (vn_directory vn))
                 \<lparr>vs_inode = vn_inode vn, vs_file = vn_indirect vn, vs_rest = w\<rparr> of
            None \<Rightarrow> None
          | Some (r, s) \<Rightarrow>
              Some (r, put_vnode v (vn\<lparr>vn_inode := vs_inode s, vn_indirect := vs_file s\<rparr>) (vs_rest s))))"

section \<open>Blocks of a file\<close>

partial_function (option) blocks_shrink_loop ::
  "('r, 't, 'z) vnode_env_scheme \<Rightarrow> nat \<Rightarrow> ('r, 't, unit) iact" where
  "blocks_shrink_loop E cnt st =
    (if 0 < cnt
     then abind it_Blk (\<lambda>blk.
          abind (if blk = 0 then GetContiguousBlockCount cnt
                 else abind (gets (\<lambda>(s, it). it_file_block it)) (\<lambda>file_block.
                      abind (on_vnode (ve_delete_block E (u32 file_block) blk False)) (\<lambda>_.
                      abind (iter_SetBlk E 0 0) (\<lambda>_. ret 1)))) (\<lambda>n.
          abind (Iterator_Advance E n) (\<lambda>_. blocks_shrink_loop E (u64_sub cnt n)))) st
     else Some (Ok (), st))"

definition shrunk_pointers :: "nat \<Rightarrow> nat" where
  "shrunk_pointers start =
    (if start \<le> kIndirectFileStartBlock then 0
     else if start \<le> kDoubleIndirectFileStartBlock then start - kIndirectFileStartBlock
     else (start - kDoubleIndirectFileStartBlock)
          + (kMinfsIndirect + kMinfsDoublyIndirect) * kMinfsDirectPerIndirect)"

definition mapper_BlocksShrink :: "('r, 't, 'z) vnode_env_scheme \<Rightarrow> nat \<Rightarrow> ('r, 't, unit) vact" where
  "mapper_BlocksShrink E start =
    with_iterator
      (abind (Iterator_Init E True start) (\<lambda>_.
       abind (blocks_shrink_loop E (u64_sub kMaxBlocks start)) (\<lambda>_.
       abind (Iterator_Flush E) (\<lambda>_.
       on_vnode (modify (\<lambda>s. s\<lparr>vs_file := map_option
         (LazyBuffer_Shrink (ve_ranges E)
            (round_up (shrunk_pointers start * 4) kMinfsBlockSize div kMinfsBlockSize)) (vs_file s)\<rparr>))))))"

definition BlocksShrink :: "('b, 'r, 'f) libs \<Rightarrow> nat \<Rightarrow> nat \<Rightarrow> ('b, 'r, 'f, unit) wact" where
  "BlocksShrink L v start = on_mapper L v (\<lambda>E. mapper_BlocksShrink E start)"

text \<open>The block of a position, allocated when there is none.\<close>

definition mapper_BlockGetWritable ::
  "('r, 't, 'z) vnode_env_scheme \<Rightarrow> (nat \<Rightarrow> nat \<Rightarrow> ('r, 't, nat) vact) \<Rightarrow> nat \<Rightarrow> ('r, 't, nat) vact" where
  "mapper_BlockGetWritable E acquire n =
    with_iterator
      (abind (Iterator_Init E True n) (\<lambda>_.
       abind it_Blk (\<lambda>old_block.
       abind (on_vnode (acquire n old_block)) (\<lambda>block.
       abind it_Blk (\<lambda>blk.
       abind (if block \<noteq> blk then iter_SetBlk E 0 block else ret ()) (\<lambda>_.
       abind (Iterator_Flush E) (\<lambda>_. ret block)))))))"

definition BlockGetWritable :: "('b, 'r, 'f) libs \<Rightarrow> nat \<Rightarrow> nat \<Rightarrow> ('b, 'r, 'f, nat) wact" where
  "BlockGetWritable L v n =
    abind (get_vnode v) (\<lambda>vn.
    on_mapper L v (\<lambda>E. mapper_BlockGetWritable E (AcquireWritableBlock L (vn_directory vn)) n))"

definition BlockGetReadable :: "('b, 'r, 'f) libs \<Rightarrow> nat \<Rightarrow> nat \<Rightarrow> ('b, 'r, 'f, nat) wact" where
  "BlockGetReadable L v n = abind (on_mapper L v (\<lambda>E. MapToBlk E n (n + 1))) (\<lambda>(blk, _). ret blk)"

end
