(* ===== verification/Content.thy ===== *)
theory Content
  imports Vnode
begin

text \<open>
  The contents of a vnode in the host build: \<open>ReadInternal\<close>, \<open>WriteInternal\<close> and
  \<open>TruncateInternal\<close> of \<open>vnode.cc\<close> and the exact variants. Data are functions from byte offsets
  with an explicit length.
\<close>

section \<open>Reading\<close>

definition or_status :: "status \<Rightarrow> ('s, 'a) act \<Rightarrow> ('s, 'a) act" where
  "or_status e m = try_act m (\<lambda>r. case r of Ok x \<Rightarrow> ret x | _ \<Rightarrow> fail e)"

definition transfer_size :: "nat \<Rightarrow> nat \<Rightarrow> nat" where
  "transfer_size len adjust =
    (if len > kMinfsBlockSize - adjust then kMinfsBlockSize - adjust else len)"

partial_function (option) read_loop ::
  "('b, 'r, 'f) libs \<Rightarrow> nat \<Rightarrow> nat \<Rightarrow> nat \<Rightarrow> nat \<Rightarrow> nat \<Rightarrow> bytes \<Rightarrow> ('b, 'r, 'f, nat \<times> bytes) wact" where
  "read_loop L v n adjust len pos out w =
    (if 0 < len \<and> n < kMinfsMaxFileBlock
     then let xfer = transfer_size len adjust in
       abind (BlockGetReadable L v n) (\<lambda>bno.
       abind (if bno \<noteq> 0 then or_status ZX_ERR_IO (ReadDat L bno) else ret zero_bytes) (\<lambda>bdata.
       read_loop L v (u32 (n + 1)) 0 (len - xfer) (pos + xfer) (copy_bytes pos bdata adjust xfer out))) w
     else Some (Ok (pos, out), w))"

text \<open>The result is the number of bytes read and the buffer of the caller with the bytes in it.\<close>

definition ReadInternal ::
  "('b, 'r, 'f) libs \<Rightarrow> nat \<Rightarrow> bytes \<Rightarrow> nat \<Rightarrow> nat \<Rightarrow> ('b, 'r, 'f, nat \<times> bytes) wact" where
  "ReadInternal L v buf len off =
    abind (GetSize v) (\<lambda>size.
    if off \<ge> size then ret (0, buf)
    else read_loop L v (u32 (off div kMinfsBlockSize)) (off mod kMinfsBlockSize)
           (if len > size - off then size - off else len) 0 buf)"

definition ReadExactInternal ::
  "('b, 'r, 'f) libs \<Rightarrow> nat \<Rightarrow> bytes \<Rightarrow> nat \<Rightarrow> nat \<Rightarrow> ('b, 'r, 'f, bytes) wact" where
  "ReadExactInternal L v buf len off =
    abind (ReadInternal L v buf len off) (\<lambda>(actual, data).
    if actual \<noteq> len then fail ZX_ERR_IO else ret data)"

section \<open>Writing\<close>

text \<open>Zeros from an offset to the end of a block.\<close>

definition clear_tail :: "nat \<Rightarrow> bytes \<Rightarrow> bytes" where
  "clear_tail off data = copy_bytes off zero_bytes 0 (kMinfsBlockSize - off) data"

definition write_block ::
  "('b, 'r, 'f) libs \<Rightarrow> nat \<Rightarrow> bytes \<Rightarrow> nat \<Rightarrow> nat \<Rightarrow> nat \<Rightarrow> nat \<Rightarrow> nat \<Rightarrow> ('b, 'r, 'f, unit) wact" where
  "write_block L v data max_size n adjust len pos =
    (let xfer = transfer_size len adjust in
     abind (BlockGetWritable L v n) (\<lambda>bno.
     abind (gets (\<lambda>w. dat_block (Info w))) (\<lambda>dat.
     abind (w_Readblk L (u32 (bno + dat))) (\<lambda>wdata.
     abind (GetSize v) (\<lambda>size.
     let wdata = copy_bytes adjust data pos xfer wdata;
         wdata = (if len < kMinfsBlockSize \<and> max_size \<ge> size then clear_tail (adjust + xfer) wdata
                  else wdata)
     in w_Writeblk L (u32 (bno + dat)) wdata)))))"

text \<open>A failure in the middle ends the loop; the result is what was written until then.\<close>

partial_function (option) write_loop ::
  "('b, 'r, 'f) libs \<Rightarrow> nat \<Rightarrow> bytes \<Rightarrow> nat \<Rightarrow> nat \<Rightarrow> nat \<Rightarrow> nat \<Rightarrow> nat \<Rightarrow> ('b, 'r, 'f, nat) wact" where
  "write_loop L v data max_size n adjust len pos w =
    (if 0 < len then
       if n < kMinfsMaxFileBlock then
         try_act (write_block L v data max_size n adjust len pos) (\<lambda>r w.
           if r = Ok () then
             write_loop L v data max_size (u32 (n + 1)) 0 (len - transfer_size len adjust)
               (pos + transfer_size len adjust) w
           else Some (Ok pos, w)) w
       else Some (Panic, w)
     else Some (Ok pos, w))"

definition WriteInternal ::
  "('b, 'r, 'f) libs \<Rightarrow> nat \<Rightarrow> bytes \<Rightarrow> nat \<Rightarrow> nat \<Rightarrow> ('b, 'r, 'f, nat) wact" where
  "WriteInternal L v data len off =
    (if \<not> (len + off < 2 ^ 64 \<and> len + off \<le> kMinfsMaxFileSize) then abort
     else if len = 0 then ret 0
     else
       abind (write_loop L v data (off + len) (u32 (off div kMinfsBlockSize))
                (off mod kMinfsBlockSize) len 0) (\<lambda>written.
       if written = 0 then fail (if off \<ge> kMinfsMaxFileSize then ZX_ERR_FILE_BIG else ZX_ERR_NO_SPACE)
       else
         abind (GetSize v) (\<lambda>size.
         abind (if off + written > size then SetSize v (u32 (off + written)) else ret ()) (\<lambda>_.
         ret written))))"

definition WriteExactInternal ::
  "('b, 'r, 'f) libs \<Rightarrow> nat \<Rightarrow> bytes \<Rightarrow> nat \<Rightarrow> nat \<Rightarrow> ('b, 'r, 'f, unit) wact" where
  "WriteExactInternal L v data len off =
    abind (WriteInternal L v data len off) (\<lambda>actual.
    if actual \<noteq> len then fail ZX_ERR_IO else InodeSync L v kMxFsSyncMtime)"

section \<open>Truncation\<close>

text \<open>Zeros from the new end to the end of its block, if the block exists.\<close>

definition zero_last_block :: "('b, 'r, 'f) libs \<Rightarrow> nat \<Rightarrow> nat \<Rightarrow> ('b, 'r, 'f, unit) wact" where
  "zero_last_block L v len =
    abind (or_status ZX_ERR_IO (BlockGetReadable L v (u32 (len div kMinfsBlockSize)))) (\<lambda>bno.
    if bno \<noteq> 0 then
      abind (gets (\<lambda>w. dat_block (Info w))) (\<lambda>dat.
      abind (or_status ZX_ERR_IO (w_Readblk L (u32 (bno + dat)))) (\<lambda>bdata.
      or_status ZX_ERR_IO
        (w_Writeblk L (u32 (bno + dat)) (clear_tail (len mod kMinfsBlockSize) bdata))))
    else ret ())"

definition TruncateInternal :: "('b, 'r, 'f) libs \<Rightarrow> nat \<Rightarrow> nat \<Rightarrow> ('b, 'r, 'f, unit) wact" where
  "TruncateInternal L v len =
    (if \<not> len \<le> kMinfsMaxFileSize then abort
     else
       abind (GetSize v) (\<lambda>inode_size.
       if len < inode_size then
         let trunc_bno = u32 (len div kMinfsBlockSize);
             start_bno = (if len mod kMinfsBlockSize = 0 then trunc_bno else u32 (trunc_bno + 1))
         in abind (BlocksShrink L v start_bno) (\<lambda>_.
            abind (if start_bno * kMinfsBlockSize < inode_size
                   then SetSize v (u32 (start_bno * kMinfsBlockSize)) else ret ()) (\<lambda>_.
            abind (GetSize v) (\<lambda>size.
            abind (if len < size then zero_last_block L v len else ret ()) (\<lambda>_.
            SetSize v (u32 len)))))
       else if len > inode_size then SetSize v (u32 len)
       else ret ()))"

end
