(* ===== verification/Unlinked.thy ===== *)
theory Unlinked
  imports Content
begin

text \<open>
  The life of a vnode in the host build: the vnode table, allocation and loading, links, the
  doubly linked list of unlinked inodes, and the release of an inode with its blocks
  (\<open>minfs.cc\<close>, \<open>vnode.cc\<close>).
\<close>

section \<open>The vnode table\<close>

definition VnodeLookupInternal :: "nat \<Rightarrow> ('b, 'r, 'f) world \<Rightarrow> nat option" where
  "VnodeLookupInternal ino w = w_hash w ino"

text \<open>On the host an unlinked vnode is found too.\<close>

definition VnodeLookup :: "nat \<Rightarrow> ('b, 'r, 'f) world \<Rightarrow> nat option" where
  "VnodeLookup ino w = VnodeLookupInternal ino w"

definition VnodeInsert :: "nat \<Rightarrow> ('b, 'r, 'f, unit) wact" where
  "VnodeInsert v = abind (get_vnode v) (\<lambda>vn. modify (\<lambda>w. w\<lparr>w_hash := (w_hash w)(vn_ino vn \<mapsto> v)\<rparr>))"

text \<open>The table erases the object, not the key.\<close>

definition VnodeRelease :: "nat \<Rightarrow> ('b, 'r, 'f, unit) wact" where
  "VnodeRelease v =
    abind (get_vnode v) (\<lambda>vn. modify (\<lambda>w.
      if w_hash w (vn_ino vn) = Some v then w\<lparr>w_hash := (w_hash w)(vn_ino vn := None)\<rparr> else w))"

definition new_vnode :: "'r vnode \<Rightarrow> ('b, 'r, 'f, nat) wact" where
  "new_vnode vn w = Some (Ok (w_next_vnode w),
     (put_vnode (w_next_vnode w) vn w)\<lparr>w_next_vnode := w_next_vnode w + 1\<rparr>)"

definition fresh_vnode :: "bool \<Rightarrow> inode \<Rightarrow> 'r vnode" where
  "fresh_vnode directory i =
    \<lparr>vn_ino = 0, vn_inode = i, vn_indirect = None, vn_directory = directory, vn_open_count = 0\<rparr>"

definition Vnode_Allocate :: "('b, 'r, 'f) libs \<Rightarrow> nat \<Rightarrow> ('b, 'r, 'f, nat) wact" where
  "Vnode_Allocate L type =
    abind (GetTimeUTC L) (\<lambda>now.
    let i = zero_inode\<lparr>i_magic := MinfsMagic type, i_create_time := now, i_modify_time := now\<rparr>
    in new_vnode (fresh_vnode (type = kMinfsTypeDir)
         (if type = kMinfsTypeDir then i\<lparr>i_link_count := 2, i_dirent_count := 2\<rparr>
          else i\<lparr>i_link_count := 1\<rparr>)))"

definition Vnode_Recreate :: "('b, 'r, 'f) libs \<Rightarrow> nat \<Rightarrow> ('b, 'r, 'f, nat) wact" where
  "Vnode_Recreate L ino =
    abind (InodeLoad L ino) (\<lambda>i.
    abind (new_vnode (fresh_vnode (i_magic i = kMinfsMagicDir) i)) (\<lambda>v.
    abind (SetIno v ino) (\<lambda>_.
    abind (SetSize v (u32 (i_size i))) (\<lambda>_. ret v))))"

definition VnodeNew :: "('b, 'r, 'f) libs \<Rightarrow> nat \<Rightarrow> ('b, 'r, 'f, nat) wact" where
  "VnodeNew L type =
    (if type \<noteq> kMinfsTypeFile \<and> type \<noteq> kMinfsTypeDir then fail ZX_ERR_INVALID_ARGS
     else
       abind (Vnode_Allocate L type) (\<lambda>v.
       abind (get_inode v) (\<lambda>i.
       abind (InoNew L i) (\<lambda>ino.
       abind (SetIno v ino) (\<lambda>_.
       abind (VnodeInsert v) (\<lambda>_. ret v))))))"

definition VnodeGet :: "('b, 'r, 'f) libs \<Rightarrow> nat \<Rightarrow> ('b, 'r, 'f, nat) wact" where
  "VnodeGet L ino =
    abind (gets Info) (\<lambda>info.
    if ino < 1 \<or> ino \<ge> inode_count info then fail ZX_ERR_OUT_OF_RANGE
    else
      abind (gets (VnodeLookup ino)) (\<lambda>found. case found of
        Some v \<Rightarrow> ret v
      | None \<Rightarrow>
          abind (Vnode_Recreate L ino) (\<lambda>v.
          abind (get_vnode v) (\<lambda>vn.
          if IsUnlinked vn then fail ZX_ERR_BAD_STATE
          else abind (VnodeInsert v) (\<lambda>_. ret v)))))"

section \<open>Release\<close>

definition InoFree :: "('b, 'r, 'f) libs \<Rightarrow> nat \<Rightarrow> ('b, 'r, 'f, unit) wact" where
  "InoFree L v =
    abind (get_vnode v) (\<lambda>vn.
    abind (InodeManager_Free L (vn_ino vn)) (\<lambda>_.
    abind (BlocksShrink L v 0) (\<lambda>_.
    abind (MarkPurged v) (\<lambda>_.
    abind (get_vnode v) (\<lambda>vn. InodeUpdate L (vn_ino vn) (vn_inode vn))))))"

text \<open>The neighbours in the list are in the table; a missing one is a null pointer.\<close>

definition lookup_ref :: "nat \<Rightarrow> ('b, 'r, 'f, nat) wact" where
  "lookup_ref ino =
    abind (gets (VnodeLookupInternal ino)) (\<lambda>found. case found of None \<Rightarrow> abort | Some v \<Rightarrow> ret v)"

definition set_unlinked_head :: "nat \<Rightarrow> ('b, 'r, 'f, unit) wact" where
  "set_unlinked_head ino =
    modify (\<lambda>w. w\<lparr>w_sm := MutableInfo (\<lambda>s. s\<lparr>unlinked_head := ino\<rparr>) (w_sm w)\<rparr>)"

definition set_unlinked_tail :: "nat \<Rightarrow> ('b, 'r, 'f, unit) wact" where
  "set_unlinked_tail ino =
    modify (\<lambda>w. w\<lparr>w_sm := MutableInfo (\<lambda>s. s\<lparr>unlinked_tail := ino\<rparr>) (w_sm w)\<rparr>)"

definition AddUnlinked :: "('b, 'r, 'f) libs \<Rightarrow> nat \<Rightarrow> ('b, 'r, 'f, unit) wact" where
  "AddUnlinked L v =
    abind (modify (\<lambda>w. w\<lparr>w_sm := MutableInfo (\<lambda>s. s) (w_sm w)\<rparr>)) (\<lambda>_.
    abind (get_vnode v) (\<lambda>vn.
    abind (gets Info) (\<lambda>info.
    if unlinked_tail info = 0 then
      abind (set_unlinked_head (vn_ino vn)) (\<lambda>_. set_unlinked_tail (vn_ino vn))
    else
      abind (lookup_ref (unlinked_tail info)) (\<lambda>last_vn.
      abind (SetNextInode last_vn (vn_ino vn)) (\<lambda>_.
      abind (get_vnode last_vn) (\<lambda>lvn.
      abind (SetLastInode v (vn_ino lvn)) (\<lambda>_.
      abind (set_unlinked_tail (vn_ino vn)) (\<lambda>_.
      abind (InodeSync L last_vn kMxFsSyncDefault) (\<lambda>_.
      InodeSync L v kMxFsSyncDefault)))))))))"

definition RemoveUnlinked :: "('b, 'r, 'f) libs \<Rightarrow> nat \<Rightarrow> ('b, 'r, 'f, unit) wact" where
  "RemoveUnlinked L v =
    abind (get_inode v) (\<lambda>i.
    abind (if i_last_inode i = 0 then set_unlinked_head (i_next_inode i)
           else
             abind (lookup_ref (i_last_inode i)) (\<lambda>last_vn.
             abind (SetNextInode last_vn (i_next_inode i)) (\<lambda>_.
             InodeSync L last_vn kMxFsSyncDefault))) (\<lambda>_.
    abind (get_inode v) (\<lambda>i.
    if i_next_inode i = 0 then set_unlinked_tail (i_last_inode i)
    else
      abind (lookup_ref (i_next_inode i)) (\<lambda>next_vn.
      abind (SetLastInode next_vn (i_last_inode i)) (\<lambda>_.
      InodeSync L next_vn kMxFsSyncDefault)))))"

text \<open>The public operations run in a transaction of their own: what leaves the scope destroys it.\<close>

definition scoped :: "('b, 'r, 'f) libs \<Rightarrow> ('b, 'r, 'f, 'a) wact \<Rightarrow> ('b, 'r, 'f, 'a) wact" where
  "scoped L m = try_act m (\<lambda>r. abind (Transaction_Destroy L) (\<lambda>_. lift_res r))"

definition in_transaction ::
  "('b, 'r, 'f) libs \<Rightarrow> nat \<Rightarrow> nat \<Rightarrow> ('b, 'r, 'f, 'a) wact \<Rightarrow> ('b, 'r, 'f, 'a) wact" where
  "in_transaction L reserve_inodes reserve_blocks body =
    abind (BeginTransaction L reserve_inodes reserve_blocks) (\<lambda>_. scoped L body)"

definition purge_one :: "('b, 'r, 'f) libs \<Rightarrow> nat \<Rightarrow> nat \<Rightarrow> ('b, 'r, 'f, nat \<times> nat) wact" where
  "purge_one L v last_ino =
    in_transaction L 0 0
      (abind (InoFree L v) (\<lambda>_.
       abind (get_inode v) (\<lambda>i.
       let next_ino = i_next_inode i in
       abind (set_unlinked_head next_ino) (\<lambda>_.
       abind (if next_ino = 0 then abind (set_unlinked_tail 0) (\<lambda>_. ret v)
              else abind (Vnode_Recreate L next_ino) (\<lambda>v.
                   abind (SetLastInode v 0) (\<lambda>_.
                   abind (get_inode v) (\<lambda>i.
                   abind (InodeUpdate L next_ino i) (\<lambda>_. ret v))))) (\<lambda>v.
       abind (CommitTransaction L) (\<lambda>_. ret (v, next_ino)))))))"

partial_function (option) purge_loop :: "('b, 'r, 'f) libs \<Rightarrow> nat \<Rightarrow> nat \<Rightarrow> ('b, 'r, 'f, unit) wact" where
  "purge_loop L v next_ino w =
    abind (purge_one L v next_ino) (\<lambda>(v, next_ino) w.
      if next_ino \<noteq> 0 then purge_loop L v next_ino w else Some (Ok (), w)) w"

definition PurgeUnlinked :: "('b, 'r, 'f) libs \<Rightarrow> ('b, 'r, 'f, unit) wact" where
  "PurgeUnlinked L =
    abind (gets Info) (\<lambda>info.
    if unlinked_head info = 0 then ret ()
    else abind (Vnode_Recreate L (unlinked_head info)) (\<lambda>v. purge_loop L v (unlinked_head info)))"

section \<open>Links and closing\<close>

definition Purge :: "('b, 'r, 'f) libs \<Rightarrow> nat \<Rightarrow> ('b, 'r, 'f, unit) wact" where
  "Purge L v = abind (VnodeRelease v) (\<lambda>_. InoFree L v)"

definition RemoveInodeLink :: "('b, 'r, 'f) libs \<Rightarrow> nat \<Rightarrow> ('b, 'r, 'f, unit) wact" where
  "RemoveInodeLink L v =
    abind (get_vnode v) (\<lambda>vn.
    abind (assert_act (i_link_count (vn_inode vn) > 0)) (\<lambda>_.
    abind (on_inode v (\<lambda>i. i\<lparr>i_link_count := i_link_count i - 1\<rparr>)) (\<lambda>_.
    abind (on_inode v (\<lambda>i. if vn_directory vn \<and> i_link_count i = 1
             then i\<lparr>i_link_count := i_link_count i - 1\<rparr> else i)) (\<lambda>_.
    abind (get_vnode v) (\<lambda>vn.
    abind
      (if IsUnlinked vn then
         if vn_open_count vn = 0 then Purge L v
         else
           abind (AddUnlinked L v) (\<lambda>_.
           if vn_directory vn
           then abind (on_inode v (\<lambda>i. i\<lparr>i_dirent_count := 0\<rparr>)) (\<lambda>_. TruncateInternal L v 0)
           else ret ())
       else ret ()) (\<lambda>_.
    InodeSync L v kMxFsSyncMtime))))))"

definition RecycleNode :: "nat \<Rightarrow> ('b, 'r, 'f, unit) wact" where
  "RecycleNode v =
    abind (get_vnode v) (\<lambda>vn.
    abind (if \<not> IsUnlinked vn then VnodeRelease v else ret ()) (\<lambda>_.
    modify (\<lambda>w. w\<lparr>w_vnodes := (w_vnodes w)(v := None)\<rparr>)))"

definition Vnode_RemoveUnlinked :: "('b, 'r, 'f) libs \<Rightarrow> nat \<Rightarrow> ('b, 'r, 'f, unit) wact" where
  "Vnode_RemoveUnlinked L v =
    abind (get_vnode v) (\<lambda>vn.
    abind (assert_act (IsUnlinked vn)) (\<lambda>_.
    try_act (BeginTransaction L 0 0) (\<lambda>r. case r of
      Err e \<Rightarrow> abind (VnodeRelease v) (\<lambda>_. fail e)
    | _ \<Rightarrow> scoped L
        (abind (RemoveUnlinked L v) (\<lambda>_.
         abind (Purge L v) (\<lambda>_. CommitTransaction L))))))"

definition FlushCachedWrites :: "('b, 'r, 'f, unit) wact" where
  "FlushCachedWrites = ret ()"

definition DropCachedWrites :: "('b, 'r, 'f, unit) wact" where
  "DropCachedWrites = ret ()"

definition CloseNode :: "('b, 'r, 'f) libs \<Rightarrow> nat \<Rightarrow> ('b, 'r, 'f, unit) wact" where
  "CloseNode L v =
    abind (get_vnode v) (\<lambda>vn.
    if vn_open_count vn \<noteq> 0 then ret ()
    else if \<not> IsUnlinked vn then FlushCachedWrites
    else abind DropCachedWrites (\<lambda>_. Vnode_RemoveUnlinked L v))"

section \<open>Attributes\<close>

text \<open>The mode is given by the type bits of the magic number.\<close>

record attributes =
  va_type :: nat
  va_inode :: nat
  va_content_size :: nat
  va_storage_size :: nat
  va_link_count :: nat
  va_creation_time :: nat
  va_modification_time :: nat

definition GetAttributes :: "nat \<Rightarrow> ('b, 'r, 'f, attributes) wact" where
  "GetAttributes v =
    abind (get_vnode v) (\<lambda>vn.
    abind (GetSize v) (\<lambda>size.
    abind (GetBlockCount v) (\<lambda>blocks.
    let i = vn_inode vn in ret
      \<lparr>va_type = MinfsMagicType (i_magic i), va_inode = vn_ino vn, va_content_size = size,
       va_storage_size = u64 (blocks * kMinfsBlockSize), va_link_count = i_link_count i,
       va_creation_time = i_create_time i, va_modification_time = i_modify_time i\<rparr>)))"

text \<open>\<open>other\<close> says that the update has fields that are not handled.\<close>

definition SetAttributes ::
  "('b, 'r, 'f) libs \<Rightarrow> nat \<Rightarrow> nat option \<Rightarrow> nat option \<Rightarrow> bool \<Rightarrow> ('b, 'r, 'f, unit) wact" where
  "SetAttributes L v creation modification other =
    abind (case creation of Some t \<Rightarrow> on_inode v (\<lambda>i. i\<lparr>i_create_time := t\<rparr>) | None \<Rightarrow> ret ()) (\<lambda>_.
    abind (case modification of Some t \<Rightarrow> on_inode v (\<lambda>i. i\<lparr>i_modify_time := t\<rparr>) | None \<Rightarrow> ret ()) (\<lambda>_.
    if other then fail ZX_ERR_INVALID_ARGS
    else if creation \<noteq> None \<or> modification \<noteq> None then
      in_transaction L 0 0
        (abind (InodeSync L v kMxFsSyncDefault) (\<lambda>_. CommitTransaction L))
    else ret ()))"

end
