(* ===== verification/File.thy ===== *)
theory File
  imports Unlinked Limits
begin

text \<open>
  Regular files in the host build, \<open>file.h\<close>, \<open>file.cc\<close> and \<open>file_host.cc\<close>: reads, writes, appends
  and truncation, each in a transaction of its own. The dirty cache is disabled on the host.
\<close>

definition DirtyCacheEnabled :: bool where
  "DirtyCacheEnabled = False"

definition IsDirty :: bool where
  "IsDirty = False"

definition UpdateModificationTime :: "('b, 'r, 'f) libs \<Rightarrow> nat \<Rightarrow> ('b, 'r, 'f, unit) wact" where
  "UpdateModificationTime L v =
    abind (GetTimeUTC L) (\<lambda>cur_time. on_inode v (\<lambda>i. i\<lparr>i_modify_time := cur_time\<rparr>))"

definition File_CanUnlink :: "unit res" where
  "File_CanUnlink = Ok ()"

definition File_ValidateRights :: "bool \<Rightarrow> bool" where
  "File_ValidateRights execute = (\<not> execute)"

text \<open>A read makes a transaction without reservations, which its end destroys.\<close>

definition File_Read ::
  "('b, 'r, 'f) libs \<Rightarrow> nat \<Rightarrow> bytes \<Rightarrow> nat \<Rightarrow> nat \<Rightarrow> ('b, 'r, 'f, nat \<times> bytes) wact" where
  "File_Read L v buf len off =
    abind (modify (\<lambda>w. w\<lparr>w_tx := Some (new_transaction None)\<rparr>)) (\<lambda>_.
    scoped L (ReadInternal L v buf len off))"

definition GetRequiredBlockCountForDirtyCache :: "nat \<Rightarrow> nat \<Rightarrow> nat \<Rightarrow> nat res" where
  "GetRequiredBlockCountForDirtyCache off len uncached_block_count = Ok uncached_block_count"

definition File_GetRequiredBlockCount :: "nat \<Rightarrow> nat \<Rightarrow> nat res" where
  "File_GetRequiredBlockCount off len =
    (let uncached = GetRequiredBlockCount off len kMinfsBlockSize
     in if \<not> DirtyCacheEnabled then uncached
        else res_bind uncached (GetRequiredBlockCountForDirtyCache off len))"

definition ShouldFlush :: "bool \<Rightarrow> nat \<Rightarrow> nat \<Rightarrow> bool res" where
  "ShouldFlush is_truncate len off = Ok True"

definition CheckAndFlush :: "bool \<Rightarrow> nat \<Rightarrow> nat \<Rightarrow> ('b, 'r, 'f, unit) wact" where
  "CheckAndFlush is_truncate len off =
    abind (lift_res (ShouldFlush is_truncate len off)) (\<lambda>flush.
    if \<not> flush then ret () else FlushCachedWrites)"

definition MarkRequiredBlocksPending :: "nat \<Rightarrow> nat \<Rightarrow> ('b, 'r, 'f, unit) wact" where
  "MarkRequiredBlocksPending off len = ret ()"

text \<open>There is no cached transaction on the host.\<close>

definition GetTransaction ::
  "('b, 'r, 'f) libs \<Rightarrow> reservation option \<Rightarrow> nat \<Rightarrow> ('b, 'r, 'f, unit) wact" where
  "GetTransaction L cached reserve_blocks =
    abind (assert_act (DirtyCacheEnabled \<or> cached = None)) (\<lambda>_.
    case cached of
      None \<Rightarrow> BeginTransaction L 0 reserve_blocks
    | Some rs \<Rightarrow> ContinueTransaction L reserve_blocks rs)"

definition ForceFlushTransaction :: "('b, 'r, 'f) libs \<Rightarrow> nat \<Rightarrow> ('b, 'r, 'f, unit) wact" where
  "ForceFlushTransaction L v =
    abind (InodeSync L v kMxFsSyncMtime) (\<lambda>_. CommitTransaction L)"

definition FlushTransaction :: "('b, 'r, 'f) libs \<Rightarrow> nat \<Rightarrow> bool \<Rightarrow> ('b, 'r, 'f, unit) wact" where
  "FlushTransaction L v force = ForceFlushTransaction L v"

text \<open>The result is the number of bytes written.\<close>

definition File_Write ::
  "('b, 'r, 'f) libs \<Rightarrow> nat \<Rightarrow> bytes \<Rightarrow> nat \<Rightarrow> nat \<Rightarrow> ('b, 'r, 'f, nat) wact" where
  "File_Write L v data len off =
    (if len = 0 then ret 0
     else if \<not> off + len < 2 ^ 64 \<or> off + len > kMinfsMaxFileSize then fail ZX_ERR_FILE_BIG
     else
       abind (CheckAndFlush False len off) (\<lambda>_.
       abind (lift_res (File_GetRequiredBlockCount off len)) (\<lambda>reserve_blocks.
       abind (GetTransaction L None reserve_blocks) (\<lambda>_.
       scoped L
         (abind (if DirtyCacheEnabled then MarkRequiredBlocksPending off len else ret ()) (\<lambda>_.
          abind (WriteInternal L v data len off) (\<lambda>actual.
          if actual = 0 then ret 0
          else
            abind (UpdateModificationTime L v) (\<lambda>_.
            abind (FlushTransaction L v False) (\<lambda>_. ret actual)))))))))"

text \<open>The end of the file is reported whatever the result of the write.\<close>

definition File_Append ::
  "('b, 'r, 'f) libs \<Rightarrow> nat \<Rightarrow> bytes \<Rightarrow> nat \<Rightarrow> ('b, 'r, 'f, nat res \<times> nat) wact" where
  "File_Append L v data len =
    abind (GetSize v) (\<lambda>size.
    try_act (File_Write L v data len size) (\<lambda>r. abind (GetSize v) (\<lambda>out_end. ret (r, out_end))))"

definition File_Truncate :: "('b, 'r, 'f) libs \<Rightarrow> nat \<Rightarrow> nat \<Rightarrow> ('b, 'r, 'f, unit) wact" where
  "File_Truncate L v len =
    (if len > kMinfsMaxFileSize then fail ZX_ERR_INVALID_ARGS
     else
       abind FlushCachedWrites (\<lambda>_.
       in_transaction L 0 1
         (abind (TruncateInternal L v len) (\<lambda>_.
          abind (UpdateModificationTime L v) (\<lambda>_.
          try_act (FlushTransaction L v True) (\<lambda>r. assert_act (r = Ok ())))))))"

end
