(* ===== verification/Directory.thy ===== *)
theory Directory
  imports File Mkfs
begin

text \<open>
  Directories in the host build, \<open>directory.h\<close> and \<open>directory.cc\<close>. A directory is a file of
  records; every operation walks the records with a callback. The buffer of the current record
  keeps the bytes of the record before it where a read was short.
\<close>

section \<open>Records\<close>

text \<open>\<open>ValidateDirent\<close> of a record with the number of bytes read at an offset.\<close>

definition ValidateDirent :: "dirent \<Rightarrow> nat \<Rightarrow> nat \<Rightarrow> unit res" where
  "ValidateDirent de bytes_read off =
    (if bytes_read < kMinfsDirentSize then Err ZX_ERR_IO
     else
       let reclen = DirentReservedSize de off in
       if reclen < kMinfsDirentSize then Err ZX_ERR_IO
       else if off + reclen > kMinfsMaxDirectorySize \<or> (reclen AND kMinfsDirentAlignmentMask) \<noteq> 0
       then Err ZX_ERR_IO
       else if de_ino de \<noteq> 0 \<and> (de_namelen de = 0 \<or> de_namelen de > reclen - kMinfsDirentSize)
       then Err ZX_ERR_IO
       else Ok ())"

definition de_of :: "bytes \<Rightarrow> dirent" where
  "de_of buf = load_dirent buf 0"

definition name_of :: "bytes \<Rightarrow> nat list" where
  "name_of buf = load_name buf 0 (de_namelen (de_of buf))"

definition with_de :: "dirent \<Rightarrow> bytes \<Rightarrow> bytes" where
  "with_de de buf = store_dirent 0 de buf"

datatype iterator_command = kIteratorDone | kIteratorNext | kIteratorSaveSync

record dir_args =
  da_name :: "nat list"
  da_ino :: nat
  da_type :: nat
  da_reclen :: nat
  da_off :: nat
  da_off_prev :: nat

definition new_args :: "nat list \<Rightarrow> dir_args" where
  "new_args name = \<lparr>da_name = name, da_ino = 0, da_type = 0, da_reclen = 0, da_off = 0, da_off_prev = 0\<rparr>"

type_synonym ('b, 'r, 'f) callback =
  "bytes \<Rightarrow> dir_args \<Rightarrow> ('b, 'r, 'f, iterator_command \<times> dir_args) wact"

definition NextDirent :: "('b, 'r, 'f) callback" where
  "NextDirent buf args =
    ret (kIteratorNext, args\<lparr>da_off_prev := da_off args,
           da_off := da_off args + DirentReservedSize (de_of buf) (da_off args)\<rparr>)"

text \<open>Whether the record has the name that is looked for.\<close>

definition name_matches :: "bytes \<Rightarrow> dir_args \<Rightarrow> bool" where
  "name_matches buf args \<longleftrightarrow> de_ino (de_of buf) \<noteq> 0 \<and> name_of buf = da_name args"

section \<open>Walking the records\<close>

partial_function (option) dirent_loop ::
  "('b, 'r, 'f) libs \<Rightarrow> nat \<Rightarrow> ('b, 'r, 'f) callback \<Rightarrow> bytes \<Rightarrow> dir_args
    \<Rightarrow> ('b, 'r, 'f, bool \<times> dir_args) wact" where
  "dirent_loop L v func buf args w =
    abind (GetSize v) (\<lambda>size w.
    if da_off args + kMinfsDirentSize < kMinfsMaxDirectorySize \<and> da_off args < size then
      abind (ReadInternal L v buf kMinfsMaxDirentSize (da_off args)) (\<lambda>(r, buf).
      abind (lift_res (ValidateDirent (de_of buf) r (da_off args))) (\<lambda>_.
      abind (func buf args) (\<lambda>(command, args) w.
      if command = kIteratorNext then dirent_loop L v func buf args w
      else if command = kIteratorSaveSync then
        abind (on_inode v (\<lambda>i. i\<lparr>i_seq_num := u32 (i_seq_num i + 1)\<rparr>)) (\<lambda>_.
        abind (InodeSync L v kMxFsSyncMtime) (\<lambda>_. ret (True, args))) w
      else Some (Ok (True, args), w)))) w
    else Some (Ok (False, args), w)) w"

definition ForEachDirent ::
  "('b, 'r, 'f) libs \<Rightarrow> nat \<Rightarrow> dir_args \<Rightarrow> ('b, 'r, 'f) callback \<Rightarrow> ('b, 'r, 'f, bool \<times> dir_args) wact" where
  "ForEachDirent L v args func =
    dirent_loop L v func (li_garbage L) (args\<lparr>da_off := 0, da_off_prev := 0\<rparr>)"

definition DirentCallbackFind :: "('b, 'r, 'f) callback" where
  "DirentCallbackFind buf args =
    (if name_matches buf args
     then ret (kIteratorDone, args\<lparr>da_ino := de_ino (de_of buf), da_type := de_type (de_of buf)\<rparr>)
     else NextDirent buf args)"

definition Directory_CanUnlink :: "inode \<Rightarrow> unit res" where
  "Directory_CanUnlink i = (if i_dirent_count i \<noteq> 2 then Err ZX_ERR_NOT_EMPTY else Ok ())"

definition CanUnlink :: "nat \<Rightarrow> ('b, 'r, 'f, unit) wact" where
  "CanUnlink v =
    abind (get_vnode v) (\<lambda>vn.
    lift_res (if vn_directory vn then Directory_CanUnlink (vn_inode vn) else File_CanUnlink))"

section \<open>Removing a record\<close>

definition read_dirent :: "('b, 'r, 'f) libs \<Rightarrow> nat \<Rightarrow> nat \<Rightarrow> ('b, 'r, 'f, dirent) wact" where
  "read_dirent L v off =
    abind (ReadExactInternal L v (li_garbage L) kMinfsDirentSize off) (\<lambda>buf.
    abind (lift_res (ValidateDirent (de_of buf) kMinfsDirentSize off)) (\<lambda>_. ret (de_of buf)))"

text \<open>The record with its size merged with free neighbours: offset, size and record.\<close>

definition coalesce_dirent ::
  "('b, 'r, 'f) libs \<Rightarrow> nat \<Rightarrow> dirent \<Rightarrow> nat \<Rightarrow> nat \<Rightarrow> ('b, 'r, 'f, nat \<times> nat \<times> dirent) wact" where
  "coalesce_dirent L v de off_prev off =
    (let off_next = off + DirentReservedSize de off;
         coalesced_size = DirentReservedSize de off in
     abind
       (if (de_reclen de AND kMinfsReclenLast) = 0 then
          abind (read_dirent L v off_next) (\<lambda>de_next.
          if de_ino de_next = 0 then
            ret (coalesced_size + DirentReservedSize de_next off_next,
                 de\<lparr>de_reclen := de_reclen de OR (de_reclen de_next AND kMinfsReclenLast)\<rparr>)
          else ret (coalesced_size, de))
        else ret (coalesced_size, de)) (\<lambda>(coalesced_size, de).
     if off_prev \<noteq> off then
       abind (read_dirent L v off_prev) (\<lambda>de_prev.
       if de_ino de_prev = 0
       then ret (off_prev, coalesced_size + DirentReservedSize de_prev off_prev, de)
       else ret (off, coalesced_size, de))
     else ret (off, coalesced_size, de)))"

definition UnlinkChild :: "('b, 'r, 'f) libs \<Rightarrow> nat \<Rightarrow> nat \<Rightarrow> ('b, 'r, 'f) callback" where
  "UnlinkChild L v child buf args =
    abind (coalesce_dirent L v (de_of buf) (da_off_prev args) (da_off args)) (\<lambda>(off, coalesced_size, de).
    if (de_reclen de AND kMinfsReclenLast) = 0 \<and> coalesced_size \<ge> kMinfsReclenMask
    then fail ZX_ERR_IO
    else
      let de = de\<lparr>de_ino := 0, de_reclen :=
            (coalesced_size AND kMinfsReclenMask) OR (de_reclen de AND kMinfsReclenLast)\<rparr> in
      abind (WriteExactInternal L v (with_de de buf) kMinfsDirentSize off) (\<lambda>_.
      abind (if (de_reclen de AND kMinfsReclenLast) \<noteq> 0
             then try_act (TruncateInternal L v (off + kMinfsDirentSize)) (\<lambda>_. ret ())
             else ret ()) (\<lambda>_.
      abind (on_inode v (\<lambda>i. i\<lparr>i_dirent_count := u32_sub (i_dirent_count i) 1\<rparr>)) (\<lambda>_.
      abind (get_inode child) (\<lambda>ci.
      abind (if MinfsMagicType (i_magic ci) = kMinfsTypeDir
             then on_inode v (\<lambda>i. i\<lparr>i_link_count := u32_sub (i_link_count i) 1\<rparr>) else ret ()) (\<lambda>_.
      abind (RemoveInodeLink L child) (\<lambda>_. ret (kIteratorSaveSync, args))))))))"

definition DirentCallbackUnlink :: "('b, 'r, 'f) libs \<Rightarrow> nat \<Rightarrow> ('b, 'r, 'f) callback" where
  "DirentCallbackUnlink L v buf args =
    (if \<not> name_matches buf args then NextDirent buf args
     else
       abind (VnodeGet L (de_ino (de_of buf))) (\<lambda>child.
       abind (get_vnode child) (\<lambda>cn.
       if da_type args = kMinfsTypeDir \<and> \<not> vn_directory cn then fail ZX_ERR_NOT_DIR
       else abind (CanUnlink child) (\<lambda>_. UnlinkChild L v child buf args))))"

definition DirentCallbackForceUnlink :: "('b, 'r, 'f) libs \<Rightarrow> nat \<Rightarrow> ('b, 'r, 'f) callback" where
  "DirentCallbackForceUnlink L v buf args =
    (if \<not> name_matches buf args then NextDirent buf args
     else abind (VnodeGet L (de_ino (de_of buf))) (\<lambda>child. UnlinkChild L v child buf args))"

section \<open>Replacing and adding records\<close>

definition DirentCallbackAttemptRename :: "('b, 'r, 'f) libs \<Rightarrow> nat \<Rightarrow> ('b, 'r, 'f) callback" where
  "DirentCallbackAttemptRename L v buf args =
    (if \<not> name_matches buf args then NextDirent buf args
     else
       let de = de_of buf in
       abind (VnodeGet L (de_ino de)) (\<lambda>child.
       abind (get_vnode child) (\<lambda>cn.
       if da_ino args = vn_ino cn then fail ZX_ERR_BAD_STATE
       else if da_type args \<noteq> de_type de then
         fail (if da_type args = kMinfsTypeDir then ZX_ERR_NOT_DIR else ZX_ERR_NOT_FILE)
       else
         abind (CanUnlink child) (\<lambda>_.
         abind (RemoveInodeLink L child) (\<lambda>_.
         abind (WriteExactInternal L v (with_de (de\<lparr>de_ino := da_ino args\<rparr>) buf)
                  (DirentSize (de_namelen de)) (da_off args)) (\<lambda>_.
         ret (kIteratorSaveSync, args)))))))"

definition DirentCallbackUpdateInode :: "('b, 'r, 'f) libs \<Rightarrow> nat \<Rightarrow> ('b, 'r, 'f) callback" where
  "DirentCallbackUpdateInode L v buf args =
    (if \<not> name_matches buf args then NextDirent buf args
     else
       let de = de_of buf in
       abind (WriteExactInternal L v (with_de (de\<lparr>de_ino := da_ino args\<rparr>) buf)
                (DirentSize (de_namelen de)) (da_off args)) (\<lambda>_.
       ret (kIteratorSaveSync, args)))"

definition DirentCallbackFindSpace :: "('b, 'r, 'f) callback" where
  "DirentCallbackFindSpace buf args =
    (let de = de_of buf;
         reserved_size = u32 (DirentReservedSize de (da_off args)) in
     if de_ino de = 0 then
       (if da_reclen args > reserved_size then NextDirent buf args else ret (kIteratorDone, args))
     else
       let used_size = DirentSize (de_namelen de) in
       if used_size > reserved_size then fail ZX_ERR_IO
       else if reserved_size - used_size < da_reclen args then NextDirent buf args
       else ret (kIteratorDone, args))"

text \<open>The record in which the new one goes: the offset and the buffer with its size set.\<close>

definition split_dirent ::
  "('b, 'r, 'f) libs \<Rightarrow> nat \<Rightarrow> bytes \<Rightarrow> dir_args \<Rightarrow> ('b, 'r, 'f, dir_args \<times> dirent) wact" where
  "split_dirent L v buf args =
    (let de = de_of buf; reclen = u32 (DirentReservedSize de (da_off args)) in
     if de_ino de = 0 then
       (if da_reclen args > reclen then fail ZX_ERR_NO_SPACE else ret (args, de))
     else
       let size = DirentSize (de_namelen de) in
       if size > reclen then fail ZX_ERR_IO
       else
         let extra = reclen - size in
         if extra < da_reclen args then fail ZX_ERR_NO_SPACE
         else
           abind (WriteExactInternal L v (with_de (de\<lparr>de_reclen := size\<rparr>) buf) size (da_off args)) (\<lambda>_.
           ret (args\<lparr>da_off := da_off args + size\<rparr>,
                de\<lparr>de_reclen := (extra OR (if (de_reclen de AND kMinfsReclenLast) \<noteq> 0
                    then kMinfsReclenLast else 0))\<rparr>)))"

definition AppendDirent :: "('b, 'r, 'f) libs \<Rightarrow> nat \<Rightarrow> dir_args \<Rightarrow> ('b, 'r, 'f, unit) wact" where
  "AppendDirent L v args =
    abind (ReadInternal L v (li_garbage L) kMinfsMaxDirentSize (da_off args)) (\<lambda>(r, buf).
    abind (lift_res (ValidateDirent (de_of buf) r (da_off args))) (\<lambda>_.
    abind (split_dirent L v buf args) (\<lambda>(args, de).
    let namelen = length (da_name args) mod 256;
        de = de\<lparr>de_ino := da_ino args, de_type := da_type args mod 256, de_namelen := namelen\<rparr>;
        buf = store_name 0 (take namelen (da_name args)) (with_de de buf) in
    abind (WriteExactInternal L v buf (DirentSize namelen) (da_off args)) (\<lambda>_.
    abind (if da_type args = kMinfsTypeDir
           then on_inode v (\<lambda>i. i\<lparr>i_link_count := u32 (i_link_count i + 1)\<rparr>) else ret ()) (\<lambda>_.
    abind (on_inode v (\<lambda>i. i\<lparr>i_dirent_count := u32 (i_dirent_count i + 1),
             i_seq_num := u32 (i_seq_num i + 1)\<rparr>)) (\<lambda>_.
    InodeSync L v kMxFsSyncMtime))))))"

section \<open>Operations\<close>

definition Directory_Read :: "nat res" where "Directory_Read = Err ZX_ERR_NOT_FILE"
definition Directory_Write :: "nat res" where "Directory_Write = Err ZX_ERR_NOT_FILE"
definition Directory_Append :: "nat res" where "Directory_Append = Err ZX_ERR_NOT_FILE"
definition Directory_Truncate :: "unit res" where "Directory_Truncate = Err ZX_ERR_NOT_FILE"

definition LookupInternal :: "('b, 'r, 'f) libs \<Rightarrow> nat \<Rightarrow> nat list \<Rightarrow> ('b, 'r, 'f, nat) wact" where
  "LookupInternal L v name =
    abind (ForEachDirent L v (new_args name) DirentCallbackFind) (\<lambda>(found, args).
    if \<not> found then fail ZX_ERR_NOT_FOUND else VnodeGet L (da_ino args))"

definition Lookup :: "('b, 'r, 'f) libs \<Rightarrow> nat \<Rightarrow> nat list \<Rightarrow> ('b, 'r, 'f, nat) wact" where
  "Lookup L v name = LookupInternal L v name"

record dir_cookie =
  dc_off :: nat
  dc_seqno :: nat

definition dotdot :: "nat list" where "dotdot = [46, 46]"

text \<open>The walk to the first record at or after an offset.\<close>

partial_function (option) recover_loop ::
  "('b, 'r, 'f) libs \<Rightarrow> nat \<Rightarrow> bytes \<Rightarrow> nat \<Rightarrow> nat \<Rightarrow> ('b, 'r, 'f, nat \<times> bytes) wact" where
  "recover_loop L v buf off off_recovered w =
    (if off_recovered < off then
       if off_recovered + kMinfsDirentSize \<ge> kMinfsMaxDirectorySize then Some (Err ZX_ERR_IO, w)
       else
         abind (ReadInternal L v buf kMinfsMaxDirentSize off_recovered) (\<lambda>(r, buf).
         abind (lift_res (ValidateDirent (de_of buf) r off_recovered)) (\<lambda>_.
         recover_loop L v buf off (off_recovered + DirentReservedSize (de_of buf) off_recovered))) w
     else Some (Ok (off_recovered, buf), w))"

text \<open>\<open>filler\<close> is the filler of the caller; it refuses an entry that has no room.\<close>

partial_function (option) fill_loop ::
  "('b, 'r, 'f) libs \<Rightarrow> nat \<Rightarrow> (nat list \<Rightarrow> nat \<Rightarrow> nat \<Rightarrow> 'd \<Rightarrow> 'd option) \<Rightarrow> bytes \<Rightarrow> nat \<Rightarrow> 'd
    \<Rightarrow> ('b, 'r, 'f, nat \<times> 'd) wact" where
  "fill_loop L v filler buf off d w =
    (if off + kMinfsDirentSize < kMinfsMaxDirectorySize then
       abind (ReadInternal L v buf kMinfsMaxDirentSize off) (\<lambda>(r, buf).
       abind (lift_res (ValidateDirent (de_of buf) r off)) (\<lambda>_ w.
       let de = de_of buf;
           next = (if de_ino de \<noteq> 0 \<and> name_of buf \<noteq> dotdot
                   then filler (name_of buf) (de_type de) (de_ino de) d else Some d)
       in if next = None then Some (Ok (off, d), w)
          else fill_loop L v filler buf (off + DirentReservedSize de off) (the next) w)) w
     else Some (Ok (off, d), w))"

text \<open>The result of the call, the cookie and the filler; the cookie is reset on a failure.\<close>

definition Readdir ::
  "('b, 'r, 'f) libs \<Rightarrow> nat \<Rightarrow> (nat list \<Rightarrow> nat \<Rightarrow> nat \<Rightarrow> 'd \<Rightarrow> 'd option) \<Rightarrow> dir_cookie \<Rightarrow> 'd
    \<Rightarrow> ('b, 'r, 'f, unit res \<times> dir_cookie \<times> 'd) wact" where
  "Readdir L v filler dc d =
    abind (get_vnode v) (\<lambda>vn.
    if IsUnlinked vn then ret (Ok (), dc, d)
    else
      try_act
        (abind (if dc_off dc \<noteq> 0 \<and> dc_seqno dc \<noteq> i_seq_num (vn_inode vn)
                then recover_loop L v (li_garbage L) (dc_off dc) 0
                else ret (dc_off dc, li_garbage L)) (\<lambda>(off, buf).
         fill_loop L v filler buf off d)) (\<lambda>r. case r of
        Ok (off, d) \<Rightarrow> ret (Ok (), dc\<lparr>dc_off := off, dc_seqno := i_seq_num (vn_inode vn)\<rparr>, d)
      | _ \<Rightarrow> ret (Err ZX_ERR_IO, dc\<lparr>dc_off := 0\<rparr>, d)))"

end
