(* ===== verification/Fsck.thy ===== *)
theory Fsck
  imports Directory
begin

text \<open>
  The checker of \<open>fsck.cc\<close> in the host build: \<open>MinfsChecker\<close> walks the tree from the root, counts
  links and blocks, and compares them with the bitmaps and the superblock. Its state is the
  checker's record with the file system. \<open>CheckInode\<close> and \<open>CheckDirectory\<close> call each other; the
  recursion has a depth.
\<close>

section \<open>State\<close>

datatype block_type = kDirect | kIndirect | kDoubleIndirect

record block_info =
  bi_owner :: nat
  bi_offset :: nat
  bi_type :: block_type

record 'b checker =
  ck_conforming :: bool
  ck_inodes :: 'b
  ck_blocks :: 'b
  ck_max_inode :: nat
  ck_blk_info :: "nat \<Rightarrow> block_info list"
  ck_alloc_inodes :: nat
  ck_alloc_blocks :: nat
  ck_links :: "int list"
  ck_cached_dind :: nat
  ck_cached_ind :: nat
  ck_dind_cache :: bytes
  ck_ind_cache :: bytes
  ck_indirect_blocks :: nat
  ck_directory_blocks :: nat

type_synonym ('b, 'r, 'f, 'a) cact = "('b checker \<times> ('b, 'r, 'f) world, 'a) act"

definition on_fs :: "('b, 'r, 'f, 'a) wact \<Rightarrow> ('b, 'r, 'f, 'a) cact" where
  "on_fs m st = (case m (snd st) of None \<Rightarrow> None | Some (r, w) \<Rightarrow> Some (r, fst st, w))"

definition update_ck :: "('b checker \<Rightarrow> 'b checker) \<Rightarrow> ('b, 'r, 'f, unit) cact" where
  "update_ck f = modify (\<lambda>(c, w). (f c, w))"

definition get_ck :: "('b checker \<Rightarrow> 'a) \<Rightarrow> ('b, 'r, 'f, 'a) cact" where
  "get_ck f = gets (\<lambda>(c, w). f c)"

definition not_conforming :: "('b, 'r, 'f, unit) cact" where
  "not_conforming = update_ck (\<lambda>c. c\<lparr>ck_conforming := False\<rparr>)"

definition require_conforming :: "bool \<Rightarrow> ('b, 'r, 'f, unit) cact" where
  "require_conforming ok = (if ok then ret () else not_conforming)"

text \<open>The position in the file of a pointer block.\<close>

definition LogicalBlockIndirect :: "nat \<Rightarrow> nat \<Rightarrow> nat" where
  "LogicalBlockIndirect indirect direct = kMinfsDirect + indirect * kMinfsDirectPerIndirect + direct"

definition LogicalBlockDoublyIndirect :: "nat \<Rightarrow> nat \<Rightarrow> nat \<Rightarrow> nat" where
  "LogicalBlockDoublyIndirect doubly_indirect indirect direct =
    (let start = kMinfsDirect + kMinfsIndirect * kMinfsDirectPerIndirect
     in start + kMinfsDirectPerDindirect * doubly_indirect + indirect * kMinfsDirectPerIndirect + direct)"

definition Checker_Create :: "('b, 'r, 'f) libs \<Rightarrow> superblock \<Rightarrow> 'b checker res" where
  "Checker_Create L info =
    res_bind (rb_reset (li_bitmap L) (inode_count info)) (\<lambda>checked_inodes.
    res_bind (rb_reset (li_bitmap L) (block_count info)) (\<lambda>checked_blocks.
    Ok \<lparr>ck_conforming = True, ck_inodes = checked_inodes, ck_blocks = checked_blocks, ck_max_inode = 0,
        ck_blk_info = (\<lambda>_. []), ck_alloc_inodes = 0, ck_alloc_blocks = 0,
        ck_links = (replicate (inode_count info) 0)[0 := -1], ck_cached_dind = 0, ck_cached_ind = 0,
        ck_dind_cache = li_garbage L, ck_ind_cache = li_garbage L, ck_indirect_blocks = 0,
        ck_directory_blocks = 0\<rparr>))"

section \<open>Inodes and blocks\<close>

definition Checker_GetInode :: "('b, 'r, 'f) libs \<Rightarrow> nat \<Rightarrow> bool \<Rightarrow> ('b, 'r, 'f, inode) cact" where
  "Checker_GetInode L ino check_magic =
    abind (on_fs (gets Info)) (\<lambda>info.
    if ino \<ge> inode_count info then fail ZX_ERR_OUT_OF_RANGE
    else
      abind (on_fs (InodeLoad L ino)) (\<lambda>i.
      if check_magic \<and> i_magic i \<noteq> kMinfsMagicFile \<and> i_magic i \<noteq> kMinfsMagicDir
      then fail ZX_ERR_IO_DATA_INTEGRITY else ret i))"

text \<open>The block of an indirect pointer, through the cache.\<close>

definition cached_indirect :: "('b, 'r, 'f) libs \<Rightarrow> nat \<Rightarrow> ('b, 'r, 'f, unit) cact" where
  "cached_indirect L ibno =
    abind (get_ck ck_cached_ind) (\<lambda>cached.
    if cached \<noteq> ibno then
      abind (on_fs (ReadDat L ibno)) (\<lambda>data.
      update_ck (\<lambda>c. c\<lparr>ck_ind_cache := data, ck_cached_ind := ibno\<rparr>))
    else ret ())"

definition cached_doubly_indirect :: "('b, 'r, 'f) libs \<Rightarrow> nat \<Rightarrow> ('b, 'r, 'f, unit) cact" where
  "cached_doubly_indirect L dibno =
    abind (get_ck ck_cached_dind) (\<lambda>cached.
    if cached \<noteq> dibno then
      abind (on_fs (ReadDat L dibno)) (\<lambda>data.
      update_ck (\<lambda>c. c\<lparr>ck_dind_cache := data, ck_cached_dind := dibno\<rparr>))
    else ret ())"

definition GetInodeNthBno :: "('b, 'r, 'f) libs \<Rightarrow> inode \<Rightarrow> nat \<Rightarrow> ('b, 'r, 'f, nat \<times> nat) cact" where
  "GetInodeNthBno L inode n0 =
    (if n0 < kMinfsDirect then ret (dnum inode ! n0, n0 + 1)
     else
       let n = n0 - kMinfsDirect; i = n div kMinfsDirectPerIndirect; j = n mod kMinfsDirectPerIndirect in
       if i < kMinfsIndirect then
         let ibno = inum inode ! i in
         if ibno = 0 then ret (0, kMinfsDirect + (i + 1) * kMinfsDirectPerIndirect)
         else
           abind (cached_indirect L ibno) (\<lambda>_.
           abind (get_ck ck_ind_cache) (\<lambda>data. ret (get_u32 data (4 * j), n0 + 1)))
       else
         let n = n - kMinfsIndirect * kMinfsDirectPerIndirect;
             i = n div kMinfsDirectPerDindirect;
             n = n - i * kMinfsDirectPerDindirect;
             j = n div kMinfsDirectPerIndirect;
             k = n mod kMinfsDirectPerIndirect in
         if i < kMinfsDoublyIndirect then
           let dibno = dinum inode ! i in
           if dibno = 0 then
             ret (0, kMinfsDirect + kMinfsIndirect * kMinfsDirectPerIndirect + (i + 1) * kMinfsDirectPerDindirect)
           else
             abind (cached_doubly_indirect L dibno) (\<lambda>_.
             abind (get_ck ck_dind_cache) (\<lambda>data.
             let ibno = get_u32 data (4 * j) in
             if ibno = 0 then
               ret (0, kMinfsDirect + kMinfsIndirect * kMinfsDirectPerIndirect
                       + i * kMinfsDirectPerDindirect + (j + 1) * kMinfsDirectPerIndirect)
             else
               abind (cached_indirect L ibno) (\<lambda>_.
               abind (get_ck ck_ind_cache) (\<lambda>data. ret (get_u32 data (4 * k), n0 + 1)))))
         else fail ZX_ERR_OUT_OF_RANGE)"

text \<open>What is wrong with a block, if anything; a block seen before comes with its owners.\<close>

datatype block_fault = ReservedBno | OutOfRange | NotAllocated | DoubleAllocated "block_info list"

definition CheckDataBlock ::
  "('b, 'r, 'f) libs \<Rightarrow> nat \<Rightarrow> block_info \<Rightarrow> ('b, 'r, 'f, block_fault option) cact" where
  "CheckDataBlock L bno info st =
    (let (c, w) = st in
     if bno = 0 then Some (Ok (Some ReservedBno), st)
     else if bno \<ge> block_count (Info w) then Some (Ok (Some OutOfRange), st)
     else if \<not> CheckAllocated (li_bitmap L) bno (w_blocks w) then Some (Ok (Some NotAllocated), st)
     else if rb_get (li_bitmap L) (ck_blocks c) bno then
       Some (Ok (Some (DoubleAllocated (ck_blk_info c bno))),
             c\<lparr>ck_blk_info := (ck_blk_info c)(bno := ck_blk_info c bno @ [info])\<rparr>, w)
     else
       Some (Ok None,
             c\<lparr>ck_blocks := rb_set (li_bitmap L) (ck_blocks c) bno (bno + 1),
               ck_blk_info := (if ck_blk_info c bno = [] then (ck_blk_info c)(bno := [info])
                               else ck_blk_info c),
               ck_alloc_blocks := u32 (ck_alloc_blocks c + 1),
               ck_indirect_blocks := (if bi_type info \<noteq> kDirect then u32 (ck_indirect_blocks c + 1)
                                      else ck_indirect_blocks c)\<rparr>, w))"

text \<open>One pointer that is not zero, and the pointers of a block in order; the result is the
  number of blocks counted.\<close>

definition check_pointer :: "('b, 'r, 'f) libs \<Rightarrow> nat \<Rightarrow> block_info \<Rightarrow> ('b, 'r, 'f, nat) cact" where
  "check_pointer L bno info =
    (if bno = 0 then ret 0
     else abind (CheckDataBlock L bno info) (\<lambda>msg.
          abind (require_conforming (msg = None)) (\<lambda>_. ret 1)))"

fun check_pointers ::
  "('b, 'r, 'f) libs \<Rightarrow> (nat \<times> block_info) list \<Rightarrow> nat \<Rightarrow> ('b, 'r, 'f, nat) cact" where
  "check_pointers L [] cnt = ret cnt"
| "check_pointers L ((bno, info) # ps) cnt =
    abind (check_pointer L bno info) (\<lambda>k. check_pointers L ps (u32 (cnt + k)))"

fun check_doubly_indirect ::
  "('b, 'r, 'f) libs \<Rightarrow> nat \<Rightarrow> (nat \<times> nat) list \<Rightarrow> nat \<Rightarrow> ('b, 'r, 'f, nat) cact" where
  "check_doubly_indirect L ino [] cnt = ret cnt"
| "check_doubly_indirect L ino ((n, dibno) # ps) cnt =
    (if dibno = 0 then check_doubly_indirect L ino ps cnt
     else
       abind (check_pointer L dibno
                \<lparr>bi_owner = ino, bi_offset = LogicalBlockDoublyIndirect n 0 0, bi_type = kDoubleIndirect\<rparr>) (\<lambda>k.
       abind (on_fs (ReadDat L dibno)) (\<lambda>data.
       abind (check_pointers L
                (map (\<lambda>m. (get_u32 data (4 * m),
                   \<lparr>bi_owner = ino, bi_offset = LogicalBlockDoublyIndirect n m 0, bi_type = kIndirect\<rparr>))
                   [0..<kMinfsDirectPerIndirect]) (u32 (cnt + k))) (\<lambda>cnt.
       check_doubly_indirect L ino ps cnt))))"

text \<open>The data blocks: the position after the last one and the number of blocks.\<close>

partial_function (option) check_blocks_loop ::
  "('b, 'r, 'f) libs \<Rightarrow> inode \<Rightarrow> nat \<Rightarrow> nat \<Rightarrow> nat \<Rightarrow> nat \<Rightarrow> ('b, 'r, 'f, nat \<times> nat) cact" where
  "check_blocks_loop L inode ino n next_blk cnt st =
    try_act (GetInodeNthBno L inode n) (\<lambda>r st.
      if r = Err ZX_ERR_OUT_OF_RANGE then Some (Ok (next_blk, cnt), st)
      else
        abind (lift_res r) (\<lambda>(bno, next_n).
        abind (check_pointer L bno \<lparr>bi_owner = ino, bi_offset = n, bi_type = kDirect\<rparr>) (\<lambda>k.
        check_blocks_loop L inode ino next_n (if bno \<noteq> 0 then n + 1 else next_blk) (u32 (cnt + k)))) st) st"

definition CheckFile :: "('b, 'r, 'f) libs \<Rightarrow> inode \<Rightarrow> nat \<Rightarrow> ('b, 'r, 'f, unit) cact" where
  "CheckFile L inode ino =
    abind (check_pointers L
      (map (\<lambda>n. (inum inode ! n,
         \<lparr>bi_owner = ino, bi_offset = LogicalBlockIndirect n 0, bi_type = kIndirect\<rparr>)) [0..<kMinfsIndirect]) 0) (\<lambda>cnt.
    abind (check_doubly_indirect L ino (map (\<lambda>n. (n, dinum inode ! n)) [0..<kMinfsDoublyIndirect]) cnt) (\<lambda>cnt.
    abind (update_ck (\<lambda>c. c\<lparr>ck_cached_dind := 0, ck_cached_ind := 0\<rparr>)) (\<lambda>_.
    abind (check_blocks_loop L inode ino 0 0 cnt) (\<lambda>(next_blk, cnt).
    abind (require_conforming (next_blk = 0 \<or>
             next_blk \<le> u32 (round_up (i_size inode) kMinfsBlockSize) div kMinfsBlockSize)) (\<lambda>_.
    require_conforming (cnt = i_block_count inode))))))"

section \<open>Directories and inodes\<close>

text \<open>What has been seen of a directory.\<close>

record dir_seen =
  ds_dot :: bool
  ds_dotdot :: bool
  ds_count :: nat

text \<open>An entry in use: the name is read again in full. \<open>recurse\<close> is \<open>CheckInode\<close>.\<close>

definition check_entry ::
  "('b, 'r, 'f) libs \<Rightarrow> (nat \<Rightarrow> nat \<Rightarrow> bool \<Rightarrow> ('b, 'r, 'f, unit) cact) \<Rightarrow> nat \<Rightarrow> nat \<Rightarrow> nat \<Rightarrow> bool
    \<Rightarrow> dirent \<Rightarrow> nat \<Rightarrow> nat \<Rightarrow> dir_seen \<Rightarrow> ('b, 'r, 'f, dir_seen) cact" where
  "check_entry L recurse v ino parent recursive de rlen off seen =
    (let dlen = DirentSize (de_namelen de) in
     abind (on_fs (or_status ZX_ERR_IO (ReadInternal L v (li_garbage L) dlen off))) (\<lambda>(actual, buf).
     if actual \<noteq> dlen then fail ZX_ERR_IO
     else
       let de = de_of buf; name = name_of buf; dot = (name = [46]); ddot = (name = dotdot) in
       if de_namelen de = 0 \<or> de_namelen de > u32_sub rlen kMinfsDirentSize
       then fail ZX_ERR_IO_DATA_INTEGRITY
       else
         abind (require_conforming (\<not> dot \<or> (\<not> ds_dot seen \<and> de_ino de = ino))) (\<lambda>_.
         abind (require_conforming (\<not> ddot \<or> (\<not> ds_dotdot seen \<and> de_ino de = parent))) (\<lambda>_.
         abind (if recursive then recurse (de_ino de) ino (dot \<or> ddot) else ret ()) (\<lambda>_.
         ret (seen\<lparr>ds_dot := ds_dot seen \<or> dot, ds_dotdot := ds_dotdot seen \<or> ddot,
                   ds_count := u32 (ds_count seen + 1)\<rparr>))))))"

definition is_last_dirent :: "dirent \<Rightarrow> bool" where
  "is_last_dirent de \<longleftrightarrow> (de_reclen de AND kMinfsReclenLast) \<noteq> 0"

definition bad_dirent :: "dirent \<Rightarrow> nat \<Rightarrow> bool" where
  "bad_dirent de off \<longleftrightarrow>
    (let rlen = u32 (DirentReservedSize de off); dlen = DirentSize (de_namelen de) in
     \<not> is_last_dirent de \<and> (rlen < kMinfsDirentSize \<or> dlen > rlen \<or> dlen > kMinfsMaxDirentSize
       \<or> (rlen AND kMinfsDirentAlignmentMask) \<noteq> 0))"

partial_function (option) check_directory_loop ::
  "('b, 'r, 'f) libs \<Rightarrow> (nat \<Rightarrow> nat \<Rightarrow> bool \<Rightarrow> ('b, 'r, 'f, unit) cact) \<Rightarrow> inode \<Rightarrow> nat \<Rightarrow> nat \<Rightarrow> nat
    \<Rightarrow> bool \<Rightarrow> nat \<Rightarrow> dir_seen \<Rightarrow> ('b, 'r, 'f, dir_seen) cact" where
  "check_directory_loop L recurse inode v ino parent recursive off seen st =
    abind (on_fs (ReadInternal L v (li_garbage L) kMinfsDirentSize off)) (\<lambda>(actual, buf) st.
      if actual = 0 \<and> i_link_count inode = 0 \<and> parent = 0 then Some (Ok seen, st)
      else if actual \<noteq> kMinfsDirentSize then Some (Err ZX_ERR_IO, st)
      else if bad_dirent (de_of buf) off then Some (Err ZX_ERR_IO_DATA_INTEGRITY, st)
      else
        abind (if de_ino (de_of buf) = 0 then ret seen
               else check_entry L recurse v ino parent recursive (de_of buf)
                      (u32 (DirentReservedSize (de_of buf) off)) off seen) (\<lambda>seen st.
        if is_last_dirent (de_of buf) then Some (Ok seen, st)
        else check_directory_loop L recurse inode v ino parent recursive
               (off + u32 (DirentReservedSize (de_of buf) off)) seen st) st) st"

text \<open>The first of the two passes over a directory does not follow its entries.\<close>

definition CheckDirectory ::
  "('b, 'r, 'f) libs \<Rightarrow> (nat \<Rightarrow> nat \<Rightarrow> bool \<Rightarrow> ('b, 'r, 'f, unit) cact) \<Rightarrow> inode \<Rightarrow> nat \<Rightarrow> nat
    \<Rightarrow> bool \<Rightarrow> ('b, 'r, 'f, unit) cact" where
  "CheckDirectory L recurse inode ino parent recursive =
    abind (on_fs (Vnode_Recreate L ino)) (\<lambda>v.
    abind (check_directory_loop L recurse inode v ino parent recursive 0
             \<lparr>ds_dot = False, ds_dotdot = False, ds_count = 0\<rparr>) (\<lambda>seen.
    abind (require_conforming (\<not> (i_link_count inode = 0 \<and> i_dirent_count inode \<noteq> 0))) (\<lambda>_.
    abind (require_conforming (ds_count seen = i_dirent_count inode)) (\<lambda>_.
    abind (require_conforming (ds_dot seen \<or> i_link_count inode = 0)) (\<lambda>_.
    require_conforming (ds_dotdot seen \<or> i_link_count inode = 0))))))"

text \<open>The link counters are 64-bit integers; the counter of an inode is one place before it.\<close>

definition add_link :: "nat \<Rightarrow> int \<Rightarrow> ('b, 'r, 'f, unit) cact" where
  "add_link ino k =
    abind (get_ck ck_links) (\<lambda>links.
    abind (assert_act (0 < ino \<and> ino \<le> length links)) (\<lambda>_.
    let n = links ! (ino - 1) + k in
    if n < - (2 ^ 63) \<or> n \<ge> 2 ^ 63 then fail ZX_ERR_OUT_OF_RANGE
    else update_ck (\<lambda>c. c\<lparr>ck_links := links[ino - 1 := n]\<rparr>)))"

fun CheckInode ::
  "('b, 'r, 'f) libs \<Rightarrow> nat \<Rightarrow> nat \<Rightarrow> nat \<Rightarrow> bool \<Rightarrow> ('b, 'r, 'f, unit) cact" where
  "CheckInode L 0 = (\<lambda>ino parent dot_or_dotdot. abort)"
| "CheckInode L (Suc depth) = (\<lambda>ino parent dot_or_dotdot.
    abind (Checker_GetInode L ino True) (\<lambda>inode.
    abind (get_ck ck_inodes) (\<lambda>checked.
    let prev_checked = rb_get (li_bitmap L) checked ino in
    if i_magic inode = kMinfsMagicDir \<and> prev_checked \<and> \<not> dot_or_dotdot then fail ZX_ERR_BAD_STATE
    else
      abind (add_link ino 1) (\<lambda>_.
      if prev_checked then ret ()
      else
        abind (add_link ino (- int (i_link_count inode))) (\<lambda>_.
        abind (update_ck (\<lambda>c. c\<lparr>ck_inodes := rb_set (li_bitmap L) (ck_inodes c) ino (ino + 1),
                 ck_max_inode := max ino (ck_max_inode c),
                 ck_alloc_inodes := u32 (ck_alloc_inodes c + 1)\<rparr>)) (\<lambda>_.
        abind (on_fs (gets (\<lambda>w. CheckAllocated (li_bitmap L) ino (w_inodes w)))) (\<lambda>in_use.
        abind (require_conforming in_use) (\<lambda>_.
        if i_magic inode = kMinfsMagicDir then
          abind (CheckFile L inode ino) (\<lambda>_.
          abind (CheckDirectory L (CheckInode L depth) inode ino parent False) (\<lambda>_.
          abind (CheckDirectory L (CheckInode L depth) inode ino parent True) (\<lambda>_.
          update_ck (\<lambda>c. c\<lparr>ck_directory_blocks :=
            u32 (ck_directory_blocks c + i_block_count inode)\<rparr>))))
        else if ino = kMinfsRootIno then fail ZX_ERR_BAD_STATE
        else CheckFile L inode ino))))))))"

section \<open>The checks\<close>

definition CheckReserved :: "('b, 'r, 'f) libs \<Rightarrow> ('b, 'r, 'f, unit) cact" where
  "CheckReserved L =
    abind (gets (\<lambda>st. st)) (\<lambda>(c, w).
    abind (if CheckAllocated (li_bitmap L) 0 (w_inodes w) then
             abind (assert_act (\<not> rb_get (li_bitmap L) (ck_inodes c) 0)) (\<lambda>_.
             update_ck (\<lambda>c. c\<lparr>ck_inodes := rb_set (li_bitmap L) (ck_inodes c) 0 1,
               ck_alloc_inodes := u32 (ck_alloc_inodes c + 1)\<rparr>))
           else not_conforming) (\<lambda>_.
    if CheckAllocated (li_bitmap L) 0 (w_blocks w) then
      update_ck (\<lambda>c. c\<lparr>ck_blocks := rb_set (li_bitmap L) (ck_blocks c) 0 1,
        ck_alloc_blocks := u32 (ck_alloc_blocks c + 1)\<rparr>)
    else not_conforming))"

partial_function (option) check_unlinked_loop ::
  "('b, 'r, 'f) libs \<Rightarrow> nat \<Rightarrow> nat \<Rightarrow> nat \<Rightarrow> ('b, 'r, 'f, nat) cact" where
  "check_unlinked_loop L depth last_ino next_ino st =
    (if next_ino \<noteq> 0 then
       abind (Checker_GetInode L next_ino True) (\<lambda>inode st.
       if i_link_count inode > 0 \<or> i_last_inode inode \<noteq> last_ino then Some (Err ZX_ERR_BAD_STATE, st)
       else
         abind (update_ck (\<lambda>c. c\<lparr>ck_links := (ck_links c)[next_ino - 1 := -1]\<rparr>)) (\<lambda>_.
         abind (CheckInode L depth next_ino 0 False) (\<lambda>_.
         check_unlinked_loop L depth next_ino (i_next_inode inode))) st) st
     else Some (Ok last_ino, st))"

definition CheckUnlinkedInodes :: "('b, 'r, 'f) libs \<Rightarrow> nat \<Rightarrow> ('b, 'r, 'f, unit) cact" where
  "CheckUnlinkedInodes L depth =
    abind (on_fs (gets Info)) (\<lambda>info.
    abind (check_unlinked_loop L depth 0 (unlinked_head info)) (\<lambda>last_ino.
    abind (on_fs (gets Info)) (\<lambda>info.
    if unlinked_tail info \<noteq> last_ino then fail ZX_ERR_BAD_STATE else ret ())))"

text \<open>Elements that are allocated but were not found.\<close>

definition missing_elements :: "(nat \<Rightarrow> bool) \<Rightarrow> (nat \<Rightarrow> bool) \<Rightarrow> nat \<Rightarrow> nat" where
  "missing_elements allocated checked n =
    length (filter (\<lambda>i. allocated i \<and> \<not> checked i) [0..<n])"

definition CheckForUnusedBlocks :: "('b, 'r, 'f) libs \<Rightarrow> ('b, 'r, 'f, unit) cact" where
  "CheckForUnusedBlocks L =
    abind (gets (\<lambda>st. st)) (\<lambda>(c, w).
    if missing_elements (\<lambda>i. CheckAllocated (li_bitmap L) i (w_blocks w))
         (rb_get (li_bitmap L) (ck_blocks c)) (block_count (Info w)) > 0
    then fail ZX_ERR_BAD_STATE else ret ())"

definition CheckForUnusedInodes :: "('b, 'r, 'f) libs \<Rightarrow> ('b, 'r, 'f, unit) cact" where
  "CheckForUnusedInodes L =
    abind (gets (\<lambda>st. st)) (\<lambda>(c, w).
    if missing_elements (\<lambda>i. CheckAllocated (li_bitmap L) i (w_inodes w))
         (rb_get (li_bitmap L) (ck_inodes c)) (inode_count (Info w)) > 0
    then fail ZX_ERR_BAD_STATE else ret ())"

definition CheckLinkCounts :: "('b, 'r, 'f, unit) cact" where
  "CheckLinkCounts =
    abind (gets (\<lambda>st. st)) (\<lambda>(c, w).
    if list_all (\<lambda>n. ck_links c ! n = 0) [0..<inode_count (Info w)] then ret ()
    else fail ZX_ERR_BAD_STATE)"

definition CheckAllocatedCounts :: "('b, 'r, 'f, unit) cact" where
  "CheckAllocatedCounts =
    abind (gets (\<lambda>st. st)) (\<lambda>(c, w).
    if ck_alloc_blocks c \<noteq> alloc_block_count (Info w) \<or> ck_alloc_inodes c \<noteq> alloc_inode_count (Info w)
    then fail ZX_ERR_BAD_STATE else ret ())"

text \<open>\<open>journal_check\<close> looks at the journal's own header, \<open>check\<close> is \<open>CheckSuperblock\<close> for the size
  of the device.\<close>

definition CheckSuperblockIntegrity ::
  "('b, 'r, 'f) libs \<Rightarrow> (bytes \<Rightarrow> unit res) \<Rightarrow> (superblock \<Rightarrow> unit res) \<Rightarrow> ('b, 'r, 'f, unit) cact" where
  "CheckSuperblockIntegrity L journal_check check =
    (let offsets = li_offsets L in
     abind (on_fs (or_status ZX_ERR_IO (w_Readblk L (u32 (bo_integrity_start offsets + kBackupSuperblockBlocks))))) (\<lambda>data.
     abind (lift_res (journal_check data)) (\<lambda>_.
     abind (on_fs (gets Info)) (\<lambda>info.
     let backup_location = (if (flags info AND kMinfsFlagFVM) = 0 then kNonFvmSuperblockBackup
                            else bo_integrity_start offsets) in
     abind (on_fs (or_status ZX_ERR_IO (w_Readblk L backup_location))) (\<lambda>data.
     lift_res (check (load_superblock data)))))))"

text \<open>The checks after the walk all run; the first error counts.\<close>

fun run_checks :: "('b, 'r, 'f, unit) cact list \<Rightarrow> unit res \<Rightarrow> ('b, 'r, 'f, unit) cact" where
  "run_checks [] status = lift_res status"
| "run_checks (m # ms) status = try_act m (\<lambda>r. run_checks ms (if status \<noteq> Ok () then status else r))"

definition run_fsck ::
  "('b, 'r, 'f) libs \<Rightarrow> (bytes \<Rightarrow> unit res) \<Rightarrow> (superblock \<Rightarrow> unit res) \<Rightarrow> nat \<Rightarrow> ('b, 'r, 'f, unit) cact" where
  "run_fsck L journal_check check depth =
    abind (CheckReserved L) (\<lambda>_.
    abind (CheckInode L depth kMinfsRootIno kMinfsRootIno False) (\<lambda>_.
    run_checks
      [CheckUnlinkedInodes L depth, CheckForUnusedBlocks L, CheckForUnusedInodes L, CheckLinkCounts,
       CheckAllocatedCounts, CheckSuperblockIntegrity L journal_check check,
       abind (get_ck ck_conforming) (\<lambda>ok. if ok then ret () else fail ZX_ERR_BAD_STATE)] (Ok ())))"

definition Fsck ::
  "('b, 'r, 'f) libs \<Rightarrow> (bytes \<Rightarrow> unit res) \<Rightarrow> (superblock \<Rightarrow> unit res) \<Rightarrow> nat \<Rightarrow> ('b, 'r, 'f, unit) wact" where
  "Fsck L journal_check check depth w =
    (case Checker_Create L (Info w) of
       Err e \<Rightarrow> Some (Err e, w)
     | Panic \<Rightarrow> Some (Panic, w)
     | Ok c \<Rightarrow> (case run_fsck L journal_check check depth (c, w) of
         None \<Rightarrow> None | Some (r, _, w) \<Rightarrow> Some (r, w)))"

end
