(* ===== verification/Mount.thy ===== *)
theory Mount
  imports Fsck Repair
begin

text \<open>
  Loading a file system in the host build, \<open>Minfs::Create\<close> and \<open>ReadInitialBlocks\<close> of \<open>minfs.cc\<close>,
  the root directory, and the queries on a sparse file. The result of loading is the environment,
  with the parts that depend on the superblock filled in, and the state.
\<close>

definition block_storage :: "superblock \<Rightarrow> nat \<Rightarrow> persistent_storage" where
  "block_storage info abm_start_block =
    \<lparr>st_metadata = \<lparr>data_start_block = dat_block info, metadata_start_block = abm_start_block,
       using_fvm = ((flags info AND kMinfsFlagFVM) \<noteq> 0), md_access = access_Blocks\<rparr>,
     st_unit_size = block_size info, st_block_size = block_size info, st_buffer = BlockMapBuf\<rparr>"

definition inode_storage :: "superblock \<Rightarrow> nat \<Rightarrow> nat \<Rightarrow> persistent_storage" where
  "inode_storage info ino_start_block ibm_start_block =
    \<lparr>st_metadata = \<lparr>data_start_block = ino_start_block, metadata_start_block = ibm_start_block,
       using_fvm = ((flags info AND kMinfsFlagFVM) \<noteq> 0), md_access = access_Inodes\<rparr>,
     st_unit_size = kMinfsInodeSize, st_block_size = block_size info, st_buffer = InodeMapBuf\<rparr>"

text \<open>Both bitmaps are read with the operations that their allocators queued.\<close>

definition ReadInitialBlocks ::
  "('b, 'r, 'f) libs \<Rightarrow> superblock \<Rightarrow> bcache \<Rightarrow> superblock_manager
    \<Rightarrow> ('f, ('b, 'r, 'f) libs \<times> ('b, 'r, 'f) world) act" where
  "ReadInitialBlocks L info bc sm f =
    (case res_bind (BlockOffsets bc sm) (\<lambda>offsets.
            let bst = block_storage info (bo_abm_start offsets);
                ist = inode_storage info (bo_ino_start offsets) (bo_ibm_start offsets) in
            res_bind (BlockSize info) (\<lambda>_.
            res_bind (Allocator_Create (li_bitmap L) bst sm) (\<lambda>(blocks, bload).
            res_bind (Allocator_Create (li_bitmap L) ist sm) (\<lambda>(inodes, iload).
            Ok (L\<lparr>li_bcache := bc, li_block_storage := bst, li_inode_storage := ist,
                  li_inode_start := bo_ino_start offsets, li_offsets := offsets\<rparr>,
                \<lparr>w_sm = sm, w_blocks = blocks, w_inodes = inodes, w_fd = f, w_vnodes = Map.empty,
                 w_hash = Map.empty, w_next_vnode = 0, w_tx = None\<rparr>, [bload, iload]))))) of
       Err e \<Rightarrow> Some (Err e, f)
     | Panic \<Rightarrow> Some (Panic, f)
     | Ok (L, w, ops) \<Rightarrow>
         (case w_RunRequests L ops w of
            None \<Rightarrow> None
          | Some (Ok _, w) \<Rightarrow> Some (Ok (L, w), w_fd w)
          | Some (Err e, w) \<Rightarrow> Some (Err e, w_fd w)
          | Some (Panic, w) \<Rightarrow> Some (Panic, w_fd w)))"

definition Minfs_Create ::
  "('b, 'r, 'f) libs \<Rightarrow> (superblock \<Rightarrow> nat \<Rightarrow> unit res) \<Rightarrow> bcache \<Rightarrow> bool
    \<Rightarrow> ('f, ('b, 'r, 'f) libs \<times> ('b, 'r, 'f) world) act" where
  "Minfs_Create L check bc repair =
    try_act (Readblk (li_posix L) bc kSuperblockStart) (\<lambda>r.
    let readblk = (\<lambda>_. case r of Ok data \<Rightarrow> Ok (load_superblock data) | Err e \<Rightarrow> Err e | Panic \<Rightarrow> Panic) in
    abind (lift_res (LoadSuperblockWithRepair (LoadSuperblock readblk check (bc_max_blocks bc))
             (Err ZX_ERR_NOT_SUPPORTED) repair)) (\<lambda>info.
    if length (bc_extent_lengths bc) \<noteq> 0 \<and> length (bc_extent_lengths bc) \<noteq> kExtentCount
    then fail ZX_ERR_INVALID_ARGS
    else
      abind (lift_res (SuperblockManager_Create check info (bc_max_blocks bc) repair)) (\<lambda>sm.
      ReadInitialBlocks L info bc sm)))"

definition OpenRootNode :: "('b, 'r, 'f) libs \<Rightarrow> ('b, 'r, 'f, nat) wact" where
  "OpenRootNode L = VnodeGet L kMinfsRootIno"

text \<open>The block cache over a part of a file; \<open>file_size\<close> is the result of \<open>fstat\<close> and
  \<open>allocated\<close> whether memory could be allocated.\<close>

definition CreateBcacheFromFd :: "bool \<Rightarrow> int option \<Rightarrow> int \<Rightarrow> int \<Rightarrow> nat list \<Rightarrow> bcache res" where
  "CreateBcacheFromFd allocated file_size start stop extent_lengths =
    (if start \<ge> stop then Err ZX_ERR_INVALID_ARGS
     else if length extent_lengths \<noteq> kExtentCount then Err ZX_ERR_INVALID_ARGS
     else case file_size of
       None \<Rightarrow> Err ZX_ERR_IO
     | Some sz \<Rightarrow>
         if sz < stop then Err ZX_ERR_INVALID_ARGS
         else
           let bc = Bcache_Create (u32 (nat ((stop - start) div int kMinfsBlockSize)))
           in case SetSparse allocated (nat start) extent_lengths bc of
                (Ok _, bc) \<Rightarrow> Ok bc | (Err e, bc) \<Rightarrow> Err e | (Panic, bc) \<Rightarrow> Panic)"

text \<open>\<open>load\<close> is \<open>LoadSuperblock\<close> on the block cache.\<close>

definition SparseUsedDataSize ::
  "(bcache \<Rightarrow> superblock res) \<Rightarrow> bool \<Rightarrow> int option \<Rightarrow> int \<Rightarrow> int \<Rightarrow> nat list \<Rightarrow> nat res" where
  "SparseUsedDataSize load allocated file_size start stop extent_lengths =
    res_bind (CreateBcacheFromFd allocated file_size start stop extent_lengths) (\<lambda>bc. UsedDataSize (load bc))"

definition SparseUsedInodes ::
  "(bcache \<Rightarrow> superblock res) \<Rightarrow> bool \<Rightarrow> int option \<Rightarrow> int \<Rightarrow> int \<Rightarrow> nat list \<Rightarrow> nat res" where
  "SparseUsedInodes load allocated file_size start stop extent_lengths =
    res_bind (CreateBcacheFromFd allocated file_size start stop extent_lengths) (\<lambda>bc. UsedInodes (load bc))"

definition SparseUsedSize ::
  "(bcache \<Rightarrow> superblock res) \<Rightarrow> bool \<Rightarrow> int option \<Rightarrow> int \<Rightarrow> int \<Rightarrow> nat list \<Rightarrow> nat res" where
  "SparseUsedSize load allocated file_size start stop extent_lengths =
    res_bind (CreateBcacheFromFd allocated file_size start stop extent_lengths) (\<lambda>bc. UsedSize (load bc))"

end
