(* ===== verification/Dirops.thy ===== *)
theory Dirops
  imports Directory
begin

text \<open>
  The operations of a directory that change the tree, \<open>directory.cc\<close>: creation, removal, renaming
  and linking of names, in the host build.
\<close>

text \<open>\<open>S_ISDIR\<close> of POSIX, and the block of a new directory as bytes.\<close>

definition S_ISDIR :: "nat \<Rightarrow> bool" where
  "S_ISDIR mode \<longleftrightarrow> (mode AND 0xF000) = 0x4000"

fun directory_bytes :: "(nat \<times> dirent \<times> string) list \<Rightarrow> bytes \<Rightarrow> bytes" where
  "directory_bytes [] b = b"
| "directory_bytes ((off, de, name) # es) b =
    directory_bytes es (store_name off (map of_char name) (store_dirent off de b))"

definition record_size :: "nat list \<Rightarrow> nat" where
  "record_size name = DirentSize (length name mod 256)"

text \<open>\<open>open_vnode\<close> is \<open>OpenValidating\<close> of the file system library.\<close>

definition Create ::
  "('b, 'r, 'f) libs \<Rightarrow> (nat \<Rightarrow> ('b, 'r, 'f, unit) wact) \<Rightarrow> nat \<Rightarrow> nat list \<Rightarrow> nat
    \<Rightarrow> ('b, 'r, 'f, nat) wact" where
  "Create L open_vnode v name mode =
    (if \<not> li_valid_name L name then fail ZX_ERR_INVALID_ARGS
     else
       abind (get_vnode v) (\<lambda>vn.
       if IsUnlinked vn then fail ZX_ERR_BAD_STATE
       else
         abind (ForEachDirent L v (new_args name) DirentCallbackFind) (\<lambda>(found, args).
         if found then fail ZX_ERR_ALREADY_EXISTS
         else
           let type = (if S_ISDIR mode then kMinfsTypeDir else kMinfsTypeFile);
               args = args\<lparr>da_type := type, da_reclen := record_size name\<rparr> in
           abind (ForEachDirent L v args DirentCallbackFindSpace) (\<lambda>(found, args).
           if \<not> found then fail ZX_ERR_NO_SPACE
           else
             abind (GetSize v) (\<lambda>size.
             abind (lift_res (GetRequiredBlockCount size (da_reclen args) kMinfsBlockSize)) (\<lambda>blocks.
             in_transaction L 1 (u32 (blocks + 1))
               (abind (VnodeNew L type) (\<lambda>child.
                abind (get_vnode child) (\<lambda>cn.
                abind (if type = kMinfsTypeDir then
                         abind (or_status ZX_ERR_IO
                           (WriteExactInternal L child
                              (directory_bytes (InitializeDirectory (vn_ino cn) (vn_ino vn)) (li_garbage L))
                              (DirentSize 1 + DirentSize 2) 0)) (\<lambda>_.
                         InodeSync L child kMxFsSyncDefault)
                       else ret ()) (\<lambda>_.
                abind (AppendDirent L v (args\<lparr>da_ino := vn_ino cn\<rparr>)) (\<lambda>_.
                abind (CommitTransaction L) (\<lambda>_.
                abind (open_vnode child) (\<lambda>_. ret child)))))))))))))"

definition Unlink :: "('b, 'r, 'f) libs \<Rightarrow> nat \<Rightarrow> nat list \<Rightarrow> bool \<Rightarrow> ('b, 'r, 'f, unit) wact" where
  "Unlink L v name must_be_dir =
    in_transaction L 0 0
      (abind (ForEachDirent L v ((new_args name)\<lparr>da_type := (if must_be_dir then kMinfsTypeDir else 0)\<rparr>)
                (DirentCallbackUnlink L v)) (\<lambda>(found, args).
       if \<not> found then fail ZX_ERR_NOT_FOUND else CommitTransaction L))"

text \<open>The walk up from the new directory to the root.\<close>

partial_function (option) subdirectory_loop ::
  "('b, 'r, 'f) libs \<Rightarrow> nat \<Rightarrow> nat \<Rightarrow> ('b, 'r, 'f, unit) wact" where
  "subdirectory_loop L v vn w =
    abind (get_vnode vn) (\<lambda>n.
    abind (get_vnode v) (\<lambda>self w.
    if vn_ino n \<noteq> kMinfsRootIno then
      if vn_ino n = vn_ino self then Some (Err ZX_ERR_INVALID_ARGS, w)
      else abind (LookupInternal L vn dotdot) (\<lambda>vn. subdirectory_loop L v vn) w
    else Some (Ok (), w))) w"

definition CheckNotSubdirectory :: "('b, 'r, 'f) libs \<Rightarrow> nat \<Rightarrow> nat \<Rightarrow> ('b, 'r, 'f, unit) wact" where
  "CheckNotSubdirectory L v newdir = subdirectory_loop L v newdir"

text \<open>The last steps of a renaming, in its transaction.\<close>

definition rename_entries ::
  "('b, 'r, 'f) libs \<Rightarrow> nat \<Rightarrow> nat \<Rightarrow> nat list \<Rightarrow> nat list \<Rightarrow> nat \<Rightarrow> dir_args \<Rightarrow> ('b, 'r, 'f, unit) wact" where
  "rename_entries L v newdir oldname newname oldvn args =
    abind (get_vnode v) (\<lambda>vn.
    abind (get_vnode newdir) (\<lambda>nn.
    abind (get_vnode oldvn) (\<lambda>on.
    let append_off = da_off args; append_prev = da_off_prev args;
        args = args\<lparr>da_name := newname, da_ino := vn_ino on\<rparr> in
    abind (ForEachDirent L newdir args (DirentCallbackAttemptRename L newdir)) (\<lambda>(found, args).
    abind (if \<not> found
           then AppendDirent L newdir (args\<lparr>da_off := append_off, da_off_prev := append_prev\<rparr>)
           else ret ()) (\<lambda>_.
    abind (if da_type args = kMinfsTypeDir \<and> vn_ino vn \<noteq> vn_ino nn then
             abind (Lookup L newdir newname) (\<lambda>moved.
             abind (ForEachDirent L moved (args\<lparr>da_name := dotdot, da_ino := vn_ino nn\<rparr>)
                      (DirentCallbackUpdateInode L moved)) (\<lambda>(found, args).
             if \<not> found then fail ZX_ERR_NOT_FOUND else ret args))
           else ret args) (\<lambda>args.
    abind (AddLink oldvn) (\<lambda>_.
    abind (ForEachDirent L v (args\<lparr>da_name := oldname\<rparr>) (DirentCallbackForceUnlink L v)) (\<lambda>(found, args).
    if \<not> found then fail ZX_ERR_NOT_FOUND else CommitTransaction L))))))))"

definition Rename ::
  "('b, 'r, 'f) libs \<Rightarrow> nat \<Rightarrow> nat \<Rightarrow> nat list \<Rightarrow> nat list \<Rightarrow> bool \<Rightarrow> bool \<Rightarrow> ('b, 'r, 'f, unit) wact" where
  "Rename L v newdir oldname newname src_must_be_dir dst_must_be_dir =
    abind (get_vnode newdir) (\<lambda>nn.
    if \<not> vn_directory nn then fail ZX_ERR_NOT_SUPPORTED
    else if IsUnlinked nn then fail ZX_ERR_NOT_FOUND
    else
      abind (ForEachDirent L v (new_args oldname) DirentCallbackFind) (\<lambda>(found, args).
      if \<not> found then fail ZX_ERR_NOT_FOUND
      else
        abind (VnodeGet L (da_ino args)) (\<lambda>oldvn.
        abind (get_vnode oldvn) (\<lambda>on.
        abind (if vn_directory on then CheckNotSubdirectory L oldvn newdir else ret ()) (\<lambda>_.
        abind (get_vnode v) (\<lambda>vn.
        if \<not> vn_directory on \<and> (src_must_be_dir \<or> dst_must_be_dir) then fail ZX_ERR_NOT_DIR
        else if vn_ino nn = vn_ino vn \<and> oldname = newname then ret ()
        else
          let args = args\<lparr>da_type := (if vn_directory on then kMinfsTypeDir else kMinfsTypeFile),
                          da_reclen := record_size newname\<rparr> in
          abind (ForEachDirent L newdir args DirentCallbackFindSpace) (\<lambda>(found, args).
          if \<not> found then fail ZX_ERR_NO_SPACE
          else
            abind (get_inode newdir) (\<lambda>ni.
            abind (lift_res (GetRequiredBlockCount (i_size ni) (da_reclen args) kMinfsBlockSize)) (\<lambda>blocks.
            in_transaction L 0 blocks
              (rename_entries L v newdir oldname newname oldvn args))))))))))"

definition Link :: "('b, 'r, 'f) libs \<Rightarrow> nat \<Rightarrow> nat list \<Rightarrow> nat \<Rightarrow> ('b, 'r, 'f, unit) wact" where
  "Link L v name target =
    abind (get_vnode v) (\<lambda>vn.
    if IsUnlinked vn then fail ZX_ERR_BAD_STATE
    else
      abind (get_vnode target) (\<lambda>tn.
      if vn_directory tn then fail ZX_ERR_NOT_FILE
      else
        abind (ForEachDirent L v (new_args name) DirentCallbackFind) (\<lambda>(found, args).
        if found then fail ZX_ERR_ALREADY_EXISTS
        else
          let args = args\<lparr>da_type := kMinfsTypeFile, da_reclen := record_size name\<rparr> in
          abind (ForEachDirent L v args DirentCallbackFindSpace) (\<lambda>(found, args).
          if \<not> found then fail ZX_ERR_NO_SPACE
          else
            abind (get_inode v) (\<lambda>i.
            abind (lift_res (GetRequiredBlockCount (i_size i) (da_reclen args) kMinfsBlockSize)) (\<lambda>blocks.
            in_transaction L 0 blocks
              (abind (AppendDirent L v (args\<lparr>da_ino := vn_ino tn\<rparr>)) (\<lambda>_.
               abind (AddLink target) (\<lambda>_.
               abind (InodeSync L target kMxFsSyncDefault) (\<lambda>_. CommitTransaction L))))))))))"

end
