(* ===== verification/Host.thy ===== *)
theory Host
  imports Mount Dirops
begin

text \<open>
  The POSIX-like interface of the host tools, \<open>host.cc\<close>: a table of open files over the vnodes.
  Results are the integers that the C functions return; \<open>errno\<close> is part of the state. Opening
  a path goes through the file system library and is a parameter.
\<close>

record host_file =
  hf_vn :: "nat option"
  hf_off :: nat
  hf_cookie :: dir_cookie

record 'w host =
  ho_files :: "host_file list"
  ho_errno :: int
  ho_root :: "nat option"
  ho_world :: 'w

definition kMaxFd :: nat where "kMaxFd = 64"
definition kFdMagic :: nat where "kFdMagic = 0x45AB0000"

definition closed_file :: host_file where
  "closed_file = \<lparr>hf_vn = None, hf_off = 0, hf_cookie = \<lparr>dc_off = 0, dc_seqno = 0\<rparr>\<rparr>"

definition new_host :: "'w \<Rightarrow> 'w host" where
  "new_host w = \<lparr>ho_files = replicate kMaxFd closed_file, ho_errno = 0, ho_root = None, ho_world = w\<rparr>"

type_synonym ('b, 'r, 'f, 'a) hact = "(('b, 'r, 'f) world host, 'a) act"

definition on_world :: "('b, 'r, 'f, 'a) wact \<Rightarrow> ('b, 'r, 'f, 'a) hact" where
  "on_world m h = (case m (ho_world h) of None \<Rightarrow> None | Some (r, w) \<Rightarrow> Some (r, h\<lparr>ho_world := w\<rparr>))"

text \<open>The index of the open file of a descriptor, and its vnode.\<close>

definition file_get :: "int \<Rightarrow> 'w host \<Rightarrow> (nat \<times> nat) option" where
  "file_get fd h =
    (let fd32 = nat (fd mod 4294967296); i = (fd32 AND 0xFFFF) in
     if (fd32 AND 0xFFFF0000) \<noteq> kFdMagic then None
     else if i \<ge> kMaxFd then None
     else map_option (\<lambda>v. (i, v)) (hf_vn (ho_files h ! i)))"

text \<open>The \<open>errno\<close> values of Linux.\<close>

definition EIO :: int where "EIO = 5"
definition EEXIST :: int where "EEXIST = 17"
definition EINVAL :: int where "EINVAL = 22"
definition EMFILE :: int where "EMFILE = 24"
definition EFBIG :: int where "EFBIG = 27"
definition ENOSPC :: int where "ENOSPC = 28"
definition ENOENT :: int where "ENOENT = 2"
definition ENOTSUP :: int where "ENOTSUP = 95"

definition status_to_errno :: "'a res \<Rightarrow> int" where
  "status_to_errno r =
    (case r of
       Ok _ \<Rightarrow> 0
     | Err e \<Rightarrow> if e = ZX_ERR_FILE_BIG then EFBIG else if e = ZX_ERR_NO_SPACE then ENOSPC
               else if e = ZX_ERR_ALREADY_EXISTS then EEXIST else EIO
     | Panic \<Rightarrow> EIO)"

text \<open>The macros \<open>FAIL\<close> and \<open>STATUS\<close>.\<close>

definition host_FAIL :: "int \<Rightarrow> ('b, 'r, 'f, int) hact" where
  "host_FAIL err = abind (modify (\<lambda>h. h\<lparr>ho_errno := err\<rparr>)) (\<lambda>_. ret (if err \<noteq> 0 then -1 else 0))"

definition host_STATUS :: "'a res \<Rightarrow> ('b, 'r, 'f, int) hact" where
  "host_STATUS r = host_FAIL (status_to_errno r)"

definition set_offset :: "nat \<Rightarrow> nat \<Rightarrow> 'w host \<Rightarrow> 'w host" where
  "set_offset i off h = h\<lparr>ho_files := (ho_files h)[i := (ho_files h ! i)\<lparr>hf_off := off\<rparr>]\<rparr>"

section \<open>The vnode interface\<close>

definition vnode_Read ::
  "('b, 'r, 'f) libs \<Rightarrow> nat \<Rightarrow> bytes \<Rightarrow> nat \<Rightarrow> nat \<Rightarrow> ('b, 'r, 'f, nat \<times> bytes) wact" where
  "vnode_Read L v buf len off =
    abind (get_vnode v) (\<lambda>vn.
    if vn_directory vn then fail ZX_ERR_NOT_FILE else File_Read L v buf len off)"

definition vnode_Write ::
  "('b, 'r, 'f) libs \<Rightarrow> nat \<Rightarrow> bytes \<Rightarrow> nat \<Rightarrow> nat \<Rightarrow> ('b, 'r, 'f, nat) wact" where
  "vnode_Write L v data len off =
    abind (get_vnode v) (\<lambda>vn.
    if vn_directory vn then lift_res Directory_Write else File_Write L v data len off)"

definition vnode_Truncate :: "('b, 'r, 'f) libs \<Rightarrow> nat \<Rightarrow> nat \<Rightarrow> ('b, 'r, 'f, unit) wact" where
  "vnode_Truncate L v len =
    abind (get_vnode v) (\<lambda>vn.
    if vn_directory vn then lift_res Directory_Truncate else File_Truncate L v len)"

section \<open>Files\<close>

text \<open>The options of a connection, of the file system library, and the flags of Linux that set them.\<close>

record connection_options =
  co_read :: bool
  co_write :: bool
  co_node_reference :: bool
  co_directory :: bool
  co_create :: bool
  co_fail_if_exists :: bool
  co_truncate :: bool
  co_append :: bool
  co_posix_write :: bool

definition no_options :: connection_options where
  "no_options = \<lparr>co_read = False, co_write = False, co_node_reference = False, co_directory = False,
     co_create = False, co_fail_if_exists = False, co_truncate = False, co_append = False,
     co_posix_write = False\<rparr>"

definition O_ACCMODE :: nat where "O_ACCMODE = 3"
definition O_RDONLY :: nat where "O_RDONLY = 0"
definition O_WRONLY :: nat where "O_WRONLY = 1"
definition O_RDWR :: nat where "O_RDWR = 2"
definition O_CREAT :: nat where "O_CREAT = 64"
definition O_EXCL :: nat where "O_EXCL = 128"
definition O_TRUNC :: nat where "O_TRUNC = 512"
definition O_APPEND :: nat where "O_APPEND = 1024"
definition O_DIRECTORY :: nat where "O_DIRECTORY = 65536"
definition O_PATH :: nat where "O_PATH = 2097152"

definition fdio_flags_to_connection_options :: "nat \<Rightarrow> connection_options" where
  "fdio_flags_to_connection_options fl =
    (let acc = fl AND O_ACCMODE in
     no_options\<lparr>co_read := (acc = O_RDONLY \<or> acc = O_RDWR),
       co_write := (acc = O_WRONLY \<or> acc = O_RDWR),
       co_node_reference := ((fl AND O_PATH) \<noteq> 0),
       co_directory := ((fl AND O_DIRECTORY) \<noteq> 0),
       co_create := ((fl AND O_CREAT) \<noteq> 0),
       co_fail_if_exists := ((fl AND O_EXCL) \<noteq> 0),
       co_truncate := ((fl AND O_TRUNC) \<noteq> 0),
       co_append := ((fl AND O_APPEND) \<noteq> 0)\<rparr>)"

text \<open>\<open>open_path\<close> is \<open>Vfs::Open\<close> from the root; the first free entry is taken.\<close>

type_synonym ('b, 'r, 'f) vfs_open =
  "nat list \<Rightarrow> connection_options \<Rightarrow> nat \<Rightarrow> ('b, 'r, 'f, nat) wact"

fun first_free :: "host_file list \<Rightarrow> nat \<Rightarrow> nat option" where
  "first_free [] i = None"
| "first_free (f # fs) i = (if hf_vn f = None then Some i else first_free fs (i + 1))"

definition emu_open ::
  "('b, 'r, 'f) vfs_open \<Rightarrow> nat list \<Rightarrow> nat \<Rightarrow> nat \<Rightarrow> ('b, 'r, 'f, int) hact" where
  "emu_open open_path path fl mode =
    (if (fl AND O_APPEND) \<noteq> 0 then abind (modify (\<lambda>h. h\<lparr>ho_errno := ENOTSUP\<rparr>)) (\<lambda>_. ret (-1))
     else
       abind (gets (\<lambda>h. first_free (ho_files h) 0)) (\<lambda>free. case free of
         None \<Rightarrow> host_FAIL EMFILE
       | Some i \<Rightarrow>
           try_act (on_world (open_path (drop 2 path) (fdio_flags_to_connection_options fl) mode)) (\<lambda>r. case r of
             Ok v \<Rightarrow>
               abind (modify (\<lambda>h. h\<lparr>ho_files := (ho_files h)[i := (ho_files h ! i)\<lparr>hf_vn := Some v\<rparr>]\<rparr>)) (\<lambda>_.
               ret (int (i OR kFdMagic)))
           | _ \<Rightarrow> host_STATUS r)))"

text \<open>\<open>close\<close> is \<open>Vnode::Close\<close> of the library, with the release of the reference.\<close>

definition emu_close :: "(nat \<Rightarrow> ('b, 'r, 'f, unit) wact) \<Rightarrow> int \<Rightarrow> ('b, 'r, 'f, int) hact" where
  "emu_close close fd =
    abind (gets (file_get fd)) (\<lambda>f. case f of
      None \<Rightarrow> ret (-1)
    | Some (i, v) \<Rightarrow>
        try_act (on_world (close v)) (\<lambda>_.
        abind (modify (\<lambda>h. h\<lparr>ho_files := (ho_files h)[i := closed_file]\<rparr>)) (\<lambda>_. ret 0)))"

definition emu_write ::
  "('b, 'r, 'f) libs \<Rightarrow> int \<Rightarrow> bytes \<Rightarrow> nat \<Rightarrow> ('b, 'r, 'f, int) hact" where
  "emu_write L fd buf cnt =
    abind (gets (file_get fd)) (\<lambda>f. case f of
      None \<Rightarrow> ret (-1)
    | Some (i, v) \<Rightarrow>
        abind (gets (\<lambda>h. hf_off (ho_files h ! i))) (\<lambda>off.
        try_act (on_world (vnode_Write L v buf cnt off)) (\<lambda>r. case r of
          Ok actual \<Rightarrow> abind (modify (set_offset i (u64 (off + actual)))) (\<lambda>_. ret (int actual))
        | _ \<Rightarrow> host_STATUS r)))"

definition emu_pwrite ::
  "('b, 'r, 'f) libs \<Rightarrow> int \<Rightarrow> bytes \<Rightarrow> nat \<Rightarrow> nat \<Rightarrow> ('b, 'r, 'f, int) hact" where
  "emu_pwrite L fd buf cnt off =
    abind (gets (file_get fd)) (\<lambda>f. case f of
      None \<Rightarrow> ret (-1)
    | Some (i, v) \<Rightarrow>
        try_act (on_world (vnode_Write L v buf cnt off)) (\<lambda>r. case r of
          Ok actual \<Rightarrow> ret (int actual)
        | _ \<Rightarrow> host_STATUS r))"

definition emu_read ::
  "('b, 'r, 'f) libs \<Rightarrow> int \<Rightarrow> bytes \<Rightarrow> nat \<Rightarrow> ('b, 'r, 'f, int \<times> bytes) hact" where
  "emu_read L fd buf cnt =
    abind (gets (file_get fd)) (\<lambda>f. case f of
      None \<Rightarrow> ret (-1, buf)
    | Some (i, v) \<Rightarrow>
        abind (gets (\<lambda>h. hf_off (ho_files h ! i))) (\<lambda>off.
        try_act (on_world (vnode_Read L v buf cnt off)) (\<lambda>r. case r of
          Ok (actual, data) \<Rightarrow>
            abind (modify (set_offset i (u64 (off + actual)))) (\<lambda>_. ret (int actual, data))
        | _ \<Rightarrow> abind (host_STATUS r) (\<lambda>n. ret (n, buf)))))"

definition emu_pread ::
  "('b, 'r, 'f) libs \<Rightarrow> int \<Rightarrow> bytes \<Rightarrow> nat \<Rightarrow> nat \<Rightarrow> ('b, 'r, 'f, int \<times> bytes) hact" where
  "emu_pread L fd buf cnt off =
    abind (gets (file_get fd)) (\<lambda>f. case f of
      None \<Rightarrow> ret (-1, buf)
    | Some (i, v) \<Rightarrow>
        try_act (on_world (vnode_Read L v buf cnt off)) (\<lambda>r. case r of
          Ok (actual, data) \<Rightarrow> ret (int actual, data)
        | _ \<Rightarrow> abind (host_STATUS r) (\<lambda>n. ret (n, buf))))"

definition emu_ftruncate :: "('b, 'r, 'f) libs \<Rightarrow> int \<Rightarrow> nat \<Rightarrow> ('b, 'r, 'f, int) hact" where
  "emu_ftruncate L fd len =
    abind (gets (file_get fd)) (\<lambda>f. case f of
      None \<Rightarrow> ret (-1)
    | Some (i, v) \<Rightarrow>
        try_act (on_world (vnode_Truncate L v len)) (\<lambda>r. ret (case r of Ok _ \<Rightarrow> 0 | _ \<Rightarrow> -1)))"

text \<open>Seeking, with the unsigned sum and the tests for its wrap-around.\<close>

datatype whence = SEEK_SET | SEEK_CUR | SEEK_END | SEEK_other

definition to_off_t :: "nat \<Rightarrow> int" where
  "to_off_t n = (if n < 2 ^ 63 then int n else int n - 2 ^ 64)"

definition seek_from :: "nat \<Rightarrow> nat \<Rightarrow> int \<Rightarrow> ('b, 'r, 'f, int) hact" where
  "seek_from i old offset =
    (let n = nat ((int old + offset) mod 2 ^ 64) in
     if offset < 0 \<and> n \<ge> old \<or> \<not> offset < 0 \<and> n < old then host_FAIL EINVAL
     else abind (modify (set_offset i n)) (\<lambda>_. ret (to_off_t n)))"

definition emu_lseek :: "int \<Rightarrow> int \<Rightarrow> whence \<Rightarrow> ('b, 'r, 'f, int) hact" where
  "emu_lseek fd offset wh =
    abind (gets (file_get fd)) (\<lambda>f. case f of
      None \<Rightarrow> ret (-1)
    | Some (i, v) \<Rightarrow>
        (case wh of
           SEEK_SET \<Rightarrow>
             if offset < 0 then host_FAIL EINVAL
             else abind (modify (set_offset i (nat offset))) (\<lambda>_. ret (to_off_t (nat offset)))
         | SEEK_END \<Rightarrow>
             try_act (on_world (GetAttributes v)) (\<lambda>r. case r of
               Ok a \<Rightarrow> seek_from i (va_content_size a) offset
             | _ \<Rightarrow> host_FAIL EINVAL)
         | SEEK_CUR \<Rightarrow>
             abind (gets (\<lambda>h. hf_off (ho_files h ! i))) (\<lambda>old. seek_from i old offset)
         | SEEK_other \<Rightarrow> host_FAIL EINVAL))"

section \<open>Status and paths\<close>

record stat =
  st_type :: nat
  st_size :: nat
  st_ino :: nat
  st_ctime :: nat
  st_mtime :: nat

definition do_stat :: "nat \<Rightarrow> ('b, 'r, 'f, stat) wact" where
  "do_stat v =
    abind (GetAttributes v) (\<lambda>a.
    ret \<lparr>st_type = va_type a, st_size = va_content_size a, st_ino = va_inode a,
         st_ctime = va_creation_time a, st_mtime = va_modification_time a\<rparr>)"

definition emu_fstat :: "int \<Rightarrow> ('b, 'r, 'f, int \<times> stat option) hact" where
  "emu_fstat fd =
    abind (gets (file_get fd)) (\<lambda>f. case f of
      None \<Rightarrow> ret (-1, None)
    | Some (i, v) \<Rightarrow>
        try_act (on_world (do_stat v)) (\<lambda>r.
        abind (host_STATUS r) (\<lambda>n. ret (n, case r of Ok s \<Rightarrow> Some s | _ \<Rightarrow> None))))"

definition slash :: nat where "slash = 47"

text \<open>The names on a path, without the empty ones.\<close>

partial_function (option) walk_path ::
  "('b, 'r, 'f) libs \<Rightarrow> nat list \<Rightarrow> nat \<Rightarrow> ('b, 'r, 'f, nat) wact" where
  "walk_path L path cur w =
    (if dropWhile (\<lambda>c. c = slash) path = [] then Some (Ok cur, w)
     else
       abind (Lookup L cur (takeWhile (\<lambda>c. c \<noteq> slash) (dropWhile (\<lambda>c. c = slash) path))) (\<lambda>v w.
       if dropWhile (\<lambda>c. c \<noteq> slash) (dropWhile (\<lambda>c. c = slash) path) = [] then Some (Ok v, w)
       else walk_path L (tl (dropWhile (\<lambda>c. c \<noteq> slash) (dropWhile (\<lambda>c. c = slash) path))) v w) w)"

definition emu_stat :: "('b, 'r, 'f) libs \<Rightarrow> nat list \<Rightarrow> ('b, 'r, 'f, int \<times> stat option) hact" where
  "emu_stat L fn =
    abind (gets ho_root) (\<lambda>root. case root of
      None \<Rightarrow> abort
    | Some v \<Rightarrow>
        try_act (on_world (walk_path L (drop 2 fn) v)) (\<lambda>r. case r of
          Ok v \<Rightarrow>
            try_act (on_world (do_stat v)) (\<lambda>r.
            abind (host_STATUS r) (\<lambda>n. ret (n, case r of Ok s \<Rightarrow> Some s | _ \<Rightarrow> None)))
        | _ \<Rightarrow> ret (- ENOENT, None)))"

definition S_IFDIR :: nat where "S_IFDIR = 0x4000"

text \<open>The mode of the caller is overwritten before its permission bits are used.\<close>

definition emu_mkdir ::
  "('b, 'r, 'f) vfs_open \<Rightarrow> (nat \<Rightarrow> ('b, 'r, 'f, unit) wact)
    \<Rightarrow> nat list \<Rightarrow> nat \<Rightarrow> ('b, 'r, 'f, int) hact" where
  "emu_mkdir open_path close path mode0 =
    (let mode = S_IFDIR in
     abind (emu_open open_path path (O_CREAT OR O_EXCL) (S_IFDIR OR (mode AND 0x1FF))) (\<lambda>fd.
     if fd \<ge> 0 then abind (emu_close close fd) (\<lambda>_. ret 0) else ret fd))"

text \<open>The block cache of a path: \<open>fd\<close> says whether it could be opened, \<open>file_size\<close> is the result of
  \<open>fstat\<close>. A failed \<open>fstat\<close> returns success without a cache.\<close>

definition emu_create_bcache :: "bool \<Rightarrow> nat option \<Rightarrow> int \<times> bcache option" where
  "emu_create_bcache fd file_size =
    (if \<not> fd then (-1, None)
     else case file_size of
       None \<Rightarrow> (0, None)
     | Some sz \<Rightarrow> (0, Some (Bcache_Create (u32 (sz div kMinfsBlockSize)))))"

definition emu_mount_bcache ::
  "('b, 'r, 'f) libs \<Rightarrow> (superblock \<Rightarrow> nat \<Rightarrow> unit res) \<Rightarrow> bcache option \<Rightarrow> 'f
    \<Rightarrow> ((int \<times> (('b, 'r, 'f) libs \<times> ('b, 'r, 'f) world host) option) res) option" where
  "emu_mount_bcache L check bc f =
    (case bc of
       None \<Rightarrow> Some Panic
     | Some bc \<Rightarrow>
         (case Minfs_Create L check bc False f of
            None \<Rightarrow> None
          | Some (Ok (L, w), f) \<Rightarrow>
              (case OpenRootNode L w of
                 None \<Rightarrow> None
               | Some (Ok v, w) \<Rightarrow> Some (Ok (0, Some (L, (new_host w)\<lparr>ho_root := Some v\<rparr>)))
               | Some (Err e, w) \<Rightarrow> Some (Ok (-1, None))
               | Some (Panic, w) \<Rightarrow> Some Panic)
          | Some (Err e, f) \<Rightarrow> Some (Ok (-1, None))
          | Some (Panic, f) \<Rightarrow> Some Panic))"

definition emu_mount ::
  "('b, 'r, 'f) libs \<Rightarrow> (superblock \<Rightarrow> nat \<Rightarrow> unit res) \<Rightarrow> bool \<Rightarrow> nat option \<Rightarrow> 'f
    \<Rightarrow> ((int \<times> (('b, 'r, 'f) libs \<times> ('b, 'r, 'f) world host) option) res) option" where
  "emu_mount L check fd file_size f =
    (let (r, bc) = emu_create_bcache fd file_size
     in if r \<noteq> 0 then Some (Ok (-1, None)) else emu_mount_bcache L check bc f)"

definition emu_is_mounted :: "'w host \<Rightarrow> bool" where
  "emu_is_mounted h \<longleftrightarrow> ho_root h \<noteq> None"

text \<open>The three queries; \<open>load\<close> is \<open>LoadSuperblock\<close> on the cache.\<close>

definition emu_get_used_resources ::
  "(bcache \<Rightarrow> superblock res) \<Rightarrow> bool \<Rightarrow> nat option \<Rightarrow> (int \<times> (nat \<times> nat \<times> nat) option) res" where
  "emu_get_used_resources load fd file_size =
    (case emu_create_bcache fd file_size of
       (r, bc) \<Rightarrow>
         if r \<noteq> 0 then Ok (-1, None)
         else case bc of
           None \<Rightarrow> Panic
         | Some bc \<Rightarrow>
             (case (UsedDataSize (load bc), UsedInodes (load bc), UsedSize (load bc)) of
                (Ok data_size, Ok inodes, Ok used_size) \<Rightarrow> Ok (0, Some (data_size, inodes, used_size))
              | (Panic, _, _) \<Rightarrow> Panic
              | _ \<Rightarrow> Ok (-1, None)))"

end
