(* ===== verification/Instance.thy ===== *)
theory Instance
  imports World
begin

text \<open>
  A file system whose libraries are lists and whose device is a file in memory: the witnesses of
  the properties of the host build are about it. Block 0 of the device is the superblock, blocks
  1 and 2 hold the bitmaps, the inodes start at block 3 and the data at block 8.
\<close>

definition memory_storage :: "sb_access \<Rightarrow> buffer_id \<Rightarrow> nat \<Rightarrow> nat \<Rightarrow> persistent_storage" where
  "memory_storage acc buf start map_start =
    \<lparr>st_metadata = \<lparr>data_start_block = start, metadata_start_block = map_start, using_fvm = False,
       md_access = acc\<rparr>,
     st_unit_size = kMinfsBlockSize, st_block_size = kMinfsBlockSize, st_buffer = buf\<rparr>"

definition memory_libs :: "(bool list, index_set, nat \<times> bytes) libs" where
  "memory_libs =
    \<lparr>li_bitmap = list_bitmap, li_ranges = list_range, li_map_bytes = (\<lambda>_. zero_bytes),
     li_map_load = (\<lambda>_ _ _ b. b), li_crc = (\<lambda>_. 0), li_posix = memory_file, li_now = fst,
     li_garbage = zero_bytes, li_valid_name = (\<lambda>_. True), li_bcache = Bcache_Create 1000,
     li_block_storage = memory_storage access_Blocks BlockMapBuf 8 2,
     li_inode_storage = memory_storage access_Inodes InodeMapBuf 3 1, li_inode_start = 3,
     li_offsets = \<lparr>bo_ibm_start = 1, bo_ibm_count = 1, bo_abm_start = 2, bo_abm_count = 1,
       bo_ino_start = 3, bo_ino_count = 2, bo_integrity_start = 5, bo_integrity_count = 3,
       bo_dat_start = 8, bo_dat_count = 100\<rparr>\<rparr>"

definition memory_info :: superblock where
  "memory_info = (words_superblock (replicate 2048 0))
     \<lparr>block_size := kMinfsBlockSize, inode_size := kMinfsInodeSize, block_count := 100,
      inode_count := 64, ibm_block := 1, abm_block := 2, ino_block := 3, integrity_start_block := 5,
      dat_block := 8\<rparr>"

text \<open>Bit 0 of each bitmap is taken; \<open>vs\<close> are the vnodes in memory.\<close>

definition memory_allocator :: "nat \<Rightarrow> (bool list, index_set) allocator" where
  "memory_allocator n =
    \<lparr>al_reserved = 0, al_first_free = 1, al_map = True # replicate (n - 1) False, al_pending = [],
     al_changes = Map.empty, al_next_id = 0\<rparr>"

definition memory_world ::
  "(nat \<Rightarrow> index_set vnode option) \<Rightarrow> bytes \<Rightarrow> (bool list, index_set, nat \<times> bytes) world" where
  "memory_world vs c =
    \<lparr>w_sm = \<lparr>sm_info = memory_info, sm_dirty = False\<rparr>,
     w_blocks = memory_allocator 100, w_inodes = memory_allocator 64, w_fd = (0, c), w_vnodes = vs,
     w_hash = Map.empty, w_next_vnode = 10, w_tx = None\<rparr>"

lemma memory_libs_posix [simp]: "li_posix memory_libs = memory_file"
  by (simp add: memory_libs_def)

lemma memory_libs_simps [simp]:
  "li_bitmap memory_libs = list_bitmap" "li_ranges memory_libs = list_range"
  "li_inode_start memory_libs = 3" "li_bcache memory_libs = Bcache_Create 1000"
  "li_now memory_libs = fst"
  by (simp_all add: memory_libs_def)

lemma memory_world_simps [simp]:
  "w_vnodes (memory_world vs c) = vs" "w_fd (memory_world vs c) = (0, c)"
  "Info (memory_world vs c) = memory_info"
  by (simp_all add: memory_world_def Info_def)

end
