(* ===== verification/Host_Laws.thy ===== *)
theory Host_Laws
  imports Host Instance
begin

text \<open>
  File descriptors and seeking in the host tools (\<open>host.cc\<close>): descriptors of distinct entries are
  distinct, and a seek moves exactly when the new position is representable.
\<close>

section \<open>Descriptors\<close>

lemma high_mask: "(0xFFFF0000 :: nat) = push_bit 16 (mask 16)"
  by (simp add: push_bit_eq_mult mask_eq_exp_minus_1)

lemma nat_or_and: "(a OR b) AND c = (a AND c) OR (b AND (c :: nat))"
  by (rule bit_eqI) (auto simp: bit_simps)

lemma fd_bits:
  assumes "i < 64"
  shows "(i OR kFdMagic) AND 0xFFFF0000 = kFdMagic" "(i OR kFdMagic) AND 0xFFFF = i"
    "i OR kFdMagic < 4294967296"
proof -
  have k: "kFdMagic = push_bit 16 0x45AB" by (simp add: kFdMagic_def push_bit_eq_mult)
  have i: "take_bit 16 i = i" using assms by (simp add: take_bit_eq_mod)
  have lo: "take_bit 16 (i OR kFdMagic) = i"
    unfolding k by (rule bit_eqI) (subst (2) i [symmetric], simp add: bit_simps)
  have "take_bit 32 i = i" "take_bit 32 kFdMagic = kFdMagic"
    using assms by (simp_all add: take_bit_eq_mod kFdMagic_def)
  then have "take_bit 32 (i OR kFdMagic) = i OR kFdMagic" by (simp only: take_bit_or)
  then show "i OR kFdMagic < 4294967296"
    using take_bit_nat_less_exp [of 32 "i OR kFdMagic"] by simp
  show "(i OR kFdMagic) AND 0xFFFF = i"
    using lo by (simp add: take_bit_eq_mask mask_eq_exp_minus_1)
  have "i AND push_bit 16 (mask 16) = 0"
    by (rule bit_eqI) (subst i [symmetric], auto simp: bit_simps)
  moreover have "kFdMagic AND push_bit 16 (mask 16) = kFdMagic"
    unfolding k by (simp flip: push_bit_and) (simp add: mask_eq_exp_minus_1 flip: take_bit_eq_mask add: take_bit_eq_mod)
  ultimately show "(i OR kFdMagic) AND 0xFFFF0000 = kFdMagic"
    unfolding high_mask by (metis (no_types) nat_or_and or.left_neutral)
qed

lemma file_get_fd:
  "i < kMaxFd \<Longrightarrow> file_get (int (i OR kFdMagic)) h = map_option (\<lambda>v. (i, v)) (hf_vn (ho_files h ! i))"
  using fd_bits [of i] by (simp add: file_get_def kMaxFd_def Let_def)

lemma first_free_spec:
  "first_free fs k = Some i \<Longrightarrow>
    k \<le> i \<and> i < k + length fs \<and> hf_vn (fs ! (i - k)) = None"
proof (induction fs arbitrary: k)
  case (Cons f fs)
  show ?case
  proof (cases "hf_vn f = None")
    case False
    then have "first_free fs (k + 1) = Some i" using Cons.prems by (auto split: if_splits)
    note IH = Cons.IH [OF this]
    then obtain j where "i = k + 1 + j" using le_Suc_ex by blast
    with IH show ?thesis by simp
  qed (use Cons.prems in simp)
qed simp

lemma first_free_None: "first_free fs k = None \<longleftrightarrow> (\<forall>f \<in> set fs. hf_vn f \<noteq> None)"
  by (induction fs arbitrary: k) auto

lemma on_world_files: "on_world m h = Some (r, h') \<Longrightarrow> ho_files h' = ho_files h"
  by (auto simp: on_world_def split: option.splits prod.splits)

lemma on_world_errno: "on_world m h = Some (r, h') \<Longrightarrow> ho_errno h' = ho_errno h"
  by (auto simp: on_world_def split: option.splits prod.splits)

text \<open>A failing call returns -1.\<close>

lemma host_STATUS_fail: "r \<noteq> Ok x \<Longrightarrow> (\<forall>y. r \<noteq> Ok y) \<Longrightarrow>
    host_STATUS r h = Some (Ok (-1), h\<lparr>ho_errno := status_to_errno r\<rparr>)"
  by (cases r) (auto simp: host_STATUS_def host_FAIL_def status_to_errno_def EIO_def EEXIST_def
      EFBIG_def ENOSPC_def)

lemma emu_open_Ok:
  assumes "emu_open op path fl mode h = Some (Ok fd, h')" "fd \<ge> 0"
  obtains i v h1 where "first_free (ho_files h) 0 = Some i" "fd = int (i OR kFdMagic)"
    "on_world (op (drop 2 path) (fdio_flags_to_connection_options fl) mode) h = Some (Ok v, h1)"
    "h' = h1\<lparr>ho_files := (ho_files h1)[i := (ho_files h1 ! i)\<lparr>hf_vn := Some v\<rparr>]\<rparr>"
proof -
  have app: "(fl AND O_APPEND) = 0" using assms by (auto simp: emu_open_def split: if_splits)
  show ?thesis
  proof (cases "first_free (ho_files h) 0")
    case None
    with assms app show ?thesis by (simp add: emu_open_def host_FAIL_def EMFILE_def)
  next
    case (Some i)
    let ?m = "on_world (op (drop 2 path) (fdio_flags_to_connection_options fl) mode)"
    show ?thesis
    proof (cases "?m h")
      case None with assms(1) app Some show ?thesis by (simp add: emu_open_def try_act_def)
    next
      case (Some p)
      obtain r h1 where p: "p = (r, h1)" by (cases p)
      show ?thesis
      proof (cases r)
        case (Ok v)
        with assms(1) app \<open>first_free (ho_files h) 0 = Some i\<close> Some p show ?thesis
          by (intro that [of i v h1]) (auto simp: emu_open_def try_act_def ret_def)
      next
        case (Err e)
        with assms app \<open>first_free (ho_files h) 0 = Some i\<close> Some p show ?thesis
          by (simp add: emu_open_def try_act_def host_STATUS_fail)
      next
        case Panic
        with assms(1) app \<open>first_free (ho_files h) 0 = Some i\<close> Some p show ?thesis
          by (simp add: emu_open_def try_act_def)
      qed
    qed
  qed
qed

text \<open>When \<open>emu_open\<close> succeeds, the descriptor was not open before, it now refers to the vnode
  that was opened, and every other descriptor refers to what it did.\<close>

theorem emu_open_fresh:
  assumes "emu_open op path fl mode h = Some (Ok fd, h')" "fd \<ge> 0" "length (ho_files h) = kMaxFd"
  shows "file_get fd h = None
    \<and> (\<exists>i v. file_get fd h' = Some (i, v)
        \<and> (\<exists>w. op (drop 2 path) (fdio_flags_to_connection_options fl) mode (ho_world h) = Some (Ok v, w) \<and> ho_world h' = w))
    \<and> (\<forall>j < kMaxFd. int (j OR kFdMagic) \<noteq> fd \<longrightarrow>
        file_get (int (j OR kFdMagic)) h' = file_get (int (j OR kFdMagic)) h)"
proof -
  obtain i v h1 where r: "first_free (ho_files h) 0 = Some i" "fd = int (i OR kFdMagic)"
      "on_world (op (drop 2 path) (fdio_flags_to_connection_options fl) mode) h = Some (Ok v, h1)"
      "h' = h1\<lparr>ho_files := (ho_files h1)[i := (ho_files h1 ! i)\<lparr>hf_vn := Some v\<rparr>]\<rparr>"
    using emu_open_Ok [OF assms(1,2)] by blast
  have i: "i < kMaxFd" "hf_vn (ho_files h ! i) = None"
    using first_free_spec [OF r(1)] assms(3) by auto
  have h1: "ho_files h1 = ho_files h" using on_world_files [OF r(3)] .
  have "\<exists>w. op (drop 2 path) (fdio_flags_to_connection_options fl) mode (ho_world h) = Some (Ok v, w) \<and> ho_world h' = w"
    using r(3,4) by (auto simp: on_world_def split: option.splits)
  then show ?thesis
    using i assms(3) by (auto simp: r(2,4) file_get_fd h1 nth_list_update)
qed

theorem emu_open_fresh_witness:
  "\<exists>h' i v. emu_open (\<lambda>_ _ _ w. Some (Ok 5, w)) [58, 58, 97] 0 0 (new_host (memory_world Map.empty zero_bytes))
      = Some (Ok 1168834560, h') \<and> file_get 1168834560 h' = Some (i, v)"
proof -
  let ?h = "new_host (memory_world Map.empty zero_bytes)" and ?op = "\<lambda>_ _ _ w. Some (Ok (5::nat), w)"
  have f: "first_free (ho_files ?h) 0 = Some 0"
    by (simp add: new_host_def kMaxFd_def closed_file_def numeral_eq_Suc)
  have fd: "int (0 OR kFdMagic) = 1168834560" by (simp add: kFdMagic_def)
  have "\<exists>h'. emu_open ?op [58, 58, 97] 0 0 ?h = Some (Ok 1168834560, h')"
    using f fd by (auto simp: emu_open_def try_act_def on_world_def ret_def)
  then show ?thesis
    using emu_open_fresh [of ?op "[58, 58, 97]" 0 0 ?h 1168834560] by (fastforce simp: new_host_def)
qed

section \<open>Seeking\<close>

text \<open>The position an offset is added to.\<close>

fun seek_base :: "('b, 'r, 'f) world host \<Rightarrow> nat \<Rightarrow> inode \<Rightarrow> whence \<Rightarrow> nat option" where
  "seek_base h i ino SEEK_SET = Some 0"
| "seek_base h i ino SEEK_CUR = Some (hf_off (ho_files h ! i))"
| "seek_base h i ino SEEK_END = Some (i_size ino)"
| "seek_base h i ino SEEK_other = None"

lemma mod_near:
  fixes s m :: int
  assumes "- m \<le> s" "s < 2 * m" "0 < m"
  shows "s mod m = (if s < 0 then s + m else if s < m then s else s - m)"
proof -
  have "s mod m = (s + m) mod m" "s mod m = (s - m) mod m" by simp_all
  moreover have "(s + m) mod m = s + m" if "s < 0"
    using that assms by (intro mod_pos_pos_trivial) linarith+
  moreover have "s mod m = s" if "0 \<le> s" "s < m"
    using that by (intro mod_pos_pos_trivial) linarith+
  moreover have "(s - m) mod m = s - m" if "m \<le> s"
    using that assms by (intro mod_pos_pos_trivial) linarith+
  ultimately show ?thesis by (metis not_less)
qed

lemma seek_from_spec:
  assumes "old < 2 ^ 64" "- (2 ^ 63) \<le> offset" "offset < 2 ^ 63"
  shows "seek_from i old offset h =
    (if 0 \<le> int old + offset \<and> int old + offset < 2 ^ 64
     then Some (Ok (to_off_t (nat (int old + offset))), set_offset i (nat (int old + offset)) h)
     else Some (Ok (-1), h\<lparr>ho_errno := EINVAL\<rparr>))"
proof -
  let ?s = "int old + offset"
  have m: "?s mod 2 ^ 64 = (if ?s < 0 then ?s + 2 ^ 64 else if ?s < 2 ^ 64 then ?s else ?s - 2 ^ 64)"
    using assms by (intro mod_near) auto
  show ?thesis unfolding seek_from_def m Let_def
    using assms by (auto simp: host_FAIL_def EINVAL_def ret_def)
qed

text \<open>C25: A seek moves to the sum of its base and the offset exactly when that is between 0 and
  2^64; otherwise it returns -1 with \<open>EINVAL\<close> and the position stays.\<close>

theorem emu_lseek_correct:
  assumes "file_get fd h = Some (i, v)" "w_vnodes (ho_world h) v = Some vn"
    "hf_off (ho_files h ! i) < 2 ^ 64" "i_size (vn_inode vn) < 2 ^ 32"
    "- (2 ^ 63) \<le> offset" "offset < 2 ^ 63"
  shows "emu_lseek fd offset wh h =
    (case seek_base h i (vn_inode vn) wh of
       Some b \<Rightarrow>
         if 0 \<le> int b + offset \<and> int b + offset < 2 ^ 64
         then Some (Ok (to_off_t (nat (int b + offset))), set_offset i (nat (int b + offset)) h)
         else Some (Ok (-1), h\<lparr>ho_errno := EINVAL\<rparr>)
     | None \<Rightarrow> Some (Ok (-1), h\<lparr>ho_errno := EINVAL\<rparr>))"
proof (cases wh)
  case SEEK_SET
  then show ?thesis using assms
    by (simp add: emu_lseek_def host_FAIL_def EINVAL_def ret_def)
next
  case SEEK_CUR
  then show ?thesis using assms by (simp add: emu_lseek_def seek_from_spec)
next
  case SEEK_END
  let ?a = "\<lparr>va_type = MinfsMagicType (i_magic (vn_inode vn)), va_inode = vn_ino vn,
    va_content_size = i_size (vn_inode vn),
    va_storage_size = u64 (i_block_count (vn_inode vn) * kMinfsBlockSize),
    va_link_count = i_link_count (vn_inode vn), va_creation_time = i_create_time (vn_inode vn),
    va_modification_time = i_modify_time (vn_inode vn)\<rparr>"
  have "on_world (GetAttributes v) h = Some (Ok ?a, h)"
    using assms(2) by (simp add: on_world_def GetAttributes_def GetSize_def GetBlockCount_def get_inode_def
        get_vnode_def abind_def ret_def Let_def)
  then show ?thesis using assms SEEK_END
    by (simp add: emu_lseek_def try_act_def seek_from_spec)
next
  case SEEK_other
  then show ?thesis using assms by (simp add: emu_lseek_def host_FAIL_def EINVAL_def ret_def)
qed

definition seek_host :: "(bool list, index_set, nat \<times> bytes) world host" where
  "seek_host =
    (new_host (memory_world [0 \<mapsto> \<lparr>vn_ino = 2, vn_inode = zero_inode\<lparr>i_size := 100\<rparr>, vn_indirect = None,
        vn_directory = False, vn_open_count = 1\<rparr>] zero_bytes))
      \<lparr>ho_files := (replicate 64 closed_file)[3 := closed_file\<lparr>hf_vn := Some 0, hf_off := 10\<rparr>]\<rparr>"

theorem emu_lseek_correct_witness:
  "emu_lseek 1168834563 (-60) SEEK_END seek_host = Some (Ok 40, set_offset 3 40 seek_host)
    \<and> emu_lseek 1168834563 (-11) SEEK_CUR seek_host
        = Some (Ok (-1), seek_host\<lparr>ho_errno := EINVAL\<rparr>)"
proof -
  have "int (3 OR kFdMagic) = 1168834563" by (simp add: kFdMagic_def)
  then have g: "file_get 1168834563 seek_host = Some (3, 0)"
    using file_get_fd [of 3 seek_host] by (simp add: seek_host_def kMaxFd_def)
  let ?vn = "\<lparr>vn_ino = 2, vn_inode = zero_inode\<lparr>i_size := 100\<rparr>, vn_indirect = None,
        vn_directory = False, vn_open_count = 1\<rparr> :: index_set vnode"
  have v: "w_vnodes (ho_world seek_host) 0 = Some ?vn" "hf_off (ho_files seek_host ! 3) = 10"
    by (simp_all add: seek_host_def new_host_def)
  show ?thesis
    using emu_lseek_correct [OF g v(1), of "-60" SEEK_END] emu_lseek_correct [OF g v(1), of "-11" SEEK_CUR] v(2)
    by (simp add: to_off_t_def)
qed

end
