(* ===== verification/HostDir.thy ===== *)
theory HostDir
  imports Host
begin

text \<open>
  The rest of the interface of the host tools, \<open>host.cc\<close>: formatting an image, and directory streams
  over \<open>Directory::Readdir\<close>.
\<close>

section \<open>Formatting\<close>

text \<open>
  \<open>writeblk\<close> writes a block through the cache, \<open>sync\<close> is its synchronisation, \<open>st\<close> the number of a
  status. The parameters of \<open>Mkfs\<close> are those of the host build.
\<close>

definition emu_mkfs ::
  "(unit res \<Rightarrow> int) \<Rightarrow> (superblock \<Rightarrow> nat) \<Rightarrow> nat \<Rightarrow> ('b, 'z) raw_bitmap_scheme
    \<Rightarrow> (bcache \<Rightarrow> nat \<Rightarrow> 'b block_content \<Rightarrow> 'd \<Rightarrow> unit res \<times> 'd)
    \<Rightarrow> (nat \<Rightarrow> (nat list \<Rightarrow> nat \<Rightarrow> 'd \<Rightarrow> unit res \<times> 'd) \<Rightarrow> 'd \<Rightarrow> unit res \<times> 'd)
    \<Rightarrow> ('d \<Rightarrow> unit res \<times> 'd) \<Rightarrow> nat \<Rightarrow> bool \<Rightarrow> nat option \<Rightarrow> 'd \<Rightarrow> (int res \<times> 'd) option" where
  "emu_mkfs st crc md B writeblk make_journal sync now fd file_size d =
    (if \<not> fd then Some (Ok (-1), d)
     else case file_size of
       None \<Rightarrow> Some (Ok (-1), d)
     | Some sz \<Rightarrow>
         let bc = Bcache_Create (u32 (sz div kMinfsBlockSize))
         in (case Mkfs crc md B host_fvm_data (\<lambda>_ d. d) (writeblk bc) make_journal sync now
                    (bc_max_blocks bc) d of
               None \<Rightarrow> None
             | Some (Panic, d) \<Rightarrow> Some (Panic, d)
             | Some (r, d) \<Rightarrow> Some (Ok (st r), d)))"

section \<open>Directory streams\<close>

text \<open>
  A directory entry in the buffer that \<open>Readdir\<close> fills, \<open>vdirent_t\<close> of the library; the unread part
  of the buffer is the list of the entries in it.
\<close>

record vdirent =
  vd_ino :: nat
  vd_type :: nat
  vd_name :: "nat list"

record host_dirent =
  d_type :: nat
  d_name :: "nat list"

record min_dir =
  md_vn :: "nat option"
  md_cookie :: dir_cookie
  md_entries :: "vdirent list"

text \<open>The library's filler on a buffer of \<open>kDirBufSize\<close> bytes: an entry has ten bytes before its name.\<close>

type_synonym filler = "nat list \<Rightarrow> nat \<Rightarrow> nat \<Rightarrow> vdirent list \<Rightarrow> vdirent list option"

definition kDirBufSize :: nat where "kDirBufSize = 2048"

definition emu_opendir ::
  "('b, 'r, 'f) vfs_open \<Rightarrow> nat list \<Rightarrow> ('b, 'r, 'f, min_dir option) hact" where
  "emu_opendir open_path path =
    try_act (on_world (open_path (drop 2 path) (no_options\<lparr>co_read := True, co_posix_write := True\<rparr>) 0)) (\<lambda>r.
    case r of
      Ok v \<Rightarrow> ret (Some \<lparr>md_vn = Some v, md_cookie = \<lparr>dc_off = 0, dc_seqno = 0\<rparr>, md_entries = []\<rparr>)
    | _ \<Rightarrow> ret None)"

definition take_entry :: "min_dir \<Rightarrow> host_dirent option \<times> min_dir" where
  "take_entry dir =
    (case md_entries dir of
       [] \<Rightarrow> (None, dir)
     | e # es \<Rightarrow> (Some \<lparr>d_type = vd_type e, d_name = vd_name e\<rparr>, dir\<lparr>md_entries := es\<rparr>))"

text \<open>Only directories have entries; the vnode of the library refuses for the others.\<close>

definition vnode_Readdir ::
  "('b, 'r, 'f) libs \<Rightarrow> nat \<Rightarrow> filler \<Rightarrow> dir_cookie \<Rightarrow> vdirent list
    \<Rightarrow> ('b, 'r, 'f, unit res \<times> dir_cookie \<times> vdirent list) wact" where
  "vnode_Readdir L v filler cookie entries =
    abind (get_vnode v) (\<lambda>vn.
    if vn_directory vn then Readdir L v filler cookie entries
    else ret (Err ZX_ERR_NOT_SUPPORTED, cookie, entries))"

text \<open>Reading from a stream whose vnode is gone dereferences a null pointer.\<close>

definition emu_readdir ::
  "('b, 'r, 'f) libs \<Rightarrow> filler \<Rightarrow> min_dir \<Rightarrow> ('b, 'r, 'f, host_dirent option \<times> min_dir) hact" where
  "emu_readdir L filler dir =
    (if md_entries dir \<noteq> [] then ret (take_entry dir)
     else case md_vn dir of
       None \<Rightarrow> abort
     | Some v \<Rightarrow>
         try_act (on_world (vnode_Readdir L v filler (md_cookie dir) [])) (\<lambda>r. case r of
           Ok (Ok _, cookie, entries) \<Rightarrow>
             ret (if entries = [] then (None, dir\<lparr>md_cookie := cookie\<rparr>)
                  else take_entry (dir\<lparr>md_cookie := cookie, md_entries := entries\<rparr>))
         | Ok (_, cookie, _) \<Rightarrow> ret (None, dir\<lparr>md_cookie := cookie\<rparr>)
         | _ \<Rightarrow> ret (None, dir)))"

text \<open>The cookie of the library covers the offset only; the sequence number stays.\<close>

definition emu_rewinddir :: "min_dir \<Rightarrow> min_dir" where
  "emu_rewinddir dir = dir\<lparr>md_entries := [], md_cookie := (md_cookie dir)\<lparr>dc_off := 0\<rparr>\<rparr>"

definition MinDir_Destroy :: "(nat \<Rightarrow> ('b, 'r, 'f, unit) wact) \<Rightarrow> min_dir \<Rightarrow> ('b, 'r, 'f, unit) hact" where
  "MinDir_Destroy close dir =
    (case md_vn dir of
       None \<Rightarrow> ret ()
     | Some v \<Rightarrow> try_act (on_world (close v)) (\<lambda>_. ret ()))"

text \<open>A stream of the host itself, without the magic number, is closed by the C library.\<close>

definition emu_closedir ::
  "('h \<Rightarrow> int) \<Rightarrow> (nat \<Rightarrow> ('b, 'r, 'f, unit) wact) \<Rightarrow> min_dir + 'h \<Rightarrow> ('b, 'r, 'f, int) hact" where
  "emu_closedir closedir close dirp =
    (case dirp of
       Inr h \<Rightarrow> ret (closedir h)
     | Inl dir \<Rightarrow> abind (MinDir_Destroy close dir) (\<lambda>_. ret 0))"

end
