(* ===== verification/Keeps.thy ===== *)
theory Keeps
  imports Content
begin

text \<open>
  Invariants of actions: \<open>keeps P m\<close> says that \<open>m\<close> leaves a state with \<open>P\<close> in a state with \<open>P\<close>,
  whatever its result. There is a rule for each combinator; the second part is about predicates that
  survive the reading of a vnode, among them that the superblock and the allocators are unchanged.
\<close>

named_theorems keeps_rules \<open>introduction rules for invariants of actions\<close>

section \<open>Combinators\<close>

definition keeps :: "('s \<Rightarrow> bool) \<Rightarrow> ('s, 'a) act \<Rightarrow> bool" where
  "keeps P m \<longleftrightarrow> (\<forall>s r s'. P s \<longrightarrow> m s = Some (r, s') \<longrightarrow> P s')"

lemma keepsI: "(\<And>s r s'. P s \<Longrightarrow> m s = Some (r, s') \<Longrightarrow> P s') \<Longrightarrow> keeps P m"
  by (auto simp: keeps_def)

lemma keepsD: "keeps P m \<Longrightarrow> P s \<Longrightarrow> m s = Some (r, s') \<Longrightarrow> P s'"
  by (auto simp: keeps_def)

lemma keeps_simple [keeps_rules]:
  "keeps P (ret x)" "keeps P (fail e)" "keeps P abort" "keeps P (gets f)" "keeps P (assert_act b)"
  "keeps P (lift_res r)"
  by (auto intro!: keepsI simp: assert_act_def lift_res_def)

lemma keeps_modify [keeps_rules]: "(\<And>s. P s \<Longrightarrow> P (f s)) \<Longrightarrow> keeps P (modify f)"
  by (auto intro!: keepsI)

lemma abind_cases:
  "abind m f s = Some (r, s') \<Longrightarrow>
    \<exists>r1 s1. m s = Some (r1, s1) \<and> (s' = s1 \<or> (\<exists>x. f x s1 = Some (r, s')))"
  by (auto simp: abind_def split: option.splits res.splits prod.splits)

lemma try_act_cases:
  "try_act m f s = Some (r, s') \<Longrightarrow>
    \<exists>r1 s1. m s = Some (r1, s1) \<and> (s' = s1 \<or> f r1 s1 = Some (r, s'))"
  by (auto simp: try_act_def split: option.splits res.splits prod.splits)

lemma keeps_abind [keeps_rules]:
  "keeps P m \<Longrightarrow> (\<And>x. keeps P (f x)) \<Longrightarrow> keeps P (abind m f)"
  unfolding keeps_def by (blast dest: abind_cases)

lemma keeps_try_act [keeps_rules]:
  "keeps P m \<Longrightarrow> (\<And>x. keeps P (f x)) \<Longrightarrow> keeps P (try_act m f)"
  unfolding keeps_def by (blast dest: try_act_cases)

lemma keeps_update_res [keeps_rules]:
  "(\<And>s x s'. P s \<Longrightarrow> f s = Ok (x, s') \<Longrightarrow> P s') \<Longrightarrow> keeps P (update_res f)"
  by (auto intro!: keepsI simp: update_res_def split: res.splits)

lemma keeps_if [keeps_rules]:
  "(b \<Longrightarrow> keeps P m) \<Longrightarrow> (\<not> b \<Longrightarrow> keeps P m') \<Longrightarrow> keeps P (if b then m else m')"
  by simp

lemma keeps_case_option [keeps_rules]:
  "keeps P m \<Longrightarrow> (\<And>x. keeps P (f x)) \<Longrightarrow> keeps P (case x of None \<Rightarrow> m | Some x \<Rightarrow> f x)"
  by (cases x) auto

lemma keeps_case_res [keeps_rules]:
  "(\<And>x. keeps P (f x)) \<Longrightarrow> (\<And>e. keeps P (g e)) \<Longrightarrow> keeps P h
    \<Longrightarrow> keeps P (case r of Ok x \<Rightarrow> f x | Err e \<Rightarrow> g e | Panic \<Rightarrow> h)"
  by (cases r) auto

lemma keeps_case_prod [keeps_rules]:
  "(\<And>x y. keeps P (f x y)) \<Longrightarrow> keeps P (case p of (x, y) \<Rightarrow> f x y)"
  by (cases p) auto

lemma keeps_Let [keeps_rules]: "keeps P (f x) \<Longrightarrow> keeps P (let y = x in f y)"
  by simp

lemma keeps_or_status [keeps_rules]: "keeps P m \<Longrightarrow> keeps P (or_status e m)"
  unfolding or_status_def by (intro keeps_rules)

lemma keeps_on_rest [keeps_rules]:
  "keeps P m \<Longrightarrow> keeps (\<lambda>s. P (vs_rest s)) (on_rest m)"
  by (auto intro!: keepsI simp: on_rest_def split: option.splits) (metis keepsD)

text \<open>A step of a loop is an action when the recursive call is one.\<close>

lemma keeps_enumerate [keeps_rules]:
  assumes "\<And>a b. keeps P (callback a b)"
  shows "keeps P (enumerate_blocks callback a b)"
proof -
  let ?Q = "\<lambda>callback a b s y. (\<forall>a b. keeps P (callback a b)) \<longrightarrow> P s \<longrightarrow> P (snd y)"
  have "?Q callback a b s y" if "enumerate_blocks callback a b s = Some y" for s y
  proof (rule enumerate_blocks.raw_induct [where P = ?Q, OF _ that], intro impI)
    fix f callback a b s y
    assume IH: "\<And>c a b s y. f c a b s = Some y \<Longrightarrow> ?Q c a b s y"
      and body: "(if a < b then abind (callback a b) (\<lambda>len. f callback (u64 (a + len)) b) s
        else Some (Ok (), s)) = Some y"
      and cb: "\<forall>a b. keeps P (callback a b)" and s: "P s"
    have "keeps P (f callback a' b')" for a' b'
      using IH cb by (fastforce intro!: keepsI)
    then have "keeps P (abind (callback a b) (\<lambda>len. f callback (u64 (a + len)) b))"
      using cb by (intro keeps_rules) auto
    with body s show "P (snd y)" by (cases y) (auto elim: keepsD split: if_splits)
  qed
  with assms show ?thesis by (fastforce intro!: keepsI)
qed

lemma keeps_lazy_read_loop [keeps_rules]:
  assumes "\<And>a b. keeps P (enqueue a b)"
  shows "keeps P (lazy_read_loop R get enqueue a b)"
proof -
  let ?Q = "\<lambda>R get enqueue a b s y. (\<forall>a b. keeps P (enqueue a b)) \<longrightarrow> P s \<longrightarrow> P (snd y)"
  have "?Q R get enqueue a b s y" if "lazy_read_loop R get enqueue a b s = Some y" for s y
  proof (rule lazy_read_loop.raw_induct [where P = ?Q, OF _ that], intro impI)
    fix f R get enqueue a b s y
    assume IH: "\<And>R get enqueue a b s y. f R get enqueue a b s = Some y \<Longrightarrow> ?Q R get enqueue a b s y"
      and body: "(if a < b then let e = rg_find R (get s) True (a + 1) b
          in abind (enumerate_blocks enqueue a e)
               (\<lambda>_ s. f R get enqueue (rg_find R (get s) False (e + 1) b) b s) s
        else Some (Ok (), s)) = Some y"
      and en: "\<forall>a b. keeps P (enqueue a b)" and s: "P s"
    have "keeps P (\<lambda>s. f R get enqueue (g s) b s)" for g
      using IH en by (fastforce intro!: keepsI)
    then have "keeps P (abind (enumerate_blocks enqueue a e)
        (\<lambda>_ s'. f R get enqueue (rg_find R (get s') False (e + 1) b) b s'))" for e
      using en by (intro keeps_rules) auto
    from keepsD [OF this [of "rg_find R (get s) True (a + 1) b"] s] body s
    show "P (snd y)" by (cases y) (auto simp: Let_def split: if_splits)
  qed
  with assms show ?thesis by (fastforce intro!: keepsI)
qed

section \<open>Reading through the mapper\<close>

text \<open>\<open>put\<close> of the place of the buffer does not touch what the invariant is about.\<close>

lemma keeps_Enqueue:
  assumes "\<And>a b. keeps Q (map_range a b)" "\<And>b s. Q s \<Longrightarrow> Q (bp_put F b s)"
  shows "keeps (\<lambda>st. Q (fst st)) (MappedFileReader_Enqueue F map_range a b)"
proof (rule keepsI)
  fix st r st' assume "Q (fst st)" "MappedFileReader_Enqueue F map_range a b st = Some (r, st')"
  moreover from this obtain r1 s1 where "map_range a b (fst st) = Some (r1, s1)"
    by (auto simp: MappedFileReader_Enqueue_def split: option.splits)
  moreover from calculation have "Q s1" using keepsD [OF assms(1)] by blast
  ultimately show "Q (fst st')"
    using assms(2) by (auto simp: MappedFileReader_Enqueue_def Let_def split: res.splits option.splits prod.splits)
qed

lemma keeps_run_reads:
  assumes "\<And>a b. keeps Q (read a b)" "\<And>b s. Q s \<Longrightarrow> Q (bp_put F b s)"
  shows "keeps Q (run_reads F read xs)"
  by (induction xs) (auto intro!: keeps_rules assms simp: Let_def)

lemma keeps_LazyBuffer_Read:
  assumes m: "\<And>a b. keeps Q (map_range a b)" and r: "\<And>a b. keeps Q (read a b)"
    and put: "\<And>b s. Q s \<Longrightarrow> Q (bp_put F b s)"
  shows "keeps Q (LazyBuffer_Read R F map_range read start stop)"
proof -
  let ?Q = "\<lambda>st. Q (fst st)"
  let ?get = "\<lambda>st. bp_mapped F (fst st)" and ?put = "\<lambda>m st. (bp_set_mapped F m (fst st), snd st)"
  let ?rd = "MappedFileReader F map_range read"
  have run: "keeps ?Q (rd_run ?rd)"
    using keepsD [OF keeps_run_reads [where Q = Q, OF r put]]
    by (auto intro!: keepsI simp: MappedFileReader_def MappedFileReader_RunRequests_def split: option.splits)
  have loop: "keeps ?Q (lazy_read_loop R ?get (rd_enqueue ?rd) a b)" for a b
    using keeps_Enqueue [where Q = Q, OF m put] by (intro keeps_rules) (simp add: MappedFileReader_def)
  have mod: "keeps ?Q (modify (\<lambda>s. ?put (rg_set R (?get s) a b) s))" for a b
    by (intro keeps_rules) (simp add: bp_set_mapped_def put)
  have body: "keeps ?Q (abind (lazy_read_loop R ?get (rd_enqueue ?rd) a b) (\<lambda>_.
      abind (rd_run ?rd) (\<lambda>_. modify (\<lambda>s. ?put (rg_set R (?get s) a' b') s))))" for a b a' b'
    by (intro keeps_abind loop run mod)
  have read: "keeps ?Q (LazyReader_Read R ?get ?put ?rd start stop)"
    using keepsD [OF body] by (auto intro!: keepsI simp: LazyReader_Read_def Let_def split: if_splits prod.splits)
  have grow: "keeps Q (\<lambda>s. if n > lb_capacity (bp_get F s) then LazyBuffer_Grow F n s else Some (Ok (), s))" for n
    using put by (auto intro!: keepsI simp: LazyBuffer_Grow_def split: if_splits res.splits)
  have wrap: "keeps Q (\<lambda>s. case LazyReader_Read R ?get ?put ?rd start stop (s, []) of
      None \<Rightarrow> None | Some (r, s, _) \<Rightarrow> Some (r, s))"
    using keepsD [OF read] by (auto intro!: keepsI split: option.splits prod.splits)
  show ?thesis
    unfolding LazyBuffer_Read_def Let_def by (intro keeps_if keeps_abind keeps_simple grow wrap)
qed

text \<open>The mappers change the indirect file only, unless they may allocate.\<close>

lemma keeps_raw:
  "keeps P (\<lambda>s. Some (f s, s))"
  by (auto intro!: keepsI)

lemma keeps_inode_view [keeps_rules]: "keeps P (inode_view bank limit tx a b)"
  unfolding inode_view_def by (intro keeps_rules)

lemma keeps_getters [keeps_rules]:
  "keeps P (GetInodeDirectView tx a b)" "keeps P (GetInodeIndirectView tx a b)"
  "keeps P (GetInodeDoubleIndirectView tx a b)"
  unfolding GetInodeDirectView_def GetInodeIndirectView_def GetInodeDoubleIndirectView_def
  by (rule keeps_inode_view)+

lemma keeps_IndirectMapper_Map:
  assumes "\<And>tx a b. keeps P (get_view tx a b)"
  shows "keeps P (IndirectMapper_Map E get_view fl a b)"
  unfolding IndirectMapper_Map_def IndirectMapper_MapForWrite_def IndirectMapper_GetView_def Let_def
  by (simp only: simp_thms if_False) (intro keeps_rules keeps_raw assms)

lemma keeps_GetIndirectFile [keeps_rules]:
  "keeps (\<lambda>s. P (vs_rest s)) (GetIndirectFile E)"
  unfolding GetIndirectFile_def by (intro keeps_rules) (auto split: option.splits)

lemma keeps_GetViewForIndirectFile:
  assumes "\<And>dev n. keeps P (ve_read E dev n)"
  shows "keeps (\<lambda>s. P (vs_rest s)) (GetViewForIndirectFile E d tx a b)"
proof (induction d arbitrary: tx a b)
  case 0 then show ?case by (simp add: keeps_rules)
next
  case (Suc d)
  have "keeps (\<lambda>s. P (vs_rest s)) (LazyBuffer_Read (ve_ranges E) file_place
      (IndirectMapper_Map E (GetViewForIndirectFile E d) (FlushView E d))
      (\<lambda>dev n. on_rest (ve_read E dev n)) x y)" for x y
    by (rule keeps_LazyBuffer_Read)
      (auto intro!: keeps_IndirectMapper_Map Suc keeps_on_rest assms simp: file_place_def)
  then show ?case by (simp, intro keeps_rules)
qed

section \<open>Reading through the iterator\<close>

text \<open>The invariant on the state of an iterator.\<close>

abbreviation rest_ok :: "('t \<Rightarrow> bool) \<Rightarrow> ('r, 't) vnode_state \<times> vnode_iterator \<Rightarrow> bool" where
  "rest_ok P st \<equiv> P (vs_rest (fst st))"

lemma keeps_on_vnode [keeps_rules]:
  "keeps (\<lambda>s. P (vs_rest s)) m \<Longrightarrow> keeps (rest_ok P) (on_vnode m)"
  by (auto intro!: keepsI simp: on_vnode_def dest: keepsD [where P = "\<lambda>s. P (vs_rest s)"] split: option.splits)

lemma keeps_iter_simple [keeps_rules]:
  "keeps (rest_ok P) (update_iter f)" "keeps Q (level_blk l)" "keeps Q it_Blk"
  by (auto intro!: keepsI simp: update_iter_def level_blk_def it_Blk_def Let_def split: if_splits)

lemma keeps_call_getter:
  assumes "\<And>dev n. keeps P (ve_read E dev n)"
  shows "keeps (\<lambda>s. P (vs_rest s)) (call_getter E g tx a b)"
  using keeps_GetViewForIndirectFile [where P = P, OF assms] by (cases g) (auto intro: keeps_rules)

lemma keeps_Iterator_Init:
  assumes "\<And>dev n. keeps P (ve_read E dev n)"
  shows "keeps (rest_ok P) (Iterator_Init E tx n)"
proof -
  have il: "keeps (rest_ok P) (InitializeLevel E l rng b g)" for l rng b g
    unfolding InitializeLevel_def
    by (intro keeps_rules keeps_call_getter assms)
  show ?thesis
    unfolding Iterator_Init_def InitializeIndirectLevel_def Let_def by (intro keeps_rules il)
qed

lemma keeps_GetContiguousBlockCount [keeps_rules]:
  "keeps (rest_ok P) (GetContiguousBlockCount n)"
  unfolding GetContiguousBlockCount_def ComputeContiguousBlockCount_def Let_def
  by (intro keeps_rules) (auto intro!: keepsI split: prod.splits if_splits)

lemma keeps_with_iterator [keeps_rules]:
  "keeps (rest_ok P) m \<Longrightarrow> keeps (\<lambda>s. P (vs_rest s)) (with_iterator m)"
  by (auto intro!: keepsI simp: with_iterator_def split: option.splits prod.splits)
    (metis keepsD fst_conv)

lemma keeps_MapToBlk:
  assumes "\<And>dev n. keeps P (ve_read E dev n)"
  shows "keeps (\<lambda>s. P (vs_rest s)) (MapToBlk E a b)"
  unfolding MapToBlk_def by (intro keeps_rules keeps_Iterator_Init assms)

section \<open>Reading a vnode\<close>

text \<open>
  A predicate that survives reads of the device and changes of the vnodes in memory survives the
  reading of a vnode.
\<close>

definition read_stable :: "('b, 'r, 'f) libs \<Rightarrow> (('b, 'r, 'f) world \<Rightarrow> bool) \<Rightarrow> bool" where
  "read_stable L P \<longleftrightarrow> (\<forall>n. keeps P (w_Readblk L n)) \<and> (\<forall>dev n. keeps P (read_pointers L dev n))
     \<and> (\<forall>w vs n. P w \<longrightarrow> P (w\<lparr>w_vnodes := vs, w_next_vnode := n\<rparr>))"

lemma read_stableD:
  assumes "read_stable L P"
  shows "keeps P (w_Readblk L n)" "keeps P (read_pointers L dev n)" "P w \<Longrightarrow> P (put_vnode v vn w)"
    "P w \<Longrightarrow> P (w\<lparr>w_vnodes := vs, w_next_vnode := k\<rparr>)"
proof -
  show "keeps P (w_Readblk L n)" "keeps P (read_pointers L dev n)" "P w \<Longrightarrow> P (w\<lparr>w_vnodes := vs, w_next_vnode := k\<rparr>)"
    using assms by (simp_all add: read_stable_def)
  have "put_vnode v vn w = w\<lparr>w_vnodes := (w_vnodes w)(v \<mapsto> vn), w_next_vnode := w_next_vnode w\<rparr>"
    by (simp add: put_vnode_def)
  then show "P w \<Longrightarrow> P (put_vnode v vn w)" using assms by (metis read_stable_def)
qed

lemma keeps_get_vnode [keeps_rules]: "keeps P (get_vnode v)"
  by (auto intro!: keepsI simp: get_vnode_def split: option.splits)

lemma keeps_vnode [keeps_rules]: "keeps P (get_inode v)" "keeps P (GetSize v)"
  unfolding GetSize_def get_inode_def by (rule keeps_rules, rule keeps_get_vnode, rule keeps_rules)
    (rule keeps_abind, rule keeps_abind, rule keeps_get_vnode, (rule keeps_simple)+)

lemma stable_ReadDat: "read_stable L P \<Longrightarrow> keeps P (ReadDat L n)"
  unfolding ReadDat_def ReadBlk_def by (intro keeps_rules read_stableD(1))

lemma stable_InodeLoad: "read_stable L P \<Longrightarrow> keeps P (InodeLoad L n)"
  unfolding InodeLoad_def InodeManager_Load_def Let_def by (intro keeps_rules read_stableD(1))

lemma stable_BlockGetReadable:
  assumes "read_stable L P"
  shows "keeps P (BlockGetReadable L v n)"
proof -
  have k: "keeps (\<lambda>s. P (vs_rest s)) (MapToBlk (vnode_mapper L ino d) a b)" for ino d a b
    by (rule keeps_MapToBlk) (simp add: vnode_mapper_def read_stableD(2) [OF assms])
  have "P (vs_rest s')"
    if "MapToBlk (vnode_mapper L ino d) a b s = Some (r, s')" "P (vs_rest s)" for ino d a b s r s'
    using keepsD [where P = "\<lambda>s. P (vs_rest s)", OF k that(2,1)] .
  then have "keeps P (on_mapper L v (\<lambda>E. MapToBlk E a b))" for a b
    by (fastforce intro!: keepsI read_stableD(3) [OF assms] simp: on_mapper_def split: option.splits)
  then show ?thesis unfolding BlockGetReadable_def by (intro keeps_rules)
qed

lemma stable_read_loop:
  assumes "read_stable L P"
  shows "keeps P (read_loop L v n adjust len pos out)"
proof -
  let ?Q = "\<lambda>L v n adjust len pos out s y. read_stable L P \<longrightarrow> P s \<longrightarrow> P (snd y)"
  have "?Q L v n adjust len pos out s y" if "read_loop L v n adjust len pos out s = Some y" for s y
  proof (rule read_loop.raw_induct [where P = ?Q, OF _ that], intro impI)
    fix f L v n adjust len pos out s y
    assume IH: "\<And>L v n adjust len pos out s y. f L v n adjust len pos out s = Some y
        \<Longrightarrow> ?Q L v n adjust len pos out s y"
      and body: "(if 0 < len \<and> n < kMinfsMaxFileBlock
       then let xfer = transfer_size len adjust in
         abind (BlockGetReadable L v n) (\<lambda>bno.
         abind (if bno \<noteq> 0 then or_status ZX_ERR_IO (ReadDat L bno) else ret zero_bytes) (\<lambda>bdata.
         f L v (u32 (n + 1)) 0 (len - xfer) (pos + xfer) (copy_bytes pos bdata adjust xfer out))) s
       else Some (Ok (pos, out), s)) = Some y"
      and st: "read_stable L P" and s: "P s"
    have "keeps P (f L v n' adjust' len' pos' out')" for n' adjust' len' pos' out'
      using IH st by (fastforce intro!: keepsI)
    then have "keeps P (abind (BlockGetReadable L v n) (\<lambda>bno.
         abind (if bno \<noteq> 0 then or_status ZX_ERR_IO (ReadDat L bno) else ret zero_bytes) (\<lambda>bdata.
         f L v (u32 (n + 1)) 0 (len - transfer_size len adjust) (pos + transfer_size len adjust)
           (copy_bytes pos bdata adjust (transfer_size len adjust) out))))"
      by (intro keeps_rules stable_BlockGetReadable [OF st] stable_ReadDat [OF st])
    from keepsD [OF this s] body s show "P (snd y)"
      by (cases y) (auto simp: Let_def split: if_splits)
  qed
  with assms show ?thesis by (fastforce intro!: keepsI)
qed

lemma stable_ReadInternal: "read_stable L P \<Longrightarrow> keeps P (ReadInternal L v buf len off)"
  unfolding ReadInternal_def by (intro keeps_rules stable_read_loop)

text \<open>The parts of the file system that only a transaction changes.\<close>

definition same_alloc :: "('b, 'r, 'f) world \<Rightarrow> ('b, 'r, 'f) world \<Rightarrow> bool" where
  "same_alloc w0 w \<longleftrightarrow> w_blocks w = w_blocks w0 \<and> w_inodes w = w_inodes w0 \<and> w_sm w = w_sm w0"

lemma same_alloc_put [simp]:
  "same_alloc w0 (put_vnode v vn w) = same_alloc w0 w"
  "same_alloc w0 (w\<lparr>w_fd := f\<rparr>) = same_alloc w0 w"
  "same_alloc w0 (w\<lparr>w_next_vnode := n\<rparr>) = same_alloc w0 w"
  "same_alloc w0 (w\<lparr>w_vnodes := vs\<rparr>) = same_alloc w0 w"
  by (simp_all add: same_alloc_def put_vnode_def)

lemma keeps_device [keeps_rules]:
  "keeps (same_alloc w0) (w_Readblk L n)" "keeps (same_alloc w0) (w_Writeblk L n data)"
  by (auto intro!: keepsI simp: w_Readblk_def w_Writeblk_def on_fd_def split: option.splits)

lemma keeps_read_pointers: "keeps (same_alloc w0) (read_pointers L dev n)"
  by (auto intro!: keepsI simp: read_pointers_def split: option.splits res.splits prod.splits)

lemma same_alloc_stable: "read_stable L (same_alloc w0)"
  unfolding read_stable_def by (intro conjI allI keeps_device keeps_read_pointers) simp

lemma keeps_on_inode [keeps_rules]: "keeps (same_alloc w0) (on_inode v f)"
  unfolding on_inode_def by (intro keeps_rules) simp

lemma keeps_set_vnode [keeps_rules]:
  "keeps (same_alloc w0) (SetSize v n)" "keeps (same_alloc w0) (SetIno v n)"
  by (simp add: SetSize_def keeps_on_inode) (unfold SetIno_def, intro keeps_rules, simp)

lemmas keeps_reading [keeps_rules] =
  stable_ReadDat [OF same_alloc_stable] stable_InodeLoad [OF same_alloc_stable]
  stable_BlockGetReadable [OF same_alloc_stable]
  stable_read_loop [OF same_alloc_stable] stable_ReadInternal [OF same_alloc_stable]

end
