(* ===== verification/Read_Laws.thy ===== *)
theory Read_Laws
  imports Keeps Instance
begin

text \<open>
  Reading the contents of a vnode (\<open>vnode.cc\<close>, \<open>vnode_mapper.cc\<close>) on a device that works: within
  the blocks the inode points to directly, \<open>ReadInternal\<close> returns, and returns the bytes of the
  blocks, and zeros where there is none.
\<close>

section \<open>One block\<close>


lemma BlockGetReadable_direct:
  assumes "w_vnodes w v = Some vn" "n < kMinfsDirect"
  shows "BlockGetReadable L v n w = Some (Ok (dnum (vn_inode vn) ! n), w)"
proof -
  let ?E = "vnode_mapper L (vn_ino vn) (vn_directory vn)"
  let ?s = "\<lparr>vs_inode = vn_inode vn, vs_file = vn_indirect vn, vs_rest = w\<rparr>"
  have n: "n < 16" using assms(2) by (simp add: format_consts)
  have "\<exists>m. MapToBlk ?E n (n + 1) ?s = Some (Ok (dnum (vn_inode vn) ! n, m), ?s)"
    using n
    by (simp add: MapToBlk_def with_iterator_def Iterator_Init_def InitializeLevel_def update_iter_def
        kIndirectFileStartBlock_def GetInodeDirectView_def inode_view_def on_vnode_def abind_def
        gets_def modify_def assert_act_def ret_def new_iterator_def set_level_def empty_level_def
        it_Blk_def level_blk_def lv_blk_def lv_remaining_def bv_valid_def bv_at_def bv_raw_def
        GetContiguousBlockCount_def ComputeContiguousBlockCount_def iter_clean_def null_view_def
        format_consts u64_sub_id Let_def numeral_3_eq_3)
  then show ?thesis
    using assms(1) by (auto simp: BlockGetReadable_def on_mapper_def abind_def put_vnode_def ret_def fun_upd_idem)
qed

text \<open>The byte at a position of a file, with the contents \<open>c\<close> of the device.\<close>

definition file_byte :: "('b, 'r, 'f) libs \<Rightarrow> bytes \<Rightarrow> inode \<Rightarrow> nat \<Rightarrow> nat" where
  "file_byte L c i p =
    (let b = dnum i ! (p div kMinfsBlockSize) in
     if b = 0 \<or> b \<ge> bo_dat_count (li_offsets L) then 0
     else c ((bo_dat_start (li_offsets L) + b) * kMinfsBlockSize + bc_offset (li_bcache L)
             + p mod kMinfsBlockSize))"

definition direct_ok :: "('b, 'r, 'f) libs \<Rightarrow> superblock \<Rightarrow> inode \<Rightarrow> bool" where
  "direct_ok L info i \<longleftrightarrow> i_size i \<le> kMinfsDirect * kMinfsBlockSize \<and>
     (\<forall>k < kMinfsDirect. dnum i ! k < block_count info
        \<and> bo_dat_start (li_offsets L) + dnum i ! k < 4294967296)"

lemma ReadDat_law:
  assumes "posix_laws (li_posix L) content" "b < block_count (Info w)"
    "bo_dat_start (li_offsets L) + b < 4294967296"
  obtains data f where "ReadDat L b w = Some (Ok data, w\<lparr>w_fd := f\<rparr>)" "content f = content (w_fd w)"
    "\<And>k. k < kMinfsBlockSize \<Longrightarrow> data k = (if b \<ge> bo_dat_count (li_offsets L) then 0
      else content (w_fd w) ((bo_dat_start (li_offsets L) + b) * kMinfsBlockSize + bc_offset (li_bcache L) + k))"
proof (cases "b \<ge> bo_dat_count (li_offsets L)")
  case True
  then show ?thesis using assms(2) that [of zero_bytes "w_fd w"]
    by (simp add: ReadDat_def ReadBlk_def zero_bytes_def ret_def)
next
  case False
  let ?n = "bo_dat_start (li_offsets L) + b"
  obtain data f where r: "Readblk (li_posix L) (li_bcache L) ?n (w_fd w) = Some (Ok data, f)"
      "content f = content (w_fd w)"
      "\<And>i. i < kMinfsBlockSize \<Longrightarrow>
        data i = content (w_fd w) (?n * kMinfsBlockSize + bc_offset (li_bcache L) + i)"
    by (rule Readblk_law [OF assms(1), of "li_bcache L" ?n "w_fd w"]) blast
  then show ?thesis using assms False that [of data f]
    by (simp add: ReadDat_def ReadBlk_def w_Readblk_def on_fd_def u32_id)
qed

section \<open>The loop\<close>

lemma copy_bytes_split:
  assumes "n + m = len"
    "\<And>j. j < n \<Longrightarrow> a (x + j) = src j" "\<And>j. j < m \<Longrightarrow> b j = src (n + j)"
  shows "copy_bytes (pos + n) b 0 m (copy_bytes pos a x n out) = copy_bytes pos src 0 len out"
proof
  fix i
  show "copy_bytes (pos + n) b 0 m (copy_bytes pos a x n out) i = copy_bytes pos src 0 len out i"
    using assms(1) assms(2) [of "i - pos"] assms(3) [of "i - (pos + n)"]
    by (auto simp: copy_bytes_def)
qed

lemma read_loop_law:
  assumes laws: "posix_laws (li_posix L) content" and "w_vnodes w v = Some vn"
    and "\<forall>k < kMinfsDirect. dnum (vn_inode vn) ! k < block_count (Info w)
        \<and> bo_dat_start (li_offsets L) + dnum (vn_inode vn) ! k < 4294967296"
    and "adjust < kMinfsBlockSize" "n * kMinfsBlockSize + adjust + len \<le> kMinfsDirect * kMinfsBlockSize"
  shows "\<exists>f. read_loop L v n adjust len pos out w = Some (Ok (pos + len,
      copy_bytes pos (\<lambda>k. file_byte L (content (w_fd w)) (vn_inode vn) (n * kMinfsBlockSize + adjust + k))
        0 len out), w\<lparr>w_fd := f\<rparr>) \<and> content f = content (w_fd w)"
  using assms(2-)
proof (induction len arbitrary: n adjust pos out w rule: less_induct)
  case (less len)
  let ?c = "content (w_fd w)" and ?i = "vn_inode vn"
  show ?case
  proof (cases "len = 0")
    case True
    have "copy_bytes pos src 0 0 out = out" for src by (rule ext) (simp add: copy_bytes_def)
    then show ?thesis using True
      by (intro exI [of _ "w_fd w"]) (simp add: read_loop.simps)
  next
    case False
    have n: "n < 16" using less.prems(4) False by (simp add: format_consts)
    let ?x = "transfer_size len adjust"
    have x: "0 < ?x" "?x \<le> len" "adjust + ?x \<le> kMinfsBlockSize"
      "?x < len \<Longrightarrow> adjust + ?x = kMinfsBlockSize"
      using False less.prems(3) by (auto simp: transfer_size_def)
    let ?b = "dnum ?i ! n"
    have b: "?b < block_count (Info w)" "bo_dat_start (li_offsets L) + ?b < 4294967296"
      using less.prems(2) n by (auto simp: format_consts)
    let ?get = "if ?b \<noteq> 0 then or_status ZX_ERR_IO (ReadDat L ?b) else ret zero_bytes"
    have "\<exists>data f. ?get w = Some (Ok data, w\<lparr>w_fd := f\<rparr>) \<and> content f = ?c
      \<and> (\<forall>k < kMinfsBlockSize. data k = file_byte L ?c ?i (n * kMinfsBlockSize + k))"
    proof (cases "?b = 0")
      case True
      then show ?thesis
        by (intro exI [of _ zero_bytes] exI [of _ "w_fd w"])
          (simp add: ret_def zero_bytes_def file_byte_def format_consts)
    next
      case bn: False
      obtain data f where "ReadDat L ?b w = Some (Ok data, w\<lparr>w_fd := f\<rparr>)" "content f = ?c"
        "\<And>k. k < kMinfsBlockSize \<Longrightarrow> data k = (if ?b \<ge> bo_dat_count (li_offsets L) then 0
          else ?c ((bo_dat_start (li_offsets L) + ?b) * kMinfsBlockSize + bc_offset (li_bcache L) + k))"
        using ReadDat_law [OF laws b] by blast
      with bn show ?thesis
        by (intro exI [of _ data] exI [of _ f])
          (auto simp: or_status_def try_act_def ret_def file_byte_def format_consts)
    qed
    then obtain data f where d: "?get w = Some (Ok data, w\<lparr>w_fd := f\<rparr>)" "content f = ?c"
      "\<And>k. k < kMinfsBlockSize \<Longrightarrow> data k = file_byte L ?c ?i (n * kMinfsBlockSize + k)" by blast
    let ?out = "copy_bytes pos data adjust ?x out"
    have "\<exists>f'. read_loop L v (u32 (n + 1)) 0 (len - ?x) (pos + ?x) ?out (w\<lparr>w_fd := f\<rparr>)
        = Some (Ok (pos + len, copy_bytes (pos + ?x)
            (\<lambda>k. file_byte L ?c ?i ((n + 1) * kMinfsBlockSize + k)) 0 (len - ?x) ?out), w\<lparr>w_fd := f'\<rparr>)
        \<and> content f' = ?c"
    proof (cases "?x = len")
      case True
      have "copy_bytes p src 0 0 o' = o'" for p src o' by (rule ext) (simp add: copy_bytes_def)
      then show ?thesis using True d(2)
        by (intro exI [of _ f]) (simp add: read_loop.simps)
    next
      case xl: False
      then have "adjust + ?x = kMinfsBlockSize" using x by simp
      then have "(n + 1) * kMinfsBlockSize + 0 + (len - ?x) \<le> kMinfsDirect * kMinfsBlockSize"
        using less.prems(4) x(2) by (simp add: add_mult_distrib)
      moreover have "u32 (n + 1) = n + 1" using n by (simp add: u32_id)
      ultimately show ?thesis
        using less.IH [of "len - ?x" "w\<lparr>w_fd := f\<rparr>" 0 "n + 1" "pos + ?x" ?out] less.prems(1,2) x d(2) False
        by (simp add: Info_def format_consts)
    qed
    then obtain f' where f': "read_loop L v (u32 (n + 1)) 0 (len - ?x) (pos + ?x) ?out (w\<lparr>w_fd := f\<rparr>)
        = Some (Ok (pos + len, copy_bytes (pos + ?x)
            (\<lambda>k. file_byte L ?c ?i ((n + 1) * kMinfsBlockSize + k)) 0 (len - ?x) ?out), w\<lparr>w_fd := f'\<rparr>)"
      "content f' = ?c" by blast
    have eq: "copy_bytes (pos + ?x) (\<lambda>k. file_byte L ?c ?i ((n + 1) * kMinfsBlockSize + k)) 0 (len - ?x) ?out
      = copy_bytes pos (\<lambda>k. file_byte L ?c ?i (n * kMinfsBlockSize + adjust + k)) 0 len out"
    proof (rule copy_bytes_split)
      show "?x + (len - ?x) = len" using x(2) by simp
      show "data (adjust + j) = file_byte L ?c ?i (n * kMinfsBlockSize + adjust + j)" if "j < ?x" for j
        using d(3) [of "adjust + j"] x(3) that by (simp add: add.assoc)
      show "file_byte L ?c ?i ((n + 1) * kMinfsBlockSize + j)
          = file_byte L ?c ?i (n * kMinfsBlockSize + adjust + (?x + j))" if "j < len - ?x" for j
      proof -
        have "adjust + ?x = kMinfsBlockSize" using x(4) that by simp
        then have "(n + 1) * kMinfsBlockSize + j = n * kMinfsBlockSize + adjust + (?x + j)"
          by (simp add: add_mult_distrib)
        then show ?thesis by (simp only:)
      qed
    qed
    have "read_loop L v n adjust len pos out w
        = read_loop L v (u32 (n + 1)) 0 (len - ?x) (pos + ?x) ?out (w\<lparr>w_fd := f\<rparr>)"
      using False n d(1) less.prems(1)
      by (subst read_loop.simps)
        (simp add: Let_def abind_def BlockGetReadable_direct [OF less.prems(1)] format_consts kMinfsMaxFileBlock_def)
    then show ?thesis using f' eq by auto
  qed
qed

lemma read_correct:
  assumes "posix_laws (li_posix L) content" "w_vnodes w v = Some vn" "direct_ok L (Info w) (vn_inode vn)"
  shows "\<exists>f. content f = content (w_fd w) \<and>
    (let n = min len (i_size (vn_inode vn) - off) in
     ReadInternal L v buf len off w = Some (Ok (n, \<lambda>k. if k < n
       then file_byte L (content (w_fd w)) (vn_inode vn) (off + k) else buf k), w\<lparr>w_fd := f\<rparr>))"
proof (cases "off \<ge> i_size (vn_inode vn)")
  case True
  then show ?thesis using assms(2)
    by (intro exI [of _ "w_fd w"])
      (simp add: ReadInternal_def GetSize_def get_inode_def get_vnode_def abind_def ret_def)
next
  case False
  let ?i = "vn_inode vn" and ?n = "off div kMinfsBlockSize" and ?a = "off mod kMinfsBlockSize"
  let ?len = "min len (i_size ?i - off)"
  have sz: "i_size ?i \<le> kMinfsDirect * kMinfsBlockSize" using assms(3) by (simp add: direct_ok_def)
  have pos: "?n * kMinfsBlockSize + ?a = off" by simp
  have "?n * kMinfsBlockSize + ?a + ?len \<le> kMinfsDirect * kMinfsBlockSize"
    using sz False unfolding pos by simp
  moreover have "?a < kMinfsBlockSize" by (simp add: format_consts)
  moreover have d: "\<forall>k < kMinfsDirect. dnum ?i ! k < block_count (Info w)
        \<and> bo_dat_start (li_offsets L) + dnum ?i ! k < 4294967296"
    using assms(3) by (simp add: direct_ok_def)
  ultimately obtain f where f: "read_loop L v ?n ?a ?len 0 buf w = Some (Ok (0 + ?len,
      copy_bytes 0 (\<lambda>k. file_byte L (content (w_fd w)) ?i (?n * kMinfsBlockSize + ?a + k)) 0 ?len buf),
      w\<lparr>w_fd := f\<rparr>)" "content f = content (w_fd w)"
    using read_loop_law [OF assms(1,2), of ?a ?n ?len 0 buf] by blast
  have "u32 ?n = ?n" using sz False by (simp add: u32_id format_consts)
  moreover have "(if len > i_size ?i - off then i_size ?i - off else len) = ?len" by simp
  ultimately have "ReadInternal L v buf len off w = Some (Ok (?len,
      copy_bytes 0 (\<lambda>k. file_byte L (content (w_fd w)) ?i (off + k)) 0 ?len buf), w\<lparr>w_fd := f\<rparr>)"
    using f(1) False assms(2) unfolding pos
    by (simp add: ReadInternal_def GetSize_def get_inode_def get_vnode_def abind_def ret_def)
  moreover have "copy_bytes 0 src 0 m buf = (\<lambda>k. if k < m then src k else buf k)" for src m
    by (rule ext) (simp add: copy_bytes_def)
  ultimately show ?thesis using f(2) by (intro exI [of _ f]) (simp add: Let_def)
qed

text \<open>C23: Reading a vnode whose content lies in its direct blocks always returns; it delivers the
  bytes between the offset and the end of the file or of the request, zeros for blocks that are
  missing, leaves the rest of the buffer alone and changes nothing but the position of the device.\<close>

theorem ReadInternal_correct:
  assumes "posix_laws (li_posix L) content" "w_vnodes w v = Some vn" "direct_ok L (Info w) (vn_inode vn)"
  shows "\<exists>f. content f = content (w_fd w) \<and>
    (let n = min len (i_size (vn_inode vn) - off) in
     ReadInternal L v buf len off w = Some (Ok (n, \<lambda>k. if k < n
       then file_byte L (content (w_fd w)) (vn_inode vn) (off + k) else buf k), w\<lparr>w_fd := f\<rparr>))"
  by (rule read_correct [OF assms])

definition sample_file :: "index_set vnode" where
  "sample_file = \<lparr>vn_ino = 2, vn_inode = zero_inode\<lparr>i_size := 8200, dnum := (replicate 16 0)[1 := 4]\<rparr>,
     vn_indirect = None, vn_directory = False, vn_open_count = 1\<rparr>"

text \<open>Of twelve bytes asked for ten are left: two of a hole and eight of block 12 of the device.\<close>

theorem ReadInternal_correct_witness:
  "\<exists>w'. ReadInternal memory_libs 0 (\<lambda>_. 255) 12 8190 (memory_world [0 \<mapsto> sample_file] (\<lambda>i. i mod 256))
    = Some (Ok (10, (\<lambda>k. if k < 10 then if k < 2 then 0 else k - 2 else 255)), w')"
proof -
  let ?w = "memory_world [0 \<mapsto> sample_file] (\<lambda>i. i mod 256)"
  have d: "direct_ok memory_libs (Info ?w) (vn_inode sample_file)"
    by (auto simp: direct_ok_def sample_file_def memory_info_def memory_libs_def nth_list_update format_consts)
  have v: "w_vnodes ?w 0 = Some sample_file" by simp
  have "i_size (vn_inode sample_file) = 8200" by (simp add: sample_file_def)
  then obtain w' where r: "ReadInternal memory_libs 0 (\<lambda>_. 255) 12 8190 ?w = Some (Ok (10, \<lambda>k. if k < 10
       then file_byte memory_libs (\<lambda>i. i mod 256) (vn_inode sample_file) (8190 + k) else 255), w')"
    using ReadInternal_correct [OF _ v d, of snd 12 8190 "\<lambda>_. 255", unfolded memory_world_simps snd_conv]
    by (auto simp: memory_file_laws)
  have fb: "file_byte memory_libs (\<lambda>i. i mod 256) (vn_inode sample_file) (8190 + k)
      = (if k < 2 then 0 else k - 2)" if "k < 10" for k
  proof (cases "k < 2")
    case True
    then have "(8190 + k) div 8192 = 0" by simp
    with True show ?thesis by (simp add: file_byte_def sample_file_def format_consts)
  next
    case False
    define j where "j = k - 2"
    have j: "k = j + 2" "j < 8" using that False by (simp_all add: j_def)
    then have "(8190 + k) div 8192 = 1" "(8190 + k) mod 8192 = j" by simp_all
    moreover have "(98304 + j) mod 256 = j" using mod_mult_self3 [of 384 256 j] j(2) by simp
    ultimately show ?thesis using False j
      by (simp add: file_byte_def sample_file_def format_consts memory_libs_def Bcache_Create_def)
  qed
  have "(\<lambda>k. if k < 10 then file_byte memory_libs (\<lambda>i. i mod 256) (vn_inode sample_file) (8190 + k) else 255)
      = (\<lambda>k. if k < 10 then if k < 2 then 0 else k - 2 else 255)"
    by (rule ext) (auto simp: fb)
  with r show ?thesis by auto
qed

end
