(* ===== verification/Inode_Table.thy ===== *)
theory Inode_Table
  imports Instance
begin

text \<open>
  The inode table of the host build (\<open>inode_manager_host.cc\<close>) on a device that works: what
  \<open>InodeManager::Update\<close> writes is what \<open>InodeManager::Load\<close> reads.
\<close>

section \<open>The inode table\<close>

text \<open>The inode a file holds: \<open>c\<close> is its contents.\<close>

definition inode_offset :: "('b, 'r, 'f) libs \<Rightarrow> nat \<Rightarrow> nat" where
  "inode_offset L ino = (li_inode_start L + ino div kMinfsInodesPerBlock) * kMinfsBlockSize
     + bc_offset (li_bcache L) + (ino mod kMinfsInodesPerBlock) * kMinfsInodeSize"

definition stored_inode :: "('b, 'r, 'f) libs \<Rightarrow> bytes \<Rightarrow> nat \<Rightarrow> inode" where
  "stored_inode L c ino = load_inode c (inode_offset L ino)"

definition inode_block_ok :: "('b, 'r, 'f) libs \<Rightarrow> nat \<Rightarrow> bool" where
  "inode_block_ok L ino \<longleftrightarrow> li_inode_start L + ino div kMinfsInodesPerBlock < 4294967296"

lemma store_words_shift:
  "(\<And>k. k < n \<Longrightarrow> d k = c (base + k)) \<Longrightarrow> k < n
    \<Longrightarrow> store_words off ws d k = store_words (base + off) ws c (base + k)"
proof (induction ws arbitrary: off c d)
  case (Cons w ws)
  have "store_words (off + 4) ws (set_u32 off w d) k
      = store_words (base + (off + 4)) ws (set_u32 (base + off) w c) (base + k)"
    by (rule Cons.IH) (use Cons.prems in \<open>auto simp: set_u32_def\<close>)
  then show ?case by (simp add: add.assoc)
qed simp

lemma inode_in_block: "i < kMinfsInodeSize \<Longrightarrow> (ino mod kMinfsInodesPerBlock) * kMinfsInodeSize + i < kMinfsBlockSize"
proof -
  assume i: "i < kMinfsInodeSize"
  have "ino mod 32 \<le> 31" by simp
  with i show ?thesis by (simp add: format_consts)
qed

lemma inode_offset_eq:
  "inode_offset L ino = li_inode_start L * kMinfsBlockSize + bc_offset (li_bcache L)
    + ino * kMinfsInodeSize"
proof -
  have "ino div 32 * 8192 + ino mod 32 * 256 = (ino div 32 * 32 + ino mod 32) * 256"
    by (simp only: add_mult_distrib)
  then show ?thesis by (simp add: inode_offset_def format_consts add_mult_distrib)
qed

lemma inode_offset_apart:
  "ino' \<noteq> ino \<Longrightarrow> inode_offset L ino' + kMinfsInodeSize \<le> inode_offset L ino
    \<or> inode_offset L ino + kMinfsInodeSize \<le> inode_offset L ino'"
  by (auto simp: inode_offset_eq format_consts neq_iff)

lemma InodeManager_Load_law:
  assumes laws: "posix_laws (li_posix L) content" and ok: "inode_block_ok L ino"
  shows "\<exists>f. InodeManager_Load L ino w = Some (Ok (stored_inode L (content (w_fd w)) ino), w\<lparr>w_fd := f\<rparr>)
    \<and> content f = content (w_fd w)"
proof -
  let ?n = "li_inode_start L + ino div kMinfsInodesPerBlock"
  obtain data f where r: "Readblk (li_posix L) (li_bcache L) ?n (w_fd w) = Some (Ok data, f)"
      "content f = content (w_fd w)"
      "\<And>i. i < kMinfsBlockSize \<Longrightarrow>
        data i = content (w_fd w) (?n * kMinfsBlockSize + bc_offset (li_bcache L) + i)"
    by (rule Readblk_law [OF laws, of "li_bcache L" ?n "w_fd w"]) blast
  have "load_inode data (ino mod kMinfsInodesPerBlock * kMinfsInodeSize)
      = stored_inode L (content (w_fd w)) ino"
    unfolding stored_inode_def
    by (rule load_inode_shift) (simp add: r(3) inode_in_block inode_offset_def add.assoc)
  then show ?thesis using ok r(1,2)
    by (intro exI [of _ f]) (simp add: InodeManager_Load_def Let_def inode_block_ok_def u32_id w_Readblk_def on_fd_def try_act_def
        ret_def)
qed

lemma InodeManager_Update_law:
  assumes laws: "posix_laws (li_posix L) content" and ok: "inode_block_ok L ino" and i: "inode_fits i"
  shows "\<exists>f. InodeManager_Update L ino i w = Some (Ok (), w\<lparr>w_fd := f\<rparr>)
    \<and> content f = store_inode (inode_offset L ino) i (content (w_fd w))"
proof -
  let ?n = "li_inode_start L + ino div kMinfsInodesPerBlock"
  let ?base = "?n * kMinfsBlockSize + bc_offset (li_bcache L)"
  let ?off = "ino mod kMinfsInodesPerBlock * kMinfsInodeSize"
  obtain data f where r: "Readblk (li_posix L) (li_bcache L) ?n (w_fd w) = Some (Ok data, f)"
      "content f = content (w_fd w)"
      "\<And>i. i < kMinfsBlockSize \<Longrightarrow> data i = content (w_fd w) (?base + i)"
    by (rule Readblk_law [OF laws, of "li_bcache L" ?n "w_fd w"]) blast
  obtain f' where wr: "Writeblk (li_posix L) (li_bcache L) ?n (store_inode ?off i data) f = Some (Ok (), f')"
      "content f' = copy_bytes ?base (store_inode ?off i data) 0 kMinfsBlockSize (content f)"
    by (rule Writeblk_law [OF laws, of "li_bcache L" ?n "store_inode ?off i data" f]) blast
  have "content f' = store_inode (inode_offset L ino) i (content (w_fd w))"
  proof
    fix k
    let ?c = "content (w_fd w)"
    have off: "inode_offset L ino = ?base + ?off" by (simp add: inode_offset_def)
    have len: "4 * length (inode_words i) = kMinfsInodeSize" "?off + kMinfsInodeSize \<le> kMinfsBlockSize"
      using i inode_in_block [of 255 ino] by (simp_all add: format_consts)
    consider "k < ?base" | j where "k = ?base + j" "j < kMinfsBlockSize" | "?base + kMinfsBlockSize \<le> k"
      by (metis le_Suc_ex nat_add_left_cancel_less not_less)
    then show "content f' k = store_inode (inode_offset L ino) i ?c k"
    proof cases
      case 2
      have "store_words ?off (inode_words i) data j
          = store_words (?base + ?off) (inode_words i) ?c (?base + j)"
        by (rule store_words_shift [of kMinfsBlockSize]) (use r(3) 2 in auto)
      then show ?thesis using 2 by (simp add: wr(2) copy_bytes_def store_inode_def off)
    qed (use len in \<open>simp_all add: wr(2) r(2) copy_bytes_def store_inode_def off
           store_words_before store_words_after\<close>)
  qed
  then show ?thesis using ok r(1) wr(1)
    by (intro exI [of _ f']) (simp add: InodeManager_Update_def Let_def inode_block_ok_def u32_id w_Readblk_def
        w_Writeblk_def on_fd_def try_act_def ret_def add.commute [of "ino div kMinfsInodesPerBlock"])
qed

text \<open>C20: An inode written through the inode table is the one that is read back, and every other
  inode of the table reads as before; neither operation fails on a device that works.\<close>

theorem inode_table_roundtrip:
  assumes "posix_laws (li_posix L) content" "inode_fits i" "inode_block_ok L ino"
    "inode_block_ok L ino'"
  shows "\<exists>w' w''. InodeManager_Update L ino i w = Some (Ok (), w')
    \<and> InodeManager_Load L ino' w'
        = Some (Ok (if ino' = ino then i else stored_inode L (content (w_fd w)) ino'), w'')"
proof -
  obtain f where u: "InodeManager_Update L ino i w = Some (Ok (), w\<lparr>w_fd := f\<rparr>)"
      "content f = store_inode (inode_offset L ino) i (content (w_fd w))"
    using InodeManager_Update_law [OF assms(1,3,2), of w] by blast
  have "stored_inode L (content f) ino'
      = (if ino' = ino then i else stored_inode L (content (w_fd w)) ino')"
    using assms(2) inode_offset_apart [of ino' ino L]
    by (auto simp: u(2) stored_inode_def load_store_inode_other)
  then show ?thesis
    using u(1) InodeManager_Load_law [OF assms(1,4), of "w\<lparr>w_fd := f\<rparr>"] by auto
qed

theorem inode_table_roundtrip_witness:
  "\<exists>w' w''. InodeManager_Update memory_libs 33 (zero_inode\<lparr>i_size := 7\<rparr>)
        (memory_world Map.empty zero_bytes) = Some (Ok (), w')
    \<and> InodeManager_Load memory_libs 33 w' = Some (Ok (zero_inode\<lparr>i_size := 7\<rparr>), w'')"
  using inode_table_roundtrip [of memory_libs snd "zero_inode\<lparr>i_size := 7\<rparr>" 33 33
      "memory_world Map.empty zero_bytes"]
  by (simp add: memory_file_laws inode_fits_def inode_wf_def zero_inode_def inode_words_def words_ok_def
      inode_block_ok_def lo32_def hi32_def format_consts u32_def)

end
