(* ===== verification/Sample.thy ===== *)
theory Sample
  imports Read_Laws Inode_Table
begin

text \<open>
  A small file system in memory: four blocks, four inodes and the root directory with its two
  entries. Witnesses of the properties of directories and of the checker are about it.
\<close>

section \<open>The file system\<close>

definition sample_root :: inode where
  "sample_root = zero_inode\<lparr>i_magic := kMinfsMagicDir, i_size := 32, i_block_count := 1,
     i_link_count := 2, i_dirent_count := 2, dnum := 1 # replicate 15 0\<rparr>"

text \<open>The entries \<open>.\<close> and \<open>..\<close>, the second with the flag of the last entry.\<close>

definition sample_entries :: "nat list" where
  "sample_entries = [1, 0, 0, 0, 16, 0, 0, 0, 1, 2, 46, 0, 0, 0, 0, 0,
                     1, 0, 0, 0, 0, 0, 0, 128, 2, 2, 46, 46, 0, 0, 0, 0]"

definition sample_content :: bytes where
  "sample_content = store_inode 24832 sample_root (store_bytes 73728 sample_entries zero_bytes)"

definition sample_info :: superblock where
  "sample_info = memory_info\<lparr>block_count := 4, inode_count := 4, alloc_block_count := 2,
     alloc_inode_count := 2\<rparr>"

definition sample_world :: "(bool list, index_set, nat \<times> bytes) world" where
  "sample_world = (memory_world Map.empty sample_content)
    \<lparr>w_sm := \<lparr>sm_info = sample_info, sm_dirty = False\<rparr>,
     w_blocks := (memory_allocator 4)\<lparr>al_map := [True, True, False, False]\<rparr>,
     w_inodes := (memory_allocator 4)\<lparr>al_map := [True, True, False, False]\<rparr>\<rparr>"

type_synonym sample = "(bool list, index_set, nat \<times> bytes) world"

definition is_sample :: "sample \<Rightarrow> bool" where
  "is_sample w \<longleftrightarrow> snd (w_fd w) = sample_content \<and> same_alloc sample_world w"

lemma is_sample_world [simp]: "is_sample sample_world"
  by (simp add: is_sample_def same_alloc_def sample_world_def)

lemma is_sample_info: "is_sample w \<Longrightarrow> Info w = sample_info"
  by (simp add: is_sample_def same_alloc_def sample_world_def Info_def)

lemma is_sample_maps:
  "is_sample w \<Longrightarrow> al_map (w_blocks w) = [True, True, False, False]"
  "is_sample w \<Longrightarrow> al_map (w_inodes w) = [True, True, False, False]"
  by (simp_all add: is_sample_def same_alloc_def sample_world_def)

lemma sample_info_simps [simp]:
  "block_count sample_info = 4" "inode_count sample_info = 4" "alloc_block_count sample_info = 2"
  "alloc_inode_count sample_info = 2" "unlinked_head sample_info = 0" "unlinked_tail sample_info = 0"
  by (simp_all add: sample_info_def memory_info_def words_superblock_def)

lemma sample_root_simps [simp]:
  "i_magic sample_root = kMinfsMagicDir" "i_size sample_root = 32" "i_block_count sample_root = 1"
  "i_link_count sample_root = 2" "i_dirent_count sample_root = 2"
  "dnum sample_root = 1 # replicate 15 0" "inum sample_root = replicate 31 0"
  "dinum sample_root = [0]"
  by (simp_all add: sample_root_def zero_inode_def format_consts)

lemma sample_root_fits: "inode_fits sample_root"
  by (simp add: inode_fits_def inode_wf_def sample_root_def zero_inode_def inode_words_def words_ok_def
      lo32_def hi32_def format_consts kMinfsMagicDir_def MinfsMagic_def u32_def)

lemma stored_root: "stored_inode memory_libs sample_content 1 = sample_root"
proof -
  have "inode_offset memory_libs 1 = 24832"
    by (simp add: inode_offset_def format_consts Bcache_Create_def)
  then show ?thesis
    by (simp add: stored_inode_def sample_content_def load_store_inode [OF sample_root_fits])
qed

lemma sample_entry_byte: "p < 32 \<Longrightarrow> file_byte memory_libs sample_content sample_root p = sample_entries ! p"
proof -
  assume p: "p < 32"
  have "store_inode 24832 sample_root b (73728 + p) = b (73728 + p)" for b
    using sample_root_fits by (simp add: store_inode_def store_words_after)
  moreover have "p div 8192 = 0" "p mod 8192 = p" using p by simp_all
  ultimately show ?thesis using p
    by (simp add: file_byte_def format_consts memory_libs_def Bcache_Create_def sample_content_def
        store_bytes_def sample_entries_def)
qed

section \<open>Reading it\<close>

lemma sample_load:
  assumes "is_sample w"
  obtains w' where "InodeLoad memory_libs 1 w = Some (Ok sample_root, w')" "is_sample w'"
    "w_vnodes w' = w_vnodes w"
proof -
  have "inode_block_ok memory_libs 1" by (simp add: inode_block_ok_def format_consts)
  then obtain f where "InodeManager_Load memory_libs 1 w
      = Some (Ok (stored_inode memory_libs (snd (w_fd w)) 1), w\<lparr>w_fd := f\<rparr>)" "snd f = snd (w_fd w)"
    using InodeManager_Load_law [of memory_libs snd 1 w] memory_file_laws by auto
  then show ?thesis using assms stored_root that [of "w\<lparr>w_fd := f\<rparr>"]
    by (simp add: InodeLoad_def is_sample_def)
qed

lemma sample_read:
  assumes "is_sample w" "w_vnodes w v = Some vn" "vn_inode vn = sample_root"
  obtains w' where "ReadInternal memory_libs v buf len off w = Some (Ok (min len (32 - off),
      \<lambda>k. if k < min len (32 - off) then sample_entries ! (off + k) else buf k), w')"
    "is_sample w'" "w_vnodes w' = w_vnodes w"
proof -
  have "dnum sample_root ! k < 4 \<and> 8 + dnum sample_root ! k < 4294967296" if "k < 16" for k
    using that by (cases k) auto
  then have d: "direct_ok memory_libs (Info w) (vn_inode vn)"
    by (auto simp: direct_ok_def assms(3) is_sample_info [OF assms(1)] format_consts memory_libs_def)
  obtain f where f: "snd f = snd (w_fd w)" "ReadInternal memory_libs v buf len off w
      = Some (Ok (min len (32 - off), \<lambda>k. if k < min len (32 - off)
          then file_byte memory_libs (snd (w_fd w)) sample_root (off + k) else buf k), w\<lparr>w_fd := f\<rparr>)"
    using read_correct [OF _ assms(2) d, of snd len off buf, unfolded assms(3)] memory_file_laws
    by (auto simp: Let_def)
  have "(\<lambda>k. if k < min len (32 - off)
          then file_byte memory_libs (snd (w_fd w)) sample_root (off + k) else buf k)
      = (\<lambda>k. if k < min len (32 - off) then sample_entries ! (off + k) else buf k)"
  proof
    fix k
    have "k < 32 - off \<Longrightarrow> off + k < 32" by arith
    then show "(if k < min len (32 - off) then file_byte memory_libs (snd (w_fd w)) sample_root (off + k)
        else buf k) = (if k < min len (32 - off) then sample_entries ! (off + k) else buf k)"
      using assms(1) by (simp add: is_sample_def sample_entry_byte)
  qed
  then show ?thesis using f assms(1) that [of "w\<lparr>w_fd := f\<rparr>"] by (simp add: is_sample_def)
qed

section \<open>Its entries\<close>

definition dot_entry :: dirent where
  "dot_entry = \<lparr>de_ino = 1, de_reclen = 16, de_namelen = 1, de_type = 2\<rparr>"

definition dotdot_entry :: dirent where
  "dotdot_entry = \<lparr>de_ino = 1, de_reclen = kMinfsReclenLast, de_namelen = 2, de_type = 2\<rparr>"

lemma entry_fields [simp]:
  "de_ino dot_entry = 1" "de_namelen dot_entry = 1" "de_ino dotdot_entry = 1" "de_namelen dotdot_entry = 2"
  by (simp_all add: dot_entry_def dotdot_entry_def)

lemma entry_sizes:
  "DirentSize 1 = 16" "DirentSize 2 = 16"
  "DirentReservedSize dot_entry 0 = 16"
  "DirentReservedSize dotdot_entry 16 = 1048556"
  by (simp_all add: dot_entry_def dotdot_entry_def DirentSize_def DirentReservedSize_def round_up_def dirent_consts
      kMinfsMaxDirectorySize_eq u32_def u32_sub_def)

end
