(* ===== verification/Directory_Laws.thy ===== *)
theory Directory_Laws
  imports Sample Dirops
begin

text \<open>
  Walking a directory (\<open>directory.cc\<close>). The records of a directory are a function of its bytes;
  a callback that only looks at the current record is run over that list, and the walk returns
  whatever the bytes are. The contract of such a callback is the locale \<open>scanning\<close>; looking up a
  name and looking for space are its interpretations.
\<close>

section \<open>The records of a directory\<close>

lemma ValidateDirent_progress: "ValidateDirent de r off = Ok () \<Longrightarrow> 12 \<le> DirentReservedSize de off"
  by (auto simp: ValidateDirent_def Let_def kMinfsDirentSize_def split: if_splits)

text \<open>The records before the first that is not valid, each with its offset and its name, and
  whether the end was reached.\<close>

function dir_records ::
  "bytes \<Rightarrow> nat \<Rightarrow> nat \<Rightarrow> (nat \<times> dirent \<times> nat list) list \<times> bool" where
  "dir_records d dsize off =
    (if off + kMinfsDirentSize < kMinfsMaxDirectorySize \<and> off < dsize then
       let de = load_dirent d off in
       if ValidateDirent de (min kMinfsMaxDirentSize (dsize - off)) off = Ok () then
         let (es, complete) = dir_records d dsize (off + DirentReservedSize de off)
         in ((off, de, load_name d off (de_namelen de)) # es, complete)
       else ([], False)
     else ([], True))"
  by pat_completeness auto

termination
  by (relation "measure (\<lambda>(d, dsize, off). dsize - off)")
    (auto dest!: ValidateDirent_progress)

declare dir_records.simps [simp del]

lemma dir_records_Nil:
  "dir_records d n off = ([], complete) \<Longrightarrow> off + kMinfsDirentSize < kMinfsMaxDirectorySize \<and> off < n
    \<Longrightarrow> ValidateDirent (load_dirent d off) (min kMinfsMaxDirentSize (n - off)) off \<noteq> Ok () \<and> \<not> complete"
  by (subst (asm) dir_records.simps) (auto simp: Let_def split: if_splits prod.splits)

lemma dir_records_Cons:
  assumes "dir_records d n off = (e # es, complete)"
  shows "off + kMinfsDirentSize < kMinfsMaxDirectorySize \<and> off < n
    \<and> ValidateDirent (load_dirent d off) (min kMinfsMaxDirentSize (n - off)) off = Ok ()
    \<and> e = (off, load_dirent d off, load_name d off (de_namelen (load_dirent d off)))
    \<and> dir_records d n (off + DirentReservedSize (load_dirent d off) off) = (es, complete)"
  using assms by (subst (asm) dir_records.simps) (auto simp: Let_def split: if_splits prod.splits)

text \<open>The header of every record and its name lie within the bytes of the directory.\<close>

definition names_inside :: "nat \<Rightarrow> (nat \<times> dirent \<times> nat list) list \<Rightarrow> bool" where
  "names_inside dsize es \<longleftrightarrow> (\<forall>(off, de, nm) \<in> set es.
     de_namelen de \<le> kMinfsMaxNameSize \<and> off + kDirentNameOffset + de_namelen de \<le> dsize)"

lemma names_inside_Cons [simp]:
  "names_inside dsize ((off, de, nm) # es) \<longleftrightarrow>
    de_namelen de \<le> kMinfsMaxNameSize \<and> off + kDirentNameOffset + de_namelen de \<le> dsize
    \<and> names_inside dsize es"
  by (auto simp: names_inside_def)

text \<open>What a read at a record delivers to the buffer.\<close>

lemma load_dirent_cong:
  assumes "\<And>k. k < 10 \<Longrightarrow> a (x + k) = b (y + k)"
  shows "load_dirent a x = load_dirent b y"
proof -
  have "get_u32 a (x + j) = get_u32 b (y + j)" if "j \<le> 6" for j
    unfolding get_u32_def using that assms [of j] assms [of "j + 1"] assms [of "j + 2"] assms [of "j + 3"]
    by (simp add: add.assoc)
  from this [of 0] this [of 4] assms [of 8] assms [of 9] show ?thesis
    by (simp add: load_dirent_def)
qed

lemma de_of_read:
  assumes "\<And>k. k < n \<Longrightarrow> buf k = d (off + k)" "kMinfsDirentSize \<le> n"
  shows "de_of buf = load_dirent d off"
  unfolding de_of_def using assms by (intro load_dirent_cong) (simp add: kMinfsDirentSize_def)

lemma name_of_read:
  assumes "\<And>k. k < n \<Longrightarrow> buf k = d (off + k)" "de_of buf = load_dirent d off"
    "kDirentNameOffset + de_namelen (load_dirent d off) \<le> n"
  shows "name_of buf = load_name d off (de_namelen (load_dirent d off))"
  using assms by (auto simp: name_of_def load_name_def add.assoc)

text \<open>Reading a record of a directory that lies in its direct blocks.\<close>

lemma read_record:
  assumes laws: "posix_laws (li_posix L) content" and v: "w_vnodes w v = Some vn"
    and d: "direct_ok L (Info w) (vn_inode vn)"
    and recs: "dir_records (file_byte L (content (w_fd w)) (vn_inode vn)) (i_size (vn_inode vn)) off
      = ((o', de, nm) # es, complete)"
    and inside: "names_inside (i_size (vn_inode vn)) ((o', de, nm) # es)"
  obtains f B n where "content f = content (w_fd w)"
    "ReadInternal L v buf kMinfsMaxDirentSize off w = Some (Ok (n, B), w\<lparr>w_fd := f\<rparr>)"
    "ValidateDirent de n off = Ok ()" "de_of B = de" "name_of B = nm" "o' = off"
    "off + kMinfsDirentSize < kMinfsMaxDirectorySize" "off < i_size (vn_inode vn)"
    "dir_records (file_byte L (content (w_fd w)) (vn_inode vn)) (i_size (vn_inode vn))
       (off + DirentReservedSize de off) = (es, complete)"
proof -
  let ?i = "vn_inode vn"
  let ?d = "file_byte L (content (w_fd w)) ?i"
  let ?de = "load_dirent ?d off" and ?n = "min kMinfsMaxDirentSize (i_size ?i - off)"
  have r: "off + kMinfsDirentSize < kMinfsMaxDirectorySize" "off < i_size ?i"
    "ValidateDirent ?de ?n off = Ok ()" "(o', de, nm) = (off, ?de, load_name ?d off (de_namelen ?de))"
    "dir_records ?d (i_size ?i) (off + DirentReservedSize ?de off) = (es, complete)"
    using dir_records_Cons [OF recs] by blast+
  obtain f B where f: "content f = content (w_fd w)"
    "ReadInternal L v buf kMinfsMaxDirentSize off w = Some (Ok (?n, B), w\<lparr>w_fd := f\<rparr>)"
    and B: "\<And>k. k < ?n \<Longrightarrow> B k = ?d (off + k)"
    using read_correct [OF laws v d, of kMinfsMaxDirentSize off buf] by (auto simp: Let_def)
  have n: "kMinfsDirentSize \<le> ?n"
    using r(3) by (auto simp: ValidateDirent_def split: if_splits)
  have de: "de_of B = ?de" using n by (intro de_of_read [of ?n]) (auto simp: B)
  have "de_namelen ?de \<le> 255" "off + 10 + de_namelen ?de \<le> i_size ?i"
    using inside r(4) by (simp_all add: kMinfsMaxNameSize_def kDirentNameOffset_def)
  then have nm: "name_of B = load_name ?d off (de_namelen ?de)"
    by (intro name_of_read [of ?n, OF _ de]) (auto simp: B kMinfsMaxDirentSize_eq kDirentNameOffset_def)
  show ?thesis by (rule that [OF f]) (use r de nm in simp_all)
qed

section \<open>Callbacks that look\<close>

fun scan ::
  "(dirent \<Rightarrow> nat list \<Rightarrow> dir_args \<Rightarrow> (iterator_command \<times> dir_args) res)
    \<Rightarrow> (nat \<times> dirent \<times> nat list) list \<Rightarrow> bool \<Rightarrow> dir_args \<Rightarrow> (bool \<times> dir_args) res" where
  "scan decide [] complete args = (if complete then Ok (False, args) else Err ZX_ERR_IO)"
| "scan decide ((off, de, nm) # es) complete args =
     (case decide de nm args of
        Ok (command, args) \<Rightarrow> if command = kIteratorNext then scan decide es complete args else Ok (True, args)
      | Err e \<Rightarrow> Err e
      | Panic \<Rightarrow> Panic)"

locale scanning =
  fixes func :: "('b, 'r, 'f) callback"
    and decide :: "dirent \<Rightarrow> nat list \<Rightarrow> dir_args \<Rightarrow> (iterator_command \<times> dir_args) res"
  assumes decides: "func buf args = lift_res (decide (de_of buf) (name_of buf) args)"
    and no_sync: "decide de nm args = Ok (command, args') \<Longrightarrow> command \<noteq> kIteratorSaveSync"
    and advance: "decide de nm args = Ok (kIteratorNext, args')
      \<Longrightarrow> da_off args' = da_off args + DirentReservedSize de (da_off args)"
begin

lemma walk:
  assumes laws: "posix_laws (li_posix L) content" and v: "w_vnodes w v = Some vn"
    and d: "direct_ok L (Info w) (vn_inode vn)"
    and recs: "dir_records (file_byte L (content (w_fd w)) (vn_inode vn)) (i_size (vn_inode vn)) (da_off args)
      = (es, complete)"
    and inside: "names_inside (i_size (vn_inode vn)) es"
  shows "\<exists>f. content f = content (w_fd w)
    \<and> dirent_loop L v func buf args w = Some (scan decide es complete args, w\<lparr>w_fd := f\<rparr>)"
  using v d recs inside
proof (induction es arbitrary: args buf w)
  case Nil
  let ?i = "vn_inode vn" and ?off = "da_off args"
  let ?d = "file_byte L (content (w_fd w)) ?i"
  have gs: "GetSize v w = Some (Ok (i_size ?i), w)"
    using Nil.prems(1) by (simp add: GetSize_def get_inode_def get_vnode_def abind_def ret_def)
  show ?case
  proof (cases "?off + kMinfsDirentSize < kMinfsMaxDirectorySize \<and> ?off < i_size ?i")
    case False
    then have "complete" using Nil.prems(3) by (subst (asm) dir_records.simps) auto
    then show ?thesis using False gs
      by (intro exI [of _ "w_fd w"]) (subst dirent_loop.simps, auto simp: abind_def)
  next
    case True
    let ?n = "min kMinfsMaxDirentSize (i_size ?i - ?off)"
    obtain f where f: "content f = content (w_fd w)"
      "ReadInternal L v buf kMinfsMaxDirentSize ?off w = Some (Ok (?n, \<lambda>k. if k < ?n
       then ?d (?off + k) else buf k), w\<lparr>w_fd := f\<rparr>)"
      using read_correct [OF laws Nil.prems(1,2), of kMinfsMaxDirentSize ?off buf] by (auto simp: Let_def)
    let ?buf = "\<lambda>k. if k < ?n then ?d (?off + k) else buf k"
    from True Nil.prems(3) have bad: "ValidateDirent (load_dirent ?d ?off) ?n ?off \<noteq> Ok ()" "\<not> complete"
      using dir_records_Nil by blast+
    have "ValidateDirent (de_of ?buf) ?n ?off = Err ZX_ERR_IO"
    proof (cases "?n < kMinfsDirentSize")
      case True
      then show ?thesis by (simp add: ValidateDirent_def)
    next
      case False
      then have "de_of ?buf = load_dirent ?d ?off" by (intro de_of_read [of ?n]) auto
      with bad show ?thesis by (auto simp: ValidateDirent_def Let_def split: if_splits)
    qed
    then show ?thesis using True gs f bad(2)
      by (intro exI [of _ f]) (subst dirent_loop.simps, simp add: abind_def lift_res_def)
  qed
next
  case (Cons e es)
  let ?i = "vn_inode vn" and ?off = "da_off args"
  obtain o' de nm where e: "e = (o', de, nm)" by (cases e)
  have gs: "GetSize v w = Some (Ok (i_size ?i), w)"
    using Cons.prems(1) by (simp add: GetSize_def get_inode_def get_vnode_def abind_def ret_def)
  obtain f B n where f: "content f = content (w_fd w)"
    "ReadInternal L v buf kMinfsMaxDirentSize ?off w = Some (Ok (n, B), w\<lparr>w_fd := f\<rparr>)"
    and de: "ValidateDirent de n ?off = Ok ()" "de_of B = de" "name_of B = nm"
    and r: "?off + kMinfsDirentSize < kMinfsMaxDirectorySize" "?off < i_size ?i"
      "dir_records (file_byte L (content (w_fd w)) ?i) (i_size ?i) (?off + DirentReservedSize de ?off) = (es, complete)"
    by (rule read_record [OF laws Cons.prems [unfolded e], of buf])
  let ?w = "w\<lparr>w_fd := f\<rparr>"
  have step: "dirent_loop L v func buf args w =
      (case decide de nm args of
        Ok (command, args) \<Rightarrow> if command = kIteratorNext then dirent_loop L v func B args ?w
          else Some (Ok (True, args), ?w)
      | Err e \<Rightarrow> Some (Err e, ?w)
      | Panic \<Rightarrow> Some (Panic, ?w))"
  proof -
    have "dirent_loop L v func buf args w = abind (func B args) (\<lambda>(command, args) w.
      if command = kIteratorNext then dirent_loop L v func B args w
      else if command = kIteratorSaveSync then
        abind (on_inode v (\<lambda>i. i\<lparr>i_seq_num := u32 (i_seq_num i + 1)\<rparr>)) (\<lambda>_.
        abind (InodeSync L v kMxFsSyncMtime) (\<lambda>_. ret (True, args))) w
      else Some (Ok (True, args), w)) ?w"
      using r(1,2) gs f(2) de(1,2) by (subst dirent_loop.simps) (simp add: abind_def [of "GetSize v"]
        abind_def [of "ReadInternal L v buf kMinfsMaxDirentSize ?off"])
    then show ?thesis
      using no_sync [of de nm args] unfolding decides de(2,3)
      by (cases "decide de nm args") (auto simp: abind_def lift_res_def)
  qed
  show ?case
  proof (cases "decide de nm args")
    case (Ok p)
    obtain command args' where p: "p = (command, args')" by (cases p)
    show ?thesis
    proof (cases "command = kIteratorNext")
      case True
      then have off: "da_off args' = ?off + DirentReservedSize de ?off" using advance Ok p by blast
      have "\<exists>f'. content f' = content (w_fd ?w)
          \<and> dirent_loop L v func B args' ?w = Some (scan decide es complete args', ?w\<lparr>w_fd := f'\<rparr>)"
        by (rule Cons.IH) (use Cons.prems r(3) f(1) off in \<open>auto simp: Info_def e\<close>)
      then show ?thesis using Ok p True step f(1) by (auto simp: e)
    next
      case False
      then show ?thesis using Ok p step f(1) by (auto simp: e)
    qed
  qed (use step f(1) in \<open>auto simp: e\<close>)
qed

end

section \<open>Looking up a name\<close>

definition passed :: "dirent \<Rightarrow> dir_args \<Rightarrow> dir_args" where
  "passed de args = args\<lparr>da_off_prev := da_off args,
     da_off := da_off args + DirentReservedSize de (da_off args)\<rparr>"

definition find_decide ::
  "dirent \<Rightarrow> nat list \<Rightarrow> dir_args \<Rightarrow> (iterator_command \<times> dir_args) res" where
  "find_decide de nm args =
    (if de_ino de \<noteq> 0 \<and> nm = da_name args
     then Ok (kIteratorDone, args\<lparr>da_ino := de_ino de, da_type := de_type de\<rparr>)
     else Ok (kIteratorNext, passed de args))"

interpretation finding: scanning DirentCallbackFind find_decide
  by unfold_locales
    (auto simp: DirentCallbackFind_def find_decide_def name_matches_def NextDirent_def passed_def
      lift_res_def ret_def fun_eq_iff split: if_splits)

definition find_entry ::
  "nat list \<Rightarrow> (nat \<times> dirent \<times> nat list) list \<Rightarrow> (nat \<times> dirent \<times> nat list) option" where
  "find_entry name es = List.find (\<lambda>(off, de, nm). de_ino de \<noteq> 0 \<and> nm = name) es"

lemma scan_find:
  "\<exists>args'. scan find_decide es complete args =
     (case find_entry (da_name args) es of
        Some (off, de, nm) \<Rightarrow> Ok (True, args'\<lparr>da_ino := de_ino de\<rparr>)
      | None \<Rightarrow> if complete then Ok (False, args') else Err ZX_ERR_IO)"
proof (induction es arbitrary: args)
  case Nil
  then show ?case by (auto simp: find_entry_def)
next
  case (Cons e es)
  obtain off de nm where e: "e = (off, de, nm)" by (cases e)
  show ?case
  proof (cases "de_ino de \<noteq> 0 \<and> nm = da_name args")
    case True
    then show ?thesis
      by (intro exI [of _ "args\<lparr>da_type := de_type de\<rparr>"]) (simp add: e find_entry_def find_decide_def)
  next
    case False
    then show ?thesis using Cons.IH [of "passed de args"]
      by (auto simp: e find_entry_def find_decide_def passed_def)
  qed
qed

lemma Lookup_law:
  assumes "posix_laws (li_posix L) content" "w_vnodes w v = Some vn" "direct_ok L (Info w) (vn_inode vn)"
    "dir_records (file_byte L (content (w_fd w)) (vn_inode vn)) (i_size (vn_inode vn)) 0 = (es, complete)"
    "names_inside (i_size (vn_inode vn)) es"
  shows "\<exists>f. content f = content (w_fd w) \<and> LookupInternal L v name w =
    (case find_entry name es of
       Some (off, de, nm) \<Rightarrow> VnodeGet L (de_ino de) (w\<lparr>w_fd := f\<rparr>)
     | None \<Rightarrow> Some (Err (if complete then ZX_ERR_NOT_FOUND else ZX_ERR_IO), w\<lparr>w_fd := f\<rparr>))"
proof -
  let ?args = "(new_args name)\<lparr>da_off := 0, da_off_prev := 0\<rparr>"
  obtain f where f: "content f = content (w_fd w)"
    "dirent_loop L v DirentCallbackFind (li_garbage L) ?args w
      = Some (scan find_decide es complete ?args, w\<lparr>w_fd := f\<rparr>)"
    using finding.walk [OF assms(1,2,3) _ assms(5), of ?args complete "li_garbage L"] assms(4)
    by auto
  obtain args' where "scan find_decide es complete ?args =
     (case find_entry name es of
        Some (off, de, nm) \<Rightarrow> Ok (True, args'\<lparr>da_ino := de_ino de\<rparr>)
      | None \<Rightarrow> if complete then Ok (False, args') else Err ZX_ERR_IO)"
    using scan_find [of es complete ?args] by (auto simp: new_args_def)
  with f show ?thesis
    by (intro exI [of _ f])
      (auto simp: LookupInternal_def ForEachDirent_def abind_def fail_def split: option.splits)
qed

section \<open>Looking for space\<close>

lemma and_3_mod_4: "(n AND 3) = n mod 4" for n :: nat
proof -
  have "(3 :: nat) = mask 2" by (simp add: mask_eq_exp_minus_1)
  then have "(n AND 3) = take_bit 2 n" by (simp only: take_bit_eq_mask)
  then show ?thesis by (simp add: take_bit_eq_mod)
qed

lemma ValidateDirent_room:
  assumes "ValidateDirent de r off = Ok ()" "de_ino de \<noteq> 0" "de_namelen de \<le> kMinfsMaxNameSize"
  shows "DirentSize (de_namelen de) \<le> DirentReservedSize de off"
proof -
  let ?s = "DirentReservedSize de off"
  have s: "12 \<le> ?s" "?s mod 4 = 0" "de_namelen de \<le> ?s - 12"
    using assms(1,2) by (auto simp: ValidateDirent_def Let_def dirent_consts and_3_mod_4 split: if_splits)
  have "DirentSize (de_namelen de) = 12 + (de_namelen de + 3) div 4 * 4"
    using assms(3) by (simp add: DirentSize_eq kMinfsMaxNameSize_def)
  moreover obtain k where k: "?s = 4 * k" using s(2) by auto
  moreover have "(a + 3) div 4 * 4 \<le> 4 * j" if "a \<le> 4 * j" for a j :: nat
    using that by simp
  from this [of "de_namelen de" "k - 3"] have "(de_namelen de + 3) div 4 * 4 \<le> 4 * (k - 3)"
    using s(3) k by (simp add: diff_mult_distrib2)
  ultimately show ?thesis using s(1) k by simp
qed

definition room :: "nat \<Rightarrow> nat \<times> dirent \<times> nat list \<Rightarrow> bool" where
  "room n e = (case e of (off, de, nm) \<Rightarrow>
     n + (if de_ino de = 0 then 0 else DirentSize (de_namelen de)) \<le> DirentReservedSize de off)"

definition space_decide ::
  "dirent \<Rightarrow> nat list \<Rightarrow> dir_args \<Rightarrow> (iterator_command \<times> dir_args) res" where
  "space_decide de nm args =
    (let reserved_size = u32 (DirentReservedSize de (da_off args)) in
     if de_ino de = 0 then
       (if da_reclen args > reserved_size then Ok (kIteratorNext, passed de args) else Ok (kIteratorDone, args))
     else
       let used_size = DirentSize (de_namelen de) in
       if used_size > reserved_size then Err ZX_ERR_IO
       else if reserved_size - used_size < da_reclen args then Ok (kIteratorNext, passed de args)
       else Ok (kIteratorDone, args))"

interpretation finding_space: scanning DirentCallbackFindSpace space_decide
  by unfold_locales
    (auto simp: DirentCallbackFindSpace_def space_decide_def NextDirent_def passed_def Let_def
      lift_res_def ret_def fail_def fun_eq_iff split: if_splits)

lemma scan_space:
  "dir_records d n (da_off args) = (es, complete) \<Longrightarrow> names_inside n es \<Longrightarrow>
    \<exists>off' prev. scan space_decide es complete args =
     (case List.find (room (da_reclen args)) es of
        Some (off, de, nm) \<Rightarrow> Ok (True, args\<lparr>da_off := off, da_off_prev := prev\<rparr>)
      | None \<Rightarrow> if complete then Ok (False, args\<lparr>da_off := off', da_off_prev := prev\<rparr>) else Err ZX_ERR_IO)"
proof (induction es arbitrary: args)
  case Nil
  show ?case by (rule exI [of _ "da_off args"], rule exI [of _ "da_off_prev args"]) simp
next
  case (Cons e es)
  let ?off = "da_off args" and ?de = "load_dirent d (da_off args)"
  note D = dir_records_Cons [OF Cons.prems(1)]
  have e: "e = (?off, ?de, load_name d ?off (de_namelen ?de))" using D by blast
  have nl: "de_namelen ?de \<le> kMinfsMaxNameSize" "names_inside n es" using Cons.prems(2) unfolding e by auto
  have val: "ValidateDirent ?de (min kMinfsMaxDirentSize (n - ?off)) ?off = Ok ()" using D by blast
  then have "?off + DirentReservedSize ?de ?off \<le> kMinfsMaxDirectorySize"
    by (auto simp: ValidateDirent_def Let_def split: if_splits)
  then have u: "u32 (DirentReservedSize ?de ?off) = DirentReservedSize ?de ?off"
    by (simp add: u32_id kMinfsMaxDirectorySize_eq)
  have dec: "space_decide ?de nm args = (if room (da_reclen args) (?off, ?de, nm)
      then Ok (kIteratorDone, args) else Ok (kIteratorNext, passed ?de args))" for nm
    using ValidateDirent_room [OF val _ nl(1)] by (auto simp: space_decide_def room_def u)
  show ?case
  proof (cases "room (da_reclen args) e")
    case True
    then show ?thesis
      by (intro exI [of _ 0] exI [of _ "da_off_prev args"]) (simp add: e dec)
  next
    case False
    have "da_off (passed ?de args) = ?off + DirentReservedSize ?de ?off" by (simp add: passed_def)
    then obtain off' prev where "scan space_decide es complete (passed ?de args) =
     (case List.find (room (da_reclen args)) es of
        Some (off, de, nm) \<Rightarrow> Ok (True, (passed ?de args)\<lparr>da_off := off, da_off_prev := prev\<rparr>)
      | None \<Rightarrow> if complete then Ok (False, (passed ?de args)\<lparr>da_off := off', da_off_prev := prev\<rparr>)
          else Err ZX_ERR_IO)"
      using Cons.IH [of "passed ?de args"] D nl(2) by (auto simp: passed_def)
    then show ?thesis using False
      by (intro exI [of _ off'] exI [of _ prev]) (simp add: e dec passed_def split: option.splits)
  qed
qed

section \<open>Properties\<close>

text \<open>C28: On a directory of at most 128 KiB, whose content lies in its 16 direct blocks, and whose records
  and names lie within its size, looking up a name returns: the inode of the first record in use that
  has the name, and otherwise that there is none, or an I/O error when a record is not valid. The
  result depends on nothing but the bytes of the directory. (A directory may have up to 1 MiB.)\<close>

theorem LookupInternal_correct:
  assumes "posix_laws (li_posix L) content" "w_vnodes w v = Some vn" "direct_ok L (Info w) (vn_inode vn)"
    "dir_records (file_byte L (content (w_fd w)) (vn_inode vn)) (i_size (vn_inode vn)) 0 = (es, complete)"
    "names_inside (i_size (vn_inode vn)) es"
  shows "\<exists>f. content f = content (w_fd w) \<and> LookupInternal L v name w =
    (case find_entry name es of
       Some (off, de, nm) \<Rightarrow> VnodeGet L (de_ino de) (w\<lparr>w_fd := f\<rparr>)
     | None \<Rightarrow> Some (Err (if complete then ZX_ERR_NOT_FOUND else ZX_ERR_IO), w\<lparr>w_fd := f\<rparr>))"
  by (rule Lookup_law [OF assms])

text \<open>C29: The search for space before an entry is added returns the first record with room for it:
  a free record that is large enough, or one in use with enough space after its name; it reports
  that there is none only if no record has room.\<close>

theorem FindSpace_first_fit:
  assumes "posix_laws (li_posix L) content" "w_vnodes w v = Some vn" "direct_ok L (Info w) (vn_inode vn)"
    "dir_records (file_byte L (content (w_fd w)) (vn_inode vn)) (i_size (vn_inode vn)) 0 = (es, complete)"
    "names_inside (i_size (vn_inode vn)) es"
  shows "\<exists>f off' prev. content f = content (w_fd w)
    \<and> ForEachDirent L v args DirentCallbackFindSpace w = Some
        (case List.find (room (da_reclen args)) es of
           Some (off, de, nm) \<Rightarrow> Ok (True, args\<lparr>da_off := off, da_off_prev := prev\<rparr>)
         | None \<Rightarrow> if complete then Ok (False, args\<lparr>da_off := off', da_off_prev := prev\<rparr>) else Err ZX_ERR_IO,
         w\<lparr>w_fd := f\<rparr>)"
proof -
  let ?args = "args\<lparr>da_off := 0, da_off_prev := 0\<rparr>"
  obtain f where f: "content f = content (w_fd w)"
    "dirent_loop L v DirentCallbackFindSpace (li_garbage L) ?args w
      = Some (scan space_decide es complete ?args, w\<lparr>w_fd := f\<rparr>)"
    using finding_space.walk [OF assms(1,2,3) _ assms(5), of ?args complete "li_garbage L"] assms(4) by auto
  obtain off' prev where "scan space_decide es complete ?args =
     (case List.find (room (da_reclen ?args)) es of
        Some (off, de, nm) \<Rightarrow> Ok (True, ?args\<lparr>da_off := off, da_off_prev := prev\<rparr>)
      | None \<Rightarrow> if complete then Ok (False, ?args\<lparr>da_off := off', da_off_prev := prev\<rparr>) else Err ZX_ERR_IO)"
    using scan_space [of "file_byte L (content (w_fd w)) (vn_inode vn)" "i_size (vn_inode vn)" ?args es complete]
      assms(4,5) by auto
  with f show ?thesis
    by (intro exI [of _ f] exI [of _ off'] exI [of _ prev])
      (auto simp: ForEachDirent_def split: option.splits)
qed

section \<open>The root directory of the sample\<close>

definition root_vnode :: "index_set vnode" where
  "root_vnode = \<lparr>vn_ino = 1, vn_inode = sample_root, vn_indirect = None, vn_directory = True,
     vn_open_count = 0\<rparr>"

definition root_world :: sample where
  "root_world = sample_world\<lparr>w_vnodes := [0 \<mapsto> root_vnode], w_hash := [1 \<mapsto> 0]\<rparr>"

lemma root_world_ok:
  "w_vnodes root_world 0 = Some root_vnode" "vn_inode root_vnode = sample_root"
  "w_fd root_world = (0, sample_content)" "Info root_world = sample_info"
  "direct_ok memory_libs (Info root_world) sample_root"
proof -
  have "dnum sample_root ! k < 4 \<and> 8 + dnum sample_root ! k < 4294967296" if "k < 16" for k
    using that by (cases k) auto
  then show "direct_ok memory_libs (Info root_world) sample_root"
    using is_sample_info [OF is_sample_world]
    by (auto simp: direct_ok_def root_world_def Info_def format_consts memory_libs_def)
qed (simp_all add: root_world_def root_vnode_def sample_world_def Info_def memory_world_def)

lemma root_dirents:
  "load_dirent (file_byte memory_libs sample_content sample_root) 0 = dot_entry"
  "load_dirent (file_byte memory_libs sample_content sample_root) 16 = dotdot_entry"
  "load_name (file_byte memory_libs sample_content sample_root) 0 1 = [46]"
  "load_name (file_byte memory_libs sample_content sample_root) 16 2 = [46, 46]"
  by (simp_all add: load_dirent_def load_name_def get_u32_def sample_entry_byte kDirentNameOffset_def upt_rec)
    (simp_all add: sample_entries_def dot_entry_def dotdot_entry_def kMinfsReclenLast_def)

lemma root_records:
  "dir_records (file_byte memory_libs sample_content sample_root) 32 0
    = ([(0, dot_entry, [46]), (16, dotdot_entry, [46, 46])], True)"
proof -
  let ?d = "file_byte memory_libs sample_content sample_root"
  have 3: "dir_records ?d 32 1048572 = ([], True)" by (subst dir_records.simps) simp
  have 2: "dir_records ?d 32 16 = ([(16, dotdot_entry, [46, 46])], True)"
    using 3 root_dirents(2,4)
    by (subst dir_records.simps) (simp add: entry_sizes ValidateDirent_def dirent_consts
        kMinfsMaxDirectorySize_eq kMinfsMaxDirentSize_eq and_3_mod_4)
  show ?thesis
    using 2 root_dirents(1,3)
    by (subst dir_records.simps) (simp add: entry_sizes ValidateDirent_def dirent_consts
        kMinfsMaxDirectorySize_eq kMinfsMaxDirentSize_eq and_3_mod_4)
qed

theorem LookupInternal_correct_witness:
  "\<exists>w'. LookupInternal memory_libs 0 [46, 46] root_world = Some (Ok 0, w')"
proof -
  obtain f where "LookupInternal memory_libs 0 [46, 46] root_world = VnodeGet memory_libs 1 (root_world\<lparr>w_fd := f\<rparr>)"
    using LookupInternal_correct [OF memory_file_laws [folded memory_libs_posix] root_world_ok(1),
        unfolded root_world_ok(2,3) snd_conv, OF root_world_ok(5), of _ True "[46, 46]"] root_records
    by (auto simp: find_entry_def kMinfsMaxNameSize_def kDirentNameOffset_def names_inside_def)
  moreover have "VnodeGet memory_libs 1 (root_world\<lparr>w_fd := f\<rparr>) = Some (Ok 0, root_world\<lparr>w_fd := f\<rparr>)"
    using root_world_ok(4)
    by (simp add: VnodeGet_def VnodeLookup_def VnodeLookupInternal_def gets_def abind_def Info_def root_world_def
        ret_def)
  ultimately show ?thesis by simp
qed

theorem FindSpace_first_fit_witness:
  "\<exists>prev w'. ForEachDirent memory_libs 0 ((new_args [97])\<lparr>da_reclen := 16\<rparr>) DirentCallbackFindSpace root_world
    = Some (Ok (True, (new_args [97])\<lparr>da_reclen := 16, da_off := 16, da_off_prev := prev\<rparr>), w')"
proof -
  let ?args = "(new_args [97])\<lparr>da_reclen := 16\<rparr>"
  have "List.find (room 16) [(0, dot_entry, [46]), (16, dotdot_entry, [46, 46])]
      = Some (16, dotdot_entry, [46, 46])"
    by (simp add: room_def entry_sizes entry_sizes(1) [unfolded One_nat_def])
  moreover have "names_inside 32 [(0, dot_entry, [46]), (16, dotdot_entry, [46, 46])]"
    by (simp add: names_inside_def kMinfsMaxNameSize_def kDirentNameOffset_def)
  ultimately obtain f prev where "ForEachDirent memory_libs 0 ?args DirentCallbackFindSpace root_world
      = Some (Ok (True, ?args\<lparr>da_off := 16, da_off_prev := prev\<rparr>), root_world\<lparr>w_fd := f\<rparr>)"
    using FindSpace_first_fit [OF memory_file_laws [folded memory_libs_posix] root_world_ok(1),
        unfolded root_world_ok(2,3) snd_conv, OF root_world_ok(5), of _ True ?args] root_records
    by fastforce
  then show ?thesis by blast
qed

end
