(* ===== verification/HostDir_Laws.thy ===== *)
theory HostDir_Laws
  imports HostDir Directory_Laws
begin

text \<open>
  Listing a directory: one call of \<open>Directory::Readdir\<close> continues where the cookie says and fills the
  buffer as far as it goes, so that a stream of the host tools delivers every entry of a directory
  once, in the order of the records, and then its end.
\<close>

section \<open>What is listed\<close>

definition listed :: "nat \<times> dirent \<times> nat list \<Rightarrow> bool" where
  "listed e \<longleftrightarrow> (case e of (off, de, nm) \<Rightarrow> de_ino de \<noteq> 0 \<and> nm \<noteq> dotdot)"

definition entry_of :: "nat \<times> dirent \<times> nat list \<Rightarrow> vdirent" where
  "entry_of e = (case e of (off, de, nm) \<Rightarrow> \<lparr>vd_ino = de_ino de, vd_type = de_type de, vd_name = nm\<rparr>)"

definition host_entry :: "vdirent \<Rightarrow> host_dirent" where
  "host_entry e = \<lparr>d_type = vd_type e, d_name = vd_name e\<rparr>"

text \<open>Where the records end; in a directory as the file system makes it the last one fills up the
  greatest size.\<close>

fun end_offset :: "nat \<Rightarrow> (nat \<times> dirent \<times> nat list) list \<Rightarrow> nat" where
  "end_offset off [] = off"
| "end_offset off ((_, de, _) # es) = end_offset (off + DirentReservedSize de off) es"

definition remaining :: "bytes \<Rightarrow> nat \<Rightarrow> nat \<Rightarrow> (nat \<times> dirent \<times> nat list) list \<Rightarrow> bool" where
  "remaining d dsize off es \<longleftrightarrow> dir_records d dsize off = (es, True) \<and> names_inside dsize es
     \<and> kMinfsMaxDirectorySize \<le> end_offset off es + kMinfsDirentSize"

lemma remaining_Cons:
  assumes "remaining d n off ((o', de, nm) # es)"
  shows "remaining d n (off + DirentReservedSize de off) es" "length nm \<le> kMinfsMaxNameSize"
  using assms dir_records_Cons [of d n off "(o', de, nm)" es True]
  by (auto simp: remaining_def load_name_def)

text \<open>The filler adds an entry at the end of the buffer or refuses it, and an empty buffer has room for
  any name.\<close>

definition filler_laws :: "filler \<Rightarrow> bool" where
  "filler_laws filler \<longleftrightarrow>
    (\<forall>nm t i d. filler nm t i d = None
       \<or> filler nm t i d = Some (d @ [\<lparr>vd_ino = i, vd_type = t, vd_name = nm\<rparr>]))
    \<and> (\<forall>nm t i. length nm \<le> kMinfsMaxNameSize \<longrightarrow> filler nm t i [] \<noteq> None)"

lemma filler_lawsD:
  assumes "filler_laws filler"
  shows "filler nm t i d = None \<or> filler nm t i d = Some (d @ [\<lparr>vd_ino = i, vd_type = t, vd_name = nm\<rparr>])"
    and "length nm \<le> kMinfsMaxNameSize
      \<Longrightarrow> filler nm t i [] = Some [\<lparr>vd_ino = i, vd_type = t, vd_name = nm\<rparr>]"
proof -
  show added: "filler nm t i d = None
      \<or> filler nm t i d = Some (d @ [\<lparr>vd_ino = i, vd_type = t, vd_name = nm\<rparr>])" for d
    using assms by (simp add: filler_laws_def)
  show "filler nm t i [] = Some [\<lparr>vd_ino = i, vd_type = t, vd_name = nm\<rparr>]"
    if "length nm \<le> kMinfsMaxNameSize"
  proof -
    have "filler nm t i [] \<noteq> None" using assms that unfolding filler_laws_def by blast
    then show ?thesis using added [of "[]"] by auto
  qed
qed

fun fill_from ::
  "filler \<Rightarrow> (nat \<times> dirent \<times> nat list) list \<Rightarrow> vdirent list \<Rightarrow> (nat \<times> dirent \<times> nat list) list \<times> vdirent list" where
  "fill_from filler [] d = ([], d)"
| "fill_from filler ((off, de, nm) # es) d =
     (if listed (off, de, nm) then
        (case filler nm (de_type de) (de_ino de) d of
           None \<Rightarrow> ((off, de, nm) # es, d)
         | Some d \<Rightarrow> fill_from filler es d)
      else fill_from filler es d)"

lemma fill_from_listed:
  assumes "filler_laws filler" "fill_from filler es d = (es', d')"
  obtains xs where "d' = d @ map entry_of xs" "filter listed es = xs @ filter listed es'"
  using assms(2)
proof (induction es arbitrary: d thesis)
  case Nil
  then show ?case by simp
next
  case (Cons e es)
  obtain off de nm where e: "e = (off, de, nm)" by (cases e)
  show ?case
  proof (cases "listed e")
    case False
    with Cons.IH [of d] Cons.prems show ?thesis by (auto simp: e)
  next
    case True
    consider "filler nm (de_type de) (de_ino de) d = None"
      | "filler nm (de_type de) (de_ino de) d = Some (d @ [entry_of e])"
      using filler_lawsD(1) [OF assms(1), of nm "de_type de" "de_ino de" d]
      by (auto simp: e entry_of_def)
    then show ?thesis
    proof cases
      case 1
      then show ?thesis using Cons.prems(1) [of "[]"] Cons.prems(2) True by (auto simp: e)
    next
      case 2
      then obtain xs where "d' = (d @ [entry_of e]) @ map entry_of xs" "filter listed es = xs @ filter listed es'"
        using Cons.IH [of "d @ [entry_of e]"] Cons.prems(2) True by (auto simp: e)
      then show ?thesis using Cons.prems(1) [of "e # xs"] True by simp
    qed
  qed
qed

lemma fill_from_progress:
  assumes "filler_laws filler" "fill_from filler es [] = (es', [])" "remaining D n off es"
  shows "filter listed es = []"
  using assms(2,3)
proof (induction es arbitrary: off)
  case Nil
  then show ?case by simp
next
  case (Cons e es)
  obtain o' de nm where e: "e = (o', de, nm)" by (cases e)
  note r = remaining_Cons [OF Cons.prems(2) [unfolded e]]
  show ?case
  proof (cases "listed e")
    case False
    then show ?thesis using Cons.IH [OF _ r(1)] Cons.prems(1) by (simp add: e)
  next
    case True
    then have "filler nm (de_type de) (de_ino de) [] = Some [entry_of e]"
      using filler_lawsD(2) [OF assms(1) r(2)] by (simp add: e entry_of_def)
    then have "fill_from filler es [entry_of e] = (es', [])" using Cons.prems(1) True by (simp add: e)
    then show ?thesis by (rule fill_from_listed [OF assms(1)]) auto
  qed
qed

section \<open>One call of Readdir\<close>

lemma fill_law:
  assumes laws: "posix_laws (li_posix L) content" and v: "w_vnodes w v = Some vn"
    and d: "direct_ok L (Info w) (vn_inode vn)"
    and rem: "remaining (file_byte L (content (w_fd w)) (vn_inode vn)) (i_size (vn_inode vn)) off es"
  shows "\<exists>f off' es' e'. content f = content (w_fd w)
    \<and> fill_loop L v filler buf off e w = Some (Ok (off', e'), w\<lparr>w_fd := f\<rparr>)
    \<and> fill_from filler es e = (es', e')
    \<and> remaining (file_byte L (content (w_fd w)) (vn_inode vn)) (i_size (vn_inode vn)) off' es'"
  using v d rem
proof (induction es arbitrary: off e buf w)
  case Nil
  then have "fill_loop L v filler buf off e w = Some (Ok (off, e), w)"
    by (subst fill_loop.simps) (simp add: remaining_def)
  then show ?case using Nil.prems(3)
    by (intro exI [of _ "w_fd w"] exI [of _ off] exI [of _ "[]"] exI [of _ e]) simp
next
  case (Cons x es)
  let ?d = "file_byte L (content (w_fd w)) (vn_inode vn)"
  obtain o' de nm where x: "x = (o', de, nm)" by (cases x)
  note rem = Cons.prems(3) [unfolded x]
  have recs: "dir_records ?d (i_size (vn_inode vn)) off = ((o', de, nm) # es, True)"
      "names_inside (i_size (vn_inode vn)) ((o', de, nm) # es)"
    using rem by (simp_all add: remaining_def)
  obtain f B n where f: "content f = content (w_fd w)"
    "ReadInternal L v buf kMinfsMaxDirentSize off w = Some (Ok (n, B), w\<lparr>w_fd := f\<rparr>)"
    and de: "ValidateDirent de n off = Ok ()" "de_of B = de" "name_of B = nm"
    and r: "off + kMinfsDirentSize < kMinfsMaxDirectorySize"
    by (rule read_record [OF laws Cons.prems(1,2) recs, of buf])
  let ?w = "w\<lparr>w_fd := f\<rparr>" and ?next = "off + DirentReservedSize de off"
  define added where "added = (if listed x then filler nm (de_type de) (de_ino de) e else Some e)"
  have step: "fill_loop L v filler buf off e w =
      (case added of None \<Rightarrow> Some (Ok (off, e), ?w) | Some e \<Rightarrow> fill_loop L v filler B ?next e ?w)"
    using r de f(2) by (subst fill_loop.simps)
      (simp add: abind_def [of "ReadInternal L v buf kMinfsMaxDirentSize off"] added_def listed_def x Let_def
        split: option.splits)
  have filled: "fill_from filler (x # es) e =
      (case added of None \<Rightarrow> (x # es, e) | Some e \<Rightarrow> fill_from filler es e)"
    by (simp add: added_def x split: option.split)
  show ?case
  proof (cases added)
    case None
    then show ?thesis using step filled f(1) Cons.prems(3) by auto
  next
    case (Some e1)
    have "\<exists>f' off' es' e'. content f' = content (w_fd ?w)
      \<and> fill_loop L v filler B ?next e1 ?w = Some (Ok (off', e'), ?w\<lparr>w_fd := f'\<rparr>)
      \<and> fill_from filler es e1 = (es', e')
      \<and> remaining (file_byte L (content (w_fd ?w)) (vn_inode vn)) (i_size (vn_inode vn)) off' es'"
      by (rule Cons.IH) (use Cons.prems(1,2) remaining_Cons(1) [OF rem] f(1) in \<open>simp_all add: Info_def\<close>)
    then show ?thesis using step filled f(1) Some by fastforce
  qed
qed

text \<open>A cookie is at an offset if the directory has not changed since it was made.\<close>

definition cookie_at :: "'r vnode \<Rightarrow> dir_cookie \<Rightarrow> nat \<Rightarrow> bool" where
  "cookie_at vn dc off \<longleftrightarrow> dc_off dc = off \<and> (off = 0 \<or> dc_seqno dc = i_seq_num (vn_inode vn))"

lemma Readdir_law:
  assumes laws: "posix_laws (li_posix L) content" and v: "w_vnodes w v = Some vn" "vn_directory vn" "\<not> IsUnlinked vn"
    and d: "direct_ok L (Info w) (vn_inode vn)" and at: "cookie_at vn dc off"
    and rem: "remaining (file_byte L (content (w_fd w)) (vn_inode vn)) (i_size (vn_inode vn)) off es"
  obtains f dc' off' es' e' where "content f = content (w_fd w)"
    "vnode_Readdir L v filler dc e w = Some (Ok (Ok (), dc', e'), w\<lparr>w_fd := f\<rparr>)"
    "cookie_at vn dc' off'" "fill_from filler es e = (es', e')"
    "remaining (file_byte L (content (w_fd w)) (vn_inode vn)) (i_size (vn_inode vn)) off' es'"
proof -
  obtain f off' es' e' where f: "content f = content (w_fd w)"
    "fill_loop L v filler (li_garbage L) off e w = Some (Ok (off', e'), w\<lparr>w_fd := f\<rparr>)"
    "fill_from filler es e = (es', e')"
    "remaining (file_byte L (content (w_fd w)) (vn_inode vn)) (i_size (vn_inode vn)) off' es'"
    using fill_law [OF laws v(1) d rem] by blast
  have "vnode_Readdir L v filler dc e w = Some (Ok (Ok (), dc\<lparr>dc_off := off', dc_seqno := i_seq_num (vn_inode vn)\<rparr>, e'),
      w\<lparr>w_fd := f\<rparr>)"
    using v at f(2) unfolding cookie_at_def
    by (cases "off = 0") (simp_all add: vnode_Readdir_def Readdir_def get_vnode_def abind_def try_act_def ret_def)
  then show ?thesis by (rule that [OF f(1)]) (use f(3,4) in \<open>simp_all add: cookie_at_def\<close>)
qed

section \<open>Streams\<close>

text \<open>The stream stands before the entries \<open>ls\<close>: those in its buffer and those after its cookie. The
  host and its device change only in the position of the descriptor of the image.\<close>

definition stream_at ::
  "('b, 'r, 'f) libs \<Rightarrow> ('f \<Rightarrow> bytes) \<Rightarrow> nat \<Rightarrow> 'r vnode \<Rightarrow> ('b, 'r, 'f) world host \<Rightarrow> min_dir
    \<Rightarrow> vdirent list \<Rightarrow> bool" where
  "stream_at L content v vn h dir ls \<longleftrightarrow> md_vn dir = Some v \<and> w_vnodes (ho_world h) v = Some vn
     \<and> vn_directory vn \<and> \<not> IsUnlinked vn \<and> direct_ok L (Info (ho_world h)) (vn_inode vn)
     \<and> (\<exists>off es. cookie_at vn (md_cookie dir) off
          \<and> remaining (file_byte L (content (w_fd (ho_world h))) (vn_inode vn)) (i_size (vn_inode vn)) off es
          \<and> ls = md_entries dir @ map entry_of (filter listed es))"

lemma emu_readdir_law:
  assumes laws: "posix_laws (li_posix L) content" and filler: "filler_laws filler"
    and at: "stream_at L content v vn h dir ls"
  obtains f dir' where "content f = content (w_fd (ho_world h))"
    "emu_readdir L filler dir h = Some (Ok (case ls of [] \<Rightarrow> None | e # _ \<Rightarrow> Some (host_entry e), dir'),
       h\<lparr>ho_world := (ho_world h)\<lparr>w_fd := f\<rparr>\<rparr>)"
    "stream_at L content v vn (h\<lparr>ho_world := (ho_world h)\<lparr>w_fd := f\<rparr>\<rparr>) dir' (tl ls)"
proof (cases "md_entries dir")
  case (Cons e es)
  have "emu_readdir L filler dir h
      = Some (Ok (case ls of [] \<Rightarrow> None | e # _ \<Rightarrow> Some (host_entry e), dir\<lparr>md_entries := es\<rparr>), h)"
    using at Cons by (auto simp: stream_at_def emu_readdir_def take_entry_def host_entry_def ret_def)
  moreover have "stream_at L content v vn h (dir\<lparr>md_entries := es\<rparr>) (tl ls)"
    using at Cons by (auto simp: stream_at_def; blast)
  ultimately show ?thesis using that [of "w_fd (ho_world h)"] by simp
next
  case Nil
  let ?w = "ho_world h"
  obtain off es where o: "cookie_at vn (md_cookie dir) off"
    "remaining (file_byte L (content (w_fd ?w)) (vn_inode vn)) (i_size (vn_inode vn)) off es"
    "ls = map entry_of (filter listed es)"
    using at Nil by (auto simp: stream_at_def)
  have v: "md_vn dir = Some v" "w_vnodes ?w v = Some vn" "vn_directory vn" "\<not> IsUnlinked vn"
      "direct_ok L (Info ?w) (vn_inode vn)"
    using at by (simp_all add: stream_at_def)
  obtain f dc' off' es' e' where f: "content f = content (w_fd ?w)"
    "vnode_Readdir L v filler (md_cookie dir) [] ?w = Some (Ok (Ok (), dc', e'), ?w\<lparr>w_fd := f\<rparr>)"
    and fill: "cookie_at vn dc' off'" "fill_from filler es [] = (es', e')"
    "remaining (file_byte L (content (w_fd ?w)) (vn_inode vn)) (i_size (vn_inode vn)) off' es'"
    by (rule Readdir_law [OF laws v(2-5) o(1,2), of filler "[]"])
  obtain xs where xs: "e' = map entry_of xs" "filter listed es = xs @ filter listed es'"
    using fill_from_listed [OF filler fill(2)] by auto
  have ls: "ls = e' @ map entry_of (filter listed es')" using o(3) xs by simp
  have ends: "ls = []" if "e' = []"
    using fill_from_progress [OF filler fill(2) [unfolded that] o(2)] o(3) by simp
  define dir' where "dir' = dir\<lparr>md_cookie := dc', md_entries := tl e'\<rparr>"
  have "emu_readdir L filler dir h = Some (Ok (case ls of [] \<Rightarrow> None | e # _ \<Rightarrow> Some (host_entry e), dir'),
       h\<lparr>ho_world := ?w\<lparr>w_fd := f\<rparr>\<rparr>)"
    using v(1) Nil f(2) ls ends
    by (cases e') (auto simp: emu_readdir_def try_act_def on_world_def take_entry_def host_entry_def ret_def dir'_def)
  moreover have "stream_at L content v vn (h\<lparr>ho_world := ?w\<lparr>w_fd := f\<rparr>\<rparr>) dir' (tl ls)"
    using v fill f(1) ls ends unfolding stream_at_def dir'_def
    by (intro conjI exI [of _ off'] exI [of _ es']) (cases e'; auto simp: Info_def)+
  ultimately show ?thesis by (rule that [OF f(1)])
qed

text \<open>Reading a stream a number of times.\<close>

fun read_stream ::
  "('b, 'r, 'f) libs \<Rightarrow> filler \<Rightarrow> nat \<Rightarrow> min_dir \<Rightarrow> ('b, 'r, 'f, host_dirent option list \<times> min_dir) hact" where
  "read_stream L filler 0 dir = ret ([], dir)"
| "read_stream L filler (Suc n) dir =
     abind (emu_readdir L filler dir) (\<lambda>(e, dir).
     abind (read_stream L filler n dir) (\<lambda>(es, dir). ret (e # es, dir)))"

lemma read_stream_law:
  assumes laws: "posix_laws (li_posix L) content" and filler: "filler_laws filler"
    and "stream_at L content v vn h dir ls"
  shows "\<exists>dir' f. content f = content (w_fd (ho_world h)) \<and> read_stream L filler (length ls + k) dir h
    = Some (Ok (map (Some \<circ> host_entry) ls @ replicate k None, dir'), h\<lparr>ho_world := (ho_world h)\<lparr>w_fd := f\<rparr>\<rparr>)"
  using assms(3)
proof (induction "length ls + k" arbitrary: ls k dir h)
  case 0
  then show ?case by (intro exI [of _ dir] exI [of _ "w_fd (ho_world h)"]) (simp add: ret_def)
next
  case (Suc n)
  obtain f dir' where c: "content f = content (w_fd (ho_world h))" and e: "emu_readdir L filler dir h = Some (Ok (case ls of [] \<Rightarrow> None | e # _ \<Rightarrow> Some (host_entry e), dir'),
       h\<lparr>ho_world := (ho_world h)\<lparr>w_fd := f\<rparr>\<rparr>)"
    "stream_at L content v vn (h\<lparr>ho_world := (ho_world h)\<lparr>w_fd := f\<rparr>\<rparr>) dir' (tl ls)"
    by (rule emu_readdir_law [OF laws filler Suc.prems])
  let ?h = "h\<lparr>ho_world := (ho_world h)\<lparr>w_fd := f\<rparr>\<rparr>"
  define j where "j = (if ls = [] then k - 1 else k)"
  have n: "n = length (tl ls) + j" using Suc.hyps(2) by (cases ls) (auto simp: j_def)
  obtain dir'' f' where c': "content f' = content f" and r: "read_stream L filler n dir' ?h
      = Some (Ok (map (Some \<circ> host_entry) (tl ls) @ replicate j None, dir''), ?h\<lparr>ho_world := (ho_world ?h)\<lparr>w_fd := f'\<rparr>\<rparr>)"
    using Suc.hyps(1) [OF n e(2)] n by fastforce
  have "read_stream L filler (Suc n) dir h
      = Some (Ok ((case ls of [] \<Rightarrow> None | e # _ \<Rightarrow> Some (host_entry e)) # map (Some \<circ> host_entry) (tl ls) @ replicate j None, dir''),
          h\<lparr>ho_world := (ho_world h)\<lparr>w_fd := f'\<rparr>\<rparr>)"
    using e(1) r by (simp add: abind_def ret_def)
  moreover have "(case ls of [] \<Rightarrow> None | e # _ \<Rightarrow> Some (host_entry e)) # map (Some \<circ> host_entry) (tl ls) @ replicate j None
      = map (Some \<circ> host_entry) ls @ replicate k None"
    using Suc.hyps(2) by (cases ls; cases k) (simp_all add: j_def)
  ultimately show ?case unfolding Suc.hyps(2) [symmetric] using c c' by auto
qed

lemma opened_stream:
  "emu_opendir open_path path h = Some (Ok (Some dir), h') \<Longrightarrow> emu_rewinddir dir = dir"
  by (auto simp: emu_opendir_def try_act_def on_world_def emu_rewinddir_def split: option.splits res.splits)

text \<open>C30: For a directory of at most 128 KiB, whose content lies in its 16 direct blocks, that is linked and
  complete (every record is valid, its names lie within its size, and the last record runs to the
  maximum size of a directory), a directory stream of the host tools, fresh or rewound, delivers every
  entry in use except the parent, each once and in the order of the records, and from then on only its
  end. This holds for any buffer with room for one entry, so however many calls of \<open>Readdir\<close> it takes,
  and neither the directory nor the image changes.\<close>

theorem emu_readdir_lists:
  assumes "posix_laws (li_posix L) content" "filler_laws filler"
    "w_vnodes (ho_world h) v = Some vn" "vn_directory vn" "\<not> IsUnlinked vn"
    "direct_ok L (Info (ho_world h)) (vn_inode vn)"
    "dir_records (file_byte L (content (w_fd (ho_world h))) (vn_inode vn)) (i_size (vn_inode vn)) 0 = (es, True)"
    "names_inside (i_size (vn_inode vn)) es" "kMinfsMaxDirectorySize \<le> end_offset 0 es + kMinfsDirentSize"
    "md_vn dir = Some v"
  shows "\<exists>dir' f. content f = content (w_fd (ho_world h))
    \<and> read_stream L filler (length (filter listed es) + k) (emu_rewinddir dir) h
      = Some (Ok (map (\<lambda>e. Some (host_entry (entry_of e))) (filter listed es) @ replicate k None, dir'),
          h\<lparr>ho_world := (ho_world h)\<lparr>w_fd := f\<rparr>\<rparr>)"
proof -
  have "stream_at L content v vn h (emu_rewinddir dir) (map entry_of (filter listed es))"
    using assms(3-10) by (auto simp: stream_at_def emu_rewinddir_def cookie_at_def remaining_def)
  from read_stream_law [OF assms(1,2) this, of k] show ?thesis by (simp add: comp_def)
qed

text \<open>The root directory of the sample, through a filler of 2048 bytes.\<close>

definition buffer_filler :: filler where
  "buffer_filler nm t i d =
    (if sum_list (map (\<lambda>e. 10 + length (vd_name e)) d) + 10 + length nm \<le> kDirBufSize
     then Some (d @ [\<lparr>vd_ino = i, vd_type = t, vd_name = nm\<rparr>]) else None)"

lemma buffer_filler_laws: "filler_laws buffer_filler"
  by (simp add: filler_laws_def buffer_filler_def kDirBufSize_def kMinfsMaxNameSize_def)

theorem emu_readdir_lists_witness:
  "\<exists>dir' h'. read_stream memory_libs buffer_filler 2
      \<lparr>md_vn = Some 0, md_cookie = \<lparr>dc_off = 0, dc_seqno = 0\<rparr>, md_entries = []\<rparr> (new_host root_world)
    = Some (Ok ([Some \<lparr>d_type = de_type dot_entry, d_name = [46]\<rparr>, None], dir'), h')"
proof -
  let ?dir = "\<lparr>md_vn = Some 0, md_cookie = \<lparr>dc_off = 0, dc_seqno = 0\<rparr>, md_entries = []\<rparr>"
  let ?es = "[(0 :: nat, dot_entry, [46 :: nat]), (16, dotdot_entry, [46, 46])]"
  have world: "ho_world (new_host root_world) = root_world" by (simp add: new_host_def)
  have "vn_directory root_vnode" "\<not> IsUnlinked root_vnode"
    by (simp_all add: root_vnode_def IsUnlinked_def sample_root_def)
  moreover have "names_inside 32 ?es"
    by (simp add: names_inside_def kMinfsMaxNameSize_def kDirentNameOffset_def)
  moreover have "kMinfsMaxDirectorySize \<le> end_offset 0 ?es + kMinfsDirentSize"
    by (simp add: entry_sizes kMinfsMaxDirectorySize_eq kMinfsDirentSize_def)
  moreover have "filter listed ?es = [(0, dot_entry, [46])]"
    by (simp add: listed_def dotdot_def dot_entry_def)
  moreover have "emu_rewinddir ?dir = ?dir" by (simp add: emu_rewinddir_def)
  ultimately have "\<exists>dir' f. snd f = snd (w_fd (ho_world (new_host root_world)))
    \<and> read_stream memory_libs buffer_filler (length [(0 :: nat, dot_entry, [46 :: nat])] + 1) ?dir (new_host root_world)
      = Some (Ok (map (\<lambda>e. Some (host_entry (entry_of e))) [(0, dot_entry, [46])] @ replicate 1 None, dir'),
          (new_host root_world)\<lparr>ho_world := (ho_world (new_host root_world))\<lparr>w_fd := f\<rparr>\<rparr>)"
    using emu_readdir_lists [OF memory_file_laws [folded memory_libs_posix] buffer_filler_laws,
        of "new_host root_world" 0 root_vnode ?es ?dir 1] root_world_ok root_records
    unfolding world by (simp del: read_stream.simps end_offset.simps filter.simps)
  then show ?thesis
    by (auto simp: host_entry_def entry_of_def numeral_2_eq_2 simp del: read_stream.simps)
qed

end
