(* ===== verification/Fsck_Sample.thy ===== *)
theory Fsck_Sample
  imports Fsck Sample
begin

text \<open>
  A run of the checker on the small file system of \<open>Sample\<close>. The witness of the soundness of the
  checker rests on it.
\<close>

section \<open>Its blocks\<close>

lemma check_pointers_zero:
  "\<forall>p \<in> set ps. fst p = 0 \<Longrightarrow> cnt < 4294967296 \<Longrightarrow> check_pointers L ps cnt st = Some (Ok cnt, st)"
proof (induction ps)
  case (Cons p ps)
  then show ?case by (cases p) (simp add: check_pointer_def u32_id)
qed simp

lemma sparse_step:
  assumes "GetInodeNthBno L i n st = Some (Ok (0, n'), st)" "cnt < 4294967296"
  shows "check_blocks_loop L i ino n nb cnt st = check_blocks_loop L i ino n' nb cnt st"
  by (subst check_blocks_loop.simps)
    (use assms in \<open>simp add: try_act_def check_pointer_def u32_id lift_res_def\<close>)

lemma sample_direct_tail:
  "n \<le> 15 \<Longrightarrow> check_blocks_loop memory_libs sample_root 1 (16 - n) nb 1 st
    = check_blocks_loop memory_libs sample_root 1 16 nb 1 st"
proof (induction n)
  case (Suc n)
  have "check_blocks_loop memory_libs sample_root 1 (16 - Suc n) nb 1 st
      = check_blocks_loop memory_libs sample_root 1 (16 - n) nb 1 st"
    by (rule sparse_step) (use Suc.prems in
      \<open>auto simp: GetInodeNthBno_def format_consts ret_def nth_Cons' Suc_diff_Suc\<close>)
  then show ?case using Suc by simp
qed simp

lemma sample_indirect_tail:
  "i \<le> 31 \<Longrightarrow> check_blocks_loop memory_libs sample_root 1 (16 + (31 - i) * 2048) nb 1 st
    = check_blocks_loop memory_libs sample_root 1 63504 nb 1 st"
proof (induction i)
  case (Suc i)
  let ?j = "31 - Suc i"
  have j: "?j < 31" "31 - i = Suc ?j" using Suc.prems by auto
  have "check_blocks_loop memory_libs sample_root 1 (16 + ?j * 2048) nb 1 st
      = check_blocks_loop memory_libs sample_root 1 (16 + (31 - i) * 2048) nb 1 st"
    by (rule sparse_step) (use j in \<open>simp_all add: GetInodeNthBno_def format_consts ret_def\<close>)
  then show ?case using Suc by simp
qed simp

lemma sample_blocks_tail:
  "check_blocks_loop memory_libs sample_root 1 1 nb 1 st = Some (Ok (nb, 1), st)"
proof -
  have "check_blocks_loop memory_libs sample_root 1 63504 nb 1 st
      = check_blocks_loop memory_libs sample_root 1 4257808 nb 1 st"
    by (rule sparse_step) (simp_all add: GetInodeNthBno_def format_consts ret_def Let_def)
  moreover have "check_blocks_loop memory_libs sample_root 1 4257808 nb 1 st = Some (Ok (nb, 1), st)"
    by (subst check_blocks_loop.simps)
      (simp add: GetInodeNthBno_def format_consts try_act_def fail_def Let_def)
  ultimately show ?thesis
    using sample_direct_tail [of 15 nb st] sample_indirect_tail [of 31 nb st] by simp
qed

lemma sample_CheckFile:
  assumes "is_sample w" "ck_blocks c = [True, False, False, False]" "ck_alloc_blocks c = 1"
    "ck_blk_info c = (\<lambda>_. [])"
  shows "CheckFile memory_libs sample_root 1 (c, w)
    = Some (Ok (), c\<lparr>ck_cached_dind := 0, ck_cached_ind := 0, ck_blocks := [True, True, False, False],
        ck_alloc_blocks := 2, ck_blk_info := (\<lambda>_. [])(1 := [\<lparr>bi_owner = 1, bi_offset = 0, bi_type = kDirect\<rparr>])\<rparr>, w)"
proof -
  have z: "check_pointers memory_libs (map (\<lambda>n. (inum sample_root ! n, f n)) [0..<kMinfsIndirect]) 0 st
      = Some (Ok 0, st)" for f st
    by (rule check_pointers_zero) (auto simp: format_consts)
  have d: "check_doubly_indirect memory_libs 1 (map (\<lambda>n. (n, dinum sample_root ! n)) [0..<kMinfsDoublyIndirect]) 0 st
      = Some (Ok 0, st)" for st
    by (simp add: format_consts ret_def)
  let ?bi = "\<lparr>bi_owner = 1, bi_offset = 0, bi_type = kDirect\<rparr>"
  have p: "check_pointer memory_libs 1 ?bi (c\<lparr>ck_cached_dind := 0, ck_cached_ind := 0\<rparr>, w)
      = Some (Ok 1, c\<lparr>ck_cached_dind := 0, ck_cached_ind := 0, ck_blocks := [True, True, False, False],
        ck_alloc_blocks := 2, ck_blk_info := (\<lambda>_. [])(1 := [?bi])\<rparr>, w)"
    using assms
    by (simp add: check_pointer_def CheckDataBlock_def abind_def is_sample_info is_sample_maps
        CheckAllocated_def list_bitmap_def splice_def u32_def require_conforming_def ret_def)
  have b: "check_blocks_loop memory_libs sample_root 1 0 0 0 (c\<lparr>ck_cached_dind := 0, ck_cached_ind := 0\<rparr>, w)
      = Some (Ok (1, 1), c\<lparr>ck_cached_dind := 0, ck_cached_ind := 0, ck_blocks := [True, True, False, False],
        ck_alloc_blocks := 2, ck_blk_info := (\<lambda>_. [])(1 := [?bi])\<rparr>, w)"
  proof -
    have g: "GetInodeNthBno memory_libs sample_root 0 st = Some (Ok (1, 1), st)" for st
      by (simp add: GetInodeNthBno_def format_consts ret_def)
    show ?thesis
      by (subst check_blocks_loop.simps)
        (simp add: g p try_act_def lift_res_def abind_def u32_def sample_blocks_tail del: One_nat_def)
  qed
  show ?thesis
    unfolding CheckFile_def
    by (simp only: abind_Some(1) [OF z] abind_Some(1) [OF d] update_ck_def modify_bind prod.case
        abind_Some(1) [where m = "check_blocks_loop memory_libs sample_root 1 0 0 0", OF b])
      (simp add: require_conforming_def round_up_def u32_def format_consts)
qed

section \<open>Its directory\<close>

lemma sample_recreate:
  assumes "is_sample w"
  obtains v vn w' where "Vnode_Recreate memory_libs 1 w = Some (Ok v, w')" "is_sample w'"
    "w_vnodes w' v = Some vn" "vn_inode vn = sample_root"
proof -
  obtain w1 where w1: "InodeLoad memory_libs 1 w = Some (Ok sample_root, w1)" "is_sample w1"
    using sample_load [OF assms] .
  have sz: "sample_root\<lparr>i_size := 32\<rparr> = sample_root" by (simp add: sample_root_def zero_inode_def)
  let ?v = "w_next_vnode w1"
  let ?vn = "(fresh_vnode True sample_root)\<lparr>vn_ino := 1\<rparr>"
  let ?w = "w1\<lparr>w_vnodes := (w_vnodes w1)(?v \<mapsto> ?vn), w_next_vnode := ?v + 1\<rparr>"
  have "Vnode_Recreate memory_libs 1 w = Some (Ok ?v, ?w)"
    using w1(1)
    by (simp add: sz Vnode_Recreate_def abind_def new_vnode_def put_vnode_def SetIno_def SetSize_def on_inode_def
        get_vnode_def modify_def ret_def fresh_vnode_def u32_def)
  moreover have "is_sample ?w" using w1(2) by (simp add: is_sample_def)
  ultimately show thesis using that [of ?v ?w ?vn] by (simp add: fresh_vnode_def)
qed

text \<open>\<open>g\<close> is what following an entry does to the checker.\<close>

definition follows ::
  "('s \<Rightarrow> bool) \<Rightarrow> ('s \<Rightarrow> 's) \<Rightarrow> ('s \<times> sample \<Rightarrow> (unit res \<times> 's \<times> sample) option) \<Rightarrow> bool" where
  "follows Q g m \<longleftrightarrow> (\<forall>c w. is_sample w \<and> Q c \<longrightarrow> (\<exists>w'. m (c, w) = Some (Ok (), g c, w')
     \<and> is_sample w' \<and> w_vnodes w' = w_vnodes w))"

lemma followsD:
  assumes "follows Q g m" "is_sample w" "Q c"
  obtains w' where "m (c, w) = Some (Ok (), g c, w')" "is_sample w'" "w_vnodes w' = w_vnodes w"
  using assms unfolding follows_def by blast

definition entry_bytes :: "nat \<Rightarrow> nat \<Rightarrow> bytes" where
  "entry_bytes off len = (\<lambda>k. if k < min len (32 - off) then sample_entries ! (off + k) else li_garbage memory_libs k)"

lemma entry_at_0:
  "de_of (entry_bytes 0 len) = dot_entry"
  if "len = 12 \<or> len = 16"
  using that by (auto simp: de_of_def load_dirent_def get_u32_def entry_bytes_def sample_entries_def
      dot_entry_def)

lemma entry_at_16:
  "de_of (entry_bytes 16 len) = dotdot_entry"
  if "len = 12 \<or> len = 16"
  using that by (auto simp: de_of_def load_dirent_def get_u32_def entry_bytes_def sample_entries_def
      dotdot_entry_def kMinfsReclenLast_def)

lemma entry_names:
  "name_of (entry_bytes 0 16) = [46]" "name_of (entry_bytes 16 16) = [46, 46]"
  by (simp_all add: name_of_def entry_at_0 entry_at_16 load_name_def kDirentNameOffset_def upt_rec)
    (simp_all add: entry_bytes_def sample_entries_def)

lemma entry_last: "\<not> is_last_dirent dot_entry" "is_last_dirent dotdot_entry"
  by (simp_all add: dot_entry_def dotdot_entry_def is_last_dirent_def dirent_consts)

lemma sample_entry:
  assumes off: "off = 0 \<and> rlen = 16 \<or> off = 16 \<and> rlen = 1048556"
    and w: "is_sample w" "w_vnodes w v = Some vn" "vn_inode vn = sample_root"
    and f: "follows Q g (if rec then recurse 1 1 True else ret ())" "Q c"
    and seen: "seen = \<lparr>ds_dot = (off = 16), ds_dotdot = False, ds_count = off div 16\<rparr>"
  shows "\<exists>w'. check_entry memory_libs recurse v 1 1 rec (de_of (entry_bytes off 12)) rlen off seen (c, w)
      = Some (Ok \<lparr>ds_dot = True, ds_dotdot = (off = 16), ds_count = off div 16 + 1\<rparr>, g c, w')
    \<and> is_sample w' \<and> w_vnodes w' = w_vnodes w"
proof -
  obtain w1 where r: "ReadInternal memory_libs v (li_garbage memory_libs) 16 off w
      = Some (Ok (min 16 (32 - off), entry_bytes off 16), w1)"
    "is_sample w1" "w_vnodes w1 = w_vnodes w"
    using sample_read [OF w, of "li_garbage memory_libs" 16 off] unfolding entry_bytes_def by blast
  obtain w2 where m: "(if rec then recurse 1 1 True else ret ()) (c, w1) = Some (Ok (), g c, w2)"
    "is_sample w2" "w_vnodes w2 = w_vnodes w1"
    using followsD [OF f(1) r(2) f(2)] .
  have "check_entry memory_libs recurse v 1 1 rec (de_of (entry_bytes off 12)) rlen off seen (c, w)
      = Some (Ok \<lparr>ds_dot = True, ds_dotdot = (off = 16), ds_count = off div 16 + 1\<rparr>, g c, w2)"
    using off
  proof
    assume o: "off = 0 \<and> rlen = 16"
    then show ?thesis using r(1) m(1)
      by (simp add: check_entry_def entry_at_0 entry_names entry_sizes entry_last entry_sizes(1) [unfolded One_nat_def] Let_def seen on_fs_def or_status_def
          try_act_def abind_def require_conforming_def ret_def dotdot_def dirent_consts u32_def u32_sub_def
          cong: if_cong)
  next
    assume o: "off = 16 \<and> rlen = 1048556"
    then show ?thesis using r(1) m(1)
      by (simp add: check_entry_def entry_at_16 entry_names entry_sizes entry_last entry_sizes(1) [unfolded One_nat_def] Let_def seen on_fs_def or_status_def
          try_act_def abind_def require_conforming_def ret_def dotdot_def dirent_consts u32_def u32_sub_def
          cong: if_cong)
  qed
  then show ?thesis using m r by auto
qed

lemma sample_directory_loop:
  assumes w: "is_sample w" "w_vnodes w v = Some vn" "vn_inode vn = sample_root"
    and f: "follows Q g (if rec then recurse 1 1 True else ret ())" "Q c" "Q (g c)"
  obtains w' where "check_directory_loop memory_libs recurse sample_root v 1 1 rec 0
      \<lparr>ds_dot = False, ds_dotdot = False, ds_count = 0\<rparr> (c, w)
      = Some (Ok \<lparr>ds_dot = True, ds_dotdot = True, ds_count = 2\<rparr>, g (g c), w')" "is_sample w'"
proof -
  let ?read = "\<lambda>off. ReadInternal memory_libs v (li_garbage memory_libs) kMinfsDirentSize off"
  obtain w1 where r1: "?read 0 w = Some (Ok (12, entry_bytes 0 12), w1)" "is_sample w1"
    "w_vnodes w1 = w_vnodes w"
    using sample_read [OF w, of "li_garbage memory_libs" 12 0] unfolding entry_bytes_def
    by (auto simp: dirent_consts)
  obtain w2 where e1: "check_entry memory_libs recurse v 1 1 rec (de_of (entry_bytes 0 12)) 16 0
      \<lparr>ds_dot = False, ds_dotdot = False, ds_count = 0\<rparr> (c, w1)
      = Some (Ok \<lparr>ds_dot = True, ds_dotdot = False, ds_count = 1\<rparr>, g c, w2)"
    "is_sample w2" "w_vnodes w2 = w_vnodes w1"
    using sample_entry [of 0 16 w1 v vn Q g rec recurse c, OF _ r1(2) _ w(3) f(1,2) refl] r1(3) w(2)
    by (simp del: One_nat_def) blast
  obtain w3 where r2: "?read 16 w2 = Some (Ok (12, entry_bytes 16 12), w3)" "is_sample w3"
    "w_vnodes w3 = w_vnodes w2"
    using sample_read [of w2 v vn "li_garbage memory_libs" 12 16] e1 r1 w unfolding entry_bytes_def
    by (auto simp: dirent_consts)
  obtain w4 where e2: "check_entry memory_libs recurse v 1 1 rec (de_of (entry_bytes 16 12)) 1048556 16
      \<lparr>ds_dot = True, ds_dotdot = False, ds_count = 1\<rparr> (g c, w3)
      = Some (Ok \<lparr>ds_dot = True, ds_dotdot = True, ds_count = 2\<rparr>, g (g c), w4)"
    "is_sample w4"
    using sample_entry [of 16 1048556 w3 v vn Q g rec recurse "g c", OF _ r2(2) _ w(3) f(1,3) refl]
      r1(3) e1(3) r2(3) w(2)
    by (simp del: One_nat_def) blast
  have b: "\<not> bad_dirent dot_entry 0"
    "\<not> bad_dirent dotdot_entry 16"
    by (simp_all add: bad_dirent_def entry_sizes entry_last entry_sizes(1) [unfolded One_nat_def] Let_def dirent_consts
        kMinfsMaxDirentSize_eq u32_def)
  note e0 = entry_at_0 [of 12, simplified] entry_at_16 [of 12, simplified]
  have second: "check_directory_loop memory_libs recurse sample_root v 1 1 rec 16
      \<lparr>ds_dot = True, ds_dotdot = False, ds_count = 1\<rparr> (g c, w2)
      = Some (Ok \<lparr>ds_dot = True, ds_dotdot = True, ds_count = 2\<rparr>, g (g c), w4)"
    by (subst check_directory_loop.simps)
      (use r2(1) e2(1) b in \<open>simp add: abind_def on_fs_def e0 entry_sizes entry_last dirent_consts u32_def del: One_nat_def\<close>)
  have "check_directory_loop memory_libs recurse sample_root v 1 1 rec 0
      \<lparr>ds_dot = False, ds_dotdot = False, ds_count = 0\<rparr> (c, w)
      = Some (Ok \<lparr>ds_dot = True, ds_dotdot = True, ds_count = 2\<rparr>, g (g c), w4)"
    by (subst check_directory_loop.simps)
      (use r1(1) e1(1) b second in \<open>simp add: abind_def on_fs_def e0 entry_sizes entry_last dirent_consts u32_def del: One_nat_def\<close>)
  then show thesis using that e2 by blast
qed

lemma sample_CheckDirectory:
  assumes w: "is_sample w" and f: "follows Q g (if rec then recurse 1 1 True else ret ())" "Q c" "Q (g c)"
  obtains w' where "CheckDirectory memory_libs recurse sample_root 1 1 rec (c, w)
      = Some (Ok (), g (g c), w')" "is_sample w'"
proof -
  obtain v vn w1 where w1: "Vnode_Recreate memory_libs 1 w = Some (Ok v, w1)" "is_sample w1"
    "w_vnodes w1 v = Some vn" "vn_inode vn = sample_root"
    using sample_recreate [OF w] .
  obtain w2 where w2: "check_directory_loop memory_libs recurse sample_root v 1 1 rec 0
      \<lparr>ds_dot = False, ds_dotdot = False, ds_count = 0\<rparr> (c, w1)
      = Some (Ok \<lparr>ds_dot = True, ds_dotdot = True, ds_count = 2\<rparr>, g (g c), w2)" "is_sample w2"
    using sample_directory_loop [where rec = rec and recurse = recurse, OF w1(2-4) f] .
  have "CheckDirectory memory_libs recurse sample_root 1 1 rec (c, w) = Some (Ok (), g (g c), w2)"
    using w1(1) w2(1)
    by (simp add: CheckDirectory_def abind_def on_fs_def require_conforming_def ret_def del: One_nat_def)
  then show thesis using that w2 by blast
qed

text \<open>Following an entry that leads back to the root adds a link.\<close>

definition root_seen :: "bool list checker \<Rightarrow> bool" where
  "root_seen c \<longleftrightarrow> ck_inodes c = [True, True, False, False] \<and>
     ck_links c \<in> {[-2, 0, 0, 0], [-1, 0, 0, 0]}"

definition root_link :: "bool list checker \<Rightarrow> bool list checker" where
  "root_link c = c\<lparr>ck_links := (ck_links c)[0 := ck_links c ! 0 + 1]\<rparr>"

lemma sample_GetInode:
  assumes "is_sample w"
  obtains w' where "Checker_GetInode memory_libs 1 True (c, w) = Some (Ok sample_root, c, w')" "is_sample w'"
    "w_vnodes w' = w_vnodes w"
proof -
  obtain w' where w': "InodeLoad memory_libs 1 w = Some (Ok sample_root, w')" "is_sample w'"
    "w_vnodes w' = w_vnodes w" using sample_load [OF assms] .
  then have "Checker_GetInode memory_libs 1 True (c, w) = Some (Ok sample_root, c, w')"
    by (simp add: Checker_GetInode_def is_sample_info [OF assms] abind_def on_fs_def gets_def ret_def
        del: One_nat_def)
  then show thesis using that w' by blast
qed

lemma sample_again: "follows root_seen root_link (CheckInode memory_libs (Suc d) 1 1 True)"
  unfolding follows_def
proof (intro allI impI)
  fix c w assume a: "is_sample w \<and> root_seen c"
  obtain w' where w': "Checker_GetInode memory_libs 1 True (c, w) = Some (Ok sample_root, c, w')"
    "is_sample w'" "w_vnodes w' = w_vnodes w" using sample_GetInode a by blast
  have "CheckInode memory_libs (Suc d) 1 1 True (c, w) = Some (Ok (), root_link c, w')"
    using a w'(1)
    by (auto simp: root_seen_def abind_def get_ck_def gets_def list_bitmap_def Let_def add_link_def
        assert_act_def update_ck_def modify_def ret_def root_link_def)
  then show "\<exists>w'. CheckInode memory_libs (Suc d) 1 1 True (c, w) = Some (Ok (), root_link c, w')
      \<and> is_sample w' \<and> w_vnodes w' = w_vnodes w" using w' by blast
qed

section \<open>The run\<close>

lemma sample_CheckInode:
  assumes "is_sample w" "ck_inodes c = [True, False, False, False]" "ck_blocks c = [True, False, False, False]"
    "ck_alloc_blocks c = 1" "ck_alloc_inodes c = 1" "ck_links c = [-1, 0, 0, 0]" "ck_blk_info c = (\<lambda>_. [])"
    "ck_conforming c"
  obtains c' w' where "CheckInode memory_libs (Suc (Suc d)) 1 1 False (c, w) = Some (Ok (), c', w')"
    "is_sample w'" "ck_inodes c' = [True, True, False, False]" "ck_blocks c' = [True, True, False, False]"
    "ck_alloc_blocks c' = 2" "ck_alloc_inodes c' = 2" "ck_links c' = [0, 0, 0, 0]" "ck_conforming c'"
proof -
  obtain w1 where w1: "Checker_GetInode memory_libs 1 True (c, w) = Some (Ok sample_root, c, w1)"
    "is_sample w1" using sample_GetInode [OF assms(1)] .
  define c1 where "c1 = c\<lparr>ck_links := [-2, 0, 0, 0], ck_inodes := [True, True, False, False],
     ck_max_inode := max 1 (ck_max_inode c), ck_alloc_inodes := 2\<rparr>"
  define c2 where "c2 = c1\<lparr>ck_cached_dind := 0, ck_cached_ind := 0, ck_blocks := [True, True, False, False],
        ck_alloc_blocks := 2, ck_blk_info := (\<lambda>_. [])(1 := [\<lparr>bi_owner = 1, bi_offset = 0, bi_type = kDirect\<rparr>])\<rparr>"
  have walk: "CheckFile memory_libs sample_root 1 (c1, w1) = Some (Ok (), c2, w1)"
    unfolding c2_def by (rule sample_CheckFile) (use w1 assms in \<open>simp_all add: c1_def\<close>)
  define rec where "rec = CheckInode memory_libs (Suc d)"
  obtain w2 where d1: "CheckDirectory memory_libs rec sample_root 1 1 False (c2, w1)
      = Some (Ok (), c2, w2)" "is_sample w2"
    using sample_CheckDirectory [OF w1(2), of "\<lambda>_. True" "\<lambda>c. c" False rec c2]
    by (auto simp: follows_def)
  have q: "root_seen c2" "root_seen (root_link c2)"
    by (simp_all add: root_seen_def root_link_def c2_def c1_def)
  obtain w3 where d2: "CheckDirectory memory_libs rec sample_root 1 1 True (c2, w2)
      = Some (Ok (), root_link (root_link c2), w3)" "is_sample w3"
    using sample_CheckDirectory [OF d1(2), of root_seen root_link True rec c2]
      sample_again [of d, folded rec_def] q by auto
  let ?c = "(root_link (root_link c2))\<lparr>ck_directory_blocks := u32 (ck_directory_blocks (root_link (root_link c2)) + 1)\<rparr>"
  have "CheckInode memory_libs (Suc (Suc d)) 1 1 False (c, w) = Some (Ok (), ?c, w3)"
    using w1(1) walk d1(1) d2(1) assms(2,5,6)
    unfolding CheckInode.simps(2) [of memory_libs "Suc d", folded rec_def]
    by (simp add: abind_def get_ck_def gets_def list_bitmap_def splice_def Let_def add_link_def assert_act_def
        update_ck_def modify_def ret_def u32_def c1_def [symmetric] is_sample_maps [OF w1(2)] CheckAllocated_def
        require_conforming_def take_Cons' on_fs_def del: One_nat_def)
  then show thesis
    using that [of ?c w3] d2(2) assms by (simp add: root_link_def c2_def c1_def)
qed

lemma sample_Readblk:
  assumes "is_sample w"
  obtains data w' where "or_status e (w_Readblk memory_libs n) w = Some (Ok data, w')" "is_sample w'"
proof -
  obtain data f where "Readblk memory_file (Bcache_Create 1000) n (w_fd w) = Some (Ok data, f)"
    "snd f = snd (w_fd w)"
    by (rule Readblk_law [OF memory_file_laws, of "Bcache_Create 1000" n "w_fd w"]) blast
  then show thesis using assms that [of data "w\<lparr>w_fd := f\<rparr>"]
    by (simp add: or_status_def try_act_def w_Readblk_def on_fd_def is_sample_def ret_def)
qed

lemma sample_integrity:
  assumes "is_sample w"
  obtains w' where "CheckSuperblockIntegrity memory_libs (\<lambda>_. Ok ()) (\<lambda>_. Ok ()) (c, w) = Some (Ok (), c, w')"
    "is_sample w'"
proof -
  obtain d1 w1 where r1: "or_status ZX_ERR_IO (w_Readblk memory_libs
      (u32 (bo_integrity_start (li_offsets memory_libs) + kBackupSuperblockBlocks))) w = Some (Ok d1, w1)"
    "is_sample w1" using sample_Readblk [OF assms] .
  let ?loc = "if (flags (Info w1) AND kMinfsFlagFVM) = 0 then kNonFvmSuperblockBackup
    else bo_integrity_start (li_offsets memory_libs)"
  obtain d2 w2 where r2: "or_status ZX_ERR_IO (w_Readblk memory_libs ?loc) w1 = Some (Ok d2, w2)"
    "is_sample w2" using sample_Readblk [OF r1(2)] .
  have "CheckSuperblockIntegrity memory_libs (\<lambda>_. Ok ()) (\<lambda>_. Ok ()) (c, w) = Some (Ok (), c, w2)"
    using r1(1) r2(1)
    by (simp add: CheckSuperblockIntegrity_def Let_def abind_def on_fs_def lift_res_def gets_def)
  then show thesis using that r2(2) by blast
qed

lemma sample_replicates:
  "replicate 4 False = [False, False, False, False]" "(replicate 4 (0 :: int))[0 := -1] = [-1, 0, 0, 0]"
  by (simp_all add: eval_nat_numeral)

lemma sample_create:
  obtains c0 where "Checker_Create memory_libs (Info sample_world) = Ok c0"
    "ck_inodes c0 = [False, False, False, False]" "ck_blocks c0 = [False, False, False, False]"
    "ck_alloc_blocks c0 = 0" "ck_alloc_inodes c0 = 0" "ck_links c0 = [-1, 0, 0, 0]"
    "ck_blk_info c0 = (\<lambda>_. [])" "ck_conforming c0"
  by (simp add: Checker_Create_def is_sample_info list_bitmap_def sample_replicates)

lemma sample_run:
  "\<exists>c0 c w'. Checker_Create memory_libs (Info sample_world) = Ok c0
    \<and> run_fsck memory_libs (\<lambda>_. Ok ()) (\<lambda>_. Ok ()) 2 (c0, sample_world) = Some (Ok (), c, w')"
proof -
  obtain c0 where c0: "Checker_Create memory_libs (Info sample_world) = Ok c0"
    "ck_inodes c0 = [False, False, False, False]" "ck_blocks c0 = [False, False, False, False]"
    "ck_alloc_blocks c0 = 0" "ck_alloc_inodes c0 = 0" "ck_links c0 = [-1, 0, 0, 0]"
    "ck_blk_info c0 = (\<lambda>_. [])" "ck_conforming c0"
    using sample_create .
  define c1 where "c1 = c0\<lparr>ck_inodes := [True, False, False, False], ck_alloc_inodes := 1,
    ck_blocks := [True, False, False, False], ck_alloc_blocks := 1\<rparr>"
  have r: "CheckReserved memory_libs (c0, sample_world) = Some (Ok (), c1, sample_world)"
    by (simp add: CheckReserved_def is_sample_maps CheckAllocated_def list_bitmap_def c0 update_ck_def
        splice_def abind_assoc c1_def u32_def)
  obtain c w where i: "CheckInode memory_libs (Suc (Suc 0)) 1 1 False (c1, sample_world) = Some (Ok (), c, w)"
    "is_sample w" "ck_inodes c = [True, True, False, False]" "ck_blocks c = [True, True, False, False]"
    "ck_alloc_blocks c = 2" "ck_alloc_inodes c = 2" "ck_links c = [0, 0, 0, 0]" "ck_conforming c"
    by (rule sample_CheckInode [of sample_world c1 0]) (simp_all add: c1_def c0)
  obtain w' where g: "CheckSuperblockIntegrity memory_libs (\<lambda>_. Ok ()) (\<lambda>_. Ok ()) (c, w) = Some (Ok (), c, w')"
    "is_sample w'" using sample_integrity [OF i(2)] .
  have four: "[0..<4] = [0, 1, 2, 3 :: nat]" by (simp add: upt_rec)
  have u: "CheckUnlinkedInodes memory_libs 2 (c, w) = Some (Ok (), c, w)"
    by (simp add: CheckUnlinkedInodes_def on_fs_def is_sample_info [OF i(2)] check_unlinked_loop.simps abind_def gets_def ret_def)
  have b: "CheckForUnusedBlocks memory_libs (c, w) = Some (Ok (), c, w)"
    "CheckForUnusedInodes memory_libs (c, w) = Some (Ok (), c, w)"
    "CheckLinkCounts (c, w) = Some (Ok (), c, w)" "CheckAllocatedCounts (c, w) = Some (Ok (), c, w)"
    using i by (simp_all add: CheckForUnusedBlocks_def CheckForUnusedInodes_def CheckLinkCounts_def
        CheckAllocatedCounts_def is_sample_info is_sample_maps missing_elements_def four CheckAllocated_def
        list_bitmap_def)
  have "run_fsck memory_libs (\<lambda>_. Ok ()) (\<lambda>_. Ok ()) 2 (c0, sample_world) = Some (Ok (), c, w')"
    using r i(1,8) u b g(1)
    by (simp add: run_fsck_def abind_def kMinfsRootIno_def try_act_def lift_res_def get_ck_def gets_def ret_def
        numeral_2_eq_2 del: One_nat_def CheckInode.simps)
  with c0(1) show ?thesis by blast
qed

end
