(* ===== verification/Fsck_Laws.thy ===== *)
theory Fsck_Laws
  imports Fsck_Sample
begin

text \<open>
  What a pass of the checker (\<open>fsck.cc\<close>) means. The invariant \<open>fsck_inv\<close> relates the checker's
  record to the bitmaps: a block that was counted is allocated and in range, the counters are the
  numbers of marked blocks and inodes, and as long as the file system conforms no block has two
  owners. Every step keeps it, and with the final checks it gives the meaning of a pass.
\<close>

section \<open>Before and after\<close>

definition leads :: "('s \<Rightarrow> bool) \<Rightarrow> ('s \<Rightarrow> bool) \<Rightarrow> ('s, 'a) act \<Rightarrow> bool" where
  "leads P Q m \<longleftrightarrow> (\<forall>s r s'. P s \<longrightarrow> m s = Some (r, s') \<longrightarrow> Q s')"

lemma leads_keeps: "keeps P m \<Longrightarrow> (\<And>s. P s \<Longrightarrow> Q s) \<Longrightarrow> leads P Q m"
  by (auto simp: keeps_def leads_def)

lemma keeps_leads: "leads P P m \<Longrightarrow> keeps P m"
  by (simp add: keeps_def leads_def)

lemma leads_weaken: "leads P Q m \<Longrightarrow> (\<And>s. P' s \<Longrightarrow> P s) \<Longrightarrow> leads P' Q m"
  by (auto simp: leads_def)

text \<open>\<open>P'\<close> holds after a success, \<open>Q\<close> after a failure.\<close>

lemma leads_abind:
  assumes "\<And>s r s'. P s \<Longrightarrow> m s = Some (r, s') \<Longrightarrow> Q s'"
    "\<And>s x s'. P s \<Longrightarrow> m s = Some (Ok x, s') \<Longrightarrow> P' x s'"
    "\<And>x. leads (P' x) Q (f x)"
  shows "leads P Q (abind m f)"
  unfolding leads_def abind_def
proof (intro allI impI)
  fix s r s'
  assume P: "P s" and "(case m s of None \<Rightarrow> None | Some (Ok x, s) \<Rightarrow> f x s
    | Some (Err e, s) \<Rightarrow> Some (Err e, s) | Some (Panic, s) \<Rightarrow> Some (Panic, s)) = Some (r, s')"
  then show "Q s'" using assms(1) [OF P] assms(2) [OF P] assms(3)
    by (cases "m s") (auto simp: leads_def split: res.splits)
qed

lemma leads_gets:
  "(\<And>x. leads (\<lambda>s. P s \<and> x = g s) Q (f x)) \<Longrightarrow> leads P Q (abind (gets g) f)"
  by (auto simp: leads_def)

lemma leads_if: "(b \<Longrightarrow> leads P Q m) \<Longrightarrow> (\<not> b \<Longrightarrow> leads P Q m') \<Longrightarrow> leads P Q (if b then m else m')"
  by simp

section \<open>The invariant\<close>

fun block_inv :: "('b, 'r, 'f) libs \<Rightarrow> ('b, 'r, 'f) world \<Rightarrow> 'b checker \<times> ('b, 'r, 'f) world \<Rightarrow> bool" where
  "block_inv L w0 (c, w) \<longleftrightarrow>
     rb_size (li_bitmap L) (ck_blocks c) = block_count (Info w0)
     \<and> (\<forall>b \<in> bits_set (li_bitmap L) (ck_blocks c). CheckAllocated (li_bitmap L) b (w_blocks w0))
     \<and> ck_alloc_blocks c = card (bits_set (li_bitmap L) (ck_blocks c))
     \<and> (\<forall>b. ck_blk_info c b \<noteq> [] \<longleftrightarrow> b \<noteq> 0 \<and> b \<in> bits_set (li_bitmap L) (ck_blocks c))
     \<and> (ck_conforming c \<longrightarrow> (\<forall>b. length (ck_blk_info c b) \<le> 1))"

fun inode_inv :: "('b, 'r, 'f) libs \<Rightarrow> ('b, 'r, 'f) world \<Rightarrow> 'b checker \<times> ('b, 'r, 'f) world \<Rightarrow> bool" where
  "inode_inv L w0 (c, w) \<longleftrightarrow>
     rb_size (li_bitmap L) (ck_inodes c) = inode_count (Info w0)
     \<and> ck_alloc_inodes c = card (bits_set (li_bitmap L) (ck_inodes c))
     \<and> (ck_conforming c \<longrightarrow>
          (\<forall>i \<in> bits_set (li_bitmap L) (ck_inodes c). CheckAllocated (li_bitmap L) i (w_inodes w0)))"

definition fsck_inv ::
  "('b, 'r, 'f) libs \<Rightarrow> ('b, 'r, 'f) world \<Rightarrow> 'b checker \<times> ('b, 'r, 'f) world \<Rightarrow> bool" where
  "fsck_inv L w0 st \<longleftrightarrow> same_alloc w0 (snd st) \<and> block_inv L w0 st \<and> inode_inv L w0 st"

text \<open>The counters are 32 bits wide.\<close>

definition counts_fit :: "superblock \<Rightarrow> bool" where
  "counts_fit s \<longleftrightarrow> block_count s < 4294967296 \<and> inode_count s < 4294967296"

lemma same_alloc_Info: "same_alloc w0 w \<Longrightarrow> Info w = Info w0"
  by (simp add: same_alloc_def Info_def)

lemma on_fs_gets [simp]: "on_fs (gets f) = gets (\<lambda>st. f (snd st))"
  by (rule ext) (simp add: on_fs_def gets_def)

lemma keeps_on_fs [keeps_rules]:
  assumes "keeps (same_alloc w0) m"
  shows "keeps (fsck_inv L w0) (on_fs m)"
proof (rule keepsI)
  fix s r s' assume s: "fsck_inv L w0 s" "on_fs m s = Some (r, s')"
  then obtain w where w: "m (snd s) = Some (r, w)" "s' = (fst s, w)"
    by (auto simp: on_fs_def split: option.splits)
  have "same_alloc w0 w" using keepsD [OF assms _ w(1)] s(1) by (simp add: fsck_inv_def)
  then show "fsck_inv L w0 s'" using s(1) w(2) by (cases s) (simp add: fsck_inv_def)
qed

lemma keeps_not_conforming [keeps_rules]:
  "keeps (fsck_inv L w0) not_conforming" "keeps (fsck_inv L w0) (require_conforming b)"
proof -
  have "keeps (fsck_inv L w0) not_conforming"
    unfolding not_conforming_def update_ck_def by (intro keeps_rules) (auto simp: fsck_inv_def)
  then show "keeps (fsck_inv L w0) not_conforming" "keeps (fsck_inv L w0) (require_conforming b)"
    by (auto simp: require_conforming_def intro: keeps_rules)
qed

text \<open>An update of the parts of the record the invariant does not mention.\<close>

definition same_marks :: "'b checker \<Rightarrow> 'b checker \<Rightarrow> bool" where
  "same_marks c c' \<longleftrightarrow> ck_blocks c' = ck_blocks c \<and> ck_inodes c' = ck_inodes c
     \<and> ck_alloc_blocks c' = ck_alloc_blocks c \<and> ck_alloc_inodes c' = ck_alloc_inodes c
     \<and> ck_blk_info c' = ck_blk_info c \<and> ck_conforming c' = ck_conforming c"

lemma keeps_update_ck [keeps_rules]:
  "(\<And>c. same_marks c (f c)) \<Longrightarrow> keeps (fsck_inv L w0) (update_ck f)"
  unfolding update_ck_def
  by (intro keeps_rules) (auto simp: fsck_inv_def same_marks_def)

lemma keeps_get_ck [keeps_rules]: "keeps P (get_ck f)"
  unfolding get_ck_def by (intro keeps_rules)

section \<open>Blocks\<close>

lemma card_bits_set_less:
  "rb_size B b = n \<Longrightarrow> i < n \<Longrightarrow> i \<notin> bits_set B b \<Longrightarrow> n < 4294967296
    \<Longrightarrow> card (bits_set B b) + 1 < 4294967296"
proof -
  assume a: "rb_size B b = n" "i < n" "i \<notin> bits_set B b" "n < 4294967296"
  have "bits_set B b \<subseteq> {..<n} - {i}" using a by (auto simp: bits_set_def)
  then have "card (bits_set B b) \<le> card ({..<n} - {i})" by (intro card_mono) auto
  also have "\<dots> = n - 1" using a(2) by simp
  finally show ?thesis using a by linarith
qed

lemma CheckDataBlock_Ok: "\<exists>f c1 w1. CheckDataBlock L bno bi (c, w) = Some (Ok f, c1, w1)"
  by (simp add: CheckDataBlock_def split: if_split)

lemma CheckDataBlock_cases:
  assumes "CheckDataBlock L bno bi (c, w) = Some (Ok f, c', w')"
  shows "w' = w \<and>
    (if f = None then bno \<noteq> 0 \<and> bno < block_count (Info w)
        \<and> CheckAllocated (li_bitmap L) bno (w_blocks w) \<and> \<not> rb_get (li_bitmap L) (ck_blocks c) bno
        \<and> ck_blocks c' = rb_set (li_bitmap L) (ck_blocks c) bno (bno + 1)
        \<and> ck_blk_info c' = (if ck_blk_info c bno = [] then (ck_blk_info c)(bno := [bi]) else ck_blk_info c)
        \<and> ck_alloc_blocks c' = u32 (ck_alloc_blocks c + 1)
     else ck_blocks c' = ck_blocks c \<and> ck_alloc_blocks c' = ck_alloc_blocks c
        \<and> (ck_blk_info c' = ck_blk_info c
           \<or> rb_get (li_bitmap L) (ck_blocks c) bno \<and> bno \<noteq> 0 \<and> bno < block_count (Info w)
             \<and> ck_blk_info c' = (ck_blk_info c)(bno := ck_blk_info c bno @ [bi])))
    \<and> ck_inodes c' = ck_inodes c \<and> ck_alloc_inodes c' = ck_alloc_inodes c
    \<and> ck_conforming c' = ck_conforming c"
  using assms by (auto simp: CheckDataBlock_def split: if_splits)

lemma keeps_check_pointer [keeps_rules]:
  assumes laws: "raw_bitmap_laws (li_bitmap L)" and fit: "counts_fit (Info w0)"
  shows "keeps (fsck_inv L w0) (check_pointer L bno bi)"
proof (rule keepsI)
  fix s r s' assume s: "fsck_inv L w0 s" and run: "check_pointer L bno bi s = Some (r, s')"
  show "fsck_inv L w0 s'"
  proof (cases "bno = 0")
    case True
    with run s show ?thesis by (simp add: check_pointer_def)
  next
    case False
    obtain c w where cw: "s = (c, w)" by (cases s)
    obtain f c1 w1 where d: "CheckDataBlock L bno bi (c, w) = Some (Ok f, c1, w1)"
      using CheckDataBlock_Ok by blast
    note k = CheckDataBlock_cases [OF d]
    have s': "s' = (if f = None then (c1, w1) else (c1\<lparr>ck_conforming := False\<rparr>, w1))"
      using run False
      by (auto simp: check_pointer_def cw abind_Some(1) [where m = "CheckDataBlock L bno bi", OF d]
          require_conforming_def not_conforming_def update_ck_def split: if_splits)
    show ?thesis
    proof (cases f)
      case (Some fault)
      have i: "same_alloc w0 w" "block_inv L w0 (c, w)" "inode_inv L w0 (c, w)"
        using s by (simp_all add: cw fsck_inv_def)
      have m: "ck_blocks c1 = ck_blocks c" "ck_alloc_blocks c1 = ck_alloc_blocks c" "w1 = w"
        "ck_inodes c1 = ck_inodes c" "ck_alloc_inodes c1 = ck_alloc_inodes c"
        using k Some by simp_all
      have "ck_blk_info c1 b \<noteq> [] \<longleftrightarrow> ck_blk_info c b \<noteq> []" for b
      proof (cases "ck_blk_info c1 = ck_blk_info c")
        case False
        then have u: "rb_get (li_bitmap L) (ck_blocks c) bno" "bno \<noteq> 0" "bno < block_count (Info w)"
          "ck_blk_info c1 = (ck_blk_info c)(bno := ck_blk_info c bno @ [bi])"
          using k Some by simp_all
        then have "ck_blk_info c bno \<noteq> []"
          using i by (simp add: bits_set_def same_alloc_Info)
        with u(4) show ?thesis by simp
      qed simp
      then show ?thesis using i m s' Some by (simp add: fsck_inv_def)
    next
      case None
      let ?B = "li_bitmap L"
      have i: "same_alloc w0 w" "block_inv L w0 (c, w)" "inode_inv L w0 (c, w)"
        using s by (simp_all add: cw fsck_inv_def)
      have b: "bno < rb_size ?B (ck_blocks c)" "\<not> rb_get ?B (ck_blocks c) bno"
        using k None i by (auto simp: same_alloc_Info)
      have m: "bits_set ?B (ck_blocks c1) = insert bno (bits_set ?B (ck_blocks c))"
        "rb_size ?B (ck_blocks c1) = rb_size ?B (ck_blocks c)"
        using k None bits_set_set [OF laws, of bno "bno + 1" "ck_blocks c"]
          raw_bitmap_set(1) [OF laws, of bno "bno + 1" "ck_blocks c"] b by auto
      have "bno \<notin> bits_set ?B (ck_blocks c)" using b by (simp add: bits_set_def)
      moreover from this have "card (bits_set ?B (ck_blocks c)) + 1 < 4294967296"
        using card_bits_set_less [OF refl b(1)] fit i by (auto simp: counts_fit_def)
      ultimately show ?thesis
        using k None s' i m False by (auto simp: fsck_inv_def u32_id same_alloc_def)
    qed
  qed
qed

text \<open>The hypotheses on the parameters.\<close>

definition fsck_env :: "('b, 'r, 'f) libs \<Rightarrow> ('b, 'r, 'f) world \<Rightarrow> bool" where
  "fsck_env L w0 \<longleftrightarrow> raw_bitmap_laws (li_bitmap L) \<and> counts_fit (Info w0)"

lemma keeps_pointer:
  "fsck_env L w0 \<Longrightarrow> keeps (fsck_inv L w0) (check_pointer L bno bi)"
  by (simp add: fsck_env_def keeps_check_pointer)

lemma keeps_check_pointers:
  "fsck_env L w0 \<Longrightarrow> keeps (fsck_inv L w0) (check_pointers L ps n)"
  by (induction L ps n rule: check_pointers.induct) (auto intro!: keeps_rules keeps_pointer)

lemma keeps_check_doubly:
  "fsck_env L w0 \<Longrightarrow> keeps (fsck_inv L w0) (check_doubly_indirect L ino ps n)"
  by (induction L ino ps n rule: check_doubly_indirect.induct)
    (auto intro!: keeps_rules keeps_pointer keeps_check_pointers)

lemma keeps_caches [keeps_rules]:
  "keeps (fsck_inv L w0) (cached_indirect L n)" "keeps (fsck_inv L w0) (cached_doubly_indirect L n)"
  unfolding cached_indirect_def cached_doubly_indirect_def
  by (intro keeps_rules, simp add: same_marks_def)+

lemma keeps_GetInodeNthBno [keeps_rules]: "keeps (fsck_inv L w0) (GetInodeNthBno L inode n)"
  unfolding GetInodeNthBno_def Let_def by (intro keeps_rules)

lemma keeps_check_blocks_loop:
  fixes L :: "('b, 'r, 'f) libs"
  assumes "fsck_env L w0"
  shows "keeps (fsck_inv L w0) (check_blocks_loop L inode ino n nb cnt)"
proof -
  let ?Q = "\<lambda>L inode ino n nb cnt st y. fsck_env L w0 \<longrightarrow> fsck_inv L w0 st \<longrightarrow> fsck_inv L w0 (snd y)"
  have "?Q L inode ino n nb cnt s y" if "check_blocks_loop L inode ino n nb cnt s = Some y" for s y
  proof (rule check_blocks_loop.raw_induct [where P = ?Q, OF _ that], intro impI)
    fix f and L :: "('b, 'r, 'f) libs" and inode ino n nb cnt s y
    assume IH: "\<And>L inode ino n nb cnt s y. f L inode ino n nb cnt s = Some y
        \<Longrightarrow> ?Q L inode ino n nb cnt s y"
      and body: "try_act (GetInodeNthBno L inode n) (\<lambda>r st.
      if r = Err ZX_ERR_OUT_OF_RANGE then Some (Ok (nb, cnt), st)
      else
        abind (lift_res r) (\<lambda>(bno, next_n).
        abind (check_pointer L bno \<lparr>bi_owner = ino, bi_offset = n, bi_type = kDirect\<rparr>) (\<lambda>k.
        f L inode ino next_n (if bno \<noteq> 0 then n + 1 else nb) (u32 (cnt + k)))) st) s = Some y"
      and e: "fsck_env L w0" and s: "fsck_inv L w0 s"
    have "keeps (fsck_inv L w0) (f L inode ino n' nb' cnt')" for n' nb' cnt'
      using IH e by (fastforce intro!: keepsI)
    then have "keeps (fsck_inv L w0) (abind (lift_res r) (\<lambda>(bno, next_n).
        abind (check_pointer L bno \<lparr>bi_owner = ino, bi_offset = n, bi_type = kDirect\<rparr>) (\<lambda>k.
        f L inode ino next_n (if bno \<noteq> 0 then n + 1 else nb) (u32 (cnt + k)))))" for r
      using e by (intro keeps_rules keeps_pointer)
    then have "keeps (fsck_inv L w0) (\<lambda>st.
      if r = Err ZX_ERR_OUT_OF_RANGE then Some (Ok (nb, cnt), st)
      else abind (lift_res r) (\<lambda>(bno, next_n).
        abind (check_pointer L bno \<lparr>bi_owner = ino, bi_offset = n, bi_type = kDirect\<rparr>) (\<lambda>k.
        f L inode ino next_n (if bno \<noteq> 0 then n + 1 else nb) (u32 (cnt + k)))) st)" for r
      by (cases "r = Err ZX_ERR_OUT_OF_RANGE") (simp_all add: keeps_raw)
    from keepsD [OF keeps_try_act [OF keeps_GetInodeNthBno this] s] body
    show "fsck_inv L w0 (snd y)" by (cases y) simp
  qed
  with assms show ?thesis by (fastforce intro!: keepsI)
qed

lemma keeps_CheckFile:
  "fsck_env L w0 \<Longrightarrow> keeps (fsck_inv L w0) (CheckFile L inode ino)"
  unfolding CheckFile_def
  by (intro keeps_rules keeps_check_pointers keeps_check_doubly keeps_check_blocks_loop)
    (simp_all add: same_marks_def)

section \<open>Directories and inodes\<close>

lemma keeps_new_vnode [keeps_rules]: "keeps (same_alloc w0) (new_vnode vn)"
  by (auto intro!: keepsI simp: new_vnode_def)

lemma stable_Vnode_Recreate:
  assumes "read_stable L P"
  shows "keeps P (Vnode_Recreate L ino)"
proof -
  have new: "keeps P (new_vnode vn)" for vn
    using read_stableD(4) [OF assms] by (auto intro!: keepsI simp: new_vnode_def put_vnode_def)
  have "P w \<Longrightarrow> P (put_vnode v vn w)" for v vn w by (rule read_stableD(3) [OF assms])
  then have put: "keeps P (SetIno v n)" "keeps P (SetSize v n)" for v n
    unfolding SetSize_def SetIno_def on_inode_def by (intro keeps_rules; assumption)+
  show ?thesis unfolding Vnode_Recreate_def
    by (intro keeps_rules stable_InodeLoad [OF assms] new put)
qed

lemma keeps_Vnode_Recreate [keeps_rules]: "keeps (same_alloc w0) (Vnode_Recreate L ino)"
  by (rule stable_Vnode_Recreate [OF same_alloc_stable])

lemma keeps_check_entry:
  assumes "\<And>i p d. keeps (fsck_inv L w0) (recurse i p d)"
  shows "keeps (fsck_inv L w0) (check_entry L recurse v ino parent rec de rlen off seen)"
  unfolding check_entry_def Let_def by (intro keeps_rules assms)

lemma keeps_check_directory_loop:
  fixes L :: "('b, 'r, 'f) libs"
  assumes "\<And>i p d. keeps (fsck_inv L w0) (recurse i p d)"
  shows "keeps (fsck_inv L w0) (check_directory_loop L recurse inode v ino parent rec off seen)"
proof -
  let ?Q = "\<lambda>L recurse inode v ino parent rec off seen st y.
    (\<forall>i p d. keeps (fsck_inv L w0) (recurse i p d)) \<longrightarrow> fsck_inv L w0 st \<longrightarrow> fsck_inv L w0 (snd y)"
  have "?Q L recurse inode v ino parent rec off seen s y"
    if "check_directory_loop L recurse inode v ino parent rec off seen s = Some y" for s y
  proof (rule check_directory_loop.raw_induct [where P = ?Q, OF _ that], intro impI)
    fix f and L :: "('b, 'r, 'f) libs" and recurse inode v ino parent rec off seen s y
    let ?step = "\<lambda>(actual, buf) st.
      if actual = 0 \<and> i_link_count inode = 0 \<and> parent = 0 then Some (Ok seen, st)
      else if actual \<noteq> kMinfsDirentSize then Some (Err ZX_ERR_IO, st)
      else if bad_dirent (de_of buf) off then Some (Err ZX_ERR_IO_DATA_INTEGRITY, st)
      else
        abind (if de_ino (de_of buf) = 0 then ret seen
               else check_entry L recurse v ino parent rec (de_of buf)
                      (u32 (DirentReservedSize (de_of buf) off)) off seen) (\<lambda>seen st.
        if is_last_dirent (de_of buf) then Some (Ok seen, st)
        else f L recurse inode v ino parent rec
               (off + u32 (DirentReservedSize (de_of buf) off)) seen st) st"
    assume IH: "\<And>L recurse inode v ino parent rec off seen s y.
        f L recurse inode v ino parent rec off seen s = Some y
        \<Longrightarrow> ?Q L recurse inode v ino parent rec off seen s y"
      and body: "abind (on_fs (ReadInternal L v (li_garbage L) kMinfsDirentSize off)) ?step s = Some y"
      and rc: "\<forall>i p d. keeps (fsck_inv L w0) (recurse i p d)" and s: "fsck_inv L w0 s"
    have rec: "keeps (fsck_inv L w0) (f L recurse inode v ino parent rec off' seen')" for off' seen'
      using IH rc by (fastforce intro!: keepsI)
    have tail: "keeps (fsck_inv L w0) (\<lambda>st. if b then Some (Ok seen', st)
        else f L recurse inode v ino parent rec off' seen' st)" for b off' seen'
      by (cases b) (simp_all add: rec keeps_raw)
    have "keeps (fsck_inv L w0) (?step x)" for x
    proof (cases x)
      case (Pair actual buf)
      have "keeps (fsck_inv L w0) (abind (if de_ino (de_of buf) = 0 then ret seen
               else check_entry L recurse v ino parent rec (de_of buf)
                      (u32 (DirentReservedSize (de_of buf) off)) off seen) (\<lambda>seen st.
        if is_last_dirent (de_of buf) then Some (Ok seen, st)
        else f L recurse inode v ino parent rec
               (off + u32 (DirentReservedSize (de_of buf) off)) seen st))"
        by (intro keeps_rules keeps_check_entry tail) (use rc in blast)
      then show ?thesis unfolding Pair prod.case
        by (auto intro!: keepsI elim: keepsD split: if_splits)
    qed
    from keepsD [OF keeps_abind [OF keeps_on_fs [OF stable_ReadInternal [OF same_alloc_stable]] this] s] body
    show "fsck_inv L w0 (snd y)" by (cases y) simp
  qed
  with assms show ?thesis by (fastforce intro!: keepsI)
qed

lemma keeps_CheckDirectory:
  assumes "\<And>i p d. keeps (fsck_inv L w0) (recurse i p d)"
  shows "keeps (fsck_inv L w0) (CheckDirectory L recurse inode ino parent rec)"
  unfolding CheckDirectory_def
  by (intro keeps_rules keeps_check_directory_loop assms)

lemma leads_GetInode:
  assumes "\<And>inode. leads (\<lambda>st. fsck_inv L w0 st \<and> ino < inode_count (Info w0)) (fsck_inv L w0) (f inode)"
  shows "leads (fsck_inv L w0) (fsck_inv L w0) (abind (Checker_GetInode L ino b) f)"
proof (rule leads_abind)
  have k: "keeps (fsck_inv L w0) (Checker_GetInode L ino b)"
    unfolding Checker_GetInode_def by (simp only: on_fs_gets) (intro keeps_rules)
  show "fsck_inv L w0 s'" if "fsck_inv L w0 s" "Checker_GetInode L ino b s = Some (r, s')" for s r s'
    using keepsD [OF k that] .
  show "fsck_inv L w0 s' \<and> ino < inode_count (Info w0)"
    if "fsck_inv L w0 s" "Checker_GetInode L ino b s = Some (Ok x, s')" for s x s'
    using keepsD [OF k that] that
    by (auto simp: Checker_GetInode_def fsck_inv_def same_alloc_Info split: if_splits)
qed (rule assms)

lemma keeps_add_link [keeps_rules]:
  "keeps (fsck_inv L w0) (add_link ino k)"
  "keeps (\<lambda>st. fsck_inv L w0 st \<and> ck_inodes (fst st) = m) (add_link ino k)"
proof -
  have u: "keeps (\<lambda>st. ck_inodes (fst st) = m) (add_link ino k)" for m
    unfolding add_link_def Let_def get_ck_def update_ck_def
    by (intro keeps_rules) (auto split: prod.splits)
  show i: "keeps (fsck_inv L w0) (add_link ino k)"
    unfolding add_link_def Let_def by (intro keeps_rules) (auto simp: same_marks_def)
  show "keeps (\<lambda>st. fsck_inv L w0 st \<and> ck_inodes (fst st) = m) (add_link ino k)"
  proof (rule keepsI)
    fix s r s' assume s: "fsck_inv L w0 s \<and> ck_inodes (fst s) = m" and run: "add_link ino k s = Some (r, s')"
    show "fsck_inv L w0 s' \<and> ck_inodes (fst s') = m"
      using keepsD [OF i _ run] keepsD [OF u _ run] s by blast
  qed
qed

text \<open>The three steps that mark an inode as seen.\<close>

definition mark_inode :: "('b, 'r, 'f) libs \<Rightarrow> nat \<Rightarrow> ('b, 'r, 'f, unit) cact" where
  "mark_inode L ino =
    abind (update_ck (\<lambda>c. c\<lparr>ck_inodes := rb_set (li_bitmap L) (ck_inodes c) ino (ino + 1),
             ck_max_inode := max ino (ck_max_inode c),
             ck_alloc_inodes := u32 (ck_alloc_inodes c + 1)\<rparr>)) (\<lambda>_.
    abind (on_fs (gets (\<lambda>w. CheckAllocated (li_bitmap L) ino (w_inodes w)))) (\<lambda>in_use.
    require_conforming in_use))"

lemma leads_mark_inode:
  assumes e: "fsck_env L w0"
  shows "leads (\<lambda>st. fsck_inv L w0 st \<and> ino < inode_count (Info w0)
      \<and> \<not> rb_get (li_bitmap L) (ck_inodes (fst st)) ino) (fsck_inv L w0) (mark_inode L ino)"
  unfolding leads_def
proof (intro allI impI)
  let ?B = "li_bitmap L"
  fix s r s'
  assume s: "fsck_inv L w0 s \<and> ino < inode_count (Info w0) \<and> \<not> rb_get ?B (ck_inodes (fst s)) ino"
    and run: "mark_inode L ino s = Some (r, s')"
  obtain c w where cw: "s = (c, w)" by (cases s)
  have i: "same_alloc w0 w" "block_inv L w0 (c, w)" "inode_inv L w0 (c, w)"
    using s by (simp_all add: cw fsck_inv_def)
  have b: "ino < rb_size ?B (ck_inodes c)" "ino \<notin> bits_set ?B (ck_inodes c)"
    using s i by (auto simp: cw bits_set_def)
  let ?m = "rb_set ?B (ck_inodes c) ino (ino + 1)"
  have m: "bits_set ?B ?m = insert ino (bits_set ?B (ck_inodes c))"
    "rb_size ?B ?m = rb_size ?B (ck_inodes c)"
    using bits_set_set [of ?B ino "ino + 1" "ck_inodes c"]
      raw_bitmap_set(1) [of ?B ino "ino + 1" "ck_inodes c"] b e by (auto simp: fsck_env_def)
  have "card (bits_set ?B (ck_inodes c)) + 1 < 4294967296"
    using card_bits_set_less [OF refl b] e i by (auto simp: counts_fit_def fsck_env_def)
  then show "fsck_inv L w0 s'" using run i m b(2)
    by (auto simp: cw mark_inode_def update_ck_def require_conforming_def not_conforming_def fsck_inv_def
        u32_id same_alloc_def split: if_splits)
qed

lemma mark_inode_bind:
  "abind (update_ck (\<lambda>c. c\<lparr>ck_inodes := rb_set (li_bitmap L) (ck_inodes c) ino (ino + 1),
             ck_max_inode := max ino (ck_max_inode c),
             ck_alloc_inodes := u32 (ck_alloc_inodes c + 1)\<rparr>)) (\<lambda>_.
    abind (on_fs (gets (\<lambda>w. CheckAllocated (li_bitmap L) ino (w_inodes w)))) (\<lambda>in_use.
    abind (require_conforming in_use) f)) = abind (mark_inode L ino) f"
  unfolding mark_inode_def abind_assoc ..

lemma keeps_CheckInode:
  assumes e: "fsck_env L w0"
  shows "keeps (fsck_inv L w0) (CheckInode L depth ino parent dd)"
proof (induction depth arbitrary: ino parent dd)
  case 0 then show ?case by (simp add: keeps_rules)
next
  case (Suc depth)
  let ?I = "fsck_inv L w0"
  have tail: "keeps ?I (if i_magic inode = kMinfsMagicDir then
          abind (CheckFile L inode ino) (\<lambda>_.
          abind (CheckDirectory L (CheckInode L depth) inode ino parent False) (\<lambda>_.
          abind (CheckDirectory L (CheckInode L depth) inode ino parent True) (\<lambda>_.
          update_ck (\<lambda>c. c\<lparr>ck_directory_blocks :=
            u32 (ck_directory_blocks c + i_block_count inode)\<rparr>))))
        else if ino = kMinfsRootIno then fail ZX_ERR_BAD_STATE
        else CheckFile L inode ino)" for inode
    by (intro keeps_rules keeps_CheckFile [OF e] keeps_CheckDirectory Suc) (simp add: same_marks_def)
  show ?case
    unfolding CheckInode.simps mark_inode_bind Let_def get_ck_def
  proof (intro keeps_leads leads_GetInode leads_gets leads_if)
    fix inode checked
    let ?P = "\<lambda>s. (?I s \<and> ino < inode_count (Info w0)) \<and> checked = (case s of (c, w) \<Rightarrow> ck_inodes c)"
    let ?links = "\<lambda>k f. abind (add_link ino k) f"
    show "leads ?P ?I (fail ZX_ERR_BAD_STATE)" by (auto simp: leads_def)
    let ?tail = "abind (mark_inode L ino) (\<lambda>_.
        if i_magic inode = kMinfsMagicDir then
          abind (CheckFile L inode ino) (\<lambda>_.
          abind (CheckDirectory L (CheckInode L depth) inode ino parent False) (\<lambda>_.
          abind (CheckDirectory L (CheckInode L depth) inode ino parent True) (\<lambda>_.
          update_ck (\<lambda>c. c\<lparr>ck_directory_blocks :=
            u32 (ck_directory_blocks c + i_block_count inode)\<rparr>))))
        else if ino = kMinfsRootIno then fail ZX_ERR_BAD_STATE
        else CheckFile L inode ino)"
    let ?R = "\<lambda>s. (?I s \<and> ck_inodes (fst s) = checked) \<and> ino < inode_count (Info w0)"
    have link: "leads ?R ?I (abind (add_link ino k) (\<lambda>_. f))" if "leads ?R ?I f"
      for k and f :: "('a, 'b, 'c, unit) cact"
    proof (rule leads_abind [where P' = "\<lambda>_. ?R"])
      fix s r s' assume s: "?R s" and run: "add_link ino k s = Some (r, s')"
      show "?I s'" using keepsD [OF keeps_add_link(1) _ run] s by blast
    next
      fix s x s' assume s: "?R s" and run: "add_link ino k s = Some (Ok x, s')"
      show "?R s'" using keepsD [OF keeps_add_link(2) _ run, of L w0 checked] s by blast
    qed (rule that)
    have mark: "leads ?R ?I ?tail" if "\<not> rb_get (li_bitmap L) checked ino"
    proof (rule leads_abind [where P' = "\<lambda>_. ?I"])
      fix s r s' assume s: "?R s" and run: "mark_inode L ino s = Some (r, s')"
      show "?I s'" using leads_mark_inode [OF e, of ino] s run that unfolding leads_def by blast
    next
      fix s x s' assume s: "?R s" and run: "mark_inode L ino s = Some (Ok x, s')"
      show "?I s'" using leads_mark_inode [OF e, of ino] s run that unfolding leads_def by blast
    qed (rule leads_keeps [OF tail])
    have "leads ?R ?I (abind (add_link ino 1) (\<lambda>_. if rb_get (li_bitmap L) checked ino then ret ()
        else abind (add_link ino (- int (i_link_count inode))) (\<lambda>_. ?tail)))"
    proof (rule link, rule leads_if)
      show "leads ?R ?I (ret ())" by (auto simp: leads_def)
    qed (rule link, rule mark)
    then show "leads ?P ?I (abind (add_link ino 1) (\<lambda>_. if rb_get (li_bitmap L) checked ino then ret ()
        else abind (add_link ino (- int (i_link_count inode))) (\<lambda>_. ?tail)))"
      by (rule leads_weaken) (auto split: prod.splits)
  qed
qed

section \<open>The other checks\<close>

lemma keeps_GetInode [keeps_rules]: "keeps (fsck_inv L w0) (Checker_GetInode L ino b)"
  unfolding Checker_GetInode_def by (simp only: on_fs_gets) (intro keeps_rules)

lemma keeps_check_unlinked_loop:
  fixes L :: "('b, 'r, 'f) libs"
  assumes "fsck_env L w0"
  shows "keeps (fsck_inv L w0) (check_unlinked_loop L depth last_ino next_ino)"
proof -
  let ?Q = "\<lambda>L depth last_ino next_ino st y.
    fsck_env L w0 \<longrightarrow> fsck_inv L w0 st \<longrightarrow> fsck_inv L w0 (snd y)"
  have "?Q L depth last_ino next_ino s y"
    if "check_unlinked_loop L depth last_ino next_ino s = Some y" for s y
  proof (rule check_unlinked_loop.raw_induct [where P = ?Q, OF _ that], intro impI)
    fix f :: "('b, 'r, 'f) libs \<Rightarrow> nat \<Rightarrow> nat \<Rightarrow> nat \<Rightarrow> ('b, 'r, 'f, nat) cact"
      and L :: "('b, 'r, 'f) libs" and depth and last_ino next_ino :: nat and s
      and y :: "nat res \<times> 'b checker \<times> ('b, 'r, 'f) world"
    let ?step = "\<lambda>inode st.
       if i_link_count inode > 0 \<or> i_last_inode inode \<noteq> last_ino then Some (Err ZX_ERR_BAD_STATE, st)
       else
         abind (update_ck (\<lambda>c. c\<lparr>ck_links := (ck_links c)[next_ino - 1 := -1]\<rparr>)) (\<lambda>_.
         abind (CheckInode L depth next_ino 0 False) (\<lambda>_.
         f L depth next_ino (i_next_inode inode))) st"
    assume IH: "\<And>L depth last_ino next_ino s y. f L depth last_ino next_ino s = Some y
        \<Longrightarrow> ?Q L depth last_ino next_ino s y"
      and body: "(if next_ino \<noteq> 0 then abind (Checker_GetInode L next_ino True) ?step s
        else Some (Ok last_ino, s)) = Some y"
      and e: "fsck_env L w0" and s: "fsck_inv L w0 s"
    have "keeps (fsck_inv L w0) (f L depth a b)" for a b
      using IH e by (fastforce intro!: keepsI)
    then have "keeps (fsck_inv L w0) (abind
        (update_ck (\<lambda>c. c\<lparr>ck_links := (ck_links c)[next_ino - 1 := -1]\<rparr>)) (\<lambda>_.
         abind (CheckInode L depth next_ino 0 False) (\<lambda>_. f L depth next_ino (i_next_inode inode))))"
      for inode by (intro keeps_rules keeps_CheckInode [OF e]) (auto simp: same_marks_def)
    then have "keeps (fsck_inv L w0) (?step inode)" for inode
      by (cases "i_link_count inode > 0 \<or> i_last_inode inode \<noteq> last_ino") (auto simp: keeps_raw)
    from keepsD [OF keeps_abind [OF keeps_GetInode this] s] body s
    show "fsck_inv L w0 (snd y)" by (cases y) (auto split: if_splits)
  qed
  with assms show ?thesis by (fastforce intro!: keepsI)
qed

lemma keeps_CheckUnlinkedInodes:
  "fsck_env L w0 \<Longrightarrow> keeps (fsck_inv L w0) (CheckUnlinkedInodes L depth)"
  unfolding CheckUnlinkedInodes_def on_fs_gets by (intro keeps_rules keeps_check_unlinked_loop)

lemma keeps_CheckSuperblockIntegrity:
  "keeps (fsck_inv L w0) (CheckSuperblockIntegrity L jc check)"
  "keeps (\<lambda>st. fst st = c) (CheckSuperblockIntegrity L jc check)"
proof -
  show "keeps (fsck_inv L w0) (CheckSuperblockIntegrity L jc check)"
    unfolding CheckSuperblockIntegrity_def Let_def on_fs_gets by (intro keeps_rules)
  have "keeps (\<lambda>st. fst st = c) (on_fs m)" for m
    by (auto intro!: keepsI simp: on_fs_def split: option.splits)
  then show "keeps (\<lambda>st. fst st = c) (CheckSuperblockIntegrity L jc check)"
    unfolding CheckSuperblockIntegrity_def Let_def on_fs_gets by (intro keeps_rules)
qed

lemma CheckReserved_inv:
  assumes "fsck_env L w" "0 < block_count (Info w)" "0 < inode_count (Info w)"
    "Checker_Create L (Info w) = Ok c" "CheckReserved L (c, w) = Some (r, s)"
  shows "fsck_inv L w s \<and> snd s = w \<and> ck_blk_info (fst s) = (\<lambda>_. [])
    \<and> bits_set (li_bitmap L) (ck_inodes (fst s)) \<subseteq> {0}"
proof -
  let ?B = "li_bitmap L"
  obtain bi bb where c: "rb_reset ?B (inode_count (Info w)) = Ok bi" "rb_reset ?B (block_count (Info w)) = Ok bb"
    "ck_inodes c = bi" "ck_blocks c = bb" "ck_alloc_inodes c = 0" "ck_alloc_blocks c = 0"
    "ck_blk_info c = (\<lambda>_. [])" "ck_conforming c"
    using assms(4)
    by (cases "rb_reset ?B (inode_count (Info w))"; cases "rb_reset ?B (block_count (Info w))")
      (auto simp: Checker_Create_def)
  have laws: "raw_bitmap_laws ?B" using assms(1) by (simp add: fsck_env_def)
  have e: "rb_size ?B bi = inode_count (Info w)" "bits_set ?B bi = {}"
    "rb_size ?B bb = block_count (Info w)" "bits_set ?B bb = {}"
    using raw_bitmap_lawsD(1) [OF laws] c(1,2) by (auto simp: law_reset_def bits_set_def)
  have m: "bits_set ?B (rb_set ?B bi 0 1) = {0}" "rb_size ?B (rb_set ?B bi 0 1) = rb_size ?B bi"
    "bits_set ?B (rb_set ?B bb 0 1) = {0}" "rb_size ?B (rb_set ?B bb 0 1) = rb_size ?B bb"
    using bits_set_set [OF laws, of 0 1 bi] raw_bitmap_set(1) [OF laws, of 0 1 bi]
      bits_set_set [OF laws, of 0 1 bb] raw_bitmap_set(1) [OF laws, of 0 1 bb] assms(2,3) e by auto
  have "\<not> rb_get ?B bi 0" using e assms(3) by (auto simp: bits_set_def)
  then have run: "s = ((if CheckAllocated ?B 0 (w_blocks w)
      then (\<lambda>c. c\<lparr>ck_blocks := rb_set ?B (ck_blocks c) 0 1, ck_alloc_blocks := u32 (ck_alloc_blocks c + 1)\<rparr>)
      else (\<lambda>c. c\<lparr>ck_conforming := False\<rparr>))
     ((if CheckAllocated ?B 0 (w_inodes w)
      then (\<lambda>c. c\<lparr>ck_inodes := rb_set ?B (ck_inodes c) 0 1, ck_alloc_inodes := u32 (ck_alloc_inodes c + 1)\<rparr>)
      else (\<lambda>c. c\<lparr>ck_conforming := False\<rparr>)) c), w)"
    using assms(5) c(3) by (simp add: CheckReserved_def update_ck_def not_conforming_def abind_assoc split: if_splits)
  show ?thesis
    by (cases "CheckAllocated ?B 0 (w_blocks w)"; cases "CheckAllocated ?B 0 (w_inodes w)")
      (auto simp: run c e m [unfolded One_nat_def] fsck_inv_def same_alloc_def u32_def)
qed

lemma run_checks_error: "status \<noteq> Ok () \<Longrightarrow> run_checks ms status s \<noteq> Some (Ok (), s')"
proof (induction ms arbitrary: s)
  case (Cons m ms)
  show ?case
  proof
    assume "run_checks (m # ms) status s = Some (Ok (), s')"
    with Cons.prems obtain s1 where "run_checks ms status s1 = Some (Ok (), s')"
      by (auto simp: try_act_def split: option.splits res.splits prod.splits)
    with Cons show False by blast
  qed
qed (simp add: lift_res_def)

lemma run_checks_Ok:
  assumes "run_checks (m # ms) (Ok ()) s = Some (Ok (), s')"
  obtains s1 where "m s = Some (Ok (), s1)" "run_checks ms (Ok ()) s1 = Some (Ok (), s')"
proof -
  from assms obtain r s1 where r: "m s = Some (r, s1)" "run_checks ms r s1 = Some (Ok (), s')"
    by (auto simp: try_act_def split: option.splits res.splits prod.splits)
  with run_checks_error have "r = Ok ()" by metis
  with r that show thesis by blast
qed

lemma no_missing:
  "\<not> missing_elements P Q n > 0 \<longleftrightarrow> (\<forall>i < n. P i \<longrightarrow> Q i)"
  by (auto simp: missing_elements_def filter_empty_conv)

section \<open>What a pass means\<close>

text \<open>When all checks pass they ran one after the other.\<close>

fun run_all :: "('b, 'r, 'f, unit) cact list \<Rightarrow> ('b, 'r, 'f, unit) cact" where
  "run_all [] = ret ()"
| "run_all (m # ms) = abind m (\<lambda>_. run_all ms)"

lemma run_checks_all:
  "run_checks ms (Ok ()) s = Some (Ok (), s') \<Longrightarrow> run_all ms s = Some (Ok (), s')"
proof (induction ms arbitrary: s)
  case (Cons m ms)
  then show ?case by (elim run_checks_Ok) (simp add: abind_def)
qed (simp add: lift_res_def ret_def)

lemma run_all_Cons:
  "run_all (m # ms) s = Some (Ok (), s'') \<Longrightarrow>
    \<exists>s'. m s = Some (Ok (), s') \<and> run_all ms s' = Some (Ok (), s'')"
  by (auto simp: abind_Ok_iff)

lemma pure_checks_Ok:
  "CheckForUnusedBlocks L (c, w) = Some (Ok (), s) \<Longrightarrow> s = (c, w)
    \<and> (\<forall>b < block_count (Info w). CheckAllocated (li_bitmap L) b (w_blocks w) \<longrightarrow> rb_get (li_bitmap L) (ck_blocks c) b)"
  "CheckForUnusedInodes L (c, w) = Some (Ok (), s) \<Longrightarrow> s = (c, w)
    \<and> (\<forall>i < inode_count (Info w). CheckAllocated (li_bitmap L) i (w_inodes w) \<longrightarrow> rb_get (li_bitmap L) (ck_inodes c) i)"
  "CheckLinkCounts (c, w) = Some (Ok (), s) \<Longrightarrow> s = (c, w) \<and> (\<forall>i < inode_count (Info w). ck_links c ! i = 0)"
  "CheckAllocatedCounts (c, w) = Some (Ok (), s) \<Longrightarrow> s = (c, w)
    \<and> ck_alloc_blocks c = alloc_block_count (Info w) \<and> ck_alloc_inodes c = alloc_inode_count (Info w)"
  using no_missing
  by (auto simp: CheckForUnusedBlocks_def CheckForUnusedInodes_def CheckLinkCounts_def CheckAllocatedCounts_def
      list_all_iff split: if_splits)

text \<open>What a pass leaves: the invariant, and what each of the last checks has established.\<close>

lemma run_fsck_passed:
  fixes L :: "('b, 'r, 'f) libs"
  assumes e: "fsck_env L w" and n: "0 < block_count (Info w)" "0 < inode_count (Info w)"
    and c0: "Checker_Create L (Info w) = Ok c0"
    and run: "run_fsck L journal_check check depth (c0, w) = Some (Ok (), c, w')"
  shows "fsck_inv L w (c, w') \<and> ck_conforming c
    \<and> (\<forall>b < block_count (Info w). CheckAllocated (li_bitmap L) b (w_blocks w) \<longrightarrow> rb_get (li_bitmap L) (ck_blocks c) b)
    \<and> (\<forall>i < inode_count (Info w). CheckAllocated (li_bitmap L) i (w_inodes w) \<longrightarrow> rb_get (li_bitmap L) (ck_inodes c) i)
    \<and> (\<forall>i < inode_count (Info w). ck_links c ! i = 0)
    \<and> ck_alloc_blocks c = alloc_block_count (Info w) \<and> ck_alloc_inodes c = alloc_inode_count (Info w)"
proof -
  obtain s1 s2 where s1: "CheckReserved L (c0, w) = Some (Ok (), s1)"
    and s2: "CheckInode L depth kMinfsRootIno kMinfsRootIno False s1 = Some (Ok (), s2)"
    and checks: "run_all
      [CheckUnlinkedInodes L depth, CheckForUnusedBlocks L, CheckForUnusedInodes L, CheckLinkCounts,
       CheckAllocatedCounts, CheckSuperblockIntegrity L journal_check check,
       abind (get_ck ck_conforming) (\<lambda>ok. if ok then ret () else fail ZX_ERR_BAD_STATE)] s2 = Some (Ok (), c, w')"
    using run unfolding run_fsck_def
    by (auto simp: abind_Ok_iff simp del: run_checks.simps run_all.simps dest!: run_checks_all)
  from checks obtain c3 w3 s4 s5 s6 s7 s8 s9 where s3: "CheckUnlinkedInodes L depth s2 = Some (Ok (), c3, w3)"
    and s4: "CheckForUnusedBlocks L (c3, w3) = Some (Ok (), s4)"
    and s5: "CheckForUnusedInodes L s4 = Some (Ok (), s5)" and s6: "CheckLinkCounts s5 = Some (Ok (), s6)"
    and s7: "CheckAllocatedCounts s6 = Some (Ok (), s7)"
    and s8: "CheckSuperblockIntegrity L journal_check check s7 = Some (Ok (), s8)"
    and s9: "abind (get_ck ck_conforming) (\<lambda>ok. if ok then ret () else fail ZX_ERR_BAD_STATE) s8 = Some (Ok (), s9)"
      "run_all [] s9 = Some (Ok (), c, w')"
    by (auto simp del: run_all.simps dest!: run_all_Cons)
  have "fsck_inv L w s2"
    using keepsD [OF keeps_CheckInode [OF e] _ s2] CheckReserved_inv [OF e n c0 s1] by blast
  then have I3: "fsck_inv L w (c3, w3)" using keepsD [OF keeps_CheckUnlinkedInodes [OF e] _ s3] by blast
  have s: "s4 = (c3, w3)" "s5 = (c3, w3)" "s6 = (c3, w3)" "s7 = (c3, w3)"
    using s4 s5 s6 s7 pure_checks_Ok by metis+
  have c: "s8 = (c, w')" "ck_conforming c"
    using s9 by (cases s8; simp add: get_ck_def split: if_splits)+
  have "c3 = c" using keepsD [OF keeps_CheckSuperblockIntegrity(2) _ s8 [unfolded s], of c3] c(1) by simp
  moreover have "fsck_inv L w (c, w')"
    using keepsD [OF keeps_CheckSuperblockIntegrity(1) I3 s8 [unfolded s]] c(1) by simp
  moreover have "w_blocks w3 = w_blocks w" "w_inodes w3 = w_inodes w" "Info w3 = Info w"
    using I3 by (auto simp: fsck_inv_def same_alloc_def Info_def)
  ultimately show ?thesis
    using c(2) pure_checks_Ok(1) [OF s4] pure_checks_Ok(2) [OF s5 [unfolded s]]
      pure_checks_Ok(3) [OF s6 [unfolded s]] pure_checks_Ok(4) [OF s7 [unfolded s]] by simp
qed

end
