(* ===== verification/Fsck_Owners.thy ===== *)
theory Fsck_Owners
  imports Fsck_Laws
begin

text \<open>
  The blocks of the files, as the pointers on the device say, and the proof that the checker
  (\<open>fsck.cc\<close>) visits every one of them: its record of owners is exactly the relation between the
  files it has seen and their blocks. So a pass means that the allocated blocks are divided among the
  allocated inodes.
\<close>

section \<open>The files on the device\<close>

text \<open>\<open>c\<close> is the contents of the device. Addresses are computed in 32 bits, as the code does.\<close>

definition data_byte :: "('b, 'r, 'f) libs \<Rightarrow> bytes \<Rightarrow> nat \<Rightarrow> bytes" where
  "data_byte L c b k =
    (if b \<ge> bo_dat_count (li_offsets L) then 0
     else c (u32 (bo_dat_start (li_offsets L) + b) * kMinfsBlockSize + bc_offset (li_bcache L) + k))"

definition pointer_in :: "('b, 'r, 'f) libs \<Rightarrow> bytes \<Rightarrow> nat \<Rightarrow> nat \<Rightarrow> nat" where
  "pointer_in L c b j = get_u32 (data_byte L c b) (4 * j)"

definition inode_on :: "('b, 'r, 'f) libs \<Rightarrow> bytes \<Rightarrow> nat \<Rightarrow> inode" where
  "inode_on L c ino =
    load_inode (\<lambda>k. c (u32 (li_inode_start L + ino div kMinfsInodesPerBlock) * kMinfsBlockSize
        + bc_offset (li_bcache L) + k)) (ino mod kMinfsInodesPerBlock * kMinfsInodeSize)"

definition kDindirectStart :: nat where
  "kDindirectStart = kMinfsDirect + kMinfsIndirect * kMinfsDirectPerIndirect"

definition kFileBlocks :: nat where
  "kFileBlocks = kDindirectStart + kMinfsDoublyIndirect * kMinfsDirectPerDindirect"

text \<open>The block at a position of a file, 0 where there is none.\<close>

definition through :: "('b, 'r, 'f) libs \<Rightarrow> bytes \<Rightarrow> nat \<Rightarrow> nat \<Rightarrow> nat" where
  "through L c b j = (if b = 0 then 0 else pointer_in L c b j)"

definition file_block :: "('b, 'r, 'f) libs \<Rightarrow> bytes \<Rightarrow> inode \<Rightarrow> nat \<Rightarrow> nat" where
  "file_block L c i n =
    (if n < kMinfsDirect then dnum i ! n
     else if n < kDindirectStart then
       through L c (inum i ! ((n - kMinfsDirect) div kMinfsDirectPerIndirect))
         ((n - kMinfsDirect) mod kMinfsDirectPerIndirect)
     else if n < kFileBlocks then
       (let m = n - kDindirectStart; k = m mod kMinfsDirectPerDindirect
        in through L c (through L c (dinum i ! (m div kMinfsDirectPerDindirect)) (k div kMinfsDirectPerIndirect))
             (k mod kMinfsDirectPerIndirect))
     else 0)"

text \<open>
  The places of an inode that hold a block: the positions of its content, its blocks of pointers and
  its blocks of pointers to these. A place is described as the checker describes it.
\<close>

definition places :: "('b, 'r, 'f) libs \<Rightarrow> bytes \<Rightarrow> inode \<Rightarrow> block_info \<Rightarrow> nat \<Rightarrow> bool" where
  "places L c i p b \<longleftrightarrow> b \<noteq> 0 \<and>
    (case bi_type p of
       kDirect \<Rightarrow> bi_offset p < kFileBlocks \<and> b = file_block L c i (bi_offset p)
     | kIndirect \<Rightarrow>
         (\<exists>n < kMinfsIndirect. bi_offset p = LogicalBlockIndirect n 0 \<and> b = inum i ! n)
         \<or> (\<exists>n < kMinfsDoublyIndirect. \<exists>m < kMinfsDirectPerIndirect.
              bi_offset p = LogicalBlockDoublyIndirect n m 0 \<and> b = through L c (dinum i ! n) m)
     | kDoubleIndirect \<Rightarrow>
         \<exists>n < kMinfsDoublyIndirect. bi_offset p = LogicalBlockDoublyIndirect n 0 0 \<and> b = dinum i ! n)"

definition points :: "('b, 'r, 'f) libs \<Rightarrow> bytes \<Rightarrow> block_info \<Rightarrow> nat \<Rightarrow> bool" where
  "points L c p b \<longleftrightarrow> places L c (inode_on L c (bi_owner p)) p b"

section \<open>Reading them\<close>

definition checks_on :: "('b, 'r, 'f) libs \<Rightarrow> ('f \<Rightarrow> bytes) \<Rightarrow> ('b, 'r, 'f) world \<Rightarrow> bool" where
  "checks_on L content w0 \<longleftrightarrow> fsck_env L w0 \<and> posix_laws (li_posix L) content"

text \<open>The state of the walk: the invariant of the checker, on a device that has not changed.\<close>

definition seen ::
  "('b, 'r, 'f) libs \<Rightarrow> ('f \<Rightarrow> bytes) \<Rightarrow> ('b, 'r, 'f) world \<Rightarrow> 'b checker \<times> ('b, 'r, 'f) world \<Rightarrow> bool" where
  "seen L content w0 st \<longleftrightarrow> fsck_inv L w0 st \<and> content (w_fd (snd st)) = content (w_fd w0)"

lemma seenD:
  assumes "seen L content w0 (c, w)"
  shows "fsck_inv L w0 (c, w)" "content (w_fd w) = content (w_fd w0)" "Info w = Info w0"
  using assms same_alloc_Info by (auto simp: seen_def fsck_inv_def)

lemma seen_fd: "seen L content w0 (c, w) \<Longrightarrow> content f = content (w_fd w) \<Longrightarrow> seen L content w0 (c, w\<lparr>w_fd := f\<rparr>)"
  by (simp add: seen_def fsck_inv_def)

lemma ReadDat_on:
  assumes "posix_laws (li_posix L) content" "b < block_count (Info w)"
  obtains data f where "ReadDat L b w = Some (Ok data, w\<lparr>w_fd := f\<rparr>)" "content f = content (w_fd w)"
    "\<And>k. k < kMinfsBlockSize \<Longrightarrow> data k = data_byte L (content (w_fd w)) b k"
proof (cases "b \<ge> bo_dat_count (li_offsets L)")
  case True
  then show ?thesis using assms(2) that [of zero_bytes "w_fd w"]
    by (simp add: ReadDat_def ReadBlk_def zero_bytes_def ret_def data_byte_def)
next
  case False
  let ?n = "u32 (bo_dat_start (li_offsets L) + b)"
  obtain data f where r: "Readblk (li_posix L) (li_bcache L) ?n (w_fd w) = Some (Ok data, f)"
      "content f = content (w_fd w)"
      "\<And>i. i < kMinfsBlockSize \<Longrightarrow>
        data i = content (w_fd w) (?n * kMinfsBlockSize + bc_offset (li_bcache L) + i)"
    by (rule Readblk_law [OF assms(1), of "li_bcache L" ?n "w_fd w"]) blast
  then show ?thesis using assms False that [of data f]
    by (simp add: ReadDat_def ReadBlk_def w_Readblk_def on_fd_def data_byte_def)
qed

lemma ReadDat_far: "block_count (Info w) \<le> b \<Longrightarrow> ReadDat L b w = Some (Err ZX_ERR_OUT_OF_RANGE, w)"
  by (simp add: ReadDat_def ReadBlk_def fail_def)

lemma InodeLoad_on:
  assumes "posix_laws (li_posix L) content"
  obtains f where "InodeLoad L ino w = Some (Ok (inode_on L (content (w_fd w)) ino), w\<lparr>w_fd := f\<rparr>)"
    "content f = content (w_fd w)"
proof -
  let ?n = "u32 (li_inode_start L + ino div kMinfsInodesPerBlock)"
  obtain data f where r: "Readblk (li_posix L) (li_bcache L) ?n (w_fd w) = Some (Ok data, f)"
      "content f = content (w_fd w)"
      "\<And>i. i < kMinfsBlockSize \<Longrightarrow>
        data i = content (w_fd w) (?n * kMinfsBlockSize + bc_offset (li_bcache L) + i)"
    by (rule Readblk_law [OF assms, of "li_bcache L" ?n "w_fd w"]) blast
  have "load_inode data (ino mod kMinfsInodesPerBlock * kMinfsInodeSize)
      = inode_on L (content (w_fd w)) ino"
    unfolding inode_on_def by (rule load_inode_shift) (simp add: r(3) inode_in_block)
  then show ?thesis using r(1,2)
    by (intro that [of f]) (simp_all add: InodeLoad_def InodeManager_Load_def Let_def w_Readblk_def on_fd_def
        try_act_def ret_def)
qed

lemma pointers_read:
  assumes "\<And>k. k < kMinfsBlockSize \<Longrightarrow> data k = data_byte L c b k" "j < kMinfsDirectPerIndirect"
  shows "get_u32 data (4 * j) = pointer_in L c b j"
  unfolding pointer_in_def by (rule get_u32_cong) (use assms in \<open>auto simp: format_consts\<close>)

section \<open>Visiting a file\<close>

text \<open>
  What a part of the walk adds to the record of owners, when no fault has been found so far: \<open>X\<close> are
  the pointers it has visited, with their places.
\<close>

definition added ::
  "('b, 'r, 'f) libs \<Rightarrow> ('f \<Rightarrow> bytes) \<Rightarrow> ('b, 'r, 'f) world \<Rightarrow> (nat \<times> block_info) set
    \<Rightarrow> 'b checker \<times> ('b, 'r, 'f) world \<Rightarrow> 'b checker \<times> ('b, 'r, 'f) world \<Rightarrow> bool" where
  "added L content w0 X st st' \<longleftrightarrow> seen L content w0 st' \<and> ck_inodes (fst st') = ck_inodes (fst st)
     \<and> (ck_conforming (fst st') \<longrightarrow> ck_conforming (fst st)
         \<and> (\<forall>b p. p \<in> set (ck_blk_info (fst st') b) \<longleftrightarrow>
              p \<in> set (ck_blk_info (fst st) b) \<or> b \<noteq> 0 \<and> (b, p) \<in> X))"

lemma added_trans:
  "added L content w0 X s t \<Longrightarrow> added L content w0 Y t u \<Longrightarrow> added L content w0 (X \<union> Y) s u"
  by (auto simp: added_def)

lemma added_same:
  assumes "seen L content w0 st" "seen L content w0 st'" "same_marks (fst st) (fst st')"
  shows "added L content w0 {} st st'"
  using assms by (simp add: added_def same_marks_def)

lemma added_cong:
  assumes "added L content w0 X st st'" "\<And>b p. b \<noteq> 0 \<Longrightarrow> (b, p) \<in> X \<longleftrightarrow> (b, p) \<in> Y"
  shows "added L content w0 Y st st'"
  using assms by (auto simp: added_def)

lemma added_seen: "added L content w0 X st st' \<Longrightarrow> seen L content w0 st'"
  by (simp add: added_def)

text \<open>As long as no fault has been found, a block with an owner is in range.\<close>

lemma owned_in_range:
  assumes "seen L content w0 (c, w)" "p \<in> set (ck_blk_info c b)"
  shows "b < block_count (Info w0)"
proof -
  have "ck_blk_info c b \<noteq> []" using assms(2) by auto
  then have "b \<in> bits_set (li_bitmap L) (ck_blocks c)"
    using seenD(1) [OF assms(1)] by (simp add: fsck_inv_def)
  then show ?thesis using seenD(1) [OF assms(1)] by (auto simp: fsck_inv_def bits_set_def)
qed

lemma seen_conforming:
  assumes "seen L content w0 st" "fst st' = (fst st)\<lparr>ck_conforming := False\<rparr>" "snd st' = snd st"
  shows "seen L content w0 st'"
  using assms by (cases st; cases st') (auto simp: seen_def fsck_inv_def)

lemma require_added:
  assumes "seen L content w0 s" "require_conforming ok s = Some (Ok x, s')"
  shows "added L content w0 {} s s'"
proof (cases ok)
  case True
  then show ?thesis using assms by (simp add: require_conforming_def added_def)
next
  case False
  then have s': "s' = ((fst s)\<lparr>ck_conforming := False\<rparr>, snd s)"
    using assms(2) by (cases s) (simp add: require_conforming_def not_conforming_def update_ck_def)
  then have "seen L content w0 s'" by (intro seen_conforming [OF assms(1)]) simp_all
  then show ?thesis by (simp add: added_def s')
qed

lemma check_pointer_added:
  assumes env: "checks_on L content w0" and s: "seen L content w0 s"
    and run: "check_pointer L bno p s = Some (Ok k, s')"
  shows "added L content w0 {(bno, p)} s s'"
proof (cases "bno = 0")
  case True
  then have "s' = s" using run by (simp add: check_pointer_def)
  then show ?thesis using s True by (auto simp: added_def)
next
  case False
  obtain c w where cw: "s = (c, w)" by (cases s)
  obtain f c1 w1 where d: "CheckDataBlock L bno p (c, w) = Some (Ok f, c1, w1)"
    using CheckDataBlock_Ok by blast
  note k = CheckDataBlock_cases [OF d]
  have s': "s' = (if f = None then (c1, w1) else (c1\<lparr>ck_conforming := False\<rparr>, w1))"
    using run False
    by (auto simp: check_pointer_def cw abind_Some(1) [where m = "CheckDataBlock L bno p", OF d]
        require_conforming_def not_conforming_def update_ck_def split: if_splits)
  have "fsck_inv L w0 s'"
    using keepsD [OF keeps_pointer seenD(1) run [unfolded cw]] env s by (simp add: checks_on_def cw)
  then have seen': "seen L content w0 s'" using s k s' by (auto simp: seen_def cw)
  show ?thesis
  proof (cases f)
    case (Some fault)
    then show ?thesis using seen' k by (simp add: added_def s' cw)
  next
    case None
    have "bno \<notin> bits_set (li_bitmap L) (ck_blocks c)" using k None by (simp add: bits_set_def)
    then have "ck_blk_info c bno = []" using seenD(1) [OF s [unfolded cw]] by (auto simp: fsck_inv_def)
    then show ?thesis using seen' k None False by (auto simp: added_def s' cw)
  qed
qed

lemma check_pointers_added:
  assumes env: "checks_on L content w0"
  shows "seen L content w0 s \<Longrightarrow> check_pointers L ps cnt s = Some (Ok k, s')
    \<Longrightarrow> added L content w0 (set ps) s s'"
proof (induction ps arbitrary: cnt s)
  case Nil
  then show ?case by (simp add: added_def)
next
  case (Cons x ps)
  obtain bno p where x: "x = (bno, p)" by (cases x)
  obtain j s1 where 1: "check_pointer L bno p s = Some (Ok j, s1)"
      "check_pointers L ps (u32 (cnt + j)) s1 = Some (Ok k, s')"
    using Cons.prems(2) by (auto simp: x abind_Ok_iff)
  note a = check_pointer_added [OF env Cons.prems(1) 1(1)]
  from added_trans [OF a Cons.IH [OF added_seen [OF a] 1(2)]] show ?case by (simp add: x)
qed

lemma on_fs_ReadDat:
  assumes env: "checks_on L content w0" and s: "seen L content w0 s"
    and run: "on_fs (ReadDat L b) s = Some (Ok data, s')"
  shows "added L content w0 {} s s'" "fst s' = fst s" "b < block_count (Info w0)"
    "\<And>j. j < kMinfsDirectPerIndirect \<Longrightarrow> get_u32 data (4 * j) = pointer_in L (content (w_fd w0)) b j"
proof -
  obtain c w where cw: "s = (c, w)" by (cases s)
  note sn = seenD [OF s [unfolded cw]]
  have b: "b < block_count (Info w)"
    using run ReadDat_far [of w b L] by (fastforce simp: on_fs_def cw)
  have "posix_laws (li_posix L) content" using env by (simp add: checks_on_def)
  then obtain d f where d: "ReadDat L b w = Some (Ok d, w\<lparr>w_fd := f\<rparr>)"
    "content f = content (w_fd w)"
    "\<And>k. k < kMinfsBlockSize \<Longrightarrow> d k = data_byte L (content (w_fd w)) b k"
    using ReadDat_on [OF _ b] by blast
  have s': "s' = (c, w\<lparr>w_fd := f\<rparr>)" "data = d" using run d(1) by (simp_all add: on_fs_def cw)
  show "fst s' = fst s" "b < block_count (Info w0)" using b sn by (simp_all add: s' cw)
  show "added L content w0 {} s s'"
    using added_same [OF s] seen_fd [OF s [unfolded cw] d(2)] by (simp add: s' cw same_marks_def)
  show "get_u32 data (4 * j) = pointer_in L (content (w_fd w0)) b j" if "j < kMinfsDirectPerIndirect" for j
    using pointers_read [of data L "content (w_fd w0)" b j] d(3) sn(2) s'(2) that by simp
qed

lemma check_doubly_added:
  assumes env: "checks_on L content w0"
  shows "seen L content w0 s \<Longrightarrow> check_doubly_indirect L ino ps cnt s = Some (Ok k, s')
    \<Longrightarrow> added L content w0
      ((\<lambda>(n, d). (d, \<lparr>bi_owner = ino, bi_offset = LogicalBlockDoublyIndirect n 0 0, bi_type = kDoubleIndirect\<rparr>)) ` set ps
       \<union> (\<Union>(n, d) \<in> set ps. (\<lambda>m. (through L (content (w_fd w0)) d m,
            \<lparr>bi_owner = ino, bi_offset = LogicalBlockDoublyIndirect n m 0, bi_type = kIndirect\<rparr>))
            ` {0..<kMinfsDirectPerIndirect})) s s'"
  (is "_ \<Longrightarrow> _ \<Longrightarrow> added L content w0 (?X ps) s s'")
proof (induction ps arbitrary: cnt s)
  case Nil
  then show ?case by (simp add: added_def)
next
  case (Cons x ps)
  obtain n d where x: "x = (n, d)" by (cases x)
  show ?case
  proof (cases "d = 0")
    case True
    then have "added L content w0 (?X ps) s s'" using Cons by (simp add: x)
    then show ?thesis by (rule added_cong) (use True in \<open>auto simp: x through_def\<close>)
  next
    case False
    let ?p = "\<lparr>bi_owner = ino, bi_offset = LogicalBlockDoublyIndirect n 0 0, bi_type = kDoubleIndirect\<rparr>"
    let ?q = "\<lambda>m. \<lparr>bi_owner = ino, bi_offset = LogicalBlockDoublyIndirect n m 0, bi_type = kIndirect\<rparr>"
    obtain j s1 data s2 cnt3 s3 where 1: "check_pointer L d ?p s = Some (Ok j, s1)"
        and 2: "on_fs (ReadDat L d) s1 = Some (Ok data, s2)"
        and 3: "check_pointers L (map (\<lambda>m. (get_u32 data (4 * m), ?q m)) [0..<kMinfsDirectPerIndirect])
          (u32 (cnt + j)) s2 = Some (Ok cnt3, s3)"
        and 4: "check_doubly_indirect L ino ps cnt3 s3 = Some (Ok k, s')"
      using Cons.prems(2) False by (auto simp: x abind_Ok_iff)
    note a1 = check_pointer_added [OF env Cons.prems(1) 1]
    note r = on_fs_ReadDat [OF env added_seen [OF a1] 2]
    note a3 = check_pointers_added [OF env added_seen [OF r(1)] 3]
    note a4 = Cons.IH [OF added_seen [OF a3] 4]
    note a = added_trans [OF added_trans [OF added_trans [OF a1 r(1)] a3] a4]
    have "(\<lambda>m. (get_u32 data (4 * m), ?q m)) ` {0..<kMinfsDirectPerIndirect}
        = (\<lambda>m. (through L (content (w_fd w0)) d m, ?q m)) ` {0..<kMinfsDirectPerIndirect}"
      using r(4) False by (intro image_cong) (simp_all add: through_def)
    then show ?thesis using a by (simp add: x Un_ac)
  qed
qed

text \<open>The caches of the checker hold what is on the device; block 0 stands for an empty cache.\<close>

definition caches_ok :: "('b, 'r, 'f) libs \<Rightarrow> bytes \<Rightarrow> 'b checker \<Rightarrow> bool" where
  "caches_ok L dev c \<longleftrightarrow>
    (\<forall>j < kMinfsDirectPerIndirect. ck_cached_ind c \<noteq> 0
       \<longrightarrow> get_u32 (ck_ind_cache c) (4 * j) = pointer_in L dev (ck_cached_ind c) j)
    \<and> (\<forall>j < kMinfsDirectPerIndirect. ck_cached_dind c \<noteq> 0
       \<longrightarrow> get_u32 (ck_dind_cache c) (4 * j) = pointer_in L dev (ck_cached_dind c) j)"

lemma ReadDat_result:
  assumes env: "checks_on L content w0" and s: "seen L content w0 s"
    and run: "on_fs (ReadDat L b) s = Some (r, s')"
  shows "(\<exists>data. r = Ok data) \<or> r = Err ZX_ERR_OUT_OF_RANGE \<and> s' = s \<and> block_count (Info w0) \<le> b"
proof -
  obtain c w where cw: "s = (c, w)" by (cases s)
  have i: "Info w = Info w0" by (rule seenD(3) [OF s [unfolded cw]])
  show ?thesis
  proof (cases "b < block_count (Info w)")
    case True
    then obtain d f where "ReadDat L b w = Some (Ok d, w\<lparr>w_fd := f\<rparr>)"
      using ReadDat_on [OF _ True, of L content] env unfolding checks_on_def by blast
    then show ?thesis using run by (auto simp: on_fs_def cw)
  next
    case False
    then show ?thesis using run ReadDat_far [of w b L] i by (auto simp: on_fs_def cw)
  qed
qed

text \<open>What reading through a cache does.\<close>

definition cache_read ::
  "('b, 'r, 'f) libs \<Rightarrow> ('f \<Rightarrow> bytes) \<Rightarrow> ('b, 'r, 'f) world \<Rightarrow> nat \<Rightarrow> ('b checker \<Rightarrow> bytes)
    \<Rightarrow> 'b checker \<times> ('b, 'r, 'f) world \<Rightarrow> unit res \<Rightarrow> 'b checker \<times> ('b, 'r, 'f) world \<Rightarrow> bool" where
  "cache_read L content w0 b cache s r s' \<longleftrightarrow>
     seen L content w0 s' \<and> same_marks (fst s) (fst s') \<and> caches_ok L (content (w_fd w0)) (fst s')
     \<and> (r = Ok () \<and> (\<forall>j < kMinfsDirectPerIndirect.
           get_u32 (cache (fst s')) (4 * j) = pointer_in L (content (w_fd w0)) b j)
        \<or> r = Err ZX_ERR_OUT_OF_RANGE \<and> block_count (Info w0) \<le> b)"

lemma seen_caches:
  assumes "seen L content w0 st" "same_marks (fst st) c'"
  shows "seen L content w0 (c', snd st)"
  using assms by (cases st) (simp add: seen_def fsck_inv_def same_marks_def)

lemma cached_indirect_reads:
  assumes env: "checks_on L content w0" and s: "seen L content w0 s" "caches_ok L (content (w_fd w0)) (fst s)"
    and b: "b \<noteq> 0" and run: "cached_indirect L b s = Some (r, s')"
  shows "cache_read L content w0 b ck_ind_cache s r s'"
proof (cases "ck_cached_ind (fst s) = b")
  case True
  then have "s' = s \<and> r = Ok ()" using run by (cases s) (auto simp: cached_indirect_def get_ck_def)
  then show ?thesis using s b True by (auto simp: cache_read_def same_marks_def caches_ok_def)
next
  case False
  then have run': "abind (on_fs (ReadDat L b)) (\<lambda>data.
      update_ck (\<lambda>c. c\<lparr>ck_ind_cache := data, ck_cached_ind := b\<rparr>)) s = Some (r, s')"
    using run by (cases s) (simp add: cached_indirect_def get_ck_def)
  then obtain r1 s1 where 1: "on_fs (ReadDat L b) s = Some (r1, s1)"
    by (cases "on_fs (ReadDat L b) s") (auto simp: abind_def)
  from ReadDat_result [OF env s(1) 1] show ?thesis
  proof
    assume "\<exists>data. r1 = Ok data"
    then obtain data where data: "r1 = Ok data" by blast
    note d = on_fs_ReadDat [OF env s(1) 1 [unfolded data]]
    have s': "s' = ((fst s)\<lparr>ck_ind_cache := data, ck_cached_ind := b\<rparr>, snd s1)" "r = Ok ()"
      using run' d(2) by (auto simp: abind_Some(1) [where m = "on_fs (ReadDat L b)", OF 1 [unfolded data]] update_ck_def split_beta)
    have "seen L content w0 s'"
      unfolding s' by (rule seen_caches [OF added_seen [OF d(1)]]) (simp add: d(2) same_marks_def)
    then show ?thesis using s(2) d(4) s' by (simp add: cache_read_def same_marks_def caches_ok_def)
  next
    assume e: "r1 = Err ZX_ERR_OUT_OF_RANGE \<and> s1 = s \<and> block_count (Info w0) \<le> b"
    then have "r = Err ZX_ERR_OUT_OF_RANGE \<and> s' = s" using run' 1 by (simp add: abind_def)
    then show ?thesis using s e by (simp add: cache_read_def same_marks_def)
  qed
qed

lemma cached_doubly_reads:
  assumes env: "checks_on L content w0" and s: "seen L content w0 s" "caches_ok L (content (w_fd w0)) (fst s)"
    and b: "b \<noteq> 0" and run: "cached_doubly_indirect L b s = Some (r, s')"
  shows "cache_read L content w0 b ck_dind_cache s r s'"
proof (cases "ck_cached_dind (fst s) = b")
  case True
  then have "s' = s \<and> r = Ok ()" using run by (cases s) (auto simp: cached_doubly_indirect_def get_ck_def)
  then show ?thesis using s b True by (auto simp: cache_read_def same_marks_def caches_ok_def)
next
  case False
  then have run': "abind (on_fs (ReadDat L b)) (\<lambda>data.
      update_ck (\<lambda>c. c\<lparr>ck_dind_cache := data, ck_cached_dind := b\<rparr>)) s = Some (r, s')"
    using run by (cases s) (simp add: cached_doubly_indirect_def get_ck_def)
  then obtain r1 s1 where 1: "on_fs (ReadDat L b) s = Some (r1, s1)"
    by (cases "on_fs (ReadDat L b) s") (auto simp: abind_def)
  from ReadDat_result [OF env s(1) 1] show ?thesis
  proof
    assume "\<exists>data. r1 = Ok data"
    then obtain data where data: "r1 = Ok data" by blast
    note d = on_fs_ReadDat [OF env s(1) 1 [unfolded data]]
    have s': "s' = ((fst s)\<lparr>ck_dind_cache := data, ck_cached_dind := b\<rparr>, snd s1)" "r = Ok ()"
      using run' d(2) by (auto simp: abind_Some(1) [where m = "on_fs (ReadDat L b)", OF 1 [unfolded data]] update_ck_def split_beta)
    have "seen L content w0 s'"
      unfolding s' by (rule seen_caches [OF added_seen [OF d(1)]]) (simp add: d(2) same_marks_def)
    then show ?thesis using s(2) d(4) s' by (simp add: cache_read_def same_marks_def caches_ok_def)
  next
    assume e: "r1 = Err ZX_ERR_OUT_OF_RANGE \<and> s1 = s \<and> block_count (Info w0) \<le> b"
    then have "r = Err ZX_ERR_OUT_OF_RANGE \<and> s' = s" using run' 1 by (simp add: abind_def)
    then show ?thesis using s e by (simp add: cache_read_def same_marks_def)
  qed
qed

text \<open>The next position the walk looks at, and that there is no block in between.\<close>

definition sparse_until :: "('b, 'r, 'f) libs \<Rightarrow> bytes \<Rightarrow> inode \<Rightarrow> nat \<Rightarrow> nat \<Rightarrow> bool" where
  "sparse_until L c i n next \<longleftrightarrow> n < next \<and> (\<forall>k. n < k \<and> k < next \<longrightarrow> file_block L c i k = 0)"

lemma sparse_next: "sparse_until L c i n (n + 1)"
  by (auto simp: sparse_until_def)

lemma same_group:
  fixes n :: nat
  assumes "base \<le> n" "n < k" "k < base + ((n - base) div d + 1) * d"
  shows "(k - base) div d = (n - base) div d"
proof -
  have "(n - base) div d \<le> (k - base) div d" using assms(2) by (intro div_le_mono) simp
  moreover have "k - base < ((n - base) div d + 1) * d" using assms by linarith
  then have "(k - base) div d < (n - base) div d + 1" by (rule less_mult_imp_div_less)
  ultimately show ?thesis by simp
qed

lemma sparse_indirect:
  assumes "kMinfsDirect \<le> n" "n < kDindirectStart"
    and "inum i ! ((n - kMinfsDirect) div kMinfsDirectPerIndirect) = 0"
  shows "sparse_until L c i n (kMinfsDirect + ((n - kMinfsDirect) div kMinfsDirectPerIndirect + 1) * kMinfsDirectPerIndirect)"
proof -
  define j where "j = (n - 16) div 2048"
  have n: "16 \<le> n" "n < 63504" "j < 31" using assms(1,2) by (auto simp: kDindirectStart_def format_consts j_def)
  have "n < 16 + (j + 1) * 2048" using n by (simp add: j_def)
  moreover have "(k - 16) div 2048 = j" if "n < k" "k < 16 + (j + 1) * 2048" for k
    using same_group [of 16 n k 2048] that n(1) by (simp add: j_def)
  ultimately show ?thesis using assms(3) n
    by (auto simp: sparse_until_def file_block_def kDindirectStart_def format_consts through_def j_def [symmetric])
qed

lemma sparse_doubly:
  assumes "kDindirectStart \<le> n" "n < kFileBlocks" "dinum i ! 0 = 0"
  shows "sparse_until L c i n (kDindirectStart + kMinfsDirectPerDindirect)"
proof -
  have n: "63504 \<le> n" "n < 4257808" using assms(1,2) by (auto simp: kDindirectStart_def kFileBlocks_def format_consts)
  have "file_block L c i k = 0" if "n < k" "k < 4257808" for k
  proof -
    have "(k - 63504) div 4194304 = 0" using that n by simp
    then show ?thesis using that n assms(3)
      by (simp add: file_block_def kDindirectStart_def kFileBlocks_def format_consts Let_def through_def)
  qed
  then show ?thesis using n by (simp add: sparse_until_def kDindirectStart_def format_consts)
qed

lemma sparse_second:
  assumes "kDindirectStart \<le> n" "n < kFileBlocks"
    and "through L c (dinum i ! 0) ((n - kDindirectStart) div kMinfsDirectPerIndirect) = 0"
  shows "sparse_until L c i n
    (kDindirectStart + ((n - kDindirectStart) div kMinfsDirectPerIndirect + 1) * kMinfsDirectPerIndirect)"
proof -
  define j where "j = (n - 63504) div 2048"
  have n: "63504 \<le> n" "n < 4257808" using assms(1,2) by (auto simp: kDindirectStart_def kFileBlocks_def format_consts)
  have j: "through L c (dinum i ! 0) j = 0" "n < 63504 + (j + 1) * 2048" "j < 2048"
    using assms(3) n by (simp_all add: j_def kDindirectStart_def format_consts)
  have "file_block L c i k = 0" if "n < k" "k < 63504 + (j + 1) * 2048" for k
  proof -
    have "(j + 1) * 2048 \<le> 4194304" using j(3) by simp
    then have "k - 63504 < 4194304" using that n(1) by linarith
    then have k: "(k - 63504) div 2048 = j" "k - 63504 < 4194304"
      using same_group [of 63504 n k 2048] that n(1) by (simp_all add: j_def)
    then show ?thesis using that n j(1)
      by (simp add: file_block_def kDindirectStart_def kFileBlocks_def format_consts Let_def through_def [of L c 0])
  qed
  then show ?thesis using j(2)
    by (simp add: sparse_until_def kDindirectStart_def format_consts j_def [symmetric])
qed

text \<open>What the search for the block at a position yields.\<close>

definition nth_found ::
  "('b, 'r, 'f) libs \<Rightarrow> ('f \<Rightarrow> bytes) \<Rightarrow> ('b, 'r, 'f) world \<Rightarrow> inode \<Rightarrow> nat \<Rightarrow> (nat \<times> nat) res \<Rightarrow> bool" where
  "nth_found L content w0 i n r \<longleftrightarrow>
    (\<exists>next. r = Ok (file_block L (content (w_fd w0)) i n, next) \<and> n < kFileBlocks
       \<and> sparse_until L (content (w_fd w0)) i n next)
    \<or> r = Err ZX_ERR_OUT_OF_RANGE \<and> (kFileBlocks \<le> n
       \<or> (\<exists>p b. bi_type p \<noteq> kDirect \<and> places L (content (w_fd w0)) i p b \<and> block_count (Info w0) \<le> b))"

lemma nth_found_far:
  assumes "r = Err ZX_ERR_OUT_OF_RANGE" "places L (content (w_fd w0)) i p b" "bi_type p \<noteq> kDirect"
    "block_count (Info w0) \<le> b"
  shows "nth_found L content w0 i n r"
  using assms by (auto simp: nth_found_def)

lemma get_ck_bind: "abind (get_ck f) g st = g (f (fst st)) st"
  by (simp add: get_ck_def split_beta)

lemma check_pointer_caches:
  assumes "check_pointer L bno p s = Some (r, s')"
  shows "ck_cached_ind (fst s') = ck_cached_ind (fst s)" "ck_ind_cache (fst s') = ck_ind_cache (fst s)"
    "ck_cached_dind (fst s') = ck_cached_dind (fst s)" "ck_dind_cache (fst s') = ck_dind_cache (fst s)"
  using assms
  by (auto simp: check_pointer_def abind_def CheckDataBlock_def require_conforming_def not_conforming_def
      update_ck_def ret_def modify_def Let_def split: if_splits option.splits res.splits prod.splits)

text \<open>Reading a pointer through the cache.\<close>

lemma same_marks_trans: "same_marks c c1 \<Longrightarrow> same_marks c1 c2 \<Longrightarrow> same_marks c c2"
  by (simp add: same_marks_def)

lemma pointer_read:
  assumes env: "checks_on L content w0" and s: "seen L content w0 s" "caches_ok L (content (w_fd w0)) (fst s)"
    and b: "b \<noteq> 0" "j < kMinfsDirectPerIndirect"
    and run: "abind (cached_indirect L b) (\<lambda>_.
        abind (get_ck ck_ind_cache) (\<lambda>data. ret (get_u32 data (4 * j), next))) s = Some (r, s')"
  shows "seen L content w0 s' \<and> same_marks (fst s) (fst s') \<and> caches_ok L (content (w_fd w0)) (fst s')
    \<and> (r = Ok (through L (content (w_fd w0)) b j, next)
       \<or> r = Err ZX_ERR_OUT_OF_RANGE \<and> block_count (Info w0) \<le> b)"
proof -
  obtain r1 s1 where 1: "cached_indirect L b s = Some (r1, s1)"
    using run by (cases "cached_indirect L b s") (auto simp: abind_def)
  have c: "cache_read L content w0 b ck_ind_cache s r1 s1"
    by (rule cached_indirect_reads [OF env s b(1) 1])
  then consider "r1 = Ok ()" "get_u32 (ck_ind_cache (fst s1)) (4 * j) = pointer_in L (content (w_fd w0)) b j"
    | "r1 = Err ZX_ERR_OUT_OF_RANGE" "block_count (Info w0) \<le> b"
    using b(2) by (auto simp: cache_read_def)
  then show ?thesis
  proof cases
    case ok: 1
    then have "s' = s1 \<and> r = Ok (through L (content (w_fd w0)) b j, next)"
      using run 1 b(1) by (cases s1) (simp add: abind_def get_ck_def gets_def ret_def through_def split_beta)
    then show ?thesis using c by (simp add: cache_read_def)
  next
    case 2
    then have "s' = s1 \<and> r = Err ZX_ERR_OUT_OF_RANGE" using run 1 by (simp add: abind_def)
    then show ?thesis using c 2 by (simp add: cache_read_def)
  qed
qed

lemma nth_indirect:
  assumes env: "checks_on L content w0" and s: "seen L content w0 s" "caches_ok L (content (w_fd w0)) (fst s)"
    and n: "kMinfsDirect \<le> n" "n < kDindirectStart" and run: "GetInodeNthBno L i n s = Some (r, s')"
  shows "seen L content w0 s' \<and> same_marks (fst s) (fst s') \<and> caches_ok L (content (w_fd w0)) (fst s')
    \<and> nth_found L content w0 i n r"
proof -
  let ?dev = "content (w_fd w0)"
  define k j where "k = (n - kMinfsDirect) div kMinfsDirectPerIndirect" and "j = (n - kMinfsDirect) mod kMinfsDirectPerIndirect"
  have kj: "k < kMinfsIndirect" "j < kMinfsDirectPerIndirect" "\<not> n < kMinfsDirect" "n < kFileBlocks"
    using n by (auto simp: k_def j_def kDindirectStart_def kFileBlocks_def format_consts)
  define b where "b = inum i ! k"
  have block: "file_block L ?dev i n = through L ?dev b j"
    using n kj by (simp add: file_block_def k_def j_def b_def)
  have run': "(if b = 0 then ret (0, kMinfsDirect + (k + 1) * kMinfsDirectPerIndirect)
      else abind (cached_indirect L b) (\<lambda>_.
           abind (get_ck ck_ind_cache) (\<lambda>data. ret (get_u32 data (4 * j), n + 1)))) s = Some (r, s')"
    using run kj(1,3) unfolding GetInodeNthBno_def Let_def k_def j_def b_def by (simp only: if_True if_False)
  show ?thesis
  proof (cases "b = 0")
    case True
    then have r: "s' = s" "r = Ok (0, kMinfsDirect + (k + 1) * kMinfsDirectPerIndirect)" using run' by simp_all
    have "sparse_until L ?dev i n (kMinfsDirect + (k + 1) * kMinfsDirectPerIndirect)"
      unfolding k_def by (rule sparse_indirect [OF n]) (use True in \<open>simp add: b_def k_def\<close>)
    then show ?thesis using s kj(4) block True unfolding r by (simp add: same_marks_def nth_found_def through_def)
  next
    case False
    then have "abind (cached_indirect L b) (\<lambda>_.
           abind (get_ck ck_ind_cache) (\<lambda>data. ret (get_u32 data (4 * j), n + 1))) s = Some (r, s')"
      using run' by (simp only: if_False)
    note p = pointer_read [OF env s False kj(2) this]
    have "places L ?dev i \<lparr>bi_owner = 0, bi_offset = LogicalBlockIndirect k 0, bi_type = kIndirect\<rparr> b"
      using False kj(1) by (auto simp: places_def b_def)
    then have "r = Err ZX_ERR_OUT_OF_RANGE \<Longrightarrow> block_count (Info w0) \<le> b \<Longrightarrow> nth_found L content w0 i n r"
      by (rule nth_found_far [rotated]) simp_all
    moreover have "r = Ok (through L ?dev b j, n + 1) \<Longrightarrow> nth_found L content w0 i n r"
      using kj(4) sparse_next [of L ?dev i n] by (simp add: nth_found_def block)
    ultimately have "nth_found L content w0 i n r" using p by blast
    then show ?thesis using p by blast
  qed
qed

lemma nth_doubly:
  assumes env: "checks_on L content w0" and s: "seen L content w0 s" "caches_ok L (content (w_fd w0)) (fst s)"
    and n: "kDindirectStart \<le> n" "n < kFileBlocks" and run: "GetInodeNthBno L i n s = Some (r, s')"
  shows "seen L content w0 s' \<and> same_marks (fst s) (fst s') \<and> caches_ok L (content (w_fd w0)) (fst s')
    \<and> nth_found L content w0 i n r"
proof -
  let ?dev = "content (w_fd w0)"
  define m where "m = n - kDindirectStart"
  define j k where "j = m div kMinfsDirectPerIndirect" and "k = m mod kMinfsDirectPerIndirect"
  have m: "m < kMinfsDirectPerDindirect" "n - kMinfsDirect - kMinfsIndirect * kMinfsDirectPerIndirect = m"
    using n by (auto simp: m_def kDindirectStart_def kFileBlocks_def format_consts)
  have jk: "j < kMinfsDirectPerIndirect" "k < kMinfsDirectPerIndirect" "\<not> n < kMinfsDirect"
      "\<not> (n - kMinfsDirect) div kMinfsDirectPerIndirect < kMinfsIndirect" "m div kMinfsDirectPerDindirect = 0"
    using n m(1) by (auto simp: j_def k_def kDindirectStart_def format_consts)
  have dd: "0 < kMinfsDoublyIndirect" by (simp add: kMinfsDoublyIndirect_def)
  define d where "d = dinum i ! 0"
  have block: "file_block L ?dev i n = through L ?dev (through L ?dev d j) k"
    using n m jk(3,5) by (simp add: file_block_def m_def [symmetric] j_def k_def d_def Let_def)
  have run': "(if d = 0 then ret (0, kDindirectStart + kMinfsDirectPerDindirect)
      else abind (cached_doubly_indirect L d) (\<lambda>_.
           abind (get_ck ck_dind_cache) (\<lambda>data.
           if get_u32 data (4 * j) = 0 then ret (0, kDindirectStart + (j + 1) * kMinfsDirectPerIndirect)
           else abind (cached_indirect L (get_u32 data (4 * j))) (\<lambda>_.
                abind (get_ck ck_ind_cache) (\<lambda>data. ret (get_u32 data (4 * k), n + 1)))))) s = Some (r, s')"
    using run jk(3,4) dd
    unfolding GetInodeNthBno_def Let_def m(2) jk(5) kDindirectStart_def d_def j_def k_def
    by (simp only: if_False if_True mult_0 diff_zero add_0_left add_0_right mult_1_left)
  show ?thesis
  proof (cases "d = 0")
    case True
    then have r: "s' = s" "r = Ok (0, kDindirectStart + kMinfsDirectPerDindirect)" using run' by simp_all
    have "sparse_until L ?dev i n (kDindirectStart + kMinfsDirectPerDindirect)"
      by (rule sparse_doubly [OF n]) (use True in \<open>simp add: d_def\<close>)
    then show ?thesis using s n(2) block True unfolding r by (simp add: same_marks_def nth_found_def through_def)
  next
    case False
    have dplace: "places L ?dev i \<lparr>bi_owner = 0, bi_offset = LogicalBlockDoublyIndirect 0 0 0, bi_type = kDoubleIndirect\<rparr> d"
      using False by (auto simp: places_def d_def kMinfsDoublyIndirect_def)
    let ?next = "\<lambda>data. if get_u32 data (4 * j) = 0 then ret (0, kDindirectStart + (j + 1) * kMinfsDirectPerIndirect)
           else abind (cached_indirect L (get_u32 data (4 * j))) (\<lambda>_.
                abind (get_ck ck_ind_cache) (\<lambda>data. ret (get_u32 data (4 * k), n + 1)))"
    have run2: "abind (cached_doubly_indirect L d) (\<lambda>_. abind (get_ck ck_dind_cache) ?next) s = Some (r, s')"
      using run' False by (simp only: if_False)
    then obtain r1 s1 where 1: "cached_doubly_indirect L d s = Some (r1, s1)"
      by (cases "cached_doubly_indirect L d s") (auto simp: abind_def)
    have c: "cache_read L content w0 d ck_dind_cache s r1 s1"
      by (rule cached_doubly_reads [OF env s False 1])
    then consider "r1 = Ok ()" "get_u32 (ck_dind_cache (fst s1)) (4 * j) = through L ?dev d j"
      | "r1 = Err ZX_ERR_OUT_OF_RANGE" "block_count (Info w0) \<le> d"
      using jk(1) False by (auto simp: cache_read_def through_def)
    then show ?thesis
    proof cases
      case ok: 1
      define b where "b = through L ?dev d j"
      have run3: "(if b = 0 then ret (0, kDindirectStart + (j + 1) * kMinfsDirectPerIndirect)
           else abind (cached_indirect L b) (\<lambda>_.
                abind (get_ck ck_ind_cache) (\<lambda>data. ret (get_u32 data (4 * k), n + 1)))) s1 = Some (r, s')"
        using run2
        unfolding abind_Some(1) [where m = "cached_doubly_indirect L d", OF 1 [unfolded ok(1)]] get_ck_bind ok(2)
          b_def [symmetric] .
      show ?thesis
      proof (cases "b = 0")
        case True
        then have r: "s' = s1" "r = Ok (0, kDindirectStart + (j + 1) * kMinfsDirectPerIndirect)" using run3 by simp_all
        have "sparse_until L ?dev i n (kDindirectStart + (j + 1) * kMinfsDirectPerIndirect)"
          unfolding j_def m_def by (rule sparse_second [OF n]) (use True in \<open>simp add: b_def j_def m_def d_def\<close>)
        then show ?thesis using c n(2) block True unfolding r
          by (simp add: cache_read_def nth_found_def b_def [symmetric] through_def [of L ?dev 0])
      next
        case nz: False
        then have "abind (cached_indirect L b) (\<lambda>_.
                abind (get_ck ck_ind_cache) (\<lambda>data. ret (get_u32 data (4 * k), n + 1))) s1 = Some (r, s')"
          using run3 by (simp only: if_False)
        note p = pointer_read [OF env _ _ nz jk(2) this]
        have s1: "seen L content w0 s1" "caches_ok L ?dev (fst s1)" "same_marks (fst s) (fst s1)"
          using c by (simp_all add: cache_read_def)
        have "places L ?dev i \<lparr>bi_owner = 0, bi_offset = LogicalBlockDoublyIndirect 0 j 0, bi_type = kIndirect\<rparr> b"
          using nz jk(1) by (auto simp: places_def b_def d_def kMinfsDoublyIndirect_def)
        then have "r = Err ZX_ERR_OUT_OF_RANGE \<Longrightarrow> block_count (Info w0) \<le> b \<Longrightarrow> nth_found L content w0 i n r"
          by (rule nth_found_far [rotated]) simp_all
        moreover have "r = Ok (through L ?dev b k, n + 1) \<Longrightarrow> nth_found L content w0 i n r"
          using n(2) sparse_next [of L ?dev i n] by (simp add: nth_found_def block b_def)
        ultimately have "nth_found L content w0 i n r" using p [OF s1(1,2)] by blast
        then show ?thesis using p [OF s1(1,2)] s1(3) same_marks_trans by blast
      qed
    next
      case 2
      then have "s' = s1 \<and> r = Err ZX_ERR_OUT_OF_RANGE" using run2 1 by (simp add: abind_def)
      then show ?thesis using c 2 dplace by (auto simp: cache_read_def intro: nth_found_far)
    qed
  qed
qed

lemma nth_law:
  assumes env: "checks_on L content w0" and s: "seen L content w0 s" "caches_ok L (content (w_fd w0)) (fst s)"
    and run: "GetInodeNthBno L i n s = Some (r, s')"
  shows "seen L content w0 s' \<and> same_marks (fst s) (fst s') \<and> caches_ok L (content (w_fd w0)) (fst s')
    \<and> nth_found L content w0 i n r"
proof -
  consider "n < kMinfsDirect" | "kMinfsDirect \<le> n" "n < kDindirectStart"
    | "kDindirectStart \<le> n" "n < kFileBlocks" | "kFileBlocks \<le> n" by linarith
  then show ?thesis
  proof cases
    case 1
    then have "r = Ok (dnum i ! n, n + 1)" "s' = s" using run by (simp_all add: GetInodeNthBno_def)
    moreover have "n < kFileBlocks" using 1 by (simp add: kFileBlocks_def kDindirectStart_def)
    ultimately show ?thesis using s 1 sparse_next [of L "content (w_fd w0)" i n]
      by (simp add: nth_found_def file_block_def same_marks_def)
  next
    case 4
    then have "\<not> n < kMinfsDirect" "\<not> (n - kMinfsDirect) div kMinfsDirectPerIndirect < kMinfsIndirect"
      "\<not> (n - kMinfsDirect - kMinfsIndirect * kMinfsDirectPerIndirect) div kMinfsDirectPerDindirect < kMinfsDoublyIndirect"
      by (auto simp: kFileBlocks_def kDindirectStart_def format_consts)
    then have "fail ZX_ERR_OUT_OF_RANGE s = Some (r, s')"
      using run unfolding GetInodeNthBno_def Let_def by (simp only: if_False)
    then have "r = Err ZX_ERR_OUT_OF_RANGE" "s' = s" by simp_all
    then show ?thesis using s 4 by (simp add: nth_found_def same_marks_def)
  qed (use nth_indirect [OF env s] nth_doubly [OF env s] run in blast)+
qed

text \<open>The pointers in blocks of pointers are in range, as they are once they have been checked.\<close>

definition pointers_in_range :: "('b, 'r, 'f) libs \<Rightarrow> bytes \<Rightarrow> inode \<Rightarrow> nat \<Rightarrow> bool" where
  "pointers_in_range L c i n \<longleftrightarrow> (\<forall>p b. bi_type p \<noteq> kDirect \<longrightarrow> places L c i p b \<longrightarrow> b < n)"

definition content_places :: "('b, 'r, 'f) libs \<Rightarrow> bytes \<Rightarrow> inode \<Rightarrow> nat \<Rightarrow> nat \<Rightarrow> (nat \<times> block_info) set" where
  "content_places L c i ino n =
    {(file_block L c i k, \<lparr>bi_owner = ino, bi_offset = k, bi_type = kDirect\<rparr>) | k. n \<le> k \<and> k < kFileBlocks}"

lemma content_places_next:
  assumes "n < kFileBlocks" "sparse_until L c i n next" "b \<noteq> 0"
  shows "(b, p) \<in> {(file_block L c i n, \<lparr>bi_owner = ino, bi_offset = n, bi_type = kDirect\<rparr>)}
      \<union> content_places L c i ino next \<longleftrightarrow> (b, p) \<in> content_places L c i ino n"
proof -
  have key: "k = n \<or> next \<le> k" if "file_block L c i k \<noteq> 0" "n \<le> k" for k
    using assms(2) that unfolding sparse_until_def by (metis leI le_neq_implies_less)
  show ?thesis
  proof
    assume "(b, p) \<in> content_places L c i ino n"
    then obtain k where k: "b = file_block L c i k" "p = \<lparr>bi_owner = ino, bi_offset = k, bi_type = kDirect\<rparr>"
      "n \<le> k" "k < kFileBlocks" by (auto simp: content_places_def)
    then show "(b, p) \<in> {(file_block L c i n, \<lparr>bi_owner = ino, bi_offset = n, bi_type = kDirect\<rparr>)}
      \<union> content_places L c i ino next"
      using key [of k] assms(3) by (auto simp: content_places_def)
  qed (use assms(1,2) in \<open>auto simp: content_places_def sparse_until_def\<close>)
qed

lemma blocks_loop_added:
  fixes L :: "('b, 'r, 'f) libs"
  assumes "check_blocks_loop L i ino n nb cnt s = Some (Ok x, s')" "checks_on L content w0"
    "seen L content w0 s" "caches_ok L (content (w_fd w0)) (fst s)"
    "ck_conforming (fst s) \<longrightarrow> pointers_in_range L (content (w_fd w0)) i (block_count (Info w0))"
  shows "added L content w0 (content_places L (content (w_fd w0)) i ino n) s s'"
proof -
  let ?dev = "content (w_fd w0)"
  let ?Q = "\<lambda>L i ino n nb cnt s y. checks_on L content w0 \<longrightarrow> seen L content w0 s
    \<longrightarrow> caches_ok L ?dev (fst s)
    \<longrightarrow> (ck_conforming (fst s) \<longrightarrow> pointers_in_range L ?dev i (block_count (Info w0)))
    \<longrightarrow> (\<forall>x. fst y = Ok x \<longrightarrow> added L content w0 (content_places L ?dev i ino n) s (snd y))"
  have "?Q L i ino n nb cnt s (Ok x, s')"
  proof (rule check_blocks_loop.raw_induct [where P = ?Q, OF _ assms(1)], intro impI allI)
    fix f and L :: "('b, 'r, 'f) libs" and i ino n nb cnt s y x
    assume IH: "\<And>L i ino n nb cnt s y. f L i ino n nb cnt s = Some y \<Longrightarrow> ?Q L i ino n nb cnt s y"
      and body: "try_act (GetInodeNthBno L i n) (\<lambda>r st.
      if r = Err ZX_ERR_OUT_OF_RANGE then Some (Ok (nb, cnt), st)
      else
        abind (lift_res r) (\<lambda>(bno, next_n).
        abind (check_pointer L bno \<lparr>bi_owner = ino, bi_offset = n, bi_type = kDirect\<rparr>) (\<lambda>k.
        f L i ino next_n (if bno \<noteq> 0 then n + 1 else nb) (u32 (cnt + k)))) st) s = Some y"
      and env: "checks_on L content w0" and s: "seen L content w0 s" "caches_ok L ?dev (fst s)"
      and range: "ck_conforming (fst s) \<longrightarrow> pointers_in_range L ?dev i (block_count (Info w0))"
      and y: "fst y = Ok x"
    obtain r s1 where 1: "GetInodeNthBno L i n s = Some (r, s1)"
      using body by (cases "GetInodeNthBno L i n s") (auto simp: try_act_def)
    note g = nth_law [OF env s 1]
    have s1: "seen L content w0 s1" "same_marks (fst s) (fst s1)" "caches_ok L ?dev (fst s1)" using g by simp_all
    have conf: "ck_conforming (fst s1) = ck_conforming (fst s)" using s1(2) by (simp add: same_marks_def)
    note same = added_same [OF s(1) s1(1,2)]
    show "added L content w0 (content_places L ?dev i ino n) s (snd y)"
    proof (cases "r = Err ZX_ERR_OUT_OF_RANGE")
      case True
      then have "snd y = s1" using body 1 by (auto simp: try_act_def)
      moreover have "content_places L ?dev i ino n = {}" if "ck_conforming (fst s1)"
      proof -
        have "pointers_in_range L ?dev i (block_count (Info w0))" using range conf that by simp
        then have "kFileBlocks \<le> n"
          using g True unfolding nth_found_def pointers_in_range_def by (metis leD res.distinct(1))
        then show ?thesis by (auto simp: content_places_def)
      qed
      ultimately show ?thesis using same by (auto simp: added_def)
    next
      case False
      obtain nx where r: "r = Ok (file_block L ?dev i n, nx)" "n < kFileBlocks"
          "sparse_until L ?dev i n nx"
        using g False by (auto simp: nth_found_def)
      let ?b = "file_block L ?dev i n" and ?p = "\<lparr>bi_owner = ino, bi_offset = n, bi_type = kDirect\<rparr>"
      have "abind (check_pointer L ?b ?p) (\<lambda>k.
          f L i ino nx (if ?b \<noteq> 0 then n + 1 else nb) (u32 (cnt + k))) s1 = Some y"
        using body 1 r(1) by (simp add: try_act_def lift_res_def abind_def ret_def)
      then obtain k s2 where 2: "check_pointer L ?b ?p s1 = Some (Ok k, s2)"
          "f L i ino nx (if ?b \<noteq> 0 then n + 1 else nb) (u32 (cnt + k)) s2 = Some y"
        using y by (cases y) (auto simp: abind_Ok_iff)
      note a = check_pointer_added [OF env s1(1) 2(1)]
      have c: "caches_ok L ?dev (fst s2)"
        using s1(3) check_pointer_caches [OF 2(1)] by (simp add: caches_ok_def)
      have "ck_conforming (fst s2) \<longrightarrow> pointers_in_range L ?dev i (block_count (Info w0))"
        using a range conf by (simp add: added_def)
      then have "added L content w0 (content_places L ?dev i ino nx) s2 (snd y)"
        using IH [OF 2(2)] env added_seen [OF a] c y by blast
      from added_trans [OF added_trans [OF same a] this]
      have "added L content w0 ({(?b, ?p)} \<union> content_places L ?dev i ino nx) s (snd y)" by simp
      then show ?thesis by (rule added_cong) (rule content_places_next [OF r(2,3)])
    qed
  qed
  then show ?thesis using assms(2-) by simp
qed

lemma CheckFile_added:
  assumes env: "checks_on L content w0" and s: "seen L content w0 s"
    and run: "CheckFile L (inode_on L (content (w_fd w0)) ino) ino s = Some (Ok (), s')"
  shows "added L content w0 {(b, p). bi_owner p = ino \<and> points L (content (w_fd w0)) p b} s s'"
proof -
  let ?dev = "content (w_fd w0)" let ?i = "inode_on L ?dev ino"
  let ?q = "\<lambda>n. \<lparr>bi_owner = ino, bi_offset = LogicalBlockIndirect n 0, bi_type = kIndirect\<rparr>"
  let ?ps = "map (\<lambda>n. (inum ?i ! n, ?q n)) [0..<kMinfsIndirect]"
  let ?ds = "map (\<lambda>n. (n, dinum ?i ! n)) [0..<kMinfsDoublyIndirect]"
  obtain cnt1 s1 cnt2 s2 s3 nb cnt4 s4 s5 where 1: "check_pointers L ?ps 0 s = Some (Ok cnt1, s1)"
    and 2: "check_doubly_indirect L ino ?ds cnt1 s1 = Some (Ok cnt2, s2)"
    and 3: "update_ck (\<lambda>c. c\<lparr>ck_cached_dind := 0, ck_cached_ind := 0\<rparr>) s2 = Some (Ok (), s3)"
    and 4: "check_blocks_loop L ?i ino 0 0 cnt2 s3 = Some (Ok (nb, cnt4), s4)"
    and 5: "require_conforming (nb = 0 \<or>
             nb \<le> u32 (round_up (i_size ?i) kMinfsBlockSize) div kMinfsBlockSize) s4 = Some (Ok (), s5)"
    and 6: "require_conforming (cnt4 = i_block_count ?i) s5 = Some (Ok (), s')"
    using run unfolding CheckFile_def by (auto simp: abind_Ok_iff)
  note a1 = check_pointers_added [OF env s 1]
  note a2 = check_doubly_added [OF env added_seen [OF a1] 2]
  have s3: "s3 = ((fst s2)\<lparr>ck_cached_dind := 0, ck_cached_ind := 0\<rparr>, snd s2)"
    using 3 by (simp add: update_ck_def split_beta)
  have m: "same_marks (fst s2) (fst s3)" by (simp add: s3 same_marks_def)
  have "seen L content w0 s3" unfolding s3 by (rule seen_caches [OF added_seen [OF a2]]) (simp add: same_marks_def)
  note a3 = added_same [OF added_seen [OF a2] this m]
  define X where "X = {(b, p). bi_owner p = ino \<and> points L ?dev p b}"
  let ?Y = "(set ?ps \<union> ((\<lambda>(n, d). (d, \<lparr>bi_owner = ino, bi_offset = LogicalBlockDoublyIndirect n 0 0, bi_type = kDoubleIndirect\<rparr>)) ` set ?ds
       \<union> (\<Union>(n, d) \<in> set ?ds. (\<lambda>m. (through L ?dev d m,
            \<lparr>bi_owner = ino, bi_offset = LogicalBlockDoublyIndirect n m 0, bi_type = kIndirect\<rparr>))
            ` {0..<kMinfsDirectPerIndirect})) \<union> {})"
  note a123 = added_trans [OF added_trans [OF a1 a2] a3]
  have Y: "(b, p) \<in> X \<longleftrightarrow> (b, p) \<in> ?Y \<union> content_places L ?dev ?i ino 0" if "b \<noteq> 0" for b p
  proof -
    let ?d = "\<lambda>n. \<lparr>bi_owner = ino, bi_offset = LogicalBlockDoublyIndirect n 0 0, bi_type = kDoubleIndirect\<rparr>"
    let ?m = "\<lambda>n m. \<lparr>bi_owner = ino, bi_offset = LogicalBlockDoublyIndirect n m 0, bi_type = kIndirect\<rparr>"
    have ps: "(b, p) \<in> set ?ps \<longleftrightarrow> (\<exists>n < kMinfsIndirect. b = inum ?i ! n \<and> p = ?q n)"
      by auto
    have ds: "(b, p) \<in> (\<lambda>(n, d). (d, ?d n)) ` set ?ds \<longleftrightarrow>
        (\<exists>n < kMinfsDoublyIndirect. b = dinum ?i ! n \<and> p = ?d n)"
      by auto
    have "(b, p) \<in> (\<Union>(n, d) \<in> set ?ds. (\<lambda>m. (through L ?dev d m, ?m n m)) ` {0..<kMinfsDirectPerIndirect}) \<longleftrightarrow>
        (\<exists>n < kMinfsDoublyIndirect. \<exists>m < kMinfsDirectPerIndirect. b = through L ?dev (dinum ?i ! n) m \<and> p = ?m n m)"
      unfolding UN_iff Bex_def image_iff by (simp add: image_iff Bex_def)
    note sets = ps ds this
    obtain own off ty where p: "p = \<lparr>bi_owner = own, bi_offset = off, bi_type = ty\<rparr>" by (cases p)
    show ?thesis unfolding Un_iff sets empty_iff
      unfolding X_def points_def places_def content_places_def p mem_Collect_eq prod.case using that
      by (cases ty; cases "own = ino") auto
  qed
  have "pointers_in_range L ?dev ?i (block_count (Info w0))" if "ck_conforming (fst s3)"
    unfolding pointers_in_range_def
  proof (intro allI impI)
    fix p b assume p: "bi_type p \<noteq> kDirect" "places L ?dev ?i p b"
    let ?p = "p\<lparr>bi_owner := ino\<rparr>"
    have b: "b \<noteq> 0" using p(2) by (simp add: places_def)
    have "bi_owner ?p = ino" "bi_offset ?p = bi_offset p" "bi_type ?p = bi_type p" by simp_all
    then have "points L ?dev ?p b" using p(2) unfolding points_def places_def by (simp only: simp_thms)
    then have "(b, ?p) \<in> X" by (simp add: X_def)
    moreover have "(b, ?p) \<notin> content_places L ?dev ?i ino 0"
      using p(1) by (cases p) (auto simp: content_places_def)
    ultimately have "(b, ?p) \<in> ?Y" using Y [OF b, of ?p] by blast
    then have "?p \<in> set (ck_blk_info (fst s3) b)" using a123 that b unfolding added_def by blast
    then show "b < block_count (Info w0)"
      using owned_in_range [of L content w0 "fst s3" "snd s3"] added_seen [OF a3] by simp
  qed
  then have "added L content w0 (content_places L ?dev ?i ino 0) s3 s4"
    by (intro blocks_loop_added [OF 4 env added_seen [OF a3]]) (simp_all add: s3 caches_ok_def)
  note a4 = added_trans [OF a123 this]
  note a5 = require_added [OF added_seen [OF a4] 5]
  note a6 = require_added [OF added_seen [OF a5] 6]
  from added_trans [OF added_trans [OF a4 a5] a6]
  have "added L content w0 (?Y \<union> content_places L ?dev ?i ino 0) s s'" by (simp only: Un_empty_right)
  then show ?thesis unfolding X_def [symmetric] by (rule added_cong) (rule Y [symmetric])
qed

end
