(* ===== verification/Fsck_Sound.thy ===== *)
theory Fsck_Sound
  imports Fsck_Owners
begin

text \<open>
  The meaning of a pass of the checker (\<open>fsck.cc\<close>). The invariant \<open>owned\<close> says that the record of
  owners is the relation between the inodes seen so far and their blocks on the device; the walk
  keeps it, and with the last checks it describes the whole file system.
\<close>

section \<open>After a success\<close>

definition oks :: "('s \<Rightarrow> bool) \<Rightarrow> ('s, 'a) act \<Rightarrow> bool" where
  "oks P m \<longleftrightarrow> (\<forall>s x s'. P s \<longrightarrow> m s = Some (Ok x, s') \<longrightarrow> P s')"

named_theorems oks_rules \<open>invariants of successful actions\<close>

lemma oksI: "(\<And>s x s'. P s \<Longrightarrow> m s = Some (Ok x, s') \<Longrightarrow> P s') \<Longrightarrow> oks P m"
  by (auto simp: oks_def)

lemma oksD: "oks P m \<Longrightarrow> P s \<Longrightarrow> m s = Some (Ok x, s') \<Longrightarrow> P s'"
  by (auto simp: oks_def)

lemma keeps_oks: "keeps P m \<Longrightarrow> oks P m"
  unfolding keeps_def oks_def by blast

lemma oks_simple [oks_rules]:
  "oks P (ret x)" "oks P (fail e)" "oks P abort" "oks P (gets f)" "oks P (assert_act b)"
  "oks P (lift_res r)" "oks P (get_ck g)"
  by (rule keeps_oks, rule keeps_rules)+

lemma oks_abind [oks_rules]: "oks P m \<Longrightarrow> (\<And>x. oks P (f x)) \<Longrightarrow> oks P (abind m f)"
  unfolding oks_def abind_Ok_iff by blast

lemma oks_if [oks_rules]: "(b \<Longrightarrow> oks P m) \<Longrightarrow> (\<not> b \<Longrightarrow> oks P m') \<Longrightarrow> oks P (if b then m else m')"
  by simp

lemma oks_case_prod [oks_rules]: "(\<And>x y. oks P (f x y)) \<Longrightarrow> oks P (case p of (x, y) \<Rightarrow> f x y)"
  by (cases p) simp

lemma oks_run_all: "(\<And>m. m \<in> set ms \<Longrightarrow> oks P m) \<Longrightarrow> oks P (run_all ms)"
  by (induction ms) (auto intro: oks_rules)

section \<open>Reading changes nothing\<close>

definition on_device :: "('f \<Rightarrow> bytes) \<Rightarrow> ('b, 'r, 'f) world \<Rightarrow> ('b, 'r, 'f) world \<Rightarrow> bool" where
  "on_device content w0 w \<longleftrightarrow> same_alloc w0 w \<and> content (w_fd w) = content (w_fd w0)"

lemma on_device_stable:
  assumes "posix_laws (li_posix L) content"
  shows "read_stable L (on_device content w0)"
proof -
  have 1: "keeps (on_device content w0) (w_Readblk L n)" for n
  proof (rule keepsI)
    fix w r w' assume w: "on_device content w0 w" "w_Readblk L n w = Some (r, w')"
    obtain data f where "Readblk (li_posix L) (li_bcache L) n (w_fd w) = Some (Ok data, f)"
      "content f = content (w_fd w)"
      by (rule Readblk_law [OF assms, of "li_bcache L" n "w_fd w"]) blast
    then show "on_device content w0 w'" using w by (auto simp: w_Readblk_def on_fd_def on_device_def)
  qed
  have p: "content (snd (px_pread (li_posix L) n off f)) = content f" for n off f
    using assms by (simp add: posix_laws_def law_pread_def Let_def)
  have 2: "keeps (on_device content w0) (read_pointers L dev n)" for dev n
  proof (rule keepsI)
    fix w r w' assume w: "on_device content w0 w" "read_pointers L dev n w = Some (r, w')"
    let ?r = "px_pread (li_posix L) (u64 (op_length (read_op 0 dev n) * kMinfsBlockSize))
      (u64 (dev_offset (read_op 0 dev n) * kMinfsBlockSize)) (w_fd w)"
    have "w' = w\<lparr>w_fd := snd ?r\<rparr>"
      using w(2) by (auto simp: read_pointers_def read_op_def Let_def split_beta split: if_splits)
    then show "on_device content w0 w'" using w(1) p by (simp add: on_device_def)
  qed
  show ?thesis unfolding read_stable_def using 1 2 by (auto simp: on_device_def)
qed

section \<open>The owners of the blocks\<close>

definition owned ::
  "('b, 'r, 'f) libs \<Rightarrow> ('f \<Rightarrow> bytes) \<Rightarrow> ('b, 'r, 'f) world \<Rightarrow> 'b checker \<times> ('b, 'r, 'f) world \<Rightarrow> bool" where
  "owned L content w0 st \<longleftrightarrow> seen L content w0 st \<and> (ck_conforming (fst st) \<longrightarrow>
     (\<forall>b p. p \<in> set (ck_blk_info (fst st) b) \<longleftrightarrow>
        bi_owner p \<noteq> 0 \<and> bi_owner p \<in> bits_set (li_bitmap L) (ck_inodes (fst st))
        \<and> points L (content (w_fd w0)) p b))"

lemma owned_same:
  assumes "owned L content w0 st" "seen L content w0 st'" "same_marks (fst st) (fst st')"
  shows "owned L content w0 st'"
  using assms by (simp add: owned_def same_marks_def)

lemma oks_on_fs:
  assumes "keeps (on_device content w0) m"
  shows "oks (owned L content w0) (on_fs m)"
proof (rule oksI)
  fix s x s' assume s: "owned L content w0 s" "on_fs m s = Some (Ok x, s')"
  then obtain w where w: "m (snd s) = Some (Ok x, w)" "s' = (fst s, w)"
    by (auto simp: on_fs_def split: option.splits)
  have "on_device content w0 (snd s)"
    using s(1) by (simp add: owned_def seen_def fsck_inv_def on_device_def)
  from keepsD [OF assms this w(1)] have "on_device content w0 w" .
  then have "seen L content w0 s'"
    using s(1) w(2) by (cases s) (simp add: owned_def seen_def fsck_inv_def on_device_def)
  then show "owned L content w0 s'" by (rule owned_same [OF s(1)]) (simp add: w(2) same_marks_def)
qed

lemma oks_require [oks_rules]: "oks (owned L content w0) (require_conforming b)"
proof (rule oksI)
  fix s x s' assume s: "owned L content w0 s" "require_conforming b s = Some (Ok x, s')"
  then show "owned L content w0 s'"
    using require_added [OF _ s(2)] by (auto simp: owned_def added_def)
qed

lemma oks_update_ck [oks_rules]:
  assumes "\<And>c. same_marks c (f c)"
  shows "oks (owned L content w0) (update_ck f)"
proof (rule oksI)
  fix s x s' assume s: "owned L content w0 s" "update_ck f s = Some (Ok x, s')"
  then have s': "s' = (f (fst s), snd s)" by (simp add: update_ck_def split_beta)
  have "seen L content w0 s'"
    unfolding s' using s(1) assms by (intro seen_caches) (simp_all add: owned_def)
  then show "owned L content w0 s'" by (rule owned_same [OF s(1)]) (simp add: s' assms)
qed

lemma oks_add_link [oks_rules]: "oks (owned L content w0) (add_link ino k)"
  unfolding add_link_def Let_def by (intro oks_rules) (simp add: same_marks_def)

section \<open>Directories and inodes\<close>

lemma oks_reading:
  assumes "checks_on L content w0"
  shows "oks (owned L content w0) (on_fs (or_status e (ReadInternal L v buf len off)))"
    "oks (owned L content w0) (on_fs (ReadInternal L v buf len off))"
    "oks (owned L content w0) (on_fs (Vnode_Recreate L ino))"
    "oks (owned L content w0) (on_fs (InodeLoad L ino))"
    "oks (owned L content w0) (on_fs (or_status e (w_Readblk L n)))"
proof -
  have st: "read_stable L (on_device content w0)"
    using on_device_stable assms by (auto simp: checks_on_def)
  show "oks (owned L content w0) (on_fs (or_status e (ReadInternal L v buf len off)))"
    "oks (owned L content w0) (on_fs (ReadInternal L v buf len off))"
    by (intro oks_on_fs keeps_or_status stable_ReadInternal [OF st])+
  show "oks (owned L content w0) (on_fs (Vnode_Recreate L ino))"
    by (intro oks_on_fs stable_Vnode_Recreate [OF st])
  show "oks (owned L content w0) (on_fs (InodeLoad L ino))"
    by (intro oks_on_fs stable_InodeLoad [OF st])
  show "oks (owned L content w0) (on_fs (or_status e (w_Readblk L n)))"
    by (intro oks_on_fs keeps_or_status read_stableD(1) [OF st])
qed

lemma oks_check_entry:
  assumes "checks_on L content w0" "\<And>i p d. oks (owned L content w0) (recurse i p d)"
  shows "oks (owned L content w0) (check_entry L recurse v ino parent rec de rlen off sn)"
  unfolding check_entry_def Let_def
  by (intro oks_abind oks_reading [OF assms(1)] oks_case_prod oks_if oks_simple oks_require assms(2))

lemma oks_check_directory_loop:
  fixes L :: "('b, 'r, 'f) libs"
  assumes "checks_on L content w0" "\<And>i p d. oks (owned L content w0) (recurse i p d)"
  shows "oks (owned L content w0) (check_directory_loop L recurse inode v ino parent rec off sn)"
proof -
  let ?P = "\<lambda>L. owned L content w0"
  let ?Q = "\<lambda>L recurse inode v ino parent rec off sn st y. checks_on L content w0 \<longrightarrow>
    (\<forall>i p d. oks (?P L) (recurse i p d)) \<longrightarrow> ?P L st \<longrightarrow> (\<forall>x s'. y = (Ok x, s') \<longrightarrow> ?P L s')"
  have "?Q L recurse inode v ino parent rec off sn s y"
    if "check_directory_loop L recurse inode v ino parent rec off sn s = Some y" for s y
  proof (rule check_directory_loop.raw_induct [where P = ?Q, OF _ that], intro impI allI)
    fix f and L :: "('b, 'r, 'f) libs" and recurse inode v ino parent rec off sn s y x s'
    let ?step = "\<lambda>(actual, buf) st.
      if actual = 0 \<and> i_link_count inode = 0 \<and> parent = 0 then Some (Ok sn, st)
      else if actual \<noteq> kMinfsDirentSize then Some (Err ZX_ERR_IO, st)
      else if bad_dirent (de_of buf) off then Some (Err ZX_ERR_IO_DATA_INTEGRITY, st)
      else
        abind (if de_ino (de_of buf) = 0 then ret sn
               else check_entry L recurse v ino parent rec (de_of buf)
                      (u32 (DirentReservedSize (de_of buf) off)) off sn) (\<lambda>sn st.
        if is_last_dirent (de_of buf) then Some (Ok sn, st)
        else f L recurse inode v ino parent rec
               (off + u32 (DirentReservedSize (de_of buf) off)) sn st) st"
    assume IH: "\<And>L recurse inode v ino parent rec off sn s y.
        f L recurse inode v ino parent rec off sn s = Some y
        \<Longrightarrow> ?Q L recurse inode v ino parent rec off sn s y"
      and body: "abind (on_fs (ReadInternal L v (li_garbage L) kMinfsDirentSize off)) ?step s = Some y"
      and env: "checks_on L content w0" and rc: "\<forall>i p d. oks (?P L) (recurse i p d)"
      and s: "?P L s" and y: "y = (Ok x, s')"
    have rec: "oks (?P L) (f L recurse inode v ino parent rec off' sn')" for off' sn'
      using IH [of L recurse inode v ino parent rec off' sn'] env rc by (intro oksI) blast
    have tail: "oks (?P L) (\<lambda>st. if b then Some (Ok sn', st)
        else f L recurse inode v ino parent rec off' sn' st)" for b off' sn'
      using rec [of off' sn'] by (cases b) (auto intro!: oksI elim: oksD)
    have "oks (?P L) (?step a)" for a
    proof (cases a)
      case (Pair actual buf)
      have "oks (?P L) (abind (if de_ino (de_of buf) = 0 then ret sn
               else check_entry L recurse v ino parent rec (de_of buf)
                      (u32 (DirentReservedSize (de_of buf) off)) off sn) (\<lambda>sn st.
        if is_last_dirent (de_of buf) then Some (Ok sn, st)
        else f L recurse inode v ino parent rec
               (off + u32 (DirentReservedSize (de_of buf) off)) sn st))"
        by (intro oks_abind oks_if oks_simple oks_check_entry [OF env] tail) (use rc in blast)
      then show ?thesis unfolding Pair prod.case
        by (auto intro!: oksI elim: oksD split: if_splits)
    qed
    from oksD [OF oks_abind [OF oks_reading(2) [OF env] this] s body [unfolded y]]
    show "?P L s'" .
  qed
  with assms show ?thesis by (intro oksI) blast
qed

lemma oks_CheckDirectory:
  assumes "checks_on L content w0" "\<And>i p d. oks (owned L content w0) (recurse i p d)"
  shows "oks (owned L content w0) (CheckDirectory L recurse inode ino parent rec)"
  unfolding CheckDirectory_def
  by (intro oks_abind oks_reading [OF assms(1)] oks_check_directory_loop assms oks_require)

lemma oks_gets_fs: "oks (owned L content w0) (on_fs (gets f))"
  unfolding on_fs_gets by (rule oks_simple)

lemma oks_GetInode:
  assumes "checks_on L content w0"
  shows "oks (owned L content w0) (Checker_GetInode L ino b)"
  unfolding Checker_GetInode_def
  by (intro oks_abind oks_reading [OF assms] oks_gets_fs oks_if oks_simple)

lemma GetInode_on:
  assumes env: "checks_on L content w0" and s: "owned L content w0 s"
    and run: "Checker_GetInode L ino b s = Some (Ok i, s')"
  shows "owned L content w0 s'" "i = inode_on L (content (w_fd w0)) ino" "ino < inode_count (Info w0)"
proof -
  obtain c w where cw: "s = (c, w)" by (cases s)
  have w: "content (w_fd w) = content (w_fd w0)" "Info w = Info w0"
    using seenD [of L content w0 c w] s by (simp_all add: owned_def cw)
  have "posix_laws (li_posix L) content" using env by (simp add: checks_on_def)
  then obtain f where "InodeLoad L ino w = Some (Ok (inode_on L (content (w_fd w)) ino), w\<lparr>w_fd := f\<rparr>)"
    by (rule InodeLoad_on [of L content ino w])
  then show "i = inode_on L (content (w_fd w0)) ino" "ino < inode_count (Info w0)"
    using run w by (auto simp: Checker_GetInode_def cw abind_Ok_iff on_fs_def split: if_splits)
qed (rule oksD [OF oks_GetInode [OF env] s run])

lemma add_link_Ok:
  "add_link ino k s = Some (Ok x, s') \<Longrightarrow> 0 < ino \<and> ck_inodes (fst s') = ck_inodes (fst s)"
  by (auto simp: add_link_def get_ck_def update_ck_def abind_Ok_iff assert_act_def Let_def
      split: if_splits prod.splits)

lemma mark_inode_Ok:
  assumes "mark_inode L ino s = Some (Ok x, s')"
  shows "ck_inodes (fst s') = rb_set (li_bitmap L) (ck_inodes (fst s)) ino (ino + 1)"
    "ck_blk_info (fst s') = ck_blk_info (fst s)" "ck_conforming (fst s') \<Longrightarrow> ck_conforming (fst s)"
    "snd s' = snd s"
  using assms
  by (cases s; auto simp: mark_inode_def update_ck_def abind_Ok_iff require_conforming_def not_conforming_def
      split: if_splits)+

text \<open>A new inode, and the blocks of its file.\<close>

lemma visited_owned:
  assumes env: "checks_on L content w0" and s: "owned L content w0 s"
    and ino: "0 < ino" "ino < inode_count (Info w0)" "\<not> rb_get (li_bitmap L) (ck_inodes (fst s)) ino"
    and mark: "mark_inode L ino s = Some (Ok x, s1)"
    and walk: "CheckFile L (inode_on L (content (w_fd w0)) ino) ino s1 = Some (Ok (), s2)"
  shows "owned L content w0 s2"
proof -
  let ?B = "li_bitmap L"
  have e: "fsck_env L w0" using env by (simp add: checks_on_def)
  note m = mark_inode_Ok [OF mark]
  have inv: "fsck_inv L w0 s" using s by (simp add: owned_def seen_def)
  have "fsck_inv L w0 s1"
    using leads_mark_inode [OF e, of ino] inv ino(2,3) mark unfolding leads_def by blast
  then have "seen L content w0 s1" using s m(4) by (simp add: owned_def seen_def)
  note a = CheckFile_added [OF env this walk]
  have "ino < rb_size ?B (ck_inodes (fst s))" using inv ino(2) by (cases s) (simp add: fsck_inv_def)
  then have "bits_set ?B (ck_inodes (fst s1)) = insert ino (bits_set ?B (ck_inodes (fst s)))"
    using bits_set_set [of ?B ino "ino + 1" "ck_inodes (fst s)"] e m(1) by (auto simp: fsck_env_def)
  moreover have "points L dev p b \<Longrightarrow> b \<noteq> 0" for dev p b by (simp add: points_def places_def)
  ultimately show ?thesis using a s m(2,3) ino(1) unfolding owned_def added_def by auto
qed

lemma new_inode_owned:
  assumes env: "checks_on L content w0" and s: "owned L content w0 s"
    and recurse: "\<And>i p d. oks (owned L content w0) (recurse i p d)"
    and ino: "0 < ino" "ino < inode_count (Info w0)" "\<not> rb_get (li_bitmap L) (ck_inodes (fst s)) ino"
    and i: "i = inode_on L (content (w_fd w0)) ino"
    and run: "abind (mark_inode L ino) (\<lambda>_.
        if i_magic i = kMinfsMagicDir then
          abind (CheckFile L i ino) (\<lambda>_.
          abind (CheckDirectory L recurse i ino parent False) (\<lambda>_.
          abind (CheckDirectory L recurse i ino parent True) (\<lambda>_.
          update_ck (\<lambda>c. c\<lparr>ck_directory_blocks :=
            u32 (ck_directory_blocks c + i_block_count i)\<rparr>))))
        else if ino = kMinfsRootIno then fail ZX_ERR_BAD_STATE
        else CheckFile L i ino) s = Some (Ok (), s')"
  shows "owned L content w0 s'"
proof -
  let ?P = "owned L content w0"
  let ?dirs = "abind (CheckDirectory L recurse i ino parent False) (\<lambda>_.
          abind (CheckDirectory L recurse i ino parent True) (\<lambda>_.
          update_ck (\<lambda>c. c\<lparr>ck_directory_blocks :=
            u32 (ck_directory_blocks c + i_block_count i)\<rparr>)))"
  have dirs: "oks ?P ?dirs"
    by (intro oks_rules oks_CheckDirectory [OF env] recurse) (simp add: same_marks_def)
  obtain u s1 where 1: "mark_inode L ino s = Some (Ok u, s1)"
    and rest: "(if i_magic i = kMinfsMagicDir then abind (CheckFile L i ino) (\<lambda>_. ?dirs)
        else if ino = kMinfsRootIno then fail ZX_ERR_BAD_STATE
        else CheckFile L i ino) s1 = Some (Ok (), s')"
    using run unfolding abind_Ok_iff [of "mark_inode L ino"] by blast
  have walk: "?P s2" if "CheckFile L i ino s1 = Some (Ok (), s2)" for s2
    using visited_owned [OF env s ino 1] that i by simp
  show ?thesis
  proof (cases "i_magic i = kMinfsMagicDir")
    case True
    then obtain s2 where 2: "CheckFile L i ino s1 = Some (Ok (), s2)" "?dirs s2 = Some (Ok (), s')"
      using rest unfolding if_P [OF True] abind_Ok_iff [of "CheckFile L i ino"] by auto
    show ?thesis by (rule oksD [OF dirs walk [OF 2(1)] 2(2)])
  next
    case False
    then show ?thesis using rest walk by (auto split: if_splits)
  qed
qed

lemma oks_CheckInode:
  assumes env: "checks_on L content w0"
  shows "oks (owned L content w0) (CheckInode L depth ino parent dd)"
proof (induction depth arbitrary: ino parent dd)
  case 0 then show ?case by (simp add: oks_rules)
next
  case (Suc depth)
  let ?P = "owned L content w0"
  show ?case
  proof (rule oksI)
    fix s x s' assume s: "?P s" and run: "CheckInode L (Suc depth) ino parent dd s = Some (Ok x, s')"
    let ?new = "\<lambda>i. abind (mark_inode L ino) (\<lambda>_. if i_magic i = kMinfsMagicDir then
            abind (CheckFile L i ino) (\<lambda>_.
            abind (CheckDirectory L (CheckInode L depth) i ino parent False) (\<lambda>_.
            abind (CheckDirectory L (CheckInode L depth) i ino parent True) (\<lambda>_.
            update_ck (\<lambda>c. c\<lparr>ck_directory_blocks :=
              u32 (ck_directory_blocks c + i_block_count i)\<rparr>))))
          else if ino = kMinfsRootIno then fail ZX_ERR_BAD_STATE
          else CheckFile L i ino)"
    let ?seen = "\<lambda>s. rb_get (li_bitmap L) (ck_inodes (fst s)) ino"
    obtain i s1 where 1: "Checker_GetInode L ino True s = Some (Ok i, s1)"
      and rest: "abind (add_link ino 1) (\<lambda>_. if ?seen s1 then ret ()
          else abind (add_link ino (- int (i_link_count i))) (\<lambda>_. ?new i)) s1 = Some (Ok x, s')"
      using run unfolding CheckInode.simps mark_inode_bind Let_def get_ck_def
      by (auto simp: abind_Ok_iff split_beta split: if_splits)
    note g = GetInode_on [OF env s 1]
    from rest obtain u s2 where 2: "add_link ino 1 s1 = Some (Ok u, s2)"
      and rest2: "(if ?seen s1 then ret ()
          else abind (add_link ino (- int (i_link_count i))) (\<lambda>_. ?new i)) s2 = Some (Ok x, s')"
      unfolding abind_Ok_iff [of "add_link ino 1"] by blast
    have s2: "?P s2" by (rule oksD [OF oks_add_link g(1) 2])
    show "?P s'"
    proof (cases "?seen s1")
      case True
      then show ?thesis using rest2 s2 by simp
    next
      case False
      obtain u3 s3 where 3: "add_link ino (- int (i_link_count i)) s2 = Some (Ok u3, s3)"
        and rest3: "?new i s3 = Some (Ok (), s')"
        using rest2 unfolding if_not_P [OF False] abind_Ok_iff [of "add_link ino (- int (i_link_count i))"]
        by auto
      have s3: "?P s3" by (rule oksD [OF oks_add_link s2 3])
      show ?thesis
        by (rule new_inode_owned [OF env s3 Suc _ g(3) _ g(2) rest3])
          (use False add_link_Ok [OF 2] add_link_Ok [OF 3] in simp_all)
    qed
  qed
qed

section \<open>The other checks\<close>

lemma oks_check_unlinked_loop:
  fixes L :: "('b, 'r, 'f) libs"
  assumes "checks_on L content w0"
  shows "oks (owned L content w0) (check_unlinked_loop L depth last_ino next_ino)"
proof -
  let ?P = "\<lambda>L. owned L content w0"
  let ?Q = "\<lambda>L depth last_ino next_ino st y. checks_on L content w0 \<longrightarrow> ?P L st
    \<longrightarrow> (\<forall>x s'. y = (Ok x, s') \<longrightarrow> ?P L s')"
  have "?Q L depth last_ino next_ino s y"
    if "check_unlinked_loop L depth last_ino next_ino s = Some y" for s y
  proof (rule check_unlinked_loop.raw_induct [where P = ?Q, OF _ that], intro impI allI)
    fix f :: "('b, 'r, 'f) libs \<Rightarrow> nat \<Rightarrow> nat \<Rightarrow> nat \<Rightarrow> ('b, 'r, 'f, nat) cact"
      and L :: "('b, 'r, 'f) libs" and depth and last_ino next_ino :: nat and s
      and y :: "nat res \<times> 'b checker \<times> ('b, 'r, 'f) world" and x s'
    let ?step = "\<lambda>inode st.
       if i_link_count inode > 0 \<or> i_last_inode inode \<noteq> last_ino then Some (Err ZX_ERR_BAD_STATE, st)
       else
         abind (update_ck (\<lambda>c. c\<lparr>ck_links := (ck_links c)[next_ino - 1 := -1]\<rparr>)) (\<lambda>_.
         abind (CheckInode L depth next_ino 0 False) (\<lambda>_.
         f L depth next_ino (i_next_inode inode))) st"
    assume IH: "\<And>L depth last_ino next_ino s y. f L depth last_ino next_ino s = Some y
        \<Longrightarrow> ?Q L depth last_ino next_ino s y"
      and body: "(if next_ino \<noteq> 0 then abind (Checker_GetInode L next_ino True) ?step s
        else Some (Ok last_ino, s)) = Some y"
      and env: "checks_on L content w0" and s: "?P L s" and y: "y = (Ok x, s')"
    have "oks (?P L) (f L depth a b)" for a b
      using IH [of L depth a b] env by (intro oksI) blast
    then have step: "oks (?P L) (abind
        (update_ck (\<lambda>c. c\<lparr>ck_links := (ck_links c)[next_ino - 1 := -1]\<rparr>)) (\<lambda>_.
         abind (CheckInode L depth next_ino 0 False) (\<lambda>_. f L depth next_ino (i_next_inode inode))))"
      for inode by (intro oks_rules oks_CheckInode [OF env]) (auto simp: same_marks_def)
    have "oks (?P L) (?step inode)" for inode
      using step [of inode] by (cases "i_link_count inode > 0 \<or> i_last_inode inode \<noteq> last_ino") (auto intro!: oksI simp: oks_def)
    then have all: "oks (?P L) (abind (Checker_GetInode L next_ino True) ?step)"
      by (rule oks_abind [OF oks_GetInode [OF env]])
    show "?P L s'"
    proof (cases "next_ino = 0")
      case True
      then show ?thesis using body s y by simp
    next
      case False
      then show ?thesis using oksD [OF all s] body y by simp
    qed
  qed
  with assms show ?thesis by (intro oksI) blast
qed

lemma oks_checks:
  assumes env: "checks_on L content w0"
  shows "oks (owned L content w0) (CheckUnlinkedInodes L depth)"
    "oks (owned L content w0) (CheckForUnusedBlocks L)" "oks (owned L content w0) (CheckForUnusedInodes L)"
    "oks (owned L content w0) CheckLinkCounts" "oks (owned L content w0) CheckAllocatedCounts"
    "oks (owned L content w0) (CheckSuperblockIntegrity L journal_check check)"
  unfolding CheckUnlinkedInodes_def CheckForUnusedBlocks_def CheckForUnusedInodes_def CheckLinkCounts_def
    CheckAllocatedCounts_def CheckSuperblockIntegrity_def Let_def
  by (intro oks_abind oks_gets_fs oks_check_unlinked_loop [OF env] oks_if oks_simple oks_case_prod
      oks_reading [OF env])+

lemma run_fsck_owned:
  fixes L :: "('b, 'r, 'f) libs"
  assumes env: "checks_on L content w" and n: "0 < block_count (Info w)" "0 < inode_count (Info w)"
    and c0: "Checker_Create L (Info w) = Ok c0"
    and run: "run_fsck L journal_check check depth (c0, w) = Some (Ok (), c, w')"
  shows "owned L content w (c, w')"
proof -
  let ?ms = "[CheckUnlinkedInodes L depth, CheckForUnusedBlocks L, CheckForUnusedInodes L, CheckLinkCounts,
       CheckAllocatedCounts, CheckSuperblockIntegrity L journal_check check,
       abind (get_ck ck_conforming) (\<lambda>ok. if ok then ret () else fail ZX_ERR_BAD_STATE)]"
  obtain s1 where s1: "CheckReserved L (c0, w) = Some (Ok (), s1)"
    and rest: "abind (CheckInode L depth kMinfsRootIno kMinfsRootIno False) (\<lambda>_. run_checks ?ms (Ok ())) s1
      = Some (Ok (), c, w')"
    using run unfolding run_fsck_def abind_Ok_iff [of "CheckReserved L"] by auto
  then obtain s2 where s2: "CheckInode L depth kMinfsRootIno kMinfsRootIno False s1 = Some (Ok (), s2)"
    and checks: "run_checks ?ms (Ok ()) s2 = Some (Ok (), c, w')"
    unfolding abind_Ok_iff [of "CheckInode L depth kMinfsRootIno kMinfsRootIno False"] by auto
  have e: "fsck_env L w" using env by (simp add: checks_on_def)
  have "owned L content w s1"
    using CheckReserved_inv [OF e n c0 s1] by (auto simp: owned_def seen_def)
  from oksD [OF oks_CheckInode [OF env] this s2] have "owned L content w s2" .
  have "oks (owned L content w) (run_all ?ms)"
    by (rule oks_run_all) (auto intro!: oks_checks [OF env] oks_rules)
  from oksD [OF this \<open>owned L content w s2\<close> run_checks_all [OF checks]] show ?thesis .
qed

section \<open>What a pass means\<close>

text \<open>
  \<open>li_posix L\<close> is the file with the device, \<open>content\<close> its bytes. \<open>points L (content (w_fd w)) p b\<close>
  says that the inode \<open>bi_owner p\<close> on the device has block \<open>b\<close> at the place \<open>p\<close>: in its content, or
  as a block of pointers, or as a block of pointers to these.
\<close>

text \<open>C24: When the checker passes on a device that behaves, the pointers on the device and the
  allocators agree: every allocated block but the reserved one is at exactly one place of exactly one
  allocated inode, no other block is at any, the inodes it visited are exactly the allocated ones, the
  superblock counts both, and its link counters are all zero. The bytes of the device, the allocators
  and the superblock are as before.\<close>

theorem fsck_sound:
  fixes L :: "('b, 'r, 'f) libs"
  assumes "raw_bitmap_laws (li_bitmap L)" "posix_laws (li_posix L) content" "counts_fit (Info w)"
    "0 < block_count (Info w)" "0 < inode_count (Info w)" "Checker_Create L (Info w) = Ok c0"
    "run_fsck L journal_check check depth (c0, w) = Some (Ok (), c, w')"
  shows "content (w_fd w') = content (w_fd w) \<and> w_blocks w' = w_blocks w \<and> w_inodes w' = w_inodes w
    \<and> w_sm w' = w_sm w
    \<and> (\<forall>b. if 0 < b \<and> b < block_count (Info w) \<and> CheckAllocated (li_bitmap L) b (w_blocks w)
         then \<exists>!p. 0 < bi_owner p \<and> bi_owner p < inode_count (Info w)
                \<and> CheckAllocated (li_bitmap L) (bi_owner p) (w_inodes w) \<and> points L (content (w_fd w)) p b
         else \<nexists>p. 0 < bi_owner p \<and> bi_owner p < inode_count (Info w)
                \<and> CheckAllocated (li_bitmap L) (bi_owner p) (w_inodes w) \<and> points L (content (w_fd w)) p b)
    \<and> bits_set (li_bitmap L) (ck_inodes c)
         = {i. i < inode_count (Info w) \<and> CheckAllocated (li_bitmap L) i (w_inodes w)}
    \<and> alloc_block_count (Info w)
         = card {b. b < block_count (Info w) \<and> CheckAllocated (li_bitmap L) b (w_blocks w)}
    \<and> alloc_inode_count (Info w)
         = card {i. i < inode_count (Info w) \<and> CheckAllocated (li_bitmap L) i (w_inodes w)}
    \<and> (\<forall>i < inode_count (Info w). ck_links c ! i = 0)"
proof -
  let ?B = "li_bitmap L"
  let ?live = "\<lambda>p. 0 < bi_owner p \<and> bi_owner p < inode_count (Info w)
    \<and> CheckAllocated ?B (bi_owner p) (w_inodes w)"
  have e: "fsck_env L w" "checks_on L content w" using assms by (simp_all add: fsck_env_def checks_on_def)
  note P = run_fsck_passed [OF e(1) assms(4-7)]
  have I: "fsck_inv L w (c, w')" "ck_conforming c" using P by simp_all
  note O = run_fsck_owned [OF e(2) assms(4-7)]
  have sub: "rb_size ?B (ck_blocks c) = block_count (Info w)" "rb_size ?B (ck_inodes c) = inode_count (Info w)"
    "\<And>b. b \<in> bits_set ?B (ck_blocks c) \<Longrightarrow> CheckAllocated ?B b (w_blocks w)"
    "\<And>i. i \<in> bits_set ?B (ck_inodes c) \<Longrightarrow> CheckAllocated ?B i (w_inodes w)"
    using I by (auto simp: fsck_inv_def)
  have blocks: "bits_set ?B (ck_blocks c)
      = {b. b < block_count (Info w) \<and> CheckAllocated ?B b (w_blocks w)}"
    and inodes: "bits_set ?B (ck_inodes c)
      = {i. i < inode_count (Info w) \<and> CheckAllocated ?B i (w_inodes w)}"
    using P sub by (auto simp: bits_set_def)
  have mem: "p \<in> set (ck_blk_info c b) \<longleftrightarrow> ?live p \<and> points L (content (w_fd w)) p b" for p b
    using O I(2) unfolding owned_def fst_conv inodes by auto
  have owners: "if 0 < b \<and> b < block_count (Info w) \<and> CheckAllocated ?B b (w_blocks w)
      then \<exists>!p. p \<in> set (ck_blk_info c b) else \<nexists>p. p \<in> set (ck_blk_info c b)" for b
  proof -
    have "ck_blk_info c b \<noteq> [] \<longleftrightarrow> b \<noteq> 0 \<and> b \<in> bits_set ?B (ck_blocks c)" "length (ck_blk_info c b) \<le> 1"
      using I by (simp_all add: fsck_inv_def)
    then show ?thesis unfolding blocks by (cases "ck_blk_info c b") auto
  qed
  have counts: "alloc_block_count (Info w) = card (bits_set ?B (ck_blocks c))"
    "alloc_inode_count (Info w) = card (bits_set ?B (ck_inodes c))"
    using P I by (simp_all add: fsck_inv_def)
  have device: "content (w_fd w') = content (w_fd w)" using O by (simp add: owned_def seen_def)
  have same: "w_blocks w' = w_blocks w" "w_inodes w' = w_inodes w" "w_sm w' = w_sm w"
    using I(1) by (simp_all add: fsck_inv_def same_alloc_def)
  have links: "\<forall>i < inode_count (Info w). ck_links c ! i = 0" using P by blast
  show ?thesis
    by (intro conjI allI owners [unfolded mem conj_assoc] device same inodes counts [unfolded blocks inodes] links)
qed

theorem fsck_sound_witness:
  "\<exists>c0 c w'. Checker_Create memory_libs (Info sample_world) = Ok c0
    \<and> run_fsck memory_libs (\<lambda>_. Ok ()) (\<lambda>_. Ok ()) 2 (c0, sample_world) = Some (Ok (), c, w')
    \<and> (\<exists>!p. 0 < bi_owner p \<and> bi_owner p < inode_count sample_info
         \<and> CheckAllocated list_bitmap (bi_owner p) (w_inodes sample_world)
         \<and> points memory_libs (snd (w_fd sample_world)) p 1)
    \<and> snd (w_fd w') = snd (w_fd sample_world)"
proof -
  obtain c0 c w' where r: "Checker_Create memory_libs (Info sample_world) = Ok c0"
    "run_fsck memory_libs (\<lambda>_. Ok ()) (\<lambda>_. Ok ()) 2 (c0, sample_world) = Some (Ok (), c, w')"
    using sample_run by blast
  have i: "Info sample_world = sample_info" by (simp add: is_sample_info)
  have l: "li_bitmap memory_libs = list_bitmap" "li_posix memory_libs = memory_file" by simp_all
  note s = fsck_sound [OF _ _ _ _ _ r, of snd, unfolded l i, OF list_bitmap_laws memory_file_laws]
  have n: "counts_fit sample_info" "0 < block_count sample_info" "0 < inode_count sample_info"
    "1 < block_count sample_info" by (simp_all add: counts_fit_def)
  have "CheckAllocated list_bitmap 1 (w_blocks sample_world)"
    by (simp add: CheckAllocated_def is_sample_maps list_bitmap_def)
  moreover have d: "snd (w_fd w') = snd (w_fd sample_world)"
    and o: "\<And>b. if 0 < b \<and> b < block_count sample_info \<and> CheckAllocated list_bitmap b (w_blocks sample_world)
         then \<exists>!p. 0 < bi_owner p \<and> bi_owner p < inode_count sample_info
                \<and> CheckAllocated list_bitmap (bi_owner p) (w_inodes sample_world)
                \<and> points memory_libs (snd (w_fd sample_world)) p b
         else \<nexists>p. 0 < bi_owner p \<and> bi_owner p < inode_count sample_info
                \<and> CheckAllocated list_bitmap (bi_owner p) (w_inodes sample_world)
                \<and> points memory_libs (snd (w_fd sample_world)) p b"
    using s [OF n(1-3)] by blast+
  ultimately have "\<exists>!p. 0 < bi_owner p \<and> bi_owner p < inode_count sample_info
         \<and> CheckAllocated list_bitmap (bi_owner p) (w_inodes sample_world)
         \<and> points memory_libs (snd (w_fd sample_world)) p 1"
    using o [of 1] n(4) by (simp only: zero_less_one if_True simp_thms)
  with r d show ?thesis by blast
qed

end
