(* ===== verification/Unlinked_Laws.thy ===== *)
theory Unlinked_Laws
  imports Unlinked Inode_Table
begin

text \<open>
  The list of unlinked inodes (\<open>minfs.cc\<close>: \<open>AddUnlinked\<close>, \<open>RemoveUnlinked\<close>) as a list: its ends
  are in the superblock, its links in the inodes, in memory and in the inode table on the device.
  Adding appends, removing removes, and the links on the device follow those in memory.
\<close>

section \<open>Doubly linked segments\<close>

text \<open>\<open>m\<close> maps an inode to the previous and the next one; \<open>p\<close> comes before the segment, \<open>s\<close> after.\<close>

fun chain :: "(nat \<Rightarrow> (nat \<times> nat) option) \<Rightarrow> nat \<Rightarrow> nat list \<Rightarrow> nat \<Rightarrow> bool" where
  "chain m p [] s = True"
| "chain m p (x # xs) s = (m x = Some (p, hd (xs @ [s])) \<and> chain m x xs s)"

lemma chain_append [simp]:
  "chain m p (xs @ ys) s \<longleftrightarrow> chain m p xs (hd (ys @ [s])) \<and> chain m (last (p # xs)) ys s"
proof (induction xs arbitrary: p)
  case (Cons x xs)
  show ?case by (simp add: Cons.IH)
qed simp

lemma chain_upd [simp]: "x \<notin> set xs \<Longrightarrow> chain (m(x := l)) p xs s = chain m p xs s"
  by (induction xs arbitrary: p) auto

lemma chain_cong: "(\<And>x. x \<in> set xs \<Longrightarrow> m x = m' x) \<Longrightarrow> chain m p xs s = chain m' p xs s"
  by (induction xs arbitrary: p) auto

lemma chain_member: "chain m p (ys @ x # zs) s \<Longrightarrow> m x = Some (last (p # ys), hd (zs @ [s]))"
  by simp

text \<open>A new element at the end, and one taken out of the middle.\<close>

definition set_next :: "nat \<Rightarrow> nat \<Rightarrow> (nat \<Rightarrow> (nat \<times> nat) option) \<Rightarrow> nat \<Rightarrow> (nat \<times> nat) option" where
  "set_next x n m = m(x := map_option (\<lambda>(l, _). (l, n)) (m x))"

definition set_prev :: "nat \<Rightarrow> nat \<Rightarrow> (nat \<Rightarrow> (nat \<times> nat) option) \<Rightarrow> nat \<Rightarrow> (nat \<times> nat) option" where
  "set_prev x p m = m(x := map_option (\<lambda>(_, n). (p, n)) (m x))"

lemma chain_snoc:
  assumes "chain m 0 (ys @ [y]) 0" "x \<notin> set (ys @ [y])" "y \<notin> set ys"
  shows "chain ((set_next y x m)(x \<mapsto> (y, 0))) 0 ((ys @ [y]) @ [x]) 0"
  using assms by (auto simp: set_next_def)

lemma chain_remove:
  assumes "chain m 0 (ys @ x # zs) 0" "distinct (ys @ x # zs)" "0 \<notin> set (ys @ zs)"
  shows "chain ((if zs = [] then id else set_prev (hd zs) (last (0 # ys)))
    ((if ys = [] then id else set_next (last ys) (hd (zs @ [0]))) m)) 0 (ys @ zs) 0"
proof -
  let ?n = "hd (zs @ [0])" and ?l = "last (0 # ys)"
  let ?m = "(if ys = [] then id else set_next (last ys) ?n) m"
  let ?m' = "(if zs = [] then id else set_prev (hd zs) ?l) ?m"
  have "chain ?m' 0 ys ?n"
  proof (cases ys rule: rev_cases)
    case (snoc us u)
    have u: "m u = Some (last (0 # us), x)" "chain m 0 us u" using assms(1) snoc by auto
    have "u \<notin> set us" "hd zs \<notin> set us" "hd zs \<noteq> u" if "zs \<noteq> []"
      using assms(2) snoc that hd_in_set [OF that] by auto
    moreover have "u \<notin> set us" using assms(2) snoc by simp
    ultimately show ?thesis using u snoc
      by (auto simp: set_next_def set_prev_def)
  qed simp
  moreover have "chain ?m' ?l zs 0"
  proof (cases zs)
    case (Cons z us)
    have z: "m z = Some (x, hd (us @ [0]))" "chain m z us 0" using assms(1) Cons by auto
    have "z \<notin> set us" using assms(2) Cons by simp
    moreover have "last ys \<notin> set us" "last ys \<noteq> z" if "ys \<noteq> []"
      using assms(2) Cons last_in_set [OF that] by auto
    ultimately show ?thesis using z Cons
      by (auto simp: set_next_def set_prev_def)
  qed simp
  ultimately show ?thesis by simp
qed

section \<open>The list in memory and on the device\<close>

definition mem_links :: "('b, 'r, 'f) world \<Rightarrow> nat \<Rightarrow> (nat \<times> nat) option" where
  "mem_links w ino =
    (case w_hash w ino of
       None \<Rightarrow> None
     | Some v \<Rightarrow>
         (case w_vnodes w v of
            None \<Rightarrow> None
          | Some vn \<Rightarrow> if vn_ino vn = ino
              then Some (i_last_inode (vn_inode vn), i_next_inode (vn_inode vn)) else None))"

definition disk_links :: "('b, 'r, 'f) libs \<Rightarrow> bytes \<Rightarrow> nat \<Rightarrow> (nat \<times> nat) option" where
  "disk_links L c ino = Some (i_last_inode (stored_inode L c ino), i_next_inode (stored_inode L c ino))"

text \<open>A vnode that the table knows, with an inode that the device can hold.\<close>

definition in_table :: "('b, 'r, 'f) libs \<Rightarrow> ('b, 'r, 'f) world \<Rightarrow> nat \<Rightarrow> nat \<Rightarrow> 'r vnode \<Rightarrow> bool" where
  "in_table L w ino v vn \<longleftrightarrow> w_hash w ino = Some v \<and> w_vnodes w v = Some vn \<and> vn_ino vn = ino
     \<and> inode_fits (vn_inode vn) \<and> inode_block_ok L ino \<and> ino < 4294967296"

definition unlinked_list ::
  "('b, 'r, 'f) libs \<Rightarrow> ('f \<Rightarrow> bytes) \<Rightarrow> ('b, 'r, 'f) world \<Rightarrow> nat list \<Rightarrow> bool" where
  "unlinked_list L content w xs \<longleftrightarrow> distinct xs \<and> 0 \<notin> set xs
     \<and> unlinked_head (Info w) = hd (xs @ [0]) \<and> unlinked_tail (Info w) = last (0 # xs)
     \<and> chain (mem_links w) 0 xs 0
     \<and> (\<forall>x \<in> set xs. (\<exists>v vn. in_table L w x v vn)
          \<and> disk_links L (content (w_fd w)) x = mem_links w x)"

text \<open>What every step below keeps.\<close>

definition same_table :: "('b, 'r, 'f) libs \<Rightarrow> ('b, 'r, 'f) world \<Rightarrow> ('b, 'r, 'f) world \<Rightarrow> bool" where
  "same_table L w w' \<longleftrightarrow>
     (\<forall>x v vn. in_table L w x v vn \<longrightarrow> (\<exists>vn'. in_table L w' x v vn'))"

lemma same_table_refl [simp]: "same_table L w w"
  by (auto simp: same_table_def)

lemma same_tableE:
  "same_table L w w' \<Longrightarrow> in_table L w x v vn \<Longrightarrow> (\<And>vn'. in_table L w' x v vn' \<Longrightarrow> thesis) \<Longrightarrow> thesis"
  by (auto simp: same_table_def)

lemma same_table_trans: "same_table L w w' \<Longrightarrow> same_table L w' w'' \<Longrightarrow> same_table L w w''"
  unfolding same_table_def by blast

lemma in_table_links:
  "in_table L w x v vn \<Longrightarrow> mem_links w x = Some (i_last_inode (vn_inode vn), i_next_inode (vn_inode vn))"
  by (simp add: in_table_def mem_links_def)

lemma inode_fits_links:
  "inode_fits i \<Longrightarrow> n < 4294967296 \<Longrightarrow> inode_fits (i\<lparr>i_next_inode := n\<rparr>)"
  "inode_fits i \<Longrightarrow> n < 4294967296 \<Longrightarrow> inode_fits (i\<lparr>i_last_inode := n\<rparr>)"
  by (auto simp: inode_fits_def inode_wf_def inode_words_def words_ok_def)

lemma set_links_law:
  assumes "in_table L w x v vn" "n < 4294967296"
  shows "\<exists>w'. SetNextInode v n w = Some (Ok (), w') \<and> mem_links w' = set_next x n (mem_links w)
      \<and> w_fd w' = w_fd w \<and> Info w' = Info w \<and> same_table L w w'"
    "\<exists>w'. SetLastInode v n w = Some (Ok (), w') \<and> mem_links w' = set_prev x n (mem_links w)
      \<and> w_fd w' = w_fd w \<and> Info w' = Info w \<and> same_table L w w'"
  using assms inode_fits_links
  by (auto simp: SetNextInode_def SetLastInode_def on_inode_def get_vnode_def abind_def modify_def
      in_table_def put_vnode_def mem_links_def set_next_def set_prev_def Info_def same_table_def
      fun_eq_iff split: option.splits)

lemma links_fd [simp]:
  "mem_links (w\<lparr>w_fd := f\<rparr>) = mem_links w" "in_table L (w\<lparr>w_fd := f\<rparr>) = in_table L w"
  "mem_links (w\<lparr>w_sm := m\<rparr>) = mem_links w" "in_table L (w\<lparr>w_sm := m\<rparr>) = in_table L w"
  by (auto simp: mem_links_def in_table_def fun_eq_iff split: option.splits)

lemma InodeSync_default_law:
  assumes "posix_laws (li_posix L) content" "in_table L w x v vn"
  shows "\<exists>w'. InodeSync L v kMxFsSyncDefault w = Some (Ok (), w') \<and> mem_links w' = mem_links w
    \<and> disk_links L (content (w_fd w')) = (disk_links L (content (w_fd w)))(x := mem_links w x)
    \<and> Info w' = Info w \<and> same_table L w w'"
proof -
  have x: "inode_block_ok L x" "inode_fits (vn_inode vn)" "w_vnodes w v = Some vn" "vn_ino vn = x"
    using assms(2) by (auto simp: in_table_def)
  obtain f where f: "InodeManager_Update L x (vn_inode vn) w = Some (Ok (), w\<lparr>w_fd := f\<rparr>)"
      "content f = store_inode (inode_offset L x) (vn_inode vn) (content (w_fd w))"
    using InodeManager_Update_law [OF assms(1) x(1,2), of w] by blast
  have "disk_links L (content f) = (disk_links L (content (w_fd w)))(x := mem_links w x)"
    using inode_offset_apart [of _ x L] x(2) in_table_links [OF assms(2)]
    by (auto simp: f(2) disk_links_def stored_inode_def load_store_inode_other fun_eq_iff)
  then show ?thesis using f(1) x
    by (simp add: InodeSync_def abind_def ret_def get_vnode_def InodeUpdate_def Info_def
        same_table_def)
qed

lemma set_ends_law:
  "\<exists>w'. set_unlinked_head n w = Some (Ok (), w') \<and> mem_links w' = mem_links w \<and> w_fd w' = w_fd w
    \<and> unlinked_head (Info w') = n \<and> unlinked_tail (Info w') = unlinked_tail (Info w) \<and> same_table L w w'"
  "\<exists>w'. set_unlinked_tail n w = Some (Ok (), w') \<and> mem_links w' = mem_links w \<and> w_fd w' = w_fd w
    \<and> unlinked_tail (Info w') = n \<and> unlinked_head (Info w') = unlinked_head (Info w) \<and> same_table L w w'"
  by (simp_all add: set_unlinked_head_def set_unlinked_tail_def modify_def MutableInfo_def Info_def
      same_table_def)

lemma lookup_ref_law:
  "in_table L w x v vn \<Longrightarrow> lookup_ref x w = Some (Ok v, w)"
  by (simp add: lookup_ref_def abind_def gets_def VnodeLookupInternal_def in_table_def ret_def)

section \<open>Adding\<close>

lemma unlinked_listI:
  assumes "distinct xs" "0 \<notin> set xs" "unlinked_head (Info w) = hd (xs @ [0])"
    "unlinked_tail (Info w) = last (0 # xs)" "chain (mem_links w) 0 xs 0"
    "\<And>x. x \<in> set xs \<Longrightarrow> \<exists>v vn. in_table L w x v vn"
    "\<And>x. x \<in> set xs \<Longrightarrow> disk_links L (content (w_fd w)) x = mem_links w x"
  shows "unlinked_list L content w xs"
  using assms by (simp add: unlinked_list_def)

lemma unlinked_listD:
  assumes "unlinked_list L content w xs"
  shows "distinct xs" "0 \<notin> set xs" "unlinked_head (Info w) = hd (xs @ [0])"
    "unlinked_tail (Info w) = last (0 # xs)" "chain (mem_links w) 0 xs 0"
    "x \<in> set xs \<Longrightarrow> disk_links L (content (w_fd w)) x = mem_links w x"
    "x \<in> set xs \<Longrightarrow> \<exists>v vn. in_table L w x v vn"
  using assms by (auto simp: unlinked_list_def)

lemma touch_law:
  "\<exists>w'. modify (\<lambda>w. w\<lparr>w_sm := MutableInfo (\<lambda>s. s) (w_sm w)\<rparr>) w = Some (Ok (), w') \<and>
    mem_links w' = mem_links w \<and> w_fd w' = w_fd w \<and> Info w' = Info w \<and> in_table L w' = in_table L w"
  by (simp add: modify_def MutableInfo_def Info_def)

lemma get_in_table: "in_table L w x v vn \<Longrightarrow> get_vnode v w = Some (Ok vn, w)"
  by (simp add: get_vnode_def in_table_def)

lemma AddUnlinked_law:
  assumes laws: "posix_laws (li_posix L) content" and list: "unlinked_list L content w xs"
    and v: "in_table L w x v vn" "x \<notin> set xs" "x \<noteq> 0"
    and links: "mem_links w x = Some (0, 0)" "disk_links L (content (w_fd w)) x = Some (0, 0)"
  shows "\<exists>w'. AddUnlinked L v w = Some (Ok (), w') \<and> unlinked_list L content w' (xs @ [x])"
proof -
  note D = unlinked_listD [OF list]
  have xl: "x < 4294967296" "vn_ino vn = x" using v(1) by (auto simp: in_table_def)
  obtain w1 where w1: "modify (\<lambda>w. w\<lparr>w_sm := MutableInfo (\<lambda>s. s) (w_sm w)\<rparr>) w = Some (Ok (), w1)"
    "mem_links w1 = mem_links w" "w_fd w1 = w_fd w" "Info w1 = Info w" "in_table L w1 = in_table L w"
    using touch_law [of w L] by blast
  have v1: "get_vnode v w1 = Some (Ok vn, w1)" using v(1) w1(5) get_in_table [of L w1] by simp
  show ?thesis
  proof (cases xs rule: rev_cases)
    case Nil
    obtain w2 where w2: "set_unlinked_head x w1 = Some (Ok (), w2)" "mem_links w2 = mem_links w1"
      "w_fd w2 = w_fd w1" "unlinked_head (Info w2) = x" "same_table L w1 w2"
      using set_ends_law(1) [of x w1 L] by blast
    obtain w3 where w3: "set_unlinked_tail x w2 = Some (Ok (), w3)" "mem_links w3 = mem_links w2"
      "w_fd w3 = w_fd w2" "unlinked_tail (Info w3) = x" "unlinked_head (Info w3) = unlinked_head (Info w2)"
      "same_table L w2 w3"
      using set_ends_law(2) [of x w2 L] by blast
    have "AddUnlinked L v w = Some (Ok (), w3)"
      using Nil D(4) xl(2) w1(4)
      by (simp add: AddUnlinked_def abind_def gets_def w1(1) v1 w2(1) w3(1)
          del: modify_bind)
    moreover have "\<exists>vn'. in_table L w3 x v vn'"
      using same_tableE [OF same_table_trans [OF w2(5) w3(6)]] v(1) w1(5) by metis
    then have "unlinked_list L content w3 (xs @ [x])"
      using Nil v(3) links w1 w2 w3 by (intro unlinked_listI) auto
    ultimately show ?thesis by blast
  next
    case (snoc ys y)
    then have y: "y \<in> set xs" "y \<noteq> 0" "y \<noteq> x" "y \<notin> set ys" "unlinked_tail (Info w) = y"
      using D(1,2,4) v(2) by auto
    obtain u un where u: "in_table L w y u un" using D(7) [OF y(1)] by blast
    then have yl: "y < 4294967296" "vn_ino un = y" by (auto simp: in_table_def)
    have u1: "in_table L w1 y u un" "in_table L w1 x v vn" using u v(1) w1(5) by simp_all
    obtain w2 where w2: "SetNextInode u x w1 = Some (Ok (), w2)" "mem_links w2 = set_next y x (mem_links w1)"
      "w_fd w2 = w_fd w1" "Info w2 = Info w1" "same_table L w1 w2"
      using set_links_law(1) [OF u1(1) xl(1)] by blast
    obtain un2 vn2 where u2: "in_table L w2 y u un2" "in_table L w2 x v vn2"
      using same_tableE [OF w2(5)] u1 by metis
    obtain w3 where w3: "SetLastInode v y w2 = Some (Ok (), w3)" "mem_links w3 = set_prev x y (mem_links w2)"
      "w_fd w3 = w_fd w2" "Info w3 = Info w2" "same_table L w2 w3"
      using set_links_law(2) [OF u2(2) yl(1)] by blast
    obtain w4 where w4: "set_unlinked_tail x w3 = Some (Ok (), w4)" "mem_links w4 = mem_links w3"
      "w_fd w4 = w_fd w3" "unlinked_tail (Info w4) = x" "unlinked_head (Info w4) = unlinked_head (Info w3)"
      "same_table L w3 w4"
      using set_ends_law(2) [of x w3 L] by blast
    have s14: "same_table L w1 w4" using w2(5) w3(5) w4(6) same_table_trans by blast
    obtain un4 where u4: "in_table L w4 y u un4" using same_tableE [OF s14 u1(1)] by blast
    obtain w5 where w5: "InodeSync L u kMxFsSyncDefault w4 = Some (Ok (), w5)" "mem_links w5 = mem_links w4"
      "disk_links L (content (w_fd w5)) = (disk_links L (content (w_fd w4)))(y := mem_links w4 y)"
      "Info w5 = Info w4" "same_table L w4 w5"
      using InodeSync_default_law [OF laws u4] by blast
    obtain vn5 where v5: "in_table L w5 x v vn5"
      using same_tableE [OF same_table_trans [OF s14 w5(5)] u1(2)] by blast
    obtain w6 where w6: "InodeSync L v kMxFsSyncDefault w5 = Some (Ok (), w6)" "mem_links w6 = mem_links w5"
      "disk_links L (content (w_fd w6)) = (disk_links L (content (w_fd w5)))(x := mem_links w5 x)"
      "Info w6 = Info w5" "same_table L w5 w6"
      using InodeSync_default_law [OF laws v5] by blast
    have s: "same_table L w1 w6" using s14 w5(5) w6(5) same_table_trans by blast
    have run: "AddUnlinked L v w = Some (Ok (), w6)"
      using y(2,5) xl(2) yl(2) w1(4) u2(1)
      by (simp add: AddUnlinked_def abind_def gets_def w1(1) v1
          lookup_ref_law [OF u1(1)] w2(1)
          get_in_table [OF u2(1)] w3(1) w4(1)
          w5(1) w6(1) in_table_def del: modify_bind)
    have ml: "mem_links w6 = (set_next y x (mem_links w))(x \<mapsto> (y, 0))"
      using links(1) y(3) w1(2) w2(2) w3(2) w4(2) w5(2) w6(2) by (auto simp: set_prev_def set_next_def)
    have "chain (mem_links w6) 0 (xs @ [x]) 0"
      unfolding ml snoc by (rule chain_snoc) (use D(5) v(2) y(4) snoc in auto)
    moreover have "disk_links L (content (w_fd w6)) z = mem_links w6 z" if "z \<in> set (xs @ [x])" for z
      using that D(6) [of z] w1(2,3) w2(2,3) w3(2,3) w4(2,3) w5(2,3) w6(2,3)
      by (auto simp: set_prev_def set_next_def)
    moreover have "\<exists>v vn. in_table L w6 z v vn" if "z \<in> set (xs @ [x])" for z
      using that D(7) [of z] v(1) s same_tableE w1(5) by (metis Un_iff empty_iff insert_iff list.set set_append)
    ultimately have "unlinked_list L content w6 (xs @ [x])"
      using D(1,2,3) v(2,3) w1(4) w2(4) w3(4) w4(4,5) w5(4) w6(4) snoc
      by (intro unlinked_listI) (auto simp: hd_append)
    with run show ?thesis by blast
  qed
qed

section \<open>Removing\<close>

text \<open>One of the two neighbours gets a new link, in memory and then on the device, unless the end
  of the list in the superblock moves instead.\<close>

definition synced :: "('b, 'r, 'f) libs \<Rightarrow> ('f \<Rightarrow> bytes) \<Rightarrow> ('b, 'r, 'f) world \<Rightarrow> nat \<Rightarrow> bool" where
  "synced L content w z \<longleftrightarrow> disk_links L (content (w_fd w)) z = mem_links w z"

lemma relink_next:
  assumes "posix_laws (li_posix L) content" "n < 4294967296"
    "u \<noteq> 0 \<Longrightarrow> \<exists>a an. in_table L w u a an"
  shows "\<exists>w'. (if u = 0 then set_unlinked_head n
        else abind (lookup_ref u) (\<lambda>a. abind (SetNextInode a n) (\<lambda>_. InodeSync L a kMxFsSyncDefault))) w
      = Some (Ok (), w')
    \<and> mem_links w' = (if u = 0 then id else set_next u n) (mem_links w)
    \<and> unlinked_head (Info w') = (if u = 0 then n else unlinked_head (Info w))
    \<and> unlinked_tail (Info w') = unlinked_tail (Info w) \<and> same_table L w w'
    \<and> (\<forall>z. synced L content w z \<longrightarrow> synced L content w' z)"
proof (cases "u = 0")
  case True
  then show ?thesis using set_ends_law(1) [of n w L] by (auto simp: synced_def)
next
  case False
  then obtain a an where a: "in_table L w u a an" using assms(3) by blast
  obtain w1 where w1: "SetNextInode a n w = Some (Ok (), w1)" "mem_links w1 = set_next u n (mem_links w)"
    "w_fd w1 = w_fd w" "Info w1 = Info w" "same_table L w w1"
    using set_links_law(1) [OF a assms(2)] by blast
  obtain an1 where a1: "in_table L w1 u a an1" using same_tableE [OF w1(5) a] by blast
  obtain w2 where w2: "InodeSync L a kMxFsSyncDefault w1 = Some (Ok (), w2)" "mem_links w2 = mem_links w1"
    "disk_links L (content (w_fd w2)) = (disk_links L (content (w_fd w1)))(u := mem_links w1 u)"
    "Info w2 = Info w1" "same_table L w1 w2"
    using InodeSync_default_law [OF assms(1) a1] by blast
  have "synced L content w z \<Longrightarrow> synced L content w2 z" for z
    using w1(2,3) w2(2,3) by (auto simp: synced_def set_next_def)
  then show ?thesis
    using False w1(2,4) w2(2,4) same_table_trans [OF w1(5) w2(5)]
    by (simp add: abind_def lookup_ref_law [OF a] w1(1) w2(1))
qed

lemma relink_prev:
  assumes "posix_laws (li_posix L) content" "n < 4294967296"
    "u \<noteq> 0 \<Longrightarrow> \<exists>a an. in_table L w u a an"
  shows "\<exists>w'. (if u = 0 then set_unlinked_tail n
        else abind (lookup_ref u) (\<lambda>a. abind (SetLastInode a n) (\<lambda>_. InodeSync L a kMxFsSyncDefault))) w
      = Some (Ok (), w')
    \<and> mem_links w' = (if u = 0 then id else set_prev u n) (mem_links w)
    \<and> unlinked_tail (Info w') = (if u = 0 then n else unlinked_tail (Info w))
    \<and> unlinked_head (Info w') = unlinked_head (Info w) \<and> same_table L w w'
    \<and> (\<forall>z. synced L content w z \<longrightarrow> synced L content w' z)"
proof (cases "u = 0")
  case True
  then show ?thesis using set_ends_law(2) [of n w L] by (auto simp: synced_def)
next
  case False
  then obtain a an where a: "in_table L w u a an" using assms(3) by blast
  obtain w1 where w1: "SetLastInode a n w = Some (Ok (), w1)" "mem_links w1 = set_prev u n (mem_links w)"
    "w_fd w1 = w_fd w" "Info w1 = Info w" "same_table L w w1"
    using set_links_law(2) [OF a assms(2)] by blast
  obtain an1 where a1: "in_table L w1 u a an1" using same_tableE [OF w1(5) a] by blast
  obtain w2 where w2: "InodeSync L a kMxFsSyncDefault w1 = Some (Ok (), w2)" "mem_links w2 = mem_links w1"
    "disk_links L (content (w_fd w2)) = (disk_links L (content (w_fd w1)))(u := mem_links w1 u)"
    "Info w2 = Info w1" "same_table L w1 w2"
    using InodeSync_default_law [OF assms(1) a1] by blast
  have "synced L content w z \<Longrightarrow> synced L content w2 z" for z
    using w1(2,3) w2(2,3) by (auto simp: synced_def set_prev_def)
  then show ?thesis
    using False w1(2,4) w2(2,4) same_table_trans [OF w1(5) w2(5)]
    by (simp add: abind_def lookup_ref_law [OF a] w1(1) w2(1))
qed

lemma RemoveUnlinked_law:
  assumes laws: "posix_laws (li_posix L) content" and list: "unlinked_list L content w xs"
    and v: "w_hash w x = Some v" "x \<in> set xs"
  shows "\<exists>w'. RemoveUnlinked L v w = Some (Ok (), w') \<and> unlinked_list L content w' (remove1 x xs)"
proof -
  note D = unlinked_listD [OF list]
  obtain ys zs where xs: "xs = ys @ x # zs" using v(2) by (auto simp: in_set_conv_decomp)
  let ?l = "last (0 # ys)" and ?n = "hd (zs @ [0])"
  obtain vn where vn: "in_table L w x v vn" using D(7) [OF v(2)] v(1) by (auto simp: in_table_def)
  have links: "mem_links w x = Some (?l, ?n)" using chain_member D(5) xs by blast
  then have i: "i_last_inode (vn_inode vn) = ?l" "i_next_inode (vn_inode vn) = ?n"
    using in_table_links [OF vn] by auto
  have nb: "?l \<noteq> 0 \<Longrightarrow> ?l \<in> set xs" "?n \<noteq> 0 \<Longrightarrow> ?n \<in> set xs"
    using xs last_in_set [of ys] hd_in_set [of zs] by (auto split: if_splits simp: hd_append)
  have tab: "\<exists>a an. in_table L w z a an" if "z \<in> set xs" for z using D(7) that by blast
  have small: "?l < 4294967296" "?n < 4294967296"
    using nb tab by (cases "?l = 0"; cases "?n = 0"; force simp: in_table_def)+
  have empty: "?l = 0 \<longleftrightarrow> ys = []" "?n = 0 \<longleftrightarrow> zs = []"
    using D(2) xs by (auto simp: hd_append) (metis gr0I last_in_set, metis gr0I hd_in_set)
  obtain w1 where w1: "(if ?l = 0 then set_unlinked_head ?n
        else abind (lookup_ref ?l) (\<lambda>a. abind (SetNextInode a ?n) (\<lambda>_. InodeSync L a kMxFsSyncDefault))) w
      = Some (Ok (), w1)"
    "mem_links w1 = (if ?l = 0 then id else set_next ?l ?n) (mem_links w)"
    "unlinked_head (Info w1) = (if ?l = 0 then ?n else unlinked_head (Info w))"
    "unlinked_tail (Info w1) = unlinked_tail (Info w)" "same_table L w w1"
    "\<forall>z. synced L content w z \<longrightarrow> synced L content w1 z"
    using relink_next [OF laws small(2) tab [OF nb(1)]] by blast
  obtain vn1 where vn1: "in_table L w1 x v vn1" using same_tableE [OF w1(5) vn] by blast
  have "mem_links w1 x = Some (?l, ?n)"
    using links D(1) xs last_in_set [of ys] empty by (auto simp: w1(2) set_next_def split: if_splits)
  then have i1: "i_last_inode (vn_inode vn1) = ?l" "i_next_inode (vn_inode vn1) = ?n"
    using in_table_links [OF vn1] by auto
  have tab1: "\<exists>a an. in_table L w1 z a an" if "z \<in> set xs" for z
    using tab [OF that] same_tableE [OF w1(5)] by metis
  obtain w2 where w2: "(if ?n = 0 then set_unlinked_tail ?l
        else abind (lookup_ref ?n) (\<lambda>a. abind (SetLastInode a ?l) (\<lambda>_. InodeSync L a kMxFsSyncDefault))) w1
      = Some (Ok (), w2)"
    "mem_links w2 = (if ?n = 0 then id else set_prev ?n ?l) (mem_links w1)"
    "unlinked_tail (Info w2) = (if ?n = 0 then ?l else unlinked_tail (Info w1))"
    "unlinked_head (Info w2) = unlinked_head (Info w1)" "same_table L w1 w2"
    "\<forall>z. synced L content w1 z \<longrightarrow> synced L content w2 z"
    using relink_prev [OF laws small(1) tab1 [OF nb(2)]] by blast
  have run: "RemoveUnlinked L v w = Some (Ok (), w2)"
    using w1(1) w2(1) unfolding RemoveUnlinked_def
    by (simp add: abind_def get_inode_def get_in_table [OF vn] get_in_table [OF vn1] ret_def i i1
        split: if_splits)
  have rem: "remove1 x xs = ys @ zs" using D(1) xs by (simp add: remove1_append)
  have "chain (mem_links w2) 0 (ys @ zs) 0"
    using chain_remove [of "mem_links w" ys x zs] D(1,2,5) empty unfolding xs w2(2) w1(2)
    by (auto split: if_splits)
  moreover have "synced L content w z" if "z \<in> set xs" for z
    using D(6) [OF that] by (simp add: synced_def)
  then have "synced L content w2 z" if "z \<in> set (ys @ zs)" for z
    using that w1(6) w2(6) xs by auto
  moreover have "\<exists>a an. in_table L w2 z a an" if "z \<in> set (ys @ zs)" for z
    using tab1 [of z] same_tableE [OF w2(5)] that xs by (metis Un_iff list.set_intros(2) set_append)
  ultimately have "unlinked_list L content w2 (ys @ zs)"
    using D(1-4) xs w1(3,4) w2(3,4) empty
    by (intro unlinked_listI) (auto simp: synced_def hd_append last_append split: if_splits)
  with run rem show ?thesis by auto
qed

section \<open>The list as a list\<close>

text \<open>C31: Adding an unlinked inode appends it to the list, in memory and on the device: the ends in
  the superblock and the links of the inodes, which are written to the inode table, represent the
  longer list.\<close>

theorem AddUnlinked_appends:
  assumes "posix_laws (li_posix L) content" "unlinked_list L content w xs"
    "in_table L w x v vn" "x \<notin> set xs" "x \<noteq> 0"
    "mem_links w x = Some (0, 0)" "disk_links L (content (w_fd w)) x = Some (0, 0)"
  shows "\<exists>w'. AddUnlinked L v w = Some (Ok (), w') \<and> unlinked_list L content w' (xs @ [x])"
  by (rule AddUnlinked_law [OF assms])

text \<open>C32: Removing an inode from the middle or an end of the list takes it out, in memory and on
  the device, and keeps the others in their order.\<close>

theorem RemoveUnlinked_removes:
  assumes "posix_laws (li_posix L) content" "unlinked_list L content w xs" "w_hash w x = Some v" "x \<in> set xs"
  shows "\<exists>w'. RemoveUnlinked L v w = Some (Ok (), w') \<and> unlinked_list L content w' (remove1 x xs)"
  by (rule RemoveUnlinked_law [OF assms])

text \<open>Two unlinked inodes, 2 and 3, at the addresses 0 and 1.\<close>

definition link_vnode :: "nat \<Rightarrow> nat \<Rightarrow> nat \<Rightarrow> index_set vnode" where
  "link_vnode ino l n =
    \<lparr>vn_ino = ino, vn_inode = zero_inode\<lparr>i_last_inode := l, i_next_inode := n\<rparr>, vn_indirect = None,
     vn_directory = False, vn_open_count = 1\<rparr>"

definition link_world ::
  "nat \<Rightarrow> nat \<Rightarrow> index_set vnode \<Rightarrow> index_set vnode \<Rightarrow> bytes \<Rightarrow> (bool list, index_set, nat \<times> bytes) world" where
  "link_world h t a b c =
    (memory_world [0 \<mapsto> a, 1 \<mapsto> b] c)\<lparr>w_hash := [2 \<mapsto> 0, 3 \<mapsto> 1],
       w_sm := \<lparr>sm_info = memory_info\<lparr>unlinked_head := h, unlinked_tail := t\<rparr>, sm_dirty = False\<rparr>\<rparr>"

lemma nth_load_words: "k < n \<Longrightarrow> load_words b off n ! k = get_u32 b (off + 4 * k)"
  by (induction n arbitrary: off k) (auto simp: nth_Cons' algebra_simps)

lemma disk_links_words:
  "disk_links L c ino = Some (get_u32 c (inode_offset L ino + 44), get_u32 c (inode_offset L ino + 48))"
  by (simp add: disk_links_def stored_inode_def load_inode_def words_inode_def nth_load_words)

lemma link_vnode_fits: "l < 4294967296 \<Longrightarrow> n < 4294967296 \<Longrightarrow> inode_fits (vn_inode (link_vnode ino l n))"
  by (simp add: link_vnode_def inode_fits_def inode_wf_def zero_inode_def inode_words_def words_ok_def
      lo32_def hi32_def format_consts u32_def)

lemma link_world_facts:
  "in_table memory_libs (link_world h t (link_vnode 2 l n) (link_vnode 3 l' n') c) 2 0 (link_vnode 2 l n)"
  "in_table memory_libs (link_world h t (link_vnode 2 l n) (link_vnode 3 l' n') c) 3 1 (link_vnode 3 l' n')"
  if "l < 4294967296" "n < 4294967296" "l' < 4294967296" "n' < 4294967296"
  using link_vnode_fits [OF that(1,2), of 2] link_vnode_fits [OF that(3,4), of 3]
  by (simp_all add: in_table_def link_world_def memory_world_def inode_block_ok_def format_consts)
    (simp_all add: link_vnode_def)

lemma link_world_links [simp]:
  "mem_links (link_world h t (link_vnode 2 l n) (link_vnode 3 l' n') c) 2 = Some (l, n)"
  "mem_links (link_world h t (link_vnode 2 l n) (link_vnode 3 l' n') c) 3 = Some (l', n')"
  "w_fd (link_world h t a b c) = (0, c)" "w_hash (link_world h t a b c) = [2 \<mapsto> 0, 3 \<mapsto> 1]"
  "unlinked_head (Info (link_world h t a b c)) = h" "unlinked_tail (Info (link_world h t a b c)) = t"
  by (simp_all add: mem_links_def link_world_def link_vnode_def memory_world_def Info_def)

theorem AddUnlinked_appends_witness:
  "\<exists>w'. AddUnlinked memory_libs 0
        (link_world 3 3 (link_vnode 2 0 0) (link_vnode 3 0 0) zero_bytes) = Some (Ok (), w')
    \<and> unlinked_list memory_libs snd w' [3, 2]"
proof -
  let ?w = "link_world 3 3 (link_vnode 2 0 0) (link_vnode 3 0 0) zero_bytes"
  have d: "disk_links memory_libs zero_bytes ino = Some (0, 0)" for ino
    by (simp add: disk_links_words get_u32_def zero_bytes_def)
  have "unlinked_list memory_libs snd ?w [3]"
    using link_world_facts(2) [of 0 0 0 0 3 3 zero_bytes] by (auto simp: unlinked_list_def d)
  from AddUnlinked_appends [OF memory_file_laws [folded memory_libs_posix] this, of 2 0 "link_vnode 2 0 0"]
  show ?thesis using link_world_facts(1) [of 0 0 0 0 3 3 zero_bytes] by (simp add: d)
qed

theorem RemoveUnlinked_removes_witness:
  "\<exists>w'. RemoveUnlinked memory_libs 0
        (link_world 2 3 (link_vnode 2 0 3) (link_vnode 3 2 0) (zero_bytes(25136 := 3, 25388 := 2)))
      = Some (Ok (), w')
    \<and> unlinked_list memory_libs snd w' [3]"
proof -
  let ?c = "zero_bytes(25136 := 3, 25388 := 2)"
  let ?w = "link_world 2 3 (link_vnode 2 0 3) (link_vnode 3 2 0) ?c"
  have d: "disk_links memory_libs ?c 2 = Some (0, 3)" "disk_links memory_libs ?c 3 = Some (2, 0)"
    by (simp_all add: disk_links_words get_u32_def zero_bytes_def inode_offset_def format_consts Bcache_Create_def)
  have "unlinked_list memory_libs snd ?w [2, 3]"
    using link_world_facts [of 0 3 2 0 2 3 ?c] by (auto simp: unlinked_list_def d)
  from RemoveUnlinked_removes [OF memory_file_laws [folded memory_libs_posix] this, of 2 0]
  show ?thesis by simp
qed

end
