(* ===== verification/Write_Laws.thy ===== *)
theory Write_Laws
  imports Read_Laws
begin

text \<open>
  Writing over blocks that a vnode of the host build has already (\<open>vnode.cc\<close>,
  \<open>vnode_mapper.cc\<close>): \<open>WriteInternal\<close> stores exactly the bytes of the caller, no other byte of the
  file or of the device changes, and a read gets them back.
\<close>

section \<open>One block\<close>

lemma BlockGetWritable_direct:
  assumes "w_vnodes w v = Some vn" "n < kMinfsDirect" "dnum (vn_inode vn) ! n \<noteq> 0"
  shows "BlockGetWritable L v n w = Some (Ok (dnum (vn_inode vn) ! n), w)"
proof -
  let ?E = "vnode_mapper L (vn_ino vn) (vn_directory vn)"
  let ?s = "\<lparr>vs_inode = vn_inode vn, vs_file = vn_indirect vn, vs_rest = w\<rparr>"
  have n: "n < 16" using assms(2) by (simp add: format_consts)
  have acq: "AcquireWritableBlock L (vn_directory vn) n (dnum (vn_inode vn) ! n) s
      = Some (Ok (dnum (vn_inode vn) ! n), s)" for s
    using assms(3)
    by (simp add: AcquireWritableBlock_def Directory_AcquireWritableBlock_def File_AcquireWritableBlock_def
        ret_def)
  have "mapper_BlockGetWritable ?E (AcquireWritableBlock L (vn_directory vn)) n ?s
      = Some (Ok (dnum (vn_inode vn) ! n), ?s)"
    using n acq
    by (simp add: mapper_BlockGetWritable_def with_iterator_def Iterator_Init_def InitializeLevel_def update_iter_def
        kIndirectFileStartBlock_def GetInodeDirectView_def inode_view_def on_vnode_def abind_def
        gets_def modify_def assert_act_def ret_def new_iterator_def set_level_def empty_level_def
        it_Blk_def level_blk_def lv_blk_def lv_remaining_def bv_valid_def bv_at_def bv_raw_def
        iter_clean_def null_view_def Iterator_Flush_def FlushLevel_def flush_level_view_def kMapperDepth_def
        format_consts u64_sub_id Let_def numeral_3_eq_3)
  then show ?thesis
    using assms(1)
    by (simp add: BlockGetWritable_def get_vnode_def on_mapper_def abind_def put_vnode_def fun_upd_idem)
qed

text \<open>The blocks that hold a range of positions exist, are distinct, and lie where reads look.\<close>

definition in_place :: "('b, 'r, 'f) libs \<Rightarrow> superblock \<Rightarrow> inode \<Rightarrow> nat \<Rightarrow> nat \<Rightarrow> bool" where
  "in_place L info i off len \<longleftrightarrow>
     off + len \<le> kMinfsDirect * kMinfsBlockSize \<and> dat_block info = bo_dat_start (li_offsets L) \<and>
     (\<forall>p. off \<le> p \<and> p < off + len \<longrightarrow> (let b = dnum i ! (p div kMinfsBlockSize) in
        b \<noteq> 0 \<and> b < bo_dat_count (li_offsets L) \<and> dat_block info + b < 4294967296 \<and>
        (\<forall>k < kMinfsDirect. dnum i ! k = b \<longrightarrow> k = p div kMinfsBlockSize)))"

text \<open>The place on the device of a position of the file.\<close>

definition device_byte :: "('b, 'r, 'f) libs \<Rightarrow> inode \<Rightarrow> nat \<Rightarrow> nat" where
  "device_byte L i p = (bo_dat_start (li_offsets L) + dnum i ! (p div kMinfsBlockSize)) * kMinfsBlockSize
     + bc_offset (li_bcache L) + p mod kMinfsBlockSize"

lemma file_byte_device:
  "file_byte L c i p = (if dnum i ! (p div kMinfsBlockSize) = 0
      \<or> dnum i ! (p div kMinfsBlockSize) \<ge> bo_dat_count (li_offsets L) then 0 else c (device_byte L i p))"
  by (simp add: file_byte_def device_byte_def Let_def)

lemma block_bytes_apart:
  "a * kMinfsBlockSize + o' + j = b * kMinfsBlockSize + o' + k \<Longrightarrow> j < kMinfsBlockSize \<Longrightarrow> k < kMinfsBlockSize
    \<Longrightarrow> a = b \<and> j = k"
proof -
  assume eq: "a * kMinfsBlockSize + o' + j = b * kMinfsBlockSize + o' + k" and jk: "j < kMinfsBlockSize" "k < kMinfsBlockSize"
  have "(a * kMinfsBlockSize + j) div kMinfsBlockSize = a" "(b * kMinfsBlockSize + k) div kMinfsBlockSize = b"
    using jk by simp_all
  moreover have "a * kMinfsBlockSize + j = b * kMinfsBlockSize + k" using eq by simp
  ultimately show ?thesis by auto
qed

text \<open>One turn of the loop: the bytes of the block that it covers, those after it to the end of the
  block (which may be cleared past the end of the file), and all the others.\<close>

lemma write_block_law:
  assumes laws: "posix_laws (li_posix L) content" and v: "w_vnodes w v = Some vn"
    and b: "n < kMinfsDirect" "b = dnum (vn_inode vn) ! n" "b \<noteq> 0" "dat_block (Info w) = bo_dat_start (li_offsets L)"
      "dat_block (Info w) + b < 4294967296"
    and x: "x = transfer_size len adjust" "adjust + x \<le> kMinfsBlockSize"
  shows "\<exists>f. write_block L v data max_size n adjust len pos w = Some (Ok (), w\<lparr>w_fd := f\<rparr>)
    \<and> (let base = (bo_dat_start (li_offsets L) + b) * kMinfsBlockSize + bc_offset (li_bcache L);
           c = content (w_fd w)
       in (\<forall>k < x. content f (base + adjust + k) = data (pos + k))
        \<and> (\<forall>a. \<not> (base + adjust \<le> a \<and> a < base + kMinfsBlockSize) \<longrightarrow> content f a = c a)
        \<and> (max_size < i_size (vn_inode vn)
            \<longrightarrow> (\<forall>a. \<not> (base + adjust \<le> a \<and> a < base + adjust + x) \<longrightarrow> content f a = c a)))"
proof -
  let ?m = "b + dat_block (Info w)"
  let ?base = "?m * kMinfsBlockSize + bc_offset (li_bcache L)" and ?c = "content (w_fd w)"
  have m: "u32 ?m = ?m" using b(5) by (simp add: u32_id)
  obtain old f where r: "Readblk (li_posix L) (li_bcache L) ?m (w_fd w) = Some (Ok old, f)"
      "content f = ?c" "\<And>i. i < kMinfsBlockSize \<Longrightarrow> old i = ?c (?base + i)"
    by (rule Readblk_law [OF laws, of "li_bcache L" ?m "w_fd w"]) blast
  let ?new = "copy_bytes adjust data pos x old"
  let ?out = "if len < kMinfsBlockSize \<and> max_size \<ge> i_size (vn_inode vn) then clear_tail (adjust + x) ?new else ?new"
  obtain f' where wr: "Writeblk (li_posix L) (li_bcache L) ?m ?out f = Some (Ok (), f')"
      "content f' = copy_bytes ?base ?out 0 kMinfsBlockSize (content f)"
    by (rule Writeblk_law [OF laws, of "li_bcache L" ?m ?out f]) blast
  have get: "BlockGetWritable L v n w = Some (Ok b, w)"
    using BlockGetWritable_direct [OF v b(1)] b(2,3) by simp
  have run: "write_block L v data max_size n adjust len pos w = Some (Ok (), w\<lparr>w_fd := f'\<rparr>)"
    using v r(1) wr(1) unfolding write_block_def Let_def x(1) [symmetric]
    by (simp add: abind_def get gets_def m w_Readblk_def w_Writeblk_def on_fd_def GetSize_def get_inode_def
        get_vnode_def ret_def)
  have eq: "?base = (bo_dat_start (li_offsets L) + b) * kMinfsBlockSize + bc_offset (li_bcache L)"
    by (simp add: b(4) add.commute)
  have 1: "content f' (?base + adjust + k) = data (pos + k)" if "k < x" for k
    using that x(2) by (simp add: wr(2) copy_bytes_def clear_tail_def)
  have 2: "content f' a = ?c a" if "\<not> (?base + adjust \<le> a \<and> a < ?base + kMinfsBlockSize)" for a
    using that r(2) r(3) [of "a - ?base"] by (auto simp: wr(2) copy_bytes_def clear_tail_def)
  have 3: "content f' a = ?c a" if "max_size < i_size (vn_inode vn)"
    "\<not> (?base + adjust \<le> a \<and> a < ?base + adjust + x)" for a
    using that r(2) r(3) [of "a - ?base"] by (auto simp: wr(2) copy_bytes_def)
  show ?thesis
    unfolding Let_def eq [symmetric]
    using run 1 2 3 by (intro exI [of _ f'] conjI allI impI) auto
qed

section \<open>The loop\<close>

text \<open>From \<open>c\<close> to \<open>c'\<close> the bytes \<open>src\<close> were written at a range of positions: the rest of the file up
  to its old end is as before, and so is the device outside the blocks of the range.\<close>

definition block_of :: "('b, 'r, 'f) libs \<Rightarrow> inode \<Rightarrow> nat \<Rightarrow> nat set" where
  "block_of L i p =
    (let base = (bo_dat_start (li_offsets L) + dnum i ! (p div kMinfsBlockSize)) * kMinfsBlockSize
                + bc_offset (li_bcache L)
     in {base..<base + kMinfsBlockSize})"

definition wrote ::
  "('b, 'r, 'f) libs \<Rightarrow> inode \<Rightarrow> nat \<Rightarrow> nat \<Rightarrow> (nat \<Rightarrow> nat) \<Rightarrow> bytes \<Rightarrow> bytes \<Rightarrow> bool" where
  "wrote L i off len src c c' \<longleftrightarrow>
     (\<forall>k < len. file_byte L c' i (off + k) = src k) \<and>
     (\<forall>p < kMinfsDirect * kMinfsBlockSize. p < off \<or> off + len \<le> p \<and> p < i_size i
        \<longrightarrow> file_byte L c' i p = file_byte L c i p) \<and>
     (\<forall>a. (\<forall>p. off \<le> p \<and> p < off + len \<longrightarrow> a \<notin> block_of L i p) \<longrightarrow> c' a = c a)"

lemma wrote_trans:
  assumes "wrote L i off n src c c'" "wrote L i (off + n) m (\<lambda>k. src (n + k)) c' c''"
    "off + n \<le> kMinfsDirect * kMinfsBlockSize"
  shows "wrote L i off (n + m) src c c''"
  unfolding wrote_def
proof (intro conjI allI impI)
  note a = assms(1) [unfolded wrote_def] and b = assms(2) [unfolded wrote_def]
  fix k assume k: "k < n + m"
  show "file_byte L c'' i (off + k) = src k"
  proof (cases "k < n")
    case True
    then show ?thesis using a b assms(3) by auto
  next
    case False
    then obtain j where j: "k = n + j" "j < m" using k by (metis le_Suc_ex nat_add_left_cancel_less not_less)
    then show ?thesis using b by (simp add: add.assoc)
  qed
next
  note a = assms(1) [unfolded wrote_def] and b = assms(2) [unfolded wrote_def]
  fix p assume "p < kMinfsDirect * kMinfsBlockSize" "p < off \<or> off + (n + m) \<le> p \<and> p < i_size i"
  then show "file_byte L c'' i p = file_byte L c i p" using a b by auto
next
  note a = assms(1) [unfolded wrote_def] and b = assms(2) [unfolded wrote_def]
  fix x assume "\<forall>p. off \<le> p \<and> p < off + (n + m) \<longrightarrow> x \<notin> block_of L i p"
  then show "c'' x = c x" using a b by auto
qed

lemma wrote_nothing: "wrote L i off 0 src c c"
  by (simp add: wrote_def)

lemma wrote_block:
  assumes n: "n < kMinfsDirect" and b: "b = dnum i ! n" "b \<noteq> 0" "b < bo_dat_count (li_offsets L)"
      "\<forall>k < kMinfsDirect. dnum i ! k = b \<longrightarrow> k = n"
    and x: "0 < x" "adjust + x \<le> kMinfsBlockSize"
    and tail: "adjust + x = kMinfsBlockSize \<or> max_size = n * kMinfsBlockSize + adjust + x"
    and base: "base = (bo_dat_start (li_offsets L) + b) * kMinfsBlockSize + bc_offset (li_bcache L)"
    and w: "\<forall>k < x. c' (base + adjust + k) = data (pos + k)"
      "\<forall>a. \<not> (base + adjust \<le> a \<and> a < base + kMinfsBlockSize) \<longrightarrow> c' a = c a"
      "max_size < i_size i \<longrightarrow> (\<forall>a. \<not> (base + adjust \<le> a \<and> a < base + adjust + x) \<longrightarrow> c' a = c a)"
  shows "wrote L i (n * kMinfsBlockSize + adjust) x (\<lambda>k. data (pos + k)) c c'"
  unfolding wrote_def
proof (intro conjI allI impI)
  have B: "0 < kMinfsBlockSize" by (simp add: format_consts)
  have dev: "device_byte L i (n * kMinfsBlockSize + j) = base + j" if "j < kMinfsBlockSize" for j
    using that by (simp add: device_byte_def base b(1))
  {
    fix k assume k: "k < x"
    then have "adjust + k < kMinfsBlockSize" using x(2) by simp
    then show "file_byte L c' i (n * kMinfsBlockSize + adjust + k) = data (pos + k)"
      using dev [of "adjust + k"] w(1) k b by (simp add: file_byte_device add.assoc)
  }
  {
    fix p assume p: "p < kMinfsDirect * kMinfsBlockSize"
      "p < n * kMinfsBlockSize + adjust \<or> n * kMinfsBlockSize + adjust + x \<le> p \<and> p < i_size i"
    show "file_byte L c' i p = file_byte L c i p"
    proof (cases "p div kMinfsBlockSize = n")
      case True
      define j where "j = p mod kMinfsBlockSize"
      have j: "p = n * kMinfsBlockSize + j" "j < kMinfsBlockSize"
        using True B by (auto simp: j_def)
      have "c' (base + j) = c (base + j)"
        using p(2) tail w(2,3) j by (cases "j < adjust") auto
      then show ?thesis by (simp add: file_byte_device j(1) dev [OF j(2)])
    next
      case False
      let ?q = "dnum i ! (p div kMinfsBlockSize)"
      have "p div kMinfsBlockSize < kMinfsDirect" using p(1) B by (simp add: less_mult_imp_div_less)
      then have q: "?q \<noteq> b" using b(4) False by blast
      have "c' (device_byte L i p) = c (device_byte L i p)"
      proof (rule w(2) [rule_format], rule notI)
        assume a: "base + adjust \<le> device_byte L i p \<and> device_byte L i p < base + kMinfsBlockSize"
        define j where "j = device_byte L i p - base"
        have j: "device_byte L i p = base + j" "j < kMinfsBlockSize" using a by (auto simp: j_def)
        have "bo_dat_start (li_offsets L) + ?q = bo_dat_start (li_offsets L) + b \<and> p mod kMinfsBlockSize = j"
          by (rule block_bytes_apart [of _ "bc_offset (li_bcache L)"])
            (use j B in \<open>simp_all add: device_byte_def base\<close>)
        with q show False by simp
      qed
      then show ?thesis by (simp add: file_byte_device)
    qed
  }
  {
    fix a assume "\<forall>p. n * kMinfsBlockSize + adjust \<le> p \<and> p < n * kMinfsBlockSize + adjust + x
        \<longrightarrow> a \<notin> block_of L i p"
    then have "a \<notin> block_of L i (n * kMinfsBlockSize + adjust)" using x(1) by auto
    moreover have "(n * kMinfsBlockSize + adjust) div kMinfsBlockSize = n" using x by simp
    ultimately have "a \<notin> {base..<base + kMinfsBlockSize}" by (simp add: block_of_def base b(1) Let_def)
    then show "c' a = c a" using w(2) by auto
  }
qed

lemma write_loop_law:
  assumes laws: "posix_laws (li_posix L) content" and "w_vnodes w v = Some vn"
    and "in_place L (Info w) (vn_inode vn) (n * kMinfsBlockSize + adjust) len"
    and "adjust < kMinfsBlockSize" "n * kMinfsBlockSize + adjust + len = max_size"
  shows "\<exists>f. write_loop L v data max_size n adjust len pos w = Some (Ok (pos + len), w\<lparr>w_fd := f\<rparr>)
    \<and> wrote L (vn_inode vn) (n * kMinfsBlockSize + adjust) len (\<lambda>k. data (pos + k))
        (content (w_fd w)) (content f)"
  using assms(2-)
proof (induction len arbitrary: n adjust pos w rule: less_induct)
  case (less len)
  let ?i = "vn_inode vn" and ?off = "n * kMinfsBlockSize + adjust" and ?c = "content (w_fd w)"
  show ?case
  proof (cases "len = 0")
    case True
    then show ?thesis
      by (intro exI [of _ "w_fd w"]) (simp add: write_loop.simps wrote_nothing)
  next
    case False
    let ?x = "transfer_size len adjust"
    have x: "0 < ?x" "?x \<le> len" "adjust + ?x \<le> kMinfsBlockSize"
      "adjust + ?x = kMinfsBlockSize \<or> ?x = len"
      using False less.prems(3) by (auto simp: transfer_size_def)
    note ip = less.prems(2) [unfolded in_place_def]
    have bound: "?off + len \<le> kMinfsDirect * kMinfsBlockSize" using ip by blast
    then have n: "n < kMinfsDirect" using False by (simp add: format_consts)
    have div: "?off div kMinfsBlockSize = n" using less.prems(3) by simp
    let ?b = "dnum ?i ! n"
    have "\<forall>p. ?off \<le> p \<and> p < ?off + len \<longrightarrow> (let b = dnum ?i ! (p div kMinfsBlockSize) in
        b \<noteq> 0 \<and> b < bo_dat_count (li_offsets L) \<and> dat_block (Info w) + b < 4294967296 \<and>
        (\<forall>k < kMinfsDirect. dnum ?i ! k = b \<longrightarrow> k = p div kMinfsBlockSize))"
      using ip by blast
    from this [rule_format, of ?off] have b: "?b \<noteq> 0" "?b < bo_dat_count (li_offsets L)"
      "dat_block (Info w) + ?b < 4294967296" "\<forall>k < kMinfsDirect. dnum ?i ! k = ?b \<longrightarrow> k = n"
      using False unfolding div Let_def by simp_all
    have dat: "dat_block (Info w) = bo_dat_start (li_offsets L)" using ip by blast
    let ?base = "(bo_dat_start (li_offsets L) + ?b) * kMinfsBlockSize + bc_offset (li_bcache L)"
    obtain f where f: "write_block L v data max_size n adjust len pos w = Some (Ok (), w\<lparr>w_fd := f\<rparr>)"
      "\<forall>k < ?x. content f (?base + adjust + k) = data (pos + k)"
      "\<forall>a. \<not> (?base + adjust \<le> a \<and> a < ?base + kMinfsBlockSize) \<longrightarrow> content f a = ?c a"
      "max_size < i_size ?i
            \<longrightarrow> (\<forall>a. \<not> (?base + adjust \<le> a \<and> a < ?base + adjust + ?x) \<longrightarrow> content f a = ?c a)"
      using write_block_law [OF laws less.prems(1) n refl b(1) dat b(3) refl x(3), of data max_size pos]
      by (auto simp: Let_def)
    have w1: "wrote L ?i ?off ?x (\<lambda>k. data (pos + k)) ?c (content f)"
      by (rule wrote_block [OF n refl b(1,2,4) x(1,3) _ refl f(2,3,4)]) (use x(4) less.prems(4) in auto)
    have "\<exists>f'. write_loop L v data max_size (u32 (n + 1)) 0 (len - ?x) (pos + ?x) (w\<lparr>w_fd := f\<rparr>)
        = Some (Ok (pos + len), w\<lparr>w_fd := f'\<rparr>)
      \<and> wrote L ?i (?off + ?x) (len - ?x) (\<lambda>k. data (pos + (?x + k))) (content f) (content f')"
    proof (cases "?x = len")
      case True
      then show ?thesis
        by (intro exI [of _ f]) (simp add: write_loop.simps wrote_nothing)
    next
      case xl: False
      then have off: "(n + 1) * kMinfsBlockSize + 0 = ?off + ?x" using x by simp
      have u: "u32 (n + 1) = n + 1" using n by (simp add: u32_id format_consts)
      have "in_place L (Info (w\<lparr>w_fd := f\<rparr>)) ?i ((n + 1) * kMinfsBlockSize + 0) (len - ?x)"
        using less.prems(2) x(2) unfolding off in_place_def by (auto simp: Info_def)
      moreover have "(n + 1) * kMinfsBlockSize + 0 + (len - ?x) = max_size"
        unfolding off using less.prems(4) x(2) by simp
      ultimately have "\<exists>f'. write_loop L v data max_size (n + 1) 0 (len - ?x) (pos + ?x) (w\<lparr>w_fd := f\<rparr>)
          = Some (Ok (pos + ?x + (len - ?x)), w\<lparr>w_fd := f\<rparr>\<lparr>w_fd := f'\<rparr>)
        \<and> wrote L ?i ((n + 1) * kMinfsBlockSize + 0) (len - ?x) (\<lambda>k. data (pos + ?x + k))
            (content (w_fd (w\<lparr>w_fd := f\<rparr>))) (content f')"
        using x False less.prems(1) by (intro less.IH) (simp_all add: format_consts)
      then show ?thesis unfolding u off using x(2) by (simp add: add.assoc)
    qed
    then obtain f' where f': "write_loop L v data max_size (u32 (n + 1)) 0 (len - ?x) (pos + ?x) (w\<lparr>w_fd := f\<rparr>)
        = Some (Ok (pos + len), w\<lparr>w_fd := f'\<rparr>)"
      "wrote L ?i (?off + ?x) (len - ?x) (\<lambda>k. data (pos + (?x + k))) (content f) (content f')" by blast
    have "wrote L ?i ?off (?x + (len - ?x)) (\<lambda>k. data (pos + k)) ?c (content f')"
      by (rule wrote_trans [OF w1 f'(2)]) (use x(2) bound in simp)
    then have "wrote L ?i ?off len (\<lambda>k. data (pos + k)) ?c (content f')" using x(2) by simp
    moreover have "write_loop L v data max_size n adjust len pos w
        = Some (Ok (pos + len), w\<lparr>w_fd := f'\<rparr>)"
      using False n f(1) f'(1)
      by (subst write_loop.simps) (simp add: try_act_def format_consts kMinfsMaxFileBlock_def)
    ultimately show ?thesis by blast
  qed
qed

section \<open>Properties\<close>

lemma file_byte_size [simp]: "file_byte L c (i\<lparr>i_size := n\<rparr>) = file_byte L c i"
  by (simp add: file_byte_def fun_eq_iff)

lemma in_place_size: "in_place L info i off len \<Longrightarrow> off + len \<le> 131072"
  by (simp add: in_place_def format_consts)

lemma write_correct:
  assumes "posix_laws (li_posix L) content" "w_vnodes w v = Some vn"
    "in_place L (Info w) (vn_inode vn) off len" "0 < len"
  shows "\<exists>f. WriteInternal L v data len off w = Some (Ok len, put_vnode v
        (vn\<lparr>vn_inode := (vn_inode vn)\<lparr>i_size := max (i_size (vn_inode vn)) (off + len)\<rparr>\<rparr>) (w\<lparr>w_fd := f\<rparr>))
    \<and> wrote L (vn_inode vn) off len data (content (w_fd w)) (content f)"
proof -
  let ?n = "off div kMinfsBlockSize" and ?a = "off mod kMinfsBlockSize"
  have sz: "off + len \<le> 131072" using in_place_size [OF assms(3)] .
  have pos: "?n * kMinfsBlockSize + ?a = off" by simp
  have "in_place L (Info w) (vn_inode vn) (?n * kMinfsBlockSize + ?a) len" using assms(3) by (simp only: pos)
  moreover have "?a < kMinfsBlockSize" by (simp add: format_consts)
  moreover have "?n * kMinfsBlockSize + ?a + len = off + len" by (simp only: pos)
  ultimately obtain f where "write_loop L v data (off + len) ?n ?a len 0 w = Some (Ok (0 + len), w\<lparr>w_fd := f\<rparr>)"
    "wrote L (vn_inode vn) (?n * kMinfsBlockSize + ?a) len (\<lambda>k. data (0 + k)) (content (w_fd w)) (content f)"
    using write_loop_law [OF assms(1,2)] by blast
  then have f: "write_loop L v data (off + len) ?n ?a len 0 w = Some (Ok len, w\<lparr>w_fd := f\<rparr>)"
    "wrote L (vn_inode vn) off len data (content (w_fd w)) (content f)"
    unfolding pos by simp_all
  have u: "u32 ?n = ?n" "u32 (off + len) = off + len" using sz by (simp_all add: u32_id format_consts)
  have g: "GetSize v (w\<lparr>w_fd := f\<rparr>) = Some (Ok (i_size (vn_inode vn)), w\<lparr>w_fd := f\<rparr>)"
    using assms(2) by (simp add: GetSize_def get_inode_def get_vnode_def abind_def ret_def)
  have same: "put_vnode v vn (w\<lparr>w_fd := f\<rparr>) = w\<lparr>w_fd := f\<rparr>"
    using assms(2) by (simp add: put_vnode_def fun_upd_idem)
  have bound: "len + off < 2 ^ 64" "len + off \<le> kMinfsMaxFileSize"
    using sz by (simp_all add: kMinfsMaxFileSize_def kMinfsMaxFileBlock_def format_consts)
  have "WriteInternal L v data len off w = Some (Ok len, put_vnode v
        (vn\<lparr>vn_inode := (vn_inode vn)\<lparr>i_size := max (i_size (vn_inode vn)) (off + len)\<rparr>\<rparr>) (w\<lparr>w_fd := f\<rparr>))"
  proof (cases "off + len > i_size (vn_inode vn)")
    case True
    then show ?thesis using assms(2,4) bound f(1)
      by (simp add: WriteInternal_def abind_def u f(1) g SetSize_def on_inode_def get_vnode_def modify_def ret_def max_def)
  next
    case False
    then have "max (i_size (vn_inode vn)) (off + len) = i_size (vn_inode vn)" by simp
    then have e: "put_vnode v
        (vn\<lparr>vn_inode := (vn_inode vn)\<lparr>i_size := max (i_size (vn_inode vn)) (off + len)\<rparr>\<rparr>) (w\<lparr>w_fd := f\<rparr>)
        = w\<lparr>w_fd := f\<rparr>"
      using same by simp
    show ?thesis unfolding e using False assms(4) bound f(1)
      by (simp add: WriteInternal_def abind_def u f(1) g ret_def)
  qed
  then show ?thesis using f(2) by blast
qed

text \<open>C26: In the host build, writing a range within the 16 direct blocks of a file (its first 128 KiB) whose
  blocks all exist, each with one pointer only, succeeds and stores exactly the caller's bytes: the
  rest of the file up to its old end is as before, no byte of the device outside the blocks of the
  range changes, and of the state in memory only the size of the file, which grows to the end of the
  range if that is further. The image is a file that behaves (\<open>posix_laws\<close>).\<close>

theorem WriteInternal_in_place:
  assumes "posix_laws (li_posix L) content" "w_vnodes w v = Some vn"
    "in_place L (Info w) (vn_inode vn) off len" "0 < len"
  shows "\<exists>f. WriteInternal L v data len off w = Some (Ok len, put_vnode v
        (vn\<lparr>vn_inode := (vn_inode vn)\<lparr>i_size := max (i_size (vn_inode vn)) (off + len)\<rparr>\<rparr>) (w\<lparr>w_fd := f\<rparr>))
    \<and> wrote L (vn_inode vn) off len data (content (w_fd w)) (content f)"
  by (rule write_correct [OF assms])

text \<open>C27: In the host build, what was written to a range within the 16 direct blocks of a file (its first
  128 KiB) whose blocks all exist, each with one pointer only, is read back: a read of the range right
  after the write, also past the old end of the file, returns all of the bytes. The file has no content
  beyond its direct blocks, and the image is a file that behaves (\<open>posix_laws\<close>).\<close>

theorem write_read_roundtrip:
  assumes "posix_laws (li_posix L) content" "w_vnodes w v = Some vn"
    "in_place L (Info w) (vn_inode vn) off len" "0 < len" "direct_ok L (Info w) (vn_inode vn)"
  shows "\<exists>w' w''. WriteInternal L v data len off w = Some (Ok len, w')
    \<and> ReadInternal L v buf len off w' = Some (Ok (len, \<lambda>k. if k < len then data k else buf k), w'')"
proof -
  let ?i = "(vn_inode vn)\<lparr>i_size := max (i_size (vn_inode vn)) (off + len)\<rparr>"
  obtain f where f: "WriteInternal L v data len off w = Some (Ok len,
      put_vnode v (vn\<lparr>vn_inode := ?i\<rparr>) (w\<lparr>w_fd := f\<rparr>))"
    "wrote L (vn_inode vn) off len data (content (w_fd w)) (content f)"
    using write_correct [OF assms(1-4)] by blast
  define W where "W = put_vnode v (vn\<lparr>vn_inode := ?i\<rparr>) (w\<lparr>w_fd := f\<rparr>)"
  have v: "w_vnodes W v = Some (vn\<lparr>vn_inode := ?i\<rparr>)" "w_fd W = f" "Info W = Info w"
    by (simp_all add: W_def put_vnode_def Info_def)
  have vn: "vn_inode (vn\<lparr>vn_inode := ?i\<rparr>) = ?i" by simp
  have "direct_ok L (Info W) ?i"
    using assms(5) in_place_size [OF assms(3)] by (auto simp: direct_ok_def v(3) format_consts)
  moreover have "min len (i_size ?i - off) = len" by simp
  ultimately obtain w'' where r: "ReadInternal L v buf len off W = Some (Ok (len, \<lambda>k. if k < len
       then file_byte L (content f) (vn_inode vn) (off + k) else buf k), w'')"
    using read_correct [OF assms(1) v(1), of len off buf, unfolded v(2) vn file_byte_size]
    by (auto simp: Let_def)
  moreover have "(\<lambda>k. if k < len then file_byte L (content f) (vn_inode vn) (off + k) else buf k)
      = (\<lambda>k. if k < len then data k else buf k)"
    using f(2) by (auto simp: wrote_def)
  ultimately show ?thesis using f(1) unfolding W_def by auto
qed

lemma sample_file_in_place:
  "in_place memory_libs (Info (memory_world [0 \<mapsto> sample_file] zero_bytes)) (vn_inode sample_file) 8195 10"
proof -
  have "p div 8192 = 1" if "8195 \<le> p" "p < 8205" for p :: nat using that by auto
  moreover have "((replicate 16 0)[1 := 4 :: nat]) ! k = 4 \<longrightarrow> k = 1" if "k < 16" for k :: nat
    using that by (simp add: nth_list_update)
  ultimately show ?thesis
    by (auto simp: in_place_def format_consts sample_file_def memory_libs_def memory_info_def Let_def
        words_superblock_def)
qed

theorem WriteInternal_in_place_witness:
  "\<exists>f. WriteInternal memory_libs 0 (\<lambda>k. k + 1) 10 8195 (memory_world [0 \<mapsto> sample_file] zero_bytes)
      = Some (Ok 10, put_vnode 0 (sample_file\<lparr>vn_inode := (vn_inode sample_file)\<lparr>i_size := 8205\<rparr>\<rparr>)
          ((memory_world [0 \<mapsto> sample_file] zero_bytes)\<lparr>w_fd := f\<rparr>))
    \<and> wrote memory_libs (vn_inode sample_file) 8195 10 (\<lambda>k. k + 1) zero_bytes (snd f)"
proof -
  have "i_size (vn_inode sample_file) = 8200" by (simp add: sample_file_def)
  then show ?thesis
    using WriteInternal_in_place [OF memory_file_laws [folded memory_libs_posix] _ sample_file_in_place,
        of 0 "\<lambda>k. k + 1"] by simp
qed

theorem write_read_roundtrip_witness:
  "\<exists>w' w''. WriteInternal memory_libs 0 (\<lambda>k. k + 1) 10 8195 (memory_world [0 \<mapsto> sample_file] zero_bytes)
      = Some (Ok 10, w')
    \<and> ReadInternal memory_libs 0 zero_bytes 10 8195 w'
      = Some (Ok (10, \<lambda>k. if k < 10 then k + 1 else zero_bytes k), w'')"
proof -
  have "direct_ok memory_libs (Info (memory_world [0 \<mapsto> sample_file] zero_bytes)) (vn_inode sample_file)"
    by (auto simp: direct_ok_def sample_file_def memory_info_def memory_libs_def nth_list_update format_consts)
  then show ?thesis
    using write_read_roundtrip [OF memory_file_laws [folded memory_libs_posix] _ sample_file_in_place,
        of 0 "\<lambda>k. k + 1" zero_bytes] by simp
qed

end
