(* ===== verification/Transaction_Laws.thy ===== *)
theory Transaction_Laws
  imports Instance
begin

text \<open>
  Starting a transaction in the host build (\<open>writeback.cc\<close>, \<open>minfs.cc\<close>): it reserves what it was
  asked for in both allocators or fails and leaves them as they were.
\<close>

section \<open>Reserving\<close>

definition available :: "('b, 'r, 'f) pool \<Rightarrow> ('b, 'r, 'f) world \<Rightarrow> nat" where
  "available P w = host_GetAvailableLocked (PoolAvailable (st_metadata (pl_storage P)) (w_sm w)) (pl_get P w)"

lemma available_less: "available P w < 2 ^ 64"
  using u64_less by (auto simp: available_def host_GetAvailableLocked_def u64_sub_def)

lemma u64_reserve_back: "r < 2 ^ 64 \<Longrightarrow> n < 2 ^ 64 \<Longrightarrow> u64_sub (u64 (r + n)) n = r"
  by (auto simp: u64_def u64_sub_def mod_if)

definition reserved_more :: "nat \<Rightarrow> ('b, 'r) allocator \<Rightarrow> ('b, 'r) allocator" where
  "reserved_more n al = al\<lparr>al_reserved := u64 (al_reserved al + n)\<rparr>"

lemma pool_reserve_eq:
  "pool_reserve P n w = (if n \<le> available P w then (Ok (), pl_put P (reserved_more n (pl_get P w)) w)
     else (Err ZX_ERR_NO_SPACE, pl_put P (pl_get P w) w))"
  by (simp add: pool_reserve_def Allocator_Reserve_def available_def host_Extend_def reserved_more_def)

lemma put_same [simp]:
  "pl_put (block_pool L) (w_blocks w) w = w" "pl_put (inode_pool L) (w_inodes w) w = w"
  by (simp_all add: block_pool_def inode_pool_def)

definition reserved_transaction :: "nat \<Rightarrow> nat \<Rightarrow> transaction" where
  "reserved_transaction ni nb =
    \<lparr>tx_inode_reservation = empty_reservation\<lparr>rs_reserved := ni\<rparr>,
     tx_block_reservation = Some (empty_reservation\<lparr>rs_reserved := nb\<rparr>), tx_operations = []\<rparr>"

lemma reserve_inodes_step:
  "tx_reserve (inode_pool L) n (w\<lparr>w_tx := Some (reserved_transaction 0 0)\<rparr>) =
    (if n \<le> available (inode_pool L) w
     then Some (Ok (), w\<lparr>w_inodes := reserved_more n (w_inodes w), w_tx := Some (reserved_transaction n 0)\<rparr>)
     else Some (Err ZX_ERR_NO_SPACE, w\<lparr>w_tx := Some (reserved_transaction 0 0)\<rparr>))"
  by (simp add: tx_reserve_def on_reservation_def Reservation_Reserve_def pool_reserve_eq
      reserved_transaction_def inode_pool_def available_def empty_reservation_def)

lemma reserve_blocks_step:
  "tx_extend (block_pool L) n (w\<lparr>w_tx := Some (reserved_transaction ni 0)\<rparr>) =
    (if n \<le> available (block_pool L) w
     then Some (Ok (), w\<lparr>w_blocks := reserved_more n (w_blocks w), w_tx := Some (reserved_transaction ni n)\<rparr>)
     else Some (Err ZX_ERR_NO_SPACE, w\<lparr>w_tx := Some (reserved_transaction ni 0)\<rparr>))"
proof -
  have "u64 n = n" if "n \<le> available (block_pool L) w"
    using that available_less [of "block_pool L" w] by (simp add: u64_id)
  then show ?thesis
    by (auto simp: tx_extend_def on_reservation_def ExtendReservation_def pool_reserve_eq
        reserved_transaction_def block_pool_def available_def empty_reservation_def)
qed

lemma destroy_reserved:
  "al_reserved (w_inodes w) < 2 ^ 64 \<Longrightarrow> ni < 2 ^ 64 \<Longrightarrow>
    Transaction_Destroy L (w\<lparr>w_inodes := reserved_more ni (w_inodes w), w_tx := Some (reserved_transaction ni 0)\<rparr>)
      = Some (Ok (), w\<lparr>w_tx := None\<rparr>)"
  using u64_reserve_back [of "al_reserved (w_inodes w)" ni]
  by (cases "ni = 0")
    (simp_all add: Transaction_Destroy_def modify_def reserved_transaction_def Reservation_Cancel_def
      Reservation_Destroy_def Allocator_Unreserve_def reserved_more_def empty_reservation_def Let_def u64_id)

lemma destroy_empty:
  "Transaction_Destroy L (w\<lparr>w_tx := Some (reserved_transaction 0 0)\<rparr>) = Some (Ok (), w\<lparr>w_tx := None\<rparr>)"
  by (simp add: Transaction_Destroy_def modify_def reserved_transaction_def Reservation_Cancel_def
      Reservation_Destroy_def empty_reservation_def Let_def)

section \<open>Properties\<close>

lemma new_transaction_eq: "new_transaction None = reserved_transaction 0 0"
  by (simp add: new_transaction_def reserved_transaction_def empty_reservation_def)

lemma available_inodes [simp]:
  "available (block_pool L) (w\<lparr>w_inodes := al\<rparr>) = available (block_pool L) w"
  by (simp add: available_def block_pool_def)

lemma or_destroy_Ok: "m w = Some (Ok x, w') \<Longrightarrow> or_destroy L m w = Some (Ok x, w')"
  by (simp add: or_destroy_def try_act_def ret_def)

lemma or_destroy_Err:
  "m w = Some (Err e, w') \<Longrightarrow> Transaction_Destroy L w' = Some (Ok (), w'')
    \<Longrightarrow> or_destroy L m w = Some (Err e, w'')"
  by (simp add: or_destroy_def try_act_def abind_def fail_def)

lemma inodes_phase:
  "(if ni \<noteq> 0 then or_destroy L (tx_reserve (inode_pool L) ni) else ret ())
      (w\<lparr>w_tx := Some (reserved_transaction 0 0)\<rparr>) =
    (if ni \<le> available (inode_pool L) w
     then Some (Ok (), w\<lparr>w_inodes := reserved_more ni (w_inodes w), w_tx := Some (reserved_transaction ni 0)\<rparr>)
     else Some (Err ZX_ERR_NO_SPACE, w\<lparr>w_tx := None\<rparr>))"
  if "al_reserved (w_inodes w) < 2 ^ 64"
proof (cases "ni = 0")
  case True
  then show ?thesis using that by (simp add: reserved_more_def u64_id ret_def)
next
  case False
  then show ?thesis
    using reserve_inodes_step [where w = w and n = ni and L = L] destroy_empty [of L w]
    by (auto intro!: or_destroy_Ok or_destroy_Err)
qed

lemma blocks_phase:
  "(if nb \<noteq> 0 then or_destroy L (tx_extend (block_pool L) nb) else ret ())
      (w\<lparr>w_inodes := reserved_more ni (w_inodes w), w_tx := Some (reserved_transaction ni 0)\<rparr>) =
    (if nb \<le> available (block_pool L) w
     then Some (Ok (), w\<lparr>w_inodes := reserved_more ni (w_inodes w), w_blocks := reserved_more nb (w_blocks w),
       w_tx := Some (reserved_transaction ni nb)\<rparr>)
     else Some (Err ZX_ERR_NO_SPACE, w\<lparr>w_tx := None\<rparr>))"
  if "al_reserved (w_inodes w) < 2 ^ 64" "al_reserved (w_blocks w) < 2 ^ 64" "ni < 2 ^ 64"
proof (cases "nb = 0")
  case True
  then show ?thesis using that(2) by (simp add: reserved_more_def u64_id ret_def)
next
  case False
  then show ?thesis
    using reserve_blocks_step [where w = "w\<lparr>w_inodes := reserved_more ni (w_inodes w)\<rparr>" and n = nb and ni = ni and L = L]
      destroy_reserved [OF that(1,3), of L]
    by (auto intro!: or_destroy_Ok or_destroy_Err)
qed

text \<open>C33: Starting a transaction reserves all the inodes and blocks asked for, in the allocators and
  in the transaction, or fails for lack of space; then both allocators are as they were before, also
  when only the second reservation failed, and no transaction is left behind.\<close>

theorem Transaction_Create_all_or_nothing:
  assumes "al_reserved (w_inodes w) < 2 ^ 64" "al_reserved (w_blocks w) < 2 ^ 64"
  shows "Transaction_Create L ni nb w =
    (if ni \<le> available (inode_pool L) w \<and> nb \<le> available (block_pool L) w
     then Some (Ok (), w\<lparr>w_inodes := reserved_more ni (w_inodes w),
       w_blocks := reserved_more nb (w_blocks w), w_tx := Some (reserved_transaction ni nb)\<rparr>)
     else Some (Err ZX_ERR_NO_SPACE, w\<lparr>w_tx := None\<rparr>))"
proof (cases "ni \<le> available (inode_pool L) w")
  case True
  then have "ni < 2 ^ 64" using available_less [of "inode_pool L" w] by simp
  then show ?thesis
    using True inodes_phase [OF assms(1), of ni L] blocks_phase [OF assms, of ni nb L]
    by (simp add: Transaction_Create_def new_transaction_eq abind_def modify_def)
next
  case False
  then show ?thesis using inodes_phase [OF assms(1), of ni L]
    by (simp add: Transaction_Create_def new_transaction_eq abind_def modify_def)
qed

text \<open>A file system with 100 blocks and 64 inodes, none in use: the second reservation fails.\<close>

theorem Transaction_Create_all_or_nothing_witness:
  "Transaction_Create memory_libs 1 101 (memory_world Map.empty zero_bytes)
    = Some (Err ZX_ERR_NO_SPACE, memory_world Map.empty zero_bytes)"
proof -
  let ?w = "memory_world Map.empty zero_bytes"
  have "available (block_pool memory_libs) ?w = 100"
    by (simp add: available_def block_pool_def host_GetAvailableLocked_def PoolAvailable_def PoolTotal_def
        PoolUsed_def memory_libs_def memory_storage_def access_Blocks_def memory_world_def memory_info_def
        memory_allocator_def words_superblock_def u32_sub_def u32_def u64_sub_def u64_def)
  moreover have "?w\<lparr>w_tx := None\<rparr> = ?w" by (simp add: memory_world_def)
  ultimately show ?thesis
    using Transaction_Create_all_or_nothing [of ?w memory_libs 1 101]
    by (simp add: memory_world_def memory_allocator_def)
qed

end
