(* ===== verification/Inspector.thy ===== *)
theory Inspector
  imports Codec Work Limits
begin

text \<open>
  \<open>inspector/loader.cc\<close>, \<open>parser.cc\<close>, \<open>disk_struct.cc\<close> and \<open>minfs_inspector.cc\<close>: the inspector loads
  metadata straight from a block device, without the file system, and returns the parsed
  structures. The transaction handler and the buffer factory of the \<open>disk_inspector\<close> library, the
  layout of the journal and the word size of the bitmap library are a record of functions over the
  state of the device.
\<close>

section \<open>The libraries\<close>

text \<open>\<open>storage::BlockBuffer\<close>: its capacity in blocks, the size of a block, its memory.\<close>

record block_buffer =
  bb_capacity :: nat
  bb_block_size :: nat
  bb_bytes :: bytes

record 'd inspect_lib =
  il_create_buffer :: "nat \<Rightarrow> 'd \<Rightarrow> block_buffer res \<times> 'd"
  il_run_operation :: "operation \<Rightarrow> block_buffer \<Rightarrow> 'd \<Rightarrow> (unit res \<times> block_buffer) \<times> 'd"
  il_journal_info :: "block_buffer \<Rightarrow> bytes"
  il_bits :: nat

text \<open>\<open>BlockBuffer::Data\<close> is the address of a block of the buffer.\<close>

definition buffer_data :: "nat \<Rightarrow> block_buffer \<Rightarrow> nat" where
  "buffer_data i b = u64 (i * bb_block_size b)"

section \<open>The loader\<close>

definition RunReadOperation ::
  "('d, 'z) inspect_lib_scheme \<Rightarrow> block_buffer \<Rightarrow> nat \<Rightarrow> nat \<Rightarrow> nat \<Rightarrow> 'd
    \<Rightarrow> (unit res \<times> block_buffer) \<times> 'd" where
  "RunReadOperation L buffer vmo dev len d =
    (if u64_sub (bb_capacity buffer) vmo \<ge> len
     then il_run_operation L (read_op vmo dev len) buffer d
     else ((Panic, buffer), d))"

definition RunWriteOperation ::
  "('d, 'z) inspect_lib_scheme \<Rightarrow> block_buffer \<Rightarrow> nat \<Rightarrow> nat \<Rightarrow> nat \<Rightarrow> 'd
    \<Rightarrow> (unit res \<times> block_buffer) \<times> 'd" where
  "RunWriteOperation L buffer vmo dev len d =
    (if u64_sub (bb_capacity buffer) vmo \<ge> len
     then il_run_operation L (write_op vmo dev len) buffer d
     else ((Panic, buffer), d))"

definition loader_LoadSuperblock ::
  "('d, 'z) inspect_lib_scheme \<Rightarrow> nat \<Rightarrow> block_buffer \<Rightarrow> 'd \<Rightarrow> (unit res \<times> block_buffer) \<times> 'd" where
  "loader_LoadSuperblock L dev buffer = RunReadOperation L buffer 0 dev 1"

definition LoadInodeBitmap ::
  "('d, 'z) inspect_lib_scheme \<Rightarrow> superblock \<Rightarrow> block_buffer \<Rightarrow> 'd
    \<Rightarrow> (unit res \<times> block_buffer) \<times> 'd" where
  "LoadInodeBitmap L sb buffer = RunReadOperation L buffer 0 (ibm_block sb) (InodeBitmapBlocks sb)"

definition LoadInodeTable ::
  "('d, 'z) inspect_lib_scheme \<Rightarrow> superblock \<Rightarrow> block_buffer \<Rightarrow> 'd
    \<Rightarrow> (unit res \<times> block_buffer) \<times> 'd" where
  "LoadInodeTable L sb buffer = RunReadOperation L buffer 0 (ino_block sb) (InodeBlocks sb)"

definition LoadJournal ::
  "('d, 'z) inspect_lib_scheme \<Rightarrow> superblock \<Rightarrow> block_buffer \<Rightarrow> 'd
    \<Rightarrow> (unit res \<times> block_buffer) \<times> 'd" where
  "LoadJournal L sb buffer = RunReadOperation L buffer 0 (JournalStartBlock sb) (JournalBlocks sb)"

section \<open>The parser\<close>

definition GetSuperblock :: "block_buffer \<Rightarrow> superblock" where
  "GetSuperblock buffer = load_superblock (bb_bytes buffer)"

definition GetBitmapElement :: "nat \<Rightarrow> block_buffer \<Rightarrow> nat \<Rightarrow> bool" where
  "GetBitmapElement bits buffer index =
    (let byte_offset = index div bits;
         bit_offset = index mod bits;
         mask = push_bit bit_offset 1
     in (get_u64 (bb_bytes buffer) (8 * byte_offset) AND mask) \<noteq> 0)"

definition GetInodeElement :: "block_buffer \<Rightarrow> nat \<Rightarrow> inode" where
  "GetInodeElement buffer index =
    (let inode_block = index div kMinfsInodesPerBlock;
         inode_block_offset = index mod kMinfsInodesPerBlock
     in load_inode (bb_bytes buffer)
          (buffer_data inode_block buffer + kMinfsInodeSize * inode_block_offset))"

section \<open>The structures to print and edit\<close>

text \<open>A field: its name, its offset in the structure, the size of an element and the number of
  elements of an array. The name of an inode's structure is its index in decimal.\<close>

record disk_field =
  df_name :: string
  df_offset :: nat
  df_width :: nat
  df_count :: "nat option"

record disk_struct =
  ds_name :: string
  ds_bytes :: nat
  ds_fields :: "disk_field list"

definition add_field :: "string \<Rightarrow> nat \<Rightarrow> nat \<Rightarrow> disk_field" where
  "add_field name off width = \<lparr>df_name = name, df_offset = off, df_width = width, df_count = None\<rparr>"

definition add_array :: "string \<Rightarrow> nat \<Rightarrow> nat \<Rightarrow> nat \<Rightarrow> disk_field" where
  "add_array name off width n =
    \<lparr>df_name = name, df_offset = off, df_width = width, df_count = Some n\<rparr>"

definition GetSuperblockStruct :: disk_struct where
  "GetSuperblockStruct =
    \<lparr>ds_name = ''Superblock'', ds_bytes = kMinfsBlockSize,
     ds_fields =
       [add_field ''magic0'' 0 8, add_field ''magic1'' 8 8, add_field ''major_version'' 16 4,
        add_field ''checksum'' 24 4, add_field ''generation_count'' 28 4, add_field ''flags'' 32 4,
        add_field ''block_size'' 36 4, add_field ''inode_size'' 40 4, add_field ''block_count'' 44 4,
        add_field ''inode_count'' 48 4, add_field ''alloc_block_count'' 52 4,
        add_field ''alloc_inode_count'' 56 4, add_field ''ibm_block'' 60 4,
        add_field ''abm_block'' 64 4, add_field ''ino_block'' 68 4,
        add_field ''integrity_start_block'' 72 4, add_field ''dat_block'' 76 4,
        add_field ''slice_size'' 80 4, add_field ''ibm_slices'' 88 4, add_field ''abm_slices'' 92 4,
        add_field ''ino_slices'' 96 4, add_field ''integrity_slices'' 100 4,
        add_field ''dat_slices'' 104 4, add_field ''unlinked_head'' 108 4,
        add_field ''unlinked_tail'' 112 4, add_field ''oldest_minor_version'' 116 4,
        add_array ''reserved'' 120 4 2018]\<rparr>"

fun decimal :: "nat \<Rightarrow> string" where
  "decimal n = (if n < 10 then [char_of (48 + n)] else decimal (n div 10) @ [char_of (48 + n mod 10)])"

declare decimal.simps [simp del]

definition GetInodeStruct :: "nat \<Rightarrow> disk_struct" where
  "GetInodeStruct index =
    \<lparr>ds_name = ''Inode '' @ decimal index, ds_bytes = kMinfsInodeSize,
     ds_fields =
       [add_field ''magic'' 0 4, add_field ''size'' 4 4, add_field ''block_count'' 8 4,
        add_field ''link_count'' 12 4, add_field ''create_time'' 16 8,
        add_field ''modify_time'' 24 8, add_field ''seq_num'' 32 4, add_field ''gen_num'' 36 4,
        add_field ''dirent_count'' 40 4, add_field ''last_inode'' 44 4,
        add_field ''next_inode'' 48 4, add_array ''rsvd'' 52 4 3,
        add_array ''dnum'' 64 4 kMinfsDirect, add_array ''inum'' 128 4 kMinfsIndirect,
        add_array ''dinum'' 252 4 kMinfsDoublyIndirect]\<rparr>"

section \<open>The inspector\<close>

record 'd inspector =
  ins_device :: 'd
  ins_superblock :: superblock
  ins_buffer :: block_buffer

text \<open>A load into the scratch buffer of the inspector.\<close>

definition on_buffer ::
  "(block_buffer \<Rightarrow> 'd \<Rightarrow> (unit res \<times> block_buffer) \<times> 'd) \<Rightarrow> ('d inspector, unit) act" where
  "on_buffer f s =
    (let ((r, b), d) = f (ins_buffer s) (ins_device s)
     in Some (r, s\<lparr>ins_buffer := b, ins_device := d\<rparr>))"

text \<open>A load into a buffer of the given number of blocks made for it, which is handed on.\<close>

definition on_new_buffer ::
  "('d, 'z) inspect_lib_scheme \<Rightarrow> nat \<Rightarrow> (block_buffer \<Rightarrow> 'd \<Rightarrow> (unit res \<times> block_buffer) \<times> 'd)
    \<Rightarrow> ('d inspector, block_buffer) act" where
  "on_new_buffer L n f s =
    (case il_create_buffer L n (ins_device s) of
       (Ok b, d) \<Rightarrow>
         (let ((r, b), d) = f b d in Some (res_bind r (\<lambda>_. Ok b), s\<lparr>ins_device := d\<rparr>))
     | (Err e, d) \<Rightarrow> Some (Err e, s\<lparr>ins_device := d\<rparr>)
     | (Panic, d) \<Rightarrow> Some (Panic, s\<lparr>ins_device := d\<rparr>))"

definition ReloadSuperblock :: "('d, 'z) inspect_lib_scheme \<Rightarrow> ('d inspector, unit) act" where
  "ReloadSuperblock L =
     abind (on_buffer (loader_LoadSuperblock L kSuperblockStart)) (\<lambda>_.
     modify (\<lambda>s. s\<lparr>ins_superblock := GetSuperblock (ins_buffer s)\<rparr>))"

text \<open>The superblock of a new inspector is uninitialised until it is loaded: \<open>junk\<close>.\<close>

definition MinfsInspector_Create ::
  "('d, 'z) inspect_lib_scheme \<Rightarrow> superblock \<Rightarrow> 'd \<Rightarrow> ('d inspector) res option" where
  "MinfsInspector_Create L junk d =
    (case il_create_buffer L 1 d of
       (Ok b, d) \<Rightarrow>
         (case ReloadSuperblock L \<lparr>ins_device = d, ins_superblock = junk, ins_buffer = b\<rparr> of
            None \<Rightarrow> None
          | Some (Ok _, s) \<Rightarrow> Some (Ok s)
          | Some (Err e, s) \<Rightarrow> Some (Err e)
          | Some (Panic, s) \<Rightarrow> Some Panic)
     | (Err e, d) \<Rightarrow> Some (Err e)
     | (Panic, d) \<Rightarrow> Some Panic)"

definition InspectSuperblock :: "('d inspector, superblock) act" where
  "InspectSuperblock = gets ins_superblock"

definition GetInodeCount :: "'d inspector \<Rightarrow> nat" where
  "GetInodeCount s = inode_count (ins_superblock s)"

definition GetJournalEntryCount :: "'d inspector \<Rightarrow> nat" where
  "GetJournalEntryCount s =
    (let journal_block_count = JournalBlocks (ins_superblock s)
     in if journal_block_count = 0 then 0
        else u64_sub journal_block_count kJournalMetadataBlocks)"

definition InspectInodeRange ::
  "('d, 'z) inspect_lib_scheme \<Rightarrow> nat \<Rightarrow> nat \<Rightarrow> ('d inspector, inode list) act" where
  "InspectInodeRange L start_index end_index =
     abind (assert_act (end_index > start_index)) (\<lambda>_.
     abind (gets (\<lambda>s. ino_block (ins_superblock s))) (\<lambda>ino_block.
     let start_block_offset = start_index div kMinfsInodesPerBlock;
         start_block = u64 (ino_block + start_block_offset);
         block_length = u64 (u64_sub ((end_index - 1) div kMinfsInodesPerBlock) start_block_offset + 1)
     in abind (on_new_buffer L block_length (\<lambda>b. RunReadOperation L b 0 start_block block_length))
          (\<lambda>inode_buffer.
          let buffer_offset = start_index mod kMinfsInodesPerBlock;
              cnt = end_index - start_index
          in ret (map (\<lambda>i. GetInodeElement inode_buffer (u64 (buffer_offset + i))) [0..<cnt]))))"

definition InspectInodeAllocatedInRange ::
  "('d, 'z) inspect_lib_scheme \<Rightarrow> nat \<Rightarrow> nat \<Rightarrow> ('d inspector, nat list) act" where
  "InspectInodeAllocatedInRange L start_index end_index =
     abind (assert_act (end_index > start_index)) (\<lambda>_.
     abind (gets (\<lambda>s. ibm_block (ins_superblock s))) (\<lambda>ibm_block.
     let start_block_offset = start_index div kMinfsBlockBits;
         start_block = u64 (ibm_block + start_block_offset);
         block_length = u64 (u64_sub ((end_index - 1) div kMinfsBlockBits) start_block_offset + 1)
     in abind (on_new_buffer L block_length (\<lambda>b. RunReadOperation L b 0 start_block block_length))
          (\<lambda>bit_buffer.
          let buffer_offset = start_index mod kMinfsBlockBits;
              cnt = end_index - start_index
          in ret (map (\<lambda>i. u64 (start_index + i))
               (filter (\<lambda>i. GetBitmapElement (il_bits L) bit_buffer (u64 (buffer_offset + i)))
                 [0..<cnt])))))"

definition InspectJournalSuperblock :: "('d, 'z) inspect_lib_scheme \<Rightarrow> ('d inspector, bytes) act" where
  "InspectJournalSuperblock L =
     abind (gets (\<lambda>s. JournalStartBlock (ins_superblock s))) (\<lambda>start.
     abind (on_buffer (\<lambda>b. RunReadOperation L b 0 start kJournalMetadataBlocks)) (\<lambda>_.
     gets (\<lambda>s. il_journal_info L (ins_buffer s))))"

definition LoadJournalEntry :: "('d, 'z) inspect_lib_scheme \<Rightarrow> nat \<Rightarrow> ('d inspector, unit) act" where
  "LoadJournalEntry L index =
     abind (gets (\<lambda>s. JournalStartBlock (ins_superblock s))) (\<lambda>start.
     let start_block = u64 (u64 (start + kJournalMetadataBlocks) + index)
     in on_buffer (\<lambda>b. RunReadOperation L b 0 start_block 1))"

text \<open>The three instances of the template copy the block as a structure of the journal library.\<close>

definition InspectJournalEntryAs ::
  "('d, 'z) inspect_lib_scheme \<Rightarrow> nat \<Rightarrow> ('d inspector, bytes) act" where
  "InspectJournalEntryAs L index =
     abind (LoadJournalEntry L index) (\<lambda>_. gets (\<lambda>s. bb_bytes (ins_buffer s)))"

definition InspectBackupSuperblock ::
  "('d, 'z) inspect_lib_scheme \<Rightarrow> ('d inspector, superblock) act" where
  "InspectBackupSuperblock L =
     abind (gets (\<lambda>s. if GetFlagFvm (ins_superblock s) then kFvmSuperblockBackup
                      else kNonFvmSuperblockBackup)) (\<lambda>backup_location.
     abind (on_buffer (loader_LoadSuperblock L backup_location)) (\<lambda>_.
     gets (\<lambda>s. GetSuperblock (ins_buffer s))))"

definition WriteSuperblock ::
  "('d, 'z) inspect_lib_scheme \<Rightarrow> superblock \<Rightarrow> ('d inspector, unit) act" where
  "WriteSuperblock L sb =
     abind (modify (\<lambda>s. s\<lparr>ins_buffer := (ins_buffer s)
         \<lparr>bb_bytes := copy_bytes 0 (superblock_bytes sb) 0 kMinfsBlockSize (bb_bytes (ins_buffer s))\<rparr>\<rparr>)) (\<lambda>_.
     abind (on_buffer (\<lambda>b. RunWriteOperation L b 0 0 1)) (\<lambda>_.
     modify (\<lambda>s. s\<lparr>ins_superblock := sb\<rparr>)))"

end
