(* ===== verification/Commands.thy ===== *)
theory Commands
  imports Inspector
begin

text \<open>
  \<open>inspector/command_handler.cc\<close>: the commands of the disk inspector over \<open>MinfsInspector\<close>. Parsing
  of the arguments, printing of structures and the setting of a field by name are the
  \<open>disk_inspector\<close> library's, further functions of the record of libraries. The output stream is
  the text printed so far.
\<close>

section \<open>The library of the commands\<close>

datatype arg_type = kString | kUint64

record command_sig =
  cs_name :: string
  cs_fields :: "(string \<times> arg_type \<times> string) list"
  cs_help :: string

record parsed_command =
  string_fields :: "string \<rightharpoonup> string"
  uint64_fields :: "string \<rightharpoonup> nat"

record print_opts =
  display_hex :: bool
  hide_array :: bool

datatype journal_object = kHeader | kCommit | kRevocation | kUnknown

record 'd command_lib = "'d inspect_lib" +
  cl_parse :: "string list \<Rightarrow> command_sig \<Rightarrow> parsed_command res"
  cl_command_list :: "command_sig list \<Rightarrow> string"
  cl_to_string :: "disk_struct \<Rightarrow> bytes \<Rightarrow> print_opts \<Rightarrow> string"
  cl_write_field :: "disk_struct \<Rightarrow> bytes \<Rightarrow> string list \<Rightarrow> nat list \<Rightarrow> string \<Rightarrow> unit res \<times> bytes"
  cl_journal_superblock_struct :: disk_struct
  cl_journal_header_struct :: "nat \<Rightarrow> disk_struct"
  cl_journal_commit_struct :: "nat \<Rightarrow> disk_struct"
  cl_object_type :: "bytes \<Rightarrow> journal_object"

text \<open>\<open>operator[]\<close> of the parsed arguments: the value, or that of a new entry.\<close>

definition uint64_field :: "parsed_command \<Rightarrow> string \<Rightarrow> nat" where
  "uint64_field args k = (case uint64_fields args k of None \<Rightarrow> 0 | Some v \<Rightarrow> v)"

definition string_field :: "parsed_command \<Rightarrow> string \<Rightarrow> string" where
  "string_field args k = (case string_fields args k of None \<Rightarrow> [] | Some v \<Rightarrow> v)"

section \<open>The handler\<close>

record 'd command_handler =
  ch_inspector :: "'d inspector"
  ch_options :: print_opts
  ch_output :: string

definition new_handler :: "'d inspector \<Rightarrow> 'd command_handler" where
  "new_handler ins =
    \<lparr>ch_inspector = ins, ch_options = \<lparr>display_hex = False, hide_array = True\<rparr>, ch_output = []\<rparr>"

definition out :: "string \<Rightarrow> ('d command_handler, unit) act" where
  "out t = modify (\<lambda>s. s\<lparr>ch_output := ch_output s @ t\<rparr>)"

definition inspect :: "('d inspector, 'a) act \<Rightarrow> ('d command_handler, 'a) act" where
  "inspect m s =
    (case m (ch_inspector s) of
       None \<Rightarrow> None
     | Some (r, ins) \<Rightarrow> Some (r, s\<lparr>ch_inspector := ins\<rparr>))"

text \<open>\<open>object->ToString(&value, options_)\<close> sent to the output.\<close>

definition print_object ::
  "('d, 'z) command_lib_scheme \<Rightarrow> disk_struct \<Rightarrow> bytes \<Rightarrow> ('d command_handler, unit) act" where
  "print_object L object value =
     abind (gets ch_options) (\<lambda>opts. out (cl_to_string L object value opts))"

definition TogglePrintHex :: "('d command_handler, unit) act" where
  "TogglePrintHex =
     abind (modify (\<lambda>s. s\<lparr>ch_options := (ch_options s)\<lparr>display_hex := \<not> display_hex (ch_options s)\<rparr>\<rparr>)) (\<lambda>_.
     abind (gets (\<lambda>s. display_hex (ch_options s))) (\<lambda>hex.
     if hex then out ''Displaying numbers as hexadecimal.
'' else out ''Displaying numbers in base 10.
''))"

definition ToggleHideArray :: "('d command_handler, unit) act" where
  "ToggleHideArray =
     abind (modify (\<lambda>s. s\<lparr>ch_options := (ch_options s)\<lparr>hide_array := \<not> hide_array (ch_options s)\<rparr>\<rparr>)) (\<lambda>_.
     abind (gets (\<lambda>s. hide_array (ch_options s))) (\<lambda>hide.
     if hide then out ''Hiding array elements on print.
'' else out ''Showing array elements on print.
''))"

definition PrintSuperblock :: "('d, 'z) command_lib_scheme \<Rightarrow> ('d command_handler, unit) act" where
  "PrintSuperblock L =
     abind (inspect InspectSuperblock) (\<lambda>sb. print_object L GetSuperblockStruct (superblock_bytes sb))"

definition PrintInode :: "('d, 'z) command_lib_scheme \<Rightarrow> nat \<Rightarrow> ('d command_handler, unit) act" where
  "PrintInode L index =
     abind (inspect (InspectInodeRange L index (u64 (index + 1)))) (\<lambda>inodes.
     print_object L (GetInodeStruct index) (store_inode 0 (inodes ! 0) zero_bytes))"

fun print_inodes ::
  "('d, 'z) command_lib_scheme \<Rightarrow> nat \<Rightarrow> inode list \<Rightarrow> ('d command_handler, unit) act" where
  "print_inodes L i [] = ret ()"
| "print_inodes L i (x # xs) =
     abind (print_object L (GetInodeStruct i) (store_inode 0 x zero_bytes))
       (\<lambda>_. print_inodes L (i + 1) xs)"

definition PrintInodes :: "('d, 'z) command_lib_scheme \<Rightarrow> nat \<Rightarrow> ('d command_handler, unit) act" where
  "PrintInodes L limit =
     abind (gets (\<lambda>s. min limit (GetInodeCount (ch_inspector s)))) (\<lambda>cnt.
     if cnt = 0 then ret ()
     else abind (inspect (InspectInodeRange L 0 cnt)) (print_inodes L 0))"

text \<open>The status of each \<open>PrintInode\<close> is dropped.\<close>

fun print_each_inode ::
  "('d, 'z) command_lib_scheme \<Rightarrow> nat list \<Rightarrow> ('d command_handler, unit) act" where
  "print_each_inode L [] = ret ()"
| "print_each_inode L (i # js) = try_act (PrintInode L i) (\<lambda>_. print_each_inode L js)"

definition PrintAllocatedInodes ::
  "('d, 'z) command_lib_scheme \<Rightarrow> nat \<Rightarrow> ('d command_handler, unit) act" where
  "PrintAllocatedInodes L limit =
     abind (gets (\<lambda>s. GetInodeCount (ch_inspector s))) (\<lambda>cnt.
     if cnt = 0 then ret ()
     else abind (inspect (InspectInodeAllocatedInRange L 0 cnt)) (\<lambda>allocated_indices.
       print_each_inode L (take limit allocated_indices)))"

definition PrintJournalSuperblock ::
  "('d, 'z) command_lib_scheme \<Rightarrow> ('d command_handler, unit) act" where
  "PrintJournalSuperblock L =
     abind (inspect (InspectJournalSuperblock L)) (print_object L (cl_journal_superblock_struct L))"

definition PrintJournalHeader ::
  "('d, 'z) command_lib_scheme \<Rightarrow> nat \<Rightarrow> ('d command_handler, unit) act" where
  "PrintJournalHeader L index =
     abind (inspect (InspectJournalEntryAs L index)) (print_object L (cl_journal_header_struct L index))"

definition PrintJournalCommit ::
  "('d, 'z) command_lib_scheme \<Rightarrow> nat \<Rightarrow> ('d command_handler, unit) act" where
  "PrintJournalCommit L index =
     abind (inspect (InspectJournalEntryAs L index)) (print_object L (cl_journal_commit_struct L index))"

fun print_journal_entries ::
  "('d, 'z) command_lib_scheme \<Rightarrow> nat list \<Rightarrow> ('d command_handler, unit) act" where
  "print_journal_entries L [] = ret ()"
| "print_journal_entries L (i # js) =
     abind (inspect (InspectJournalEntryAs L i)) (\<lambda>prefix.
     try_act
       (case cl_object_type L prefix of
          kHeader \<Rightarrow> PrintJournalHeader L i
        | kCommit \<Rightarrow> PrintJournalCommit L i
        | kRevocation \<Rightarrow> out (''Name: Journal Revocation, Block #'' @ decimal i @ ''
'')
        | kUnknown \<Rightarrow> out (''Name: Journal Unknown, Block #'' @ decimal i @ ''
''))
       (\<lambda>_. print_journal_entries L js))"

definition PrintJournalEntries ::
  "('d, 'z) command_lib_scheme \<Rightarrow> nat \<Rightarrow> ('d command_handler, unit) act" where
  "PrintJournalEntries L limit =
     abind (gets (\<lambda>s. min limit (GetJournalEntryCount (ch_inspector s)))) (\<lambda>cnt.
     print_journal_entries L [0..<cnt])"

definition PrintBackupSuperblock ::
  "('d, 'z) command_lib_scheme \<Rightarrow> ('d command_handler, unit) act" where
  "PrintBackupSuperblock L =
     abind (inspect (InspectBackupSuperblock L)) (\<lambda>sb.
     print_object L GetSuperblockStruct (superblock_bytes sb))"

definition WriteSuperblockField ::
  "('d, 'z) command_lib_scheme \<Rightarrow> string \<Rightarrow> string \<Rightarrow> ('d command_handler, unit) act" where
  "WriteSuperblockField L fieldname value =
     abind (inspect InspectSuperblock) (\<lambda>sb.
     case cl_write_field L GetSuperblockStruct (superblock_bytes sb) [fieldname] [0] value of
       (Ok _, b) \<Rightarrow> inspect (WriteSuperblock L (load_superblock b))
     | (Err e, _) \<Rightarrow> fail e
     | (Panic, _) \<Rightarrow> abort)"

section \<open>The table of commands\<close>

type_synonym 'd handler_command = "command_sig \<times> (parsed_command \<Rightarrow> ('d command_handler, unit) act)"

definition command ::
  "string \<Rightarrow> (string \<times> arg_type \<times> string) list \<Rightarrow> string
    \<Rightarrow> (parsed_command \<Rightarrow> ('d command_handler, unit) act) \<Rightarrow> 'd handler_command" where
  "command name params help f = (\<lparr>cs_name = name, cs_fields = params, cs_help = help\<rparr>, f)"

definition command_list :: "('d, 'z) command_lib_scheme \<Rightarrow> 'd handler_command list" where
  "command_list L =
    [command ''TogglePrintHex'' [] ''Toggles printing fields in hexadecimal.'' (\<lambda>args. TogglePrintHex),
     command ''ToggleHideArray'' [] ''Toggles showing array field entries.'' (\<lambda>args. ToggleHideArray),
     command ''PrintSuperblock'' [] ''Prints the superblock.'' (\<lambda>args. PrintSuperblock L),
     command ''PrintInode'' [(''index'', kUint64, ''Index of inode in inode table.'')]
       ''Prints an inode from the inode table.'' (\<lambda>args. PrintInode L (uint64_field args ''index'')),
     command ''PrintInodes'' [(''max'', kUint64, ''Maximum number of inodes to print.'')]
       ''Prints all the inodes in the inode table''
       (\<lambda>args. PrintInodes L (uint64_field args ''max'')),
     command ''PrintAllocatedInodes''
       [(''max'', kUint64, ''Maximum number of allocated inodes to print.'')]
       ''Prints all the allocated inodes in the inode table based on the inode allocation bitmap.''
       (\<lambda>args. PrintAllocatedInodes L (uint64_field args ''max'')),
     command ''PrintJournalSuperblock'' [] ''Prints the journal superblock.''
       (\<lambda>args. PrintJournalSuperblock L),
     command ''PrintJournalEntries'' [(''max'', kUint64, ''Maximum number of entries to print.'')]
       (''Prints all the journal entries as headers, commits, revocation and unknown based on entry ''
         @ ''prefix.'')
       (\<lambda>args. PrintJournalEntries L (uint64_field args ''max'')),
     command ''PrintJournalHeader'' [(''index'', kUint64, ''Index of journal entry to cast.'')]
       ''Prints a journal entry cast as a journal header.''
       (\<lambda>args. PrintJournalHeader L (uint64_field args ''index'')),
     command ''PrintJournalCommit'' [(''index'', kUint64, ''Index of journal entry to cast.'')]
       ''Prints a journal entry cast as a journal commit.''
       (\<lambda>args. PrintJournalCommit L (uint64_field args ''index'')),
     command ''PrintBackupSuperblock'' [] ''Prints the backup superblock.''
       (\<lambda>args. PrintBackupSuperblock L),
     command ''WriteSuperblockField''
       [(''fieldname'', kString, ''Name of superblock field.''),
        (''value'', kString, ''Value to set field.'')]
       ''Set the value of a field of the superblock to disk.''
       (\<lambda>args. WriteSuperblockField L (string_field args ''fieldname'') (string_field args ''value''))]"

definition name_to_index :: "'d handler_command list \<Rightarrow> string \<rightharpoonup> nat" where
  "name_to_index cs = foldl (\<lambda>m i. m(cs_name (fst (cs ! i)) \<mapsto> i)) Map.empty [0..<length cs]"

definition PrintSupportedCommands ::
  "('d, 'z) command_lib_scheme \<Rightarrow> ('d command_handler, unit) act" where
  "PrintSupportedCommands L = out (cl_command_list L (map fst (command_list L)))"

text \<open>The usage of a command whose arguments do not parse goes to the error stream.\<close>

definition CallCommand ::
  "('d, 'z) command_lib_scheme \<Rightarrow> string list \<Rightarrow> ('d command_handler, unit) act" where
  "CallCommand L command_args =
    (if command_args = [] then fail ZX_ERR_INVALID_ARGS
     else case name_to_index (command_list L) (command_args ! 0) of
       None \<Rightarrow> fail ZX_ERR_NOT_SUPPORTED
     | Some i \<Rightarrow>
         abind (lift_res (cl_parse L command_args (fst (command_list L ! i)))) (\<lambda>args.
         snd (command_list L ! i) args))"

end
