(* ===== verification/Inspector_Laws.thy ===== *)
theory Inspector_Laws
  imports Commands Keeps
begin

text \<open>
  What the inspector returns is what the device holds, and which of its commands change anything.
  The laws state the documented behaviour of the transaction handler: a read fills the blocks of
  the buffer from the device, a write stores them; either may fail.
\<close>

section \<open>The laws of the libraries\<close>

definition law_create :: "('d, 'z) inspect_lib_scheme \<Rightarrow> ('d \<Rightarrow> bytes) \<Rightarrow> bool" where
  "law_create L content \<longleftrightarrow>
     (\<forall>n d. content (snd (il_create_buffer L n d)) = content d
        \<and> (case fst (il_create_buffer L n d) of
             Ok b \<Rightarrow> bb_capacity b = n \<and> bb_block_size b = kMinfsBlockSize \<and> byte_block (bb_bytes b)
           | Err e \<Rightarrow> True
           | Panic \<Rightarrow> False))"

definition law_read_op :: "('d, 'z) inspect_lib_scheme \<Rightarrow> ('d \<Rightarrow> bytes) \<Rightarrow> bool" where
  "law_read_op L content \<longleftrightarrow>
     (\<forall>vmo dev n b d.
        let ((r, b'), d') = il_run_operation L (read_op vmo dev n) b d
        in content d' = content d \<and> bb_capacity b' = bb_capacity b
           \<and> bb_block_size b' = bb_block_size b
           \<and> (case r of
                Ok _ \<Rightarrow> bb_bytes b' = copy_bytes (vmo * kMinfsBlockSize) (content d)
                          (dev * kMinfsBlockSize) (n * kMinfsBlockSize) (bb_bytes b)
              | Err e \<Rightarrow> True
              | Panic \<Rightarrow> False))"

definition law_write_op :: "('d, 'z) inspect_lib_scheme \<Rightarrow> ('d \<Rightarrow> bytes) \<Rightarrow> bool" where
  "law_write_op L content \<longleftrightarrow>
     (\<forall>vmo dev n b d.
        let ((r, b'), d') = il_run_operation L (write_op vmo dev n) b d
        in b' = b
           \<and> (\<forall>i. i < dev * kMinfsBlockSize \<or> (dev + n) * kMinfsBlockSize \<le> i
                \<longrightarrow> content d' i = content d i)
           \<and> (case r of
                Ok _ \<Rightarrow> content d' = copy_bytes (dev * kMinfsBlockSize) (bb_bytes b)
                          (vmo * kMinfsBlockSize) (n * kMinfsBlockSize) (content d)
              | Err e \<Rightarrow> True
              | Panic \<Rightarrow> False))"

definition inspect_laws :: "('d, 'z) inspect_lib_scheme \<Rightarrow> ('d \<Rightarrow> bytes) \<Rightarrow> bool" where
  "inspect_laws L content \<longleftrightarrow>
     law_create L content \<and> law_read_op L content \<and> law_write_op L content \<and> il_bits L = 64"

text \<open>A library whose calls do not fail.\<close>

definition never_fails :: "('d, 'z) inspect_lib_scheme \<Rightarrow> bool" where
  "never_fails L \<longleftrightarrow>
     (\<forall>n d. is_ok (fst (il_create_buffer L n d)))
     \<and> (\<forall>x b d. is_ok (fst (fst (il_run_operation L x b d))))"

text \<open>The device in memory.\<close>

definition memory_inspect :: "bytes inspect_lib" where
  "memory_inspect =
    \<lparr>il_create_buffer = (\<lambda>n d.
       (Ok \<lparr>bb_capacity = n, bb_block_size = kMinfsBlockSize, bb_bytes = zero_bytes\<rparr>, d)),
     il_run_operation = (\<lambda>x b d.
       let mem = vmo_offset x * kMinfsBlockSize;
           dev = dev_offset x * kMinfsBlockSize;
           n = op_length x * kMinfsBlockSize
       in case op_kind x of
            kRead \<Rightarrow> ((Ok (), b\<lparr>bb_bytes := copy_bytes mem d dev n (bb_bytes b)\<rparr>), d)
          | kWrite \<Rightarrow> ((Ok (), b), copy_bytes dev (bb_bytes b) mem n d)
          | kTrim \<Rightarrow> ((Ok (), b), d)),
     il_journal_info = bb_bytes,
     il_bits = 64\<rparr>"

lemma memory_inspect_laws: "inspect_laws memory_inspect (\<lambda>d. d)"
  by (auto simp: inspect_laws_def law_create_def law_read_op_def law_write_op_def memory_inspect_def
      read_op_def write_op_def Let_def copy_bytes_def algebra_simps byte_block_def zero_bytes_def)

lemma memory_inspect_never_fails: "never_fails memory_inspect"
  by (simp add: never_fails_def memory_inspect_def Let_def split: op_type.splits)

lemma create_law:
  assumes "inspect_laws L content"
  shows "content (snd (il_create_buffer L n d)) = content d"
    "fst (il_create_buffer L n d) = Ok b \<Longrightarrow> bb_capacity b = n \<and> bb_block_size b = kMinfsBlockSize
      \<and> byte_block (bb_bytes b)"
    "fst (il_create_buffer L n d) \<noteq> Panic"
  using assms unfolding inspect_laws_def law_create_def by (force split: res.splits)+

lemma read_law:
  assumes "inspect_laws L content" "il_run_operation L (read_op vmo dev n) b d = ((r, b'), d')"
  shows "content d' = content d" "bb_capacity b' = bb_capacity b" "bb_block_size b' = bb_block_size b"
    "r \<noteq> Panic"
    "r = Ok u \<Longrightarrow> bb_bytes b' = copy_bytes (vmo * kMinfsBlockSize) (content d) (dev * kMinfsBlockSize)
      (n * kMinfsBlockSize) (bb_bytes b)"
proof -
  have "let ((r, b'), d') = il_run_operation L (read_op vmo dev n) b d in
      content d' = content d \<and> bb_capacity b' = bb_capacity b \<and> bb_block_size b' = bb_block_size b
      \<and> (case r of Ok _ \<Rightarrow> bb_bytes b' = copy_bytes (vmo * kMinfsBlockSize) (content d)
            (dev * kMinfsBlockSize) (n * kMinfsBlockSize) (bb_bytes b) | Err e \<Rightarrow> True | Panic \<Rightarrow> False)"
    using assms(1) unfolding inspect_laws_def law_read_op_def by (elim conjE allE)
  then show "content d' = content d" "bb_capacity b' = bb_capacity b"
    "bb_block_size b' = bb_block_size b" "r \<noteq> Panic"
    "r = Ok u \<Longrightarrow> bb_bytes b' = copy_bytes (vmo * kMinfsBlockSize) (content d) (dev * kMinfsBlockSize)
      (n * kMinfsBlockSize) (bb_bytes b)"
    unfolding assms(2) Let_def by (auto split: res.splits)
qed

lemma write_law:
  assumes "inspect_laws L content" "il_run_operation L (write_op vmo dev n) b d = ((r, b'), d')"
  shows "b' = b" "r \<noteq> Panic"
    "i < dev * kMinfsBlockSize \<or> (dev + n) * kMinfsBlockSize \<le> i \<Longrightarrow> content d' i = content d i"
    "r = Ok u \<Longrightarrow> content d' = copy_bytes (dev * kMinfsBlockSize) (bb_bytes b) (vmo * kMinfsBlockSize)
      (n * kMinfsBlockSize) (content d)"
proof -
  have "let ((r, b'), d') = il_run_operation L (write_op vmo dev n) b d in b' = b
      \<and> (\<forall>i. i < dev * kMinfsBlockSize \<or> (dev + n) * kMinfsBlockSize \<le> i \<longrightarrow> content d' i = content d i)
      \<and> (case r of Ok _ \<Rightarrow> content d' = copy_bytes (dev * kMinfsBlockSize) (bb_bytes b)
            (vmo * kMinfsBlockSize) (n * kMinfsBlockSize) (content d) | Err e \<Rightarrow> True | Panic \<Rightarrow> False)"
    using assms(1) unfolding inspect_laws_def law_write_op_def by (elim conjE allE)
  then show "b' = b" "r \<noteq> Panic"
    "i < dev * kMinfsBlockSize \<or> (dev + n) * kMinfsBlockSize \<le> i \<Longrightarrow> content d' i = content d i"
    "r = Ok u \<Longrightarrow> content d' = copy_bytes (dev * kMinfsBlockSize) (bb_bytes b) (vmo * kMinfsBlockSize)
      (n * kMinfsBlockSize) (content d)"
    unfolding assms(2) Let_def by (auto split: res.splits)
qed

section \<open>Loading a range of blocks\<close>

text \<open>What a load of \<open>n\<close> blocks from \<open>start\<close> may return.\<close>

definition loaded_range :: "bytes \<Rightarrow> nat \<Rightarrow> nat \<Rightarrow> block_buffer \<Rightarrow> bool" where
  "loaded_range c start n b \<longleftrightarrow> bb_block_size b = kMinfsBlockSize
     \<and> (\<forall>i < n * kMinfsBlockSize. bb_bytes b i = c (start * kMinfsBlockSize + i))"

lemma new_buffer_law:
  assumes "inspect_laws L content" "n < 18446744073709551616"
  obtains r d' where
    "on_new_buffer L n (\<lambda>b. RunReadOperation L b 0 start n) s = Some (r, s\<lparr>ins_device := d'\<rparr>)"
    "content d' = content (ins_device s)" "r \<noteq> Panic" "never_fails L \<Longrightarrow> is_ok r"
    "\<And>b. r = Ok b \<Longrightarrow> loaded_range (content (ins_device s)) start n b"
    "\<And>b. r = Ok b \<Longrightarrow> byte_block (content (ins_device s)) \<Longrightarrow> byte_block (bb_bytes b)"
proof (cases "il_create_buffer L n (ins_device s)")
  case (Pair rb d)
  note c = create_law [OF assms(1), of n "ins_device s", unfolded Pair fst_conv snd_conv]
  show ?thesis
  proof (cases rb)
    case (Ok b)
    obtain r b' d' where run: "il_run_operation L (read_op 0 start n) b d = ((r, b'), d')"
      by (metis surj_pair)
    note l = read_law [OF assms(1) run]
    have "u64_sub (bb_capacity b) 0 = n" using c(2) [of b] Ok assms(2) by (simp add: u64_sub_id)
    then have op: "RunReadOperation L b 0 start n d = ((r, b'), d')"
      using run by (simp add: RunReadOperation_def)
    show ?thesis
    proof (rule that [of "res_bind r (\<lambda>_. Ok b')" d'])
      show "on_new_buffer L n (\<lambda>b. RunReadOperation L b 0 start n) s
          = Some (res_bind r (\<lambda>_. Ok b'), s\<lparr>ins_device := d'\<rparr>)"
        using op by (simp add: on_new_buffer_def Pair Ok)
      show "content d' = content (ins_device s)" using l(1) c(1) by simp
      show "res_bind r (\<lambda>_. Ok b') \<noteq> Panic" using l(4) by (cases r) auto
      show "is_ok (res_bind r (\<lambda>_. Ok b'))" if "never_fails L"
      proof -
        have "is_ok (fst (fst (il_run_operation L (read_op 0 start n) b d)))"
          using that unfolding never_fails_def by blast
        then show ?thesis unfolding run by (cases r) auto
      qed
      show "loaded_range (content (ins_device s)) start n x" if "res_bind r (\<lambda>_. Ok b') = Ok x" for x
        using that l(3,5) c(1) c(2) [of b] Ok
        by (auto simp: loaded_range_def copy_bytes_def)
      show "byte_block (bb_bytes x)"
        if "res_bind r (\<lambda>_. Ok b') = Ok x" "byte_block (content (ins_device s))" for x
        using that l(5) c(1) c(2) [of b] Ok
        by (auto simp: byte_block_def copy_bytes_def)
    qed
  next
    case (Err e)
    have "\<not> never_fails L" using Pair Err unfolding never_fails_def by (metis fst_conv is_ok.simps(2))
    then show ?thesis
      using that [of "Err e" d] c(1) by (simp add: on_new_buffer_def Pair Err)
  next
    case Panic
    then show ?thesis using c(3) by simp
  qed
qed

section \<open>Bits and inodes of a loaded range\<close>

lemma bit_plus_times:
  fixes x y :: nat
  assumes "x < 2 ^ n"
  shows "bit (x + 2 ^ n * y) k = (if k < n then bit x k else bit y (k - n))"
proof -
  have "take_bit n (x + 2 ^ n * y) = x" "drop_bit n (x + 2 ^ n * y) = y"
    using assms by (simp_all add: take_bit_eq_mod drop_bit_eq_div)
  then have "bit x k = (k < n \<and> bit (x + 2 ^ n * y) k)" "bit y (k - n) = bit (x + 2 ^ n * y) (n + (k - n))"
    by (metis bit_take_bit_iff, metis bit_drop_bit_eq comp_apply)
  then show ?thesis by auto
qed

lemma bit_get_u32:
  assumes "byte_block b" "q < 4" "r < 8"
  shows "bit (get_u32 b off) (8 * q + r) = bit (b (off + q)) r"
proof -
  have b: "b i < 2 ^ 8" for i using assms(1) by (simp add: byte_block_def)
  have step: "bit (b i + 256 * y) k = (if k < 8 then bit (b i) k else bit y (k - 8))" for i y k
    using bit_plus_times [OF b, of i y k] by simp
  have "q = 0 \<or> q = 1 \<or> q = 2 \<or> q = 3" using assms(2) by linarith
  moreover have "bit (b i) (8 + j) \<longleftrightarrow> False" for i j
    using step [of i 0 "8 + j"] by simp
  ultimately show ?thesis using assms(3) unfolding get_u32_def
    by (elim disjE) (simp_all add: step del: distrib_left_numeral distrib_left add_mult_distrib2)
qed

lemma bit_get_u64:
  assumes "byte_block b" "q < 8" "r < 8"
  shows "bit (get_u64 b off) (8 * q + r) = bit (b (off + q)) r"
proof -
  have less: "get_u32 b off < 2 ^ 32" using get_u32_byte_block(1) [OF assms(1)] by simp
  note s = bit_plus_times [OF less, of "get_u32 b (off + 4)" "8 * q + r"]
  show ?thesis
  proof (cases "q < 4")
    case True
    then have "8 * q + r < 32" using assms(3) by linarith
    then show ?thesis using s bit_get_u32 [OF assms(1) True assms(3), of off] by (simp add: get_u64_def)
  next
    case False
    then have "\<not> 8 * q + r < 32" "8 * q + r - 32 = 8 * (q - 4) + r" "q - 4 < 4" "off + 4 + (q - 4) = off + q"
      using assms(2) by linarith+
    then show ?thesis using s bit_get_u32 [OF assms(1) _ assms(3), of "q - 4" "off + 4"]
      by (simp add: get_u64_def)
  qed
qed

text \<open>The bit at \<open>index\<close> is in the byte at an eighth of it: words of the bitmap library or not.\<close>

lemma GetBitmapElement_bit:
  assumes "byte_block (bb_bytes b)"
  shows "GetBitmapElement 64 b index = bit (bb_bytes b (index div 8)) (index mod 8)"
proof -
  define q where "q = index div 64"
  define m where "m = index mod 64"
  have "index = 64 * q + m" "m < 64" by (simp_all add: q_def m_def)
  then have i: "index = 8 * (8 * q) + m" "m < 64" by simp_all
  have e: "index div 8 = 8 * q + m div 8" "index mod 8 = m mod 8" "m div 8 < 8" "m mod 8 < 8"
    using i(2) unfolding i(1) by (simp_all only: div_mult_self4 mod_mult_self4)
  have "bit (get_u64 (bb_bytes b) (8 * q)) (8 * (m div 8) + m mod 8)
      = bit (bb_bytes b (8 * q + m div 8)) (m mod 8)"
    by (rule bit_get_u64 [OF assms e(3,4)])
  then show ?thesis
    unfolding e(1,2) by (simp add: GetBitmapElement_def Let_def bit_iff_and_push_bit_not_eq_0 q_def m_def)
qed

text \<open>The element \<open>i\<close> counted from \<open>start\<close> lies within the blocks loaded for \<open>start..<stop\<close>, at the
  place it has from the start of the whole table.\<close>

lemma loaded_index:
  fixes start stop k :: nat
  assumes "0 < k" "start + i < stop"
  shows "(start mod k + i) div k < (stop - 1) div k - start div k + 1"
    "(start div k) * k + (start mod k + i) = start + i"
proof -
  show e: "(start div k) * k + (start mod k + i) = start + i" by simp
  have "(start + i) div k = ((start mod k + i) + (start div k) * k) div k"
    using e by (simp only: add.commute)
  then have "(start + i) div k = start div k + (start mod k + i) div k"
    using assms(1) by (simp only: div_mult_self1)
  moreover have "(start + i) div k \<le> (stop - 1) div k" using assms(2) by (intro div_le_mono) simp
  ultimately show "(start mod k + i) div k < (stop - 1) div k - start div k + 1" by linarith
qed

lemma loaded_bit:
  assumes "loaded_range c (first + start div kMinfsBlockBits) n b" "byte_block (bb_bytes b)"
    "n = (stop - 1) div kMinfsBlockBits - start div kMinfsBlockBits + 1" "start + i < stop"
  shows "GetBitmapElement 64 b (start mod kMinfsBlockBits + i)
    = bit (c (first * kMinfsBlockSize + (start + i) div 8)) ((start + i) mod 8)"
proof -
  let ?j = "start mod kMinfsBlockBits + i"
  have k: "kMinfsBlockBits = 65536" "kMinfsBlockSize = 8192" by (simp_all add: format_consts)
  note l = loaded_index [of kMinfsBlockBits start i stop]
  have "?j div 65536 < n" using l(1) assms(3,4) by (simp add: k)
  then have j: "?j div 8 < n * 8192" by (simp add: k)
  have "start + i = 8 * (8192 * (start div 65536)) + ?j" using l(2) assms(4) by (simp add: k)
  then have "(start + i) div 8 = 8192 * (start div 65536) + ?j div 8" "(start + i) mod 8 = ?j mod 8"
    by (simp_all only: div_mult_self4 mod_mult_self4)
  then show ?thesis
    using assms(1) j unfolding GetBitmapElement_bit [OF assms(2)]
    by (simp add: loaded_range_def k algebra_simps)
qed

lemma loaded_inode:
  assumes "loaded_range c (first + start div kMinfsInodesPerBlock) n b"
    "n = (stop - 1) div kMinfsInodesPerBlock - start div kMinfsInodesPerBlock + 1"
    "start + i < stop" "stop \<le> 4294967296"
  shows "GetInodeElement b (start mod kMinfsInodesPerBlock + i)
    = load_inode c (first * kMinfsBlockSize + (start + i) * kMinfsInodeSize)"
proof -
  let ?j = "start mod 32 + i"
  define q where "q = ?j div 32"
  define r where "r = ?j mod 32"
  define t where "t = start div 32"
  have k: "kMinfsInodesPerBlock = 32" "kMinfsBlockSize = 8192" "kMinfsInodeSize = 256"
    by (simp_all add: format_consts)
  note l = loaded_index [of kMinfsInodesPerBlock start i stop]
  have j: "q < n" using l(1) assms(2,3) by (simp add: k q_def)
  have r: "r < 32" "?j = 32 * q + r" by (simp_all add: r_def q_def)
  have e: "start + i = 32 * t + (32 * q + r)"
    using l(2) assms(3) unfolding r(2) [symmetric] by (simp add: k t_def)
  then have q: "q * 8192 < 18446744073709551616" using assms(3,4) by linarith
  have "GetInodeElement b ?j = load_inode (bb_bytes b) (q * 8192 + 256 * r)"
    using assms(1) q
    by (simp add: GetInodeElement_def buffer_data_def Let_def k loaded_range_def q_def [symmetric]
        r_def [symmetric] u64_id)
  also have "\<dots> = load_inode c (first * 8192 + (start + i) * 256)"
  proof (rule load_inode_shift)
    fix x assume "x < kMinfsInodeSize"
    then have "q * 8192 + 256 * r + x < n * 8192" using j r(1) unfolding k by linarith
    then have "bb_bytes b (q * 8192 + 256 * r + x)
        = c ((first + t) * 8192 + (q * 8192 + 256 * r + x))"
      using assms(1) by (simp add: loaded_range_def k t_def)
    also have "(first + t) * 8192 + (q * 8192 + 256 * r + x) = first * 8192 + (start + i) * 256 + x"
      unfolding e by (simp add: algebra_simps)
    finally show "bb_bytes b (q * 8192 + 256 * r + x) = c (first * 8192 + (start + i) * 256 + x)" .
  qed
  finally show ?thesis by (simp only: k)
qed

text \<open>The load of the blocks that hold the elements \<open>start..<stop\<close> of a table whose blocks hold
  \<open>k\<close> of them; no computation wraps for the 32-bit numbers of the format.\<close>

lemma range_load:
  assumes "inspect_laws L content" "start < stop" "stop \<le> 4294967296" "f < 4294967296" "1 < k"
  obtains r d where
    "on_new_buffer L (u64 (u64_sub ((stop - 1) div k) (start div k) + 1))
       (\<lambda>b. RunReadOperation L b 0 (u64 (f + start div k))
              (u64 (u64_sub ((stop - 1) div k) (start div k) + 1))) s = Some (r, s\<lparr>ins_device := d\<rparr>)"
    "content d = content (ins_device s)" "r \<noteq> Panic" "never_fails L \<Longrightarrow> is_ok r"
    "\<And>b. r = Ok b \<Longrightarrow> loaded_range (content (ins_device s)) (f + start div k)
       ((stop - 1) div k - start div k + 1) b"
    "\<And>b. r = Ok b \<Longrightarrow> byte_block (content (ins_device s)) \<Longrightarrow> byte_block (bb_bytes b)"
proof -
  let ?n = "(stop - 1) div k - start div k + 1"
  have d: "start div k \<le> (stop - 1) div k" using assms(2) by (intro div_le_mono) simp
  moreover have "(stop - 1) div k \<le> stop - 1" "start div k \<le> start" by simp_all
  ultimately have "(stop - 1) div k < 4294967296" "f + start div k < 18446744073709551616"
    using assms(2-4) by linarith+
  then have u: "u64 (u64_sub ((stop - 1) div k) (start div k) + 1) = ?n" "?n < 18446744073709551616"
    "u64 (f + start div k) = f + start div k"
    using d by (simp_all add: u64_sub_id u64_id)
  show ?thesis
    by (rule new_buffer_law [OF assms(1) u(2), of "f + start div k" s]) (rule that, unfold u, assumption+)
qed

lemma range_index:
  assumes "i < stop - start" "stop \<le> 4294967296"
  shows "u64 (start mod k + i) = start mod k + i" "u64 (start + i) = start + i"
proof -
  have "start mod k \<le> start" by simp
  then have "start mod k + i < 18446744073709551616" "start + i < 18446744073709551616"
    using assms by linarith+
  then show "u64 (start mod k + i) = start mod k + i" "u64 (start + i) = start + i"
    by (simp_all only: u64_id)
qed

lemma map_from: "map f [start..<stop] = map (\<lambda>i. f (start + i)) [0..<stop - start]"
proof -
  have "[start..<stop] = map (\<lambda>i. start + i) [0..<stop - start]"
    by (rule nth_equalityI) simp_all
  then show ?thesis by simp
qed

lemma filter_from:
  "filter P [start..<stop] = map (\<lambda>i. start + i) (filter (\<lambda>i. P (start + i)) [0..<stop - start])"
proof -
  have "[start..<stop] = map (\<lambda>i. start + i) [0..<stop - start]"
    by (rule nth_equalityI) simp_all
  then show ?thesis by (simp add: filter_map o_def)
qed

section \<open>Ranges of inodes and of allocation bits\<close>

text \<open>C34: For a range of inode numbers, InspectInodeAllocatedInRange returns those whose bit of the
  inode bitmap on the device is set, in order; it changes nothing, does not abort, and fails only
  when a call of the library fails.\<close>

theorem InspectInodeAllocatedInRange_correct:
  assumes "inspect_laws L content" "byte_block (content (ins_device s))" "start < stop"
    "stop \<le> 4294967296" "ibm_block (ins_superblock s) < 4294967296"
  shows "\<exists>r d. InspectInodeAllocatedInRange L start stop s = Some (r, s\<lparr>ins_device := d\<rparr>)
    \<and> content d = content (ins_device s)
    \<and> (case r of
         Ok xs \<Rightarrow> xs = filter (\<lambda>i. bit (content (ins_device s)
             (ibm_block (ins_superblock s) * kMinfsBlockSize + i div 8)) (i mod 8)) [start..<stop]
       | Err e \<Rightarrow> \<not> never_fails L
       | Panic \<Rightarrow> False)"
proof -
  let ?c = "content (ins_device s)" and ?f = "ibm_block (ins_superblock s)"
  let ?k = kMinfsBlockBits
  have k: "1 < ?k" by (simp add: format_consts)
  obtain r d where run:
    "on_new_buffer L (u64 (u64_sub ((stop - 1) div ?k) (start div ?k) + 1))
       (\<lambda>b. RunReadOperation L b 0 (u64 (?f + start div ?k))
              (u64 (u64_sub ((stop - 1) div ?k) (start div ?k) + 1))) s = Some (r, s\<lparr>ins_device := d\<rparr>)"
    and c: "content d = ?c" and r: "r \<noteq> Panic" "never_fails L \<Longrightarrow> is_ok r"
    and b: "\<And>b. r = Ok b \<Longrightarrow> loaded_range ?c (?f + start div ?k)
       ((stop - 1) div ?k - start div ?k + 1) b" "\<And>b. r = Ok b \<Longrightarrow> byte_block (bb_bytes b)"
    by (rule range_load [OF assms(1,3,4,5) k]) (use assms(2) in blast)
  let ?xs = "\<lambda>b. map (\<lambda>i. u64 (start + i))
    (filter (\<lambda>i. GetBitmapElement 64 b (u64 (start mod ?k + i))) [0..<stop - start])"
  have whole: "InspectInodeAllocatedInRange L start stop s
      = Some (res_bind r (\<lambda>b. Ok (?xs b)), s\<lparr>ins_device := d\<rparr>)"
    using assms(1,3) unfolding InspectInodeAllocatedInRange_def Let_def
    by (cases r) (simp_all add: abind_def gets_def assert_act_def run ret_def inspect_laws_def
        del: gets_bind assert_bind One_nat_def add_Suc_right)
  have "?xs b = filter (\<lambda>i. bit (?c (?f * kMinfsBlockSize + i div 8)) (i mod 8)) [start..<stop]"
    if "r = Ok b" for b
  proof -
    have "GetBitmapElement 64 b (u64 (start mod ?k + i))
        = bit (?c (?f * kMinfsBlockSize + (start + i) div 8)) ((start + i) mod 8)"
      if "i < stop - start" for i
      using loaded_bit [OF b(1) [OF \<open>r = Ok b\<close>] b(2) [OF \<open>r = Ok b\<close>] refl, of i]
        range_index(1) [OF that assms(4)] that by simp
    then show ?thesis unfolding filter_from [where start = start]
      using range_index(2) [OF _ assms(4)] by (auto intro!: map_cong filter_cong)
  qed
  then show ?thesis unfolding whole using c r
    by (intro exI conjI) (rule refl, assumption, cases r, auto)
qed

theorem InspectInodeAllocatedInRange_correct_witness:
  "\<exists>r d. InspectInodeAllocatedInRange memory_inspect 2 6
        \<lparr>ins_device = (\<lambda>i. 85), ins_superblock = words_superblock (replicate 2048 7),
         ins_buffer = \<lparr>bb_capacity = 1, bb_block_size = 8192, bb_bytes = zero_bytes\<rparr>\<rparr> = Some (r, d)
      \<and> r = Ok [2, 4]"
proof -
  let ?s = "\<lparr>ins_device = (\<lambda>i. 85), ins_superblock = words_superblock (replicate 2048 7),
    ins_buffer = \<lparr>bb_capacity = 1, bb_block_size = 8192, bb_bytes = zero_bytes\<rparr>\<rparr> :: bytes inspector"
  have bits: "bit (85::nat) 2" "\<not> bit (85::nat) 3" "bit (85::nat) 4" "\<not> bit (85::nat) 5"
    by (simp_all add: bit_iff_odd)
  have "ibm_block (words_superblock (replicate 2048 7)) = 7"
    by (simp add: words_superblock_def nth_replicate)
  then show ?thesis
    using InspectInodeAllocatedInRange_correct [OF memory_inspect_laws, of ?s 2 6]
      memory_inspect_never_fails bits
    by (auto simp: byte_block_def upt_rec split: res.splits) (metis res.exhaust)
qed

text \<open>C35: For a range of inode numbers, InspectInodeRange returns the inodes at their places in the
  inode table of the device, in order, changes nothing and fails only when the library fails.\<close>

theorem InspectInodeRange_correct:
  assumes "inspect_laws L content" "start < stop" "stop \<le> 4294967296"
    "ino_block (ins_superblock s) < 4294967296"
  shows "\<exists>r d. InspectInodeRange L start stop s = Some (r, s\<lparr>ins_device := d\<rparr>)
    \<and> content d = content (ins_device s)
    \<and> (case r of
         Ok xs \<Rightarrow> xs = map (\<lambda>i. load_inode (content (ins_device s))
             (ino_block (ins_superblock s) * kMinfsBlockSize + i * kMinfsInodeSize)) [start..<stop]
       | Err e \<Rightarrow> \<not> never_fails L
       | Panic \<Rightarrow> False)"
proof -
  let ?c = "content (ins_device s)" and ?f = "ino_block (ins_superblock s)"
  let ?k = kMinfsInodesPerBlock
  have k: "1 < ?k" by (simp add: format_consts)
  obtain r d where run:
    "on_new_buffer L (u64 (u64_sub ((stop - 1) div ?k) (start div ?k) + 1))
       (\<lambda>b. RunReadOperation L b 0 (u64 (?f + start div ?k))
              (u64 (u64_sub ((stop - 1) div ?k) (start div ?k) + 1))) s = Some (r, s\<lparr>ins_device := d\<rparr>)"
    and c: "content d = ?c" and r: "r \<noteq> Panic" "never_fails L \<Longrightarrow> is_ok r"
    and b: "\<And>b. r = Ok b \<Longrightarrow> loaded_range ?c (?f + start div ?k)
       ((stop - 1) div ?k - start div ?k + 1) b"
    by (rule range_load [OF assms k]) blast
  let ?xs = "\<lambda>b. map (\<lambda>i. GetInodeElement b (u64 (start mod ?k + i))) [0..<stop - start]"
  have whole: "InspectInodeRange L start stop s
      = Some (res_bind r (\<lambda>b. Ok (?xs b)), s\<lparr>ins_device := d\<rparr>)"
    using assms(2) unfolding InspectInodeRange_def Let_def
    by (cases r) (simp_all add: abind_def gets_def assert_act_def run ret_def
        del: gets_bind assert_bind One_nat_def add_Suc_right)
  have "?xs b = map (\<lambda>i. load_inode ?c (?f * kMinfsBlockSize + i * kMinfsInodeSize)) [start..<stop]"
    if "r = Ok b" for b
  proof -
    have "GetInodeElement b (u64 (start mod ?k + i))
        = load_inode ?c (?f * kMinfsBlockSize + (start + i) * kMinfsInodeSize)"
      if "i < stop - start" for i
      using loaded_inode [OF b [OF \<open>r = Ok b\<close>] refl _ assms(3), of i]
        range_index(1) [OF that assms(3)] that by simp
    then show ?thesis unfolding map_from [where start = start] by (auto intro!: map_cong)
  qed
  then show ?thesis unfolding whole using c r
    by (intro exI conjI) (rule refl, assumption, cases r, auto)
qed

text \<open>In a device filled with the byte 7 every inode number is read from the table at block 7, and
  each word of an inode is four of these bytes.\<close>

theorem InspectInodeRange_correct_witness:
  "\<exists>r d. InspectInodeRange memory_inspect 31 33
        \<lparr>ins_device = (\<lambda>i. 7), ins_superblock = words_superblock (replicate 2048 7),
         ins_buffer = \<lparr>bb_capacity = 1, bb_block_size = 8192, bb_bytes = zero_bytes\<rparr>\<rparr> = Some (r, d)
      \<and> r = Ok [load_inode (\<lambda>i. 7) 65280, load_inode (\<lambda>i. 7) 65536]"
proof -
  let ?s = "\<lparr>ins_device = (\<lambda>i. 7), ins_superblock = words_superblock (replicate 2048 7),
    ins_buffer = \<lparr>bb_capacity = 1, bb_block_size = 8192, bb_bytes = zero_bytes\<rparr>\<rparr> :: bytes inspector"
  have "ino_block (words_superblock (replicate 2048 7)) = 7"
    by (simp add: words_superblock_def nth_replicate)
  then show ?thesis
    using InspectInodeRange_correct [OF memory_inspect_laws, of 31 33 ?s] memory_inspect_never_fails
    by (auto simp: upt_rec format_consts split: res.splits) (metis res.exhaust)
qed

text \<open>The largest index of a command makes the end of the range wrap to 0, and the process aborts.\<close>

lemma PrintInode_wraps:
  "PrintInode L 18446744073709551615 h = Some (Panic, h)"
  by (simp add: PrintInode_def inspect_def InspectInodeRange_def u64_def abind_def assert_act_def
      del: assert_bind)

section \<open>Commands\<close>

definition holds :: "('d \<Rightarrow> bytes) \<Rightarrow> bytes \<Rightarrow> superblock \<Rightarrow> 'd inspector \<Rightarrow> bool" where
  "holds content c sb ins \<longleftrightarrow> content (ins_device ins) = c \<and> ins_superblock ins = sb"

lemma read_keeps:
  assumes "inspect_laws L content" "RunReadOperation L b vmo dev n d = ((r, b'), d')"
  shows "content d' = content d"
  using assms(2) read_law(1) [OF assms(1)] by (auto simp: RunReadOperation_def split: if_splits)

lemma keeps_on_buffer [keeps_rules]:
  "inspect_laws L content \<Longrightarrow> keeps (holds content c sb) (on_buffer (\<lambda>b. RunReadOperation L b vmo dev n))"
  by (rule keepsI) (auto simp: on_buffer_def holds_def Let_def read_keeps split: prod.splits)

lemma keeps_on_new_buffer [keeps_rules]:
  assumes "inspect_laws L content"
  shows "keeps (holds content c sb) (on_new_buffer L n (\<lambda>b. RunReadOperation L b vmo dev m))"
proof (rule keepsI)
  fix s r s'
  assume s: "holds content c sb s" "on_new_buffer L n (\<lambda>b. RunReadOperation L b vmo dev m) s = Some (r, s')"
  obtain rb d where "il_create_buffer L n (ins_device s) = (rb, d)" by fastforce
  then show "holds content c sb s'"
    using s create_law(1) [OF assms, of n "ins_device s"]
    by (cases rb) (auto simp: on_new_buffer_def holds_def read_keeps [OF assms] split: prod.splits)
qed

lemma keeps_inspect [keeps_rules]:
  "keeps P m \<Longrightarrow> keeps (\<lambda>h. P (ch_inspector h)) (inspect m)"
  by (rule keepsI) (auto simp: inspect_def dest: keepsD split: option.splits)

lemmas inspector_defs = InspectSuperblock_def InspectInodeRange_def InspectInodeAllocatedInRange_def
  InspectJournalSuperblock_def InspectJournalEntryAs_def LoadJournalEntry_def
  InspectBackupSuperblock_def loader_LoadSuperblock_def [abs_def]

lemma keeps_inspections:
  assumes "inspect_laws L content"
  shows "keeps (holds content c sb) InspectSuperblock"
    "keeps (holds content c sb) (InspectInodeRange L i j)"
    "keeps (holds content c sb) (InspectInodeAllocatedInRange L i j)"
    "keeps (holds content c sb) (InspectJournalSuperblock L)"
    "keeps (holds content c sb) (InspectJournalEntryAs L i)"
    "keeps (holds content c sb) (InspectBackupSuperblock L)"
  unfolding inspector_defs by (intro keeps_rules assms)+

lemma keeps_out [keeps_rules]: "keeps (\<lambda>h. P (ch_inspector h)) (out t)"
  unfolding out_def by (intro keeps_rules) simp

lemma keeps_print_object [keeps_rules]: "keeps (\<lambda>h. P (ch_inspector h)) (print_object L object v)"
  unfolding print_object_def by (intro keeps_rules)

lemma keeps_loops:
  assumes "inspect_laws L content"
  shows "keeps (\<lambda>h. holds content c sb (ch_inspector h)) (print_inodes L i xs)"
    "keeps (\<lambda>h. holds content c sb (ch_inspector h)) (print_each_inode L ks)"
    "keeps (\<lambda>h. holds content c sb (ch_inspector h)) (print_journal_entries L ks)"
proof -
  let ?P = "\<lambda>h. holds content c sb (ch_inspector h)"
  note rules = keeps_rules keeps_inspections [OF assms]
  show "keeps ?P (print_inodes L i xs)" by (induction xs arbitrary: i) (simp, intro rules, simp, intro rules)
  show "keeps ?P (print_each_inode L ks)"
    by (induction ks) (simp, intro rules, simp add: PrintInode_def, intro rules)
  show "keeps ?P (print_journal_entries L ks)"
  proof (induction ks)
    case (Cons i ks)
    have "keeps ?P (case cl_object_type L prefix of
          kHeader \<Rightarrow> PrintJournalHeader L i
        | kCommit \<Rightarrow> PrintJournalCommit L i
        | kRevocation \<Rightarrow> out (''Name: Journal Revocation, Block #'' @ decimal i @ ''
'')
        | kUnknown \<Rightarrow> out (''Name: Journal Unknown, Block #'' @ decimal i @ ''
''))" for prefix
      unfolding PrintJournalHeader_def PrintJournalCommit_def
      by (cases "cl_object_type L prefix"; simp only: journal_object.case; intro rules)
    then show ?case unfolding print_journal_entries.simps by (intro rules Cons.IH)
  qed (simp, intro rules)
qed

lemma name_to_index_Some:
  assumes "name_to_index cs w = Some i"
  shows "i < length cs" "cs_name (fst (cs ! i)) = w"
proof -
  have "foldl (\<lambda>m i. m(cs_name (fst (cs ! i)) \<mapsto> i)) Map.empty [0..<n] w = Some i
      \<longrightarrow> i < n \<and> cs_name (fst (cs ! i)) = w" for n
    by (induction n) auto
  then show "i < length cs" "cs_name (fst (cs ! i)) = w"
    using assms unfolding name_to_index_def by blast+
qed

text \<open>Every command of the table but the last only reads.\<close>

lemma commands_read:
  assumes "inspect_laws L content" "i < length (command_list L)"
    "cs_name (fst (command_list L ! i)) \<noteq> ''WriteSuperblockField''"
  shows "keeps (\<lambda>h. holds content c sb (ch_inspector h)) (snd (command_list L ! i) args)"
proof -
  let ?P = "\<lambda>h. holds content c sb (ch_inspector h)"
  note rules = keeps_rules keeps_inspections [OF assms(1)] keeps_loops [OF assms(1)]
  have toggles: "keeps ?P TogglePrintHex" "keeps ?P ToggleHideArray"
    unfolding TogglePrintHex_def ToggleHideArray_def by (intro keeps_rules, simp)+
  have prints: "keeps ?P (PrintSuperblock L)" "keeps ?P (PrintInode L n)" "keeps ?P (PrintInodes L n)"
    "keeps ?P (PrintAllocatedInodes L n)" "keeps ?P (PrintJournalSuperblock L)"
    "keeps ?P (PrintJournalEntries L n)" "keeps ?P (PrintJournalHeader L n)"
    "keeps ?P (PrintJournalCommit L n)" "keeps ?P (PrintBackupSuperblock L)" for n
    unfolding PrintSuperblock_def PrintInode_def PrintInodes_def PrintAllocatedInodes_def
      PrintJournalSuperblock_def PrintJournalEntries_def PrintJournalHeader_def PrintJournalCommit_def
      PrintBackupSuperblock_def by (intro rules)+
  have "list_all (\<lambda>p. cs_name (fst p) \<noteq> ''WriteSuperblockField'' \<longrightarrow> keeps ?P (snd p args)) (command_list L)"
    using toggles prints by (simp add: command_list_def command_def)
  then show ?thesis using assms(2,3) by (simp add: list_all_length)
qed

lemma superblock_of_block:
  assumes "byte_block b"
  shows "superblock_fits (load_superblock b)"
  using superblock_words_superblock(2) store_load_words [OF assms, of 0 2048]
  by (simp add: load_superblock_def)

text \<open>The superblock the inspector keeps is the one on the device.\<close>

definition synced :: "('d \<Rightarrow> bytes) \<Rightarrow> 'd inspector \<Rightarrow> bool" where
  "synced content ins \<longleftrightarrow> load_superblock (content (ins_device ins)) = ins_superblock ins"

lemma load_superblock_cong:
  assumes "\<And>i. i < kMinfsBlockSize \<Longrightarrow> a i = b i"
  shows "load_superblock a = load_superblock b"
  unfolding load_superblock_def using assms by (simp add: format_consts cong: load_words_cong)

lemma WriteSuperblock_law:
  assumes "inspect_laws L content" "superblock_fits sb" "WriteSuperblock L sb ins = Some (r, ins')"
  shows "kMinfsBlockSize \<le> i \<Longrightarrow> content (ins_device ins') i = content (ins_device ins) i"
    "r = Ok u \<Longrightarrow> synced content ins'"
proof -
  let ?b = "(ins_buffer ins)\<lparr>bb_bytes := copy_bytes 0 (superblock_bytes sb) 0 kMinfsBlockSize
    (bb_bytes (ins_buffer ins))\<rparr>"
  obtain r1 b' d' where run: "RunWriteOperation L ?b 0 0 1 (ins_device ins) = ((r1, b'), d')"
    by (metis surj_pair)
  have w: "ins_device ins' = d' \<and> r = r1 \<and> (is_ok r \<longrightarrow> ins_superblock ins' = sb)"
    using assms(3) run
    by (cases r1) (auto simp: WriteSuperblock_def on_buffer_def abind_def modify_def Let_def
        simp del: modify_bind)
  have op: "r1 = Panic \<or> il_run_operation L (write_op 0 0 1) ?b (ins_device ins) = ((r1, b'), d')"
    "r1 = Panic \<Longrightarrow> d' = ins_device ins \<or> il_run_operation L (write_op 0 0 1) ?b (ins_device ins) = ((r1, b'), d')"
    using run by (auto simp: RunWriteOperation_def split: if_splits)
  show "content (ins_device ins') i = content (ins_device ins) i" if "kMinfsBlockSize \<le> i"
    using w op write_law(3) [OF assms(1), of 0 0 1 ?b "ins_device ins" r1 b' d' i] that by auto
  show "synced content ins'" if "r = Ok u"
  proof -
    have "il_run_operation L (write_op 0 0 1) ?b (ins_device ins) = ((r1, b'), d')"
      using w that op(1) by auto
    from write_law(4) [OF assms(1) this, of u]
    have "content d' = copy_bytes 0 (bb_bytes ?b) 0 kMinfsBlockSize (content (ins_device ins))"
      using w that by simp
    then have "load_superblock (content d') = load_superblock (superblock_bytes sb)"
      by (intro load_superblock_cong) (simp add: copy_bytes_def)
    then show ?thesis using w that assms(2) by (simp add: synced_def)
  qed
qed

text \<open>Setting a field edits bytes in place.\<close>

definition law_write_field :: "('d, 'z) command_lib_scheme \<Rightarrow> bool" where
  "law_write_field L \<longleftrightarrow>
     (\<forall>object b names idx v. byte_block b \<longrightarrow> byte_block (snd (cl_write_field L object b names idx v)))"

lemma superblock_bytes_block: "byte_block (superblock_bytes sb)"
proof -
  have "byte_block b \<Longrightarrow> byte_block (store_words off ws b)" for off ws b
    by (induction ws arbitrary: off b) (auto simp: byte_block_def set_u32_def)
  then show ?thesis by (simp add: superblock_bytes_def byte_block_def zero_bytes_def)
qed

lemma WriteSuperblockField_law:
  assumes "inspect_laws L content" "law_write_field L" "WriteSuperblockField L f v h = Some (r, h')"
  shows "kMinfsBlockSize \<le> i
      \<Longrightarrow> content (ins_device (ch_inspector h')) i = content (ins_device (ch_inspector h)) i"
    "r = Ok u \<Longrightarrow> synced content (ch_inspector h')"
proof -
  let ?sb = "ins_superblock (ch_inspector h)"
  obtain q b where q: "cl_write_field L GetSuperblockStruct (superblock_bytes ?sb) [f] [0] v = (q, b)"
    by fastforce
  have fits: "superblock_fits (load_superblock b)"
    using assms(2) superblock_bytes_block [of ?sb] q superblock_of_block
    unfolding law_write_field_def by (metis snd_conv)
  have h: "(case (q, b) of (Ok _, b) \<Rightarrow> inspect (WriteSuperblock L (load_superblock b))
       | (Err e, _) \<Rightarrow> fail e | (Panic, _) \<Rightarrow> abort) h = Some (r, h')"
    using assms(3) unfolding q [symmetric]
    by (simp add: WriteSuperblockField_def InspectSuperblock_def inspect_def abind_def gets_def)
  show "kMinfsBlockSize \<le> i
      \<Longrightarrow> content (ins_device (ch_inspector h')) i = content (ins_device (ch_inspector h)) i"
    "r = Ok u \<Longrightarrow> synced content (ch_inspector h')"
    using h WriteSuperblock_law [OF assms(1) fits]
    by (cases q; auto simp: inspect_def fail_def abort_def split: option.splits)+
qed

text \<open>No command loops for ever.\<close>

definition ends :: "('s, 'a) act \<Rightarrow> bool" where
  "ends m \<longleftrightarrow> (\<forall>s. \<exists>r s'. m s = Some (r, s'))"

lemma ends_simple:
  "ends (ret x)" "ends (fail e)" "ends abort" "ends (gets f)" "ends (modify g)" "ends (lift_res r)"
  "ends (assert_act b)" "ends (on_buffer k)" "ends (out t)"
  by (simp_all add: ends_def ret_def fail_def abort_def gets_def modify_def lift_res_def assert_act_def
      on_buffer_def out_def Let_def split_beta)

lemma ends_on_new_buffer: "ends (on_new_buffer L n k)"
  by (auto simp: ends_def on_new_buffer_def split_beta Let_def split: res.splits prod.splits)

lemma ends_abind:
  assumes "ends m" "\<And>x. ends (f x)"
  shows "ends (abind m f)"
  unfolding ends_def
proof
  fix s
  obtain r s1 where "m s = Some (r, s1)" using assms(1) unfolding ends_def by blast
  then show "\<exists>r s'. abind m f s = Some (r, s')"
    using assms(2) [unfolded ends_def] by (cases r) (simp_all add: abind_def)
qed

lemma ends_try_act:
  assumes "ends m" "\<And>x. ends (f x)"
  shows "ends (try_act m f)"
  unfolding ends_def
proof
  fix s
  obtain r s1 where "m s = Some (r, s1)" using assms(1) unfolding ends_def by blast
  then show "\<exists>r s'. try_act m f s = Some (r, s')"
    using assms(2) [unfolded ends_def] by (cases r) (simp_all add: try_act_def)
qed

lemma ends_inspect: "ends m \<Longrightarrow> ends (inspect m)"
  unfolding ends_def inspect_def by (metis (no_types, lifting) option.simps(5) prod.case)

lemma ends_if: "ends m \<Longrightarrow> ends m' \<Longrightarrow> ends (if c then m else m')"
  by simp

lemmas ends_rules = ends_simple ends_on_new_buffer ends_abind ends_try_act ends_inspect ends_if

lemma inspections_end:
  "ends InspectSuperblock" "ends (InspectInodeRange L i j)" "ends (InspectInodeAllocatedInRange L i j)"
  "ends (InspectJournalSuperblock L)" "ends (InspectJournalEntryAs L i)" "ends (InspectBackupSuperblock L)"
  "ends (WriteSuperblock L sb)" "ends (print_object L object b)"
  unfolding inspector_defs WriteSuperblock_def print_object_def Let_def by (intro ends_rules)+

lemma loops_end:
  "ends (print_inodes L i xs)" "ends (print_each_inode L ks)" "ends (print_journal_entries L ks)"
proof -
  note rules = ends_rules inspections_end
  show "ends (print_inodes L i xs)" by (induction xs arbitrary: i) (simp_all only: print_inodes.simps, intro rules, intro rules)
  show "ends (print_each_inode L ks)"
    by (induction ks) (simp_all only: print_each_inode.simps PrintInode_def, intro rules, intro rules)
  show "ends (print_journal_entries L ks)"
  proof (induction ks)
    case (Cons i ks)
    show ?case unfolding print_journal_entries.simps
    proof (intro rules Cons.IH)
      fix x
      show "ends (case cl_object_type L x of
            kHeader \<Rightarrow> PrintJournalHeader L i
          | kCommit \<Rightarrow> PrintJournalCommit L i
          | kRevocation \<Rightarrow> out (''Name: Journal Revocation, Block #'' @ decimal i @ ''
'')
          | kUnknown \<Rightarrow> out (''Name: Journal Unknown, Block #'' @ decimal i @ ''
''))"
        unfolding PrintJournalHeader_def PrintJournalCommit_def
        by (cases "cl_object_type L x"; simp only: journal_object.case; intro rules)
    qed
  qed (simp only: print_journal_entries.simps, intro rules)
qed

lemma WriteSuperblockField_ends: "ends (WriteSuperblockField L f v)"
  unfolding WriteSuperblockField_def
  by (intro ends_abind inspections_end ends_inspect) (auto split: prod.split res.split intro: ends_rules inspections_end)

lemma commands_end:
  fixes L :: "('d, 'z) command_lib_scheme"
  assumes "i < length (command_list L)"
  shows "ends (snd (command_list L ! i) args)"
proof -
  note rules = ends_rules inspections_end loops_end
  have "ends (TogglePrintHex :: ('d command_handler, unit) act)"
    "ends (ToggleHideArray :: ('d command_handler, unit) act)" "ends (PrintSuperblock L)" "ends (PrintInode L n)"
    "ends (PrintInodes L n)" "ends (PrintAllocatedInodes L n)" "ends (PrintJournalSuperblock L)"
    "ends (PrintJournalEntries L n)" "ends (PrintJournalHeader L n)" "ends (PrintJournalCommit L n)"
    "ends (PrintBackupSuperblock L)" for n
    unfolding TogglePrintHex_def ToggleHideArray_def PrintSuperblock_def PrintInode_def PrintInodes_def
      PrintAllocatedInodes_def PrintJournalSuperblock_def PrintJournalEntries_def PrintJournalHeader_def
      PrintJournalCommit_def PrintBackupSuperblock_def
    by (intro rules)+
  then have "list_all (\<lambda>p. ends (snd p args)) (command_list L)"
    using WriteSuperblockField_ends by (simp add: command_list_def command_def)
  then show ?thesis using assms by (simp add: list_all_length)
qed

lemma CallCommand_ends: "\<exists>r h'. CallCommand L args h = Some (r, h')"
proof -
  have "ends (CallCommand L args)"
    unfolding CallCommand_def
    by (auto intro!: ends_rules commands_end name_to_index_Some(1) split: option.split)
  then show ?thesis by (simp add: ends_def)
qed

lemma CallCommand_run:
  assumes "inspect_laws L content" "law_write_field L" "CallCommand L args h = Some (r, h')"
  shows "(\<forall>i. kMinfsBlockSize \<le> i
        \<longrightarrow> content (ins_device (ch_inspector h')) i = content (ins_device (ch_inspector h)) i)
    \<and> (args \<noteq> [] \<and> args ! 0 = ''WriteSuperblockField''
       \<or> content (ins_device (ch_inspector h')) = content (ins_device (ch_inspector h))
         \<and> ins_superblock (ch_inspector h') = ins_superblock (ch_inspector h))
    \<and> (synced content (ch_inspector h) \<and> is_ok r \<longrightarrow> synced content (ch_inspector h'))"
proof (cases "h' = h")
  case False
  let ?P = "holds content (content (ins_device (ch_inspector h))) (ins_superblock (ch_inspector h))"
  obtain i a where i: "name_to_index (command_list L) (args ! 0) = Some i" "args \<noteq> []"
    and run: "snd (command_list L ! i) a h = Some (r, h')"
    using assms(3) False
    by (auto simp: CallCommand_def abind_def lift_res_def split: if_splits option.splits res.splits)
  note n = name_to_index_Some [OF i(1)]
  show ?thesis
  proof (cases "args ! 0 = ''WriteSuperblockField''")
    case False
    then have "?P (ch_inspector h')"
      using keepsD [OF commands_read [OF assms(1) n(1)] _ run] n(2) by (simp add: holds_def)
    then show ?thesis by (simp add: holds_def synced_def)
  next
    case True
    have "list_all (\<lambda>p. cs_name (fst p) = ''WriteSuperblockField'' \<longrightarrow>
        snd p = (\<lambda>a. WriteSuperblockField L (string_field a ''fieldname'') (string_field a ''value'')))
      (command_list L)" by (simp add: command_list_def command_def)
    then have "snd (command_list L ! i) a
        = WriteSuperblockField L (string_field a ''fieldname'') (string_field a ''value'')"
      using n True by (simp add: list_all_length)
    then show ?thesis
      using True i(2) WriteSuperblockField_law [OF assms(1,2), of _ _ h r h'] run
      by (auto simp: is_ok_iff)
  qed
qed simp

text \<open>C36: On a device that reads and writes as documented, every command of the inspector comes to a
  result: success, an error, or an assertion that aborts. It changes at most the first block of the
  device, and every command but \<open>WriteSuperblockField\<close> leaves the device and the superblock as they are.
  If the superblock the inspector works with was the one on the device, then it is so again after a
  command that succeeded; after a \<open>WriteSuperblockField\<close> that failed it need not be.\<close>

theorem CallCommand_safe:
  assumes "inspect_laws L content" "law_write_field L"
  shows "\<exists>r h'. CallCommand L args h = Some (r, h')
    \<and> (\<forall>i. kMinfsBlockSize \<le> i
        \<longrightarrow> content (ins_device (ch_inspector h')) i = content (ins_device (ch_inspector h)) i)
    \<and> (args \<noteq> [] \<and> args ! 0 = ''WriteSuperblockField''
       \<or> content (ins_device (ch_inspector h')) = content (ins_device (ch_inspector h))
         \<and> ins_superblock (ch_inspector h') = ins_superblock (ch_inspector h))
    \<and> (synced content (ch_inspector h) \<and> is_ok r \<longrightarrow> synced content (ch_inspector h'))"
  using CallCommand_ends [of L args h] CallCommand_run [OF assms] by blast

text \<open>A library whose edits set the first byte, and the command that edits a field.\<close>

definition memory_commands :: "bytes command_lib" where
  "memory_commands = inspect_lib.extend memory_inspect
    \<lparr>cl_parse = (\<lambda>args sig. Ok \<lparr>string_fields = Map.empty, uint64_fields = Map.empty\<rparr>),
     cl_command_list = (\<lambda>sigs. []),
     cl_to_string = (\<lambda>object b opts. []),
     cl_write_field = (\<lambda>object b names idx v. (Ok (), b(0 := 1))),
     cl_journal_superblock_struct = GetSuperblockStruct,
     cl_journal_header_struct = GetInodeStruct,
     cl_journal_commit_struct = GetInodeStruct,
     cl_object_type = (\<lambda>b. kUnknown)\<rparr>"

lemma memory_commands_laws:
  "inspect_laws memory_commands (\<lambda>d. d)" "law_write_field memory_commands"
  using memory_inspect_laws
  by (simp_all add: inspect_laws_def law_create_def law_read_op_def law_write_op_def law_write_field_def
      memory_commands_def memory_inspect_def inspect_lib.defs byte_block_def)

lemma memory_commands_fields:
  "cl_parse memory_commands args sig = Ok \<lparr>string_fields = Map.empty, uint64_fields = Map.empty\<rparr>"
  "cl_write_field memory_commands object b names idx v = (Ok (), b(0 := 1))"
  "il_run_operation memory_commands (write_op m dev n) x d
    = ((Ok (), x), copy_bytes (dev * kMinfsBlockSize) (bb_bytes x) (m * kMinfsBlockSize)
        (n * kMinfsBlockSize) d)"
  by (simp_all add: memory_commands_def memory_inspect_def inspect_lib.defs write_op_def)

theorem CallCommand_safe_witness:
  "\<exists>h'. CallCommand memory_commands [''WriteSuperblockField'']
         (new_handler \<lparr>ins_device = (\<lambda>i. 5), ins_superblock = load_superblock (\<lambda>i. 5),
            ins_buffer = \<lparr>bb_capacity = 1, bb_block_size = 8192, bb_bytes = zero_bytes\<rparr>\<rparr>) = Some (Ok (), h')
      \<and> ins_device (ch_inspector h') 8192 = 5 \<and> synced (\<lambda>d. d) (ch_inspector h')"
proof -
  define sb where "sb = load_superblock (\<lambda>i. 5)"
  let ?i = "\<lparr>ins_device = (\<lambda>i. 5), ins_superblock = sb,
    ins_buffer = \<lparr>bb_capacity = 1, bb_block_size = 8192, bb_bytes = zero_bytes\<rparr>\<rparr> :: bytes inspector"
  have names: "map (\<lambda>c. cs_name (fst c)) (command_list memory_commands) ! 11 = ''WriteSuperblockField''"
    "length (command_list memory_commands) = 12"
    "snd (command_list memory_commands ! 11) a
      = WriteSuperblockField memory_commands (string_field a ''fieldname'') (string_field a ''value'')" for a
    by (simp_all add: command_list_def command_def)
  have index: "name_to_index (command_list memory_commands) ''WriteSuperblockField'' = Some 11"
  proof -
    have "[0..<12] = [0..<11] @ [11::nat]" by (rule upt_Suc_append [of 0 11, simplified])
    then show ?thesis using names(1,2) unfolding name_to_index_def by (simp del: upt_rec_numeral)
  qed
  obtain h' where h: "CallCommand memory_commands [''WriteSuperblockField''] (new_handler ?i) = Some (Ok (), h')"
    by (simp add: CallCommand_def index names(3) abind_def lift_res_def
        memory_commands_fields WriteSuperblockField_def InspectSuperblock_def inspect_def
        gets_def WriteSuperblock_def modify_def on_buffer_def RunWriteOperation_def new_handler_def
        u64_sub_def u64_def Let_def del: lift_res_bind modify_bind gets_bind)
  have "synced (\<lambda>d. d) (ch_inspector (new_handler ?i))"
    by (simp add: synced_def new_handler_def sb_def)
  then show ?thesis
    using h CallCommand_safe [OF memory_commands_laws, of "[''WriteSuperblockField'']" "new_handler ?i"]
    by (auto simp: new_handler_def format_consts sb_def)
qed

end
