(* ===== verification/Inspect_Objects.thy ===== *)
theory Inspect_Objects
  imports Inspector
begin

text \<open>
  The tree of objects of the older disk inspector: \<open>inspector.cc\<close>, \<open>inspector_superblock.cc\<close>,
  \<open>inspector_inode.cc\<close> and \<open>inspector_inode_table.cc\<close>. An object is a value of a datatype with the
  classes as constructors; \<open>GetElementAt\<close> yields \<open>None\<close> for the null pointer. What the tree reads of
  the mounted file system is a record of functions.
\<close>

datatype superblock_type = kPrimary | kBackup

text \<open>\<open>InspectableInodeManager\<close>, as far as the tree uses it.\<close>

record inode_source =
  is_load :: "nat \<Rightarrow> inode"
  is_check_allocated :: "nat \<Rightarrow> bool"

record inode_table =
  it_source :: inode_source
  it_allocated_count :: nat
  it_indices :: "nat list"

datatype disk_object =
    Uint64Object string nat
  | Uint32Object string nat
  | Uint32ArrayObject string "nat list" nat
  | SuperBlockObject superblock superblock_type
  | InodeObject nat nat inode
  | InodeTableObject inode_table
  | JournalObject bytes nat nat

definition element_of :: "disk_object list \<Rightarrow> nat \<Rightarrow> disk_object option" where
  "element_of xs index = (if index < length xs then Some (xs ! index) else None)"

section \<open>The superblock\<close>

definition kSuperblockNumElements :: nat where "kSuperblockNumElements = 28"

definition superblock_GetName :: "superblock_type \<Rightarrow> string" where
  "superblock_GetName t = (if t = kBackup then ''backup superblock'' else ''superblock'')"

definition superblock_GetElementAt :: "superblock \<Rightarrow> nat \<Rightarrow> disk_object option" where
  "superblock_GetElementAt sb = element_of
    [Uint64Object ''magic0'' (magic0 sb),
     Uint64Object ''magic1'' (magic1 sb),
     Uint32Object ''major_version'' (major_version sb),
     Uint32Object ''flags'' (flags sb),
     Uint32Object ''block_size'' (block_size sb),
     Uint32Object ''inode_size'' (inode_size sb),
     Uint32Object ''block_count'' (block_count sb),
     Uint32Object ''inode_count'' (inode_count sb),
     Uint32Object ''alloc_block_count'' (alloc_block_count sb),
     Uint32Object ''alloc_inode_count'' (alloc_inode_count sb),
     Uint32Object ''ibm_block'' (ibm_block sb),
     Uint32Object ''abm_block'' (abm_block sb),
     Uint32Object ''ino_block'' (ino_block sb),
     Uint32Object ''integrity_start_block'' (integrity_start_block sb),
     Uint32Object ''dat_block'' (dat_block sb),
     Uint32Object ''slice_size'' (slice_size sb),
     Uint32Object ''ibm_slices'' (ibm_slices sb),
     Uint32Object ''abm_slices'' (abm_slices sb),
     Uint32Object ''ino_slices'' (ino_slices sb),
     Uint32Object ''integrity_slices'' (integrity_slices sb),
     Uint32Object ''dat_slices'' (dat_slices sb),
     Uint32Object ''unlinked_head'' (unlinked_head sb),
     Uint32Object ''unlinked_tail'' (unlinked_tail sb),
     Uint32Object ''oldest_minor_version'' (oldest_minor_version sb),
     Uint32Object ''checksum'' (checksum sb),
     Uint32Object ''generation_count'' (generation_count sb),
     Uint32ArrayObject ''reserved'' (reserved sb) 1]"

text \<open>There are fewer elements than the object says it has.\<close>

lemma superblock_last_element_missing:
  "superblock_GetElementAt sb (kSuperblockNumElements - 1) = None"
  by (simp add: superblock_GetElementAt_def element_of_def kSuperblockNumElements_def)

section \<open>Inodes\<close>

definition kInodeNumElements :: nat where "kInodeNumElements = 16"

text \<open>\<open>%d\<close> of an unsigned 32-bit number.\<close>

definition signed_decimal :: "nat \<Rightarrow> string" where
  "signed_decimal n = (if n < 2147483648 then decimal n else CHR ''-'' # decimal (4294967296 - n))"

definition inode_GetName :: "nat \<Rightarrow> nat \<Rightarrow> string" where
  "inode_GetName allocated_inode_index inode_index =
    ''allocated #'' @ signed_decimal allocated_inode_index @ '', inode #'' @ signed_decimal inode_index"

definition inode_GetElementAt :: "inode \<Rightarrow> nat \<Rightarrow> disk_object option" where
  "inode_GetElementAt i = element_of
    [Uint32Object ''magic'' (i_magic i),
     Uint32Object ''size'' (i_size i),
     Uint32Object ''block_count'' (i_block_count i),
     Uint32Object ''link_count'' (i_link_count i),
     Uint64Object ''create_time'' (i_create_time i),
     Uint64Object ''modify_time'' (i_modify_time i),
     Uint32Object ''seq_num'' (i_seq_num i),
     Uint32Object ''gen_num'' (i_gen_num i),
     Uint32Object ''dirent_count'' (i_dirent_count i),
     Uint32Object ''last_inode'' (i_last_inode i),
     Uint32Object ''next_inode'' (i_next_inode i),
     Uint32ArrayObject ''reserved'' (i_rsvd i) 3,
     Uint32ArrayObject ''direct blocks'' (dnum i) kMinfsDirect,
     Uint32ArrayObject ''indirect blocks'' (inum i) kMinfsIndirect,
     Uint32ArrayObject ''double indirect blocks'' (dinum i) kMinfsDoublyIndirect]"

lemma inode_last_element_missing: "inode_GetElementAt i (kInodeNumElements - 1) = None"
  by (simp add: inode_GetElementAt_def element_of_def kInodeNumElements_def)

section \<open>The table of allocated inodes\<close>

definition SetupAllocatedInodeIndex :: "inode_source \<Rightarrow> nat \<Rightarrow> nat list" where
  "SetupAllocatedInodeIndex src cnt = filter (is_check_allocated src) [0..<cnt]"

definition new_inode_table :: "inode_source \<Rightarrow> nat \<Rightarrow> nat \<Rightarrow> inode_table" where
  "new_inode_table src allocated_inode_count cnt =
    \<lparr>it_source = src, it_allocated_count = allocated_inode_count,
     it_indices = SetupAllocatedInodeIndex src cnt\<rparr>"

text \<open>An index past the end of the vector of indices is undefined.\<close>

definition table_GetInode :: "inode_table \<Rightarrow> nat \<Rightarrow> disk_object res" where
  "table_GetInode t element_index =
    (if element_index < length (it_indices t)
     then (let inode_index = it_indices t ! element_index
           in Ok (InodeObject element_index inode_index (is_load (it_source t) inode_index)))
     else Panic)"

definition table_GetElementAt :: "inode_table \<Rightarrow> nat \<Rightarrow> disk_object option res" where
  "table_GetElementAt t index =
    (if index \<ge> it_allocated_count t then Ok None
     else res_bind (table_GetInode t index) (\<lambda>x. Ok (Some x)))"

text \<open>With a correct count the elements are the allocated inodes in order.\<close>

lemma table_elements:
  assumes "n = card {i. i < m \<and> is_check_allocated src i}" "k < n"
  obtains i where "table_GetElementAt (new_inode_table src n m) k = Ok (Some (InodeObject k i (is_load src i)))"
    "i < m" "is_check_allocated src i" "card {j. j < i \<and> is_check_allocated src j} = k"
proof -
  define xs where "xs = filter (is_check_allocated src) [0..<m]"
  have set_xs: "set xs = {i. i < m \<and> is_check_allocated src i}" and dist: "distinct xs"
    and sorted: "sorted_wrt (<) xs"
    by (auto simp: xs_def sorted_wrt_filter)
  have k: "k < length xs" using distinct_card [OF dist] assms unfolding set_xs by simp
  note less = sorted_wrt_nth_less [OF sorted]
  have taken: "j \<in> set (take k xs) \<longleftrightarrow> j \<in> set xs \<and> j < xs ! k" for j
  proof
    assume "j \<in> set (take k xs)"
    then obtain p where p: "p < k" "j = xs ! p" using k by (auto simp: in_set_conv_nth)
    then show "j \<in> set xs \<and> j < xs ! k" using less [OF p(1) k] k by simp
  next
    assume j: "j \<in> set xs \<and> j < xs ! k"
    then obtain p where p: "p < length xs" "xs ! p = j" by (metis in_set_conv_nth)
    have "\<not> k < p" using less [of k p] p j by auto
    moreover have "p \<noteq> k" using p j by auto
    ultimately show "j \<in> set (take k xs)" using p by (auto simp: in_set_conv_nth)
  qed
  have "xs ! k < m" using nth_mem [OF k] unfolding set_xs by simp
  then have "{j. j < xs ! k \<and> is_check_allocated src j} = set (take k xs)"
    by (intro set_eqI, unfold taken set_xs) (simp, linarith)
  then have "card {j. j < xs ! k \<and> is_check_allocated src j} = k"
    using k dist by (simp add: distinct_card)
  then show ?thesis
    using that [of "xs ! k"] nth_mem [OF k] k assms(2) unfolding set_xs
    by (simp add: table_GetElementAt_def table_GetInode_def new_inode_table_def
        SetupAllocatedInodeIndex_def Let_def xs_def)
qed

section \<open>The root\<close>

record inspected_fs =
  fs_info :: superblock
  fs_inodes :: inode_source
  fs_read_block :: "nat \<Rightarrow> bytes res"

definition kRootNumElements :: nat where "kRootNumElements = 4"

definition GetSuperBlock :: "inspected_fs \<Rightarrow> disk_object" where
  "GetSuperBlock fs = SuperBlockObject (fs_info fs) kPrimary"

definition GetInodeTable :: "inspected_fs \<Rightarrow> disk_object" where
  "GetInodeTable fs = InodeTableObject (new_inode_table (fs_inodes fs) (alloc_inode_count (fs_info fs))
     (inode_count (fs_info fs)))"

definition GetJournal :: "inspected_fs \<Rightarrow> disk_object option res" where
  "GetJournal fs =
    (let start_block = JournalStartBlock (fs_info fs);
         len = JournalBlocks (fs_info fs)
     in case fs_read_block fs (u32 start_block) of
          Ok data \<Rightarrow> Ok (Some (JournalObject data start_block len))
        | Err e \<Rightarrow> Ok None
        | Panic \<Rightarrow> Panic)"

definition GetBackupSuperBlock :: "inspected_fs \<Rightarrow> disk_object option res" where
  "GetBackupSuperBlock fs =
    (let location = (if (flags (fs_info fs) AND kMinfsFlagFVM) = 0 then kNonFvmSuperblockBackup
                     else kFvmSuperblockBackup)
     in case fs_read_block fs (u32 location) of
          Ok data \<Rightarrow> Ok (Some (SuperBlockObject (load_superblock data) kBackup))
        | Err e \<Rightarrow> Ok None
        | Panic \<Rightarrow> Panic)"

definition root_GetElementAt :: "inspected_fs \<Rightarrow> nat \<Rightarrow> disk_object option res" where
  "root_GetElementAt fs index =
    (if index = 0 then Ok (Some (GetSuperBlock fs))
     else if index = 1 then Ok (Some (GetInodeTable fs))
     else if index = 2 then GetJournal fs
     else if index = 3 then GetBackupSuperBlock fs
     else Ok None)"

lemma root_elements: "root_GetElementAt fs i = Ok None"
  if "kRootNumElements \<le> i"
  using that by (simp add: root_GetElementAt_def kRootNumElements_def)

end
