(* ===== verification/TargetStores.thy ===== *)
theory TargetStores
  imports Allocator Codec
begin

text \<open>
  The stores of the device build: the superblock and the inode table in mapped memory
  (\<open>superblock.cc\<close>, \<open>inode_manager.cc\<close>), the buffers over kernel memory objects
  (\<open>resizeable_vmo_buffer\<close>), and the block cache over a block device (\<open>bcache.cc\<close>, \<open>bcache.h\<close>, and
  \<open>CreateBcache\<close> of \<open>mount.cc\<close>). Calls of the kernel and of the block device are records of functions
  over their state.
\<close>

section \<open>Kernel memory objects\<close>

text \<open>A mapped memory object: its size in bytes and its contents, zeros at first.\<close>

record vmo =
  vm_size :: nat
  vm_bytes :: bytes

record 'd kernel =
  kn_create :: "nat \<Rightarrow> 'd \<Rightarrow> unit res \<times> 'd"
  kn_resize :: "nat \<Rightarrow> vmo \<Rightarrow> 'd \<Rightarrow> unit res \<times> 'd"
  kn_zero :: "nat \<Rightarrow> nat \<Rightarrow> vmo \<Rightarrow> 'd \<Rightarrow> unit res \<times> 'd"
  kn_attach :: "'d \<Rightarrow> nat res \<times> 'd"
  kn_detach :: "nat \<Rightarrow> 'd \<Rightarrow> unit res \<times> 'd"

definition CreateAndMap :: "('d, 'z) kernel_scheme \<Rightarrow> nat \<Rightarrow> ('d, vmo) act" where
  "CreateAndMap K n d =
    (case kn_create K n d of
       (Ok _, d) \<Rightarrow> Some (Ok \<lparr>vm_size = n, vm_bytes = zero_bytes\<rparr>, d)
     | (Err e, d) \<Rightarrow> Some (Err e, d)
     | (Panic, d) \<Rightarrow> Some (Panic, d))"

text \<open>Growing keeps the contents; the new part is zeros.\<close>

definition vmo_Resize :: "('d, 'z) kernel_scheme \<Rightarrow> nat \<Rightarrow> vmo \<Rightarrow> ('d, vmo) act" where
  "vmo_Resize K n v d =
    (case kn_resize K n v d of
       (Ok _, d) \<Rightarrow>
         Some (Ok \<lparr>vm_size = n,
           vm_bytes = (\<lambda>i. if i < min n (vm_size v) then vm_bytes v i else 0)\<rparr>, d)
     | (Err e, d) \<Rightarrow> Some (Err e, d)
     | (Panic, d) \<Rightarrow> Some (Panic, d))"

definition BlockAttachVmo :: "('d, 'z) kernel_scheme \<Rightarrow> ('d, nat) act" where
  "BlockAttachVmo K d = Some (kn_attach K d)"

definition BlockDetachVmo :: "('d, 'z) kernel_scheme \<Rightarrow> nat \<Rightarrow> ('d, unit) act" where
  "BlockDetachVmo K vmoid d = Some (kn_detach K vmoid d)"

section \<open>Buffers that can be resized\<close>

record vmo_buffer =
  vb_block_size :: nat
  vb_vmo :: vmo
  vb_vmoid :: "nat option"

definition vmo_buffer_capacity :: "vmo_buffer \<Rightarrow> nat" where
  "vmo_buffer_capacity b = vm_size (vb_vmo b) div vb_block_size b"

definition vmo_buffer_Data :: "nat \<Rightarrow> vmo_buffer \<Rightarrow> nat" where
  "vmo_buffer_Data index b = u64 (index * vb_block_size b)"

definition vmo_buffer_Grow ::
  "('d, 'z) kernel_scheme \<Rightarrow> nat \<Rightarrow> vmo_buffer \<Rightarrow> ('d, vmo_buffer) act" where
  "vmo_buffer_Grow K cnt b =
    abind (vmo_Resize K (u64 (cnt * vb_block_size b)) (vb_vmo b)) (\<lambda>v. ret (b\<lparr>vb_vmo := v\<rparr>))"

definition vmo_buffer_Shrink ::
  "('d, 'z) kernel_scheme \<Rightarrow> nat \<Rightarrow> vmo_buffer \<Rightarrow> ('d, vmo_buffer) act" where
  "vmo_buffer_Shrink K cnt b =
    abind (vmo_Resize K (u64 (cnt * vb_block_size b)) (vb_vmo b)) (\<lambda>v. ret (b\<lparr>vb_vmo := v\<rparr>))"

definition vmo_buffer_Attach ::
  "('d, 'z) kernel_scheme \<Rightarrow> vmo_buffer \<Rightarrow> ('d, vmo_buffer) act" where
  "vmo_buffer_Attach K b =
    abind (CreateAndMap K (vb_block_size b)) (\<lambda>v.
    abind (BlockAttachVmo K) (\<lambda>vmoid. ret (b\<lparr>vb_vmo := v, vb_vmoid := Some vmoid\<rparr>)))"

definition vmo_buffer_Detach ::
  "('d, 'z) kernel_scheme \<Rightarrow> vmo_buffer \<Rightarrow> ('d, vmo_buffer) act" where
  "vmo_buffer_Detach K b =
    abind (BlockDetachVmo K (case vb_vmoid b of None \<Rightarrow> 0 | Some vmoid \<Rightarrow> vmoid)) (\<lambda>_. ret (b\<lparr>vb_vmoid := None\<rparr>))"

definition vmo_buffer_Zero ::
  "('d, 'z) kernel_scheme \<Rightarrow> nat \<Rightarrow> nat \<Rightarrow> vmo_buffer \<Rightarrow> ('d, vmo_buffer) act" where
  "vmo_buffer_Zero K index cnt b d =
    (let off = u64 (index * vb_block_size b);
         n = u64 (cnt * vb_block_size b)
     in case kn_zero K off n (vb_vmo b) d of
          (Ok _, d) \<Rightarrow>
            Some (Ok (b\<lparr>vb_vmo := (vb_vmo b)\<lparr>vm_bytes := copy_bytes off zero_bytes 0 n (vm_bytes (vb_vmo b))\<rparr>\<rparr>), d)
        | (Err e, d) \<Rightarrow> Some (Err e, d)
        | (Panic, d) \<Rightarrow> Some (Panic, d))"

section \<open>The superblock\<close>

text \<open>The information of the manager is what its mapping holds.\<close>

definition target_SuperblockManager_Create ::
  "('d, 'z) kernel_scheme \<Rightarrow> (superblock \<Rightarrow> nat \<Rightarrow> unit res) \<Rightarrow> superblock \<Rightarrow> nat \<Rightarrow> bool
    \<Rightarrow> ('d, superblock_manager) act" where
  "target_SuperblockManager_Create K check info max_blocks check_all =
    abind (if check_all then lift_res (check info max_blocks) else ret ()) (\<lambda>_.
    abind (CreateAndMap K kMinfsBlockSize) (\<lambda>mapper.
    ret \<lparr>sm_info = info, sm_dirty = False\<rparr>))"

definition target_SuperblockManager_Write ::
  "(superblock \<Rightarrow> nat) \<Rightarrow> (queued \<Rightarrow> 't \<Rightarrow> 't) \<Rightarrow> bool \<Rightarrow> superblock_manager \<times> 't
    \<Rightarrow> superblock_manager \<times> 't" where
  "target_SuperblockManager_Write crc enqueue update_backup s =
    (let (sm, t) = s;
         sm = MutableInfo (UpdateChecksum crc) sm;
         operation = write_op 0 kSuperblockStart 1;
         t = enqueue (operation, SuperblockBuf) t;
         (sm, t) =
           (if update_backup then
              let sm = MutableInfo (\<lambda>i. i) sm;
                  backup = (if (flags (sm_info sm) AND kMinfsFlagFVM) \<noteq> 0 then kFvmSuperblockBackup
                            else kNonFvmSuperblockBackup)
              in (sm, enqueue (operation\<lparr>dev_offset := backup\<rparr>, SuperblockBuf) t)
            else (sm, t))
     in (sm\<lparr>sm_dirty := False\<rparr>, t))"

text \<open>Both builds write the same.\<close>

lemma SuperblockManager_Write_builds_agree:
  "target_SuperblockManager_Write crc enqueue update_backup s
    = SuperblockManager_Write crc enqueue update_backup s"
  by (simp add: target_SuperblockManager_Write_def SuperblockManager_Write_def Let_def split_beta
      superblock_dev_offset_def MutableInfo_def write_op_def)

section \<open>The inode table\<close>

record ('b, 'r) inode_store =
  is_start_block :: nat
  is_block_size :: nat
  is_allocator :: "('b, 'r) allocator"
  is_table :: vmo

definition inode_blocks :: "nat \<Rightarrow> nat" where
  "inode_blocks inodes = u32_sub (u32 (u32 inodes + kMinfsInodesPerBlock)) 1 div kMinfsInodesPerBlock"

text \<open>The result is the manager and the reads queued in the builder, the bitmap's first.\<close>

text \<open>The map of the allocator is a memory object too, attached to the device before it is loaded.\<close>

definition target_LoadStorage ::
  "('d, 'z) kernel_scheme \<Rightarrow> persistent_storage \<Rightarrow> superblock_manager \<Rightarrow> ('d, queued) act" where
  "target_LoadStorage K st sm = abind (BlockAttachVmo K) (\<lambda>_. ret (Storage_Load st sm))"

definition target_Allocator_Create ::
  "('d, 'z) kernel_scheme \<Rightarrow> ('b, 'y) raw_bitmap_scheme \<Rightarrow> persistent_storage \<Rightarrow> superblock_manager
    \<Rightarrow> ('d, ('b, 'r) allocator \<times> queued) act" where
  "target_Allocator_Create K B st sm =
    abind (lift_res (rb_reset B (u32 (PoolBlocks st sm * kMinfsBlockBits)))) (\<lambda>b.
    abind (lift_res (rb_shrink B b (PoolTotal (st_metadata st) sm))) (\<lambda>b.
    abind (target_LoadStorage K st sm) (\<lambda>load.
    ret (\<lparr>al_reserved = 0, al_first_free = 0, al_map = b, al_pending = [], al_changes = Map.empty,
          al_next_id = 0\<rparr>, load))))"

definition target_InodeManager_Create ::
  "('d, 'z) kernel_scheme \<Rightarrow> ('b, 'y) raw_bitmap_scheme \<Rightarrow> superblock_manager \<Rightarrow> allocator_metadata
    \<Rightarrow> nat \<Rightarrow> nat \<Rightarrow> ('d, ('b, 'r) inode_store \<times> queued list) act" where
  "target_InodeManager_Create K B sm md start_block inodes =
    abind (lift_res (SuperblockManager_BlockSize sm)) (\<lambda>bs.
    abind (target_Allocator_Create K B
             \<lparr>st_metadata = md, st_unit_size = kMinfsInodeSize, st_block_size = bs,
              st_buffer = InodeMapBuf\<rparr> sm) (\<lambda>(alloc, load).
    abind (CreateAndMap K (u32 (inode_blocks inodes * bs))) (\<lambda>table.
    abind (BlockAttachVmo K) (\<lambda>vmoid.
    ret (\<lparr>is_start_block = start_block, is_block_size = bs, is_allocator = alloc, is_table = table\<rparr>,
         [load, (read_op 0 start_block (inode_blocks inodes), InodeTableBuf)])))))"

definition store_BlockSize :: "('b, 'r) inode_store \<Rightarrow> nat res" where
  "store_BlockSize m = zx_assert (is_block_size m = kMinfsBlockSize) (Ok (is_block_size m))"

text \<open>The address of an inode in the mapping; a copy past the end of the mapping faults.\<close>

definition inode_address :: "nat \<Rightarrow> nat \<Rightarrow> nat" where
  "inode_address bs ino =
    u32 (ino div kMinfsInodesPerBlock * bs) + (ino mod kMinfsInodesPerBlock) * kMinfsInodeSize"

definition target_InodeManager_Update ::
  "(queued \<Rightarrow> 't \<Rightarrow> 't) \<Rightarrow> nat \<Rightarrow> inode \<Rightarrow> ('b, 'r) inode_store \<times> 't \<Rightarrow> (('b, 'r) inode_store \<times> 't) res" where
  "target_InodeManager_Update enqueue ino inode s =
    (let (m, t) = s;
         inoblock_rel = ino div kMinfsInodesPerBlock;
         inoblock_abs = u32 (inoblock_rel + is_start_block m)
     in res_bind (store_BlockSize m) (\<lambda>bs.
        zx_assert (inode_address bs ino + kMinfsInodeSize \<le> vm_size (is_table m))
          (Ok (m\<lparr>is_table := (is_table m)
                 \<lparr>vm_bytes := store_inode (inode_address bs ino) inode (vm_bytes (is_table m))\<rparr>\<rparr>,
               enqueue (write_op inoblock_rel inoblock_abs 1, InodeTableBuf) t))))"

definition target_InodeManager_Load :: "('b, 'r) inode_store \<Rightarrow> nat \<Rightarrow> inode res" where
  "target_InodeManager_Load m ino =
    res_bind (store_BlockSize m) (\<lambda>bs.
    zx_assert (inode_address bs ino + kMinfsInodeSize \<le> vm_size (is_table m))
      (Ok (load_inode (vm_bytes (is_table m)) (inode_address bs ino))))"

definition target_InodeManager_Grow ::
  "('d, 'z) kernel_scheme \<Rightarrow> nat \<Rightarrow> ('b, 'r) inode_store \<Rightarrow> ('d, ('b, 'r) inode_store) act" where
  "target_InodeManager_Grow K inodes m =
    abind (lift_res (store_BlockSize m)) (\<lambda>bs.
    try_act (vmo_Resize K (u32 (inode_blocks inodes * bs)) (is_table m)) (\<lambda>r.
    case r of Ok v \<Rightarrow> ret (m\<lparr>is_table := v\<rparr>) | _ \<Rightarrow> fail ZX_ERR_NO_SPACE))"

text \<open>The address is computed in 32 bits: inode \<open>2^24\<close> and inode 0 share their place.\<close>

lemma inode_address_wraps: "inode_address kMinfsBlockSize 16777216 = inode_address kMinfsBlockSize 0"
  by (simp add: inode_address_def format_consts u32_def)

section \<open>The block cache\<close>

record device_info =
  bi_block_size :: nat
  bi_block_count :: nat
  bi_read_only :: bool

record 'd block_device = "'d kernel" +
  bd_get_info :: "'d \<Rightarrow> device_info res \<times> 'd"
  bd_run_operation :: "operation \<Rightarrow> bytes \<Rightarrow> 'd \<Rightarrow> (unit res \<times> bytes) \<times> 'd"
  bd_flush :: "'d \<Rightarrow> unit res \<times> 'd"
  bd_init_buffer :: "'d \<Rightarrow> bytes res \<times> 'd"

text \<open>The device itself is part of the state; the cache owns it or only uses it.\<close>

record 'd device_cache =
  dc_device :: 'd
  dc_owned :: bool
  dc_max_blocks :: nat
  dc_info :: device_info
  dc_buffer :: bytes
  dc_paused :: bool

text \<open>A transaction waits while the cache is paused; nothing else in the model resumes it.\<close>

definition cache_RunOperation ::
  "('d, 'z) block_device_scheme \<Rightarrow> operation \<Rightarrow> ('d device_cache, unit) act" where
  "cache_RunOperation D x s =
    (if dc_paused s then None
     else let ((r, b), d) = bd_run_operation D x (dc_buffer s) (dc_device s)
          in Some (r, s\<lparr>dc_buffer := b, dc_device := d\<rparr>))"

definition cache_Readblk ::
  "('d, 'z) block_device_scheme \<Rightarrow> nat \<Rightarrow> ('d device_cache, bytes) act" where
  "cache_Readblk D bno = abind (cache_RunOperation D (read_op 0 bno 1)) (\<lambda>_. gets dc_buffer)"

definition cache_Writeblk ::
  "('d, 'z) block_device_scheme \<Rightarrow> nat \<Rightarrow> bytes \<Rightarrow> ('d device_cache, unit) act" where
  "cache_Writeblk D bno data =
    abind (modify (\<lambda>s. s\<lparr>dc_buffer := copy_bytes 0 data 0 kMinfsBlockSize (dc_buffer s)\<rparr>)) (\<lambda>_.
    cache_RunOperation D (write_op 0 bno 1))"

definition cache_Sync :: "('d, 'z) block_device_scheme \<Rightarrow> ('d device_cache, unit) act" where
  "cache_Sync D s = (let (r, d) = bd_flush D (dc_device s) in Some (r, s\<lparr>dc_device := d\<rparr>))"

definition cache_Pause :: "('d device_cache, unit) act" where
  "cache_Pause s = (if dc_paused s then None else Some (Ok (), s\<lparr>dc_paused := True\<rparr>))"

definition cache_Resume :: "('d device_cache, unit) act" where
  "cache_Resume = modify (\<lambda>s. s\<lparr>dc_paused := False\<rparr>)"

definition BlockNumberToDevice :: "device_info \<Rightarrow> nat \<Rightarrow> nat" where
  "BlockNumberToDevice info block_num = u64 (block_num * kMinfsBlockSize) div bi_block_size info"

definition DeviceBlockSize :: "'d device_cache \<Rightarrow> nat" where
  "DeviceBlockSize s = bi_block_size (dc_info s)"

definition VerifyDeviceInfo :: "('d, 'z) block_device_scheme \<Rightarrow> ('d device_cache, unit) act" where
  "VerifyDeviceInfo D s =
    (case bd_get_info D (dc_device s) of
       (Ok info, d) \<Rightarrow>
         (let s = s\<lparr>dc_info := info, dc_device := d\<rparr>
          in if bi_block_size info = 0 then Some (Panic, s)
             else if kMinfsBlockSize mod bi_block_size info \<noteq> 0 then Some (Err ZX_ERR_BAD_STATE, s)
             else Some (Ok (), s))
     | (Err e, d) \<Rightarrow> Some (Err e, s\<lparr>dc_device := d\<rparr>)
     | (Panic, d) \<Rightarrow> Some (Panic, s\<lparr>dc_device := d\<rparr>))"

text \<open>The first \<open>Create\<close> of the class takes the device over, when the other one succeeds.\<close>

definition DeviceCache_Create ::
  "('d, 'z) block_device_scheme \<Rightarrow> bool \<Rightarrow> nat \<Rightarrow> ('d, 'd device_cache) act" where
  "DeviceCache_Create D own max_blocks d =
    (case bd_init_buffer D d of
       (Ok b, d) \<Rightarrow>
         (case VerifyDeviceInfo D
                 \<lparr>dc_device = d, dc_owned = False, dc_max_blocks = max_blocks,
                  dc_info = \<lparr>bi_block_size = 0, bi_block_count = 0, bi_read_only = False\<rparr>,
                  dc_buffer = b, dc_paused = False\<rparr> of
            None \<Rightarrow> None
          | Some (Ok _, s) \<Rightarrow> Some (Ok (s\<lparr>dc_owned := own\<rparr>), dc_device s)
          | Some (Err e, s) \<Rightarrow> Some (Err e, dc_device s)
          | Some (Panic, s) \<Rightarrow> Some (Panic, dc_device s))
     | (Err e, d) \<Rightarrow> Some (Err e, d)
     | (Panic, d) \<Rightarrow> Some (Panic, d))"

definition DeviceCache_Destroy :: "'d device_cache \<Rightarrow> 'd option" where
  "DeviceCache_Destroy s = (if dc_owned s then Some (dc_device s) else None)"

text \<open>\<open>CreateBcache\<close>: the number of blocks comes from the size of the device.\<close>

definition CreateBcache ::
  "('d, 'z) block_device_scheme \<Rightarrow> ('d, 'd device_cache \<times> bool) act" where
  "CreateBcache D d =
    (case bd_get_info D d of
       (Err e, d) \<Rightarrow> Some (Err e, d)
     | (Panic, d) \<Rightarrow> Some (Panic, d)
     | (Ok info, d) \<Rightarrow>
         (let device_size = bi_block_size info * bi_block_count info in
          if \<not> device_size < 18446744073709551616 then Some (Err ZX_ERR_OUT_OF_RANGE, d)
          else if device_size = 0 then Some (Err ZX_ERR_NO_SPACE, d)
          else if \<not> device_size div kMinfsBlockSize < 4294967296 then Some (Err ZX_ERR_OUT_OF_RANGE, d)
          else abind (DeviceCache_Create D True (device_size div kMinfsBlockSize))
                 (\<lambda>bc. ret (bc, bi_read_only info)) d))"

end
