(* ===== verification/TargetStores_Laws.thy ===== *)
theory TargetStores_Laws
  imports TargetStores
begin

text \<open>
  The inode table in memory is a write-through copy of the table on the device, up to the number of
  inodes that its 32-bit addresses reach; and the block cache that \<open>CreateBcache\<close> makes never leads
  past the end of its device.
\<close>

section \<open>The inode table\<close>

text \<open>The first \<open>n\<close> blocks of the table are the same in memory and on the device.\<close>

definition table_synced :: "nat \<Rightarrow> bytes \<Rightarrow> ('b, 'r) inode_store \<Rightarrow> bool" where
  "table_synced n c m \<longleftrightarrow>
     (\<forall>i < n * kMinfsBlockSize. c (is_start_block m * kMinfsBlockSize + i) = vm_bytes (is_table m) i)"

text \<open>What a queued write of the table does to the device when it is carried out.\<close>

definition carry_out :: "operation \<Rightarrow> ('b, 'r) inode_store \<Rightarrow> bytes \<Rightarrow> bytes" where
  "carry_out x m c =
    copy_bytes (dev_offset x * kMinfsBlockSize) (vm_bytes (is_table m)) (vmo_offset x * kMinfsBlockSize)
      (op_length x * kMinfsBlockSize) c"

lemma inode_address_eq:
  assumes "ino < 16777216"
  shows "inode_address kMinfsBlockSize ino = ino * kMinfsInodeSize"
proof -
  have "ino div 32 * 8192 < 4294967296" using assms by linarith
  moreover have "ino div 32 * 8192 + ino mod 32 * 256 = (ino div 32 * 32 + ino mod 32) * 256"
    by (simp only: distrib_right mult.assoc)
  ultimately show ?thesis by (simp add: inode_address_def format_consts u32_id)
qed

lemma store_inode_elsewhere:
  assumes "inode_fits inode" "i < off \<or> off + kMinfsInodeSize \<le> i"
  shows "store_inode off inode b i = b i"
  using assms store_words_before [of i off] store_words_after [of off "inode_words inode" i]
  by (auto simp: store_inode_def format_consts)

text \<open>Carrying out the write of a block of the table brings a change within that block to the
  device.\<close>

lemma carry_out_synced:
  assumes "table_synced n c m" "m' = m\<lparr>is_table := (is_table m)\<lparr>vm_bytes := new\<rparr>\<rparr>"
    "is_start_block m + rel < 4294967296"
    "\<And>i. i < rel * kMinfsBlockSize \<or> rel * kMinfsBlockSize + kMinfsBlockSize \<le> i
      \<Longrightarrow> new i = vm_bytes (is_table m) i"
  shows "table_synced n (carry_out (write_op rel (u32 (rel + is_start_block m)) 1) m' c) m'"
  unfolding table_synced_def
proof (intro allI impI)
  let ?x = "write_op rel (u32 (rel + is_start_block m)) 1"
  fix i assume i: "i < n * kMinfsBlockSize"
  let ?o = "is_start_block m' * kMinfsBlockSize + i"
  have dev: "dev_offset ?x = rel + is_start_block m" "vmo_offset ?x = rel" "op_length ?x = 1"
    "is_start_block m' = is_start_block m" "vm_bytes (is_table m') = new"
    using assms(2,3) by (simp_all add: write_op_def u32_id add.commute)
  show "carry_out ?x m' c ?o = vm_bytes (is_table m') i"
  proof (cases "rel * kMinfsBlockSize \<le> i \<and> i < rel * kMinfsBlockSize + kMinfsBlockSize")
    case True
    then have "rel * kMinfsBlockSize + (?o - (rel + is_start_block m) * kMinfsBlockSize) = i"
      unfolding dev by (simp add: algebra_simps)
    then show ?thesis using True unfolding carry_out_def dev
      by (simp add: copy_bytes_def algebra_simps)
  next
    case False
    then have "new i = vm_bytes (is_table m) i" by (intro assms(4)) linarith
    moreover have "c ?o = vm_bytes (is_table m) i" using assms(1) i unfolding dev by (simp add: table_synced_def)
    ultimately show ?thesis using False unfolding carry_out_def dev
      by (simp add: copy_bytes_def algebra_simps)
  qed
qed

text \<open>C37: For an inode number below 2^24 whose block lies in the mapped table, \<open>Update\<close> of the device build
  keeps the inode in the table in memory, where \<open>Load\<close> finds it and every other inode below 2^24 is as
  before, and queues the write of exactly the block that changed: if memory and device agreed they
  agree again once that write is carried out. (From 2^24 on the 32-bit address of an inode wraps, see
  \<open>inode_address_wraps\<close>.)\<close>

theorem target_inode_table_writes_through:
  assumes "is_block_size m = kMinfsBlockSize" "inode_fits inode" "ino < 16777216"
    "(ino div kMinfsInodesPerBlock + 1) * kMinfsBlockSize \<le> vm_size (is_table m)"
    "is_start_block m + ino div kMinfsInodesPerBlock < 4294967296"
  shows "\<exists>m' x. target_InodeManager_Update enqueue ino inode (m, t) = Ok (m', enqueue (x, InodeTableBuf) t)
    \<and> target_InodeManager_Load m' ino = Ok inode
    \<and> (\<forall>j. j < 16777216 \<and> j \<noteq> ino \<longrightarrow> target_InodeManager_Load m' j = target_InodeManager_Load m j)
    \<and> (\<forall>n c. table_synced n c m \<longrightarrow> table_synced n (carry_out x m' c) m')"
proof -
  let ?b = "vm_bytes (is_table m)" and ?rel = "ino div kMinfsInodesPerBlock"
  let ?new = "store_inode (ino * kMinfsInodeSize) inode ?b"
  let ?m = "m\<lparr>is_table := (is_table m)\<lparr>vm_bytes := ?new\<rparr>\<rparr>"
  let ?x = "write_op ?rel (u32 (?rel + is_start_block m)) 1"
  have k: "kMinfsInodesPerBlock = 32" "kMinfsBlockSize = 8192" "kMinfsInodeSize = 256"
    by (simp_all add: format_consts)
  have fits: "ino * kMinfsInodeSize + kMinfsInodeSize \<le> vm_size (is_table m)"
  proof -
    have "ino < (ino div 32 + 1) * 32" by presburger
    then show ?thesis using assms(4) unfolding k by linarith
  qed
  have a: "inode_address kMinfsBlockSize ino = ino * kMinfsInodeSize"
    by (rule inode_address_eq [OF assms(3)])
  have update: "target_InodeManager_Update enqueue ino inode (m, t) = Ok (?m, enqueue (?x, InodeTableBuf) t)"
    using assms(1) fits by (simp add: target_InodeManager_Update_def store_BlockSize_def Let_def a)
  have load: "target_InodeManager_Load ?m ino = Ok inode"
    using assms(1,2) fits by (simp add: target_InodeManager_Load_def store_BlockSize_def a)
  have others: "target_InodeManager_Load ?m j = target_InodeManager_Load m j"
    if "j < 16777216 \<and> j \<noteq> ino" for j
  proof -
    have "j * 256 + 256 \<le> ino * 256 \<or> ino * 256 + 256 \<le> j * 256" using that by linarith
    then have "load_inode ?new (j * kMinfsInodeSize) = load_inode ?b (j * kMinfsInodeSize)"
      unfolding k by (intro load_store_inode_other [OF assms(2), unfolded k])
    then show ?thesis
      using assms(1) inode_address_eq [of j] that
      by (simp add: target_InodeManager_Load_def store_BlockSize_def)
  qed
  have "table_synced n (carry_out ?x ?m c) ?m" if "table_synced n c m" for n c
  proof (rule carry_out_synced [OF that refl assms(5)])
    fix i assume "i < ?rel * kMinfsBlockSize \<or> ?rel * kMinfsBlockSize + kMinfsBlockSize \<le> i"
    then have "i < ino * 256 \<or> ino * 256 + 256 \<le> i" unfolding k by linarith
    then show "?new i = ?b i" unfolding k by (intro store_inode_elsewhere [OF assms(2), unfolded k])
  qed
  then show ?thesis using update load others by blast
qed

text \<open>An empty table of one block at block 100.\<close>

definition small_store :: "(unit, unit) inode_store" where
  "small_store =
    \<lparr>is_start_block = 100, is_block_size = 8192,
     is_allocator = \<lparr>al_reserved = 0, al_first_free = 0, al_map = (), al_pending = [],
       al_changes = Map.empty, al_next_id = 0\<rparr>,
     is_table = \<lparr>vm_size = 8192, vm_bytes = zero_bytes\<rparr>\<rparr>"

theorem target_inode_table_writes_through_witness:
  "\<exists>m' x. target_InodeManager_Update (\<lambda>q t. t @ [q]) 5 (load_inode (\<lambda>i. i mod 256) 0) (small_store, [])
        = Ok (m', [(x, InodeTableBuf)])
      \<and> target_InodeManager_Load m' 5 = Ok (load_inode (\<lambda>i. i mod 256) 0)
      \<and> target_InodeManager_Load m' 6 = target_InodeManager_Load small_store 6"
proof -
  have "inode_fits (load_inode (\<lambda>i. i mod 256) 0)"
    by (rule load_inode_bytes) (simp add: byte_block_def)
  moreover have "is_block_size small_store = kMinfsBlockSize" "is_start_block small_store = 100"
    "vm_size (is_table small_store) = 8192"
    by (simp_all add: small_store_def format_consts)
  ultimately obtain m' x where
    "target_InodeManager_Update (\<lambda>q t. t @ [q]) 5 (load_inode (\<lambda>i. i mod 256) 0) (small_store, [])
        = Ok (m', [] @ [(x, InodeTableBuf)])"
    "target_InodeManager_Load m' 5 = Ok (load_inode (\<lambda>i. i mod 256) 0)"
    "target_InodeManager_Load m' 6 = target_InodeManager_Load small_store 6"
    using target_inode_table_writes_through [of small_store "load_inode (\<lambda>i. i mod 256) 0" 5
        "\<lambda>q t. t @ [q]" "[]"]
    by (auto simp: format_consts)
  then show ?thesis by auto
qed

section \<open>The block cache\<close>

text \<open>The description of a device does not change.\<close>

definition law_device_info :: "('d, 'z) block_device_scheme \<Rightarrow> device_info \<Rightarrow> bool" where
  "law_device_info D info \<longleftrightarrow> (\<forall>d. fst (bd_get_info D d) = Ok info)"

lemma DeviceCache_Create_Ok:
  assumes "law_device_info D info" "DeviceCache_Create D own n d = Some (Ok bc, d')"
  shows "dc_info bc = info" "dc_max_blocks bc = n" "dc_owned bc = own" "\<not> dc_paused bc"
    "bi_block_size info \<noteq> 0" "kMinfsBlockSize mod bi_block_size info = 0"
proof -
  obtain b d1 where "bd_init_buffer D d = (Ok b, d1)"
    using assms(2) by (auto simp: DeviceCache_Create_def split: prod.splits res.splits)
  moreover obtain d2 where "bd_get_info D d1 = (Ok info, d2)"
    using assms(1) unfolding law_device_info_def by (metis prod.collapse)
  ultimately show "dc_info bc = info" "dc_max_blocks bc = n" "dc_owned bc = own" "\<not> dc_paused bc"
    "bi_block_size info \<noteq> 0" "kMinfsBlockSize mod bi_block_size info = 0"
    using assms(2)
    by (auto simp: DeviceCache_Create_def VerifyDeviceInfo_def Let_def split: if_splits)
qed

text \<open>The cache owns the device, has the largest number of whole blocks that fit, and each of them lies
  within the device at a multiple of the block size of the device, without wrap-around.\<close>

lemma CreateBcache_in_bounds:
  assumes "law_device_info D info" "CreateBcache D d = Some (Ok (bc, ro), d')"
  shows "dc_owned bc" "dc_max_blocks bc < 4294967296"
    "bi_block_size info * bi_block_count info < (dc_max_blocks bc + 1) * kMinfsBlockSize"
    "n < dc_max_blocks bc \<Longrightarrow> BlockNumberToDevice (dc_info bc) n * bi_block_size info = n * kMinfsBlockSize"
    "n < dc_max_blocks bc \<Longrightarrow> (BlockNumberToDevice (dc_info bc) n
        + kMinfsBlockSize div bi_block_size info) \<le> bi_block_count info"
proof -
  let ?size = "bi_block_size info * bi_block_count info" and ?bs = "bi_block_size info"
  have i: "fst (bd_get_info D d) = Ok info" using assms(1) by (simp add: law_device_info_def)
  obtain d1 where g: "bd_get_info D d = (Ok info, d1)" using i by (metis prod.collapse)
  have size: "?size < 18446744073709551616" "?size div kMinfsBlockSize < 4294967296"
    and create: "DeviceCache_Create D True (?size div kMinfsBlockSize) d1 = Some (Ok bc, d')"
    using assms(2) g
    by (auto simp: CreateBcache_def Let_def abind_Ok_iff split: if_splits)
  note c = DeviceCache_Create_Ok [OF assms(1) create]
  show "dc_owned bc" "dc_max_blocks bc < 4294967296" using c size by simp_all
  show "?size < (dc_max_blocks bc + 1) * kMinfsBlockSize"
    unfolding c(2) by (simp add: format_consts)
  obtain q where q: "kMinfsBlockSize = ?bs * q" using c(6) by auto
  have bno: "BlockNumberToDevice (dc_info bc) n = n * q" "(n + 1) * q \<le> bi_block_count info"
    if "n < dc_max_blocks bc" for n
  proof -
    have le: "(n + 1) * kMinfsBlockSize \<le> ?size"
      using that unfolding c(2) by (simp add: format_consts)
    then have "n * kMinfsBlockSize < 18446744073709551616" using size(1) by simp
    moreover have "n * kMinfsBlockSize div ?bs = n * q" unfolding q using c(5) by simp
    ultimately show "BlockNumberToDevice (dc_info bc) n = n * q"
      by (simp add: BlockNumberToDevice_def c(1) u64_id)
    have "?bs * ((n + 1) * q) \<le> ?bs * bi_block_count info"
      using le unfolding q by (simp only: mult.left_commute)
    then show "(n + 1) * q \<le> bi_block_count info" using c(5) by simp
  qed
  have "kMinfsBlockSize div ?bs = q" unfolding q using c(5) by simp
  then show "n < dc_max_blocks bc \<Longrightarrow>
      BlockNumberToDevice (dc_info bc) n + kMinfsBlockSize div ?bs \<le> bi_block_count info"
    using bno [of n] by simp
  show "n < dc_max_blocks bc \<Longrightarrow> BlockNumberToDevice (dc_info bc) n * ?bs = n * kMinfsBlockSize"
    using bno(1) [of n] unfolding q by simp
qed

end
