(* ===== verification/InspectTree.thy ===== *)
theory InspectTree
  imports Superblock Action
begin

text \<open>
  \<open>minfs_inspect_tree.cc\<close>: the figures a mounted file system of the device build publishes. The time
  is in nanoseconds since the start of the system; the nodes themselves are built by a library from
  the values here.
\<close>

record usage_data =
  total_bytes :: nat
  used_bytes :: nat
  total_nodes :: nat
  used_nodes :: nat

definition CalculateSpaceUsage :: "superblock \<Rightarrow> nat \<Rightarrow> usage_data" where
  "CalculateSpaceUsage sb reserved_blocks =
    \<lparr>total_bytes = u64 (block_count sb * block_size sb),
     used_bytes = u64 (u64 (alloc_block_count sb + reserved_blocks) * block_size sb),
     total_nodes = inode_count sb,
     used_nodes = alloc_inode_count sb\<rparr>"

record filesystem_info =
  fi_block_size :: nat
  fi_max_filename_size :: nat
  fi_total_bytes :: nat
  fi_used_bytes :: nat
  fi_total_nodes :: nat
  fi_used_nodes :: nat
  fi_free_shared_pool_bytes :: nat

record info_data =
  id_version_major :: nat
  id_version_minor :: nat
  id_block_size :: nat
  id_max_filename_length :: nat
  id_oldest_version :: "nat \<times> nat"

text \<open>\<open>None\<close> for the time of an event stands for the infinite past.\<close>

record 'i inspect_tree =
  in_info :: "info_data option"
  in_usage :: "usage_data option"
  in_out_of_space_events :: nat
  in_last_out_of_space :: "nat option"
  in_recovered_space_events :: nat
  in_last_recovered_space :: "nat option"
  in_dirty_bytes :: nat
  in_size_info :: "'i option"

definition new_inspect_tree :: "'i inspect_tree" where
  "new_inspect_tree =
    \<lparr>in_info = None, in_usage = None, in_out_of_space_events = 0, in_last_out_of_space = None,
     in_recovered_space_events = 0, in_last_recovered_space = None, in_dirty_bytes = 0,
     in_size_info = None\<rparr>"

definition kEventWindowDuration :: nat where "kEventWindowDuration = 5 * 60 * 1000000000"

definition UpdateSpaceUsage :: "superblock \<Rightarrow> nat \<Rightarrow> 'i inspect_tree \<Rightarrow> 'i inspect_tree" where
  "UpdateSpaceUsage sb reserved_blocks t = t\<lparr>in_usage := Some (CalculateSpaceUsage sb reserved_blocks)\<rparr>"

definition Inspect_Initialize ::
  "filesystem_info \<Rightarrow> superblock \<Rightarrow> nat \<Rightarrow> 'i inspect_tree \<Rightarrow> 'i inspect_tree" where
  "Inspect_Initialize info sb reserved_blocks t =
    UpdateSpaceUsage sb reserved_blocks
      (t\<lparr>in_info := Some
          \<lparr>id_version_major = kMinfsCurrentMajorVersion, id_version_minor = kMinfsCurrentMinorVersion,
           id_block_size = fi_block_size info, id_max_filename_length = fi_max_filename_size info,
           id_oldest_version = (major_version sb, oldest_minor_version sb)\<rparr>\<rparr>)"

definition window_passed :: "nat \<Rightarrow> nat option \<Rightarrow> bool" where
  "window_passed now last_event =
    (case last_event of None \<Rightarrow> True | Some t \<Rightarrow> t + kEventWindowDuration < now)"

definition OnOutOfSpace :: "nat \<Rightarrow> 'i inspect_tree \<Rightarrow> 'i inspect_tree" where
  "OnOutOfSpace now t =
    (if window_passed now (in_last_out_of_space t)
     then t\<lparr>in_out_of_space_events := in_out_of_space_events t + 1, in_last_out_of_space := Some now\<rparr>
     else t)"

definition OnRecoveredSpace :: "nat \<Rightarrow> 'i inspect_tree \<Rightarrow> 'i inspect_tree" where
  "OnRecoveredSpace now t =
    (if window_passed now (in_last_recovered_space t)
     then t\<lparr>in_recovered_space_events := in_recovered_space_events t + 1,
            in_last_recovered_space := Some now\<rparr>
     else t)"

definition AddDirtyBytes :: "nat \<Rightarrow> 'i inspect_tree \<Rightarrow> 'i inspect_tree res" where
  "AddDirtyBytes n t =
    (case check_add64 (in_dirty_bytes t) n of Some m \<Rightarrow> Ok (t\<lparr>in_dirty_bytes := m\<rparr>) | None \<Rightarrow> Panic)"

definition SubtractDirtyBytes :: "nat \<Rightarrow> 'i inspect_tree \<Rightarrow> 'i inspect_tree res" where
  "SubtractDirtyBytes n t =
    (case check_sub64 (in_dirty_bytes t) n of Some m \<Rightarrow> Ok (t\<lparr>in_dirty_bytes := m\<rparr>) | None \<Rightarrow> Panic)"

text \<open>The size information is that of the last successful query.\<close>

definition GetVolumeData :: "'i res \<Rightarrow> 'i inspect_tree \<Rightarrow> (nat \<times> 'i option) \<times> 'i inspect_tree" where
  "GetVolumeData size_info t =
    (let t = (case size_info of Ok x \<Rightarrow> t\<lparr>in_size_info := Some x\<rparr> | _ \<Rightarrow> t)
     in ((in_out_of_space_events t, in_size_info t), t))"

definition DetailNode :: "'i inspect_tree \<Rightarrow> (string \<times> nat) list" where
  "DetailNode t = [(''recovered_space_events'', in_recovered_space_events t),
     (''dirty_bytes'', in_dirty_bytes t)]"

section \<open>Events are rare\<close>

text \<open>The counter after a number of calls at given times counts at most one event in every window of
  five minutes.\<close>

lemma out_of_space_rate:
  assumes "sorted calls" "\<And>t. t \<in> set calls \<Longrightarrow> start \<le> t \<and> t < stop" "start < stop"
  shows "(in_out_of_space_events (fold OnOutOfSpace calls (new_inspect_tree :: nat inspect_tree)) - 1)
      * kEventWindowDuration \<le> stop - start"
proof -
  let ?run = "\<lambda>ts. fold OnOutOfSpace ts (new_inspect_tree :: nat inspect_tree)"
  have "case in_last_out_of_space (?run ts) of
      None \<Rightarrow> in_out_of_space_events (?run ts) = 0
    | Some l \<Rightarrow> l \<in> set ts \<and> start \<le> l \<and> (in_out_of_space_events (?run ts) - 1) * kEventWindowDuration \<le> l - start"
    if "sorted ts" "set ts \<subseteq> set calls" for ts
    using that
  proof (induction ts rule: rev_induct)
    case (snoc t ts)
    define x where "x = ?run ts"
    have IH: "case in_last_out_of_space x of None \<Rightarrow> in_out_of_space_events x = 0
      | Some l \<Rightarrow> l \<in> set ts \<and> start \<le> l \<and> (in_out_of_space_events x - 1) * kEventWindowDuration \<le> l - start"
      unfolding x_def using snoc by (simp add: sorted_append)
    have last_call: "?run (ts @ [t]) = OnOutOfSpace t x" by (simp add: x_def)
    have "start \<le> t" using assms(2) snoc.prems(2) by auto
    then show ?case
      unfolding last_call using IH by (cases "in_last_out_of_space x"; cases "in_out_of_space_events x")
        (auto simp: OnOutOfSpace_def window_passed_def)
  qed (simp add: new_inspect_tree_def)
  from this [OF assms(1) subset_refl] show ?thesis
    using assms(2) by (auto split: option.splits) (metis diff_le_mono le_trans less_imp_le)
qed

end
