(* ===== verification/TargetFs.thy ===== *)
theory TargetFs
  imports InspectTree TargetStores Repair
begin

text \<open>
  The file system object of the device build, with the parts of \<open>minfs.cc\<close> and \<open>minfs_target.cc\<close>
  that only this build has: transactions over the journal, the clean flag, the end of writing,
  synchronisation, the journal's start and \<open>Minfs::Create\<close>. The allocators, the running transaction,
  the journal and the block device are the rest of the state, which the functions of an environment
  act on; the superblock is part of the state itself.
\<close>

section \<open>State\<close>

datatype writability = ReadOnlyDisk | ReadOnlyFilesystem | Writable

record mount_options =
  mo_writability :: writability
  mo_verbose :: bool
  mo_repair_filesystem :: bool
  mo_fsck_after_every_transaction :: bool
  mo_fvm_data_slices :: nat
  mo_quiet :: bool

definition default_mount_options :: mount_options where
  "default_mount_options =
    \<lparr>mo_writability = Writable, mo_verbose = False, mo_repair_filesystem = True,
     mo_fsck_after_every_transaction = False, mo_fvm_data_slices = 1, mo_quiet = False\<rparr>"

text \<open>The table of vnodes in the order of an iteration over it: inode numbers and addresses.\<close>

record ('i, 'u) target_fs =
  tg_bcache :: bool
  tg_sm :: superblock_manager
  tg_journal :: bool
  tg_fsck_callback :: bool
  tg_hash :: "(nat \<times> nat) list"
  tg_tree :: "'i inspect_tree"
  tg_sync_pending :: bool
  tg_options :: mount_options
  tg_rest :: 'u

type_synonym ('i, 'u, 'a) fact = "(('i, 'u) target_fs, 'a) act"

text \<open>
  \<open>fv_create_tx\<close> is \<open>Transaction::Create\<close>, which may grow a pool and so change the superblock;
  \<open>fv_commit_pools\<close> commits the inode and then the block reservation; \<open>fv_journal_commit\<close> hands the
  operations of the transaction to the journal and ends it.
\<close>

record ('i, 'u) fs_env =
  fv_crc :: "superblock \<Rightarrow> nat"
  fv_enqueue :: "queued \<Rightarrow> 'u \<Rightarrow> 'u"
  fv_create_tx :: "nat \<Rightarrow> nat \<Rightarrow> (superblock_manager \<times> 'u, unit) act"
  fv_destroy_tx :: "'u \<Rightarrow> 'u"
  fv_commit_pools :: "(superblock_manager \<times> 'u, unit) act"
  fv_journal_commit :: "('u, unit) act"
  fv_writeback_enabled :: "'u \<Rightarrow> bool"
  fv_journal_sync :: "('u, unit) act"
  fv_bcache_sync :: "('u, unit) act"
  fv_fsck :: "('u, unit) act"
  fv_blocks_reserved :: "'u \<Rightarrow> nat"
  fv_now :: "'u \<Rightarrow> nat"
  fv_dispatcher :: bool
  fv_alive :: "nat \<Rightarrow> 'u \<Rightarrow> bool"
  fv_is_dirty :: "nat \<Rightarrow> 'u \<Rightarrow> bool"
  fv_flush :: "nat \<Rightarrow> ('i, 'u, unit) fact"
  fv_purge_unlinked :: "('i, 'u, unit) fact"
  fv_size_info :: "'u \<Rightarrow> 'i res"
  fv_available_space :: "'i \<Rightarrow> nat"
  fv_ring_buffer :: "nat \<Rightarrow> ('u, unit) act"
  fv_metadata_blocks :: nat

definition fs_Info :: "('i, 'u) target_fs \<Rightarrow> superblock" where
  "fs_Info s = sm_info (tg_sm s)"

definition on_rest_fs :: "('u, 'a) act \<Rightarrow> ('i, 'u, 'a) fact" where
  "on_rest_fs m s =
    (case m (tg_rest s) of None \<Rightarrow> None | Some (r, u) \<Rightarrow> Some (r, s\<lparr>tg_rest := u\<rparr>))"

definition on_pools :: "(superblock_manager \<times> 'u, 'a) act \<Rightarrow> ('i, 'u, 'a) fact" where
  "on_pools m s =
    (case m (tg_sm s, tg_rest s) of
       None \<Rightarrow> None
     | Some (r, sm, u) \<Rightarrow> Some (r, s\<lparr>tg_sm := sm, tg_rest := u\<rparr>))"

definition on_tree :: "(nat \<Rightarrow> 'i inspect_tree \<Rightarrow> 'i inspect_tree) \<Rightarrow> ('i, 'u) fs_env \<Rightarrow> ('i, 'u, unit) fact" where
  "on_tree f E = modify (\<lambda>s. s\<lparr>tg_tree := f (fv_now E (tg_rest s)) (tg_tree s)\<rparr>)"

section \<open>The journal\<close>

definition IsJournalErrored :: "('i, 'u) fs_env \<Rightarrow> ('i, 'u) target_fs \<Rightarrow> bool" where
  "IsJournalErrored E s \<longleftrightarrow> tg_journal s \<and> \<not> fv_writeback_enabled E (tg_rest s)"

text \<open>A null journal is dereferenced.\<close>

definition BlockingJournalSync :: "('i, 'u) fs_env \<Rightarrow> ('i, 'u, unit) fact" where
  "BlockingJournalSync E =
     abind (gets tg_journal) (\<lambda>j. abind (assert_act j) (\<lambda>_. on_rest_fs (fv_journal_sync E)))"

definition WritebackCapacity :: nat where
  "WritebackCapacity = 10 * 2 ^ 20 div kMinfsBlockSize"

definition InitializeJournal :: "('i, 'u) fs_env \<Rightarrow> ('i, 'u, unit) fact" where
  "InitializeJournal E =
    abind (gets tg_journal) (\<lambda>j.
    if j then fail ZX_ERR_ALREADY_EXISTS
    else
      abind (gets (\<lambda>s. u64_sub (JournalBlocks (fs_Info s)) (fv_metadata_blocks E))) (\<lambda>journal_entry_blocks.
      abind (on_rest_fs (fv_ring_buffer E journal_entry_blocks)) (\<lambda>_.
      abind (on_rest_fs (fv_ring_buffer E WritebackCapacity)) (\<lambda>_.
      modify (\<lambda>s. s\<lparr>tg_journal := True\<rparr>)))))"

section \<open>Transactions\<close>

definition report_error :: "('i, 'u) fs_env \<Rightarrow> unit res \<Rightarrow> ('i, 'u, unit) fact" where
  "report_error E r =
    (case r of
       Err e \<Rightarrow> abind (if e = ZX_ERR_NO_SPACE then on_tree OnOutOfSpace E else ret ()) (\<lambda>_. fail e)
     | _ \<Rightarrow> lift_res r)"

definition target_BeginTransaction ::
  "('i, 'u) fs_env \<Rightarrow> nat \<Rightarrow> nat \<Rightarrow> ('i, 'u, unit) fact" where
  "target_BeginTransaction E reserve_inodes reserve_blocks =
    abind (gets (\<lambda>s. (tg_journal s, fv_writeback_enabled E (tg_rest s)))) (\<lambda>(journal, enabled).
    if \<not> journal then fail ZX_ERR_BAD_STATE
    else if \<not> enabled then fail ZX_ERR_IO_REFUSED
    else
      try_act (on_pools (fv_create_tx E reserve_inodes reserve_blocks)) (\<lambda>r.
      if r = Err ZX_ERR_NO_SPACE \<and> (reserve_blocks > 0 \<or> reserve_inodes > 0) then
        try_act (BlockingJournalSync E) (\<lambda>sync.
        if \<not> is_ok sync then abind (on_tree OnOutOfSpace E) (\<lambda>_. lift_res r)
        else
          try_act (on_pools (fv_create_tx E reserve_inodes reserve_blocks)) (\<lambda>r.
          abind (if is_ok r then on_tree OnRecoveredSpace E else ret ()) (\<lambda>_.
          report_error E r)))
      else report_error E r))"

definition fs_sb_Write :: "('i, 'u) fs_env \<Rightarrow> bool \<Rightarrow> ('i, 'u, unit) fact" where
  "fs_sb_Write E update_backup =
    modify (\<lambda>s.
      let (sm, u) = target_SuperblockManager_Write (fv_crc E) (fv_enqueue E) update_backup
                      (tg_sm s, tg_rest s)
      in s\<lparr>tg_sm := sm, tg_rest := u\<rparr>)"

text \<open>The background synchronisation of the journal is posted once.\<close>

definition post_sync_task :: "('i, 'u) fs_env \<Rightarrow> ('i, 'u, unit) fact" where
  "post_sync_task E =
    modify (\<lambda>s. if \<not> tg_sync_pending s \<and> fv_dispatcher E then s\<lparr>tg_sync_pending := True\<rparr> else s)"

definition target_CommitTransaction :: "('i, 'u) fs_env \<Rightarrow> ('i, 'u, unit) fact" where
  "target_CommitTransaction E =
    abind (on_pools (fv_commit_pools E)) (\<lambda>_.
    abind (gets (\<lambda>s. sm_dirty (tg_sm s))) (\<lambda>dirty.
    abind (if dirty then fs_sb_Write E False else ret ()) (\<lambda>_.
    abind (gets tg_journal) (\<lambda>journal.
    abind (assert_act journal) (\<lambda>_.
    try_act (on_rest_fs (fv_journal_commit E)) (\<lambda>_.
    abind (modify (\<lambda>s. s\<lparr>tg_tree :=
             UpdateSpaceUsage (fs_Info s) (fv_blocks_reserved E (tg_rest s)) (tg_tree s)\<rparr>)) (\<lambda>_.
    abind (post_sync_task E) (\<lambda>_.
    modify (\<lambda>s. s\<lparr>tg_rest := fv_destroy_tx E (tg_rest s)\<rparr>)))))))))"

definition target_UpdateFlags :: "('i, 'u) fs_env \<Rightarrow> nat \<Rightarrow> bool \<Rightarrow> ('i, 'u, unit) fact" where
  "target_UpdateFlags E fl set_it =
    abind (modify (\<lambda>s. s\<lparr>tg_sm := MutableInfo (\<lambda>i. i\<lparr>flags :=
             (if set_it then flags i OR fl else flags i AND (4294967295 - fl))\<rparr>) (tg_sm s)\<rparr>)) (\<lambda>_.
    fs_sb_Write E True)"

section \<open>The clean flag and the end of writing\<close>

definition UpdateCleanBitAndOldestRevision ::
  "('i, 'u) fs_env \<Rightarrow> bool \<Rightarrow> ('i, 'u, unit) fact" where
  "UpdateCleanBitAndOldestRevision E is_clean =
    abind (target_BeginTransaction E 0 0) (\<lambda>_.
    abind (gets (\<lambda>s. oldest_minor_version (fs_Info s))) (\<lambda>oldest.
    abind (if kMinfsCurrentMinorVersion < oldest
           then modify (\<lambda>s. s\<lparr>tg_sm :=
                  MutableInfo (\<lambda>i. i\<lparr>oldest_minor_version := kMinfsCurrentMinorVersion\<rparr>) (tg_sm s)\<rparr>)
           else ret ()) (\<lambda>_.
    abind (target_UpdateFlags E kMinfsFlagClean is_clean) (\<lambda>_.
    abind (target_CommitTransaction E) (\<lambda>_.
    BlockingJournalSync E)))))"

text \<open>The statuses of the last update and of the synchronisation are dropped.\<close>

definition StopWriteback :: "('i, 'u) fs_env \<Rightarrow> ('i, 'u, unit) fact" where
  "StopWriteback E =
    abind (gets (\<lambda>s. (tg_bcache s, mo_writability (tg_options s)))) (\<lambda>(bcache, w).
    if \<not> bcache then ret ()
    else
      try_act (if w = Writable then UpdateCleanBitAndOldestRevision E True else ret ()) (\<lambda>_.
      abind (modify (\<lambda>s. s\<lparr>tg_journal := False\<rparr>)) (\<lambda>_.
      try_act (on_rest_fs (fv_bcache_sync E)) (\<lambda>_. ret ()))))"

definition Minfs_Destroy :: "('i, 'u) fs_env \<Rightarrow> ('i, 'u, unit) fact" where
  "Minfs_Destroy E = abind (StopWriteback E) (\<lambda>_. modify (\<lambda>s. s\<lparr>tg_bcache := False\<rparr>))"

section \<open>Vnodes and synchronisation\<close>

text \<open>A vnode that is being destroyed cannot be referenced any more.\<close>

definition GetDirtyVnodes :: "('i, 'u) fs_env \<Rightarrow> ('i, 'u) target_fs \<Rightarrow> nat list" where
  "GetDirtyVnodes E s =
    filter (\<lambda>v. fv_is_dirty E v (tg_rest s)) (filter (\<lambda>v. fv_alive E v (tg_rest s)) (map snd (tg_hash s)))"

definition target_VnodeLookupInternal ::
  "('i, 'u) fs_env \<Rightarrow> nat \<Rightarrow> ('i, 'u, nat option) fact" where
  "target_VnodeLookupInternal E ino =
    abind (gets (\<lambda>s. map_of (tg_hash s) ino)) (\<lambda>raw. case raw of
      None \<Rightarrow> ret None
    | Some v \<Rightarrow>
        abind (gets (\<lambda>s. fv_alive E v (tg_rest s))) (\<lambda>alive.
        if alive then ret (Some v)
        else abind (modify (\<lambda>s. s\<lparr>tg_hash := filter (\<lambda>(i, _). i \<noteq> ino) (tg_hash s)\<rparr>)) (\<lambda>_. ret None)))"

text \<open>The result is the status the callback receives.\<close>

definition EnqueueCallback :: "('i, 'u) fs_env \<Rightarrow> ('i, 'u, unit) fact" where
  "EnqueueCallback E = BlockingJournalSync E"

fun flush_each :: "('i, 'u) fs_env \<Rightarrow> nat list \<Rightarrow> ('i, 'u, unit) fact" where
  "flush_each E [] = ret ()"
| "flush_each E (v # vs) =
    try_act (fv_flush E v) (\<lambda>r. abind (assert_act (is_ok r)) (\<lambda>_. flush_each E vs))"

definition Minfs_Sync :: "('i, 'u) fs_env \<Rightarrow> ('i, 'u, unit) fact" where
  "Minfs_Sync E =
    abind (gets (\<lambda>s. (tg_journal s, GetDirtyVnodes E s))) (\<lambda>(journal, dirty_vnodes).
    if \<not> journal then ret ()
    else abind (flush_each E dirty_vnodes) (\<lambda>_. EnqueueCallback E))"

text \<open>The vnode's own \<open>Sync\<close> also flushes the device when the journal could be written.\<close>

definition target_Vnode_Sync :: "('i, 'u) fs_env \<Rightarrow> ('i, 'u, unit) fact" where
  "target_Vnode_Sync E = abind (Minfs_Sync E) (\<lambda>_. on_rest_fs (fv_bcache_sync E))"

definition FsckAtEndOfTransaction :: "('i, 'u) fs_env \<Rightarrow> ('i, 'u, unit) fact" where
  "FsckAtEndOfTransaction E =
    try_act (on_rest_fs (fv_fsck E)) (\<lambda>r. assert_act (is_ok r))"

section \<open>Figures\<close>

definition GetFilesystemInfo :: "('i, 'u) fs_env \<Rightarrow> ('i, 'u) target_fs \<Rightarrow> filesystem_info res" where
  "GetFilesystemInfo E s =
    (let usage = CalculateSpaceUsage (fs_Info s) (fv_blocks_reserved E (tg_rest s))
     in res_bind (BlockSize (fs_Info s)) (\<lambda>bs.
        Ok \<lparr>fi_block_size = u32 bs, fi_max_filename_size = kMinfsMaxNameSize,
            fi_total_bytes = total_bytes usage, fi_used_bytes = used_bytes usage,
            fi_total_nodes = total_nodes usage, fi_used_nodes = used_nodes usage,
            fi_free_shared_pool_bytes =
              (case fv_size_info E (tg_rest s) of Ok i \<Rightarrow> fv_available_space E i | _ \<Rightarrow> 0)\<rparr>))"

definition InitializeInspectTree :: "('i, 'u) fs_env \<Rightarrow> ('i, 'u, unit) fact" where
  "InitializeInspectTree E =
    abind (gets (GetFilesystemInfo E)) (\<lambda>fs_info. case fs_info of
      Ok info \<Rightarrow> modify (\<lambda>s. s\<lparr>tg_tree :=
         Inspect_Initialize info (fs_Info s) (fv_blocks_reserved E (tg_rest s)) (tg_tree s)\<rparr>)
    | Err e \<Rightarrow> ret ()
    | Panic \<Rightarrow> abort)"

section \<open>Mounting\<close>

text \<open>
  What mounting needs of the device before there is a file system object: loading, repairing and
  checking the superblock, the replay of the journal, the volume. \<open>md_install\<close> puts the allocators
  and the inode table into the state.
\<close>

record ('b, 'r, 'u) mount_env =
  md_load :: "('u, superblock) act"
  md_repair :: "('u, superblock) act"
  md_replay :: "superblock \<Rightarrow> ('u, unit) act"
  md_check :: "'u \<Rightarrow> superblock \<Rightarrow> nat \<Rightarrow> unit res"
  md_kernel :: "'u kernel"
  md_bitmap :: "'b raw_bitmap"
  md_max_blocks :: nat
  md_run :: "queued list \<Rightarrow> ('u, unit) act"
  md_install :: "('b, 'r) allocator \<Rightarrow> ('b, 'r) inode_store \<Rightarrow> 'u \<Rightarrow> 'u"
  md_volume :: "'u volume"

definition target_ReadInitialBlocks ::
  "('b, 'r, 'u) mount_env \<Rightarrow> superblock \<Rightarrow> superblock_manager \<Rightarrow> ('u, unit) act" where
  "target_ReadInitialBlocks M info sm =
    (let abm_start_block = abm_block (sm_info sm);
         ibm_start_block = ibm_block (sm_info sm);
         ino_start_block = ino_block (sm_info sm);
         fvm = ((flags info AND kMinfsFlagFVM) \<noteq> 0);
         block_meta = \<lparr>data_start_block = dat_block info, metadata_start_block = abm_start_block,
                       using_fvm = fvm, md_access = access_Blocks\<rparr>;
         inode_meta = \<lparr>data_start_block = ino_start_block, metadata_start_block = ibm_start_block,
                       using_fvm = fvm, md_access = access_Inodes\<rparr>
     in abind (lift_res (BlockSize (sm_info sm))) (\<lambda>unit_size.
        abind (lift_res (SuperblockManager_BlockSize sm)) (\<lambda>bs.
        abind (target_Allocator_Create (md_kernel M) (md_bitmap M)
                 \<lparr>st_metadata = block_meta, st_unit_size = unit_size, st_block_size = bs,
                  st_buffer = BlockMapBuf\<rparr> sm) (\<lambda>(blocks, block_load).
        abind (target_InodeManager_Create (md_kernel M) (md_bitmap M) sm inode_meta ino_start_block
                 (inode_count info)) (\<lambda>(inodes, inode_loads).
        abind (modify (md_install M blocks inodes)) (\<lambda>_.
        md_run M (block_load # inode_loads)))))))"

text \<open>The journal is replayed unless the disk may not be written; an error there aborts, as
  \<open>ReplayJournalReloadSuperblock\<close> takes the value of the failed result.\<close>

definition load_for_mount ::
  "('b, 'r, 'u) mount_env \<Rightarrow> mount_options \<Rightarrow> ('u, superblock) act" where
  "load_for_mount M opts =
    try_act (md_load M) (\<lambda>loaded.
    abind (case loaded of
             Err e \<Rightarrow> if \<not> mo_repair_filesystem opts then fail e else md_repair M
           | _ \<Rightarrow> lift_res loaded) (\<lambda>info.
    if mo_writability opts \<noteq> ReadOnlyDisk then
      try_act (md_replay M info) (\<lambda>replayed.
      if is_ok replayed then md_load M
      else lift_res (res_bind (ReplayJournalReloadSuperblock replayed (Ok info)) (\<lambda>(_, info). Ok info)))
    else ret info))"

definition target_mount ::
  "('i, 'u) fs_env \<Rightarrow> ('b, 'r, 'u) mount_env \<Rightarrow> mount_options \<Rightarrow> ('u, ('i, 'u) target_fs) act" where
  "target_mount E M opts =
    abind (load_for_mount M opts) (\<lambda>info.
    abind (gets (md_check M)) (\<lambda>check.
    abind (target_SuperblockManager_Create (md_kernel M) check info (md_max_blocks M)
             (mo_repair_filesystem opts)) (\<lambda>sm.
    abind (target_ReadInitialBlocks M info sm) (\<lambda>_.
    gets (\<lambda>u. \<lparr>tg_bcache = True, tg_sm = sm, tg_journal = False, tg_fsck_callback = False,
      tg_hash = [], tg_tree = new_inspect_tree, tg_sync_pending = False, tg_options = opts,
      tg_rest = u\<rparr>)))))"

definition start_journal :: "('i, 'u) fs_env \<Rightarrow> ('i, 'u, unit) fact" where
  "start_journal E =
    abind (gets tg_options) (\<lambda>opts.
    if mo_writability opts \<noteq> ReadOnlyDisk then
      abind (InitializeJournal E) (\<lambda>_.
      if mo_fsck_after_every_transaction opts
      then modify (\<lambda>s. s\<lparr>tg_fsck_callback := True\<rparr>) else ret ())
    else ret ())"

definition repair_slices :: "('b, 'r, 'u) mount_env \<Rightarrow> ('i, 'u, unit) fact" where
  "repair_slices M =
    abind (gets (\<lambda>s. (tg_options s, fs_Info s))) (\<lambda>(opts, info).
    if mo_repair_filesystem opts \<and> (flags info AND kMinfsFlagFVM) \<noteq> 0 then
      abind (lift_res (BlockSize info)) (\<lambda>bs.
      on_rest_fs (\<lambda>u. Some (CheckSlices (md_volume M) info (slice_size info div bs) True u)))
    else ret ())"

definition start_writing :: "('i, 'u) fs_env \<Rightarrow> ('i, 'u, unit) fact" where
  "start_writing E =
    abind (gets (\<lambda>s. mo_writability (tg_options s))) (\<lambda>w.
    if w \<noteq> ReadOnlyDisk then
      abind (UpdateCleanBitAndOldestRevision E False) (\<lambda>_.
      abind (fv_purge_unlinked E) (\<lambda>_.
      if w = ReadOnlyFilesystem then StopWriteback E else ret ()))
    else ret ())"

text \<open>The state of the device is what is left when mounting fails.\<close>

definition target_Minfs_Create ::
  "('i, 'u) fs_env \<Rightarrow> ('b, 'r, 'u) mount_env \<Rightarrow> mount_options \<Rightarrow> ('u, ('i, 'u) target_fs) act" where
  "target_Minfs_Create E M opts =
    abind (target_mount E M opts) (\<lambda>s u.
      case abind (start_journal E) (\<lambda>_.
           abind (repair_slices M) (\<lambda>_.
           abind (start_writing E) (\<lambda>_. InitializeInspectTree E))) s of
        None \<Rightarrow> None
      | Some (Ok _, s) \<Rightarrow> Some (Ok s, tg_rest s)
      | Some (Err e, s) \<Rightarrow> Some (Err e, tg_rest s)
      | Some (Panic, s) \<Rightarrow> Some (Panic, tg_rest s))"

section \<open>The runner\<close>

text \<open>\<open>Runner::Create\<close> adds whether clients may write; \<open>Shutdown\<close> synchronises, whatever the status,
  and ends writing.\<close>

definition Runner_Create ::
  "('i, 'u) fs_env \<Rightarrow> ('b, 'r, 'u) mount_env \<Rightarrow> mount_options \<Rightarrow> ('u, ('i, 'u) target_fs \<times> bool) act" where
  "Runner_Create E M opts =
    abind (target_Minfs_Create E M opts) (\<lambda>fs. ret (fs, mo_writability opts \<noteq> Writable))"

definition Runner_Destroy :: "('i, 'u) fs_env \<Rightarrow> ('i, 'u, unit) fact" where
  "Runner_Destroy E = Minfs_Destroy E"

definition Runner_Shutdown :: "('i, 'u) fs_env \<Rightarrow> ('i, 'u, unit) fact" where
  "Runner_Shutdown E = try_act (Minfs_Sync E) (\<lambda>_. Minfs_Destroy E)"

end
