(* ===== verification/TargetFs_Laws.thy ===== *)
theory TargetFs_Laws
  imports TargetFs
begin

text \<open>
  The life cycle of a mounted file system of the device build: what the clean flag of the superblock
  is after an update, after the start and after the end of writing. The allocators and the journal are functions of the environment; the laws here are what
  the update of the flag needs of them, and \<open>TargetSession\<close> proves them for the transactions of the code.
\<close>

definition header_of :: "superblock_manager \<Rightarrow> nat \<times> nat" where
  "header_of sm = (flags (sm_info sm), oldest_minor_version (sm_info sm))"

text \<open>
  What the transactions that update the superblock need: one that reserves nothing ends, and leaves
  superblock and pools alone; \<open>opened k\<close> says that such a transaction is open, with \<open>k\<close> writes of a
  single block in it, and the journal takes two of these. The journal and the device answer.
\<close>

definition session_laws :: "('i, 'u) fs_env \<Rightarrow> (nat \<Rightarrow> 'u \<Rightarrow> bool) \<Rightarrow> bool" where
  "session_laws E opened \<longleftrightarrow>
    (\<forall>sm u. \<exists>u'. fv_create_tx E 0 0 (sm, u) = Some (Ok (), sm, u') \<and> opened 0 u')
    \<and> (\<forall>k q u. opened k u \<and> op_length (fst q) = 1 \<longrightarrow> opened (k + 1) (fv_enqueue E q u))
    \<and> (\<forall>k sm u. opened k u \<longrightarrow> (\<exists>u'. fv_commit_pools E (sm, u) = Some (Ok (), sm, u') \<and> opened k u'))
    \<and> (\<forall>k u. k \<le> 2 \<and> opened k u \<longrightarrow> (\<exists>r u'. fv_journal_commit E u = Some (r, u') \<and> r \<noteq> Panic))
    \<and> (\<forall>u. \<exists>r u'. fv_journal_sync E u = Some (r, u') \<and> r \<noteq> Panic)
    \<and> (\<forall>u. \<exists>r u'. fv_bcache_sync E u = Some (r, u') \<and> r \<noteq> Panic)"

lemma session_lawsD:
  assumes "session_laws E opened"
  shows "\<exists>u'. fv_create_tx E 0 0 (sm, u) = Some (Ok (), sm, u') \<and> opened 0 u'"
    "opened k u \<Longrightarrow> op_length (fst q) = 1 \<Longrightarrow> opened (k + 1) (fv_enqueue E q u)"
    "opened k u \<Longrightarrow> \<exists>u'. fv_commit_pools E (sm, u) = Some (Ok (), sm, u') \<and> opened k u'"
    "k \<le> 2 \<Longrightarrow> opened k u \<Longrightarrow> \<exists>r u'. fv_journal_commit E u = Some (r, u') \<and> r \<noteq> Panic"
    "\<exists>r u'. fv_journal_sync E u = Some (r, u') \<and> r \<noteq> Panic"
    "\<exists>r u'. fv_bcache_sync E u = Some (r, u') \<and> r \<noteq> Panic"
  using assms unfolding session_laws_def by blast+

text \<open>What the steps of a transaction leave as it was.\<close>

definition kept :: "('i, 'u) target_fs \<Rightarrow> ('i, 'u) target_fs \<Rightarrow> bool" where
  "kept s s' \<longleftrightarrow> tg_bcache s' = tg_bcache s \<and> tg_journal s' = tg_journal s \<and> tg_options s' = tg_options s
     \<and> header_of (tg_sm s') = header_of (tg_sm s)"

text \<open>Only a journal that is gone or has failed refuses a transaction that reserves nothing.\<close>

definition tx_granted :: "('i, 'u) fs_env \<Rightarrow> ('i, 'u) target_fs \<Rightarrow> bool" where
  "tx_granted E s \<longleftrightarrow> tg_journal s \<and> fv_writeback_enabled E (tg_rest s)"

section \<open>Transactions\<close>

lemma Begin_nothing:
  assumes "session_laws E opened"
  shows "\<exists>r s'. target_BeginTransaction E 0 0 s = Some (r, s') \<and> r \<noteq> Panic \<and> kept s s'
    \<and> (is_ok r \<longleftrightarrow> tx_granted E s) \<and> (is_ok r \<longrightarrow> opened 0 (tg_rest s'))"
proof -
  obtain u where "fv_create_tx E 0 0 (tg_sm s, tg_rest s) = Some (Ok (), tg_sm s, u)" "opened 0 u"
    using session_lawsD(1) [OF assms] by blast
  then show ?thesis
    by (auto simp: target_BeginTransaction_def fail_def kept_def tx_granted_def try_act_def
        on_pools_def report_error_def lift_res_def on_tree_def ret_def modify_def)
qed

lemma sb_Write_runs:
  assumes "session_laws E opened" "opened 0 (tg_rest s)"
  shows "\<exists>s'. fs_sb_Write E True s = Some (Ok (), s') \<and> kept s s' \<and> \<not> sm_dirty (tg_sm s') \<and> opened 2 (tg_rest s')"
proof -
  let ?w = "write_op 0 kSuperblockStart 1"
  have w: "op_length (fst (?w, SuperblockBuf)) = 1" "op_length (fst (?w\<lparr>dev_offset := b\<rparr>, SuperblockBuf)) = 1" for b
    by (simp_all add: write_op_def)
  note o = session_lawsD(2) [OF assms(1)]
  have "opened 2 (fv_enqueue E (?w\<lparr>dev_offset := b\<rparr>, SuperblockBuf) (fv_enqueue E (?w, SuperblockBuf) (tg_rest s)))" for b
    using o [OF o [OF assms(2) w(1)] w(2), of b] by (simp add: numeral_2_eq_2)
  then show ?thesis
    unfolding fs_sb_Write_def modify_def target_SuperblockManager_Write_def Let_def split_beta
    by (auto simp: kept_def header_of_def MutableInfo_def UpdateChecksum_def Let_def)
qed

lemma Commit_runs:
  assumes "session_laws E opened" "tg_journal s" "opened 2 (tg_rest s)" "\<not> sm_dirty (tg_sm s)"
  shows "\<exists>s'. target_CommitTransaction E s = Some (Ok (), s') \<and> kept s s' \<and> \<not> sm_dirty (tg_sm s')"
proof -
  obtain u where c: "fv_commit_pools E (tg_sm s, tg_rest s) = Some (Ok (), tg_sm s, u)" "opened 2 u"
    using session_lawsD(3) [OF assms(1,3)] by blast
  define s1 where "s1 = s\<lparr>tg_rest := u\<rparr>"
  have s1: "on_pools (fv_commit_pools E) s = Some (Ok (), s1)" "kept s s1" "\<not> sm_dirty (tg_sm s1)"
      "tg_journal s1" "tg_rest s1 = u"
    using c assms(2,4) by (simp_all add: on_pools_def s1_def kept_def)
  obtain r u2 where j: "fv_journal_commit E (tg_rest s1) = Some (r, u2)" "r \<noteq> Panic"
    using session_lawsD(4) [OF assms(1) _ c(2)] s1(5) by auto
  have "target_CommitTransaction E s = abind (gets tg_journal) (\<lambda>journal.
      abind (assert_act journal) (\<lambda>_.
      try_act (on_rest_fs (fv_journal_commit E)) (\<lambda>_.
      abind (modify (\<lambda>s. s\<lparr>tg_tree :=
             UpdateSpaceUsage (fs_Info s) (fv_blocks_reserved E (tg_rest s)) (tg_tree s)\<rparr>)) (\<lambda>_.
      abind (post_sync_task E) (\<lambda>_.
      modify (\<lambda>s. s\<lparr>tg_rest := fv_destroy_tx E (tg_rest s)\<rparr>)))))) s1"
    using s1(3) unfolding target_CommitTransaction_def
    by (simp only: abind_def [of "on_pools (fv_commit_pools E)"] s1(1) option.case prod.case res.case gets_bind
        if_False abind_def [of "ret ()"] ret_def)
  then show ?thesis
    using j s1(2-4)
    by (cases r) (auto simp: try_act_def on_rest_fs_def post_sync_task_def modify_def kept_def abind_def
        gets_def assert_act_def simp del: modify_bind gets_bind assert_bind)
qed

lemma JournalSync_runs:
  assumes "session_laws E opened" "tg_journal s"
  shows "\<exists>r s'. BlockingJournalSync E s = Some (r, s') \<and> r \<noteq> Panic \<and> kept s s' \<and> tg_sm s' = tg_sm s"
proof -
  obtain r u where "fv_journal_sync E (tg_rest s) = Some (r, u)" "r \<noteq> Panic"
    using session_lawsD(5) [OF assms(1)] by blast
  then show ?thesis using assms(2)
    by (auto simp: BlockingJournalSync_def on_rest_fs_def kept_def)
qed

section \<open>The clean flag\<close>

definition with_clean :: "bool \<Rightarrow> nat \<times> nat \<Rightarrow> nat \<times> nat" where
  "with_clean c h = ((if c then fst h OR kMinfsFlagClean else fst h AND (4294967295 - kMinfsFlagClean)),
     min kMinfsCurrentMinorVersion (snd h))"

text \<open>The state of a session: which parts exist, and what the superblock says.\<close>

definition session :: "('i, 'u) target_fs \<Rightarrow> bool \<times> bool \<times> mount_options \<times> nat \<times> nat" where
  "session s = (tg_bcache s, tg_journal s, tg_options s, header_of (tg_sm s))"

lemma kept_session: "kept s s' \<longleftrightarrow> session s' = session s"
  by (auto simp: kept_def session_def)

lemma UpdateClean_runs:
  assumes "session_laws E opened"
  shows "\<exists>r s'. UpdateCleanBitAndOldestRevision E c s = Some (r, s') \<and> r \<noteq> Panic
    \<and> (if tx_granted E s then session s' = (tg_bcache s, tg_journal s, tg_options s, with_clean c (header_of (tg_sm s)))
         \<and> \<not> sm_dirty (tg_sm s')
       else session s' = session s \<and> \<not> is_ok r)
    \<and> (tx_granted E s \<and> (\<forall>u. \<exists>u'. fv_journal_sync E u = Some (Ok (), u')) \<longrightarrow> r = Ok ())"
proof -
  obtain r1 s1 where b: "target_BeginTransaction E 0 0 s = Some (r1, s1)" "r1 \<noteq> Panic"
      "session s1 = session s" "is_ok r1 \<longleftrightarrow> tx_granted E s" "is_ok r1 \<longrightarrow> opened 0 (tg_rest s1)"
    using Begin_nothing [OF assms, of s] by (auto simp: kept_session)
  show ?thesis
  proof (cases r1)
    case (Ok x)
    have granted: "tx_granted E s" using b Ok by simp
    define s2 where "s2 = (if kMinfsCurrentMinorVersion < oldest_minor_version (fs_Info s1)
      then s1\<lparr>tg_sm := MutableInfo (\<lambda>i. i\<lparr>oldest_minor_version := kMinfsCurrentMinorVersion\<rparr>) (tg_sm s1)\<rparr>
      else s1)"
    define s3 where "s3 = s2\<lparr>tg_sm := MutableInfo (\<lambda>i. i\<lparr>flags :=
             (if c then flags i OR kMinfsFlagClean else flags i AND (4294967295 - kMinfsFlagClean))\<rparr>) (tg_sm s2)\<rparr>"
    have s3: "session s3 = (tg_bcache s, tg_journal s, tg_options s, with_clean c (header_of (tg_sm s)))"
      using b(3) unfolding s3_def s2_def
      by (auto simp: session_def header_of_def MutableInfo_def with_clean_def fs_Info_def min_def)
    have "opened 0 (tg_rest s3)" using b(5) Ok by (simp add: s3_def s2_def)
    then obtain s4 where s4: "fs_sb_Write E True s3 = Some (Ok (), s4)" "session s4 = session s3"
        "\<not> sm_dirty (tg_sm s4)" "opened 2 (tg_rest s4)"
      using sb_Write_runs [OF assms, of s3] by (auto simp: kept_session)
    have journal: "tg_journal s4" using granted s4(2) s3 by (simp add: tx_granted_def session_def)
    obtain s5 where s5: "target_CommitTransaction E s4 = Some (Ok (), s5)" "session s5 = session s4"
        "\<not> sm_dirty (tg_sm s5)"
      using Commit_runs [OF assms journal s4(4,3)] by (auto simp: kept_session)
    have journal: "tg_journal s5" using journal s5(2) by (simp add: session_def)
    obtain r s6 where s6: "BlockingJournalSync E s5 = Some (r, s6)" "r \<noteq> Panic" "session s6 = session s5"
        "tg_sm s6 = tg_sm s5"
      using JournalSync_runs [OF assms journal] by (auto simp: kept_session)
    have "UpdateCleanBitAndOldestRevision E c s = Some (r, s6)"
      using b(1) s4(1) s5(1) s6(1) unfolding Ok s3_def s2_def
      by (simp add: UpdateCleanBitAndOldestRevision_def target_UpdateFlags_def abind_def gets_def modify_def
          ret_def fs_Info_def del: modify_bind gets_bind split: if_splits)
    moreover have "r = Ok ()" if "\<forall>u. \<exists>u'. fv_journal_sync E u = Some (Ok (), u')"
      using that [rule_format, of "tg_rest s5"] s6(1) journal by (auto simp: BlockingJournalSync_def on_rest_fs_def)
    ultimately show ?thesis using granted s3 s4(2) s5(2,3) s6(2-) by simp
  next
    case (Err e)
    then have "UpdateCleanBitAndOldestRevision E c s = Some (Err e, s1)"
      using b(1) by (simp add: UpdateCleanBitAndOldestRevision_def abind_def)
    then show ?thesis using b(3,4) Err by auto
  next
    case Panic
    then show ?thesis using b(2) by simp
  qed
qed

lemma StopWriteback_runs:
  assumes laws: "session_laws E opened" and cache: "tg_bcache s"
  shows "\<exists>s'. StopWriteback E s = Some (Ok (), s')
    \<and> (if mo_writability (tg_options s) = Writable \<and> tx_granted E s
       then session s' = (True, False, tg_options s, with_clean True (header_of (tg_sm s))) \<and> \<not> sm_dirty (tg_sm s')
       else session s' = (True, False, tg_options s, header_of (tg_sm s)))"
proof -
  have ends: "\<exists>s'. abind (modify (\<lambda>s. s\<lparr>tg_journal := False\<rparr>)) (\<lambda>_.
        try_act (on_rest_fs (fv_bcache_sync E)) (\<lambda>_. ret ())) t = Some (Ok (), s')
      \<and> session s' = (tg_bcache t, False, tg_options t, header_of (tg_sm t)) \<and> tg_sm s' = tg_sm t" for t
  proof -
    obtain r u where "fv_bcache_sync E (tg_rest t) = Some (r, u)" "r \<noteq> Panic"
      using session_lawsD(6) [OF laws] by blast
    then show ?thesis by (cases r) (auto simp: try_act_def on_rest_fs_def session_def)
  qed
  show ?thesis
  proof (cases "mo_writability (tg_options s) = Writable")
    case True
    obtain r t where t: "UpdateCleanBitAndOldestRevision E True s = Some (r, t)" "r \<noteq> Panic"
        "if tx_granted E s then session t = (tg_bcache s, tg_journal s, tg_options s, with_clean True (header_of (tg_sm s)))
           \<and> \<not> sm_dirty (tg_sm t)
         else session t = session s \<and> \<not> is_ok r"
      using UpdateClean_runs [OF laws] by blast
    have "StopWriteback E s = abind (modify (\<lambda>s. s\<lparr>tg_journal := False\<rparr>)) (\<lambda>_.
        try_act (on_rest_fs (fv_bcache_sync E)) (\<lambda>_. ret ())) t"
      using t(1,2) cache True unfolding StopWriteback_def
      by (cases r) (simp_all add: gets_bind try_act_def [of "UpdateCleanBitAndOldestRevision E True"])
    then show ?thesis
      using ends [of t] t(3) cache True by (auto simp: session_def split: if_splits)
  next
    case False
    have "StopWriteback E s = abind (modify (\<lambda>s. s\<lparr>tg_journal := False\<rparr>)) (\<lambda>_.
        try_act (on_rest_fs (fv_bcache_sync E)) (\<lambda>_. ret ())) s"
      using cache False by (simp add: StopWriteback_def try_act_def [of "ret ()"] ret_def)
    then show ?thesis using ends [of s] cache False by (auto simp: session_def)
  qed
qed

lemma with_clean_flag: "fst (with_clean c h) AND kMinfsFlagClean \<noteq> 0 \<longleftrightarrow> c"
proof -
  have "odd (fst h OR 1)" by (simp only: even_or_iff) simp
  then have "(fst h OR 1) mod 2 = 1" by (simp only: odd_iff_mod_2_eq_one)
  moreover have "even (fst h AND 4294967294)" by (simp only: even_and_iff) simp
  then have "(fst h AND 4294967294) mod 2 = 0" by (simp only: even_iff_mod_2_eq_zero)
  ultimately show ?thesis by (simp add: with_clean_def kMinfsFlagClean_def and_one_eq)
qed

text \<open>
  After mounting for writing the superblock says that the file system is not clean; a file system
  mounted for reading only stays so, although its end of writing is meant to take that back.
\<close>

lemma start_writing_unclean:
  assumes laws: "session_laws E opened" and cache: "tg_bcache s"
    and purge: "\<And>s. \<exists>r s'. fv_purge_unlinked E s = Some (r, s') \<and> r \<noteq> Panic \<and> kept s s'"
    and w: "mo_writability (tg_options s) \<noteq> ReadOnlyDisk"
  obtains r s' where "start_writing E s = Some (r, s')" "r \<noteq> Panic"
    "is_ok r \<Longrightarrow> flags (fs_Info s') AND kMinfsFlagClean = 0"
    "is_ok r \<Longrightarrow> tg_journal s' \<longleftrightarrow> mo_writability (tg_options s) = Writable"
    "is_ok r \<Longrightarrow> tg_options s' = tg_options s" "is_ok r \<Longrightarrow> tg_bcache s'"
proof -
  let ?w = "mo_writability (tg_options s)"
  obtain r1 s1 where u: "UpdateCleanBitAndOldestRevision E False s = Some (r1, s1)" "r1 \<noteq> Panic"
    and u2: "if tx_granted E s
      then session s1 = (tg_bcache s, tg_journal s, tg_options s, with_clean False (header_of (tg_sm s)))
         \<and> \<not> sm_dirty (tg_sm s1)
      else session s1 = session s \<and> \<not> is_ok r1"
    using UpdateClean_runs [OF laws, of False s] by blast
  obtain r2 s2 where p: "fv_purge_unlinked E s1 = Some (r2, s2)" "r2 \<noteq> Panic" "session s2 = session s1"
    using purge [of s1] by (auto simp: kept_session)
  show ?thesis
  proof (cases "is_ok r1 \<and> is_ok r2")
    case False
    then have "\<exists>r s'. start_writing E s = Some (r, s') \<and> r \<noteq> Panic \<and> \<not> is_ok r"
      using u(1,2) p(1,2) w by (cases r1; cases r2) (simp_all add: start_writing_def abind_def gets_def)
    then show ?thesis using that by blast
  next
    case True
    have s2: "session s2 = (True, True, tg_options s, with_clean False (header_of (tg_sm s)))"
      using u2 True p(3) cache by (auto split: if_splits simp: tx_granted_def)
    have run: "start_writing E s = (if ?w = ReadOnlyFilesystem then StopWriteback E else ret ()) s2"
      using u(1) p(1) True w
      by (cases r1; cases r2) (simp_all add: start_writing_def abind_def [of "UpdateCleanBitAndOldestRevision E False"]
          abind_def [of "fv_purge_unlinked E"])
    have unclean: "fst (with_clean False (header_of (tg_sm s))) AND kMinfsFlagClean = 0"
      using with_clean_flag [of False "header_of (tg_sm s)"] by simp
    show ?thesis
    proof (cases ?w)
      case Writable
      then show ?thesis using that [of "Ok ()" s2] run s2 unclean
        by (simp add: ret_def session_def header_of_def fs_Info_def prod_eq_iff)
    next
      case ReadOnlyFilesystem
      have "tg_bcache s2" "tg_options s2 = tg_options s" using s2 by (simp_all add: session_def)
      then obtain s3 where "StopWriteback E s2 = Some (Ok (), s3)"
          "session s3 = (True, False, tg_options s2, header_of (tg_sm s2))"
        using StopWriteback_runs [OF laws, of s2] ReadOnlyFilesystem by auto
      then show ?thesis using that [of "Ok ()" s3] run s2 unclean ReadOnlyFilesystem
        by (simp add: session_def header_of_def fs_Info_def prod_eq_iff)
    qed (use w in simp)
  qed
qed

lemma Destroy_runs:
  assumes "session_laws E opened" "tg_bcache s"
  defines "clean \<equiv> mo_writability (tg_options s) = Writable \<and> tx_granted E s"
  obtains s' where "Minfs_Destroy E s = Some (Ok (), s')" "clean \<Longrightarrow> \<not> sm_dirty (tg_sm s')"
    "session s' = (False, False, tg_options s,
       if clean then with_clean True (header_of (tg_sm s)) else header_of (tg_sm s))"
proof -
  obtain t where t: "StopWriteback E s = Some (Ok (), t)"
      "if clean then session t = (True, False, tg_options s, with_clean True (header_of (tg_sm s))) \<and> \<not> sm_dirty (tg_sm t)
       else session t = (True, False, tg_options s, header_of (tg_sm s))"
    using StopWriteback_runs [OF assms(1,2)] unfolding clean_def by blast
  define s' where "s' = t\<lparr>tg_bcache := False\<rparr>"
  have "Minfs_Destroy E s = Some (Ok (), s')"
    unfolding Minfs_Destroy_def s'_def by (simp add: abind_def [of "StopWriteback E"] t(1) modify_def)
  then show ?thesis by (rule that) (use t(2) in \<open>auto simp: s'_def session_def split: if_splits\<close>)
qed

end
