(* ===== verification/TargetTx.thy ===== *)
theory TargetTx
  imports TargetFs
begin

text \<open>
  The transactions of the device build in detail: \<open>writeback.h\<close>, \<open>writeback.cc\<close> under
  \<open>__Fuchsia__\<close>, the growth of a pool on a volume, and the transactions that the journal was handed
  but has not finished. It is the state behind the environment of \<open>TargetFs\<close>, whose functions for
  transactions are defined here.
\<close>

section \<open>State\<close>

record target_transaction =
  tt_inode_reservation :: reservation
  tt_block_reservation :: "reservation option"
  tt_metadata_operations :: "queued list"
  tt_data_operations :: "queued list"
  tt_pinned_vnodes :: "nat list"

text \<open>
  What the journal keeps of a transaction: the operations, the deallocations that stay pending until
  it is committed, and the vnodes that stay alive until it is complete.
\<close>

record journal_entry =
  je_metadata :: "queued list"
  je_data :: "queued list"
  je_deallocations :: "nat option"
  je_pinned :: "nat list"

record ('b, 'r, 'd, 'k) tx_state =
  tp_blocks :: "('b, 'r) allocator"
  tp_inodes :: "('b, 'r) inode_store"
  tp_tx :: "target_transaction option"
  tp_volume :: 'd
  tp_kernel :: 'k
  tp_journal :: "journal_entry list"
  tp_enabled :: bool

text \<open>
  \<open>te_add\<close> is the builder of the library, which may merge an operation with those before it, and
  \<open>te_block_count\<close> its count of the blocks of operations; \<open>te_commit_status\<close> and \<open>te_sync_status\<close> are
      the answers of the journal.
\<close>

record ('b, 'r, 'd, 'k) tx_env =
  te_bitmap :: "'b raw_bitmap"
  te_ranges :: "'r rle_bitmap"
  te_crc :: "superblock \<Rightarrow> nat"
  te_volume :: "'d volume"
  te_kernel :: "'k kernel"
  te_block_storage :: persistent_storage
  te_inode_storage :: persistent_storage
  te_add :: "queued \<Rightarrow> queued list \<Rightarrow> queued list"
  te_block_count :: "queued list \<Rightarrow> nat"
  te_max_entry_blocks :: nat
  te_commit_status :: "journal_entry \<Rightarrow> journal_entry list \<Rightarrow> unit res"
  te_sync_status :: "journal_entry list \<Rightarrow> unit res"

type_synonym ('b, 'r, 'd, 'k) tx_pools = "superblock_manager \<times> ('b, 'r, 'd, 'k) tx_state"

type_synonym ('b, 'r, 'd, 'k, 'a) tact = "(('b, 'r, 'd, 'k) tx_pools, 'a) act"

section \<open>Queues and pinned vnodes\<close>

definition target_EnqueueMetadata ::
  "('b, 'r, 'd, 'k) tx_env \<Rightarrow> queued \<Rightarrow> target_transaction \<Rightarrow> target_transaction" where
  "target_EnqueueMetadata E q t = t\<lparr>tt_metadata_operations := te_add E q (tt_metadata_operations t)\<rparr>"

definition target_EnqueueData ::
  "('b, 'r, 'd, 'k) tx_env \<Rightarrow> queued \<Rightarrow> target_transaction \<Rightarrow> target_transaction" where
  "target_EnqueueData E q t = t\<lparr>tt_data_operations := te_add E q (tt_data_operations t)\<rparr>"

definition RemoveMetadataOperations :: "target_transaction \<Rightarrow> queued list \<times> target_transaction" where
  "RemoveMetadataOperations t = (tt_metadata_operations t, t\<lparr>tt_metadata_operations := []\<rparr>)"

definition RemoveDataOperations :: "target_transaction \<Rightarrow> queued list \<times> target_transaction" where
  "RemoveDataOperations t = (tt_data_operations t, t\<lparr>tt_data_operations := []\<rparr>)"

definition PinVnode :: "nat \<Rightarrow> target_transaction \<Rightarrow> target_transaction" where
  "PinVnode v t =
    (if v \<in> set (tt_pinned_vnodes t) then t else t\<lparr>tt_pinned_vnodes := tt_pinned_vnodes t @ [v]\<rparr>)"

definition RemovePinnedVnodes :: "target_transaction \<Rightarrow> nat list \<times> target_transaction" where
  "RemovePinnedVnodes t = (tt_pinned_vnodes t, t\<lparr>tt_pinned_vnodes := []\<rparr>)"

text \<open>An operation on the running transaction.\<close>

definition on_tx ::
  "(target_transaction \<Rightarrow> target_transaction) \<Rightarrow> ('b, 'r, 'd, 'k) tx_state \<Rightarrow> ('b, 'r, 'd, 'k) tx_state" where
  "on_tx f u = u\<lparr>tp_tx := map_option f (tp_tx u)\<rparr>"

section \<open>The two pools\<close>

record ('b, 'r, 'd, 'k) tx_pool =
  xp_get :: "('b, 'r, 'd, 'k) tx_state \<Rightarrow> ('b, 'r) allocator"
  xp_put :: "('b, 'r) allocator \<Rightarrow> ('b, 'r, 'd, 'k) tx_state \<Rightarrow> ('b, 'r, 'd, 'k) tx_state"
  xp_storage :: persistent_storage
  xp_reservation :: "target_transaction \<Rightarrow> reservation option"
  xp_set_reservation :: "reservation \<Rightarrow> target_transaction \<Rightarrow> target_transaction"
  xp_grow :: "(nat \<Rightarrow> ('b, 'r) inode_store \<times> 'k \<Rightarrow> unit res \<times> ('b, 'r) inode_store \<times> 'k) option"

text \<open>The callback that grows the inode table, which has no loop.\<close>

definition grow_table ::
  "'k kernel \<Rightarrow> nat \<Rightarrow> ('b, 'r) inode_store \<times> 'k \<Rightarrow> unit res \<times> ('b, 'r) inode_store \<times> 'k" where
  "grow_table K pool_size s =
    (let (m, k) = s in
     case target_InodeManager_Grow K pool_size m k of
       None \<Rightarrow> (Panic, m, k)
     | Some (Ok m, k) \<Rightarrow> (Ok (), m, k)
     | Some (Err e, k) \<Rightarrow> (Err e, m, k)
     | Some (Panic, k) \<Rightarrow> (Panic, m, k))"

lemma target_InodeManager_Grow_ends: "target_InodeManager_Grow K n m k \<noteq> None"
  by (auto simp: target_InodeManager_Grow_def vmo_Resize_def abind_def try_act_def lift_res_def ret_def
      fail_def split: option.splits res.splits prod.splits)

definition tx_block_pool :: "('b, 'r, 'd, 'k) tx_env \<Rightarrow> ('b, 'r, 'd, 'k) tx_pool" where
  "tx_block_pool E =
    \<lparr>xp_get = tp_blocks, xp_put = (\<lambda>al u. u\<lparr>tp_blocks := al\<rparr>), xp_storage = te_block_storage E,
     xp_reservation = tt_block_reservation,
     xp_set_reservation = (\<lambda>rs t. t\<lparr>tt_block_reservation := Some rs\<rparr>), xp_grow = None\<rparr>"

definition tx_inode_pool :: "('b, 'r, 'd, 'k) tx_env \<Rightarrow> ('b, 'r, 'd, 'k) tx_pool" where
  "tx_inode_pool E =
    \<lparr>xp_get = is_allocator \<circ> tp_inodes,
     xp_put = (\<lambda>al u. u\<lparr>tp_inodes := (tp_inodes u)\<lparr>is_allocator := al\<rparr>\<rparr>), xp_storage = te_inode_storage E,
     xp_reservation = Some \<circ> tt_inode_reservation,
     xp_set_reservation = (\<lambda>rs t. t\<lparr>tt_inode_reservation := rs\<rparr>),
     xp_grow = Some (grow_table (te_kernel E))\<rparr>"

text \<open>\<open>Allocator::Reserve\<close>: what pending changes hold back is not available, and a pool that is too
  small grows by a slice; the superblock and the bitmap it then writes go into the transaction.\<close>

definition tx_pool_grow ::
  "('b, 'r, 'd, 'k) tx_env \<Rightarrow> ('b, 'r, 'd, 'k) tx_pool \<Rightarrow> ('b, 'r) allocator \<times> ('b, 'r, 'd, 'k) tx_pools
    \<Rightarrow> unit res \<times> ('b, 'r) allocator \<times> ('b, 'r, 'd, 'k) tx_pools" where
  "tx_pool_grow E P s =
    (let (al, sm, u) = s;
         (r, sm, t, d, (m, k), al) =
           target_Extend (te_crc E) (te_volume E) (xp_storage P)
             (\<lambda>q. map_option (target_EnqueueMetadata E q)) (xp_grow P) (GrowMapLocked (te_bitmap E))
             (sm, tp_tx u, tp_volume u, (tp_inodes u, tp_kernel u), al)
     in (r, al, sm, u\<lparr>tp_tx := t, tp_volume := d, tp_inodes := m, tp_kernel := k\<rparr>))"

definition tx_pool_reserve ::
  "('b, 'r, 'd, 'k) tx_env \<Rightarrow> ('b, 'r, 'd, 'k) tx_pool \<Rightarrow> nat \<Rightarrow> ('b, 'r, 'd, 'k) tx_pools
    \<Rightarrow> unit res \<times> ('b, 'r, 'd, 'k) tx_pools" where
  "tx_pool_reserve E P n s =
    (let (sm, u) = s;
         (r, al, sm, u) = Allocator_Reserve
           (\<lambda>(al, sm, u). target_GetAvailableLocked (te_ranges E) (PoolAvailable (st_metadata
               (xp_storage P)) sm) al)
           (tx_pool_grow E P) n (xp_get P u, sm, u)
     in (r, sm, xp_put P al u))"

definition on_tx_reservation ::
  "('b, 'r, 'd, 'k) tx_pool
    \<Rightarrow> (reservation \<times> ('b, 'r, 'd, 'k) tx_pools \<Rightarrow> ('a res \<times> reservation \<times> ('b, 'r, 'd, 'k) tx_pools) option)
    \<Rightarrow> ('b, 'r, 'd, 'k, 'a) tact" where
  "on_tx_reservation P f s =
    (case map_option (xp_reservation P) (tp_tx (snd s)) of
       Some (Some rs) \<Rightarrow>
         (case f (rs, s) of
            None \<Rightarrow> None
          | Some (r, rs, sm, u) \<Rightarrow> Some (r, sm, on_tx (xp_set_reservation P rs) u))
     | _ \<Rightarrow> Some (Panic, s))"

definition target_Reserve_inodes :: "('b, 'r, 'd, 'k) tx_env \<Rightarrow> nat \<Rightarrow> ('b, 'r, 'd, 'k, unit) tact" where
  "target_Reserve_inodes E n =
    on_tx_reservation (tx_inode_pool E) (\<lambda>s. Some (Reservation_Reserve (tx_pool_reserve E (tx_inode_pool
        E)) n s))"

definition target_ExtendBlockReservation ::
  "('b, 'r, 'd, 'k) tx_env \<Rightarrow> nat \<Rightarrow> ('b, 'r, 'd, 'k, unit) tact" where
  "target_ExtendBlockReservation E n =
    on_tx_reservation (tx_block_pool E) (\<lambda>s. Some (ExtendReservation (tx_pool_reserve E (tx_block_pool
        E)) n s))"

text \<open>Taking, giving back and swapping an element.\<close>

definition from_allocator ::
  "('b, 'r, 'd, 'k) tx_pool \<Rightarrow> (('b, 'r) allocator \<times> reservation \<Rightarrow> ('a \<times> ('b, 'r) allocator \<times>
      reservation) res option)
    \<Rightarrow> ('b, 'r, 'd, 'k, 'a) tact" where
  "from_allocator P f = on_tx_reservation P (\<lambda>(rs, sm, u).
    case f (xp_get P u, rs) of
      None \<Rightarrow> None
    | Some (Ok (x, al, rs)) \<Rightarrow> Some (Ok x, rs, sm, xp_put P al u)
    | Some (Err e) \<Rightarrow> Some (Err e, rs, sm, u)
    | Some Panic \<Rightarrow> Some (Panic, rs, sm, u))"

definition target_AllocateBlock :: "('b, 'r, 'd, 'k) tx_env \<Rightarrow> ('b, 'r, 'd, 'k, nat) tact" where
  "target_AllocateBlock E =
    from_allocator (tx_block_pool E) (Reservation_Allocate (te_bitmap E) (te_ranges E))"

definition target_AllocateInode :: "('b, 'r, 'd, 'k) tx_env \<Rightarrow> ('b, 'r, 'd, 'k, nat) tact" where
  "target_AllocateInode E =
    from_allocator (tx_inode_pool E) (Reservation_Allocate (te_bitmap E) (te_ranges E))"

definition target_DeallocateBlock :: "('b, 'r, 'd, 'k) tx_env \<Rightarrow> nat \<Rightarrow> ('b, 'r, 'd, 'k, unit) tact" where
  "target_DeallocateBlock E block =
    from_allocator (tx_block_pool E) (\<lambda>s.
      Some (res_bind (Reservation_Deallocate (te_ranges E) block s) (\<lambda>s. Ok ((), s))))"

definition target_InodeManager_Free :: "('b, 'r, 'd, 'k) tx_env \<Rightarrow> nat \<Rightarrow> ('b, 'r, 'd, 'k, unit) tact" where
  "target_InodeManager_Free E index =
    from_allocator (tx_inode_pool E) (\<lambda>s.
      Some (res_bind (Allocator_Free (te_ranges E) index s) (\<lambda>s. Ok ((), s))))"

definition SwapBlock :: "('b, 'r, 'd, 'k) tx_env \<Rightarrow> nat \<Rightarrow> ('b, 'r, 'd, 'k, nat) tact" where
  "SwapBlock E old_bno =
    from_allocator (tx_block_pool E) (Reservation_Swap (te_bitmap E) (te_ranges E) old_bno)"

section \<open>Life of a transaction\<close>

definition target_new_transaction :: "reservation option \<Rightarrow> target_transaction" where
  "target_new_transaction cached =
    \<lparr>tt_inode_reservation = empty_reservation,
     tt_block_reservation = Some (case cached of None \<Rightarrow> empty_reservation | Some rs \<Rightarrow> rs),
     tt_metadata_operations = [], tt_data_operations = [], tt_pinned_vnodes = []\<rparr>"

definition target_Transaction_Destroy ::
  "('b, 'r, 'd, 'k) tx_env \<Rightarrow> ('b, 'r, 'd, 'k) tx_state \<Rightarrow> ('b, 'r, 'd, 'k) tx_state" where
  "target_Transaction_Destroy E u =
    (case tp_tx u of
       None \<Rightarrow> u
     | Some t \<Rightarrow>
         let m = tp_inodes u;
             (al, irs) = Reservation_Cancel (is_allocator m, tt_inode_reservation t);
             u = (case tt_block_reservation t of
                    None \<Rightarrow> u
                  | Some rs \<Rightarrow> u\<lparr>tp_blocks := Reservation_Destroy (te_ranges E) (tp_blocks u, rs)\<rparr>)
         in u\<lparr>tp_inodes := m\<lparr>is_allocator := Reservation_Destroy (te_ranges E) (al, irs)\<rparr>, tp_tx := None\<rparr>)"

definition or_destroyed :: "('b, 'r, 'd, 'k) tx_env \<Rightarrow> ('b, 'r, 'd, 'k, 'a) tact \<Rightarrow> ('b, 'r, 'd, 'k, 'a)
    tact" where
  "or_destroyed E m = try_act m (\<lambda>r. case r of
      Ok x \<Rightarrow> ret x
    | Err e \<Rightarrow> abind (modify (\<lambda>(sm, u). (sm, target_Transaction_Destroy E u))) (\<lambda>_. fail e)
    | Panic \<Rightarrow> abort)"

definition target_Transaction_Create ::
  "('b, 'r, 'd, 'k) tx_env \<Rightarrow> nat \<Rightarrow> nat \<Rightarrow> ('b, 'r, 'd, 'k, unit) tact" where
  "target_Transaction_Create E reserve_inodes reserve_blocks =
    abind (modify (\<lambda>(sm, u). (sm, u\<lparr>tp_tx := Some (target_new_transaction None)\<rparr>))) (\<lambda>_.
    abind (if reserve_inodes \<noteq> 0 then or_destroyed E (target_Reserve_inodes E reserve_inodes) else ret ()) (\<lambda>_.
    if reserve_blocks \<noteq> 0 then or_destroyed E (target_ExtendBlockReservation E reserve_blocks) else ret ()))"

definition target_FromCachedBlockTransaction ::
  "reservation \<Rightarrow> ('b, 'r, 'd, 'k) tx_state \<Rightarrow> ('b, 'r, 'd, 'k) tx_state" where
  "target_FromCachedBlockTransaction cached u = u\<lparr>tp_tx := Some (target_new_transaction (Some cached))\<rparr>"

definition target_TakeBlockReservations ::
  "('b, 'r, 'd, 'k) tx_state \<Rightarrow> (reservation option \<times> ('b, 'r, 'd, 'k) tx_state) res" where
  "target_TakeBlockReservations u =
    (case tp_tx u of
       None \<Rightarrow> Panic
     | Some t \<Rightarrow>
         zx_assert (rs_reserved (tt_inode_reservation t) = 0)
           (Ok (tt_block_reservation t, u\<lparr>tp_tx := Some (t\<lparr>tt_block_reservation := None\<rparr>)\<rparr>)))"

section \<open>Commit\<close>

definition tx_commit_pool ::
  "('b, 'r, 'd, 'k) tx_env \<Rightarrow> ('b, 'r, 'd, 'k) tx_pool \<Rightarrow> ('b, 'r, 'd, 'k, unit) tact" where
  "tx_commit_pool E P s =
    (let (sm, u) = s in
     case tp_tx u of
       None \<Rightarrow> Some (Panic, s)
     | Some t \<Rightarrow>
         (case xp_reservation P t of
            None \<Rightarrow> Some (Panic, s)
          | Some rs \<Rightarrow>
              (case Reservation_Commit (te_bitmap E) (te_ranges E) (xp_storage P) (target_EnqueueMetadata E)
                      (xp_get P u, rs, sm, t) of
                 Ok (al, rs, sm, t) \<Rightarrow>
                   Some (Ok (), sm, (xp_put P al u)\<lparr>tp_tx := Some (xp_set_reservation P rs t)\<rparr>)
               | Err e \<Rightarrow> Some (Err e, s)
               | Panic \<Rightarrow> Some (Panic, s))))"

definition tx_commit_pools :: "('b, 'r, 'd, 'k) tx_env \<Rightarrow> ('b, 'r, 'd, 'k, unit) tact" where
  "tx_commit_pools E =
    abind (tx_commit_pool E (tx_inode_pool E)) (\<lambda>_. tx_commit_pool E (tx_block_pool E))"

text \<open>The callback of an entry that the journal has committed, and of one that is complete: the first
  destroys the deallocations, the second lets go of the vnodes.\<close>

definition release_deallocations ::
  "('b, 'r, 'd, 'k) tx_env \<Rightarrow> nat option \<Rightarrow> ('b, 'r, 'd, 'k) tx_state \<Rightarrow> ('b, 'r, 'd, 'k) tx_state" where
  "release_deallocations E cid u =
    (case cid of
       None \<Rightarrow> u
     | Some cid \<Rightarrow> u\<lparr>tp_blocks := RemovePendingChange (te_ranges E) cid (tp_blocks u)\<rparr>)"

definition commit_callback ::
  "('b, 'r, 'd, 'k) tx_env \<Rightarrow> nat \<Rightarrow> ('b, 'r, 'd, 'k) tx_state \<Rightarrow> ('b, 'r, 'd, 'k) tx_state" where
  "commit_callback E i u =
    (let e = tp_journal u ! i
     in release_deallocations E (je_deallocations e)
          (u\<lparr>tp_journal := (tp_journal u)[i := e\<lparr>je_deallocations := None\<rparr>]\<rparr>))"

definition complete_callback :: "nat \<Rightarrow> ('b, 'r, 'd, 'k) tx_state \<Rightarrow> ('b, 'r, 'd, 'k) tx_state" where
  "complete_callback i u =
    u\<lparr>tp_journal := (tp_journal u)[i := (tp_journal u ! i)\<lparr>je_pinned := []\<rparr>]\<rparr>"

text \<open>The transaction is handed to the journal; one that is refused loses its callbacks at once.\<close>

definition tx_journal_commit ::
  "('b, 'r, 'd, 'k) tx_env \<Rightarrow> (('b, 'r, 'd, 'k) tx_state, unit) act" where
  "tx_journal_commit E u =
    (case tp_tx u of
       None \<Rightarrow> Some (Panic, u)
     | Some t \<Rightarrow>
         (case tt_block_reservation t of
            None \<Rightarrow> Some (Panic, u)
          | Some rs \<Rightarrow>
              let (data, t) = RemoveDataOperations t;
                  (metadata, t) = RemoveMetadataOperations t
              in if te_max_entry_blocks E < te_block_count E metadata then Some (Panic, u)
                 else
                   let (deallocations, rs) = TakePendingDeallocations rs;
                       (pinned, t) = RemovePinnedVnodes (t\<lparr>tt_block_reservation := Some rs\<rparr>);
                       e = \<lparr>je_metadata = metadata, je_data = data, je_deallocations = deallocations,
                            je_pinned = pinned\<rparr>;
                       r = te_commit_status E e (tp_journal u);
                       u = u\<lparr>tp_tx := Some t\<rparr>
                   in Some (r, if is_ok r then u\<lparr>tp_journal := tp_journal u @ [e]\<rparr>
                               else release_deallocations E deallocations u)))"

text \<open>A synchronisation ends when all that was handed to the journal is done.\<close>

definition tx_journal_sync :: "('b, 'r, 'd, 'k) tx_env \<Rightarrow> (('b, 'r, 'd, 'k) tx_state, unit) act" where
  "tx_journal_sync E u =
    Some (te_sync_status E (tp_journal u),
      (fold (\<lambda>e. release_deallocations E (je_deallocations e)) (tp_journal u) u)\<lparr>tp_journal := []\<rparr>)"

text \<open>The destructor of an allocator.\<close>

definition Allocator_Destroy :: "('b, 'r) allocator \<Rightarrow> unit res" where
  "Allocator_Destroy al = zx_assert (al_pending al = []) (Ok ())"

section \<open>The environment of the file system\<close>

definition tx_fs_env ::
  "('b, 'r, 'd, 'k) tx_env \<Rightarrow> ('i, ('b, 'r, 'd, 'k) tx_state) fs_env
    \<Rightarrow> ('i, ('b, 'r, 'd, 'k) tx_state) fs_env" where
  "tx_fs_env E F =
    F\<lparr>fv_crc := te_crc E, fv_enqueue := (\<lambda>q. on_tx (target_EnqueueMetadata E q)),
      fv_create_tx := target_Transaction_Create E, fv_destroy_tx := target_Transaction_Destroy E,
      fv_commit_pools := tx_commit_pools E, fv_journal_commit := tx_journal_commit E,
      fv_writeback_enabled := tp_enabled, fv_journal_sync := tx_journal_sync E,
      fv_blocks_reserved := (\<lambda>u. GetReserved (tp_blocks u))\<rparr>"

end
