(* ===== verification/TargetTx_Laws.thy ===== *)
theory TargetTx_Laws
  imports TargetTx Allocator_Laws Keeps
begin

text \<open>
  Blocks that a transaction of the device build gives back: the journal owns their deallocation until
  it has committed the transaction, and until then no other transaction is given them. The invariant
  of the block allocator's store of changes is kept by every operation on transactions.
\<close>

section \<open>Changes of the store\<close>

definition rs_ids :: "reservation \<Rightarrow> nat set" where
  "rs_ids rs = set_option (rs_allocations rs) \<union> set_option (rs_deallocations rs)"

lemma rs_ids_reserved [simp]: "rs_ids (rs\<lparr>rs_reserved := n\<rparr>) = rs_ids rs"
  by (simp add: rs_ids_def)

lemma rs_ids_empty [simp]: "rs_ids empty_reservation = {}"
  by (simp add: rs_ids_def empty_reservation_def)

text \<open>The changes of a reservation are in the store, and its two changes are different ones.\<close>

definition rs_in :: "('b, 'r) allocator \<Rightarrow> reservation \<Rightarrow> bool" where
  "rs_in al rs \<longleftrightarrow> rs_ids rs \<subseteq> dom (al_changes al)
     \<and> (rs_allocations rs = None \<or> rs_allocations rs \<noteq> rs_deallocations rs)"

text \<open>An operation on a reservation touches only the changes of this reservation and new ones.\<close>

definition own_changes ::
  "('b, 'r) allocator \<Rightarrow> reservation \<Rightarrow> ('b, 'r) allocator \<Rightarrow> reservation \<Rightarrow> bool" where
  "own_changes al rs al' rs' \<longleftrightarrow> (al_ids al \<and> rs_in al rs \<longrightarrow>
     al_ids al' \<and> rs_in al' rs' \<and> al_next_id al \<le> al_next_id al' \<and> rs_ids rs \<subseteq> rs_ids rs'
     \<and> dom (al_changes al') \<subseteq> dom (al_changes al) \<union> rs_ids rs'
     \<and> (\<forall>x < al_next_id al. x \<notin> rs_ids rs \<longrightarrow> al_changes al' x = al_changes al x \<and> x \<notin> rs_ids rs'))"

lemma own_changesD:
  assumes "own_changes al rs al' rs'" "al_ids al" "rs_in al rs"
  shows "al_ids al'" "rs_in al' rs'" "al_next_id al \<le> al_next_id al'" "rs_ids rs \<subseteq> rs_ids rs'"
    "dom (al_changes al') \<subseteq> dom (al_changes al) \<union> rs_ids rs'"
    "x < al_next_id al \<Longrightarrow> x \<notin> rs_ids rs \<Longrightarrow> al_changes al' x = al_changes al x \<and> x \<notin> rs_ids rs'"
  using assms by (auto simp: own_changes_def)

lemma own_changes_trans:
  assumes "own_changes al rs al1 rs1" "own_changes al1 rs1 al2 rs2"
  shows "own_changes al rs al2 rs2"
  unfolding own_changes_def
proof (intro impI conjI allI)
  assume "al_ids al \<and> rs_in al rs"
  note 1 = own_changesD [OF assms(1) conjunct1 [OF this] conjunct2 [OF this]]
  note 2 = own_changesD [OF assms(2) 1(1,2)]
  show "al_ids al2" "rs_in al2 rs2" "al_next_id al \<le> al_next_id al2" "rs_ids rs \<subseteq> rs_ids rs2"
    using 1 2 by simp_all
  show "dom (al_changes al2) \<subseteq> dom (al_changes al) \<union> rs_ids rs2" using 1(5) 2(4,5) by blast
  fix x assume "x < al_next_id al" "x \<notin> rs_ids rs"
  then show "al_changes al2 x = al_changes al x" "x \<notin> rs_ids rs2" using 1 2 by (metis less_le_trans)+
qed

lemma own_changes_same:
  assumes "al_ids al' = al_ids al" "al_changes al' = al_changes al" "al_next_id al' = al_next_id al"
    "rs_allocations rs' = rs_allocations rs" "rs_deallocations rs' = rs_deallocations rs"
  shows "own_changes al rs al' rs'"
  using assms by (simp add: own_changes_def rs_in_def rs_ids_def)

lemma own_changes_update:
  "cid \<in> rs_ids rs \<Longrightarrow> own_changes al rs (al\<lparr>al_changes := (al_changes al)(cid \<mapsto> c)\<rparr>) rs"
  by (auto simp: own_changes_def al_ids_def rs_in_def)

lemma AddPendingChange_ids:
  assumes "AddPendingChange c al = (cid, al')" "al_ids al"
  shows "al_ids al'" "cid = al_next_id al" "al_changes al' = (al_changes al)(cid \<mapsto> c)"
    "al_next_id al' = al_next_id al + 1" "al_changes al cid = None"
  using assms by (auto simp: AddPendingChange_def al_ids_def less_Suc_eq split: if_splits)

lemma own_changes_pending:
  assumes "GetPendingAllocations R (al, rs) = (cid, al', rs') \<or> GetPendingDeallocations R (al, rs) =
      (cid, al', rs')"
  shows "own_changes al rs al' rs' \<and> cid \<in> rs_ids rs'"
proof -
  have new: "rs_allocations rs = None \<Longrightarrow> own_changes al rs al1 (rs\<lparr>rs_allocations := Some i\<rparr>)"
      "rs_deallocations rs = None \<Longrightarrow> own_changes al rs al1 (rs\<lparr>rs_deallocations := Some i\<rparr>)"
    if "AddPendingChange c al = (i, al1)" for c i al1
    using AddPendingChange_ids [OF that]
    by (cases "rs_deallocations rs"; cases "rs_allocations rs"; force simp: own_changes_def rs_in_def rs_ids_def)+
  show ?thesis
    using assms
    by (auto simp: GetPendingAllocations_def GetPendingDeallocations_def own_changes_same rs_ids_def
        split: option.splits prod.splits intro: new)
qed

lemma own_changes_Allocate:
  assumes "Allocator_Allocate B R (al, rs) = Some (Ok (i, al', rs'))"
  shows "own_changes al rs al' rs'"
proof -
  obtain cid al1 rs1 where g: "GetPendingAllocations R (al, rs) = (cid, al1, rs1)" by (metis prod_cases3)
  note p = own_changes_pending [OF disjI1 [OF g]]
  obtain bits n where al': "rs' = rs1" "al' = al1\<lparr>al_changes := (al_changes al1)
      (cid \<mapsto> (the (al_changes al1 cid))\<lparr>pc_bitmap := bits\<rparr>), al_reserved := n, al_first_free := i + 1\<rparr>"
    using assms by (auto simp: Allocator_Allocate_def g Let_def split: option.splits res.splits)
  have "own_changes al1 rs1 (al1\<lparr>al_changes := (al_changes al1)
      (cid \<mapsto> (the (al_changes al1 cid))\<lparr>pc_bitmap := bits\<rparr>)\<rparr>) rs1"
    using p by (intro own_changes_update) simp
  then have "own_changes al1 rs1 al' rs'" unfolding al'
    by (rule own_changes_trans) (intro own_changes_same, simp_all add: al_ids_def)
  with p show ?thesis by (blast intro: own_changes_trans)
qed

lemma own_changes_Free:
  assumes "Allocator_Free R i (al, rs) = Ok (al', rs')"
  shows "own_changes al rs al' rs'"
proof -
  obtain aid al1 rs1 where g: "GetPendingAllocations R (al, rs) = (aid, al1, rs1)" by (metis prod_cases3)
  obtain did al2 rs2 where d: "GetPendingDeallocations R (al1, rs1) = (did, al2, rs2)" by (metis prod_cases3)
  have ids: "aid \<in> rs_ids rs2"
    using g d by (auto simp: GetPendingAllocations_def GetPendingDeallocations_def rs_ids_def
        split: option.splits prod.splits)
  note p = own_changes_pending [OF disjI1 [OF g]] own_changes_pending [OF disjI2 [OF d]]
  have "own_changes al2 rs2 al' rs'"
    using assms p(2) ids by (auto simp: Allocator_Free_def g d Let_def split: if_splits res.splits
        intro: own_changes_update)
  with p show ?thesis by (blast intro: own_changes_trans)
qed

lemma own_changes_Reservation_Allocate:
  assumes "Reservation_Allocate B R (al, rs) = Some (Ok (i, al', rs'))"
  shows "own_changes al rs al' rs'"
proof -
  have "Allocator_Allocate B R (al, rs\<lparr>rs_reserved := rs_reserved rs - 1\<rparr>) = Some (Ok (i, al', rs'))"
    using assms by (simp add: Reservation_Allocate_def split: if_splits)
  from own_changes_trans [OF own_changes_same own_changes_Allocate [OF this]] show ?thesis by simp
qed

lemma own_changes_Swap:
  assumes "Reservation_Swap B R old (al, rs) = Some (Ok (i, al', rs'))"
  shows "own_changes al rs al' rs'"
proof (cases "old > 0")
  case True
  then obtain al1 rs1 where f: "Allocator_Free R old (al, rs) = Ok (al1, rs1)"
      "Reservation_Allocate B R (al1, rs1) = Some (Ok (i, al', rs'))"
    using assms by (auto simp: Reservation_Swap_def split: res.splits)
  show ?thesis
    using own_changes_trans [OF own_changes_Free [OF f(1)] own_changes_Reservation_Allocate [OF f(2)]] .
qed (use assms own_changes_Reservation_Allocate in \<open>simp add: Reservation_Swap_def\<close>)

text \<open>Committing, after which the given back elements are held by the change of the deallocations.\<close>

lemma own_changes_Commit:
  assumes "Reservation_Commit B R st enqueue (al, rs, sm, t) = Ok (al', rs', sm', t')"
  shows "own_changes al rs al' rs'"
proof -
  obtain aid al1 rs1 where g: "GetPendingAllocations R (al, rs) = (aid, al1, rs1)" by (metis prod_cases3)
  obtain did al2 rs2 where d: "GetPendingDeallocations R (al1, rs1) = (did, al2, rs2)" by (metis prod_cases3)
  have ids: "aid \<in> rs_ids rs2"
    using g d by (auto simp: GetPendingAllocations_def GetPendingDeallocations_def rs_ids_def
        split: option.splits prod.splits)
  note p = own_changes_pending [OF disjI1 [OF g]] own_changes_pending [OF disjI2 [OF d]]
  obtain b a' d' where al': "rs' = rs2"
    "al' = al2 \<or> al' = al2\<lparr>al_map := b, al_changes := (al_changes al2)(aid \<mapsto> a', did \<mapsto> d')\<rparr>"
    using assms by (auto simp: Reservation_Commit_def Allocator_Commit_def g d Let_def split: if_splits
        prod.splits)
  have "own_changes al2 rs2 (al2\<lparr>al_changes := (al_changes al2)(aid \<mapsto> a', did \<mapsto> d')\<rparr>) rs2"
    using own_changes_trans [OF own_changes_update [OF ids] own_changes_update [of did]] p(2) by simp
  from own_changes_trans [OF this own_changes_same]
  have "own_changes al2 rs2 (al2\<lparr>al_map := b, al_changes := (al_changes al2)(aid \<mapsto> a', did \<mapsto> d')\<rparr>) rs2"
    by (simp add: al_ids_def)
  then have "own_changes al2 rs2 al' rs'" using al' own_changes_same [of al2 al2 rs2 rs2] by metis
  with p show ?thesis by (blast intro: own_changes_trans)
qed

lemma Commit_holds:
  assumes laws: "rle_bitmap_laws R" and "al_ids al" "rs_in al rs"
    and "Reservation_Commit B R st enqueue (al, rs, sm, t) = Ok (al', rs', sm', t')"
  obtains did where "rs_deallocations rs' = Some did" "res_gives R al rs \<subseteq> blk R al' did"
proof -
  obtain aid al1 rs1 where g: "GetPendingAllocations R (al, rs) = (aid, al1, rs1)" by (metis prod_cases3)
  obtain did al2 rs2 where d: "GetPendingDeallocations R (al1, rs1) = (did, al2, rs2)" by (metis prod_cases3)
  have rs': "rs' = rs2" "rs_deallocations rs2 = Some did"
    using assms(4) d by (auto simp: Reservation_Commit_def Allocator_Commit_def g d Let_def
        GetPendingDeallocations_def split: if_splits prod.splits option.splits)
  have "res_gives R al rs \<subseteq> blk R al' did"
  proof (cases "rs_deallocations rs")
    case None
    then show ?thesis by (simp add: res_gives_def)
  next
    case (Some x)
    have "rs_deallocations rs1 = Some x"
      using g Some by (auto simp: GetPendingAllocations_def split: option.splits prod.splits)
    then have x: "did = x" "al2 = al1" "rs2 = rs1" using d by (auto simp: GetPendingDeallocations_def)
    obtain c where c: "al_changes al x = Some c" using assms(3) Some by (auto simp: rs_in_def rs_ids_def)
    have "al_changes al (al_next_id al) = None" using assms(2) by (force simp: al_ids_def)
    then have c1: "al_changes al1 x = Some c"
      using g c by (auto simp: GetPendingAllocations_def AddPendingChange_def al_ids_def
          split: option.splits prod.splits)
    have gives: "res_gives R al rs = freeing R c" using Some c by (simp add: res_gives_def frg_def)
    show ?thesis
    proof (cases "item_count R (the (al_changes al1 aid)) = 0 \<and> item_count R c = 0")
      case True
      then have "rle_set R (pc_bitmap c) = {}"
        using rle_num_bits_card [OF laws] rle_set_finite [OF laws] by (simp add: item_count_def)
      then show ?thesis by (simp add: gives freeing_def)
    next
      case False
      then have "al_changes al' did = Some (c\<lparr>pc_committed := True\<rparr>)"
        using assms(4) by (auto simp: Reservation_Commit_def Allocator_Commit_def g d Let_def x c1
            split: if_splits prod.splits)
      then show ?thesis by (auto simp: gives freeing_def blk_def blocked_def)
    qed
  qed
  then show ?thesis using that rs' by simp
qed

lemma RemovePendingChange_store:
  shows "al_changes (RemovePendingChange R cid al) = (al_changes al)(cid := None)"
    "al_next_id (RemovePendingChange R cid al) = al_next_id al"
    "al_ids al \<Longrightarrow> al_ids (RemovePendingChange R cid al)"
  by (auto simp: RemovePendingChange_def Let_def al_ids_def distinct_removeAll split: if_splits list.splits)

section \<open>The invariant\<close>

text \<open>The deallocations that wait for the journal, one entry each.\<close>

definition waiting :: "nat option list \<Rightarrow> nat set" where
  "waiting ws = {cid. Some cid \<in> set ws}"

lemma waiting_simps [simp]:
  "waiting [] = {}" "waiting (None # ws) = waiting ws" "waiting (Some x # ws) = insert x (waiting ws)"
  "waiting (ws @ ws') = waiting ws \<union> waiting ws'"
  by (auto simp: waiting_def)

text \<open>
  The store is consistent, and its changes are those of the running transaction and those that wait. A
  change that is watched either waits, with its content unchanged, or has been destroyed.
\<close>

type_synonym 'r watched = "(nat \<times> 'r pending_change) option"

definition watch :: "'r watched \<Rightarrow> ('b, 'r) allocator \<Rightarrow> nat option list \<Rightarrow> bool" where
  "watch w al ws \<longleftrightarrow> (\<forall>did c. w = Some (did, c) \<longrightarrow> did < al_next_id al
     \<and> (al_changes al did = None \<or> did \<in> waiting ws \<and> al_changes al did = Some c))"

lemma watch_None [simp]: "watch None al ws"
  by (simp add: watch_def)

definition ids_of :: "reservation option \<Rightarrow> nat set" where
  "ids_of ors = (case ors of None \<Rightarrow> {} | Some rs \<Rightarrow> rs_ids rs)"

lemma ids_of_simps [simp]: "ids_of None = {}" "ids_of (Some rs) = rs_ids rs"
  by (simp_all add: ids_of_def)

definition pool_guard ::
  "'r watched \<Rightarrow> ('b, 'r) allocator \<Rightarrow> reservation option \<Rightarrow> nat option list \<Rightarrow> bool" where
  "pool_guard w al ors ws \<longleftrightarrow> al_ids al \<and> distinct (filter (\<lambda>x. x \<noteq> None) ws)
     \<and> waiting ws \<subseteq> dom (al_changes al) \<and> dom (al_changes al) \<subseteq> ids_of ors \<union> waiting ws
     \<and> (\<forall>rs. ors = Some rs \<longrightarrow> rs_in al rs \<and> rs_ids rs \<inter> waiting ws = {})
     \<and> watch w al ws"

lemma pool_guard_own:
  assumes "pool_guard w al (Some rs) ws" "own_changes al rs al' rs'"
  shows "pool_guard w al' (Some rs') ws"
proof -
  have g: "al_ids al" "rs_in al rs" "waiting ws \<subseteq> dom (al_changes al)" "rs_ids rs \<inter> waiting ws = {}"
      "watch w al ws" "dom (al_changes al) \<subseteq> rs_ids rs \<union> waiting ws"
    using assms(1) by (auto simp: pool_guard_def)
  note o = own_changesD [OF assms(2) g(1,2)]
  have "al_changes al' x = al_changes al x \<and> x \<notin> rs_ids rs'" if "x \<in> waiting ws" for x
  proof -
    have "x < al_next_id al" "x \<notin> rs_ids rs" using that g(1,3,4) by (auto simp: al_ids_def)
    then show ?thesis by (rule o(6))
  qed
  then have "waiting ws \<subseteq> dom (al_changes al')" "rs_ids rs' \<inter> waiting ws = {}" using g(3) by auto
  moreover have "al_changes al' did = al_changes al did" if "w = Some (did, c)" for did c
  proof -
    have "did \<notin> rs_ids rs" using g(2,4,5) that by (auto simp: rs_in_def watch_def)
    then show ?thesis using o(6) g(5) that by (auto simp: watch_def)
  qed
  then have "watch w al' ws" using g(5) o(3) by (auto simp: watch_def)
  moreover have "dom (al_changes al') \<subseteq> rs_ids rs' \<union> waiting ws" using g(6) o(4,5) by blast
  ultimately show ?thesis using assms(1) o(1,2) by (simp add: pool_guard_def)
qed

text \<open>Destroying a change of the running transaction, or one at the front of those that wait.\<close>

lemma pool_guard_remove:
  assumes "pool_guard w al (Some rs) ws" "cid \<in> rs_ids rs" "rs_ids rs' = rs_ids rs - {cid}"
    "rs_allocations rs' = None \<or> rs_allocations rs' \<noteq> rs_deallocations rs'"
  shows "pool_guard w (RemovePendingChange R cid al) (Some rs') ws"
  using assms by (auto simp: pool_guard_def RemovePendingChange_store rs_in_def watch_def)

lemma pool_guard_no_tx: "pool_guard w al (Some rs) ws \<Longrightarrow> rs_ids rs = {} \<Longrightarrow> pool_guard w al None ws"
  by (simp add: pool_guard_def)

lemma pool_guard_empty:
  "pool_guard w al None ws \<Longrightarrow> pool_guard w al (Some empty_reservation) ws"
  by (simp add: pool_guard_def rs_in_def) (simp add: empty_reservation_def)

lemma distinct_without:
  assumes "distinct (filter (\<lambda>x. x \<noteq> None) ws)" "i < length ws"
  shows "distinct (filter (\<lambda>x. x \<noteq> None) (ws[i := None]))"
    "waiting (ws[i := None]) = waiting ws - set_option (ws ! i)"
proof -
  have ws: "ws = take i ws @ ws ! i # drop (Suc i) ws" "ws[i := None] = take i ws @ None # drop (Suc i) ws"
    using assms(2) by (simp_all add: id_take_nth_drop upd_conv_take_nth_drop)
  have d: "distinct (filter (\<lambda>x. x \<noteq> None) (take i ws @ ws ! i # drop (Suc i) ws))" using assms(1) ws(1) by simp
  then show "distinct (filter (\<lambda>x. x \<noteq> None) (ws[i := None]))" unfolding ws(2) by (auto split: if_splits)
  have "waiting ws = waiting (take i ws) \<union> set_option (ws ! i) \<union> waiting (drop (Suc i) ws)"
    by (subst ws(1)) (cases "ws ! i"; simp)
  moreover have "waiting (ws[i := None]) = waiting (take i ws) \<union> waiting (drop (Suc i) ws)"
    unfolding ws(2) by simp
  moreover have "(waiting (take i ws) \<union> waiting (drop (Suc i) ws)) \<inter> set_option (ws ! i) = {}"
    using d by (cases "ws ! i") (auto simp: waiting_def)
  ultimately show "waiting (ws[i := None]) = waiting ws - set_option (ws ! i)" by blast
qed

definition release :: "('r, 'z) rle_bitmap_scheme \<Rightarrow> nat option \<Rightarrow> ('b, 'r) allocator \<Rightarrow> ('b, 'r) allocator" where
  "release R w al = (case w of None \<Rightarrow> al | Some cid \<Rightarrow> RemovePendingChange R cid al)"

lemma pool_guard_release:
  assumes "pool_guard w al ors ws" "i < length ws"
  shows "pool_guard w (release R (ws ! i) al) ors (ws[i := None])"
proof (cases "ws ! i")
  case None
  then show ?thesis using assms(1) list_update_id [of ws i] by (simp add: release_def)
next
  case (Some cid)
  then have "cid \<in> waiting ws" using assms(2) by (auto simp: waiting_def) (metis nth_mem)
  then show ?thesis
    using assms distinct_without [of ws i] Some
    by (auto simp: pool_guard_def release_def RemovePendingChange_store rs_in_def watch_def)
qed

lemma pool_guard_tail:
  "pool_guard w al ors (x # ws) \<Longrightarrow> pool_guard w (release R x al) ors ws"
  using pool_guard_release [of w al ors "x # ws" 0 R] by (simp add: pool_guard_def watch_def)

text \<open>The deallocations of a transaction go to the journal.\<close>

lemma pool_guard_take:
  assumes "pool_guard w al (Some rs) ws" "TakePendingDeallocations rs = (x, rs')"
  shows "pool_guard w al (Some rs') (ws @ [x])"
  using assms
  by (cases "rs_deallocations rs"; cases "rs_allocations rs")
    (auto simp: pool_guard_def TakePendingDeallocations_def rs_in_def rs_ids_def waiting_def watch_def)

text \<open>As long as the change waits its elements are not free.\<close>

lemma Allocate_avoids:
  assumes laws: "raw_bitmap_laws B" "rle_bitmap_laws R"
    and "pool_guard (Some (did, c)) al (Some rs) ws" "did \<in> waiting ws"
    and a: "Reservation_Allocate B R (al, rs) = Some (Ok (i, al', rs'))"
  shows "i \<notin> blocked R c"
proof -
  have g: "al_ids al" "al_changes al did = Some c" "did \<notin> rs_ids rs" "did < al_next_id al" "rs_in al rs"
    using assms(3,4) by (auto simp: pool_guard_def watch_def)
  obtain cid al1 rs1 where p: "GetPendingAllocations R (al, rs\<lparr>rs_reserved := rs_reserved rs - 1\<rparr>) =
      (cid, al1, rs1)"
    by (metis prod_cases3)
  note o = own_changesD [OF conjunct1 [OF own_changes_pending [OF disjI1 [OF p]]] g(1)]
  have al1: "al_ids al1" "al_changes al1 did = Some c"
    using o g by (auto simp: rs_in_def)
  have "FindLocked B R al1 = Some (Ok i)"
    using a by (auto simp: Reservation_Allocate_def Allocator_Allocate_def p p [unfolded One_nat_def]
        Let_def split: if_splits option.splits res.splits)
  then have "i \<in> free_elements B R al1"
    by (auto simp: FindLocked_eq [OF laws] least_free_def Bex_def split: if_splits intro: LeastI2)
  then have "unreserved R (pending_changes al1) i" by (simp add: free_elements_def)
  then have "i \<notin> blk R al1 did" using unreserved_blk [OF al1(1)] by blast
  then show ?thesis using al1(2) by (simp add: blk_def)
qed

section \<open>Operations on reservations keep the invariant\<close>

definition block_reservation :: "('b, 'r, 'd, 'k) tx_state \<Rightarrow> reservation option" where
  "block_reservation u = Option.bind (tp_tx u) tt_block_reservation"

definition tx_guard :: "'r watched \<Rightarrow> ('b, 'r, 'd, 'k) tx_state \<Rightarrow> bool" where
  "tx_guard w u \<longleftrightarrow>
    pool_guard w (tp_blocks u) (block_reservation u) (map je_deallocations (tp_journal u))"

lemma tx_guard_cong:
  "tp_blocks u' = tp_blocks u \<Longrightarrow> block_reservation u' = block_reservation u \<Longrightarrow> tp_journal u' = tp_journal u
    \<Longrightarrow> tx_guard w u' = tx_guard w u"
  by (simp add: tx_guard_def)

lemma block_reservation_simps [simp]:
  "block_reservation (u\<lparr>tp_blocks := al\<rparr>) = block_reservation u"
  "block_reservation (u\<lparr>tp_inodes := m\<rparr>) = block_reservation u"
  "block_reservation (u\<lparr>tp_journal := j\<rparr>) = block_reservation u"
  "block_reservation (u\<lparr>tp_tx := None\<rparr>) = None"
  "block_reservation (u\<lparr>tp_tx := Some t\<rparr>) = tt_block_reservation t"
  by (simp_all add: block_reservation_def)

lemma block_reservation_tx: "block_reservation u = Some rs \<Longrightarrow> tp_tx u \<noteq> None"
  by (cases "tp_tx u") (auto simp: block_reservation_def)

lemma block_reservation_on_tx:
  "(\<And>t. tt_block_reservation (f t) = tt_block_reservation t) \<Longrightarrow> block_reservation (on_tx f u) =
      block_reservation u"
  by (cases "tp_tx u") (simp_all add: block_reservation_def on_tx_def)

lemma enqueue_reservation [simp]:
  "tt_block_reservation (target_EnqueueMetadata E q t) = tt_block_reservation t"
  "tt_block_reservation (target_EnqueueData E q t) = tt_block_reservation t"
  "tt_block_reservation (PinVnode v t) = tt_block_reservation t"
  by (simp_all add: target_EnqueueMetadata_def target_EnqueueData_def PinVnode_def)

text \<open>What growing a pool does to the transaction and to the map of the allocator.\<close>

lemma target_Extend_effect:
  assumes "target_Extend crc V st enqueue grow_cb grow_map (sm, t, d, g, m) = (r, sm', t', d', g', m')"
    and "Q t" "\<And>q t. Q t \<Longrightarrow> Q (enqueue q t)"
  shows "Q t'" "m' = m \<or> (\<exists>n x. grow_map n m = (x, m'))"
proof -
  show "Q t'"
    using assms
    by (auto simp: target_Extend_def SuperblockManager_Write_def PersistRange_def Let_def
        split: if_splits res.splits option.splits prod.splits)
  show "m' = m \<or> (\<exists>n x. grow_map n m = (x, m'))"
    using assms(1)
    by (auto simp: target_Extend_def Let_def split: if_splits res.splits option.splits prod.splits)
qed

definition same_store :: "('b, 'r) allocator \<Rightarrow> ('b, 'r) allocator \<Rightarrow> bool" where
  "same_store al al' \<longleftrightarrow> al_ids al' = al_ids al \<and> al_changes al' = al_changes al \<and> al_next_id al' = al_next_id al"

lemma same_store_simps [simp]:
  "same_store al al" "same_store al (al'\<lparr>al_reserved := n\<rparr>) \<longleftrightarrow> same_store al al'"
  "same_store al (al'\<lparr>al_map := b\<rparr>) \<longleftrightarrow> same_store al al'"
  by (simp_all add: same_store_def al_ids_def)

lemma GrowMapLocked_store: "GrowMapLocked B n al = (x, al') \<Longrightarrow> same_store al al'"
  by (auto simp: GrowMapLocked_def Let_def split: res.splits)

lemma tx_pool_grow_effect:
  assumes "tx_pool_grow E P (al, sm, u) = (r, al', sm', u')"
  shows "same_store al al'" "tp_blocks u' = tp_blocks u" "tp_journal u' = tp_journal u"
    "block_reservation u' = block_reservation u" "tp_tx u' = None \<longleftrightarrow> tp_tx u = None"
proof -
  obtain t d m k where x: "target_Extend (te_crc E) (te_volume E) (xp_storage P)
      (\<lambda>q. map_option (target_EnqueueMetadata E q)) (xp_grow P) (GrowMapLocked (te_bitmap E))
      (sm, tp_tx u, tp_volume u, (tp_inodes u, tp_kernel u), al) = (r, sm', t, d, (m, k), al')"
    "u' = u\<lparr>tp_tx := t, tp_volume := d, tp_inodes := m, tp_kernel := k\<rparr>"
    using assms by (auto simp: tx_pool_grow_def split: prod.splits)
  have "Option.bind t tt_block_reservation = block_reservation u \<and> (t = None \<longleftrightarrow> tp_tx u = None)"
    by (rule target_Extend_effect(1) [OF x(1)])
      (auto simp: block_reservation_def bind_map_option comp_def)
  then show "block_reservation u' = block_reservation u" "tp_tx u' = None \<longleftrightarrow> tp_tx u = None"
    by (simp_all add: x(2) block_reservation_def)
  show "same_store al al'"
    using target_Extend_effect(2) [OF x(1), of "\<lambda>_. True"] by (auto intro: GrowMapLocked_store)
qed (use assms in \<open>auto simp: tx_pool_grow_def split: prod.splits\<close>)

lemma tx_pool_reserve_effect:
  assumes "tx_pool_reserve E P n (sm, u) = (r, sm', u')"
  obtains al u1 where "u' = xp_put P al u1" "same_store (xp_get P u) al" "tp_blocks u1 = tp_blocks u"
    "tp_journal u1 = tp_journal u" "block_reservation u1 = block_reservation u" "tp_tx u1 = None \<longleftrightarrow> tp_tx
        u = None"
proof -
  obtain r1 al1 sm1 u1 where g: "tx_pool_grow E P (xp_get P u, sm, u) = (r1, al1, sm1, u1)"
    by (metis prod_cases4)
  note e = tx_pool_grow_effect [OF g]
  let ?small = "target_GetAvailableLocked (te_ranges E) (PoolAvailable (st_metadata (xp_storage P)) sm)
      (xp_get P u) < n"
  have u': "u' = (if ?small then xp_put P (if is_ok r1 then al1\<lparr>al_reserved := u64 (al_reserved al1 +
      n)\<rparr> else al1) u1
      else xp_put P ((xp_get P u)\<lparr>al_reserved := u64 (al_reserved (xp_get P u) + n)\<rparr>) u)"
    using assms unfolding tx_pool_reserve_def Allocator_Reserve_def
    by (cases r1) (auto simp: g Let_def split: if_splits)
  have store: "same_store (xp_get P u) (if is_ok r1 then al1\<lparr>al_reserved := u64 (al_reserved al1 + n)\<rparr>
      else al1)"
    using e(1) by simp
  show ?thesis
  proof (cases ?small)
    case True
    then show ?thesis using that [OF _ store e(2-)] u' by simp
  next
    case False
    then show ?thesis using that [of "(xp_get P u)\<lparr>al_reserved := u64 (al_reserved (xp_get P u) + n)\<rparr>"
        u] u' by simp
  qed
qed

text \<open>The invariant, with the journal fixed, is kept by the operations on reservations.\<close>

definition guarded ::
  "'r watched \<Rightarrow> journal_entry list \<Rightarrow> ('b, 'r, 'd, 'k) tx_pools \<Rightarrow> bool" where
  "guarded w j s \<longleftrightarrow> tx_guard w (snd s) \<and> tp_journal (snd s) = j"

lemma keeps_block_reservation:
  assumes "\<And>rs sm u r rs' sm' u'. tx_guard w u \<Longrightarrow> block_reservation u = Some rs
      \<Longrightarrow> f (rs, sm, u) = Some (r, rs', sm', u')
      \<Longrightarrow> tp_tx u' \<noteq> None \<and> tp_journal u' = tp_journal u
        \<and> pool_guard w (tp_blocks u') (Some rs') (map je_deallocations (tp_journal u))"
  shows "keeps (guarded w j) (on_tx_reservation (tx_block_pool E) f)"
proof (rule keepsI, clarify)
  fix sm u r sm' u'
  assume g: "guarded w j (sm, u)" and run: "on_tx_reservation (tx_block_pool E) f (sm, u) = Some (r, sm', u')"
  show "guarded w j (sm', u')"
  proof (cases "block_reservation u")
    case None
    then show ?thesis using g run
      by (auto simp: on_tx_reservation_def tx_block_pool_def block_reservation_def split: option.splits)
  next
    case (Some rs)
    then obtain rs' u1 where f: "f (rs, sm, u) = Some (r, rs', sm', u1)"
        "u' = on_tx (\<lambda>t. t\<lparr>tt_block_reservation := Some rs'\<rparr>) u1"
      using run by (auto simp: on_tx_reservation_def tx_block_pool_def block_reservation_def
          split: option.splits Option.bind_splits)
    have "tp_tx u1 \<noteq> None \<and> tp_journal u1 = j \<and> pool_guard w (tp_blocks u1) (Some rs') (map je_deallocations j)"
      using assms [OF _ Some f(1)] g by (auto simp: guarded_def)
    then show ?thesis by (auto simp: guarded_def f(2) tx_guard_def on_tx_def block_reservation_def)
  qed
qed

lemma keeps_inode_reservation:
  assumes "\<And>rs sm u r rs' sm' u'. tx_guard w u \<Longrightarrow> f (rs, sm, u) = Some (r, rs', sm', u')
      \<Longrightarrow> tx_guard w u' \<and> tp_journal u' = tp_journal u"
  shows "keeps (guarded w j) (on_tx_reservation (tx_inode_pool E) f)"
proof (rule keepsI, clarify)
  fix sm u r sm' u'
  assume g: "guarded w j (sm, u)" and run: "on_tx_reservation (tx_inode_pool E) f (sm, u) = Some (r, sm', u')"
  show "guarded w j (sm', u')"
  proof (cases "tp_tx u")
    case None
    then show ?thesis using g run by (auto simp: on_tx_reservation_def)
  next
    case (Some t)
    obtain rs' u1 where "f (tt_inode_reservation t, sm, u) = Some (r, rs', sm', u1)"
        "u' = on_tx (\<lambda>t. t\<lparr>tt_inode_reservation := rs'\<rparr>) u1"
      using run Some by (auto simp: on_tx_reservation_def tx_inode_pool_def split: option.splits)
    moreover have "tx_guard w u' = tx_guard w u1" unfolding calculation(2)
      by (intro tx_guard_cong block_reservation_on_tx) (simp_all add: on_tx_def)
    ultimately show ?thesis using assms [of u "tt_inode_reservation t" sm] g by (simp add: guarded_def
        on_tx_def)
  qed
qed

lemma pool_guard_same_store:
  "same_store al al' \<Longrightarrow> rs_allocations rs' = rs_allocations rs \<Longrightarrow> rs_deallocations rs' = rs_deallocations rs
    \<Longrightarrow> pool_guard w al' (Some rs') ws = pool_guard w al (Some rs) ws"
  by (simp add: pool_guard_def same_store_def rs_in_def rs_ids_def watch_def)

lemma keeps_Reserve_inodes [keeps_rules]: "keeps (guarded w j) (target_Reserve_inodes E n)"
  unfolding target_Reserve_inodes_def
proof (rule keeps_inode_reservation)
  fix rs sm u r rs' sm' u'
  assume g: "tx_guard w u"
    and run: "Some (Reservation_Reserve (tx_pool_reserve E (tx_inode_pool E)) n (rs, sm, u)) = Some (r,
        rs', sm', u')"
  show "tx_guard w u' \<and> tp_journal u' = tp_journal u"
  proof (cases "u' = u")
    case False
    then obtain r1 where "tx_pool_reserve E (tx_inode_pool E) n (sm, u) = (r1, sm', u')"
      using run by (auto simp: Reservation_Reserve_def split: if_splits prod.splits res.splits)
    then obtain al u1 where "u' = u1\<lparr>tp_inodes := (tp_inodes u1)\<lparr>is_allocator := al\<rparr>\<rparr>" "tp_blocks u1 =
        tp_blocks u"
        "tp_journal u1 = tp_journal u" "block_reservation u1 = block_reservation u"
      by (rule tx_pool_reserve_effect) (simp add: tx_inode_pool_def)
    then show ?thesis using g by (simp add: tx_guard_def)
  qed (use g in simp)
qed

lemma keeps_ExtendBlockReservation [keeps_rules]:
  "keeps (guarded w j) (target_ExtendBlockReservation E n)"
  unfolding target_ExtendBlockReservation_def
proof (rule keeps_block_reservation)
  fix rs sm u r rs' sm' u'
  assume g: "tx_guard w u" and rs: "block_reservation u = Some rs"
    and run: "Some (ExtendReservation (tx_pool_reserve E (tx_block_pool E)) n (rs, sm, u)) = Some (r,
        rs', sm', u')"
  obtain r1 where r1: "tx_pool_reserve E (tx_block_pool E) n (sm, u) = (r1, sm', u')"
      "rs_allocations rs' = rs_allocations rs" "rs_deallocations rs' = rs_deallocations rs"
    using run by (auto simp: ExtendReservation_def split: prod.splits res.splits)
  from r1(1) obtain al u1 where u': "u' = u1\<lparr>tp_blocks := al\<rparr>" "same_store (tp_blocks u) al"
      "tp_journal u1 = tp_journal u" "block_reservation u1 = block_reservation u"
    by (rule tx_pool_reserve_effect) (simp add: tx_block_pool_def)
  have "tp_tx u' \<noteq> None" using u'(4) rs block_reservation_tx [of u1 rs] by (simp add: u'(1))
  moreover have "pool_guard w al (Some rs') (map je_deallocations (tp_journal u))"
    using g rs pool_guard_same_store [OF u'(2) r1(2,3)] by (simp add: tx_guard_def)
  ultimately show "tp_tx u' \<noteq> None \<and> tp_journal u' = tp_journal u
      \<and> pool_guard w (tp_blocks u') (Some rs') (map je_deallocations (tp_journal u))"
    using u' by simp
qed

lemma keeps_from_blocks:
  assumes "\<And>al rs x al' rs'. f (al, rs) = Some (Ok (x, al', rs')) \<Longrightarrow> own_changes al rs al' rs'"
  shows "keeps (guarded w j) (from_allocator (tx_block_pool E) f)"
  unfolding from_allocator_def
proof (rule keeps_block_reservation)
  fix rs sm u r rs' sm' u'
  assume g: "tx_guard w u" and rs: "block_reservation u = Some rs"
    and run: "(case (rs, sm, u) of (rs, sm, u) \<Rightarrow>
      case f (xp_get (tx_block_pool E) u, rs) of
        None \<Rightarrow> None
      | Some (Ok (x, al, rs)) \<Rightarrow> Some (Ok x, rs, sm, xp_put (tx_block_pool E) al u)
      | Some (Err e) \<Rightarrow> Some (Err e, rs, sm, u)
      | Some Panic \<Rightarrow> Some (Panic, rs, sm, u)) = Some (r, rs', sm', u')"
  have tx: "tp_tx u \<noteq> None" using rs by (rule block_reservation_tx)
  have g': "pool_guard w (tp_blocks u) (Some rs) (map je_deallocations (tp_journal u))"
    using g rs by (simp add: tx_guard_def)
  consider "rs' = rs" "u' = u"
    | x al where "f (tp_blocks u, rs) = Some (Ok (x, al, rs'))" "u' = u\<lparr>tp_blocks := al\<rparr>"
    using run by (auto simp: tx_block_pool_def split: option.splits res.splits prod.splits)
  then show "tp_tx u' \<noteq> None \<and> tp_journal u' = tp_journal u
      \<and> pool_guard w (tp_blocks u') (Some rs') (map je_deallocations (tp_journal u))"
  proof cases
    case 2
    then show ?thesis using tx pool_guard_own [OF g' assms [OF 2(1)]] by simp
  qed (use tx g' in simp)
qed

lemma keeps_from_inodes: "keeps (guarded w j) (from_allocator (tx_inode_pool E) f)"
  unfolding from_allocator_def
  by (rule keeps_inode_reservation)
    (auto simp: tx_inode_pool_def tx_guard_def split: option.splits res.splits prod.splits)

lemma keeps_blocks_and_inodes [keeps_rules]:
  "keeps (guarded w j) (target_AllocateBlock E)" "keeps (guarded w j) (target_DeallocateBlock E b)"
  "keeps (guarded w j) (SwapBlock E b)" "keeps (guarded w j) (target_AllocateInode E)"
  "keeps (guarded w j) (target_InodeManager_Free E i)"
  unfolding target_AllocateBlock_def target_DeallocateBlock_def SwapBlock_def target_AllocateInode_def
    target_InodeManager_Free_def Reservation_Deallocate_def
  by (rule keeps_from_inodes keeps_from_blocks;
      auto simp: own_changes_Reservation_Allocate own_changes_Swap split: res.splits
        intro: own_changes_Free)+

section \<open>Start, end and commit of a transaction\<close>

lemma Reservation_Destroy_guard:
  assumes "pool_guard w al (Some rs) ws"
  shows "pool_guard w (Reservation_Destroy R (al, rs)) None ws"
proof -
  obtain al1 rs1 where x: "Reservation_Cancel (al, rs) = (al1, rs1)" by (metis prod.exhaust)
  then have eq: "same_store al al1" "rs_allocations rs1 = rs_allocations rs"
      "rs_deallocations rs1 = rs_deallocations rs"
    by (auto simp: Reservation_Cancel_def Allocator_Unreserve_def split: if_splits)
  have g: "pool_guard w al1 (Some rs1) ws" using assms pool_guard_same_store [OF eq] by blast
  let ?al2 = "case rs_deallocations rs1 of Some cid \<Rightarrow> RemovePendingChange R cid al1 | None \<Rightarrow> al1"
  let ?rs2 = "rs1\<lparr>rs_deallocations := None\<rparr>"
  have g2: "pool_guard w ?al2 (Some ?rs2) ws"
  proof (cases "rs_deallocations rs1")
    case None
    then have "?rs2 = rs1" by simp
    then show ?thesis using g by (simp only: None option.case)
  next
    case (Some cid)
    then have "rs_in al1 rs1" using g by (simp add: pool_guard_def)
    then have "pool_guard w (RemovePendingChange R cid al1) (Some ?rs2) ws" using Some
      by (intro pool_guard_remove [OF g]) (auto simp: rs_ids_def rs_in_def)
    then show ?thesis using Some by simp
  qed
  show ?thesis
  proof (cases "rs_allocations rs1")
    case None
    then have "rs_ids ?rs2 = {}" by (simp add: rs_ids_def)
    from pool_guard_no_tx [OF g2 this] show ?thesis using None by (simp add: Reservation_Destroy_def x)
  next
    case (Some cid)
    then have "pool_guard w (RemovePendingChange R cid ?al2) (Some (?rs2\<lparr>rs_allocations := None\<rparr>)) ws"
      by (intro pool_guard_remove [OF g2]) (auto simp: rs_ids_def)
    from pool_guard_no_tx [OF this] show ?thesis using Some
      by (simp add: Reservation_Destroy_def x rs_ids_def)
  qed
qed

lemma destroy_effect [simp]:
  "tp_journal (target_Transaction_Destroy E u) = tp_journal u" "tp_tx (target_Transaction_Destroy E u) = None"
  by (auto simp: target_Transaction_Destroy_def Let_def split_beta split: option.splits)

lemma destroy_guarded:
  assumes "tx_guard w u"
  shows "tx_guard w (target_Transaction_Destroy E u)"
proof (cases "tp_tx u")
  case None
  then show ?thesis using assms by (simp add: target_Transaction_Destroy_def)
next
  case (Some t)
  then show ?thesis
    using assms Reservation_Destroy_guard [of w "tp_blocks u" _ "map je_deallocations (tp_journal u)"
        "te_ranges E"]
    by (cases "tt_block_reservation t")
      (simp_all add: target_Transaction_Destroy_def tx_guard_def block_reservation_def Let_def split_beta)
qed

lemma keeps_or_destroyed:
  "keeps (guarded w j) m \<Longrightarrow> keeps (guarded w j) (or_destroyed E m)"
  unfolding or_destroyed_def
  by (intro keeps_rules keeps_modify) (auto simp: guarded_def destroy_guarded)

lemma or_destroyed_fails: "or_destroyed E m s = Some (Err e, s') \<Longrightarrow> tp_tx (snd s') = None"
  by (auto simp: or_destroyed_def try_act_def modify_def split: option.splits res.splits prod.splits)

lemma or_nothing_fails:
  "(if n \<noteq> 0 then or_destroyed E m else ret ()) s = Some (Err e, s') \<Longrightarrow> tp_tx (snd s') = None"
  by (cases "n = 0") (simp_all add: ret_def or_destroyed_fails)

lemma Transaction_Create_guard:
  assumes "guarded w j s" "tp_tx (snd s) = None" and run: "target_Transaction_Create E i b s = Some (r, s')"
  shows "guarded w j s'" "r = Err e \<Longrightarrow> tp_tx (snd s') = None"
proof -
  let ?m1 = "if i \<noteq> 0 then or_destroyed E (target_Reserve_inodes E i) else ret ()"
  let ?m2 = "if b \<noteq> 0 then or_destroyed E (target_ExtendBlockReservation E b) else ret ()"
  obtain sm u where s: "s = (sm, u)" by fastforce
  define s1 where "s1 = (sm, u\<lparr>tp_tx := Some (target_new_transaction None)\<rparr>)"
  have "block_reservation u = None" using assms(2) by (simp add: s block_reservation_def)
  then have g1: "guarded w j s1"
    using assms(1) pool_guard_empty
    by (auto simp: s s1_def guarded_def tx_guard_def target_new_transaction_def)
  have run1: "abind ?m1 (\<lambda>_. ?m2) s1 = Some (r, s')" using run by (simp add: target_Transaction_Create_def s s1_def)
  have "keeps (guarded w j) (abind ?m1 (\<lambda>_. ?m2))" by (intro keeps_rules keeps_or_destroyed)
  from keepsD [OF this g1 run1] show "guarded w j s'" .
  show "tp_tx (snd s') = None" if "r = Err e"
  proof (cases "?m1 s1")
    case (Some a)
    then obtain r1 s2 where 1: "?m1 s1 = Some (r1, s2)" by (cases a) auto
    show ?thesis
    proof (cases r1)
      case (Ok x)
      then have "?m2 s2 = Some (Err e, s')" using run1 that by (simp only: abind_def 1) simp
      then show ?thesis by (rule or_nothing_fails)
    next
      case (Err e')
      then have "?m1 s1 = Some (Err e', s')" using run1 that 1 by (simp only: abind_def 1) simp
      then show ?thesis by (rule or_nothing_fails)
    next
      case Panic
      then show ?thesis using run1 that by (simp only: abind_def 1) simp
    qed
  next
    case None
    then show ?thesis using run1 by (simp only: abind_def) simp
  qed
qed

text \<open>Committing the pools.\<close>

lemma commit_ranges_trans:
  assumes "\<And>off len t. Q t \<Longrightarrow> Q (persist off len t)"
  shows "Q (snd s) \<Longrightarrow> Q (snd (commit_ranges swap persist rs s))"
proof (induction rs arbitrary: s)
  case (Cons x rs)
  then show ?case using assms by (cases x; cases s) simp
qed simp

lemma Commit_enqueues:
  assumes "Reservation_Commit B R st enqueue (al, rs, sm, t) = Ok (al', rs', sm', t')" "Q t"
    and "\<And>q t. Q t \<Longrightarrow> Q (enqueue q t)"
  shows "Q t'"
proof -
  have p: "Q (PersistRange st enqueue off len t)" if "Q t" for off len t
    using that assms(3) by (auto simp: PersistRange_def Let_def)
  then have persist: "\<And>off len t. Q t \<Longrightarrow> Q (PersistRange st enqueue off len t)" .
  have persist: "Q (snd (commit_ranges sw (PersistRange st enqueue) xs s))" if "Q (snd s)" for sw xs s
    by (rule commit_ranges_trans [of Q]) (use p that in simp_all)
  obtain aid al1 rs1 where g: "GetPendingAllocations R (al, rs) = (aid, al1, rs1)" by (metis prod_cases3)
  obtain did al2 rs2 where d: "GetPendingDeallocations R (al1, rs1) = (did, al2, rs2)" by (metis prod_cases3)
  obtain b1 t1 where c1: "commit_ranges (rb_set B) (PersistRange st enqueue)
      (rle_ranges R (pc_bitmap (the (al_changes al2 aid)))) (al_map al2, t) = (b1, t1)" by (metis prod.exhaust)
  obtain b2 t2 where c2: "commit_ranges (rb_clear B) (PersistRange st enqueue)
      (rle_ranges R (pc_bitmap (the (al_changes al2 did)))) (b1, t1) = (b2, t2)" by (metis prod.exhaust)
  have "t' = t \<or> t' = t2"
    using assms(1) by (simp add: Reservation_Commit_def Allocator_Commit_def g d Let_def c1 c2 split: if_splits)
  moreover have "Q t2" using persist [of "(b1, t1)"] persist [of "(al_map al2, t)"] c1 c2 assms(2) by
      (metis snd_conv)
  ultimately show ?thesis using assms(2) by auto
qed

lemma commit_pool_cases:
  assumes "tx_commit_pool E P (sm, u) = Some (r, sm', u')"
  obtains "u' = u" "r \<noteq> Ok ()" | t rs al rs' t' where "tp_tx u = Some t" "xp_reservation P t = Some rs"
      "Reservation_Commit (te_bitmap E) (te_ranges E) (xp_storage P) (target_EnqueueMetadata E)
        (xp_get P u, rs, sm, t) = Ok (al, rs', sm', t')"
      "u' = (xp_put P al u)\<lparr>tp_tx := Some (xp_set_reservation P rs' t')\<rparr>" "r = Ok ()"
proof (cases "u' = u \<and> r \<noteq> Ok ()")
  case False
  then obtain t rs where t: "tp_tx u = Some t" "xp_reservation P t = Some rs"
    using assms by (auto simp: tx_commit_pool_def split: option.splits)
  show ?thesis
    using that(2) [OF t] assms False
    by (cases "Reservation_Commit (te_bitmap E) (te_ranges E) (xp_storage P) (target_EnqueueMetadata E)
        (xp_get P u, rs, sm, t)") (auto simp: tx_commit_pool_def t)
qed (use that(1) in simp)

lemma keeps_commit_inodes: "keeps (guarded w j) (tx_commit_pool E (tx_inode_pool E))"
proof (rule keepsI, clarify)
  fix sm u r sm' u'
  assume g: "guarded w j (sm, u)" and run: "tx_commit_pool E (tx_inode_pool E) (sm, u) = Some (r, sm', u')"
  from run show "guarded w j (sm', u')"
  proof (cases rule: commit_pool_cases)
    case (2 t rs al rs' t')
    have "tt_block_reservation t' = tt_block_reservation t"
      by (rule Commit_enqueues [OF 2(3)]) simp_all
    then show ?thesis using g 2(1,4)
      by (auto simp: guarded_def tx_guard_def block_reservation_def tx_inode_pool_def)
  qed (use g in \<open>simp add: guarded_def\<close>)
qed

lemma keeps_commit_blocks: "keeps (guarded w j) (tx_commit_pool E (tx_block_pool E))"
proof (rule keepsI, clarify)
  fix sm u r sm' u'
  assume g: "guarded w j (sm, u)" and run: "tx_commit_pool E (tx_block_pool E) (sm, u) = Some (r, sm', u')"
  from run show "guarded w j (sm', u')"
  proof (cases rule: commit_pool_cases)
    case (2 t rs al rs' t')
    have "pool_guard w (tp_blocks u) (Some rs) (map je_deallocations j)"
      using g 2(1,2) by (auto simp: guarded_def tx_guard_def block_reservation_def tx_block_pool_def)
    moreover have "own_changes (tp_blocks u) rs al rs'"
      using own_changes_Commit [OF 2(3)] by (simp add: tx_block_pool_def)
    ultimately have "pool_guard w al (Some rs') (map je_deallocations j)" by (rule pool_guard_own)
    then show ?thesis using g 2(4) by (simp add: guarded_def tx_guard_def tx_block_pool_def)
  qed (use g in \<open>simp add: guarded_def\<close>)
qed

lemma keeps_commit_pools: "keeps (guarded w j) (tx_commit_pools E)"
  unfolding tx_commit_pools_def by (intro keeps_abind keeps_commit_inodes keeps_commit_blocks)

section \<open>The journal\<close>

lemma release_deallocations_eq:
  "release_deallocations E x u = u\<lparr>tp_blocks := release (te_ranges E) x (tp_blocks u)\<rparr>"
  by (simp add: release_deallocations_def release_def split: option.splits)

lemma commit_callback_guard:
  assumes "tx_guard w u" "i < length (tp_journal u)"
  shows "tx_guard w (commit_callback E i u)"
  using pool_guard_release [of w "tp_blocks u" "block_reservation u" "map je_deallocations (tp_journal
      u)" i "te_ranges E"]
    assms by (simp add: commit_callback_def Let_def release_deallocations_eq tx_guard_def map_update)

lemma complete_callback_guard:
  assumes "tx_guard w u" "i < length (tp_journal u)"
  shows "tx_guard w (complete_callback i u)"
proof -
  have "map je_deallocations (tp_journal (complete_callback i u)) = map je_deallocations (tp_journal u)"
    using assms(2) by (auto simp: complete_callback_def map_update intro: list_update_same_conv [THEN iffD2])
  then show ?thesis using assms(1) by (simp add: tx_guard_def complete_callback_def)
qed

lemma release_all_guard:
  assumes "pool_guard w (tp_blocks u) (block_reservation u) (map je_deallocations es)"
  shows "pool_guard w (tp_blocks (fold (\<lambda>e. release_deallocations E (je_deallocations e)) es u))
    (block_reservation (fold (\<lambda>e. release_deallocations E (je_deallocations e)) es u)) []"
  using assms by (induction es arbitrary: u) (simp_all add: release_deallocations_eq pool_guard_tail)

lemma journal_sync_guard:
  assumes "tx_guard w u" "tx_journal_sync E u = Some (r, u')"
  shows "tx_guard w u'"
  using assms release_all_guard [of w u "tp_journal u" E] by (auto simp: tx_journal_sync_def tx_guard_def)

lemma journal_commit_cases:
  assumes "tx_journal_commit E u = Some (r, u')"
  obtains "u' = u" "r = Panic" | t rs t' rs' x e where "tp_tx u = Some t" "tt_block_reservation t = Some rs"
      "TakePendingDeallocations rs = (x, rs')" "tt_block_reservation t' = Some rs'" "je_deallocations e = x"
      "u' = (if is_ok r then u\<lparr>tp_tx := Some t', tp_journal := tp_journal u @ [e]\<rparr>
             else release_deallocations E x (u\<lparr>tp_tx := Some t'\<rparr>))"
proof (cases "u' = u \<and> r = Panic")
  case False
  then obtain t rs where t: "tp_tx u = Some t" "tt_block_reservation t = Some rs"
    using assms by (auto simp: tx_journal_commit_def split: option.splits)
  let ?t = "t\<lparr>tt_data_operations := [], tt_metadata_operations := [],
    tt_block_reservation := Some (rs\<lparr>rs_deallocations := None\<rparr>), tt_pinned_vnodes := []\<rparr>"
  let ?e = "\<lparr>je_metadata = tt_metadata_operations t, je_data = tt_data_operations t,
    je_deallocations = rs_deallocations rs, je_pinned = tt_pinned_vnodes t\<rparr>"
  have "u' = (if is_ok r then u\<lparr>tp_tx := Some ?t, tp_journal := tp_journal u @ [?e]\<rparr>
      else release_deallocations E (rs_deallocations rs) (u\<lparr>tp_tx := Some ?t\<rparr>))"
    using assms False t
    by (simp add: tx_journal_commit_def RemoveDataOperations_def RemoveMetadataOperations_def Let_def
        RemovePinnedVnodes_def TakePendingDeallocations_def split: if_splits)
  then show ?thesis by (intro that(2) [of t rs "rs_deallocations rs" _ ?t ?e])
    (simp_all add: t TakePendingDeallocations_def)
qed (use that(1) in simp)

lemma journal_commit_guard:
  assumes "tx_guard w u" "tx_journal_commit E u = Some (r, u')"
  shows "tx_guard w u'" "r = Ok () \<and> (\<exists>e. tp_journal u' = tp_journal u @ [e]) \<or> r \<noteq> Ok () \<and> tp_journal
      u' = tp_journal u"
proof -
  let ?ws = "map je_deallocations (tp_journal u)"
  have "tx_guard w u' \<and> (r = Ok () \<and> (\<exists>e. tp_journal u' = tp_journal u @ [e]) \<or> r \<noteq> Ok () \<and> tp_journal
      u' = tp_journal u)"
    using assms(2)
  proof (cases rule: journal_commit_cases)
    case (2 t rs t' rs' x e)
    have "pool_guard w (tp_blocks u) (Some rs) ?ws" using assms(1) 2(1,2) by (simp add: tx_guard_def
        block_reservation_def)
    note g = pool_guard_take [OF this 2(3)]
    show ?thesis
    proof (cases "is_ok r")
      case True
      then show ?thesis using g 2(4-6) by (cases r) (auto simp: tx_guard_def)
    next
      case False
      have "pool_guard w (release (te_ranges E) x (tp_blocks u)) (Some rs') (?ws @ [None])"
        using pool_guard_release [OF g, of "length ?ws" "te_ranges E"]
        by (simp add: nth_append list_update_append)
      then show ?thesis using False 2(4-6)
        by (auto simp: tx_guard_def release_deallocations_eq pool_guard_def watch_def)
    qed
  qed (use assms(1) in simp)
  then show "tx_guard w u'" "r = Ok () \<and> (\<exists>e. tp_journal u' = tp_journal u @ [e]) \<or> r \<noteq> Ok () \<and>
      tp_journal u' = tp_journal u"
    by auto
qed

end
