(* ===== verification/TargetJournal.thy ===== *)
theory TargetJournal
  imports TargetTx_Laws
begin

text \<open>
  The journal and the blocks that transactions give back, at the level of the file system: its
  transactions as a step relation, together with the callbacks of the journal, and the theorems
  that a block that was given back is not handed out before the journal has committed the transaction,
  and that no pending change is lost.
\<close>

section \<open>The invariant of the file system\<close>

text \<open>\<open>Q\<close> says something of the entries that the journal was handed.\<close>

definition guards ::
  "'r watched \<Rightarrow> (journal_entry list \<Rightarrow> bool) \<Rightarrow> ('i, ('b, 'r, 'd, 'k) tx_state) target_fs \<Rightarrow> bool" where
  "guards w Q s \<longleftrightarrow> tx_guard w (tg_rest s) \<and> Q (tp_journal (tg_rest s))"

lemma tx_fs_env_simps [simp]:
  "fv_crc (tx_fs_env E F) = te_crc E"
  "fv_enqueue (tx_fs_env E F) = (\<lambda>q. on_tx (target_EnqueueMetadata E q))"
  "fv_create_tx (tx_fs_env E F) = target_Transaction_Create E"
  "fv_destroy_tx (tx_fs_env E F) = target_Transaction_Destroy E"
  "fv_commit_pools (tx_fs_env E F) = tx_commit_pools E"
  "fv_journal_commit (tx_fs_env E F) = tx_journal_commit E"
  "fv_journal_sync (tx_fs_env E F) = tx_journal_sync E"
  by (simp_all add: tx_fs_env_def)

lemma keeps_on_pools:
  assumes "\<And>j. keeps (guarded w j) m"
  shows "keeps (guards w Q) (on_pools m)"
proof (rule keepsI)
  fix s r s' assume s: "guards w Q s" and run: "on_pools m s = Some (r, s')"
  then obtain sm u where m: "m (tg_sm s, tg_rest s) = Some (r, sm, u)" "s' = s\<lparr>tg_sm := sm, tg_rest := u\<rparr>"
    by (auto simp: on_pools_def split: option.splits)
  have "guarded w (tp_journal (tg_rest s)) (tg_sm s, tg_rest s)" using s by (simp add: guards_def guarded_def)
  from keepsD [OF assms this m(1)] show "guards w Q s'" using s by (simp add: guards_def guarded_def m(2))
qed

lemma keeps_on_rest_fs:
  assumes "\<And>u r u'. tx_guard w u \<Longrightarrow> Q (tp_journal u) \<Longrightarrow> m u = Some (r, u') \<Longrightarrow> tx_guard w u' \<and> Q (tp_journal u')"
  shows "keeps (guards w Q) (on_rest_fs m)"
  by (rule keepsI) (auto simp: on_rest_fs_def guards_def dest: assms split: option.splits)

lemma guards_cong: "tg_rest s' = tg_rest s \<Longrightarrow> guards w Q s' = guards w Q s"
  by (simp add: guards_def)

lemma keeps_on_tree: "keeps (guards w Q) (on_tree f G)"
  unfolding on_tree_def by (rule keeps_modify) (simp add: guards_def)

lemma on_tx_guarded:
  assumes "\<And>t. tt_block_reservation (f t) = tt_block_reservation t"
  shows "tx_guard w (on_tx f u) = tx_guard w u" "tp_journal (on_tx f u) = tp_journal u"
    "tp_blocks (on_tx f u) = tp_blocks u"
proof -
  show "tp_journal (on_tx f u) = tp_journal u" "tp_blocks (on_tx f u) = tp_blocks u" by (simp_all add:
      on_tx_def)
  then show "tx_guard w (on_tx f u) = tx_guard w u"
    by (intro tx_guard_cong block_reservation_on_tx assms)
qed

text \<open>Writing the superblock only queues writes.\<close>

lemma superblock_Write_queues:
  assumes "target_SuperblockManager_Write crc enqueue b (sm, u) = (sm', u')" "P u" "\<And>q u. P u \<Longrightarrow> P (enqueue q u)"
  shows "P u'"
  using assms by (auto simp: target_SuperblockManager_Write_def Let_def split: if_splits prod.splits)

lemma sb_Write_queues:
  assumes "fs_sb_Write (tx_fs_env E F) b s = Some (r, s')"
  shows "tp_blocks (tg_rest s') = tp_blocks (tg_rest s) \<and> tp_journal (tg_rest s') = tp_journal (tg_rest s)
    \<and> block_reservation (tg_rest s') = block_reservation (tg_rest s) \<and> tg_journal s' = tg_journal s"
proof -
  obtain sm u where w: "target_SuperblockManager_Write (te_crc E) (\<lambda>q. on_tx (target_EnqueueMetadata E q)) b
      (tg_sm s, tg_rest s) = (sm, u)" by (metis prod.exhaust)
  have s': "s' = s\<lparr>tg_sm := sm, tg_rest := u\<rparr>" using assms by (simp add: fs_sb_Write_def modify_def w)
  have "tp_blocks u = tp_blocks (tg_rest s) \<and> tp_journal u = tp_journal (tg_rest s)
      \<and> block_reservation u = block_reservation (tg_rest s)"
    by (rule superblock_Write_queues [OF w]) (simp_all add: on_tx_guarded block_reservation_on_tx)
  then show ?thesis by (simp add: s')
qed

lemma keeps_sb_Write: "keeps (guards w Q) (fs_sb_Write (tx_fs_env E F) b)"
  by (rule keepsI) (auto simp: guards_def tx_guard_def dest: sb_Write_queues)

section \<open>Begin and commit\<close>

lemma keeps_sync: "keeps (guards w (\<lambda>_. True)) (BlockingJournalSync (tx_fs_env E F))"
  unfolding BlockingJournalSync_def
  by (intro keeps_rules keeps_on_rest_fs) (auto intro: journal_sync_guard)

lemma keeps_report_error: "keeps (guards w Q) (report_error G r)"
  unfolding report_error_def by (intro keeps_rules keeps_on_tree)

lemma release_all_tx:
  "tp_tx (fold (\<lambda>e. release_deallocations E (je_deallocations e)) js u) = tp_tx u"
  by (induction js arbitrary: u) (simp_all add: release_deallocations_eq)

lemma sync_no_transaction:
  assumes "guards w (\<lambda>_. True) s" "tp_tx (tg_rest s) = None"
    "BlockingJournalSync (tx_fs_env E F) s = Some (r, s')"
  shows "guards w (\<lambda>_. True) s' \<and> tp_tx (tg_rest s') = None"
proof -
  let ?P = "\<lambda>s. guards w (\<lambda>_. True) s \<and> tp_tx (tg_rest s) = None"
  have "keeps ?P (on_rest_fs (tx_journal_sync E))"
    by (rule keepsI) (auto simp: on_rest_fs_def guards_def tx_journal_sync_def release_all_tx
        split: option.splits intro: journal_sync_guard [unfolded tx_journal_sync_def, OF _ refl])
  then have "keeps ?P (BlockingJournalSync (tx_fs_env E F))"
    unfolding BlockingJournalSync_def tx_fs_env_simps by (intro keeps_rules)
  from keepsD [OF this _ assms(3)] assms(1,2) show ?thesis by blast
qed

lemma create_guards:
  assumes "guards w (\<lambda>_. True) s" "tp_tx (tg_rest s) = None"
    and "on_pools (target_Transaction_Create E i b) s = Some (r, s')"
  shows "guards w (\<lambda>_. True) s'" "r = Err e \<Longrightarrow> tp_tx (tg_rest s') = None"
proof -
  obtain sm u where c: "target_Transaction_Create E i b (tg_sm s, tg_rest s) = Some (r, sm, u)"
      "s' = s\<lparr>tg_sm := sm, tg_rest := u\<rparr>"
    using assms(3) by (auto simp: on_pools_def split: option.splits)
  have g: "guarded w (tp_journal (tg_rest s)) (tg_sm s, tg_rest s)" "tp_tx (snd (tg_sm s, tg_rest s)) = None"
    using assms(1,2) by (simp_all add: guards_def guarded_def)
  show "guards w (\<lambda>_. True) s'" using Transaction_Create_guard(1) [OF g c(1)]
    by (simp add: guards_def guarded_def c(2))
  show "r = Err e \<Longrightarrow> tp_tx (tg_rest s') = None" using Transaction_Create_guard(2) [OF g c(1)] by (simp add: c(2))
qed

lemma BeginTransaction_guards:
  assumes g: "guards w (\<lambda>_. True) s" "tp_tx (tg_rest s) = None"
    and run: "target_BeginTransaction (tx_fs_env E F) i b s = Some (r, s')"
  shows "guards w (\<lambda>_. True) s'"
proof (cases "tg_journal s \<and> fv_writeback_enabled (tx_fs_env E F) (tg_rest s)")
  case False
  then show ?thesis using g(1) run by (auto simp: target_BeginTransaction_def split: if_splits)
next
  case True
  let ?E = "tx_fs_env E F" and ?G = "guards w (\<lambda>_. True)"
  let ?create = "on_pools (target_Transaction_Create E i b)"
  let ?again = "\<lambda>r. abind (if is_ok r then on_tree OnRecoveredSpace ?E else ret ()) (\<lambda>_. report_error ?E r)"
  let ?synced = "\<lambda>r sync. if \<not> is_ok sync then abind (on_tree OnOutOfSpace ?E) (\<lambda>_. lift_res r)
    else try_act ?create ?again"
  let ?next = "\<lambda>r. if r = Err ZX_ERR_NO_SPACE \<and> (b > 0 \<or> i > 0)
    then try_act (BlockingJournalSync ?E) (?synced r) else report_error ?E r"
  have reports: "keeps ?G (?again r)" "keeps ?G (report_error ?E r)"
    "keeps ?G (abind (on_tree OnOutOfSpace ?E) (\<lambda>_. lift_res r))" for r
    by (intro keeps_rules keeps_on_tree keeps_report_error)+
  have "try_act ?create ?next s = Some (r, s')"
    using run True unfolding target_BeginTransaction_def tx_fs_env_simps by simp
  from try_act_cases [OF this] obtain r1 s1 where 1: "?create s = Some (r1, s1)"
      "s' = s1 \<or> ?next r1 s1 = Some (r, s')" by blast
  note c1 = create_guards [OF g 1(1)]
  show ?thesis
  proof (cases "s' = s1")
    case False
    then have n1: "?next r1 s1 = Some (r, s')" using 1(2) by blast
    show ?thesis
    proof (cases "r1 = Err ZX_ERR_NO_SPACE \<and> (b > 0 \<or> i > 0)")
      case True
      then have "try_act (BlockingJournalSync ?E) (?synced r1) s1 = Some (r, s')" using n1 by simp
      from try_act_cases [OF this] obtain r2 s2 where 2: "BlockingJournalSync ?E s1 = Some (r2, s2)"
        "s' = s2 \<or> ?synced r1 r2 s2 = Some (r, s')" by blast
      have "tp_tx (tg_rest s1) = None" by (rule c1(2) [OF conjunct1 [OF True]])
      note synced = sync_no_transaction [OF c1(1) this 2(1)]
      note s2 = conjunct1 [OF synced] conjunct2 [OF synced]
      show ?thesis
      proof (cases "s' = s2 \<or> \<not> is_ok r2")
        case True
        show ?thesis
        proof (cases "s' = s2")
          case False
          then have "abind (on_tree OnOutOfSpace ?E) (\<lambda>_. lift_res r1) s2 = Some (r, s')" using 2(2) True by simp
          from keepsD [OF reports(3) s2(1) this] show ?thesis .
        qed (use s2(1) in simp)
      next
        case False
        then have "try_act ?create ?again s2 = Some (r, s')" using 2(2) by simp
        from try_act_cases [OF this] obtain r3 s3 where 3: "?create s2 = Some (r3, s3)"
          "s' = s3 \<or> ?again r3 s3 = Some (r, s')" by blast
        note g3 = create_guards(1) [OF s2 3(1)]
        from 3(2) show ?thesis
        proof
          assume "?again r3 s3 = Some (r, s')"
          from keepsD [OF reports(1) g3 this] show ?thesis .
        qed (use g3 in simp)
      qed
    next
      case False
      then have "report_error ?E r1 s1 = Some (r, s')" using n1 by (simp only: if_False)
      from keepsD [OF reports(2) c1(1) this] show ?thesis .
    qed
  qed (use c1(1) in simp)
qed

lemma keeps_CommitTransaction:
  assumes "\<And>j e. Q j \<Longrightarrow> Q (j @ [e])"
  shows "keeps (guards w Q) (target_CommitTransaction (tx_fs_env E F))"
  unfolding target_CommitTransaction_def tx_fs_env_simps post_sync_task_def
proof (intro keeps_rules keeps_on_pools keeps_commit_pools keeps_sb_Write keeps_on_rest_fs)
  fix u r u'
  assume "tx_guard w u" "Q (tp_journal u)" "tx_journal_commit E u = Some (r, u')"
  then show "tx_guard w u' \<and> Q (tp_journal u')" using journal_commit_guard assms by metis
qed (simp_all add: guards_def destroy_guarded)

section \<open>Transactions and callbacks as steps\<close>

text \<open>
  A transaction holds the lock of the file system, so there is at most one. The journal calls back in
  its own time, also while a transaction is open. A reservation that is cached from one transaction to
  another has only been extended. A start of a transaction that finds no space synchronises the journal.
\<close>

datatype tx_event = Client | Journal_committed nat | Journal_synced

abbreviation on_rest_state :: "('u \<Rightarrow> 'u) \<Rightarrow> ('i, 'u) target_fs \<Rightarrow> ('i, 'u) target_fs" where
  "on_rest_state f s \<equiv> s\<lparr>tg_rest := f (tg_rest s)\<rparr>"

inductive tx_step ::
  "('b, 'r, 'd, 'k) tx_env \<Rightarrow> ('i, ('b, 'r, 'd, 'k) tx_state) fs_env \<Rightarrow> tx_event
    \<Rightarrow> ('i, ('b, 'r, 'd, 'k) tx_state) target_fs \<Rightarrow> ('i, ('b, 'r, 'd, 'k) tx_state) target_fs \<Rightarrow> bool"
  for E F where
  begins: "tp_tx (tg_rest s) = None \<Longrightarrow> target_BeginTransaction (tx_fs_env E F) i b s = Some (r, s')
    \<Longrightarrow> tp_journal (tg_rest s') = tp_journal (tg_rest s) \<Longrightarrow> tx_step E F Client s s'"
| begins_after_sync: "tp_tx (tg_rest s) = None
    \<Longrightarrow> target_BeginTransaction (tx_fs_env E F) i b s = Some (r, s') \<Longrightarrow> tx_step E F Journal_synced s s'"
| allocates_block: "on_pools (target_AllocateBlock E) s = Some (r, s') \<Longrightarrow> tx_step E F Client s s'"
| deallocates_block: "on_pools (target_DeallocateBlock E b) s = Some (r', s') \<Longrightarrow> tx_step E F Client s s'"
| swaps_block: "on_pools (SwapBlock E b) s = Some (r, s') \<Longrightarrow> tx_step E F Client s s'"
| extends_reservation: "on_pools (target_ExtendBlockReservation E b) s = Some (r', s') \<Longrightarrow> tx_step E F
    Client s s'"
| allocates_inode: "on_pools (target_AllocateInode E) s = Some (r, s') \<Longrightarrow> tx_step E F Client s s'"
| frees_inode: "on_pools (target_InodeManager_Free E i) s = Some (r', s') \<Longrightarrow> tx_step E F Client s s'"
| queues_metadata: "tx_step E F Client s (on_rest_state (on_tx (target_EnqueueMetadata E q)) s)"
| queues_data: "tx_step E F Client s (on_rest_state (on_tx (target_EnqueueData E q)) s)"
| pins_vnode: "tx_step E F Client s (on_rest_state (on_tx (PinVnode v)) s)"
| commits: "target_CommitTransaction (tx_fs_env E F) s = Some (r', s') \<Longrightarrow> tx_step E F Client s s'"
| abandons: "tx_step E F Client s (on_rest_state (target_Transaction_Destroy E) s)"
| caches: "target_TakeBlockReservations (tg_rest s) = Ok (Some rs, u) \<Longrightarrow> rs_ids rs = {}
    \<Longrightarrow> tx_step E F Client s (s\<lparr>tg_rest := target_Transaction_Destroy E u\<rparr>)"
| resumes: "tp_tx (tg_rest s) = None \<Longrightarrow> rs_ids rs = {}
    \<Longrightarrow> tx_step E F Client s (on_rest_state (target_FromCachedBlockTransaction rs) s)"
| journal_completes: "i < length (tp_journal (tg_rest s))
    \<Longrightarrow> tx_step E F Client s (on_rest_state (complete_callback i) s)"
| journal_commits: "i < length (tp_journal (tg_rest s))
    \<Longrightarrow> tx_step E F (Journal_committed i) s (on_rest_state (commit_callback E i) s)"
| journal_syncs: "BlockingJournalSync (tx_fs_env E F) s = Some (r', s') \<Longrightarrow> tx_step E F Journal_synced s s'"

inductive tx_run ::
  "('b, 'r, 'd, 'k) tx_env \<Rightarrow> ('i, ('b, 'r, 'd, 'k) tx_state) fs_env \<Rightarrow> tx_event list
    \<Rightarrow> ('i, ('b, 'r, 'd, 'k) tx_state) target_fs \<Rightarrow> ('i, ('b, 'r, 'd, 'k) tx_state) target_fs \<Rightarrow> bool"
  for E F where
  rests: "tx_run E F [] s s"
| goes_on: "tx_step E F e s s' \<Longrightarrow> tx_run E F es s' s'' \<Longrightarrow> tx_run E F (e # es) s s''"

inductive_cases tx_step_committed: "tx_step E F (Journal_committed i) s s'"
inductive_cases tx_step_synced: "tx_step E F Journal_synced s s'"

text \<open>What may be said of the journal that an event does not make false.\<close>

definition stable :: "(journal_entry list \<Rightarrow> bool) \<Rightarrow> tx_event \<Rightarrow> bool" where
  "stable Q e \<longleftrightarrow> (case e of
      Client \<Rightarrow> (\<forall>j e. Q j \<longrightarrow> Q (j @ [e])) \<and> (\<forall>j i. Q j \<longrightarrow> Q (j[i := (j ! i)\<lparr>je_pinned := []\<rparr>]))
    | Journal_committed i \<Rightarrow> \<forall>j. Q j \<longrightarrow> Q (j[i := (j ! i)\<lparr>je_deallocations := None\<rparr>])
    | Journal_synced \<Rightarrow> \<forall>j. Q j)"

lemma callbacks_journal:
  "tp_journal (complete_callback i u) = (tp_journal u)[i := (tp_journal u ! i)\<lparr>je_pinned := []\<rparr>]"
  "tp_journal (commit_callback E i u) = (tp_journal u)[i := (tp_journal u ! i)\<lparr>je_deallocations := None\<rparr>]"
  by (simp_all add: complete_callback_def commit_callback_def release_deallocations_eq Let_def)

lemma cached_guarded:
  assumes "tx_guard w u" "tp_tx u = None" "rs_ids rs = {}"
  shows "tx_guard w (target_FromCachedBlockTransaction rs u)"
proof -
  have "pool_guard w (tp_blocks u) None (map je_deallocations (tp_journal u))"
    using assms(1,2) by (simp add: tx_guard_def block_reservation_def)
  moreover have "rs_allocations rs = None" using assms(3) by (simp add: rs_ids_def)
  ultimately show ?thesis using assms(3)
    by (simp add: tx_guard_def target_FromCachedBlockTransaction_def target_new_transaction_def
        block_reservation_def pool_guard_def rs_in_def)
qed

lemma take_guarded:
  assumes "tx_guard w u" "target_TakeBlockReservations u = Ok (Some rs, u')" "rs_ids rs = {}"
  shows "tx_guard w u'" "tp_journal u' = tp_journal u"
  using assms by (auto simp: target_TakeBlockReservations_def zx_assert_def tx_guard_def block_reservation_def
      intro: pool_guard_no_tx split: option.splits if_splits)

lemmas pool_operations_guard =
  keepsD [OF keeps_on_pools [OF keeps_blocks_and_inodes(1)]] keepsD [OF keeps_on_pools [OF
      keeps_blocks_and_inodes(2)]]
  keepsD [OF keeps_on_pools [OF keeps_blocks_and_inodes(3)]] keepsD [OF keeps_on_pools [OF
      keeps_blocks_and_inodes(4)]]
  keepsD [OF keeps_on_pools [OF keeps_blocks_and_inodes(5)]] keepsD [OF keeps_on_pools [OF
      keeps_ExtendBlockReservation]]

lemma tx_step_guards:
  assumes "tx_step E F e s s'" "guards w Q s" "stable Q e"
  shows "guards w Q s'"
  using assms(1)
proof (cases rule: tx_step.cases)
  case (begins i b r)
  have "guards w (\<lambda>_. True) s" using assms(2) by (simp add: guards_def)
  from BeginTransaction_guards [OF this begins(2,3)] show ?thesis
    using assms(2) begins(4) by (simp add: guards_def)
next
  case (begins_after_sync i b r)
  have "guards w (\<lambda>_. True) s" using assms(2) by (simp add: guards_def)
  from BeginTransaction_guards [OF this begins_after_sync(2,3)] show ?thesis
    using assms(3) begins_after_sync(1) by (simp add: guards_def stable_def)
next
  case (commits r)
  show ?thesis
    by (rule keepsD [OF keeps_CommitTransaction assms(2) commits(2)])
      (use assms(3) commits(1) in \<open>auto simp: stable_def\<close>)
next
  case (journal_syncs r)
  have "guards w (\<lambda>_. True) s" using assms(2) by (simp add: guards_def)
  from keepsD [OF keeps_sync this journal_syncs(2)] show ?thesis
    using assms(3) journal_syncs(1) by (simp add: guards_def stable_def)
next
  case (caches rs u)
  then show ?thesis using assms(2) take_guarded [of w "tg_rest s"] by (auto simp: guards_def intro!:
      destroy_guarded)
next
  case (resumes rs)
  then show ?thesis using assms(2)
    by (simp add: guards_def cached_guarded) (simp add: target_FromCachedBlockTransaction_def)
next
  case (allocates_block r)
  then show ?thesis using pool_operations_guard(1) [OF assms(2)] by blast
next
  case (deallocates_block b r')
  then show ?thesis using pool_operations_guard(2) [OF assms(2)] by blast
next
  case (swaps_block b r)
  then show ?thesis using pool_operations_guard(3) [OF assms(2)] by blast
next
  case (allocates_inode r)
  then show ?thesis using pool_operations_guard(4) [OF assms(2)] by blast
next
  case (frees_inode i r')
  then show ?thesis using pool_operations_guard(5) [OF assms(2)] by blast
next
  case (extends_reservation b r')
  then show ?thesis using pool_operations_guard(6) [OF assms(2)] by blast
qed (use assms(2,3) in \<open>auto simp: guards_def stable_def on_tx_guarded callbacks_journal
  destroy_guarded complete_callback_guard commit_callback_guard\<close>)

lemma tx_run_guards:
  "tx_run E F es s s' \<Longrightarrow> guards w Q s \<Longrightarrow> (\<And>e. e \<in> set es \<Longrightarrow> stable Q e) \<Longrightarrow> guards w Q s'"
  by (induction rule: tx_run.induct) (auto intro: tx_step_guards)

section \<open>A commit holds what it gives back\<close>

lemma commit_inodes_keeps:
  assumes "tx_commit_pool E (tx_inode_pool E) (sm, u) = Some (r, sm', u')"
  shows "tp_blocks u' = tp_blocks u" "block_reservation u' = block_reservation u" "tp_journal u' = tp_journal u"
proof -
  have "tp_blocks u' = tp_blocks u \<and> block_reservation u' = block_reservation u \<and> tp_journal u' = tp_journal u"
    using assms
  proof (cases rule: commit_pool_cases)
    case (2 t rs al rs' t')
    have "tt_block_reservation t' = tt_block_reservation t" by (rule Commit_enqueues [OF 2(3)]) simp_all
    then show ?thesis using 2 by (simp add: tx_inode_pool_def block_reservation_def)
  qed simp
  then show "tp_blocks u' = tp_blocks u" "block_reservation u' = block_reservation u" "tp_journal u' =
      tp_journal u"
    by auto
qed

lemma commit_pools_hold:
  assumes laws: "rle_bitmap_laws (te_ranges E)" and ok: "tx_guard None u" and rs: "block_reservation u =
      Some rs"
    and b: "b \<in> res_gives (te_ranges E) (tp_blocks u) rs"
    and run: "tx_commit_pools E (sm, u) = Some (Ok (), sm', u')"
  obtains rs' did where "block_reservation u' = Some rs'" "rs_deallocations rs' = Some did"
    "b \<in> blk (te_ranges E) (tp_blocks u') did" "tx_guard None u'" "tp_journal u' = tp_journal u"
proof -
  obtain sm1 u1 where 1: "tx_commit_pool E (tx_inode_pool E) (sm, u) = Some (Ok (), sm1, u1)"
      "tx_commit_pool E (tx_block_pool E) (sm1, u1) = Some (Ok (), sm', u')"
    using run unfolding tx_commit_pools_def by (elim abind_OkE) auto
  note i = commit_inodes_keeps [OF 1(1)]
  have guard: "pool_guard None (tp_blocks u1) (Some rs) (map je_deallocations (tp_journal u1))"
    using ok rs by (simp add: tx_guard_def i)
  from 1(2) obtain t al rs' t' where c: "tp_tx u1 = Some t" "tt_block_reservation t = Some rs"
      "Reservation_Commit (te_bitmap E) (te_ranges E) (te_block_storage E) (target_EnqueueMetadata E)
        (tp_blocks u1, rs, sm1, t) = Ok (al, rs', sm', t')"
      "u' = u1\<lparr>tp_blocks := al, tp_tx := Some (t'\<lparr>tt_block_reservation := Some rs'\<rparr>)\<rparr>"
    using i(2) rs by (auto simp: tx_block_pool_def block_reservation_def elim!: commit_pool_cases)
  have "al_ids (tp_blocks u1)" "rs_in (tp_blocks u1) rs" using guard by (simp_all add: pool_guard_def)
  from Commit_holds [OF laws this c(3)] obtain did where did: "rs_deallocations rs' = Some did"
      "res_gives (te_ranges E) (tp_blocks u1) rs \<subseteq> blk (te_ranges E) al did" by blast
  have "pool_guard None al (Some rs') (map je_deallocations (tp_journal u1))"
    by (rule pool_guard_own [OF guard own_changes_Commit [OF c(3)]])
  then show ?thesis using did b by (intro that [of rs' did]) (auto simp: c(4) i tx_guard_def)
qed

text \<open>The entry that the journal accepts.\<close>

definition holds :: "nat \<Rightarrow> nat \<Rightarrow> journal_entry list \<Rightarrow> bool" where
  "holds n did j \<longleftrightarrow> n < length j \<and> je_deallocations (j ! n) = Some did"

lemma stable_holds: "e \<noteq> Journal_committed n \<Longrightarrow> e \<noteq> Journal_synced \<Longrightarrow> stable (holds n did) e"
proof (cases e)
  case Client
  have "je_deallocations (j[i := (j ! i)\<lparr>je_pinned := []\<rparr>] ! n) = je_deallocations (j ! n)" if "n <
      length j" for i and j :: "journal_entry list"
    using that by (cases "i = n") simp_all
  then show ?thesis using Client by (simp add: stable_def holds_def nth_append)
qed (auto simp: stable_def holds_def)

lemma accepted_entry:
  assumes ok: "tx_guard None u" and rs: "block_reservation u = Some rs" "rs_deallocations rs = Some did"
    and c: "al_changes (tp_blocks u) did = Some c"
    and run: "tx_journal_commit E u = Some (Ok (), u')"
  shows "tx_guard (Some (did, c)) u' \<and> holds (length (tp_journal u)) did (tp_journal u')"
proof -
  have ok': "tx_guard None u'" using journal_commit_guard [OF ok run] by simp
  from run show ?thesis
  proof (cases rule: journal_commit_cases)
    case (2 t rs1 t' rs' x e)
    have "rs1 = rs" using rs(1) 2(1,2) by (simp add: block_reservation_def)
    then have u': "tp_blocks u' = tp_blocks u" "tp_journal u' = tp_journal u @ [e]" "je_deallocations e
        = Some did"
      using 2(3,5,6) rs(2) by (simp_all add: TakePendingDeallocations_def)
    have "did < al_next_id (tp_blocks u)" using ok c by (auto simp: tx_guard_def pool_guard_def al_ids_def)
    then show ?thesis using ok' u' c
      by (auto simp: tx_guard_def pool_guard_def watch_def holds_def waiting_def)
  qed simp
qed

lemma Commit_accepted:
  assumes laws: "rle_bitmap_laws (te_ranges E)" and ok: "guards None (\<lambda>_. True) s"
    and rs: "block_reservation (tg_rest s) = Some rs" and b: "b \<in> res_gives (te_ranges E) (tp_blocks
        (tg_rest s)) rs"
    and run: "target_CommitTransaction (tx_fs_env E F) s = Some (Ok (), s')"
    and accepted: "tp_journal (tg_rest s') \<noteq> tp_journal (tg_rest s)"
  obtains did c where "guards (Some (did, c)) (holds (length (tp_journal (tg_rest s))) did) s'"
    "b \<in> blocked (te_ranges E) c"
proof -
  let ?G = "tx_fs_env E F" and ?n = "length (tp_journal (tg_rest s))"
  obtain x s1 where s1: "on_pools (tx_commit_pools E) s = Some (Ok x, s1)"
    and run1: "abind (gets (\<lambda>s. sm_dirty (tg_sm s))) (\<lambda>dirty.
      abind (if dirty then fs_sb_Write ?G False else ret ()) (\<lambda>_.
      abind (gets tg_journal) (\<lambda>journal.
      abind (assert_act journal) (\<lambda>_.
      try_act (on_rest_fs (tx_journal_commit E)) (\<lambda>_.
      abind (modify (\<lambda>s. s\<lparr>tg_tree :=
             UpdateSpaceUsage (fs_Info s) (fv_blocks_reserved ?G (tg_rest s)) (tg_tree s)\<rparr>)) (\<lambda>_.
      abind (post_sync_task ?G) (\<lambda>_.
      modify (\<lambda>s. s\<lparr>tg_rest := target_Transaction_Destroy E (tg_rest s)\<rparr>)))))))) s1 = Some (Ok (), s')"
    using run unfolding target_CommitTransaction_def tx_fs_env_simps by (erule abind_OkE)
  obtain y s2 where s2: "(if sm_dirty (tg_sm s1) then fs_sb_Write ?G False else ret ()) s1 = Some (Ok y, s2)"
    and run2: "abind (gets tg_journal) (\<lambda>journal.
      abind (assert_act journal) (\<lambda>_.
      try_act (on_rest_fs (tx_journal_commit E)) (\<lambda>_.
      abind (modify (\<lambda>s. s\<lparr>tg_tree :=
             UpdateSpaceUsage (fs_Info s) (fv_blocks_reserved ?G (tg_rest s)) (tg_tree s)\<rparr>)) (\<lambda>_.
      abind (post_sync_task ?G) (\<lambda>_.
      modify (\<lambda>s. s\<lparr>tg_rest := target_Transaction_Destroy E (tg_rest s)\<rparr>)))))) s2 = Some (Ok (), s')"
    using run1 unfolding gets_bind by (erule abind_OkE)
  obtain r s3 where s3: "on_rest_fs (tx_journal_commit E) s2 = Some (r, s3)"
    and s': "tg_rest s' = target_Transaction_Destroy E (tg_rest s3)"
    using run2 by (auto simp: assert_act_def gets_def try_act_def post_sync_task_def modify_def abind_def
        split: option.splits res.splits prod.splits if_splits
        simp del: modify_bind gets_bind assert_bind)
  obtain sm u1 where p: "tx_commit_pools E (tg_sm s, tg_rest s) = Some (Ok (), sm, u1)" "tg_rest s1 = u1"
    using s1 by (auto simp: on_pools_def split: option.splits)
  have ok': "tx_guard None (tg_rest s)" using ok by (simp add: guards_def)
  obtain rs' did where h: "block_reservation u1 = Some rs'" "rs_deallocations rs' = Some did"
    "b \<in> blk (te_ranges E) (tp_blocks u1) did" "tx_guard None u1" "tp_journal u1 = tp_journal (tg_rest s)"
    by (rule commit_pools_hold [OF laws ok' rs b p(1)])
  have same: "tp_blocks (tg_rest s2) = tp_blocks u1" "tp_journal (tg_rest s2) = tp_journal u1"
      "block_reservation (tg_rest s2) = block_reservation u1"
    using s2 p(2) sb_Write_queues [of E F False s1 "Ok y" s2] by (auto split: if_splits)
  then have ok2: "tx_guard None (tg_rest s2)" using h(4) by (simp add: tx_guard_def)
  obtain u3 where j: "tx_journal_commit E (tg_rest s2) = Some (r, u3)" "tg_rest s3 = u3"
    using s3 by (auto simp: on_rest_fs_def split: option.splits)
  have "r = Ok ()"
    using journal_commit_guard(2) [OF ok2 j(1)] accepted by (auto simp: s' j(2) same h(5))
  obtain c where c: "al_changes (tp_blocks u1) did = Some c" "b \<in> blocked (te_ranges E) c"
    using h(3) by (auto simp: blk_def split: option.splits)
  have "tx_guard (Some (did, c)) u3 \<and> holds ?n did (tp_journal u3)"
    using accepted_entry [OF ok2, of rs' did c E u3] j(1) \<open>r = Ok ()\<close> h c same by simp
  then have "guards (Some (did, c)) (holds ?n did) s'" by (simp add: guards_def s' j(2) destroy_guarded)
  then show ?thesis using that c(2) by blast
qed

section \<open>Allocation\<close>

lemma allocation_avoids:
  assumes laws: "raw_bitmap_laws (te_bitmap E)" "rle_bitmap_laws (te_ranges E)"
    and g: "guards (Some (did, c)) (holds n did) s" and b: "b \<in> blocked (te_ranges E) c"
  shows "target_AllocateBlock E (tg_sm s, tg_rest s) \<noteq> Some (Ok b, x)"
    "SwapBlock E old_bno (tg_sm s, tg_rest s) \<noteq> Some (Ok b, x)"
proof -
  let ?u = "tg_rest s" and ?B = "te_bitmap E" and ?R = "te_ranges E"
  let ?ws = "map je_deallocations (tp_journal ?u)"
  have waits: "did \<in> waiting ?ws" using g by (auto simp: guards_def holds_def waiting_def intro:
      image_eqI [OF sym nth_mem])
  have taken: "\<exists>rs al rs'. block_reservation ?u = Some rs \<and> f (tp_blocks ?u, rs) = Some (Ok (b, al, rs'))"
    if "from_allocator (tx_block_pool E) f (tg_sm s, ?u) = Some (Ok b, x)" for f
    using that by (auto simp: from_allocator_def on_tx_reservation_def tx_block_pool_def block_reservation_def
        split: option.splits res.splits prod.splits)
  have avoid: "Reservation_Allocate ?B ?R (al, rs) \<noteq> Some (Ok (b, al', rs'))"
    if "pool_guard (Some (did, c)) al (Some rs) ?ws" for al rs al' rs'
    using Allocate_avoids [OF laws that waits] b by blast
  have guard: "pool_guard (Some (did, c)) (tp_blocks ?u) (Some rs) ?ws" if "block_reservation ?u = Some
      rs" for rs
    using g that by (simp add: guards_def tx_guard_def)
  show "target_AllocateBlock E (tg_sm s, ?u) \<noteq> Some (Ok b, x)"
    using taken avoid guard unfolding target_AllocateBlock_def by blast
  show "SwapBlock E old_bno (tg_sm s, ?u) \<noteq> Some (Ok b, x)"
  proof
    assume "SwapBlock E old_bno (tg_sm s, ?u) = Some (Ok b, x)"
    then obtain rs al' rs' where rs: "block_reservation ?u = Some rs"
        "Reservation_Swap ?B ?R old_bno (tp_blocks ?u, rs) = Some (Ok (b, al', rs'))"
      using taken unfolding SwapBlock_def by blast
    show False
    proof (cases "old_bno > 0")
      case True
      then obtain al1 rs1 where "Allocator_Free ?R old_bno (tp_blocks ?u, rs) = Ok (al1, rs1)"
          "Reservation_Allocate ?B ?R (al1, rs1) = Some (Ok (b, al', rs'))"
        using rs(2) by (auto simp: Reservation_Swap_def split: res.splits)
      then show False using avoid pool_guard_own [OF guard [OF rs(1)] own_changes_Free] by blast
    next
      case False
      then show False using rs avoid guard by (auto simp: Reservation_Swap_def)
    qed
  qed
qed

text \<open>A file system on which no transaction has run.\<close>

definition no_transactions :: "('b, 'r, 'd, 'k) tx_state \<Rightarrow> bool" where
  "no_transactions u \<longleftrightarrow> tp_tx u = None \<and> tp_journal u = [] \<and> al_pending (tp_blocks u) = []
     \<and> al_changes (tp_blocks u) = Map.empty"

lemma no_transactions_guard: "no_transactions (tg_rest s) \<Longrightarrow> guards None (\<lambda>_. True) s"
  by (simp add: no_transactions_def guards_def tx_guard_def pool_guard_def al_ids_def block_reservation_def)

section \<open>An example\<close>

text \<open>A pool of four blocks of which three are allocated; a transaction gives back the third.\<close>

definition held_env :: "(bool list, index_set, unit, unit) tx_env" where
  "held_env =
    \<lparr>te_bitmap = list_bitmap, te_ranges = list_rle, te_crc = (\<lambda>_. 7), te_volume = example_volume,
     te_kernel = \<lparr>kn_create = (\<lambda>_ d. (Ok (), d)), kn_resize = (\<lambda>_ _ d. (Ok (), d)),
       kn_zero = (\<lambda>_ _ _ d. (Ok (), d)), kn_attach = (\<lambda>d. (Ok 1, d)), kn_detach = (\<lambda>_ d. (Ok (), d))\<rparr>,
     te_block_storage = ex_storage\<lparr>st_metadata := (st_metadata ex_storage)\<lparr>md_access := access_Blocks\<rparr>\<rparr>,
     te_inode_storage = ex_storage, te_add = (\<lambda>q qs. qs @ [q]), te_block_count = length,
     te_max_entry_blocks = 100, te_commit_status = (\<lambda>_ _. Ok ()), te_sync_status = (\<lambda>_. Ok ())\<rparr>"

definition held_fs_env :: "(unit, (bool list, index_set, unit, unit) tx_state) fs_env" where
  "held_fs_env =
    \<lparr>fv_crc = (\<lambda>_. 7), fv_enqueue = (\<lambda>q u. u), fv_create_tx = (\<lambda>_ _. ret ()),
     fv_destroy_tx = (\<lambda>u. u), fv_commit_pools = ret (), fv_journal_commit = ret (),
     fv_writeback_enabled = (\<lambda>_. True), fv_journal_sync = ret (), fv_bcache_sync = ret (),
     fv_fsck = ret (), fv_blocks_reserved = (\<lambda>_. 0), fv_now = (\<lambda>_. 0), fv_dispatcher = False,
     fv_alive = (\<lambda>_ _. True), fv_is_dirty = (\<lambda>_ _. False), fv_flush = (\<lambda>_. ret ()),
     fv_purge_unlinked = ret (), fv_size_info = (\<lambda>_. Err ZX_ERR_NOT_SUPPORTED),
     fv_available_space = (\<lambda>_. 0), fv_ring_buffer = (\<lambda>_. ret ()), fv_metadata_blocks = 1\<rparr>"

definition held_start :: "(unit, (bool list, index_set, unit, unit) tx_state) target_fs" where
  "held_start =
    \<lparr>tg_bcache = True, tg_sm = \<lparr>sm_info = limits_example\<lparr>block_count := 4, alloc_block_count := 3,
        inode_count := 4\<rparr>, sm_dirty = False\<rparr>,
     tg_journal = True, tg_fsck_callback = False, tg_hash = [], tg_tree = new_inspect_tree,
     tg_sync_pending = False, tg_options = default_mount_options,
     tg_rest = \<lparr>tp_blocks = ex_al\<lparr>al_reserved := 0, al_map := [True, True, True, False]\<rparr>,
       tp_inodes = \<lparr>is_start_block = 17, is_block_size = kMinfsBlockSize, is_allocator =
           ex_al\<lparr>al_reserved := 0\<rparr>,
         is_table = \<lparr>vm_size = 0, vm_bytes = zero_bytes\<rparr>\<rparr>,
       tp_tx = None, tp_volume = (), tp_kernel = (), tp_journal = [], tp_enabled = True\<rparr>\<rparr>"


lemma tx_fs_env_enabled:
  "fv_writeback_enabled (tx_fs_env E F) = tp_enabled" by (simp add: tx_fs_env_def)
lemma begin_nothing:
  "tg_journal s \<Longrightarrow> tp_enabled (tg_rest s) \<Longrightarrow> target_BeginTransaction (tx_fs_env E F) 0 0 s
    = Some (Ok (), on_rest_state (\<lambda>u. u\<lparr>tp_tx := Some (target_new_transaction None)\<rparr>) s)"
  by (simp add: target_BeginTransaction_def target_Transaction_Create_def tx_fs_env_enabled try_act_def
      on_pools_def
      report_error_def lift_res_def ret_def modify_def)

definition held_open where
  "held_open = on_rest_state (\<lambda>u. u\<lparr>tp_tx := Some (target_new_transaction None)\<rparr>) held_start"


definition held_changes :: "bool \<Rightarrow> nat \<Rightarrow> index_set pending_change option" where
  "held_changes done = [0 \<mapsto> \<lparr>pc_allocation = True, pc_bitmap = index_empty, pc_committed = done\<rparr>,
     1 \<mapsto> \<lparr>pc_allocation = False, pc_bitmap = index_insert index_empty 2, pc_committed = done\<rparr>]"

definition held_al :: "(bool list, index_set) allocator" where
  "held_al = \<lparr>al_reserved = 0, al_first_free = 0, al_map = [True, True, True, False],
     al_pending = [0, 1], al_changes = held_changes False, al_next_id = 2\<rparr>"
definition held_rs :: reservation where
  "held_rs = \<lparr>rs_reserved = 0, rs_allocations = Some 0, rs_deallocations = Some 1\<rparr>"
definition held_tx :: "target_transaction" where
  "held_tx = (target_new_transaction None)\<lparr>tt_block_reservation := Some held_rs\<rparr>"

definition held_given where
  "held_given = on_rest_state (\<lambda>u. u\<lparr>tp_blocks := held_al, tp_tx := Some held_tx\<rparr>) held_start"

lemma indices_simps [simp]: "indices index_empty = []" "indices (index_insert r i) = (if i \<in> set
    (indices r) then indices r else insort i (indices r))"
  by (transfer; simp)+

lemma held_env_simps [simp]: "te_bitmap held_env = list_bitmap" "te_ranges held_env = list_rle"
  "te_commit_status held_env = (\<lambda>_ _. Ok ())" "te_block_count held_env = length" "te_max_entry_blocks
      held_env = 100"
  "te_add held_env q qs = qs @ [q]"
  by (simp_all add: held_env_def)

lemma held_give: "on_pools (target_DeallocateBlock held_env 2) held_open = Some (Ok (), held_given)"
  by (simp add: held_open_def held_start_def on_pools_def target_DeallocateBlock_def from_allocator_def
      on_tx_reservation_def
   tx_block_pool_def target_new_transaction_def Reservation_Deallocate_def Allocator_Free_def
       GetPendingAllocations_def GetPendingDeallocations_def
   AddPendingChange_def empty_reservation_def ex_al_def list_rle_def on_tx_def Let_def held_given_def
       held_al_def held_tx_def held_rs_def held_changes_def)

lemma held_inodes:
  "\<exists>al rs. Reservation_Commit list_bitmap list_rle st enqueue (ex_al\<lparr>al_reserved := 0\<rparr>,
      empty_reservation, sm, t) = Ok (al, rs, sm, t)"
  by (simp add: Reservation_Commit_def Allocator_Commit_def GetPendingAllocations_def
      GetPendingDeallocations_def
   AddPendingChange_def empty_reservation_def list_rle_def item_count_def Let_def)

lemma held_blocks:
  "Reservation_Commit list_bitmap list_rle st enqueue (held_al, held_rs, sm, t)
    = Ok (held_al\<lparr>al_map := [True, True, False, False], al_changes := held_changes True\<rparr>, held_rs,
        PersistRelease st 1 sm, PersistRange st enqueue 2 1 t)"
  by (simp add: Reservation_Commit_def Allocator_Commit_def GetPendingAllocations_def
      GetPendingDeallocations_def
   held_al_def held_rs_def held_changes_def list_rle_def item_count_def Let_def splice_def)


definition held_after :: "(bool list, index_set) allocator" where
  "held_after = held_al\<lparr>al_map := [True, True, False, False], al_pending := [1],
     al_changes := (held_changes True)(0 := None)\<rparr>"

lemma held_pools:
  "\<exists>u t. tx_commit_pools held_env (tg_sm held_given, tg_rest held_given)
      = Some (Ok (), PersistRelease (te_block_storage held_env) 1 (tg_sm held_start), u)
    \<and> tp_blocks u = held_al\<lparr>al_map := [True, True, False, False], al_changes := held_changes True\<rparr>
    \<and> tp_tx u = Some t \<and> tt_block_reservation t = Some held_rs \<and> length (tt_metadata_operations t) = 1
    \<and> tp_journal u = [] \<and> tp_enabled u"
proof -
  obtain al rs where c: "Reservation_Commit list_bitmap list_rle (te_inode_storage held_env)
      (target_EnqueueMetadata held_env)
      (ex_al\<lparr>al_reserved := 0\<rparr>, empty_reservation, tg_sm held_start, held_tx) = Ok (al, rs, tg_sm
          held_start, held_tx)"
    using held_inodes [of "te_inode_storage held_env" "target_EnqueueMetadata held_env" "tg_sm
        held_start" held_tx] by blast
  have i: "tx_commit_pool held_env (tx_inode_pool held_env) (tg_sm held_given, tg_rest held_given) =
      Some (Ok (), tg_sm held_start, (tg_rest held_given)\<lparr>tp_inodes := (tp_inodes (tg_rest
          held_given))\<lparr>is_allocator := al\<rparr>,
        tp_tx := Some (held_tx\<lparr>tt_inode_reservation := rs\<rparr>)\<rparr>)" (is "_ = Some (Ok (), _, ?u)")
    using c by (simp add: tx_commit_pool_def tx_inode_pool_def held_given_def held_start_def held_tx_def
        target_new_transaction_def)
  have u: "tp_blocks ?u = held_al" "tp_tx ?u = Some (held_tx\<lparr>tt_inode_reservation := rs\<rparr>)" "tp_journal
      ?u = []" "tp_enabled ?u"
    by (simp_all add: held_given_def held_start_def)
  obtain u1 where u1: "?u = u1" by blast
  show ?thesis unfolding tx_commit_pools_def abind_Some(1) [where m = "tx_commit_pool held_env
      (tx_inode_pool held_env)", OF i] u1
    using u [unfolded u1]
    by (simp add: tx_commit_pool_def tx_block_pool_def held_blocks held_blocks [unfolded One_nat_def]
        PersistRange_def target_EnqueueMetadata_def Let_def held_tx_def target_new_transaction_def)
qed

lemma held_destroyed: "Reservation_Destroy list_rle (held_al\<lparr>al_map := [True, True, False, False],
    al_changes := held_changes True\<rparr>,
    \<lparr>rs_reserved = 0, rs_allocations = Some 0, rs_deallocations = None\<rparr>) = held_after"
  by (simp add: Reservation_Destroy_def Reservation_Cancel_def RemovePendingChange_def held_al_def
      held_changes_def GetReservedCount_def held_after_def Let_def)

lemma held_commit:
  "\<exists>s1 e. target_CommitTransaction (tx_fs_env held_env held_fs_env) held_given = Some (Ok (), s1)
    \<and> tp_journal (tg_rest s1) = [e] \<and> tp_tx (tg_rest s1) = None \<and> tp_blocks (tg_rest s1) = held_after
    \<and> tg_journal s1 \<and> tp_enabled (tg_rest s1)
    \<and> PoolAvailable (st_metadata (te_block_storage held_env)) (tg_sm s1) = 2"
proof -
  let ?sm = "PersistRelease (te_block_storage held_env) 1 (tg_sm held_start)"
  obtain u t where p: "tx_commit_pools held_env (tg_sm held_given, tg_rest held_given) = Some (Ok (), ?sm, u)"
    and u: "tp_blocks u = held_al\<lparr>al_map := [True, True, False, False], al_changes := held_changes True\<rparr>"
      "tp_tx u = Some t" "tt_block_reservation t = Some held_rs" "length (tt_metadata_operations t) = 1"
      "tp_journal u = []" "tp_enabled u" using held_pools by blast
  define s where "s = held_start\<lparr>tg_sm := ?sm, tg_rest := u\<rparr>"
  have 1: "on_pools (fv_commit_pools (tx_fs_env held_env held_fs_env)) held_given = Some (Ok (), s)"
    by (simp add: on_pools_def p s_def) (simp add: held_given_def)
  have dirty: "sm_dirty ?sm" "PoolAvailable (st_metadata (te_block_storage held_env)) ?sm = 2"
    by (simp_all add: PersistRelease_def PoolRelease_def held_env_def ex_storage_def access_Blocks_def
        held_start_def MutableInfo_def
     PoolAvailable_def PoolTotal_def PoolUsed_def limits_example_def width_simps u32_sub_def u32_def)
  obtain sm1 where w: "fs_sb_Write (tx_fs_env held_env held_fs_env) False s = Some (Ok (), s\<lparr>tg_sm := sm1,
      tg_rest := on_tx (target_EnqueueMetadata held_env (write_op 0 kSuperblockStart 1, SuperblockBuf)) u\<rparr>)"
     "PoolAvailable (st_metadata (te_block_storage held_env)) sm1 = 2"
    using dirty(2) by (simp add: fs_sb_Write_def modify_def target_SuperblockManager_Write_def Let_def
        s_def MutableInfo_def UpdateChecksum_def PoolAvailable_def
    PoolTotal_def PoolUsed_def held_env_def access_Blocks_def)
  define s2 where "s2 = s\<lparr>tg_sm := sm1, tg_rest := on_tx (target_EnqueueMetadata held_env (write_op 0
      kSuperblockStart 1, SuperblockBuf)) u\<rparr>"
  have s2: "tp_blocks (tg_rest s2) = tp_blocks u" "tp_journal (tg_rest s2) = []" "tp_enabled (tg_rest s2)"
    "tg_journal s2" "tg_sm s2 = sm1"
    "tp_tx (tg_rest s2) = Some (target_EnqueueMetadata held_env (write_op 0 kSuperblockStart 1,
        SuperblockBuf) t)"
    using u by (simp_all add: s2_def s_def on_tx_def held_start_def)
  obtain u3 e where j: "tx_journal_commit held_env (tg_rest s2) = Some (Ok (), u3)"
    and u3: "tp_blocks u3 = tp_blocks u" "tp_journal u3 = [e]" "tp_enabled u3"
      "map_option tt_block_reservation (tp_tx u3) = Some (Some \<lparr>rs_reserved = 0, rs_allocations = Some
          0, rs_deallocations = None\<rparr>)"
    using u s2 by (simp add: tx_journal_commit_def RemoveDataOperations_def RemoveMetadataOperations_def
        RemovePinnedVnodes_def
      TakePendingDeallocations_def held_rs_def target_EnqueueMetadata_def Let_def)
  obtain t3 where t3: "tp_tx u3 = Some t3" "tt_block_reservation t3 = Some \<lparr>rs_reserved = 0,
      rs_allocations = Some 0, rs_deallocations = None\<rparr>"
    using u3(4) by auto
  define s4 where "s4 = s2\<lparr>tg_rest := u3, tg_tree := UpdateSpaceUsage (fs_Info (s2\<lparr>tg_rest := u3\<rparr>))
    (fv_blocks_reserved (tx_fs_env held_env held_fs_env) u3) (tg_tree s2), tg_rest :=
        target_Transaction_Destroy held_env u3\<rparr>"
  have dirty_s: "sm_dirty (tg_sm s)" using dirty(1) by (simp add: s_def)
  have dispatcher: "\<not> fv_dispatcher (tx_fs_env held_env held_fs_env)" by (simp add: tx_fs_env_def
      held_fs_env_def)
  have "target_CommitTransaction (tx_fs_env held_env held_fs_env) held_given = Some (Ok (), s4)"
    unfolding target_CommitTransaction_def abind_Some(1) [where m = "on_pools (fv_commit_pools
        (tx_fs_env held_env held_fs_env))", OF 1]
    using w(1) [folded s2_def] dirty_s s2(4) dispatcher
    by (simp add: abind_def gets_def try_act_def on_rest_fs_def assert_act_def j post_sync_task_def
        modify_def s4_def
      del: modify_bind gets_bind assert_bind)
  moreover have "tp_blocks (target_Transaction_Destroy held_env u3) = held_after"
    "tp_enabled (target_Transaction_Destroy held_env u3)"
    using t3 u3 u(1) by (simp_all add: target_Transaction_Destroy_def Let_def split_beta held_destroyed)
  ultimately show ?thesis using u3 s2 w(2) by (intro exI [of _ s4] exI [of _ e]) (simp add: s4_def)
qed

lemma held_begin:
  assumes "tp_tx (tg_rest s) = None" "tp_blocks (tg_rest s) = held_after" "tg_journal s" "tp_enabled
      (tg_rest s)"
    "PoolAvailable (st_metadata (te_block_storage held_env)) (tg_sm s) = 2"
  shows "\<exists>s'. target_BeginTransaction (tx_fs_env held_env held_fs_env) 0 1 s = Some (Ok (), s')
    \<and> tp_journal (tg_rest s') = tp_journal (tg_rest s) \<and> tp_blocks (tg_rest s') = held_after\<lparr>al_reserved := 1\<rparr>
    \<and> block_reservation (tg_rest s') = Some (empty_reservation\<lparr>rs_reserved := 1\<rparr>)"
proof -
  have "target_GetAvailableLocked list_rle 2 held_after = 1"
    by (simp add: target_GetAvailableLocked_def held_after_def held_al_def held_changes_def pending_changes_def
        GetReservedCount_def list_rle_def u64_sub_def width_simps)
  then have e: "target_ExtendBlockReservation held_env 1 (tg_sm s, (tg_rest s)\<lparr>tp_tx := Some
      (target_new_transaction None)\<rparr>)
      = Some (Ok (), tg_sm s, (tg_rest s)\<lparr>tp_tx := Some ((target_new_transaction
          None)\<lparr>tt_block_reservation := Some (empty_reservation\<lparr>rs_reserved := 1\<rparr>)\<rparr>),
         tp_blocks := held_after\<lparr>al_reserved := 1\<rparr>\<rparr>)"
    using assms by (simp add: target_ExtendBlockReservation_def on_tx_reservation_def tx_block_pool_def
        ExtendReservation_def
        tx_pool_reserve_def Allocator_Reserve_def on_tx_def target_new_transaction_def
            empty_reservation_def held_after_def held_al_def width_simps)
  show ?thesis
    using assms(3,4) by (simp add: target_BeginTransaction_def target_Transaction_Create_def
        tx_fs_env_enabled try_act_def on_pools_def
      report_error_def lift_res_def ret_def modify_def or_destroyed_def e e [unfolded One_nat_def]
          abind_def gets_def block_reservation_def
      del: gets_bind modify_bind)
qed


lemma held_next: "FindLocked list_bitmap list_rle (held_after\<lparr>al_reserved := 1, al_pending := [1, 2],
    al_changes := (al_changes held_after)(2 \<mapsto> \<lparr>pc_allocation = True, pc_bitmap = index_empty,
        pc_committed = False\<rparr>),
    al_next_id := 3\<rparr>) = Some (Ok 3)"
  by (simp add: FindLocked_def find_locked_loop.simps FindNextUnreserved_def find_next_unreserved.simps
      pending_changes_def held_after_def held_al_def held_changes_def GetNextUnreserved_def list_rle_def Let_def
      eval_nat_numeral)

lemma held_allocates:
  assumes "tp_blocks u = held_after\<lparr>al_reserved := 1\<rparr>" "block_reservation u = Some
      (empty_reservation\<lparr>rs_reserved := 1\<rparr>)"
  shows "\<exists>x. target_AllocateBlock held_env (sm, u) = Some (Ok 3, x)"
proof -
  obtain t where t: "tp_tx u = Some t" "tt_block_reservation t = Some (empty_reservation\<lparr>rs_reserved := 1\<rparr>)"
    using assms(2) by (auto simp: block_reservation_def split: Option.bind_splits)
  have "GetPendingAllocations list_rle (held_after\<lparr>al_reserved := 1\<rparr>, empty_reservation)
      = (2, held_after\<lparr>al_reserved := 1, al_pending := [1, 2],
    al_changes := (al_changes held_after)(2 \<mapsto> \<lparr>pc_allocation = True, pc_bitmap = index_empty,
        pc_committed = False\<rparr>),
    al_next_id := 3\<rparr>, empty_reservation\<lparr>rs_allocations := Some 2\<rparr>)"
    by (simp add: GetPendingAllocations_def AddPendingChange_def held_after_def held_al_def list_rle_def
        empty_reservation_def)
  moreover have "empty_reservation\<lparr>rs_reserved := 0\<rparr> = empty_reservation" by (simp add: empty_reservation_def)
  ultimately show ?thesis using t assms(1) held_next
    by (simp add: target_AllocateBlock_def from_allocator_def on_tx_reservation_def tx_block_pool_def
        Reservation_Allocate_def
      Allocator_Allocate_def Let_def) (simp add: list_rle_def)
qed

lemma held_start_idle: "no_transactions (tg_rest held_start)"
  by (simp add: no_transactions_def held_start_def ex_al_def)

lemma held_opens: "tx_step held_env held_fs_env Client held_start held_open"
proof -
  have start: "tp_tx (tg_rest held_start) = None" "tg_journal held_start" "tp_enabled (tg_rest held_start)"
    by (simp_all add: held_start_def)
  show ?thesis using tx_step.begins [OF start(1) begin_nothing [OF start(2,3)]] by (simp add: held_open_def)
qed

section \<open>The properties\<close>

text \<open>C6: A block that a transaction of the device build gave back is not handed out again before the
  journal has committed this transaction. On a file system that ran any transactions, let a transaction
  that gave back the block \<open>b\<close> be committed and accepted by the journal. Then, after any operations of
  later transactions and callbacks of the journal, as long as the journal has neither committed this
  entry nor synchronised, neither an allocation nor a swap of a block yields \<open>b\<close>.\<close>

theorem freed_blocks_wait_for_journal:
  assumes laws: "raw_bitmap_laws (te_bitmap E)" "rle_bitmap_laws (te_ranges E)"
    and past: "no_transactions (tg_rest s0)" "tx_run E F es0 s0 s"
    and gives: "block_reservation (tg_rest s) = Some rs" "b \<in> res_gives (te_ranges E) (tp_blocks
        (tg_rest s)) rs"
    and commit: "target_CommitTransaction (tx_fs_env E F) s = Some (Ok (), s1)"
    and accepted: "tp_journal (tg_rest s1) \<noteq> tp_journal (tg_rest s)"
    and future: "tx_run E F es s1 s2" "Journal_committed (length (tp_journal (tg_rest s))) \<notin> set es"
      "Journal_synced \<notin> set es"
  shows "target_AllocateBlock E (tg_sm s2, tg_rest s2) \<noteq> Some (Ok b, x)
    \<and> SwapBlock E old_bno (tg_sm s2, tg_rest s2) \<noteq> Some (Ok b, x)"
proof -
  have "guards None (\<lambda>_. True) s"
    by (rule tx_run_guards [OF past(2) no_transactions_guard [OF past(1)]])
      (auto simp: stable_def split: tx_event.splits)
  then obtain did c where g: "guards (Some (did, c)) (holds (length (tp_journal (tg_rest s))) did) s1"
      "b \<in> blocked (te_ranges E) c"
    by (rule Commit_accepted [OF laws(2) _ gives commit accepted])
  have "guards (Some (did, c)) (holds (length (tp_journal (tg_rest s))) did) s2"
    by (rule tx_run_guards [OF future(1) g(1)]) (metis future(2,3) stable_holds)
  then show ?thesis using allocation_avoids [OF laws _ g(2)] by blast
qed

theorem freed_blocks_wait_for_journal_witness:
  "\<exists>s1 s2 x. target_CommitTransaction (tx_fs_env held_env held_fs_env) held_given = Some (Ok (), s1)
     \<and> 2 \<in> res_gives list_rle (tp_blocks (tg_rest held_given)) held_rs
     \<and> target_BeginTransaction (tx_fs_env held_env held_fs_env) 0 1 s1 = Some (Ok (), s2)
     \<and> target_AllocateBlock held_env (tg_sm s2, tg_rest s2) = Some (Ok 3, x)
     \<and> \<not> (\<exists>y. target_AllocateBlock held_env (tg_sm s2, tg_rest s2) = Some (Ok 2, y))"
proof -
  obtain s1 e where s1: "target_CommitTransaction (tx_fs_env held_env held_fs_env) held_given = Some (Ok
      (), s1)"
      "tp_journal (tg_rest s1) = [e]" "tp_tx (tg_rest s1) = None" "tp_blocks (tg_rest s1) = held_after"
      "tg_journal s1" "tp_enabled (tg_rest s1)"
      "PoolAvailable (st_metadata (te_block_storage held_env)) (tg_sm s1) = 2"
    using held_commit by blast
  obtain s2 where s2: "target_BeginTransaction (tx_fs_env held_env held_fs_env) 0 1 s1 = Some (Ok (), s2)"
      "tp_journal (tg_rest s2) = tp_journal (tg_rest s1)" "tp_blocks (tg_rest s2) =
          held_after\<lparr>al_reserved := 1\<rparr>"
      "block_reservation (tg_rest s2) = Some (empty_reservation\<lparr>rs_reserved := 1\<rparr>)"
    using held_begin [OF s1(3-7)] by blast
  have past: "tx_run held_env held_fs_env [Client, Client] held_start held_given"
    by (rule tx_run.goes_on [OF held_opens tx_run.goes_on [OF tx_step.deallocates_block [OF held_give]
        tx_run.rests]])
  have future: "tx_run held_env held_fs_env [Client] s1 s2"
    by (rule tx_run.goes_on [OF tx_step.begins [OF s1(3) s2(1,2)] tx_run.rests])
  have given: "block_reservation (tg_rest held_given) = Some held_rs"
      "tp_journal (tg_rest s1) \<noteq> tp_journal (tg_rest held_given)"
      "2 \<in> res_gives (te_ranges held_env) (tp_blocks (tg_rest held_given)) held_rs"
    by (simp_all add: held_given_def block_reservation_def held_tx_def s1(2) held_start_def
        res_gives_def frg_def
        freeing_def held_rs_def held_al_def held_changes_def list_rle_set)
  have laws: "raw_bitmap_laws (te_bitmap held_env)" "rle_bitmap_laws (te_ranges held_env)"
    by (simp_all add: list_bitmap_laws list_rle_laws)
  have "target_AllocateBlock held_env (tg_sm s2, tg_rest s2) \<noteq> Some (Ok 2, y)" for y
    using freed_blocks_wait_for_journal [OF laws held_start_idle past given(1,3) s1(1) given(2) future] by simp
  moreover obtain x where "target_AllocateBlock held_env (tg_sm s2, tg_rest s2) = Some (Ok 3, x)"
    using held_allocates [OF s2(3,4)] by blast
  ultimately show ?thesis using s1(1) s2(1) given(3) by auto
qed

text \<open>C7: The block allocator loses no pending change. After any transactions and callbacks of the
  journal, when no transaction is open, its pending changes are exactly the deallocations of the entries
  that the journal has not committed. Its destructor, which asserts that none is pending, aborts
  exactly when there is such an entry.\<close>

theorem no_change_is_lost:
  assumes "no_transactions (tg_rest s0)" "tx_run E F es s0 s" "tp_tx (tg_rest s) = None"
  shows "set (al_pending (tp_blocks (tg_rest s)))
      = {cid. \<exists>e \<in> set (tp_journal (tg_rest s)). je_deallocations e = Some cid}
    \<and> Allocator_Destroy (tp_blocks (tg_rest s))
      = (if list_ex (\<lambda>e. je_deallocations e \<noteq> None) (tp_journal (tg_rest s)) then Panic else Ok ())"
proof -
  let ?u = "tg_rest s"
  have "guards None (\<lambda>_. True) s"
    by (rule tx_run_guards [OF assms(2) no_transactions_guard [OF assms(1)]])
      (auto simp: stable_def split: tx_event.splits)
  then have "pool_guard None (tp_blocks ?u) None (map je_deallocations (tp_journal ?u))"
    using assms(3) by (simp add: guards_def tx_guard_def block_reservation_def)
  then have "set (al_pending (tp_blocks ?u)) = waiting (map je_deallocations (tp_journal ?u))"
    by (auto simp: pool_guard_def al_ids_def)
  also have "\<dots> = {cid. \<exists>e \<in> set (tp_journal ?u). je_deallocations e = Some cid}"
    by (force simp: waiting_def)
  finally have pending: "set (al_pending (tp_blocks ?u)) = \<dots>" .
  then have "al_pending (tp_blocks ?u) = [] \<longleftrightarrow> (\<forall>e \<in> set (tp_journal ?u). je_deallocations e = None)"
    by (auto simp flip: set_empty)
  then have "Allocator_Destroy (tp_blocks ?u)
      = (if list_ex (\<lambda>e. je_deallocations e \<noteq> None) (tp_journal ?u) then Panic else Ok ())"
    by (auto simp: Allocator_Destroy_def zx_assert_def list_ex_iff)
  with pending show ?thesis by blast
qed

theorem no_change_is_lost_witness:
  "\<exists>s1. target_CommitTransaction (tx_fs_env held_env held_fs_env) held_given = Some (Ok (), s1)
     \<and> set (al_pending (tp_blocks (tg_rest s1))) = {1}
     \<and> Allocator_Destroy (tp_blocks (tg_rest s1)) = Panic
     \<and> Allocator_Destroy (tp_blocks (commit_callback held_env 0 (tg_rest s1))) = Ok ()"
proof -
  obtain s1 e where s1: "target_CommitTransaction (tx_fs_env held_env held_fs_env) held_given = Some (Ok (), s1)"
      "tp_journal (tg_rest s1) = [e]" "tp_tx (tg_rest s1) = None" "tp_blocks (tg_rest s1) = held_after"
    using held_commit by blast
  have run: "tx_run held_env held_fs_env [Client, Client, Client] held_start s1"
    by (rule tx_run.goes_on [OF held_opens tx_run.goes_on [OF tx_step.deallocates_block [OF held_give]
        tx_run.goes_on [OF tx_step.commits [OF s1(1)] tx_run.rests]]])
  note lost = no_change_is_lost [OF held_start_idle run s1(3)]
  have pending: "set (al_pending (tp_blocks (tg_rest s1))) = {1}"
    by (simp add: s1(4) held_after_def held_al_def)
  then have e: "je_deallocations e = Some 1" using conjunct1 [OF lost] by (auto simp: s1(2))
  have "tx_run held_env held_fs_env [Client, Client, Client, Journal_committed 0] held_start
      (on_rest_state (commit_callback held_env 0) s1)"
    by (rule tx_run.goes_on [OF held_opens tx_run.goes_on [OF tx_step.deallocates_block [OF held_give]
        tx_run.goes_on [OF tx_step.commits [OF s1(1)]
        tx_run.goes_on [OF tx_step.journal_commits tx_run.rests]]]]) (simp add: s1(2))
  from no_change_is_lost [OF held_start_idle this]
  have "Allocator_Destroy (tp_blocks (commit_callback held_env 0 (tg_rest s1))) = Ok ()"
    using s1(2,3) by (simp add: callbacks_journal) (simp add: commit_callback_def Let_def release_deallocations_eq)
  moreover have "Allocator_Destroy (tp_blocks (tg_rest s1)) = Panic" using conjunct2 [OF lost] e by (simp add: s1(2))
  ultimately show ?thesis using s1(1) pending by blast
qed

end
