(* ===== verification/TargetSession.thy ===== *)
theory TargetSession
  imports TargetFs_Laws TargetJournal
begin

text \<open>
  The use of a mounted file system of the device build, between the start and the end of writing: any
  sequence of the steps of its transactions and of the callbacks of the journal (\<open>TargetJournal\<close>), of
  lookups and synchronisations. Every step leaves flags and revision of the superblock alone, so that the
  clean flag is a protocol over the whole session. The laws of \<open>TargetFs_Laws\<close> are proved here for the
  transactions of the code.
\<close>

section \<open>The superblock in the steps of a transaction\<close>

text \<open>The two pools reach the superblock through the accessors of their type.\<close>

definition pool_access_ok :: "persistent_storage \<Rightarrow> bool" where
  "pool_access_ok st \<longleftrightarrow>
    md_access (st_metadata st) = access_Blocks \<or> md_access (st_metadata st) = access_Inodes"

lemma header_MutableInfo:
  "(\<And>i. flags (f i) = flags i \<and> oldest_minor_version (f i) = oldest_minor_version i)
    \<Longrightarrow> header_of (MutableInfo f sm) = header_of sm"
  by (simp add: header_of_def MutableInfo_def)

lemma header_pool [simp]:
  assumes "pool_access_ok st"
  shows "header_of (PersistAllocate st n sm) = header_of sm" "header_of (PersistRelease st n sm) = header_of sm"
    "header_of (SetDataSlices (st_metadata st) n sm) = header_of sm"
    "header_of (SetPoolTotal (st_metadata st) n sm) = header_of sm"
  using assms
  by (auto simp: pool_access_ok_def PersistAllocate_def PersistRelease_def PoolAllocate_def PoolRelease_def
      SetDataSlices_def SetPoolTotal_def access_Blocks_def access_Inodes_def intro!: header_MutableInfo)

lemma header_Write:
  "SuperblockManager_Write crc enqueue b (sm, t) = (sm', t') \<Longrightarrow> header_of sm' = header_of sm"
  "target_SuperblockManager_Write crc enqueue b (sm, t) = (sm', t') \<Longrightarrow> header_of sm' = header_of sm"
  by (auto simp: SuperblockManager_Write_def target_SuperblockManager_Write_def Let_def header_of_def
      MutableInfo_def UpdateChecksum_def split: if_splits)

lemma header_Extend:
  assumes "pool_access_ok st"
    and "target_Extend crc V st enqueue grow_cb grow_map (sm, t, d, g, m) = (r, sm', t', d', g', m')"
  shows "header_of sm' = header_of sm"
  using assms(2)
  by (auto simp: target_Extend_def Let_def assms(1) split: if_splits res.splits option.splits prod.splits
      dest: header_Write)

definition heads :: "nat \<times> nat \<Rightarrow> superblock_manager \<times> 'u \<Rightarrow> bool" where
  "heads h s \<longleftrightarrow> header_of (fst s) = h"

lemma tx_pool_reserve_header:
  assumes "pool_access_ok (xp_storage P)" "tx_pool_reserve E P n (sm, u) = (r, sm', u')"
  shows "header_of sm' = header_of sm"
proof -
  obtain r1 al1 sm1 u1 where g: "tx_pool_grow E P (xp_get P u, sm, u) = (r1, al1, sm1, u1)"
    by (metis prod_cases4)
  have "header_of sm1 = header_of sm"
    using g header_Extend [OF assms(1)] by (auto simp: tx_pool_grow_def split: prod.splits)
  moreover have "sm' = sm1 \<or> sm' = sm"
    using assms(2) unfolding tx_pool_reserve_def Allocator_Reserve_def
    by (cases r1) (auto simp: g Let_def split: if_splits)
  ultimately show ?thesis by auto
qed

lemma keeps_heads_reservation:
  assumes "\<And>rs sm u r rs' sm' u'. f (rs, sm, u) = Some (r, rs', sm', u') \<Longrightarrow> header_of sm' = header_of sm"
  shows "keeps (heads h) (on_tx_reservation P f)"
  by (rule keepsI) (auto simp: on_tx_reservation_def heads_def dest: assms split: option.splits prod.splits)

lemma keeps_heads_from_allocator: "keeps (heads h) (from_allocator P f)"
  unfolding from_allocator_def
  by (rule keeps_heads_reservation) (auto split: option.splits res.splits prod.splits)

definition storages_ok :: "('b, 'r, 'd, 'k) tx_env \<Rightarrow> bool" where
  "storages_ok E \<longleftrightarrow> pool_access_ok (te_block_storage E) \<and> pool_access_ok (te_inode_storage E)"

lemma xp_storage_simps [simp]:
  "xp_storage (tx_block_pool E) = te_block_storage E" "xp_storage (tx_inode_pool E) = te_inode_storage E"
  by (simp_all add: tx_block_pool_def tx_inode_pool_def)

lemma keeps_heads_ExtendBlockReservation:
  assumes "storages_ok E"
  shows "keeps (heads h) (target_ExtendBlockReservation E n)"
  unfolding target_ExtendBlockReservation_def
  by (rule keeps_heads_reservation)
    (use assms in \<open>auto simp: ExtendReservation_def storages_ok_def split: prod.splits res.splits
       dest: tx_pool_reserve_header [rotated]\<close>)

lemma keeps_heads_Reserve_inodes:
  assumes "storages_ok E"
  shows "keeps (heads h) (target_Reserve_inodes E n)"
  unfolding target_Reserve_inodes_def
  by (rule keeps_heads_reservation)
    (use assms in \<open>auto simp: Reservation_Reserve_def storages_ok_def split: if_splits prod.splits res.splits
       dest: tx_pool_reserve_header [rotated]\<close>)

lemma keeps_heads_or_destroyed: "keeps (heads h) m \<Longrightarrow> keeps (heads h) (or_destroyed E m)"
  unfolding or_destroyed_def by (intro keeps_rules) (auto simp: heads_def)

lemma keeps_heads_Create:
  assumes "storages_ok E"
  shows "keeps (heads h) (target_Transaction_Create E i b)"
  unfolding target_Transaction_Create_def
  by (intro keeps_rules keeps_heads_or_destroyed keeps_heads_ExtendBlockReservation
      keeps_heads_Reserve_inodes assms) (auto simp: heads_def)

lemma Reservation_Commit_header:
  assumes "pool_access_ok st" "Reservation_Commit B R st enqueue (al, rs, sm, t) = Ok (al', rs', sm', t')"
  shows "header_of sm' = header_of sm"
proof -
  obtain aid al1 rs1 where g: "GetPendingAllocations R (al, rs) = (aid, al1, rs1)" by (metis prod_cases3)
  obtain did al2 rs2 where d: "GetPendingDeallocations R (al1, rs1) = (did, al2, rs2)" by (metis prod_cases3)
  show ?thesis
    using assms(2)
    by (auto simp: Reservation_Commit_def Allocator_Commit_def g d Let_def assms(1) split: if_splits prod.splits)
qed

lemma keeps_heads_commit:
  assumes "storages_ok E"
  shows "keeps (heads h) (tx_commit_pools E)"
proof -
  have "keeps (heads h) (tx_commit_pool E P)" if "pool_access_ok (xp_storage P)" for P
  proof (rule keepsI, clarify)
    fix sm u r sm' u'
    assume h: "heads h (sm, u)" and run: "tx_commit_pool E P (sm, u) = Some (r, sm', u')"
    from run show "heads h (sm', u')"
    proof (cases rule: commit_pool_cases)
      case 1
      then show ?thesis using h run
        by (auto simp: tx_commit_pool_def split: option.splits res.splits)
    next
      case (2 t rs al rs' t')
      then show ?thesis using h Reservation_Commit_header [OF that 2(3)] by (simp add: heads_def)
    qed
  qed
  then show ?thesis using assms unfolding tx_commit_pools_def
    by (intro keeps_abind) (simp_all add: storages_ok_def)
qed

section \<open>What every step keeps\<close>

text \<open>The device, the journal object, the options of the mount, and flags and revision.\<close>

abbreviation in_session :: "bool \<times> bool \<times> mount_options \<times> nat \<times> nat \<Rightarrow> ('i, 'u) target_fs \<Rightarrow> bool" where
  "in_session v s \<equiv> session s = v"

lemma keeps_session_pools:
  assumes "\<And>h. keeps (heads h) m"
  shows "keeps (in_session v) (on_pools m)"
proof (rule keepsI)
  fix s r s' assume s: "session s = v" and run: "on_pools m s = Some (r, s')"
  then obtain sm u where m: "m (tg_sm s, tg_rest s) = Some (r, sm, u)" "s' = s\<lparr>tg_sm := sm, tg_rest := u\<rparr>"
    by (auto simp: on_pools_def split: option.splits)
  have "heads (header_of (tg_sm s)) (sm, u)" by (rule keepsD [OF assms _ m(1)]) (simp add: heads_def)
  then show "session s' = v" using s by (simp add: m(2) session_def heads_def)
qed

lemma keeps_session_rest: "keeps (in_session v) (on_rest_fs m)"
  by (rule keepsI) (auto simp: on_rest_fs_def session_def split: option.splits)

lemma keeps_session_tree: "keeps (in_session v) (on_tree f E)"
  unfolding on_tree_def by (rule keeps_modify) (simp add: session_def)

lemma keeps_session_Write: "keeps (in_session v) (fs_sb_Write E b)"
  unfolding fs_sb_Write_def
  by (rule keeps_modify) (auto simp: session_def split: prod.splits dest: header_Write)

lemma keeps_session_sync: "keeps (in_session v) (BlockingJournalSync E)"
  unfolding BlockingJournalSync_def by (intro keeps_rules keeps_session_rest)

lemma keeps_session_Begin:
  assumes "storages_ok E"
  shows "keeps (in_session v) (target_BeginTransaction (tx_fs_env E F) i b)"
  unfolding target_BeginTransaction_def report_error_def tx_fs_env_simps
  by (intro keeps_rules keeps_session_pools keeps_session_tree keeps_session_sync keeps_heads_Create assms)

lemma keeps_session_Commit:
  assumes "storages_ok E"
  shows "keeps (in_session v) (target_CommitTransaction (tx_fs_env E F))"
  unfolding target_CommitTransaction_def post_sync_task_def tx_fs_env_simps
  by (intro keeps_rules keeps_session_pools keeps_session_Write keeps_session_rest keeps_heads_commit assms)
    (simp_all add: session_def)

lemmas session_operations =
  keeps_session_pools [OF keeps_heads_from_allocator]
  keeps_session_pools [OF keeps_heads_ExtendBlockReservation]
  keeps_session_sync keeps_session_Begin keeps_session_Commit

lemma tx_step_session:
  assumes "storages_ok E" "tx_step E F e s s'"
  shows "session s' = session s"
  using assms(2)
proof (cases rule: tx_step.cases)
  case (begins i b r)
  then show ?thesis using keepsD [OF keeps_session_Begin [OF assms(1)]] by metis
next
  case (begins_after_sync i b r)
  then show ?thesis using keepsD [OF keeps_session_Begin [OF assms(1)]] by metis
next
  case (allocates_block r)
  from allocates_block(2) show ?thesis unfolding target_AllocateBlock_def by (rule keepsD [OF session_operations(1) refl])
next
  case (deallocates_block b r)
  from deallocates_block(2) show ?thesis unfolding target_DeallocateBlock_def by (rule keepsD [OF session_operations(1) refl])
next
  case (swaps_block b r)
  from swaps_block(2) show ?thesis unfolding SwapBlock_def by (rule keepsD [OF session_operations(1) refl])
next
  case (extends_reservation b r)
  from extends_reservation(2) show ?thesis by (rule keepsD [OF session_operations(2) [OF assms(1)] refl])
next
  case (allocates_inode r)
  from allocates_inode(2) show ?thesis unfolding target_AllocateInode_def by (rule keepsD [OF session_operations(1) refl])
next
  case (frees_inode i r)
  from frees_inode(2) show ?thesis unfolding target_InodeManager_Free_def by (rule keepsD [OF session_operations(1) refl])
next
  case (commits r)
  from commits(2) show ?thesis by (rule keepsD [OF session_operations(5) [OF assms(1)] refl])
next
  case (journal_syncs r)
  from journal_syncs(2) show ?thesis by (rule keepsD [OF session_operations(3) refl])
qed (simp_all add: session_def)

section \<open>The transactions of the code\<close>

text \<open>
  The answers of the journal library and of the device: they come back, and an entry of the two copies
  of the superblock fits into the journal.
\<close>

definition journal_answers ::
  "('b, 'r, 'd, 'k) tx_env \<Rightarrow> ('i, ('b, 'r, 'd, 'k) tx_state) fs_env \<Rightarrow> bool" where
  "journal_answers E F \<longleftrightarrow>
    (\<forall>e js. te_commit_status E e js \<noteq> Panic) \<and> (\<forall>js. te_sync_status E js \<noteq> Panic)
    \<and> (\<forall>qs. length qs \<le> 2 \<and> (\<forall>q \<in> set qs. op_length (fst q) = 1)
        \<longrightarrow> te_block_count E (fold (te_add E) qs []) \<le> te_max_entry_blocks E)
    \<and> (\<forall>u. \<exists>r u'. fv_bcache_sync F u = Some (r, u') \<and> r \<noteq> Panic)"

text \<open>A reservation whose changes, if it has any, are empty.\<close>

definition idle_rs :: "('r, 'z) rle_bitmap_scheme \<Rightarrow> ('b, 'r) allocator \<Rightarrow> reservation \<Rightarrow> bool" where
  "idle_rs R al rs \<longleftrightarrow>
    (\<forall>cid \<in> rs_ids rs. \<exists>c. al_changes al cid = Some c \<and> \<not> pc_committed c \<and> item_count R c = 0)"

definition idle_tx :: "('b, 'r, 'd, 'k) tx_env \<Rightarrow> nat \<Rightarrow> ('b, 'r, 'd, 'k) tx_state \<Rightarrow> bool" where
  "idle_tx E k u \<longleftrightarrow>
    (\<exists>t rs qs. tp_tx u = Some t \<and> tt_block_reservation t = Some rs \<and> idle_rs (te_ranges E) (tp_blocks u) rs
      \<and> idle_rs (te_ranges E) (is_allocator (tp_inodes u)) (tt_inode_reservation t)
      \<and> tt_metadata_operations t = fold (te_add E) qs [] \<and> length qs = k
      \<and> (\<forall>q \<in> set qs. op_length (fst q) = 1))"

lemma idle_Commit:
  assumes laws: "rle_bitmap_laws R" and idle: "idle_rs R al rs"
  obtains al' rs' where "Reservation_Commit B R st enqueue (al, rs, sm, t) = Ok (al', rs', sm, t)"
    "idle_rs R al' rs'"
proof -
  obtain aid al1 rs1 where g: "GetPendingAllocations R (al, rs) = (aid, al1, rs1)" by (metis prod_cases3)
  obtain did al2 rs2 where d: "GetPendingDeallocations R (al1, rs1) = (did, al2, rs2)" by (metis prod_cases3)
  have new: "item_count R \<lparr>pc_allocation = b, pc_bitmap = rle_empty R, pc_committed = False\<rparr> = 0" for b
    using rle_num_bits_card [OF laws] rle_empty_set [OF laws] by (simp add: item_count_def)
  have 1: "idle_rs R al1 rs1 \<and> aid \<in> rs_ids rs1"
    using g idle new
    by (auto simp: GetPendingAllocations_def AddPendingChange_def idle_rs_def rs_ids_def
        split: option.splits prod.splits)
  have 2: "idle_rs R al2 rs2 \<and> did \<in> rs_ids rs2 \<and> aid \<in> rs_ids rs2"
    using d 1 new
    by (auto simp: GetPendingDeallocations_def AddPendingChange_def idle_rs_def rs_ids_def
        split: option.splits prod.splits)
  then obtain a c where "al_changes al2 aid = Some a" "\<not> pc_committed a" "item_count R a = 0"
      "al_changes al2 did = Some c" "\<not> pc_committed c" "item_count R c = 0"
    unfolding idle_rs_def by blast
  then have "Reservation_Commit B R st enqueue (al, rs, sm, t) = Ok (al2, rs2, sm, t)"
    by (simp add: Reservation_Commit_def Allocator_Commit_def g d)
  then show ?thesis using that 2 by blast
qed

lemma idle_commit_pools:
  assumes laws: "rle_bitmap_laws (te_ranges E)" and idle: "idle_tx E k u"
  shows "\<exists>u'. tx_commit_pools E (sm, u) = Some (Ok (), sm, u') \<and> idle_tx E k u'"
proof -
  obtain t rs qs where t: "tp_tx u = Some t" "tt_block_reservation t = Some rs"
      "idle_rs (te_ranges E) (tp_blocks u) rs"
      "idle_rs (te_ranges E) (is_allocator (tp_inodes u)) (tt_inode_reservation t)"
      "tt_metadata_operations t = fold (te_add E) qs []" "length qs = k" "\<forall>q \<in> set qs. op_length (fst q) = 1"
    using idle unfolding idle_tx_def by blast
  obtain ial irs where i: "Reservation_Commit (te_bitmap E) (te_ranges E) (te_inode_storage E)
      (target_EnqueueMetadata E) (is_allocator (tp_inodes u), tt_inode_reservation t, sm, t) = Ok (ial, irs, sm, t)"
      "idle_rs (te_ranges E) ial irs"
    by (rule idle_Commit [OF laws t(4)])
  let ?t1 = "t\<lparr>tt_inode_reservation := irs\<rparr>"
  let ?u1 = "u\<lparr>tp_inodes := (tp_inodes u)\<lparr>is_allocator := ial\<rparr>, tp_tx := Some ?t1\<rparr>"
  have 1: "tx_commit_pool E (tx_inode_pool E) (sm, u) = Some (Ok (), sm, ?u1)"
    by (simp add: tx_commit_pool_def t(1) tx_inode_pool_def i(1))
  obtain bal brs where b: "Reservation_Commit (te_bitmap E) (te_ranges E) (te_block_storage E)
      (target_EnqueueMetadata E) (tp_blocks u, rs, sm, ?t1) = Ok (bal, brs, sm, ?t1)"
      "idle_rs (te_ranges E) bal brs"
    by (rule idle_Commit [OF laws t(3)])
  let ?u2 = "?u1\<lparr>tp_blocks := bal, tp_tx := Some (?t1\<lparr>tt_block_reservation := Some brs\<rparr>)\<rparr>"
  have 2: "tx_commit_pool E (tx_block_pool E) (sm, ?u1) = Some (Ok (), sm, ?u2)"
    by (simp add: tx_commit_pool_def tx_block_pool_def t(2) b(1))
  have "tx_commit_pools E (sm, u) = Some (Ok (), sm, ?u2)"
    unfolding tx_commit_pools_def abind_Some(1) [where m = "tx_commit_pool E (tx_inode_pool E)", OF 1] by (rule 2)
  moreover have "idle_tx E k ?u2"
    unfolding idle_tx_def
    by (intro exI [of _ "?t1\<lparr>tt_block_reservation := Some brs\<rparr>"] exI [of _ brs] exI [of _ qs])
      (use t(5-7) i(2) b(2) in simp)
  ultimately show ?thesis by blast
qed

lemma idle_journal_commit:
  assumes "journal_answers E F" "k \<le> 2" "idle_tx E k u"
  shows "\<exists>r u'. tx_journal_commit E u = Some (r, u') \<and> r \<noteq> Panic"
proof -
  obtain t rs where t: "tp_tx u = Some t" "tt_block_reservation t = Some rs"
      "te_block_count E (tt_metadata_operations t) \<le> te_max_entry_blocks E"
    using assms unfolding idle_tx_def journal_answers_def by metis
  then show ?thesis using assms(1)
    by (simp add: tx_journal_commit_def RemoveDataOperations_def RemoveMetadataOperations_def Let_def
        RemovePinnedVnodes_def TakePendingDeallocations_def journal_answers_def)
qed

text \<open>The transactions of the code follow the laws that the update of the clean flag needs.\<close>

lemma tx_session_laws:
  assumes laws: "rle_bitmap_laws (te_ranges E)" and answers: "journal_answers E F"
  shows "session_laws (tx_fs_env E F) (idle_tx E)"
  unfolding session_laws_def tx_fs_env_simps
proof (intro conjI allI impI; (elim conjE)?)
  fix sm u
  show "\<exists>u'. target_Transaction_Create E 0 0 (sm, u) = Some (Ok (), sm, u') \<and> idle_tx E 0 u'"
    by (auto simp: target_Transaction_Create_def ret_def modify_def idle_tx_def target_new_transaction_def
        idle_rs_def)
next
  fix k and q :: queued and u
  assume u: "idle_tx E k u" and q: "op_length (fst q) = 1"
  obtain t rs qs where t: "tp_tx u = Some t" "tt_block_reservation t = Some rs"
      "idle_rs (te_ranges E) (tp_blocks u) rs"
      "idle_rs (te_ranges E) (is_allocator (tp_inodes u)) (tt_inode_reservation t)"
      "tt_metadata_operations t = fold (te_add E) qs []" "length qs = k" "\<forall>q \<in> set qs. op_length (fst q) = 1"
    using u unfolding idle_tx_def by blast
  show "idle_tx E (k + 1) (on_tx (target_EnqueueMetadata E q) u)"
    unfolding idle_tx_def
    by (intro exI [of _ "target_EnqueueMetadata E q t"] exI [of _ rs] exI [of _ "qs @ [q]"])
      (use t q in \<open>auto simp: on_tx_def target_EnqueueMetadata_def\<close>)
next
  fix k sm u assume "idle_tx E k u"
  then show "\<exists>u'. tx_commit_pools E (sm, u) = Some (Ok (), sm, u') \<and> idle_tx E k u'"
    by (rule idle_commit_pools [OF laws])
next
  fix k :: nat and u assume "k \<le> 2" "idle_tx E k u"
  then show "\<exists>r u'. tx_journal_commit E u = Some (r, u') \<and> r \<noteq> Panic"
    by (rule idle_journal_commit [OF answers])
next
  fix u show "\<exists>r u'. tx_journal_sync E u = Some (r, u') \<and> r \<noteq> Panic"
    using answers by (simp add: tx_journal_sync_def journal_answers_def)
next
  fix u show "\<exists>r u'. fv_bcache_sync (tx_fs_env E F) u = Some (r, u') \<and> r \<noteq> Panic"
    using answers by (simp add: tx_fs_env_def journal_answers_def)
qed

section \<open>The steps of a session\<close>

text \<open>
  Transactions and callbacks of the journal; a lookup in the table of vnodes; the list of unlinked
  files, whose ends are in the superblock; a synchronisation, whose flushes of vnodes are transactions
  of their own, and the start of its task; a failure that makes the journal refuse transactions.
\<close>

inductive use_step ::
  "('b, 'r, 'd, 'k) tx_env \<Rightarrow> ('i, ('b, 'r, 'd, 'k) tx_state) fs_env
    \<Rightarrow> ('i, ('b, 'r, 'd, 'k) tx_state) target_fs \<Rightarrow> ('i, ('b, 'r, 'd, 'k) tx_state) target_fs \<Rightarrow> bool"
  for E F where
  transacts: "tx_step E F e s s' \<Longrightarrow> use_step E F s s'"
| looks_up: "target_VnodeLookupInternal (tx_fs_env E F) ino s = Some (r, s') \<Longrightarrow> use_step E F s s'"
| links_unlinked: "use_step E F s (s\<lparr>tg_sm :=
    MutableInfo (\<lambda>i. i\<lparr>unlinked_head := h, unlinked_tail := t\<rparr>) (tg_sm s)\<rparr>)"
| synchronises: "GetDirtyVnodes (tx_fs_env E F) s = [] \<Longrightarrow> Minfs_Sync (tx_fs_env E F) s = Some (r', s')
    \<Longrightarrow> use_step E F s s'"
| task_starts: "use_step E F s (s\<lparr>tg_sync_pending := False\<rparr>)"
| journal_fails: "use_step E F s (on_rest_state (\<lambda>u. u\<lparr>tp_enabled := False\<rparr>) s)"

abbreviation use_steps where "use_steps E F \<equiv> (use_step E F)\<^sup>*\<^sup>*"

lemma use_step_session:
  assumes "storages_ok E" "use_step E F s s'"
  shows "session s' = session s"
  using assms(2)
proof (cases rule: use_step.cases)
  case (transacts e)
  then show ?thesis using tx_step_session [OF assms(1)] by blast
next
  case (looks_up ino r)
  then show ?thesis by (auto simp: target_VnodeLookupInternal_def session_def split: option.splits if_splits)
next
  case (links_unlinked h t)
  then show ?thesis by (simp add: session_def header_of_def MutableInfo_def)
next
  case (synchronises r)
  have "keeps (in_session (session s)) (abind (flush_each (tx_fs_env E F) []) (\<lambda>_. EnqueueCallback (tx_fs_env E F)))"
    unfolding EnqueueCallback_def flush_each.simps by (intro keeps_rules keeps_session_sync)
  from keepsD [OF this refl] synchronises show ?thesis
    by (cases "tg_journal s") (simp_all add: Minfs_Sync_def)
qed (simp_all add: session_def)

lemma use_steps_session:
  assumes "storages_ok E" "use_steps E F s s'"
  shows "session s' = session s"
  using assms(2) by (induction rule: rtranclp_induct) (auto dest: use_step_session [OF assms(1)])

section \<open>What an update of the flag leaves to the next transaction\<close>

lemma tp_enabled_simps [simp]:
  "tp_enabled (on_tx f u) = tp_enabled u" "tp_enabled (target_Transaction_Destroy E u) = tp_enabled u"
  "tp_enabled (release_deallocations E x u) = tp_enabled u"
  by (auto simp: on_tx_def target_Transaction_Destroy_def release_deallocations_eq Let_def split_beta
      split: option.splits)

lemma release_all_enabled:
  "tp_enabled (fold (\<lambda>e. release_deallocations E (je_deallocations e)) js u) = tp_enabled u"
  by (induction js arbitrary: u) simp_all

lemma commit_pools_enabled:
  "tx_commit_pools E (sm, u) = Some (Ok (), sm', u') \<Longrightarrow> tp_enabled u' = tp_enabled u"
proof -
  assume "tx_commit_pools E (sm, u) = Some (Ok (), sm', u')"
  then obtain sm1 u1 where "tx_commit_pool E (tx_inode_pool E) (sm, u) = Some (Ok (), sm1, u1)"
      "tx_commit_pool E (tx_block_pool E) (sm1, u1) = Some (Ok (), sm', u')"
    unfolding tx_commit_pools_def by (elim abind_OkE) auto
  then show ?thesis
    by (elim commit_pool_cases) (auto simp: tx_inode_pool_def tx_block_pool_def)
qed

lemma journal_commit_enabled: "tx_journal_commit E u = Some (r, u') \<Longrightarrow> tp_enabled u' = tp_enabled u"
  by (auto elim!: journal_commit_cases split: if_splits)

lemma sb_Write_enabled:
  assumes "fs_sb_Write (tx_fs_env E F) b s = Some (r, s')"
  shows "tp_enabled (tg_rest s') = tp_enabled (tg_rest s)"
proof -
  obtain sm u where w: "target_SuperblockManager_Write (te_crc E) (\<lambda>q. on_tx (target_EnqueueMetadata E q)) b
      (tg_sm s, tg_rest s) = (sm, u)" by (metis prod.exhaust)
  have "tg_rest s' = u" using assms by (auto simp: fs_sb_Write_def modify_def w)
  moreover have "tp_enabled u = tp_enabled (tg_rest s)" by (rule superblock_Write_queues [OF w]) simp_all
  ultimately show ?thesis by simp
qed

lemma Commit_leaves:
  assumes "target_CommitTransaction (tx_fs_env E F) s = Some (Ok (), s')"
  shows "tp_tx (tg_rest s') = None \<and> tp_enabled (tg_rest s') = tp_enabled (tg_rest s)"
proof -
  let ?G = "tx_fs_env E F"
  let ?tail = "try_act (on_rest_fs (tx_journal_commit E)) (\<lambda>_.
      abind (modify (\<lambda>s. s\<lparr>tg_tree := UpdateSpaceUsage (fs_Info s)
         (fv_blocks_reserved ?G (tg_rest s)) (tg_tree s)\<rparr>)) (\<lambda>_.
      abind (post_sync_task ?G) (\<lambda>_.
      modify (\<lambda>s. s\<lparr>tg_rest := target_Transaction_Destroy E (tg_rest s)\<rparr>))))"
  obtain x s1 where 1: "on_pools (tx_commit_pools E) s = Some (Ok x, s1)"
    and run1: "abind (gets (\<lambda>s. sm_dirty (tg_sm s))) (\<lambda>dirty.
      abind (if dirty then fs_sb_Write ?G False else ret ()) (\<lambda>_.
      abind (gets tg_journal) (\<lambda>journal. abind (assert_act journal) (\<lambda>_. ?tail)))) s1 = Some (Ok (), s')"
    using assms unfolding target_CommitTransaction_def tx_fs_env_simps by (erule abind_OkE)
  obtain y s2 where 2: "(if sm_dirty (tg_sm s1) then fs_sb_Write ?G False else ret ()) s1 = Some (Ok y, s2)"
    and run2: "abind (gets tg_journal) (\<lambda>journal. abind (assert_act journal) (\<lambda>_. ?tail)) s2 = Some (Ok (), s')"
    using run1 unfolding gets_bind by (erule abind_OkE)
  have rest: "?tail s2 = Some (Ok (), s')" using run2 by (cases "tg_journal s2") simp_all
  have "tp_enabled (tg_rest s1) = tp_enabled (tg_rest s)"
    using 1 by (auto simp: on_pools_def dest: commit_pools_enabled split: option.splits)
  moreover have "tp_enabled (tg_rest s2) = tp_enabled (tg_rest s1)"
    using 2 by (cases "sm_dirty (tg_sm s1)") (auto dest: sb_Write_enabled)
  moreover obtain r u where j: "tx_journal_commit E (tg_rest s2) = Some (r, u)"
    using rest by (auto simp: try_act_def on_rest_fs_def split: option.splits)
  then have "tp_tx (tg_rest s') = None \<and> tp_enabled (tg_rest s') = tp_enabled (tg_rest s2)"
    using rest journal_commit_enabled [OF j]
    by (cases r) (auto simp: try_act_def on_rest_fs_def post_sync_task_def modify_def split: if_splits)
  ultimately show ?thesis by simp
qed

lemma sync_leaves:
  assumes "BlockingJournalSync (tx_fs_env E F) s = Some (Ok (), s')"
  shows "tp_tx (tg_rest s') = tp_tx (tg_rest s)" "tp_enabled (tg_rest s') = tp_enabled (tg_rest s)"
  using assms
  by (auto simp: BlockingJournalSync_def on_rest_fs_def tx_journal_sync_def release_all_tx release_all_enabled
      assert_act_def split: option.splits if_splits)

lemma UpdateClean_leaves:
  assumes "UpdateCleanBitAndOldestRevision (tx_fs_env E F) c s = Some (Ok (), s')"
  shows "tp_tx (tg_rest s') = None" "tp_enabled (tg_rest s') = tp_enabled (tg_rest s)"
proof -
  let ?G = "tx_fs_env E F"
  obtain x s1 where 1: "target_BeginTransaction ?G 0 0 s = Some (Ok x, s1)"
    and run1: "abind (gets (\<lambda>s. oldest_minor_version (fs_Info s))) (\<lambda>oldest.
    abind (if kMinfsCurrentMinorVersion < oldest
           then modify (\<lambda>s. s\<lparr>tg_sm :=
                  MutableInfo (\<lambda>i. i\<lparr>oldest_minor_version := kMinfsCurrentMinorVersion\<rparr>) (tg_sm s)\<rparr>)
           else ret ()) (\<lambda>_.
    abind (target_UpdateFlags ?G kMinfsFlagClean c) (\<lambda>_.
    abind (target_CommitTransaction ?G) (\<lambda>_. BlockingJournalSync ?G)))) s1 = Some (Ok (), s')"
    using assms unfolding UpdateCleanBitAndOldestRevision_def by (erule abind_OkE)
  obtain z s2 where old: "(if kMinfsCurrentMinorVersion < oldest_minor_version (fs_Info s1)
           then modify (\<lambda>s. s\<lparr>tg_sm :=
                  MutableInfo (\<lambda>i. i\<lparr>oldest_minor_version := kMinfsCurrentMinorVersion\<rparr>) (tg_sm s)\<rparr>)
           else ret ()) s1 = Some (Ok z, s2)"
    and run2: "abind (target_UpdateFlags ?G kMinfsFlagClean c) (\<lambda>_.
      abind (target_CommitTransaction ?G) (\<lambda>_. BlockingJournalSync ?G)) s2 = Some (Ok (), s')"
    using run1 unfolding gets_bind by (erule abind_OkE)
  obtain y s3 where up: "target_UpdateFlags ?G kMinfsFlagClean c s2 = Some (Ok y, s3)"
    and run3: "abind (target_CommitTransaction ?G) (\<lambda>_. BlockingJournalSync ?G) s3 = Some (Ok (), s')"
    using run2 by (erule abind_OkE)
  have 2: "tg_rest s2 = tg_rest s1" "target_UpdateFlags ?G kMinfsFlagClean c s2 = Some (Ok y, s3)"
    using old up by (auto simp: modify_def split: if_splits)
  obtain s4 where 3: "target_CommitTransaction ?G s3 = Some (Ok (), s4)" "BlockingJournalSync ?G s4 = Some (Ok (), s')"
    using run3 by (elim abind_OkE) auto
  have "tg_journal s \<and> tp_enabled (tg_rest s)"
    using 1 by (auto simp: target_BeginTransaction_def tx_fs_env_enabled split: if_splits)
  then have "tp_enabled (tg_rest s1) = tp_enabled (tg_rest s)" using 1 by (auto simp: begin_nothing)
  moreover have "tp_enabled (tg_rest s3) = tp_enabled (tg_rest s2)"
    using 2(2) by (auto simp: target_UpdateFlags_def modify_def dest: sb_Write_enabled)
  ultimately show "tp_tx (tg_rest s') = None" "tp_enabled (tg_rest s') = tp_enabled (tg_rest s)"
    using 2(1) Commit_leaves [OF 3(1)] sync_leaves [OF 3(2)] by simp_all
qed

section \<open>The protocol\<close>

text \<open>C40: The clean flag is a protocol, over the transactions of the code itself. After the update that
  clears it at the start of writing, the flag is clear and the journal runs in every state that
  any sequence of steps of transactions (also refused, failed or abandoned ones, and those that grow a
  pool), callbacks and failures of the journal, lookups and synchronisations reaches. When no
  transaction is open, the end of the mount succeeds, and it sets the flag exactly when the journal
  still takes transactions, so a file system whose journal failed stays marked unclean. Of code that is
  not here it needs that the journal library and the device return, that an entry of two blocks fits the
  journal, and the laws of the range bitmap.\<close>

theorem clean_flag_protocol:
  assumes ranges: "rle_bitmap_laws (te_ranges E)" and storages: "storages_ok E" and answers: "journal_answers E F"
    and mount: "tg_bcache s" "mo_writability (tg_options s) = Writable"
    and start: "UpdateCleanBitAndOldestRevision (tx_fs_env E F) False s = Some (Ok (), s0)"
    and use: "use_steps E F s0 s1"
  shows "flags (fs_Info s1) AND kMinfsFlagClean = 0 \<and> tg_journal s1
    \<and> (tp_tx (tg_rest s1) = None \<longrightarrow>
        (\<exists>s2. Minfs_Destroy (tx_fs_env E F) s1 = Some (Ok (), s2) \<and> \<not> tg_journal s2 \<and> \<not> tg_bcache s2
          \<and> (flags (fs_Info s2) AND kMinfsFlagClean \<noteq> 0 \<longleftrightarrow> tp_enabled (tg_rest s1))))"
proof -
  note laws = tx_session_laws [OF ranges answers]
  let ?h = "with_clean False (header_of (tg_sm s))"
  obtain r t where t: "UpdateCleanBitAndOldestRevision (tx_fs_env E F) False s = Some (r, t)"
      "if tx_granted (tx_fs_env E F) s then session t = (tg_bcache s, tg_journal s, tg_options s, ?h) \<and> \<not> sm_dirty (tg_sm t)
       else session t = session s \<and> \<not> is_ok r"
    using UpdateClean_runs [OF laws, of False s] by blast
  have "session s0 = (True, True, tg_options s, ?h)"
    using t start mount(1) by (auto simp: tx_granted_def split: if_splits)
  then have s1: "session s1 = (True, True, tg_options s, ?h)" using use_steps_session [OF storages use] by simp
  then have "fst (header_of (tg_sm s1)) = fst ?h" by (simp add: session_def)
  then have unclean: "flags (fs_Info s1) AND kMinfsFlagClean = 0"
    using with_clean_flag [of False "header_of (tg_sm s)"] by (simp add: header_of_def fs_Info_def)
  have live: "tg_bcache s1" "tg_journal s1" "mo_writability (tg_options s1) = Writable"
    using s1 mount(2) by (simp_all add: session_def)
  obtain s2 where s2: "Minfs_Destroy (tx_fs_env E F) s1 = Some (Ok (), s2)"
      "session s2 = (False, False, tg_options s1, if tp_enabled (tg_rest s1)
         then with_clean True (header_of (tg_sm s1)) else header_of (tg_sm s1))"
    by (rule Destroy_runs [OF laws live(1)]) (use live in \<open>simp add: tx_granted_def tx_fs_env_enabled\<close>)
  then have "flags (fs_Info s2) AND kMinfsFlagClean \<noteq> 0 \<longleftrightarrow> tp_enabled (tg_rest s1)"
    using unclean with_clean_flag [of True "header_of (tg_sm s1)"]
    by (auto simp: session_def header_of_def fs_Info_def prod_eq_iff split: if_splits)
  moreover have "\<not> tg_journal s2" "\<not> tg_bcache s2" using s2(2) by (simp_all add: session_def)
  ultimately show ?thesis using unclean live(2) s2(1) by blast
qed

lemma length_appends: "length (fold (\<lambda>q qs. qs @ [q]) qs out) = length out + length qs"
  by (induction qs arbitrary: out) simp_all

lemma held_laws:
  "rle_bitmap_laws (te_ranges held_env)" "storages_ok held_env" "journal_answers held_env held_fs_env"
  by (simp_all add: list_rle_laws storages_ok_def pool_access_ok_def journal_answers_def)
    (simp_all add: held_env_def held_fs_env_def ex_storage_def ret_def length_appends)

theorem clean_flag_protocol_witness:
  "\<exists>s0 s1 s2. UpdateCleanBitAndOldestRevision (tx_fs_env held_env held_fs_env) False held_start = Some (Ok (), s0)
     \<and> use_steps held_env held_fs_env s0 s1 \<and> flags (fs_Info s1) AND kMinfsFlagClean = 0
     \<and> Minfs_Destroy (tx_fs_env held_env held_fs_env) s1 = Some (Ok (), s2)
     \<and> flags (fs_Info s2) AND kMinfsFlagClean \<noteq> 0"
proof -
  let ?G = "tx_fs_env held_env held_fs_env"
  have mount: "tg_bcache held_start" "mo_writability (tg_options held_start) = Writable"
      "tg_journal held_start" "tp_enabled (tg_rest held_start)"
    by (simp_all add: held_start_def default_mount_options_def)
  have sync: "\<exists>u'. fv_journal_sync ?G u = Some (Ok (), u')" for u
    by (simp add: tx_journal_sync_def) (simp add: held_env_def)
  have "tx_granted ?G held_start" using mount by (simp add: tx_granted_def tx_fs_env_enabled)
  then obtain s0 where s0: "UpdateCleanBitAndOldestRevision ?G False held_start = Some (Ok (), s0)"
    using UpdateClean_runs [OF tx_session_laws [OF held_laws(1,3)], of False held_start] sync by blast
  note protocol = clean_flag_protocol [OF held_laws mount(1,2) s0]
  note left = UpdateClean_leaves [OF s0]
  let ?open = "on_rest_state (\<lambda>u. u\<lparr>tp_tx := Some (target_new_transaction None)\<rparr>) s0"
  let ?s1 = "on_rest_state (target_Transaction_Destroy held_env) ?open"
  have "tg_journal s0" using protocol [of s0] by blast
  moreover have "tp_enabled (tg_rest s0)" using left(2) mount(4) by simp
  ultimately have "target_BeginTransaction ?G 0 0 s0 = Some (Ok (), ?open)" by (rule begin_nothing)
  from use_step.transacts [OF tx_step.begins [OF left(1) this]]
  have "use_step held_env held_fs_env s0 ?open" by simp
  moreover have "use_step held_env held_fs_env ?open ?s1" by (rule use_step.transacts [OF tx_step.abandons])
  ultimately have steps: "use_steps held_env held_fs_env s0 ?s1" by (rule converse_rtranclp_into_rtranclp [OF _ r_into_rtranclp])
  obtain s1 where s1: "use_steps held_env held_fs_env s0 s1" "tp_tx (tg_rest s1) = None" "tp_enabled (tg_rest s1)"
    using that [OF steps] left(2) mount(4) by simp
  note p = protocol [OF s1(1)]
  obtain s2 where s2: "Minfs_Destroy ?G s1 = Some (Ok (), s2)" "flags (fs_Info s2) AND kMinfsFlagClean \<noteq> 0"
    using mp [OF conjunct2 [OF conjunct2 [OF p]] s1(2)] s1(3) by blast
  show ?thesis
    by (intro exI conjI, rule s0, rule s1(1), rule conjunct1 [OF p], rule s2(1), rule s2(2))
qed

end
