(* ===== verification/TargetServe.thy ===== *)
theory TargetServe
  imports TargetFs Inspect_Objects Fsck
begin

text \<open>
  What the device build offers to the outside: the request for the allocated regions (\<open>vnode.cc\<close>), the
  root it serves and its end (\<open>runner.cc\<close>, \<open>service/admin.cc\<close>, \<open>mount.cc\<close>), and the tools that mount
  a device themselves, the inspector (\<open>inspector/inspector.cc\<close>) and the checker (\<open>fsck.cc\<close>). The
  connections and the event loop are the libraries' and parameters.
\<close>

section \<open>Requests\<close>

text \<open>The layout of \<open>BlockRegion\<close>: two 64-bit words.\<close>

definition region_words :: "nat \<times> nat \<Rightarrow> nat list" where
  "region_words r = [lo32 (fst r), hi32 (fst r), lo32 (snd r), hi32 (snd r)]"

definition kRegionSize :: nat where "kRegionSize = 16"

record region_reply =
  rr_status :: "unit res"
  rr_vmo :: "bytes option"
  rr_count :: nat

text \<open>\<open>rc_create\<close> and \<open>rc_write\<close> create a memory object of a size and write bytes to it; only their
  statuses are left to the kernel. The object the client receives is one to which a write has succeeded, so
  its contents are the bytes of that write, and the reply carries them.\<close>

record 'd region_calls =
  rc_create :: "nat \<Rightarrow> 'd \<Rightarrow> unit res \<times> 'd"
  rc_write :: "bytes \<Rightarrow> nat \<Rightarrow> 'd \<Rightarrow> unit res \<times> 'd"

definition reply_regions :: "'d region_calls \<Rightarrow> (nat \<times> nat) list \<Rightarrow> 'd \<Rightarrow> region_reply \<times> 'd" where
  "reply_regions C buffer d =
    (let allocations = length buffer;
         data = store_words 0 (concat (map region_words buffer)) zero_bytes;
         (status, d) =
           (if allocations \<noteq> 0 then
              (let (status, d) = rc_create C (kRegionSize * allocations) d
               in if is_ok status then rc_write C data (kRegionSize * allocations) d else (status, d))
            else (Ok (), d))
     in if is_ok status
        then (\<lparr>rr_status = Ok (), rr_vmo = (if allocations \<noteq> 0 then Some data else None),
               rr_count = allocations\<rparr>, d)
        else (\<lparr>rr_status = status, rr_vmo = None, rr_count = 0\<rparr>, d))"

definition Minfs_GetAllocatedRegions ::
  "('b, 'y) raw_bitmap_scheme \<Rightarrow> ('b, 'r) allocator \<Rightarrow> (nat \<times> nat) list option" where
  "Minfs_GetAllocatedRegions B al = GetAllocatedRegions B al"

definition Vnode_GetAllocatedRegions ::
  "'d region_calls \<Rightarrow> ('b, 'y) raw_bitmap_scheme \<Rightarrow> ('b, 'r) allocator \<Rightarrow> 'd \<Rightarrow> (region_reply \<times> 'd) option" where
  "Vnode_GetAllocatedRegions C B al d =
    map_option (\<lambda>buffer. reply_regions C buffer d) (Minfs_GetAllocatedRegions B al)"

datatype node_info = Directory_node | File_node

definition GetNodeInfoForProtocol :: "bool \<Rightarrow> node_info" where
  "GetNodeInfoForProtocol is_directory = (if is_directory then Directory_node else File_node)"

section \<open>Serving the root\<close>

text \<open>
  A runner is a file system object and whether it is read-only. \<open>sv_vnode_get\<close> is \<open>VnodeGet\<close>,
  \<open>sv_serve\<close> serves a directory, \<open>sv_loop\<close> handles requests until the loop ends, which it reports.
\<close>

datatype 'v served = Vnode_entry 'v | Tree_service | Admin_service | Pseudo_dir "(string \<times> 'v served) list"

record ('i, 'u, 'v) serve_env =
  sv_vnode_get :: "nat \<Rightarrow> ('i, 'u, 'v) fact"
  sv_serve :: "(string \<times> 'v served) list \<Rightarrow> ('i, 'u, unit) fact"
  sv_loop :: "('i, 'u, unit) fact"
  sv_tree_name :: string
  sv_admin_name :: string

definition IsReadonly :: "('i, 'u) target_fs \<times> bool \<Rightarrow> bool" where
  "IsReadonly runner = snd runner"

definition Runner_GetFilesystemInfo :: "('i, 'u) fs_env \<Rightarrow> ('i, 'u) target_fs \<times> bool \<Rightarrow> filesystem_info res" where
  "Runner_GetFilesystemInfo E runner = GetFilesystemInfo E (fst runner)"

definition ServeRoot :: "('i, 'u, 'v) serve_env \<Rightarrow> ('i, 'u, unit) fact" where
  "ServeRoot S =
    abind (sv_vnode_get S kMinfsRootIno) (\<lambda>vn.
    sv_serve S [(''root'', Vnode_entry vn), (''diagnostics'', Pseudo_dir [(sv_tree_name S, Tree_service)]),
                (sv_admin_name S, Admin_service)])"

definition OnNoConnections :: "('i, 'u) fs_env \<Rightarrow> bool \<Rightarrow> ('i, 'u, unit) fact" where
  "OnNoConnections E is_terminating =
    (if is_terminating then ret () else try_act (Runner_Shutdown E) (\<lambda>r. assert_act (r = Ok ())))"

text \<open>The service replies whatever the status is.\<close>

definition Admin_Shutdown :: "('i, 'u) fs_env \<Rightarrow> ('i, 'u, unit) fact" where
  "Admin_Shutdown E = try_act (Runner_Shutdown E) (\<lambda>_. ret ())"

text \<open>An action on a mounted file system, seen from its device.\<close>

definition in_mounted :: "('i, 'u) target_fs \<Rightarrow> ('i, 'u, 'a) fact \<Rightarrow> ('u, 'a) act" where
  "in_mounted s m u =
    (case m (s\<lparr>tg_rest := u\<rparr>) of None \<Rightarrow> None | Some (r, s) \<Rightarrow> Some (r, tg_rest s))"

text \<open>The loop ends when unmounting has told it to quit.\<close>

definition ZX_ERR_CANCELED :: status where "ZX_ERR_CANCELED = ZX_ERR_OTHER 23"

definition Mount ::
  "('i, 'u) fs_env \<Rightarrow> ('b, 'r, 'u) mount_env \<Rightarrow> ('i, 'u, 'v) serve_env \<Rightarrow> mount_options \<Rightarrow> ('u, unit) act" where
  "Mount E M S options =
    abind (Runner_Create E M options) (\<lambda>(fs, _).
    in_mounted fs (abind (ServeRoot S) (\<lambda>_.
      try_act (sv_loop S) (\<lambda>r. assert_act (r = Err ZX_ERR_CANCELED)))))"

section \<open>The inspector\<close>

definition inspector_options :: mount_options where
  "inspector_options =
    default_mount_options\<lparr>mo_writability := ReadOnlyFilesystem, mo_repair_filesystem := False\<rparr>"

text \<open>The root object owns the runner; \<open>inodes\<close> and \<open>read_block\<close> are the ways it looks into it.\<close>

definition RootObject ::
  "(('i, 'u) target_fs \<Rightarrow> inode_source) \<Rightarrow> (('i, 'u) target_fs \<Rightarrow> nat \<Rightarrow> bytes res) \<Rightarrow> ('i, 'u) target_fs
    \<Rightarrow> inspected_fs" where
  "RootObject inodes read_block s =
    \<lparr>fs_info = fs_Info s, fs_inodes = inodes s, fs_read_block = read_block s\<rparr>"

definition Inspector_CreateRoot ::
  "('i, 'u) fs_env \<Rightarrow> ('b, 'r, 'u) mount_env \<Rightarrow> (('i, 'u) target_fs \<Rightarrow> inspected_fs)
    \<Rightarrow> ('u, inspected_fs) act" where
  "Inspector_CreateRoot E M root = abind (Runner_Create E M inspector_options) (\<lambda>(fs, _). ret (root fs))"

text \<open>\<open>attach\<close> is the state of a mount over a block cache.\<close>

definition Inspector_GetRoot ::
  "('d, 'z) block_device_scheme \<Rightarrow> ('d device_cache \<Rightarrow> 'd \<Rightarrow> 'u) \<Rightarrow> ('i, 'u) fs_env \<Rightarrow> ('b, 'r, 'u) mount_env
    \<Rightarrow> (('i, 'u) target_fs \<Rightarrow> inspected_fs) \<Rightarrow> 'd \<Rightarrow> (inspected_fs res \<times> ('d + 'u)) option" where
  "Inspector_GetRoot D attach E M root d =
    (case CreateBcache D d of
       None \<Rightarrow> None
     | Some (Err e, d) \<Rightarrow> Some (Err e, Inl d)
     | Some (Panic, d) \<Rightarrow> Some (Panic, Inl d)
     | Some (Ok (bc, _), d) \<Rightarrow>
         (case Inspector_CreateRoot E M root (attach bc d) of
            None \<Rightarrow> None
          | Some (r, u) \<Rightarrow> Some (r, Inr u)))"

section \<open>The checker\<close>

definition checker_options :: "bool \<Rightarrow> bool \<Rightarrow> bool \<Rightarrow> mount_options" where
  "checker_options read_only repair quiet =
    default_mount_options\<lparr>mo_writability := (if read_only then ReadOnlyDisk else Writable),
      mo_repair_filesystem := repair, mo_fsck_after_every_transaction := False, mo_quiet := quiet\<rparr>"

text \<open>The file system is mounted before the tables of the checker are made.\<close>

definition target_Checker_Create ::
  "('b, 'r, 'f) libs \<Rightarrow> ('i, 'u) fs_env \<Rightarrow> ('b, 'r, 'u) mount_env \<Rightarrow> bool \<Rightarrow> bool \<Rightarrow> bool
    \<Rightarrow> ('u, 'b checker \<times> ('i, 'u) target_fs) act" where
  "target_Checker_Create L E M read_only repair quiet =
    abind (Runner_Create E M (checker_options read_only repair quiet)) (\<lambda>(fs, _).
    abind (lift_res (Checker_Create L (fs_Info fs))) (\<lambda>c. ret (c, fs)))"

end
