(* ===== verification/TargetServe_Laws.thy ===== *)
theory TargetServe_Laws
  imports TargetServe Allocator_Laws
begin

text \<open>
  The reply to the request for the allocated regions: what a client reads from the memory object are
  the maximal runs of allocated blocks.
\<close>

section \<open>The encoding of regions\<close>

text \<open>What a client makes of the first \<open>n\<close> regions in the bytes.\<close>

definition decode_region :: "bytes \<Rightarrow> nat \<Rightarrow> nat \<times> nat" where
  "decode_region b off =
    (join64 (get_u32 b off) (get_u32 b (off + 4)), join64 (get_u32 b (off + 8)) (get_u32 b (off + 12)))"

definition decode_regions :: "nat \<Rightarrow> bytes \<Rightarrow> (nat \<times> nat) list" where
  "decode_regions n b = map (\<lambda>i. decode_region b (kRegionSize * i)) [0..<n]"

definition region_fits :: "nat \<times> nat \<Rightarrow> bool" where
  "region_fits r \<longleftrightarrow> fst r < 18446744073709551616 \<and> snd r < 18446744073709551616"

lemma region_words_ok: "region_fits r \<Longrightarrow> words_ok (region_words r)"
  by (simp add: region_fits_def region_words_def words_ok_def)

lemma length_region_words [simp]: "length (region_words r) = 4"
  by (simp add: region_words_def)

lemma length_regions [simp]: "length (concat (map region_words rs)) = 4 * length rs"
  by (induction rs) auto

lemma load_four: "load_words b off 4 = [get_u32 b off, get_u32 b (off + 4), get_u32 b (off + 8), get_u32 b (off + 12)]"
  by (simp add: eval_nat_numeral)

lemma decode_stored_region:
  assumes "region_fits r"
  shows "decode_region (store_words off (region_words r @ ws) b) off = r"
proof -
  have "load_words (store_words off (region_words r) (b' :: bytes)) off 4 = region_words r" for b'
    using region_words_ok [OF assms] by simp
  moreover have "store_words off (region_words r @ ws) b = store_words (off + 16) ws (store_words off (region_words r) b)"
    by (simp add: region_words_def add.assoc)
  moreover have "load_words (store_words (off + 16) ws b') off 4 = load_words b' off 4" for b'
    by (rule load_store_other) simp
  ultimately have "load_words (store_words off (region_words r @ ws) b) off 4 = region_words r" by simp
  then show ?thesis
    by (simp add: decode_region_def region_words_def load_four)
qed

lemma decode_regions_step:
  "decode_regions (Suc n) b = decode_region b 0 # decode_regions n (\<lambda>i. b (i + kRegionSize))"
  by (simp add: decode_regions_def decode_region_def map_upt_Suc get_u32_def kRegionSize_def algebra_simps
      del: upt_Suc)

lemma store_words_behind:
  "(\<lambda>i. store_words (off + n) ws b (i + n)) = store_words off ws (\<lambda>i. b (i + n))"
proof (induction ws arbitrary: off b)
  case (Cons w ws)
  have "(\<lambda>i. set_u32 (off + n) w b (i + n)) = set_u32 off w (\<lambda>i. b (i + n))"
    by (rule ext) (simp add: set_u32_def)
  then show ?case using Cons.IH [of "off + 4" "set_u32 (off + n) w b"] by (simp add: add.assoc add.commute)
qed simp

lemma decode_stored_regions:
  "(\<And>r. r \<in> set rs \<Longrightarrow> region_fits r)
    \<Longrightarrow> decode_regions (length rs) (store_words 0 (concat (map region_words rs)) b) = rs"
proof (induction rs arbitrary: b)
  case Nil
  then show ?case by (simp add: decode_regions_def)
next
  case (Cons r rs)
  let ?ws = "concat (map region_words rs)"
  have r: "decode_region (store_words 0 (region_words r @ ?ws) b) 0 = r"
    by (rule decode_stored_region) (simp add: Cons.prems)
  have "store_words 0 (region_words r @ ?ws) b = store_words (0 + 16) ?ws (store_words 0 (region_words r) b)"
    by (simp add: region_words_def)
  then have "(\<lambda>i. store_words 0 (region_words r @ ?ws) b (i + kRegionSize))
      = store_words 0 ?ws (\<lambda>i. store_words 0 (region_words r) b (i + 16))"
    using store_words_behind [of 0 16 ?ws "store_words 0 (region_words r) b"] by (simp add: kRegionSize_def)
  then show ?case using r Cons by (simp add: decode_regions_step)
qed

text \<open>C10: A client that asks for the allocated regions always gets an answer. If it is a success, the
  memory object of the answer holds, in the announced number, exactly the maximal runs of allocated
  blocks in ascending order; otherwise it holds nothing and announces no region.\<close>

theorem Vnode_GetAllocatedRegions_exact:
  assumes laws: "raw_bitmap_laws B" and size: "rb_size B (al_map al) < 18446744073709551616"
  shows "\<exists>reply d'. Vnode_GetAllocatedRegions C B al d = Some (reply, d')
    \<and> (if is_ok (rr_status reply)
       then let rs = decode_regions (rr_count reply) (case rr_vmo reply of Some b \<Rightarrow> b | None \<Rightarrow> zero_bytes)
            in \<Union> (range_set ` set rs) = bits_set B (al_map al) \<and> separate_regions (rb_size B (al_map al)) rs
       else rr_vmo reply = None \<and> rr_count reply = 0)"
proof -
  obtain rs where rs: "GetAllocatedRegions B al = Some rs" "\<Union> (range_set ` set rs) = bits_set B (al_map al)"
      "separate_regions (rb_size B (al_map al)) rs"
    using allocated_regions_loop_correct [OF laws, of 0 "al_map al" "[]"] by (auto simp: GetAllocatedRegions_def)
  have "region_fits r" if "r \<in> set rs" for r
    using rs(3) size that by (auto simp: region_fits_def separate_regions_def)
  note decode = decode_stored_regions [of rs zero_bytes, OF this]
  obtain reply d' where run: "reply_regions C rs d = (reply, d')" by (metis prod.exhaust)
  then have "if is_ok (rr_status reply)
      then decode_regions (rr_count reply) (case rr_vmo reply of Some b \<Rightarrow> b | None \<Rightarrow> zero_bytes) = rs
      else rr_vmo reply = None \<and> rr_count reply = 0"
    using decode by (auto simp: reply_regions_def Let_def decode_regions_def split: if_splits prod.splits)
  then show ?thesis using rs run
    by (auto simp: Vnode_GetAllocatedRegions_def Minfs_GetAllocatedRegions_def Let_def split: if_splits)
qed

definition region_memory :: "unit region_calls" where
  "region_memory = \<lparr>rc_create = (\<lambda>_ d. (Ok (), d)), rc_write = (\<lambda>_ _ d. (Ok (), d))\<rparr>"

theorem Vnode_GetAllocatedRegions_exact_witness:
  "\<exists>reply. Vnode_GetAllocatedRegions region_memory list_bitmap ex_al () = Some (reply, ())
     \<and> rr_status reply = Ok ()
     \<and> \<Union> (range_set ` set (decode_regions (rr_count reply)
          (case rr_vmo reply of Some b \<Rightarrow> b | None \<Rightarrow> zero_bytes))) = {0, 2}"
proof -
  have "rb_size list_bitmap (al_map ex_al) < 18446744073709551616" by (simp add: ex_al_def)
  then obtain reply d' where reply: "Vnode_GetAllocatedRegions region_memory list_bitmap ex_al () = Some (reply, d')"
      "if is_ok (rr_status reply)
       then let rs = decode_regions (rr_count reply) (case rr_vmo reply of Some b \<Rightarrow> b | None \<Rightarrow> zero_bytes)
            in \<Union> (range_set ` set rs) = {0, 2} \<and> separate_regions (rb_size list_bitmap (al_map ex_al)) rs
       else rr_vmo reply = None \<and> rr_count reply = 0"
    using Vnode_GetAllocatedRegions_exact [OF list_bitmap_laws, of ex_al region_memory "()"] unfolding ex_al_bits
    by blast
  have "rr_status reply = Ok ()"
    using reply(1) by (auto simp: Vnode_GetAllocatedRegions_def reply_regions_def region_memory_def Let_def
        split: if_splits prod.splits)
  then show ?thesis using reply by (auto simp: Let_def)
qed

end
