(* ===== verification/TargetContent.thy ===== *)
theory TargetContent
  imports Content TargetStores
begin

text \<open>
  The contents of a vnode in the device build (\<open>vnode.cc\<close>): they are kept in a kernel memory object,
  which \<open>InitVmo\<close> fills from the device, and \<open>ReadInternal\<close>, \<open>WriteInternal\<close> and \<open>TruncateInternal\<close>
  work on it. The block pointers are those of \<open>Mapper\<close> and \<open>Iterator\<close>; what the vnode needs of the
  kernel, the device and its virtual functions is a record of functions. At the end, the virtual
  functions of a directory (\<open>directory.cc\<close>).
\<close>

section \<open>State\<close>

record 'u data_state =
  ds_vmo :: "vmo option"
  ds_vmo_size :: nat
  ds_vmoid :: "nat option"
  ds_rest :: 'u

record 'u data_kernel = "'u kernel" +
  dk_read :: "nat \<Rightarrow> nat \<Rightarrow> vmo \<Rightarrow> 'u \<Rightarrow> unit res \<times> 'u"
  dk_write :: "nat \<Rightarrow> nat \<Rightarrow> vmo \<Rightarrow> 'u \<Rightarrow> unit res \<times> 'u"
  dk_decommit :: "nat \<Rightarrow> nat \<Rightarrow> vmo \<Rightarrow> 'u \<Rightarrow> unit res \<times> 'u"

text \<open>\<open>de_run_requests\<close> carries out reads of the device into the memory it is given.\<close>

record ('r, 'u) data_env = "('r, 'u data_state) vnode_env" +
  de_kernel :: "'u data_kernel"
  de_run_requests :: "operation list \<Rightarrow> bytes \<Rightarrow> 'u \<Rightarrow> (unit res \<times> bytes) \<times> 'u"
  de_get_size :: "('r, 'u data_state) vnode_state \<Rightarrow> nat"
  de_set_size :: "nat \<Rightarrow> ('r, 'u data_state, unit) vact"
  de_dirty_cache :: bool
  de_acquire :: "nat \<Rightarrow> nat \<Rightarrow> ('r, 'u data_state, nat) vact"
  de_issue_writeback :: "nat \<Rightarrow> nat \<Rightarrow> nat \<Rightarrow> ('r, 'u data_state, unit) vact"
  de_pending :: "nat \<Rightarrow> ('r, 'u data_state) vnode_state \<Rightarrow> bool"

type_synonym ('r, 'u, 'a) dact = "('r, 'u data_state, 'a) vact"
type_synonym ('r, 'u) denv = "('r, 'u) data_env"

text \<open>A call of the kernel.\<close>

definition on_kernel :: "('u, 'a) act \<Rightarrow> ('r, 'u, 'a) dact" where
  "on_kernel m = on_rest (\<lambda>t.
     case m (ds_rest t) of None \<Rightarrow> None | Some (r, u) \<Rightarrow> Some (r, t\<lparr>ds_rest := u\<rparr>))"

definition set_data :: "('u data_state \<Rightarrow> 'u data_state) \<Rightarrow> ('r, 'u, unit) dact" where
  "set_data f = modify (\<lambda>s. s\<lparr>vs_rest := f (vs_rest s)\<rparr>)"

text \<open>The memory object of a vnode; a call on an object that is not there fails.\<close>

definition get_vmo :: "('r, 'u, vmo) dact" where
  "get_vmo = abind (gets (\<lambda>s. ds_vmo (vs_rest s)))
     (\<lambda>v. case v of None \<Rightarrow> fail ZX_ERR_BAD_HANDLE | Some v \<Rightarrow> ret v)"

definition put_vmo :: "vmo \<Rightarrow> ('r, 'u, unit) dact" where
  "put_vmo v = set_data (\<lambda>t. t\<lparr>ds_vmo := Some v\<rparr>)"

definition file_vmo_read :: "('r, 'u) denv \<Rightarrow> nat \<Rightarrow> nat \<Rightarrow> bytes \<Rightarrow> ('r, 'u, bytes) dact" where
  "file_vmo_read E off len buf =
    abind get_vmo (\<lambda>v.
    abind (on_kernel (\<lambda>u. Some (dk_read (de_kernel E) off len v u))) (\<lambda>_.
    ret (copy_bytes 0 (vm_bytes v) off len buf)))"

definition file_vmo_write :: "('r, 'u) denv \<Rightarrow> bytes \<Rightarrow> nat \<Rightarrow> nat \<Rightarrow> nat \<Rightarrow> ('r, 'u, unit) dact" where
  "file_vmo_write E data pos off len =
    abind get_vmo (\<lambda>v.
    abind (on_kernel (\<lambda>u. Some (dk_write (de_kernel E) off len v u))) (\<lambda>_.
    put_vmo (v\<lparr>vm_bytes := copy_bytes off data pos len (vm_bytes v)\<rparr>)))"

definition file_vmo_set_size :: "('r, 'u) denv \<Rightarrow> nat \<Rightarrow> ('r, 'u, unit) dact" where
  "file_vmo_set_size E n =
    abind get_vmo (\<lambda>v. abind (on_kernel (vmo_Resize (de_kernel E) n v)) put_vmo)"

section \<open>Loading\<close>

partial_function (option) init_vmo_loop ::
  "('r, 'u) denv \<Rightarrow> nat \<Rightarrow> operation list \<Rightarrow> ('r, 'u data_state, operation list) iact" where
  "init_vmo_loop E cnt ops st =
    (if 0 < cnt
     then abind it_Blk (\<lambda>block.
          abind (GetContiguousBlockCount cnt) (\<lambda>n.
          abind (gets (\<lambda>(s, it). (it_file_block it, ve_dat_block E (vs_rest s)))) (\<lambda>(file_block, dat).
          abind (Iterator_Advance E n) (\<lambda>_.
          init_vmo_loop E (u64_sub cnt n)
            (ops @ (if block \<noteq> 0 then [read_op file_block (u32 (block + dat)) n] else [])))))) st
     else Some (Ok ops, st))"

definition run_vmo_reads :: "('r, 'u) denv \<Rightarrow> operation list \<Rightarrow> ('r, 'u, unit) dact" where
  "run_vmo_reads E ops =
    abind get_vmo (\<lambda>v s.
      let t = vs_rest s;
          ((r, b), u) = de_run_requests E ops (vm_bytes v) (ds_rest t)
      in Some (r, s\<lparr>vs_rest := t\<lparr>ds_vmo := Some (v\<lparr>vm_bytes := b\<rparr>), ds_rest := u\<rparr>\<rparr>))"

text \<open>The memory object stays when the blocks cannot be read.\<close>

definition InitVmo :: "('r, 'u) denv \<Rightarrow> ('r, 'u, unit) dact" where
  "InitVmo E =
    abind (gets (\<lambda>s. ds_vmo (vs_rest s))) (\<lambda>vmo.
    if vmo \<noteq> None then ret ()
    else
      abind (gets (\<lambda>s. round_up (de_get_size E s) kMinfsBlockSize)) (\<lambda>vmo_size.
      abind (on_kernel (CreateAndMap (de_kernel E) vmo_size)) (\<lambda>v.
      abind (set_data (\<lambda>t. t\<lparr>ds_vmo := Some v, ds_vmo_size := vmo_size\<rparr>)) (\<lambda>_.
      try_act (on_kernel (BlockAttachVmo (de_kernel E))) (\<lambda>attached. case attached of
        Err e \<Rightarrow> abind (set_data (\<lambda>t. t\<lparr>ds_vmo := None\<rparr>)) (\<lambda>_. fail e)
      | Panic \<Rightarrow> abort
      | Ok vmoid \<Rightarrow>
          abind (set_data (\<lambda>t. t\<lparr>ds_vmoid := Some vmoid\<rparr>)) (\<lambda>_.
          abind (with_iterator
                   (abind (Iterator_Init E False 0) (\<lambda>_.
                    init_vmo_loop E (vmo_size div kMinfsBlockSize) []))) (\<lambda>ops.
          run_vmo_reads E ops)))))))"

section \<open>Reading\<close>

definition target_ReadInternal ::
  "('r, 'u) denv \<Rightarrow> bytes \<Rightarrow> nat \<Rightarrow> nat \<Rightarrow> ('r, 'u, nat \<times> bytes) dact" where
  "target_ReadInternal E buf len off =
    abind (gets (de_get_size E)) (\<lambda>size.
    if off \<ge> size then ret (0, buf)
    else
      let len = (if len > size - off then size - off else len) in
      abind (InitVmo E) (\<lambda>_.
      abind (file_vmo_read E off len buf) (\<lambda>data. ret (len, data))))"

section \<open>Writing\<close>

definition target_write_block ::
  "('r, 'u) denv \<Rightarrow> bytes \<Rightarrow> nat \<Rightarrow> nat \<Rightarrow> nat \<Rightarrow> nat \<Rightarrow> ('r, 'u, unit) dact" where
  "target_write_block E data n adjust len pos =
    (let xfer = transfer_size len adjust;
         xfer_off = n * kMinfsBlockSize + adjust;
         new_size = round_up (xfer_off + xfer) kMinfsBlockSize
     in abind (gets (\<lambda>s. ds_vmo_size (vs_rest s))) (\<lambda>vmo_size.
        abind (if xfer_off + xfer > vmo_size
               then abind (file_vmo_set_size E new_size) (\<lambda>_.
                    set_data (\<lambda>t. t\<lparr>ds_vmo_size := new_size\<rparr>))
               else ret ()) (\<lambda>_.
        abind (file_vmo_write E data pos xfer_off xfer) (\<lambda>_.
        if \<not> de_dirty_cache E then
          abind (mapper_BlockGetWritable E (de_acquire E) n) (\<lambda>bno.
          abind (gets (\<lambda>s. ve_dat_block E (vs_rest s))) (\<lambda>dat.
          de_issue_writeback E n (u32 (bno + dat)) 1))
        else ret ()))))"

partial_function (option) target_write_loop ::
  "('r, 'u) denv \<Rightarrow> bytes \<Rightarrow> nat \<Rightarrow> nat \<Rightarrow> nat \<Rightarrow> nat \<Rightarrow> ('r, 'u, nat) dact" where
  "target_write_loop E data n adjust len pos s =
    (if 0 < len then
       if n < kMinfsMaxFileBlock then
         try_act (target_write_block E data n adjust len pos) (\<lambda>r s.
           if r = Ok () then
             target_write_loop E data (u32 (n + 1)) 0 (len - transfer_size len adjust)
               (pos + transfer_size len adjust) s
           else Some (Ok pos, s)) s
       else Some (Panic, s)
     else Some (Ok pos, s))"

definition target_WriteInternal ::
  "('r, 'u) denv \<Rightarrow> bytes \<Rightarrow> nat \<Rightarrow> nat \<Rightarrow> ('r, 'u, nat) dact" where
  "target_WriteInternal E data len off =
    (if \<not> (len + off < 2 ^ 64 \<and> len + off \<le> kMinfsMaxFileSize) then abort
     else if len = 0 then ret 0
     else
       abind (InitVmo E) (\<lambda>_.
       abind (target_write_loop E data (u32 (off div kMinfsBlockSize)) (off mod kMinfsBlockSize) len 0) (\<lambda>written.
       if written = 0 then fail (if off \<ge> kMinfsMaxFileSize then ZX_ERR_FILE_BIG else ZX_ERR_NO_SPACE)
       else
         abind (gets (de_get_size E)) (\<lambda>size.
         abind (if off + written > size then de_set_size E (u32 (off + written)) else ret ()) (\<lambda>_.
         ret written)))))"

section \<open>Truncation\<close>

definition target_zero_last_block :: "('r, 'u) denv \<Rightarrow> nat \<Rightarrow> ('r, 'u, unit) dact" where
  "target_zero_last_block E len =
    (let rel_bno = u32 (len div kMinfsBlockSize); adjust = len mod kMinfsBlockSize in
     abind (or_status ZX_ERR_IO (MapToBlk E rel_bno (u32 (rel_bno + 1)))) (\<lambda>(bno, _).
     abind (gets (de_pending E rel_bno)) (\<lambda>pending.
     if bno \<noteq> 0 \<or> pending then
       abind (or_status ZX_ERR_IO (file_vmo_read E (len - adjust) adjust zero_bytes)) (\<lambda>bdata.
       abind (or_status ZX_ERR_IO
                (file_vmo_write E (clear_tail adjust bdata) 0 (len - adjust) kMinfsBlockSize)) (\<lambda>_.
       abind (or_status ZX_ERR_IO (mapper_BlockGetWritable E (de_acquire E) rel_bno)) (\<lambda>bno.
       abind (gets (\<lambda>s. ve_dat_block E (vs_rest s))) (\<lambda>dat.
       de_issue_writeback E rel_bno (u32 (bno + dat)) 1))))
     else ret ())))"

definition decommit_tail :: "('r, 'u) denv \<Rightarrow> nat \<Rightarrow> nat \<Rightarrow> ('r, 'u, unit) dact" where
  "decommit_tail E len old_size =
    (let off = round_up len kMinfsBlockSize;
         n = u64_sub (round_up old_size kMinfsBlockSize) off
     in if n > 0 then
          abind get_vmo (\<lambda>v.
          try_act (on_kernel (\<lambda>u. Some (dk_decommit (de_kernel E) off n v u))) (\<lambda>r.
          abind (assert_act (is_ok r)) (\<lambda>_.
          put_vmo (v\<lparr>vm_bytes := copy_bytes off zero_bytes 0 n (vm_bytes v)\<rparr>))))
        else ret ())"

definition target_TruncateInternal :: "('r, 'u) denv \<Rightarrow> nat \<Rightarrow> ('r, 'u, unit) dact" where
  "target_TruncateInternal E len =
    (if \<not> len \<le> kMinfsMaxFileSize then abort
     else
       abind (or_status ZX_ERR_IO (InitVmo E)) (\<lambda>_.
       abind (gets (de_get_size E)) (\<lambda>old_size.
       if len < old_size then
         let trunc_bno = u32 (len div kMinfsBlockSize);
             start_bno = (if len mod kMinfsBlockSize = 0 then trunc_bno else u32 (trunc_bno + 1))
         in abind (assert_act (old_size div kMinfsBlockSize < 4294967296)) (\<lambda>_.
            abind (mapper_BlocksShrink E start_bno) (\<lambda>_.
            abind (decommit_tail E len old_size) (\<lambda>_.
            abind (if start_bno * kMinfsBlockSize < old_size
                   then de_set_size E (u32 (start_bno * kMinfsBlockSize)) else ret ()) (\<lambda>_.
            abind (gets (de_get_size E)) (\<lambda>size.
            abind (if len < size then target_zero_last_block E len else ret ()) (\<lambda>_.
            de_set_size E (u32 len)))))))
       else if len > old_size then
         let new_size = round_up len kMinfsBlockSize in
         abind (file_vmo_set_size E new_size) (\<lambda>_.
         abind (set_data (\<lambda>t. t\<lparr>ds_vmo_size := new_size\<rparr>)) (\<lambda>_.
         de_set_size E (u32 len)))
       else ret ())))"

section \<open>The end of a vnode\<close>

text \<open>The destructor gives the memory object back to the device and lets the indirect file go.\<close>

definition target_VnodeMinfs_Destroy :: "('r, 'u) denv \<Rightarrow> ('r, 'u, unit) dact" where
  "target_VnodeMinfs_Destroy E =
    abind (gets (\<lambda>s. ds_vmoid (vs_rest s))) (\<lambda>vmoid.
    abind (case vmoid of
             None \<Rightarrow> ret ()
           | Some ident \<Rightarrow> try_act (on_kernel (BlockDetachVmo (de_kernel E) ident)) (\<lambda>_.
               set_data (\<lambda>t. t\<lparr>ds_vmoid := None\<rparr>))) (\<lambda>_.
    modify (\<lambda>s. s\<lparr>vs_file := None\<rparr>)))"

section \<open>Directories\<close>

text \<open>The transaction of a directory: taking, freeing and the queue of metadata.\<close>

record 'u directory_tx =
  dt_block_new :: "('u, nat) act"
  dt_enqueue_metadata :: "operation \<Rightarrow> 'u \<Rightarrow> 'u"

definition target_Directory_AcquireWritableBlock ::
  "'u directory_tx \<Rightarrow> nat \<Rightarrow> nat \<Rightarrow> ('r, 'u, nat) dact" where
  "target_Directory_AcquireWritableBlock T local_bno old_bno =
    (if old_bno = 0
     then abind (on_kernel (dt_block_new T)) (\<lambda>bno.
          abind (modify (\<lambda>s. s\<lparr>vs_inode := (vs_inode s)
                   \<lparr>i_block_count := u32 (i_block_count (vs_inode s) + 1)\<rparr>\<rparr>)) (\<lambda>_. ret bno))
     else ret old_bno)"

definition Directory_IssueWriteback ::
  "'u directory_tx \<Rightarrow> nat \<Rightarrow> nat \<Rightarrow> nat \<Rightarrow> ('r, 'u, unit) dact" where
  "Directory_IssueWriteback T vmo_block dev_block cnt =
    set_data (\<lambda>t. t\<lparr>ds_rest := dt_enqueue_metadata T (write_op vmo_block dev_block cnt) (ds_rest t)\<rparr>)"

definition Directory_HasPendingAllocation ::
  "nat \<Rightarrow> ('r, 'u data_state) vnode_state \<Rightarrow> bool" where
  "Directory_HasPendingAllocation vmo_block s = False"

definition Directory_CancelPendingWriteback :: "('r, 'u, unit) dact" where
  "Directory_CancelPendingWriteback = ret ()"

definition Directory_GetSize :: "('r, 'u data_state) vnode_state \<Rightarrow> nat" where
  "Directory_GetSize s = i_size (vs_inode s)"

definition Directory_SetSize :: "nat \<Rightarrow> ('r, 'u, unit) dact" where
  "Directory_SetSize new_size = modify (\<lambda>s. s\<lparr>vs_inode := (vs_inode s)\<lparr>i_size := new_size\<rparr>\<rparr>)"

text \<open>The vnode of a directory: its data go to the device with the transaction.\<close>

definition directory_env :: "'u directory_tx \<Rightarrow> ('r, 'u) denv \<Rightarrow> ('r, 'u) denv" where
  "directory_env T E = E
     \<lparr>de_get_size := Directory_GetSize, de_set_size := Directory_SetSize, de_dirty_cache := False,
      de_acquire := target_Directory_AcquireWritableBlock T,
      de_issue_writeback := Directory_IssueWriteback T,
      de_pending := Directory_HasPendingAllocation\<rparr>"

end
