(* ===== verification/TargetContent_Laws.thy ===== *)
theory TargetContent_Laws
  imports TargetContent
begin

text \<open>
  Reads and writes of the device build (\<open>vnode.cc\<close>) through the memory object of a file: a write puts
  exactly the bytes of the caller there, also past the end of the object, and a read delivers them
  again. A load that failed is not noticed by the next one.
\<close>

section \<open>What the kernel promises\<close>

text \<open>
  A file with a dirty cache whose size is kept apart from the memory object. Accesses inside the
  object succeed, and so does a change of its size; neither changes the size of the file.
\<close>

definition file_memory :: "('r, 'u) denv \<Rightarrow> ('u \<Rightarrow> nat) \<Rightarrow> bool" where
  "file_memory E sz \<longleftrightarrow>
    de_dirty_cache E \<and> (\<forall>s. de_get_size E s = sz (ds_rest (vs_rest s)))
    \<and> (\<forall>n s. \<exists>u. de_set_size E n s = Some (Ok (), s\<lparr>vs_rest := (vs_rest s)\<lparr>ds_rest := u\<rparr>\<rparr>) \<and> sz u = n)
    \<and> (\<forall>off n v u. off + n \<le> vm_size v
        \<longrightarrow> (\<exists>u'. dk_read (de_kernel E) off n v u = (Ok (), u') \<and> sz u' = sz u))
    \<and> (\<forall>off n v u. off + n \<le> vm_size v
        \<longrightarrow> (\<exists>u'. dk_write (de_kernel E) off n v u = (Ok (), u') \<and> sz u' = sz u))
    \<and> (\<forall>n v u. \<exists>u'. kn_resize (de_kernel E) n v u = (Ok (), u') \<and> sz u' = sz u)"

lemma file_memoryD:
  assumes "file_memory E sz"
  shows "de_dirty_cache E" "de_get_size E s = sz (ds_rest (vs_rest s))"
    "\<exists>u. de_set_size E n s = Some (Ok (), s\<lparr>vs_rest := (vs_rest s)\<lparr>ds_rest := u\<rparr>\<rparr>) \<and> sz u = n"
    "off + n \<le> vm_size v \<Longrightarrow> \<exists>u'. dk_read (de_kernel E) off n v u = (Ok (), u') \<and> sz u' = sz u"
    "off + n \<le> vm_size v \<Longrightarrow> \<exists>u'. dk_write (de_kernel E) off n v u = (Ok (), u') \<and> sz u' = sz u"
    "\<exists>u'. kn_resize (de_kernel E) n v u = (Ok (), u') \<and> sz u' = sz u"
  using assms unfolding file_memory_def by blast+

text \<open>The byte at a position of an object, which reads as zero behind its end.\<close>

definition vmo_byte :: "vmo \<Rightarrow> nat \<Rightarrow> nat" where
  "vmo_byte v i = (if i < vm_size v then vm_bytes v i else 0)"

text \<open>The object is there and the vnode knows its size, and \<open>t\<close> differs from \<open>s\<close> in it only.\<close>

definition loaded :: "vmo \<Rightarrow> ('r, 'u data_state) vnode_state \<Rightarrow> bool" where
  "loaded v s \<longleftrightarrow> ds_vmo (vs_rest s) = Some v \<and> ds_vmo_size (vs_rest s) = vm_size v"

definition with_data :: "vmo \<Rightarrow> 'u \<Rightarrow> ('r, 'u data_state) vnode_state \<Rightarrow> ('r, 'u data_state) vnode_state" where
  "with_data v u s = s\<lparr>vs_rest := (vs_rest s)\<lparr>ds_vmo := Some v, ds_vmo_size := vm_size v, ds_rest := u\<rparr>\<rparr>"

lemma with_data_simps [simp]:
  "loaded v (with_data v u s)" "ds_rest (vs_rest (with_data v u s)) = u"
  "with_data v u (with_data v' u' s) = with_data v u s"
  "ds_vmo (vs_rest (with_data v u s)) = Some v" "ds_vmo_size (vs_rest (with_data v u s)) = vm_size v"
  by (simp_all add: loaded_def with_data_def)

lemma loaded_with_data: "loaded v s \<Longrightarrow> with_data v (ds_rest (vs_rest s)) s = s"
  by (cases s; cases "vs_rest s") (auto simp: loaded_def with_data_def)

lemmas data_act_defs = get_vmo_def put_vmo_def set_data_def on_kernel_def on_rest_def

lemma set_size_run:
  assumes "kn_resize (de_kernel E) n v u = (Ok (), u')"
  shows "abind (file_vmo_set_size E n) (\<lambda>_. set_data (\<lambda>t. t\<lparr>ds_vmo_size := n\<rparr>)) (with_data v u s)
    = Some (Ok (), with_data
        \<lparr>vm_size = n, vm_bytes = (\<lambda>i. if i < min n (vm_size v) then vm_bytes v i else 0)\<rparr> u' s)"
  using assms
  by (cases "vs_rest s") (simp add: file_vmo_set_size_def data_act_defs vmo_Resize_def with_data_def
      abind_def gets_def modify_def ret_def del: gets_bind modify_bind)

lemma vmo_write_run:
  assumes "dk_write (de_kernel E) off n v u = (Ok (), u')"
  shows "file_vmo_write E data pos off n (with_data v u s)
    = Some (Ok (), with_data (v\<lparr>vm_bytes := copy_bytes off data pos n (vm_bytes v)\<rparr>) u' s)"
  using assms
  by (cases "vs_rest s") (simp add: file_vmo_write_def data_act_defs with_data_def abind_def gets_def
      modify_def ret_def del: gets_bind modify_bind)

lemma vmo_read_run:
  assumes "dk_read (de_kernel E) off n v u = (Ok (), u')"
  shows "file_vmo_read E off n buf (with_data v u s)
    = Some (Ok (copy_bytes 0 (vm_bytes v) off n buf), with_data v u' s)"
  using assms
  by (cases "vs_rest s") (simp add: file_vmo_read_def data_act_defs with_data_def abind_def gets_def
      modify_def ret_def del: gets_bind modify_bind)

section \<open>Writing\<close>

lemma write_block_runs:
  assumes mem: "file_memory E sz"
    and adjust: "adjust < kMinfsBlockSize" and len: "0 < len"
  shows "\<exists>v' u'. target_write_block E data n adjust len pos (with_data v u s) = Some (Ok (), with_data v' u' s)
    \<and> sz u' = sz u \<and> vm_size v \<le> vm_size v'
    \<and> n * kMinfsBlockSize + adjust + transfer_size len adjust \<le> vm_size v'
    \<and> (\<forall>i. vmo_byte v' i = (if n * kMinfsBlockSize + adjust \<le> i
           \<and> i < n * kMinfsBlockSize + adjust + transfer_size len adjust
         then data (pos + (i - (n * kMinfsBlockSize + adjust))) else vmo_byte v i))"
proof -
  let ?o = "n * kMinfsBlockSize + adjust" and ?x = "transfer_size len adjust"
  let ?new = "round_up (?o + ?x) kMinfsBlockSize"
  have new: "?o + ?x \<le> ?new" by (rule round_up_ge) (simp add: format_consts)
  obtain v1 u1 where grow: "(if ?o + ?x > vm_size v
       then abind (file_vmo_set_size E ?new) (\<lambda>_. set_data (\<lambda>t. t\<lparr>ds_vmo_size := ?new\<rparr>))
       else ret ()) (with_data v u s) = Some (Ok (), with_data v1 u1 s)" "sz u1 = sz u"
    and v1: "\<And>i. vmo_byte v1 i = vmo_byte v i" "vm_size v \<le> vm_size v1" "?o + ?x \<le> vm_size v1"
  proof (cases "?o + ?x > vm_size v")
    case True
    obtain u1 where "kn_resize (de_kernel E) ?new v u = (Ok (), u1)" "sz u1 = sz u"
      using file_memoryD(6) [OF mem] by blast
    then show ?thesis using True new
      by (intro that [of "\<lparr>vm_size = ?new, vm_bytes = (\<lambda>i. if i < min ?new (vm_size v) then vm_bytes v i else 0)\<rparr>" u1])
        (simp_all add: set_size_run vmo_byte_def)
  next
    case False
    then show ?thesis using that [of v u] by (simp add: ret_def)
  qed
  obtain u2 where w: "dk_write (de_kernel E) ?o ?x v1 u1 = (Ok (), u2)" "sz u2 = sz u1"
    using file_memoryD(5) [OF mem v1(3)] by blast
  define v2 where "v2 = v1\<lparr>vm_bytes := copy_bytes ?o data pos ?x (vm_bytes v1)\<rparr>"
  have "target_write_block E data n adjust len pos (with_data v u s) = Some (Ok (), with_data v2 u2 s)"
    unfolding target_write_block_def Let_def gets_bind with_data_simps abind_def [of "if _ then _ else _"] grow(1)
    by (simp add: abind_def vmo_write_run [OF w(1)] file_memoryD(1) [OF mem] ret_def v2_def)
  moreover have "vmo_byte v2 i = (if ?o \<le> i \<and> i < ?o + ?x then data (pos + (i - ?o)) else vmo_byte v i)" for i
    using v1(3) v1(1) [of i] unfolding vmo_byte_def v2_def by (auto simp: copy_bytes_def split: if_splits)
  moreover have "vm_size v2 = vm_size v1" by (simp add: v2_def)
  ultimately show ?thesis using v1(2,3) w(2) grow(2)
    by (intro exI [of _ v2] exI [of _ u2]) (simp del: if_split)
qed

text \<open>The loop stores the rest of the bytes of the caller; it ends.\<close>

lemma write_loop_runs:
  assumes mem: "file_memory E sz"
  shows "adjust < kMinfsBlockSize \<Longrightarrow> n * kMinfsBlockSize + adjust + len \<le> kMinfsMaxFileSize \<Longrightarrow>
    \<exists>v' u'. target_write_loop E data n adjust len pos (with_data v u s) = Some (Ok (pos + len), with_data v' u' s)
    \<and> sz u' = sz u \<and> vm_size v \<le> vm_size v' \<and> (0 < len \<longrightarrow> n * kMinfsBlockSize + adjust + len \<le> vm_size v')
    \<and> (\<forall>i. vmo_byte v' i = (if n * kMinfsBlockSize + adjust \<le> i \<and> i < n * kMinfsBlockSize + adjust + len
         then data (pos + (i - (n * kMinfsBlockSize + adjust))) else vmo_byte v i))"
proof (induction len arbitrary: n adjust pos v u rule: less_induct)
  case (less len)
  let ?o = "n * kMinfsBlockSize + adjust" and ?x = "transfer_size len adjust"
  show ?case
  proof (cases "len = 0")
    case True
    then show ?thesis by (subst target_write_loop.simps) (auto intro!: exI [of _ v] exI [of _ u])
  next
    case False
    have n: "n < kMinfsMaxFileBlock"
    proof (rule ccontr)
      assume "\<not> n < kMinfsMaxFileBlock"
      then have "kMinfsMaxFileBlock * kMinfsBlockSize \<le> n * kMinfsBlockSize" by (intro mult_le_mono1) simp
      then show False using less.prems(2) False unfolding kMinfsMaxFileSize_def by linarith
    qed
    have x: "0 < ?x" "?x \<le> len" "?x < len \<Longrightarrow> adjust + ?x = kMinfsBlockSize"
      using False less.prems(1) by (auto simp: transfer_size_def)
    obtain v1 u1 where b: "target_write_block E data n adjust len pos (with_data v u s) = Some (Ok (), with_data v1 u1 s)"
        "sz u1 = sz u" "vm_size v \<le> vm_size v1" "?o + ?x \<le> vm_size v1"
        "\<And>i. vmo_byte v1 i = (if ?o \<le> i \<and> i < ?o + ?x then data (pos + (i - ?o)) else vmo_byte v i)"
      using write_block_runs [OF mem less.prems(1), of len data n pos v u s] False by blast
    have step: "target_write_loop E data n adjust len pos (with_data v u s)
        = target_write_loop E data (u32 (n + 1)) 0 (len - ?x) (pos + ?x) (with_data v1 u1 s)"
      using False n b(1) by (subst target_write_loop.simps) (simp add: try_act_def)
    show ?thesis
    proof (cases "?x = len")
      case True
      then show ?thesis using b step
        by (subst (asm) (2) target_write_loop.simps) (auto intro!: exI [of _ v1] exI [of _ u1])
    next
      case xl: False
      then have full: "adjust + ?x = kMinfsBlockSize" using x by simp
      then have next_o: "(n + 1) * kMinfsBlockSize + 0 = ?o + ?x" by simp
      have n1: "u32 (n + 1) = n + 1" using n by (simp add: u32_id format_consts kMinfsMaxFileBlock_def)
      have bound: "(n + 1) * kMinfsBlockSize + 0 + (len - ?x) \<le> kMinfsMaxFileSize"
        unfolding next_o using less.prems(2) x(2) by simp
      have less: "len - ?x < len" "0 < kMinfsBlockSize" using x(1) False less.prems(1) by simp_all
      obtain v2 u2 where r:
        "target_write_loop E data (n + 1) 0 (len - ?x) (pos + ?x) (with_data v1 u1 s)
            = Some (Ok (pos + ?x + (len - ?x)), with_data v2 u2 s)"
        "sz u2 = sz u1" "vm_size v1 \<le> vm_size v2" "0 < len - ?x \<longrightarrow> ?o + ?x + (len - ?x) \<le> vm_size v2"
        "\<And>i. vmo_byte v2 i = (if ?o + ?x \<le> i \<and> i < ?o + ?x + (len - ?x)
           then data (pos + ?x + (i - (?o + ?x))) else vmo_byte v1 i)"
        using less.IH [OF less bound, where pos = "pos + ?x" and v = v1 and u = u1, unfolded next_o] by auto
      have "vmo_byte v2 i = (if ?o \<le> i \<and> i < ?o + len then data (pos + (i - ?o)) else vmo_byte v i)" for i
        using r(5) [of i] b(5) [of i] x(2) by (auto simp: add.assoc)
      then show ?thesis using step r(1-4) b(2,3) x(2) xl unfolding n1
        by (intro exI [of _ v2] exI [of _ u2]) (simp del: if_split)
    qed
  qed
qed

section \<open>Reading\<close>

lemma InitVmo_loaded: "loaded v s \<Longrightarrow> InitVmo E s = Some (Ok (), s)"
  by (simp add: InitVmo_def loaded_def ret_def)

lemma ReadInternal_loaded:
  assumes mem: "file_memory E sz" and v: "loaded v s"
    and size: "off < sz (ds_rest (vs_rest s))" "sz (ds_rest (vs_rest s)) \<le> vm_size v"
  shows "\<exists>u. target_ReadInternal E buf len off s = Some (Ok (min len (sz (ds_rest (vs_rest s)) - off),
      (\<lambda>i. if i < min len (sz (ds_rest (vs_rest s)) - off) then vmo_byte v (off + i) else buf i)), with_data v u s)
    \<and> sz u = sz (ds_rest (vs_rest s))"
proof -
  let ?z = "sz (ds_rest (vs_rest s))"
  define n where "n = (if len > ?z - off then ?z - off else len)"
  have n: "min len (?z - off) = n" "off + n \<le> vm_size v" using size by (auto simp: n_def)
  obtain u where u: "dk_read (de_kernel E) off n v (ds_rest (vs_rest s)) = (Ok (), u)" "sz u = ?z"
    using file_memoryD(4) [OF mem n(2)] by blast
  have "file_vmo_read E off n buf s = Some (Ok (copy_bytes 0 (vm_bytes v) off n buf), with_data v u s)"
    using vmo_read_run [OF u(1), of buf s] loaded_with_data [OF v] by simp
  moreover have "copy_bytes 0 (vm_bytes v) off n buf = (\<lambda>i. if i < n then vmo_byte v (off + i) else buf i)"
    using n(2) by (auto simp: copy_bytes_def vmo_byte_def)
  ultimately show ?thesis
    using size(1) u(2) unfolding target_ReadInternal_def gets_bind file_memoryD(2) [OF mem] n(1) Let_def n_def [symmetric]
    by (intro exI [of _ u]) (simp add: abind_def InitVmo_loaded [OF v] ret_def)
qed

text \<open>C38: With the dirty cache enabled, as it is for files, and a kernel in which every resize of the memory
  object and every access within it succeeds (\<open>file_memory\<close>), a write to a file of the device build whose
  memory object is loaded succeeds for a range a file may have: it stores exactly the bytes of the
  caller, also across blocks and past the end of the object, keeps every other byte, and the size of the
  file becomes the larger of the old one and the end of the range. A read of the range then delivers
  these bytes.\<close>

theorem target_write_read_roundtrip:
  assumes "file_memory E sz" "loaded v s" "sz (ds_rest (vs_rest s)) \<le> vm_size v"
    "0 < len" "off + len \<le> kMinfsMaxFileSize"
  shows "\<exists>v1 s1. target_WriteInternal E data len off s = Some (Ok len, s1) \<and> loaded v1 s1
    \<and> sz (ds_rest (vs_rest s1)) = max (sz (ds_rest (vs_rest s))) (off + len)
    \<and> (\<forall>i. vmo_byte v1 i = (if off \<le> i \<and> i < off + len then data (i - off) else vmo_byte v i))
    \<and> (\<exists>s2. target_ReadInternal E buf len off s1
          = Some (Ok (len, \<lambda>i. if i < len then data i else buf i), s2))"
proof -
  let ?z = "sz (ds_rest (vs_rest s))" and ?n = "off div kMinfsBlockSize" and ?a = "off mod kMinfsBlockSize"
  have pos: "?n * kMinfsBlockSize + ?a = off" "?a < kMinfsBlockSize" by (simp_all add: format_consts)
  have small: "off + len < 4294967296" using assms(5) by (simp add: format_consts)
  then have u32: "u32 ?n = ?n" "u32 (off + len) = off + len" by (simp_all add: u32_id format_consts)
  obtain v1 u1 where w: "target_write_loop E data ?n ?a len 0 s = Some (Ok len, with_data v1 u1 s)"
      "sz u1 = ?z" "vm_size v \<le> vm_size v1" "off + len \<le> vm_size v1"
      "\<And>i. vmo_byte v1 i = (if off \<le> i \<and> i < off + len then data (i - off) else vmo_byte v i)"
    using write_loop_runs [OF assms(1) pos(2), of ?n len data 0 v "ds_rest (vs_rest s)" s] assms(4,5)
    unfolding pos(1) loaded_with_data [OF assms(2)] by auto
  obtain u2 where z: "de_set_size E (off + len) (with_data v1 u1 s) = Some (Ok (), with_data v1 u2 s)"
      "sz u2 = off + len"
    using file_memoryD(3) [OF assms(1), of "off + len" "with_data v1 u1 s"]
    by (cases "vs_rest s") (auto simp: with_data_def)
  define s1 where "s1 = with_data v1 (if off + len > ?z then u2 else u1) s"
  have wr: "target_WriteInternal E data len off s = Some (Ok len, s1)"
    using w(1,2) z(1) assms(4,5) small
    unfolding target_WriteInternal_def u32 s1_def
    by (simp add: abind_def InitVmo_loaded [OF assms(2)] file_memoryD(2) [OF assms(1)] ret_def gets_def u32_id add.commute
        del: gets_bind)
  have s1: "loaded v1 s1" "sz (ds_rest (vs_rest s1)) = max ?z (off + len)"
    using w(2) z(2) by (simp_all add: s1_def)
  have m: "min len (max ?z (off + len) - off) = len" by simp
  have "vmo_byte v1 (off + i) = data i" if "i < len" for i using w(5) [of "off + i"] that by simp
  then have "(\<lambda>i. if i < len then vmo_byte v1 (off + i) else buf i) = (\<lambda>i. if i < len then data i else buf i)"
    by auto
  moreover have "off < max ?z (off + len)" "max ?z (off + len) \<le> vm_size v1"
    using assms(3,4) w(3,4) by simp_all
  ultimately obtain u3 where "target_ReadInternal E buf len off s1
      = Some (Ok (len, \<lambda>i. if i < len then data i else buf i), with_data v1 u3 s1)"
    using ReadInternal_loaded [OF assms(1) s1(1), of off buf len] unfolding s1(2) m by auto
  then show ?thesis using wr s1 w(5) by blast
qed

text \<open>A kernel without limits; the rest of the state is the size of the file and the contents of the
  device, on which the data start at block 8.\<close>

definition free_kernel :: "'u data_kernel" where
  "free_kernel =
    \<lparr>kn_create = (\<lambda>_ u. (Ok (), u)), kn_resize = (\<lambda>_ _ u. (Ok (), u)),
     kn_zero = (\<lambda>_ _ _ u. (Ok (), u)), kn_attach = (\<lambda>u. (Ok 1, u)), kn_detach = (\<lambda>_ u. (Ok (), u)),
     dk_read = (\<lambda>off n v u. (if off + n \<le> vm_size v then Ok () else Err ZX_ERR_OUT_OF_RANGE, u)),
     dk_write = (\<lambda>off n v u. (if off + n \<le> vm_size v then Ok () else Err ZX_ERR_OUT_OF_RANGE, u)),
     dk_decommit = (\<lambda>_ _ _ u. (Ok (), u))\<rparr>"

fun apply_reads :: "bytes \<Rightarrow> operation list \<Rightarrow> bytes \<Rightarrow> bytes" where
  "apply_reads c [] b = b"
| "apply_reads c (x # xs) b = apply_reads c xs
     (copy_bytes (vmo_offset x * kMinfsBlockSize) c (dev_offset x * kMinfsBlockSize)
        (op_length x * kMinfsBlockSize) b)"

definition memory_data :: "(index_set, nat \<times> bytes) denv" where
  "memory_data =
    \<lparr>ve_ranges = list_range, ve_dat_block = (\<lambda>_. 8), ve_read = (\<lambda>_ _. ret (\<lambda>_. 0)),
     ve_writer = (\<lambda>_ _ _. ret ()), ve_block_new = ret 1, ve_delete_block = (\<lambda>_ _ _. ret ()),
     ve_inode_sync = ret (), de_kernel = free_kernel,
     de_run_requests = (\<lambda>ops b u. ((Ok (), apply_reads (snd u) ops b), u)),
     de_get_size = (\<lambda>s. fst (ds_rest (vs_rest s))),
     de_set_size = (\<lambda>n. modify (\<lambda>s. s\<lparr>vs_rest := (vs_rest s)\<lparr>ds_rest := (n, snd (ds_rest (vs_rest s)))\<rparr>\<rparr>)),
     de_dirty_cache = True, de_acquire = (\<lambda>_ b. ret b), de_issue_writeback = (\<lambda>_ _ _. ret ()),
     de_pending = (\<lambda>_ _. False)\<rparr>"

lemma memory_data_memory: "file_memory memory_data fst"
  by (auto simp: file_memory_def memory_data_def free_kernel_def modify_def)

definition memory_vnode :: "vmo option \<Rightarrow> nat \<Rightarrow> (index_set, (nat \<times> bytes) data_state) vnode_state" where
  "memory_vnode v sz =
    \<lparr>vs_inode = zero_inode\<lparr>dnum := (replicate 16 0)[1 := 4]\<rparr>, vs_file = None,
     vs_rest = \<lparr>ds_vmo = v, ds_vmo_size = (case v of None \<Rightarrow> 0 | Some v \<Rightarrow> vm_size v), ds_vmoid = None,
       ds_rest = (sz, \<lambda>i. i mod 256)\<rparr>\<rparr>"

theorem target_write_read_roundtrip_witness:
  "\<exists>s1 s2. target_WriteInternal memory_data (\<lambda>i. i mod 7) 10000 8000
        (memory_vnode (Some \<lparr>vm_size = 8192, vm_bytes = zero_bytes\<rparr>) 5) = Some (Ok 10000, s1)
    \<and> fst (ds_rest (vs_rest s1)) = 18000
    \<and> target_ReadInternal memory_data (\<lambda>_. 9) 10000 8000 s1
        = Some (Ok (10000, \<lambda>i. if i < 10000 then i mod 7 else 9), s2)"
proof -
  let ?v = "\<lparr>vm_size = 8192, vm_bytes = zero_bytes\<rparr>"
  have "loaded ?v (memory_vnode (Some ?v) 5)" "fst (ds_rest (vs_rest (memory_vnode (Some ?v) 5))) = 5"
    by (simp_all add: loaded_def memory_vnode_def)
  then show ?thesis
    using target_write_read_roundtrip [OF memory_data_memory, of ?v "memory_vnode (Some ?v) 5" 10000 8000
        "\<lambda>i. i mod 7" "\<lambda>_. 9"]
    by (auto simp: format_consts)
qed

text \<open>A load that fails leaves a memory object behind that the next load takes for the contents.\<close>

lemma failed_load_is_forgotten:
  assumes "run_vmo_reads E ops s = Some (Err e, s')" "ds_vmo (vs_rest s) \<noteq> None"
  shows "InitVmo E s' = Some (Ok (), s')"
proof -
  obtain v where "ds_vmo (vs_rest s) = Some v" using assms(2) by blast
  then have "ds_vmo (vs_rest s') \<noteq> None"
    using assms(1) by (auto simp: run_vmo_reads_def get_vmo_def abind_def ret_def gets_def Let_def
        split: prod.splits simp del: gets_bind)
  then show ?thesis by (auto simp: InitVmo_def ret_def)
qed

end
