(* ===== verification/TargetLoad_Laws.thy ===== *)
theory TargetLoad_Laws
  imports TargetContent_Laws Reader_Laws
begin

text \<open>
  Loading the memory object of a small file of the device build (\<open>InitVmo\<close> of \<open>vnode.cc\<close>): the walk of
  the iterator over the direct blocks queues reads whose effect is that the object holds the blocks
  of the file, and zeros where it has none.
\<close>

section \<open>The iterator in the direct blocks\<close>

definition direct_level :: "nat \<Rightarrow> iter_level" where
  "direct_level k =
    \<lparr>lv_view = \<lparr>bv_buffer = Some DnumPointers, bv_offset = 0, bv_length = kMinfsDirect, bv_dirty = False,
                bv_flusher = False\<rparr>,
     lv_index = k, lv_count = kMinfsDirect, lv_range = (0, kMinfsDirect), lv_getter = None\<rparr>"

definition direct_at :: "nat \<Rightarrow> vnode_iterator \<Rightarrow> bool" where
  "direct_at k it \<longleftrightarrow> \<not> it_transaction it \<and> it_level_count it = 1 \<and> it_file_block it = k
     \<and> it_contiguous it = 0 \<and> it_levels it = [direct_level k, empty_level, empty_level]"

lemma direct_at_clean: "direct_at k it \<Longrightarrow> iter_clean it"
  by (simp add: direct_at_def iter_clean_def direct_level_def empty_level_def null_view_def)

lemma Init_direct: "\<exists>it. Iterator_Init E False 0 (s, new_iterator) = Some (Ok (), s, it) \<and> direct_at 0 it"
  by (simp add: Iterator_Init_def InitializeLevel_def update_iter_def kIndirectFileStartBlock_def
      GetInodeDirectView_def inode_view_def on_vnode_def abind_def gets_def modify_def assert_act_def
      ret_def new_iterator_def set_level_def empty_level_def format_consts u64_sub_id Let_def
      numeral_3_eq_3 direct_at_def direct_level_def null_view_def)

lemma direct_Blk:
  assumes "direct_at k it" "k < kMinfsDirect"
  shows "it_Blk (s, it) = Some (Ok (dnum (vs_inode s) ! k), s, it)"
  using assms
  by (simp add: it_Blk_def level_blk_def lv_blk_def lv_remaining_def bv_valid_def bv_at_def bv_raw_def
      direct_at_def direct_level_def u64_sub_id format_consts Let_def)

lemma direct_count:
  assumes "direct_at k it" "k < kMinfsDirect" "dnum (vs_inode s) ! k < 4294967296"
  shows "GetContiguousBlockCount cnt (s, it)
    = Some (Ok (min (Coalesce (\<lambda>i. dnum (vs_inode s) ! (k + i)) (kMinfsDirect - k)) cnt), s,
        it\<lparr>it_contiguous := Coalesce (\<lambda>i. dnum (vs_inode s) ! (k + i)) (kMinfsDirect - k)\<rparr>)"
proof -
  let ?C = "Coalesce (\<lambda>i. dnum (vs_inode s) ! (k + i)) (kMinfsDirect - k)"
  have C: "0 < ?C" "?C \<le> 16"
    using Coalesce_run(1,2) [of "kMinfsDirect - k" "\<lambda>i. dnum (vs_inode s) ! (k + i)"] assms(2,3)
    by (simp_all add: format_consts)
  have "ComputeContiguousBlockCount (s, it) = Some (Ok ?C, s, it)"
    using assms(1,2) C unfolding ComputeContiguousBlockCount_def abind_def direct_Blk [OF assms(1,2)]
    by (simp add: direct_at_def direct_level_def lv_remaining_def bv_raw_def bv_at_def bv_valid_def
        u64_sub_id u64_id format_consts Let_def)
  then show ?thesis
    using assms(1) by (simp add: GetContiguousBlockCount_def abind_def gets_def update_iter_def modify_def
        direct_at_def ret_def del: gets_bind modify_bind)
qed

lemma direct_Advance:
  assumes "direct_at k it" "k + n < kMinfsDirect" "n \<le> c"
  shows "\<exists>it'. Iterator_Advance E n (s, it\<lparr>it_contiguous := c\<rparr>) = Some (Ok (), s, it') \<and> iter_clean it'
    \<and> (n = c \<longrightarrow> direct_at (k + n) it')"
  using assms
  by (auto simp: Iterator_Advance_def direct_at_def direct_level_def lv_remaining_def u64_sub_id format_consts
      update_iter_def modify_def set_level_def iter_clean_def empty_level_def null_view_def)

section \<open>The reads\<close>

definition is_read :: "operation \<Rightarrow> bool" where
  "is_read x \<longleftrightarrow> x = read_op (vmo_offset x) (dev_offset x) (op_length x)"

lemma apply_reads_append: "apply_reads c (xs @ ys) b = apply_reads c ys (apply_reads c xs b)"
  by (induction xs arbitrary: b) simp_all

text \<open>The byte at a position of a file with these block pointers.\<close>

definition direct_byte :: "bytes \<Rightarrow> nat \<Rightarrow> inode \<Rightarrow> nat \<Rightarrow> nat" where
  "direct_byte c dat i p =
    (let b = dnum i ! (p div kMinfsBlockSize) in
     if b = 0 then 0 else c ((b + dat) * kMinfsBlockSize + p mod kMinfsBlockSize))"

definition pointers_ok :: "nat \<Rightarrow> inode \<Rightarrow> bool" where
  "pointers_ok dat i \<longleftrightarrow> (\<forall>k < kMinfsDirect. dnum i ! k + dat + kMinfsDirect < 4294967296)"

definition block_reads :: "nat \<Rightarrow> inode \<Rightarrow> nat \<Rightarrow> nat \<Rightarrow> operation list" where
  "block_reads dat i k n = (if dnum i ! k \<noteq> 0 then [read_op k (u32 (dnum i ! k + dat)) n] else [])"

lemma block_reads_effect:
  assumes "pointers_ok dat i" "is_run (\<lambda>j. dnum i ! (k + j)) n" "0 < n" "k + n \<le> kMinfsDirect"
    "\<forall>p \<ge> k * kMinfsBlockSize. b p = 0"
  shows "apply_reads c (block_reads dat i k n) b p
    = (if k * kMinfsBlockSize \<le> p \<and> p < (k + n) * kMinfsBlockSize then direct_byte c dat i p else b p)"
proof (cases "k * kMinfsBlockSize \<le> p \<and> p < (k + n) * kMinfsBlockSize")
  case True
  define j r where "j = p div kMinfsBlockSize - k" and "r = p mod kMinfsBlockSize"
  have d: "k \<le> p div kMinfsBlockSize" "p div kMinfsBlockSize < k + n"
    using True by (simp_all add: less_eq_div_iff_mult_less_eq div_less_iff_less_mult format_consts)
  then have j: "p div kMinfsBlockSize = k + j" "j < n" by (simp_all add: j_def)
  have "p = p div kMinfsBlockSize * kMinfsBlockSize + r" by (simp add: r_def)
  then have p: "p = (k + j) * kMinfsBlockSize + r" unfolding j(1) .
  show ?thesis
  proof (cases "dnum i ! k = 0")
    case z: True
    then have "dnum i ! (k + j) = 0"
      using assms(2) j(2) is_run_zero [where a = "\<lambda>j. dnum i ! (k + j)"] by simp
    then show ?thesis using True z assms(5) by (simp add: block_reads_def direct_byte_def Let_def j(1))
  next
    case False
    have "k < kMinfsDirect" using assms(3,4) by simp
    then have small: "dnum i ! k + dat + kMinfsDirect < 4294967296" using assms(1) by (simp add: pointers_ok_def)
    have "dnum i ! (k + j) = u32 (dnum i ! k + j)"
      using assms(2) j(2) False is_run_consecutive [where a = "\<lambda>j. dnum i ! (k + j)"] by simp
    then have "dnum i ! (k + j) = dnum i ! k + j" using small j(2) assms(4) by (simp add: u32_id)
    moreover have "(dnum i ! k + dat) * kMinfsBlockSize + (p - k * kMinfsBlockSize)
        = (dnum i ! k + j + dat) * kMinfsBlockSize + r"
      unfolding p by (simp add: algebra_simps)
    moreover have "p < k * kMinfsBlockSize + n * kMinfsBlockSize" using True by (simp add: add_mult_distrib)
    ultimately show ?thesis using True False small
      by (simp add: block_reads_def direct_byte_def Let_def j(1) copy_bytes_def read_op_def u32_id r_def)
  qed
next
  case False
  then show ?thesis by (auto simp: block_reads_def copy_bytes_def read_op_def add_mult_distrib)
qed

text \<open>The loop over the blocks of the object ends, and its reads fill them.\<close>

lemma init_vmo_loop_direct:
  assumes "pointers_ok (ve_dat_block E (vs_rest s)) (vs_inode s)"
  shows "direct_at k it \<Longrightarrow> k + cnt < kMinfsDirect \<Longrightarrow>
    \<exists>more it'. init_vmo_loop E cnt ops (s, it) = Some (Ok (ops @ more), s, it') \<and> iter_clean it' \<and> list_all is_read more
    \<and> (\<forall>b. (\<forall>p \<ge> k * kMinfsBlockSize. b p = 0) \<longrightarrow> (\<forall>p. apply_reads c more b p =
        (if k * kMinfsBlockSize \<le> p \<and> p < (k + cnt) * kMinfsBlockSize
         then direct_byte c (ve_dat_block E (vs_rest s)) (vs_inode s) p else b p)))"
proof (induction cnt arbitrary: k it ops rule: less_induct)
  case (less cnt)
  let ?dat = "ve_dat_block E (vs_rest s)" and ?i = "vs_inode s"
  show ?case
  proof (cases "cnt = 0")
    case True
    then show ?thesis using direct_at_clean [OF less.prems(1)]
      by (subst init_vmo_loop.simps) (auto intro!: exI [of _ "[]"])
  next
    case False
    let ?C = "Coalesce (\<lambda>j. dnum ?i ! (k + j)) (kMinfsDirect - k)"
    define n where "n = min ?C cnt"
    have k: "k < kMinfsDirect" using less.prems(2) by simp
    have small: "dnum ?i ! k < 4294967296" using assms k by (auto simp: pointers_ok_def)
    have C: "0 < ?C" "is_run (\<lambda>j. dnum ?i ! (k + j)) ?C"
      using Coalesce_run(1,3) [of "kMinfsDirect - k" "\<lambda>j. dnum ?i ! (k + j)"] k small by simp_all
    have n: "0 < n" "n \<le> cnt" "n \<le> ?C" "is_run (\<lambda>j. dnum ?i ! (k + j)) n"
      using C False is_run_mono [OF C(2), of n] by (simp_all add: n_def)
    obtain it' where it': "Iterator_Advance E n (s, it\<lparr>it_contiguous := ?C\<rparr>) = Some (Ok (), s, it')"
        "iter_clean it'" "n = ?C \<longrightarrow> direct_at (k + n) it'"
      using direct_Advance [OF less.prems(1), of n ?C] less.prems(2) n by force
    have sub: "u64_sub cnt n = cnt - n" using n(2) less.prems(2) by (simp add: u64_sub_id format_consts)
    have "it_file_block it = k" using less.prems(1) by (simp add: direct_at_def)
    then have step: "init_vmo_loop E cnt ops (s, it) = init_vmo_loop E (cnt - n) (ops @ block_reads ?dat ?i k n) (s, it')"
      using False it'(1) n(2)
      by (subst init_vmo_loop.simps)
        (simp add: abind_def direct_Blk [OF less.prems(1) k] direct_count [OF less.prems(1) k small]
          n_def [symmetric] gets_def block_reads_def sub del: gets_bind)
    have effect: "apply_reads c (block_reads ?dat ?i k n) b p
        = (if k * kMinfsBlockSize \<le> p \<and> p < (k + n) * kMinfsBlockSize then direct_byte c ?dat ?i p else b p)"
      if "\<forall>p \<ge> k * kMinfsBlockSize. b p = 0" for b p
      using block_reads_effect [OF assms n(4,1) _ that] less.prems(2) n(2) by simp
    have reads: "list_all is_read (block_reads ?dat ?i k n)"
      by (simp add: block_reads_def is_read_def read_op_def)
    show ?thesis
    proof (cases "n = cnt")
      case True
      then show ?thesis using step effect it'(2) reads
        by (intro exI [of _ "block_reads ?dat ?i k n"] exI [of _ it']) (simp add: init_vmo_loop.simps del: if_split)
    next
      case rest: False
      then have "n = ?C" by (simp add: n_def min_def split: if_splits)
      then have "direct_at (k + n) it'" "k + n + (cnt - n) < kMinfsDirect" "cnt - n < cnt"
        using it'(3) less.prems(2) n(1,2) False by simp_all
      then obtain more it2 where m:
        "init_vmo_loop E (cnt - n) (ops @ block_reads ?dat ?i k n) (s, it')
          = Some (Ok ((ops @ block_reads ?dat ?i k n) @ more), s, it2)" "iter_clean it2" "list_all is_read more"
        "\<And>b p. (\<forall>p \<ge> (k + n) * kMinfsBlockSize. b p = 0) \<Longrightarrow> apply_reads c more b p =
          (if (k + n) * kMinfsBlockSize \<le> p \<and> p < (k + n + (cnt - n)) * kMinfsBlockSize
           then direct_byte c ?dat ?i p else b p)"
        using less.IH [of "cnt - n" "k + n" it' "ops @ block_reads ?dat ?i k n"] by blast
      have "apply_reads c (block_reads ?dat ?i k n @ more) b p = (if k * kMinfsBlockSize \<le> p
          \<and> p < (k + cnt) * kMinfsBlockSize then direct_byte c ?dat ?i p else b p)"
        if z: "\<forall>p \<ge> k * kMinfsBlockSize. b p = 0" for b p
      proof -
        have le: "k * kMinfsBlockSize \<le> (k + n) * kMinfsBlockSize" "(k + n) * kMinfsBlockSize \<le> (k + cnt) * kMinfsBlockSize"
          using n(2) by simp_all
        have "\<forall>p \<ge> (k + n) * kMinfsBlockSize. apply_reads c (block_reads ?dat ?i k n) b p = 0"
        proof (intro allI impI)
          fix p assume p: "(k + n) * kMinfsBlockSize \<le> p"
          then have "b p = 0" using z order_trans [OF le(1) p] by blast
          then show "apply_reads c (block_reads ?dat ?i k n) b p = 0"
            using effect [OF z, of p] p by (simp del: if_split add: not_less)
        qed
        note rest = m(4) [OF this, of p]
        define x y u where bounds: "x = k * kMinfsBlockSize" "y = (k + n) * kMinfsBlockSize"
          "u = (k + cnt) * kMinfsBlockSize"
        have "x \<le> y" "y \<le> u" using le unfolding bounds .
        moreover have "k + n + (cnt - n) = k + cnt" using n(2) by simp
        ultimately show ?thesis
          using rest effect [OF z, of p] unfolding apply_reads_append by (simp flip: bounds)
      qed
      then show ?thesis using step m(1-3) reads
        by (intro exI [of _ "block_reads ?dat ?i k n @ more"] exI [of _ it2]) (simp del: if_split)
    qed
  qed
qed

section \<open>Loading\<close>

text \<open>
  Kernel and device work: creating and attaching a memory object succeeds, and reads are carried out
  on the contents of the device, which they leave alone.
\<close>

definition data_loads :: "('r, 'u) denv \<Rightarrow> ('u \<Rightarrow> nat) \<Rightarrow> ('u \<Rightarrow> bytes) \<Rightarrow> nat \<Rightarrow> bool" where
  "data_loads E sz content dat \<longleftrightarrow>
    (\<forall>t. ve_dat_block E t = dat)
    \<and> (\<forall>n u. \<exists>u'. kn_create (de_kernel E) n u = (Ok (), u') \<and> sz u' = sz u \<and> content u' = content u)
    \<and> (\<forall>u. \<exists>i u'. kn_attach (de_kernel E) u = (Ok i, u') \<and> sz u' = sz u \<and> content u' = content u)
    \<and> (\<forall>ops b u. list_all is_read ops \<longrightarrow> (\<exists>u'. de_run_requests E ops b u
          = ((Ok (), apply_reads (content u) ops b), u') \<and> sz u' = sz u \<and> content u' = content u))"

lemma InitVmo_runs:
  assumes mem: "file_memory E sz" and loads: "data_loads E sz content dat"
    and new: "ds_vmo (vs_rest s) = None"
    and ptrs: "pointers_ok dat (vs_inode s)"
    and size: "sz (ds_rest (vs_rest s)) \<le> (kMinfsDirect - 1) * kMinfsBlockSize"
  shows "\<exists>v s'. InitVmo E s = Some (Ok (), s') \<and> loaded v s' \<and> sz (ds_rest (vs_rest s')) = sz (ds_rest (vs_rest s))
    \<and> vm_size v = round_up (sz (ds_rest (vs_rest s))) kMinfsBlockSize
    \<and> (\<forall>p < vm_size v. vmo_byte v p = direct_byte (content (ds_rest (vs_rest s))) dat (vs_inode s) p)"
proof -
  let ?n = "round_up (sz (ds_rest (vs_rest s))) kMinfsBlockSize" and ?c = "content (ds_rest (vs_rest s))"
  let ?cnt = "?n div kMinfsBlockSize"
  obtain u1 where u1: "kn_create (de_kernel E) ?n (ds_rest (vs_rest s)) = (Ok (), u1)"
      "sz u1 = sz (ds_rest (vs_rest s))" "content u1 = ?c"
    using loads unfolding data_loads_def by blast
  obtain ident u2 where u2: "kn_attach (de_kernel E) u1 = (Ok ident, u2)" "sz u2 = sz u1" "content u2 = content u1"
    using loads unfolding data_loads_def by blast
  define v0 where "v0 = \<lparr>vm_size = ?n, vm_bytes = zero_bytes\<rparr>"
  define s1 where "s1 = s\<lparr>vs_rest := (vs_rest s)
    \<lparr>ds_vmo := Some v0, ds_vmo_size := ?n, ds_rest := u2, ds_vmoid := Some ident\<rparr>\<rparr>"
  have cnt: "0 + ?cnt < kMinfsDirect"
  proof -
    have "?cnt = (sz (ds_rest (vs_rest s)) + 8191) div 8192" by (simp add: round_up_def format_consts)
    then show ?thesis using size by (simp add: format_consts)
  qed
  obtain it where it: "Iterator_Init E False 0 (s1, new_iterator) = Some (Ok (), s1, it)" "direct_at 0 it"
    using Init_direct by blast
  have ok: "pointers_ok (ve_dat_block E (vs_rest s1)) (vs_inode s1)"
    using ptrs loads by (simp add: data_loads_def s1_def)
  obtain ops it' where ops: "init_vmo_loop E ?cnt [] (s1, it) = Some (Ok ops, s1, it')" "iter_clean it'"
      "list_all is_read ops"
      "\<And>p. apply_reads ?c ops zero_bytes p
        = (if p < ?cnt * kMinfsBlockSize then direct_byte ?c dat (vs_inode s) p else 0)"
    using init_vmo_loop_direct [OF ok it(2) cnt, of "[]" ?c] loads
    by (force simp: zero_bytes_def data_loads_def s1_def)
  obtain u3 where u3: "de_run_requests E ops zero_bytes u2 = ((Ok (), apply_reads (content u2) ops zero_bytes), u3)"
      "sz u3 = sz u2"
    using loads ops(3) unfolding data_loads_def by blast
  define v where "v = v0\<lparr>vm_bytes := apply_reads ?c ops zero_bytes\<rparr>"
  define s2 where "s2 = s1\<lparr>vs_rest := (vs_rest s1)\<lparr>ds_vmo := Some v, ds_rest := u3\<rparr>\<rparr>"
  have reads: "with_iterator (abind (Iterator_Init E False 0) (\<lambda>_. init_vmo_loop E ?cnt [])) s1 = Some (Ok ops, s1)"
    using it(1) ops(1,2) by (simp add: with_iterator_def abind_def)
  have run: "run_vmo_reads E ops s1 = Some (Ok (), s2)"
    using u3(1) u2(3) u1(3)
    by (simp add: run_vmo_reads_def get_vmo_def abind_def gets_def ret_def s1_def s2_def v_def v0_def Let_def
        del: gets_bind)
  have "InitVmo E s = Some (Ok (), s2)"
    using new u1(1) u2(1) run reads file_memoryD(2) [OF mem, of s]
    unfolding InitVmo_def
    by (simp add: abind_def gets_def on_kernel_def on_rest_def CreateAndMap_def set_data_def modify_def
        try_act_def BlockAttachVmo_def s1_def [symmetric] v0_def [symmetric] del: gets_bind modify_bind)
  moreover have "?cnt * kMinfsBlockSize = ?n" by simp
  ultimately show ?thesis using ops(4) u1(2) u2(2) u3(2)
    by (intro exI [of _ v] exI [of _ s2])
      (simp add: loaded_def s2_def s1_def v_def v0_def vmo_byte_def del: dvd_div_mult_self)
qed

section \<open>Reading a file that is not loaded\<close>

text \<open>C39: For a file with the dirty cache of at most 15 blocks, all but the last of its direct ones, that is
  not in memory yet, and with a kernel and a device whose calls succeed (\<open>file_memory\<close>, \<open>data_loads\<close>), a
  read in the device build returns: it delivers the bytes between the offset and the end of the file or
  of the request as the blocks on the device hold them, zeros where there is no block, and leaves the
  rest of the buffer alone. (A larger file makes the walk leave the direct blocks.)\<close>

theorem target_ReadInternal_correct:
  assumes "file_memory E sz" "data_loads E sz content dat" "ds_vmo (vs_rest s) = None"
    "pointers_ok dat (vs_inode s)" "sz (ds_rest (vs_rest s)) \<le> (kMinfsDirect - 1) * kMinfsBlockSize"
  shows "\<exists>s'. target_ReadInternal E buf len off s = Some (Ok (min len (sz (ds_rest (vs_rest s)) - off),
      (\<lambda>i. if i < min len (sz (ds_rest (vs_rest s)) - off)
        then direct_byte (content (ds_rest (vs_rest s))) dat (vs_inode s) (off + i) else buf i)), s')"
proof (cases "off < sz (ds_rest (vs_rest s))")
  case False
  then show ?thesis by (simp add: target_ReadInternal_def file_memoryD(2) [OF assms(1)] ret_def)
next
  case True
  let ?z = "sz (ds_rest (vs_rest s))" and ?c = "content (ds_rest (vs_rest s))"
  obtain v s1 where init: "InitVmo E s = Some (Ok (), s1)" "loaded v s1" "sz (ds_rest (vs_rest s1)) = ?z"
      "vm_size v = round_up ?z kMinfsBlockSize"
      "\<And>p. p < vm_size v \<Longrightarrow> vmo_byte v p = direct_byte ?c dat (vs_inode s) p"
    using InitVmo_runs [OF assms] by blast
  have size: "?z \<le> vm_size v" unfolding init(4) by (rule round_up_ge) (simp add: format_consts)
  have same: "target_ReadInternal E buf len off s = target_ReadInternal E buf len off s1"
    using True init(1,3) InitVmo_loaded [OF init(2), of E] file_memoryD(2) [OF assms(1)]
    by (simp add: target_ReadInternal_def Let_def abind_def [of "InitVmo E"])
  obtain u where r: "target_ReadInternal E buf len off s1 = Some (Ok (min len (?z - off),
      (\<lambda>i. if i < min len (?z - off) then vmo_byte v (off + i) else buf i)), with_data v u s1)"
    using ReadInternal_loaded [OF assms(1) init(2), of off buf len] True size unfolding init(3) by blast
  have "(\<lambda>i. if i < min len (?z - off) then vmo_byte v (off + i) else buf i)
      = (\<lambda>i. if i < min len (?z - off) then direct_byte ?c dat (vs_inode s) (off + i) else buf i)"
    using init(5) size by (auto simp: fun_eq_iff)
  then show ?thesis using same r by auto
qed

lemma memory_data_loads: "data_loads memory_data fst snd 8"
  by (auto simp: data_loads_def memory_data_def free_kernel_def)

text \<open>Of twelve bytes asked for ten are left: two of a hole and eight of block 12 of the device.\<close>

theorem target_ReadInternal_correct_witness:
  "\<exists>s'. target_ReadInternal memory_data (\<lambda>_. 255) 12 8190 (memory_vnode None 8200)
    = Some (Ok (10, \<lambda>i. if i < 10 then if i < 2 then 0 else i - 2 else 255), s')"
proof -
  let ?s = "memory_vnode None 8200"
  have rest: "ds_rest (vs_rest ?s) = (8200, \<lambda>i. i mod 256)" "ds_vmo (vs_rest ?s) = None"
    by (simp_all add: memory_vnode_def)
  have ptrs: "pointers_ok 8 (vs_inode ?s)"
    by (auto simp: pointers_ok_def memory_vnode_def nth_list_update format_consts)
  have byte: "direct_byte (\<lambda>i. i mod 256) 8 (vs_inode ?s) (8190 + i) = (if i < 2 then 0 else i - 2)"
    if "i < 10" for i
  proof (cases "i < 2")
    case True
    then have "(8190 + i) div 8192 = 0" by simp
    with True show ?thesis by (simp add: direct_byte_def memory_vnode_def format_consts)
  next
    case False
    define j where "j = i - 2"
    have j: "i = j + 2" "j < 8" using that False by (simp_all add: j_def)
    then have "(8190 + i) div 8192 = 1" "(8190 + i) mod 8192 = j" by simp_all
    moreover have "(98304 + j) mod 256 = j" using mod_mult_self3 [of 384 256 j] j(2) by simp
    ultimately show ?thesis using False j by (simp add: direct_byte_def memory_vnode_def format_consts)
  qed
  obtain s' where "target_ReadInternal memory_data (\<lambda>_. 255) 12 8190 ?s = Some (Ok (10,
      (\<lambda>i. if i < 10 then direct_byte (\<lambda>i. i mod 256) 8 (vs_inode ?s) (8190 + i) else 255)), s')"
    using target_ReadInternal_correct [OF memory_data_memory memory_data_loads rest(2) ptrs, of "\<lambda>_. 255" 12 8190]
    unfolding rest(1) fst_conv snd_conv by (auto simp: format_consts)
  moreover have "(\<lambda>i. if i < 10 then direct_byte (\<lambda>i. i mod 256) 8 (vs_inode ?s) (8190 + i) else 255)
      = (\<lambda>i. if i < 10 then if i < 2 then 0 else i - 2 else 255)"
    using byte by (auto simp: fun_eq_iff)
  ultimately show ?thesis by auto
qed

end
