(* ===== verification/Spec2Isabelle.thy ===== *)
theory Spec2Isabelle
  imports Limits Repair Mkfs Allocator_Laws TargetFile Reader_Laws Host_Laws HostDir_Laws Fsck_Sound Unlinked_Laws
    Directory_Laws Write_Laws Transaction_Laws
    Inspector_Laws Inspect_Objects TargetStores_Laws TargetSession TargetJournal TargetServe_Laws
    TargetLoad_Laws
begin

text \<open>
  A verification development for MinFS, the file system under \<open>src/src/storage/minfs\<close> (all file names
  below are relative to it). The program is compiled in two builds from the same sources: the host
  build, which works on an image through POSIX calls, and the device build, which works on a block
  device with a journal and keeps data in kernel memory objects. What only one build has is under
  \<open>#ifdef __Fuchsia__\<close> or in files of its own; definitions of the device build have the prefix
  \<open>target_\<close> where the host build has an operation of the same name.

  \<^bold>\<open>The parts and how they work together.\<close> A device holds a superblock, two bitmaps (inodes, blocks),
  the inode table, the journal and the data blocks. A file system object owns a superblock manager,
  two allocators, an inode manager, a block cache and a table of vnodes. Every change runs in a
  transaction: it reserves inodes and blocks in the allocators, takes them one by one, queues writes
  of metadata and data, and commits both reservations. A vnode finds its blocks through the pointers
  of its inode and a virtual indirect file. Files and directories are vnodes. Around this stand the
  formatter, the checker with the repair of the superblock, the interface of the host tools, and the
  disk inspector.

  \<^bold>\<open>Conventions.\<close> Structures are records with the field names of the source; unsigned integers are
  naturals, and wherever the code computes at 32 or 64 bits the wrap-around is written out with
  \<open>u32\<close>, \<open>u64\<close>, \<open>u32_sub\<close>, \<open>u64_sub\<close> (\<open>Prelude\<close>). A fallible function yields \<open>Ok\<close>, \<open>Err\<close> with a status
  code, or \<open>Panic\<close> for a failed \<open>ZX_ASSERT\<close> and for undefined behaviour. Stateful code is an action,
  \<open>'s \<Rightarrow> ('a res \<times> 's) option\<close> (\<open>Action\<close>), whose errors keep the state reached; \<open>abind\<close> passes an
  error on, \<open>try_act\<close> looks at it. A loop that is not structural is a \<open>partial_function\<close> and \<open>None\<close> is
  its not ending, so that a theorem with \<open>Some\<close> in its conclusion proves that it ends. Two recursions
  have a bound instead: the views through the indirect file (\<open>kMapperDepth = 3\<close>; the pointers to the
  last region are in the middle one, whose pointers are in the inode, so depth 2 suffices) and the
  checker's descent into directories (the argument of \<open>CheckInode\<close>, the nesting of directories).
  Debug assertions are not modelled, but for those of \<open>CommitTransaction\<close>; locks are not, as every
  operation runs under them.

  \<^bold>\<open>Theories of the format and of the pure parts.\<close>
  \<^item> \<open>Prelude\<close>: statuses, results, wrap-around and list lemmas.
  \<^item> \<open>Format\<close> (\<open>format.h\<close>): constants, superblock, inode, directory entry, inline accessors; \<open>Codec\<close>:
    their byte layout, which the source has from copying the structures.
  \<^item> \<open>Limits\<close> (\<open>transaction_limits\<close>): the number of blocks a range of a file needs, shown equal to the
    number of nodes of the block tree it touches, and the limits that cover every write.
  \<^item> \<open>Work\<close> (\<open>pending_work.h\<close>): queued operations; locale \<open>metadata_work\<close>, what a superblock write may
    rely on from a queue, interpreted on the list of operations.
  \<^item> \<open>Superblock\<close> (\<open>superblock.h\<close>, \<open>superblock_host.cc\<close>, first part of \<open>minfs.cc\<close>): checks, slices, checksum;
    \<open>Repair\<close> (\<open>fsck.cc\<close>): loading, repair from the backup, counting of bits; \<open>Mkfs\<close>: the layout loop and
    the formatting, with the theorem that what it writes is accepted.
  \<^item> \<open>Bitmap\<close>, \<open>Ranges\<close>: the interfaces of the bitmap libraries as records of operations with the laws
    \<open>raw_bitmap_laws\<close>, \<open>rle_bitmap_laws\<close>, and instances over lists and sets that satisfy them.

  \<^bold>\<open>Theories of the allocators and transactions.\<close>
  \<^item> \<open>Storage\<close>, \<open>Allocator\<close> (\<open>allocator/\<close>): metadata, persistent storage, pending changes, search,
    reservations. Locale \<open>superblock_access\<close>: the counters of the superblock a pool works on, interpreted
    for blocks and for inodes. \<open>Allocator_Laws\<close>: the invariant \<open>al_inv\<close> and its preservation; search
    returns the least free element; nothing is handed out twice; commits keep the counts.
  \<^item> \<open>World\<close> (\<open>writeback\<close>, \<open>minfs.cc\<close>, \<open>minfs_private.h\<close>, \<open>minfs_host.cc\<close>, \<open>allocator/inode_manager_host.cc\<close>): the file
    system object of the host build and its transactions; \<open>Transaction_Laws\<close>: a transaction reserves
    everything or nothing; \<open>Inode_Table\<close>: the inode table on the device as a table. \<open>Device\<close>
    (\<open>bcache_host.cc\<close>): the block cache over POSIX calls.

  \<^bold>\<open>Theories of vnodes.\<close>
  \<^item> \<open>Lazy\<close> (\<open>block_utils.h\<close>, \<open>lazy_reader\<close>, \<open>lazy_buffer\<close>, \<open>resizeable_array_buffer\<close>): lazily read buffers;
    locale \<open>block_reader\<close>, a reader that enqueues the blocks a mapper names, interpreted in \<open>Reader_Laws\<close>
    on the indirect file. \<open>Mapper\<close>, \<open>Iterator\<close> (\<open>buffer_view\<close>, \<open>vnode_mapper\<close>): views of block pointers with
    their flushers, both mappers, \<open>VnodeIterator\<close>.
  \<^item> \<open>Vnode\<close>, \<open>Content\<close>, \<open>Unlinked\<close> (\<open>vnode.cc\<close>, \<open>minfs.cc\<close>): blocks, contents, links, the list of unlinked
    inodes. \<open>Read_Laws\<close>, \<open>Write_Laws\<close>: reads and writes of existing blocks are exact; \<open>Unlinked_Laws\<close>: the
    list refines a HOL list. \<open>Keeps\<close>: invariants of actions as introduction rules.
  \<^item> \<open>File\<close>, \<open>Directory\<close>, \<open>Dirops\<close> (\<open>file.cc\<close>, \<open>file_host.cc\<close>, \<open>directory.cc\<close>). \<open>Directory_Laws\<close>: a walk with a
    callback is a fold over the records of the directory; locale \<open>scanning\<close> states it for any callback
    that decides from the record, interpreted on the search for a name and the search for space.

  \<^bold>\<open>Theories of the tools.\<close>
  \<^item> \<open>Mount\<close>, \<open>Host\<close>, \<open>HostDir\<close> (\<open>minfs.cc\<close>, \<open>host.cc\<close>) with \<open>Host_Laws\<close>: descriptors and seeking,
    and \<open>HostDir_Laws\<close>: directory streams.
  \<^item> \<open>Fsck\<close> (\<open>fsck.cc\<close>) with \<open>Fsck_Laws\<close>: the invariant of the checker's record and the last checks;
    \<open>Fsck_Owners\<close>: the files and their blocks as the pointers on the device say, and that the walk over a
    file visits every one of them; \<open>Fsck_Sound\<close>: what a pass means; \<open>Fsck_Sample\<close> runs the checker.
  \<^item> \<open>Inspector\<close>, \<open>Commands\<close>, \<open>Inspect_Objects\<close> (\<open>inspector/\<close>) with \<open>Inspector_Laws\<close>: what the inspector
    shows is on the device, and which commands write.

  \<^bold>\<open>Theories of the device build.\<close>
  \<^item> \<open>Pending\<close>, \<open>TargetFile\<close> (\<open>vnode_allocation\<close>, \<open>file_target.cc\<close>, \<open>file.cc\<close>): delayed allocation and the dirty
    cache. \<open>TargetStores\<close> (\<open>superblock.cc\<close>, \<open>allocator/inode_manager.cc\<close>, \<open>bcache.cc\<close>, \<open>resizeable_vmo_buffer\<close>,
    \<open>CreateBcache\<close>): stores in mapped memory; \<open>TargetStores_Laws\<close>: the table in memory is written through.
  \<^item> \<open>TargetContent\<close> (\<open>vnode.cc\<close>, \<open>directory.cc\<close>): contents in kernel memory. \<open>TargetContent_Laws\<close>: writes and
    reads of a loaded file; \<open>TargetLoad_Laws\<close>: loading reads the blocks of the file.
  \<^item> \<open>InspectTree\<close> (\<open>minfs_inspect_tree\<close>), \<open>TargetFs\<close> (\<open>minfs.cc\<close>, \<open>minfs_target.cc\<close>, \<open>runner.cc\<close>, \<open>mount.h\<close>):
    transactions over the journal, mounting and the end of writing; \<open>TargetFs_Laws\<close>: the clean flag.
  \<^item> \<open>TargetTx\<close> (\<open>writeback\<close>, \<open>CommitTransaction\<close>): the transactions behind the environment of \<open>TargetFs\<close>, with
    the entries the journal was handed; \<open>TargetTx_Laws\<close>: an operation on a reservation touches its own
    pending changes only; \<open>TargetJournal\<close>: transactions and the callbacks of the journal as steps, and
    blocks that were given back stay reserved until the journal has committed, and no change is lost.
    \<open>TargetSession\<close>: the use of a mounted file system as a step relation over these transactions; it proves
    the laws of \<open>TargetFs_Laws\<close> for them, and the clean flag as a protocol.
  \<^item> \<open>TargetServe\<close> (\<open>runner.cc\<close>, \<open>mount.cc\<close>, \<open>service/\<close>, \<open>inspector/inspector.cc\<close>, \<open>fsck.cc\<close>): what is served and
    how it ends, the request for the allocated regions, the tools that mount; \<open>TargetServe_Laws\<close>: the
    reply to this request is exact.

  \<open>Instance\<close>, \<open>Sample\<close> and the list bitmaps are concrete file systems in memory; the witnesses evaluate
  the properties on them.

  \<^bold>\<open>Hypotheses.\<close> Code that is not under \<open>src/\<close> is a parameter: the bitmap libraries, the CRC, POSIX
  calls (\<open>posix_laws\<close>), the kernel's memory objects, the block device and its transaction handler
  (\<open>inspect_laws\<close>, \<open>file_memory\<close>, \<open>data_loads\<close>), the volume manager, the journal library (\<open>journal_answers\<close>),
  the filler of directory entries (\<open>filler_laws\<close>), the printer of the disk inspector. The laws named state
  their documented behaviour; instances show that they can hold. \<open>posix_laws\<close> and \<open>file_memory\<close> describe a
  file and a kernel whose calls succeed; the failure paths are in the definitions, and the properties
  under these laws do not speak of them.

  \<^bold>\<open>Not modelled.\<close> Connections, message dispatch and the event loop are the libraries' (the places where
  they are called are modelled in \<open>TargetServe\<close>); notifications of watchers, the opening of a channel to a
  device (\<open>FdToBlockDevice\<close>), logging (\<open>DumpInfo\<close>, \<open>DumpInode\<close>, \<open>DumpStats\<close>) and
  tracing have no effect on the state of the file system. Reference counts of vnodes appear as
  explicit release operations. The block size is \<open>kMinfsBlockSize\<close> throughout, which \<open>BlockSize()\<close>
  asserts. The journal itself is a library.
\<close>

end
